(* ===== verification/RA_Prelude.thy ===== *)
theory RA_Prelude
  imports Main "HOL-Library.Word"
begin

text \<open>
  Prelude of the development: the machine integers of the C code, the faults a C program can
  run into (undefined behaviour made explicit), computations that may fault, the result
  enumeration of \<^verbatim>\<open>headers/ra_results.h\<close>, and the collections the component theories share.

  Conventions. A C computation with no undefined behaviour is a pure function. A computation
  that can dereference NULL, read outside a buffer, divide by zero, use freed memory or loop
  forever has type \<open>'a run\<close>: \<open>Inl\<close> of a fault or \<open>Inr\<close> of its value. The outcome of
  \<^verbatim>\<open>malloc\<close> is an argument of the operation that calls it.
\<close>

unbundle bit_operations_syntax

named_theorems run_simps \<open>evaluation of computations that may fault\<close>
named_theorems inv_intros \<open>an operation preserves the invariant of its component\<close>
named_theorems abs_simps \<open>what an operation does to the abstraction of its component\<close>

section \<open>Machine integers\<close>

type_synonym u8 = "8 word"
type_synonym u16 = "16 word"
type_synonym u32 = "32 word"
type_synonym u64 = "64 word"

section \<open>Faults and computations that may fault\<close>

datatype fault =
  Null_Deref
| Use_After_Free
| Out_Of_Bounds
| Div_By_Zero
| No_Return
| Bad_Free

type_synonym 'a run = "fault + 'a"

definition bind_run :: "'a run \<Rightarrow> ('a \<Rightarrow> 'b run) \<Rightarrow> 'b run" where
  "bind_run m k = (case m of Inl e \<Rightarrow> Inl e | Inr x \<Rightarrow> k x)"

lemma bind_run_simps [simp, run_simps]:
  "bind_run (Inl e) k = Inl e"
  "bind_run (Inr x) k = k x"
  by (simp_all add: bind_run_def)

lemma bind_run_Inr_iff [run_simps]:
  "bind_run m k = Inr y \<longleftrightarrow> (\<exists>x. m = Inr x \<and> k x = Inr y)"
  by (cases m) auto

lemma bind_run_Inl_iff [run_simps]:
  "bind_run m k = Inl e \<longleftrightarrow> m = Inl e \<or> (\<exists>x. m = Inr x \<and> k x = Inl e)"
  by (cases m) auto

lemma bind_run_assoc: "bind_run (bind_run m k) l = bind_run m (\<lambda>x. bind_run (k x) l)"
  by (cases m) auto

lemma bind_run_cong [fundef_cong]:
  "m = m' \<Longrightarrow> (\<And>x. m' = Inr x \<Longrightarrow> k x = k' x) \<Longrightarrow> bind_run m k = bind_run m' k'"
  by (cases m') auto

text \<open>A guard: the computation faults unless the condition holds.\<close>

definition guard_run :: "bool \<Rightarrow> fault \<Rightarrow> unit run" where
  "guard_run b e = (if b then Inr () else Inl e)"

lemma guard_run_simps [simp, run_simps]:
  "guard_run True e = Inr ()"
  "guard_run False e = Inl e"
  by (simp_all add: guard_run_def)

lemma guard_run_Inr_iff [run_simps]: "guard_run b e = Inr u \<longleftrightarrow> b"
  by (simp add: guard_run_def)

text \<open>Dereferencing a pointer that may be NULL.\<close>

definition deref :: "'a option \<Rightarrow> 'a run" where
  "deref p = (case p of None \<Rightarrow> Inl Null_Deref | Some x \<Rightarrow> Inr x)"

lemma deref_simps [simp, run_simps]:
  "deref None = Inl Null_Deref"
  "deref (Some x) = Inr x"
  by (simp_all add: deref_def)

lemma deref_Inr_iff [run_simps]: "deref p = Inr x \<longleftrightarrow> p = Some x"
  by (cases p) auto

text \<open>The C remainder of unsigned integers: the processor traps on a zero divisor.\<close>

definition umod :: "'a::len word \<Rightarrow> 'a word \<Rightarrow> 'a word run" where
  "umod a b = (if b = 0 then Inl Div_By_Zero else Inr (a mod b))"

lemma umod_simps [simp, run_simps]:
  "b \<noteq> 0 \<Longrightarrow> umod a b = Inr (a mod b)"
  "umod a 0 = Inl Div_By_Zero"
  by (simp_all add: umod_def)

lemma unat_umod_less:
  assumes "umod a b = Inr c"
  shows "unat c < unat b"
proof -
  from assms have "b \<noteq> 0" and "c = a mod b"
    by (auto simp: umod_def split: if_splits)
  then show ?thesis
    by (simp add: unat_mod unat_gt_0)
qed

text \<open>Narrowing conversions of differences.\<close>

lemma take_bit_diff_take_bit:
  fixes x y :: int
  assumes "m \<le> n"
  shows "take_bit m (take_bit n x - take_bit n y) = take_bit m (x - y)"
proof -
  have "take_bit m (take_bit n x - take_bit n y)
          = take_bit m (take_bit m (take_bit n x) - take_bit m (take_bit n y))"
    by (simp only: take_bit_diff)
  also have "\<dots> = take_bit m (x - y)"
    using assms by (simp add: take_bit_diff min_absorb1)
  finally show ?thesis .
qed

lemma ucast_diff_u64_u32: "ucast (x - y :: u64) = (ucast x - ucast y :: u32)"
  by transfer (simp add: take_bit_diff_take_bit)

lemma sint_ucast_diff_small:
  assumes "\<bar>uint x - uint y\<bar> < 2 ^ 31"
  shows "sint (ucast (x - y :: u64) :: u32) = uint x - uint y"
  using assms
proof transfer
  fix x y :: int
  let ?d = "take_bit 64 x - take_bit 64 y"
  have "signed_take_bit 31 (x - y) = signed_take_bit 31 ?d"
    by (simp add: signed_take_bit_eq_iff_take_bit_eq take_bit_diff_take_bit)
  also assume "\<bar>take_bit LENGTH(64) x - take_bit LENGTH(64) y\<bar> < 2 ^ 31"
  then have "signed_take_bit 31 ?d = ?d"
    by (intro signed_take_bit_int_eq_self) auto
  finally show "signed_take_bit (LENGTH(32) - Suc 0) (take_bit LENGTH(64) (x - y))
      = take_bit LENGTH(64) x - take_bit LENGTH(64) y"
    by (simp add: signed_take_bit_take_bit)
qed

section \<open>Allocation\<close>

text \<open>
  The outcomes of the successive \<^verbatim>\<open>malloc\<close> calls of an operation that makes several: a list of
  answers, read from the front; once it is used up every call succeeds.
\<close>

type_synonym mallocs = "bool list"

fun malloc :: "mallocs \<Rightarrow> bool \<times> mallocs" where
  "malloc [] = (True, [])"
| "malloc (b # ms) = (b, ms)"

section \<open>The result enumeration\<close>

text \<open>\<^verbatim>\<open>enum ra_result_e\<close> of \<^verbatim>\<open>headers/ra_results.h\<close>, in the order of its codes.\<close>

datatype ra_result =
  RA_SUCCESS
| RA_ERROR_MEMORY
| RA_ERROR_INDEX_VIOLATION
| RA_ERROR_UNDEFINED_WHOLE_CODE_AREA
| RA_ERROR_UNDEFINED_SERIAL_NUMBER
| RA_ERROR_UNDEFINED_ATTESTATOR_NUMBER
| RA_ERROR_UNDEFINED_NONCE
| RA_ERROR_UNDEFINED_MEMORY_LABEL
| RA_ERROR_UNDEFINED_KEY
| RA_ERROR_LABEL_ALREADY_DEFINED
| RA_ERROR_BLOCK_OFFSET_ALREADY_DEFINED
| RA_ERROR_UNDEFINED_PARAMETERS
| RA_ERROR_GENERIC
| RA_ERROR_MALFORMED_MEMORY_AREA
| RA_ERROR_MEMORY_LABEL_ALREADY_DEFINED
| RA_ERROR_EMPTY_AREA
| RA_ERROR_NULL_POINTER
| RA_ERROR_RANDOM_GENERATOR
| RA_ERROR_EMPTY_PREPARED_DATA
| RA_ERROR_DB_QUERY
| RA_ERROR_DB_MYSQL
| RA_ERROR_DB_NO_DATA
| RA_ERROR_VERIFIER_NOT_FOUND
| RA_ERROR_VERIFIER_ALREADY_PRESENT
| RA_ERROR_MULTIPLE_ACTIVE_SESSION
| RA_ERROR_NO_ACTIVE_SESSION
| RA_ERROR_SESSION_TABLE_ANOMALY

fun ra_result_code :: "ra_result \<Rightarrow> int" where
  "ra_result_code RA_SUCCESS = 0"
| "ra_result_code RA_ERROR_MEMORY = 1"
| "ra_result_code RA_ERROR_INDEX_VIOLATION = 2"
| "ra_result_code RA_ERROR_UNDEFINED_WHOLE_CODE_AREA = 3"
| "ra_result_code RA_ERROR_UNDEFINED_SERIAL_NUMBER = 4"
| "ra_result_code RA_ERROR_UNDEFINED_ATTESTATOR_NUMBER = 5"
| "ra_result_code RA_ERROR_UNDEFINED_NONCE = 6"
| "ra_result_code RA_ERROR_UNDEFINED_MEMORY_LABEL = 7"
| "ra_result_code RA_ERROR_UNDEFINED_KEY = 8"
| "ra_result_code RA_ERROR_LABEL_ALREADY_DEFINED = 9"
| "ra_result_code RA_ERROR_BLOCK_OFFSET_ALREADY_DEFINED = 10"
| "ra_result_code RA_ERROR_UNDEFINED_PARAMETERS = 11"
| "ra_result_code RA_ERROR_GENERIC = 12"
| "ra_result_code RA_ERROR_MALFORMED_MEMORY_AREA = 13"
| "ra_result_code RA_ERROR_MEMORY_LABEL_ALREADY_DEFINED = 14"
| "ra_result_code RA_ERROR_EMPTY_AREA = 15"
| "ra_result_code RA_ERROR_NULL_POINTER = 16"
| "ra_result_code RA_ERROR_RANDOM_GENERATOR = 17"
| "ra_result_code RA_ERROR_EMPTY_PREPARED_DATA = 18"
| "ra_result_code RA_ERROR_DB_QUERY = 19"
| "ra_result_code RA_ERROR_DB_MYSQL = 20"
| "ra_result_code RA_ERROR_DB_NO_DATA = 21"
| "ra_result_code RA_ERROR_VERIFIER_NOT_FOUND = 22"
| "ra_result_code RA_ERROR_VERIFIER_ALREADY_PRESENT = 23"
| "ra_result_code RA_ERROR_MULTIPLE_ACTIVE_SESSION = 24"
| "ra_result_code RA_ERROR_NO_ACTIVE_SESSION = 25"
| "ra_result_code RA_ERROR_SESSION_TABLE_ANOMALY = 26"

lemma ra_result_code_range: "0 \<le> ra_result_code r \<and> ra_result_code r \<le> 26"
  by (cases r) simp_all

lemma ra_result_code_inject: "ra_result_code r = ra_result_code s \<longleftrightarrow> r = s"
  by (cases r; cases s; simp)

text \<open>C compares enumeration values as integers: the result codes are linearly ordered.\<close>

instantiation ra_result :: linorder
begin

definition less_eq_ra_result :: "ra_result \<Rightarrow> ra_result \<Rightarrow> bool" where
  "less_eq_ra_result r s \<longleftrightarrow> ra_result_code r \<le> ra_result_code s"

definition less_ra_result :: "ra_result \<Rightarrow> ra_result \<Rightarrow> bool" where
  "less_ra_result r s \<longleftrightarrow> ra_result_code r < ra_result_code s"

instance
  by standard (auto simp: less_eq_ra_result_def less_ra_result_def ra_result_code_inject)

end

section \<open>Lists\<close>

lemma nth_concat_split:
  "i < length (concat (xs # xss)) \<Longrightarrow>
   concat (xs # xss) ! i =
     (if i < length xs then xs ! i else concat xss ! (i - length xs))"
  by (simp add: nth_append)

lemma find_None_notin: "find P xs = None \<longleftrightarrow> (\<forall>x\<in>set xs. \<not> P x)"
  by (induction xs) auto

lemma remove1_find:
  "find P xs = Some x \<Longrightarrow> x \<in> set xs \<and> P x"
  by (induction xs) (auto split: if_splits)

text \<open>A list comprehension with one generator and a guard.\<close>

lemma concat_map_guard:
  "concat (map (\<lambda>x. if P x then [f x] else []) xs) = map f (filter P xs)"
  by (induction xs) simp_all

lemma length_filter_le_one:
  "\<forall>x\<in>set xs. P x \<longrightarrow> Q x \<Longrightarrow> length (filter Q xs) \<le> 1 \<Longrightarrow> length (filter P xs) \<le> 1"
proof -
  assume imp: "\<forall>x\<in>set xs. P x \<longrightarrow> Q x" and one: "length (filter Q xs) \<le> 1"
  from imp have "filter P xs = filter P (filter Q xs)" by (auto intro: filter_cong)
  then have "length (filter P xs) \<le> length (filter Q xs)" by (metis length_filter_le)
  with one show ?thesis by simp
qed

end
