(* ===== verification/RA_Bytes.thy ===== *)
theory RA_Bytes
  imports RA_Prelude
begin

text \<open>
  Byte buffers: little-endian storage of integers (what \<^verbatim>\<open>memcpy\<close> of an integer and a
  dereference of a cast pointer do on the little-endian targets of the code), bounded reads of a
  buffer, \<^verbatim>\<open>memcmp\<close>, and the upper-case hexadecimal strings used for application ids.
\<close>

section \<open>Little-endian storage\<close>

fun le_bytes :: "nat \<Rightarrow> 'a::len word \<Rightarrow> u8 list" where
  "le_bytes 0 w = []"
| "le_bytes (Suc n) w = ucast w # le_bytes n (drop_bit 8 w)"

fun le_word :: "u8 list \<Rightarrow> 'a::len word" where
  "le_word [] = 0"
| "le_word (b # bs) = ucast b OR push_bit 8 (le_word bs)"

lemma length_le_bytes [simp]: "length (le_bytes n w) = n"
  by (induction n arbitrary: w) auto

lemma le_word_le_bytes_take: "le_word (le_bytes n w) = take_bit (8 * n) w"
proof (induction n arbitrary: w)
  case 0
  then show ?case by simp
next
  case (Suc n)
  have "ucast (ucast w :: u8) OR push_bit 8 (take_bit (8 * n) (drop_bit 8 w))
          = take_bit (8 * Suc n) w"
    by (rule bit_word_eqI) (auto simp: bit_simps)
  with Suc show ?case by simp
qed

lemma le_word_le_bytes [simp]:
  "LENGTH('a) \<le> 8 * n \<Longrightarrow> le_word (le_bytes n (w :: 'a::len word)) = w"
  by (simp add: le_word_le_bytes_take take_bit_word_eq_self)

lemma le_bytes_le_word:
  "8 * length bs \<le> LENGTH('a) \<Longrightarrow> le_bytes (length bs) (le_word bs :: 'a::len word) = bs"
proof (induction bs)
  case Nil
  then show ?case by simp
next
  case (Cons b bs)
  let ?w = "le_word bs :: 'a word"
  have low: "ucast (ucast b OR push_bit 8 ?w) = b"
    using Cons.prems by (intro bit_word_eqI) (auto simp: bit_simps)
  have bound: "take_bit (8 * length bs) ?w = ?w"
    using Cons.IH Cons.prems by (simp flip: le_word_le_bytes_take)
  have hi: "\<not> bit ?w n" if "LENGTH('a) - 8 \<le> n" for n
  proof -
    from that Cons.prems have "8 * length bs \<le> n" by simp
    then show ?thesis using bound by (metis bit_take_bit_iff leD)
  qed
  have "drop_bit 8 (ucast b OR push_bit 8 ?w) = ?w"
  proof (rule bit_word_eqI)
    fix n assume "n < LENGTH('a)"
    moreover have "\<not> bit b (8 + n)"
      using bit_imp_le_length [of b "8 + n"] by auto
    moreover have "8 + n < LENGTH('a)" if "bit ?w n"
      using hi [of n] that by (cases "LENGTH('a) - 8 \<le> n") auto
    ultimately show "bit (drop_bit 8 (ucast b OR push_bit 8 ?w)) n = bit ?w n"
      by (auto simp: bit_simps)
  qed
  with low Cons show ?case by simp
qed

section \<open>Bounded reads and writes\<close>

text \<open>Reading \<open>n\<close> bytes at offset \<open>off\<close> of a buffer; past its end the access is out of bounds.\<close>

definition read_at :: "u8 list \<Rightarrow> nat \<Rightarrow> nat \<Rightarrow> u8 list run" where
  "read_at buf off n =
     (if off + n \<le> length buf then Inr (take n (drop off buf)) else Inl Out_Of_Bounds)"

definition read_word :: "u8 list \<Rightarrow> nat \<Rightarrow> nat \<Rightarrow> 'a::len word run" where
  "read_word buf off n = bind_run (read_at buf off n) (\<lambda>bs. Inr (le_word bs))"

lemma read_at_Inr_iff [run_simps]:
  "read_at buf off n = Inr bs \<longleftrightarrow> off + n \<le> length buf \<and> bs = take n (drop off buf)"
  by (auto simp: read_at_def)

lemma read_at_append [simp]:
  "length xs = off \<Longrightarrow> length ys = n \<Longrightarrow> read_at (xs @ ys @ zs) off n = Inr ys"
  by (simp add: read_at_def)

lemma read_at_0 [simp]: "length ys = n \<Longrightarrow> read_at (ys @ zs) 0 n = Inr ys"
  by (simp add: read_at_def)

lemma read_at_end [simp]:
  "length xs = off \<Longrightarrow> length ys = n \<Longrightarrow> read_at (xs @ ys) off n = Inr ys"
  by (simp add: read_at_def)

lemma read_word_append [simp]:
  "length xs = off \<Longrightarrow> LENGTH('a) \<le> 8 * n \<Longrightarrow>
   read_word (xs @ le_bytes n (w :: 'a::len word) @ zs) off n = Inr w"
  by (simp add: read_word_def)

lemma read_word_0 [simp]:
  "LENGTH('a) \<le> 8 * n \<Longrightarrow> read_word (le_bytes n (w :: 'a::len word) @ zs) 0 n = Inr w"
  by (simp add: read_word_def)

lemma read_word_in_bounds:
  "off + n \<le> length buf \<Longrightarrow> read_word buf off n = Inr (le_word (take n (drop off buf)))"
  by (simp add: read_word_def read_at_def)

section \<open>memcmp\<close>

text \<open>
  \<^verbatim>\<open>memcmp\<close> on the first \<open>n\<close> bytes: 0 when they are equal, otherwise the difference of the
  first two bytes that differ (its callers use only the sign). Both buffers must hold \<open>n\<close> bytes.
\<close>

fun memcmp_bytes :: "u8 list \<Rightarrow> u8 list \<Rightarrow> int" where
  "memcmp_bytes (a # as) (b # bs) = (if a = b then memcmp_bytes as bs else uint a - uint b)"
| "memcmp_bytes _ _ = 0"

definition memcmp :: "u8 list \<Rightarrow> u8 list \<Rightarrow> nat \<Rightarrow> int run" where
  "memcmp a b n =
     (if n \<le> length a \<and> n \<le> length b then Inr (memcmp_bytes (take n a) (take n b))
      else Inl Out_Of_Bounds)"

lemma memcmp_bytes_eq_0:
  "length a = length b \<Longrightarrow> memcmp_bytes a b = 0 \<longleftrightarrow> a = b"
  by (induction a b rule: memcmp_bytes.induct) (auto simp: word_uint_eq_iff)

lemma memcmp_bytes_refl [simp]: "memcmp_bytes a a = 0"
  by (induction a) auto

lemma memcmp_bytes_antisym: "memcmp_bytes a b = - memcmp_bytes b a"
  by (induction a b rule: memcmp_bytes.induct) auto

lemma memcmp_eq_0:
  assumes "n \<le> length a" and "n \<le> length b"
  shows "memcmp a b n = Inr 0 \<longleftrightarrow> take n a = take n b"
  using assms memcmp_bytes_eq_0 [of "take n a" "take n b"] by (simp add: memcmp_def min_def)

lemma memcmp_0 [simp]: "memcmp a b 0 = Inr 0"
  by (simp add: memcmp_def)

section \<open>Hexadecimal strings\<close>

text \<open>\<^verbatim>\<open>snprintf(s, 3, "%02X", b)\<close>: two upper-case digits per byte.\<close>

definition hex_digits :: string where
  "hex_digits = ''0123456789ABCDEF''"

definition hex_byte :: "u8 \<Rightarrow> string" where
  "hex_byte b = [hex_digits ! (unat b div 16), hex_digits ! (unat b mod 16)]"

definition hex_string :: "u8 list \<Rightarrow> string" where
  "hex_string bs = concat (map hex_byte bs)"

lemma length_hex_byte [simp]: "length (hex_byte b) = 2"
  by (simp add: hex_byte_def)

lemma length_hex_string [simp]: "length (hex_string bs) = 2 * length bs"
  by (induction bs) (auto simp: hex_string_def)

lemma hex_digits_inj:
  assumes "i < 16" and "j < 16" and "hex_digits ! i = hex_digits ! j"
  shows "i = j"
proof -
  have "distinct hex_digits" and "length hex_digits = 16"
    by (simp_all add: hex_digits_def)
  with assms show ?thesis by (simp add: nth_eq_iff_index_eq)
qed

lemma hex_byte_inj: "hex_byte a = hex_byte b \<longleftrightarrow> a = b"
proof
  assume eq: "hex_byte a = hex_byte b"
  have "unat a < 256" and "unat b < 256"
    using unsigned_less [where 'a = nat, of a] unsigned_less [where 'a = nat, of b] by simp_all
  then have "unat a div 16 = unat b div 16" and "unat a mod 16 = unat b mod 16"
    using eq by (auto simp: hex_byte_def intro: hex_digits_inj)
  then have "unat a = unat b"
    by (metis div_mult_mod_eq)
  then show "a = b" by (simp add: word_unat_eq_iff)
qed simp

lemma hex_string_inj: "hex_string as = hex_string bs \<longleftrightarrow> as = bs"
proof (induction as arbitrary: bs)
  case Nil
  then show ?case by (cases bs) (auto simp: hex_string_def hex_byte_def)
next
  case (Cons a as)
  show ?case
  proof (cases bs)
    case Nil
    then show ?thesis by (simp add: hex_string_def hex_byte_def)
  next
    case (Cons b bs')
    with Cons.IH show ?thesis
      by (simp add: hex_string_def append_eq_append_conv hex_byte_inj)
  qed
qed

end
