(* ===== verification/RA_Client.thy ===== *)
theory RA_Client
  imports RA_Bytes "HOL-Library.List_Lexorder"
begin

text \<open>
  The client object of \<^verbatim>\<open>ra-additionals/ra_client.c\<close>: one attestator of one application
  session. \<^verbatim>\<open>RA_CLI_compare\<close> is the comparator the client list and the scheduler queue use.
  The lemmas characterise exactly which clients it identifies and when its sign is the order
  that \<^verbatim>\<open>headers/ra_client.h\<close> documents.
\<close>

section \<open>State\<close>

definition AID_SIZE :: nat where
  "AID_SIZE = 16"

record ra_client =
  cl_AID :: "u8 list"
  cl_attestator_number :: u64
  cl_attestator_id :: u64
  cl_sleep_avg_seconds :: u32
  cl_sleep_var_seconds :: u32
  cl_session_id :: u64

text \<open>The array \<^verbatim>\<open>uint8_t AID[AID_SIZE]\<close> has a fixed length.\<close>

definition client_wf :: "ra_client \<Rightarrow> bool" where
  "client_wf c \<longleftrightarrow> length (cl_AID c) = AID_SIZE"

section \<open>Operations\<close>

text \<open>
  \<open>alloc\<close> is the outcome of \<^verbatim>\<open>malloc\<close>; the parameter \<^verbatim>\<open>connection\<close> is ignored by the code.
  The argument \<open>AID\<close> is the buffer behind the pointer, of which 16 bytes are copied.
\<close>

definition RA_CLI_create ::
  "bool \<Rightarrow> u8 list \<Rightarrow> u64 \<Rightarrow> u64 \<Rightarrow> u32 \<Rightarrow> u32 \<Rightarrow> u64 \<Rightarrow> int \<Rightarrow> ra_client option run" where
  "RA_CLI_create alloc AID attestator_number attestator_id sleep_avg_seconds sleep_var_seconds
     session_id connection =
     (if \<not> alloc then Inr None
      else bind_run (read_at AID 0 AID_SIZE) (\<lambda>aid.
        Inr (Some \<lparr> cl_AID = aid,
                    cl_attestator_number = attestator_number,
                    cl_attestator_id = attestator_id,
                    cl_sleep_avg_seconds = sleep_avg_seconds,
                    cl_sleep_var_seconds = sleep_var_seconds,
                    cl_session_id = session_id \<rparr>)))"

definition aid_memcmp :: "ra_client \<Rightarrow> ra_client \<Rightarrow> int" where
  "aid_memcmp first second = memcmp_bytes (cl_AID first) (cl_AID second)"

definition RA_CLI_compare :: "ra_client \<Rightarrow> ra_client \<Rightarrow> int" where
  "RA_CLI_compare first second =
     (if cl_attestator_number first = cl_attestator_number second \<and> aid_memcmp first second = 0
      then 0
      else let res = aid_memcmp first second
           in if res \<noteq> 0 then res
              else sint (ucast (cl_attestator_number first - cl_attestator_number second) :: u32))"

text \<open>
  \<^verbatim>\<open>snprintf\<close> of each byte with \<^verbatim>\<open>"%02X"\<close> always writes two characters, so the error
  branch of the loop is never taken.
\<close>

definition RA_CLI_get_AID_as_string :: "ra_client \<Rightarrow> ra_result \<times> string" where
  "RA_CLI_get_AID_as_string c = (RA_SUCCESS, hex_string (cl_AID c))"

definition RA_CLI_get_AID_reference :: "ra_client \<Rightarrow> u8 list" where
  "RA_CLI_get_AID_reference c = cl_AID c"

definition RA_CLI_get_attestator_number :: "ra_client \<Rightarrow> u64" where
  "RA_CLI_get_attestator_number c = cl_attestator_number c"

definition RA_CLI_get_attestator_id :: "ra_client \<Rightarrow> u64" where
  "RA_CLI_get_attestator_id c = cl_attestator_id c"

definition RA_CLI_get_sleep_avg_seconds :: "ra_client \<Rightarrow> u32" where
  "RA_CLI_get_sleep_avg_seconds c = cl_sleep_avg_seconds c"

definition RA_CLI_get_sleep_var_seconds :: "ra_client \<Rightarrow> u32" where
  "RA_CLI_get_sleep_var_seconds c = cl_sleep_var_seconds c"

definition RA_CLI_get_session_id :: "ra_client \<Rightarrow> u64" where
  "RA_CLI_get_session_id c = cl_session_id c"

definition RA_CLI_set_AID :: "ra_client \<Rightarrow> u8 list \<Rightarrow> ra_client run" where
  "RA_CLI_set_AID c AID = bind_run (read_at AID 0 AID_SIZE) (\<lambda>aid. Inr (c\<lparr>cl_AID := aid\<rparr>))"

definition RA_CLI_set_attestator_number :: "ra_client \<Rightarrow> u64 \<Rightarrow> ra_client" where
  "RA_CLI_set_attestator_number c data = c\<lparr>cl_attestator_number := data\<rparr>"

definition RA_CLI_set_attestator_id :: "ra_client \<Rightarrow> u64 \<Rightarrow> ra_client" where
  "RA_CLI_set_attestator_id c product_id = c\<lparr>cl_attestator_id := product_id\<rparr>"

definition RA_CLI_set_sleep_avg_seconds :: "ra_client \<Rightarrow> u32 \<Rightarrow> ra_client" where
  "RA_CLI_set_sleep_avg_seconds c data = c\<lparr>cl_sleep_avg_seconds := data\<rparr>"

definition RA_CLI_set_sleep_var_seconds :: "ra_client \<Rightarrow> u32 \<Rightarrow> ra_client" where
  "RA_CLI_set_sleep_var_seconds c data = c\<lparr>cl_sleep_var_seconds := data\<rparr>"

definition RA_CLI_set_session_id :: "ra_client \<Rightarrow> u64 \<Rightarrow> ra_client" where
  "RA_CLI_set_session_id c session_id = c\<lparr>cl_session_id := session_id\<rparr>"

section \<open>The identity of a client and its order\<close>

text \<open>The key of a client is its application id and its attestator number, ordered
  lexicographically: the order the comment of \<^verbatim>\<open>RA_CLI_compare\<close> promises.\<close>

datatype client_key = Client_Key (key_AID: "u8 list") (key_number: u64)

definition client_key_of :: "ra_client \<Rightarrow> client_key" where
  "client_key_of c = Client_Key (cl_AID c) (cl_attestator_number c)"

instantiation client_key :: linorder
begin

definition less_eq_client_key :: "client_key \<Rightarrow> client_key \<Rightarrow> bool" where
  "less_eq_client_key a b \<longleftrightarrow>
     key_AID a < key_AID b \<or> key_AID a = key_AID b \<and> key_number a \<le> key_number b"

definition less_client_key :: "client_key \<Rightarrow> client_key \<Rightarrow> bool" where
  "less_client_key a b \<longleftrightarrow>
     key_AID a < key_AID b \<or> key_AID a = key_AID b \<and> key_number a < key_number b"

instance
  by standard (auto simp: less_eq_client_key_def less_client_key_def client_key.expand)

end

lemma memcmp_bytes_less:
  "length a = length b \<Longrightarrow> memcmp_bytes a b < 0 \<longleftrightarrow> a < b"
  by (induction a b rule: memcmp_bytes.induct) (auto simp: word_less_def word_uint_eq_iff)

lemma aid_memcmp_eq_0:
  "client_wf a \<Longrightarrow> client_wf b \<Longrightarrow> aid_memcmp a b = 0 \<longleftrightarrow> cl_AID a = cl_AID b"
  by (simp add: aid_memcmp_def client_wf_def memcmp_bytes_eq_0)

lemma aid_memcmp_less:
  "client_wf a \<Longrightarrow> client_wf b \<Longrightarrow> aid_memcmp a b < 0 \<longleftrightarrow> cl_AID a < cl_AID b"
  by (simp add: aid_memcmp_def client_wf_def memcmp_bytes_less)

lemma RA_CLI_compare_eq_0:
  assumes "client_wf a" and "client_wf b"
  shows "RA_CLI_compare a b = 0 \<longleftrightarrow>
    cl_AID a = cl_AID b \<and>
    (ucast (cl_attestator_number a) :: u32) = ucast (cl_attestator_number b)"
  using assms
  by (auto simp: RA_CLI_compare_def Let_def aid_memcmp_eq_0 ucast_diff_u64_u32 signed_eq_0_iff)

text \<open>The comparator never distinguishes a client from itself and its zero is symmetric and
  transitive: "same client" is an equivalence, which is what the list and the queue need.\<close>

definition same_client :: "ra_client \<Rightarrow> ra_client \<Rightarrow> bool" where
  "same_client a b \<longleftrightarrow> RA_CLI_compare a b = 0"

lemma same_client_iff:
  "client_wf a \<Longrightarrow> client_wf b \<Longrightarrow> same_client a b \<longleftrightarrow>
    cl_AID a = cl_AID b \<and>
    (ucast (cl_attestator_number a) :: u32) = ucast (cl_attestator_number b)"
  by (simp add: same_client_def RA_CLI_compare_eq_0)

lemma same_client_refl [simp]: "same_client a a"
  by (simp add: same_client_def RA_CLI_compare_def aid_memcmp_def)

lemma same_client_sym:
  "client_wf a \<Longrightarrow> client_wf b \<Longrightarrow> same_client a b \<Longrightarrow> same_client b a"
  by (simp add: same_client_iff)

lemma same_client_trans:
  "client_wf a \<Longrightarrow> client_wf b \<Longrightarrow> client_wf c \<Longrightarrow>
   same_client a b \<Longrightarrow> same_client b c \<Longrightarrow> same_client a c"
  by (simp add: same_client_iff)

lemma RA_CLI_create_wf:
  "RA_CLI_create al AID n i av va s k = Inr (Some c) \<Longrightarrow> client_wf c"
  by (auto simp: RA_CLI_create_def client_wf_def run_simps split: if_splits)

lemma RA_CLI_set_AID_wf: "RA_CLI_set_AID c AID = Inr c' \<Longrightarrow> client_wf c'"
  by (auto simp: RA_CLI_set_AID_def client_wf_def run_simps)

section \<open>Properties\<close>

text \<open>\<^verbatim>\<open>RA_CLI_compare\<close> of two clients is 0 exactly when their application ids are equal and
  their attestator numbers agree modulo 2^32: the 64-bit difference is truncated to an
  \<^verbatim>\<open>int\<close>, so it identifies clients whose attestator numbers differ by a multiple of 2^32.\<close>

theorem RA_CLI_compare_zero_iff:
  assumes "client_wf a" and "client_wf b"
  shows "RA_CLI_compare a b = 0 \<longleftrightarrow>
    cl_AID a = cl_AID b \<and>
    unat (cl_attestator_number a) mod 2 ^ 32 = unat (cl_attestator_number b) mod 2 ^ 32"
proof -
  have "(ucast x :: u32) = ucast y \<longleftrightarrow> unat x mod 2 ^ 32 = unat y mod 2 ^ 32" for x y :: u64
    by (simp add: word_unat_eq_iff unsigned_ucast_eq take_bit_eq_mod)
  then show ?thesis using assms by (simp add: RA_CLI_compare_eq_0)
qed

definition sample_client :: "u64 \<Rightarrow> ra_client" where
  "sample_client n =
     \<lparr> cl_AID = replicate 16 0, cl_attestator_number = n, cl_attestator_id = 7,
       cl_sleep_avg_seconds = 10, cl_sleep_var_seconds = 1, cl_session_id = 0 \<rparr>"

lemma sample_client_wf [simp]: "client_wf (sample_client n)"
  by (simp add: sample_client_def client_wf_def AID_SIZE_def)

theorem RA_CLI_compare_zero_iff_witness:
  "RA_CLI_compare (sample_client 3) (sample_client 4294967299) = 0 \<and>
   RA_CLI_compare (sample_client 3) (sample_client 4) \<noteq> 0"
  using RA_CLI_compare_zero_iff [of "sample_client 3" "sample_client 4294967299"]
    RA_CLI_compare_zero_iff [of "sample_client 3" "sample_client 4"]
  by (simp add: sample_client_def client_wf_def AID_SIZE_def)

text \<open>For attestator numbers less than 2^31 apart, the sign of \<^verbatim>\<open>RA_CLI_compare\<close> is the
  lexicographic order of (application id, attestator number), as the header documents.\<close>

theorem RA_CLI_compare_order:
  assumes "client_wf a" and "client_wf b"
    and "\<bar>uint (cl_attestator_number a) - uint (cl_attestator_number b)\<bar> < 2 ^ 31"
  shows "(RA_CLI_compare a b < 0 \<longleftrightarrow> client_key_of a < client_key_of b) \<and>
    (RA_CLI_compare a b = 0 \<longleftrightarrow> client_key_of a = client_key_of b) \<and>
    (RA_CLI_compare a b > 0 \<longleftrightarrow> client_key_of b < client_key_of a)"
proof (cases "cl_AID a = cl_AID b")
  case True
  then have "RA_CLI_compare a b = uint (cl_attestator_number a) - uint (cl_attestator_number b)"
    using assms(3) by (simp add: RA_CLI_compare_def aid_memcmp_def sint_ucast_diff_small)
  with True show ?thesis
    by (auto simp: client_key_of_def less_client_key_def word_less_def word_uint_eq_iff)
next
  case False
  with assms have "aid_memcmp a b \<noteq> 0" by (simp add: aid_memcmp_eq_0)
  then have "RA_CLI_compare a b = aid_memcmp a b" by (simp add: RA_CLI_compare_def)
  moreover have "aid_memcmp b a = - aid_memcmp a b"
    unfolding aid_memcmp_def by (rule memcmp_bytes_antisym)
  moreover note \<open>aid_memcmp a b \<noteq> 0\<close>
  ultimately have "(RA_CLI_compare a b < 0 \<longleftrightarrow> aid_memcmp a b < 0)
      \<and> (RA_CLI_compare a b > 0 \<longleftrightarrow> aid_memcmp b a < 0) \<and> RA_CLI_compare a b \<noteq> 0"
    by simp
  with False assms aid_memcmp_less [of a b] aid_memcmp_less [of b a] show ?thesis
    by (auto simp: client_key_of_def less_client_key_def)
qed

theorem RA_CLI_compare_order_witness:
  "RA_CLI_compare (sample_client 3) (sample_client 5) < 0 \<and>
   client_key_of (sample_client 3) < client_key_of (sample_client 5)"
proof -
  have key: "client_key_of (sample_client 3) < client_key_of (sample_client 5)"
    by (simp add: sample_client_def client_key_of_def less_client_key_def)
  have "\<bar>uint (cl_attestator_number (sample_client 3)) -
         uint (cl_attestator_number (sample_client 5))\<bar> < 2 ^ 31"
    by (simp add: sample_client_def)
  from RA_CLI_compare_order [OF sample_client_wf sample_client_wf this] key
  show ?thesis by blast
qed

end
