(* ===== verification/Generic_List.thy ===== *)
theory Generic_List
  imports RA_Client
begin

text \<open>
  The single linked list of \<^verbatim>\<open>ra-additionals/generic_list.c\<close>, which the manager uses for the
  clients it serves. The chain of cells, owned by the list alone, is the HOL list of their data,
  head first; \<^verbatim>\<open>gl_destroy\<close>, whose loop reads a cell it has just freed, is modelled on the
  cells themselves. The locale \<open>keyed_store\<close> is the contract the manager relies on; it is
  interpreted on the list operations with the client comparator.
\<close>

section \<open>State\<close>

datatype gl_result =
  GL_SUCCESS
| GL_ERROR_MEMORY
| GL_ERROR_ITEM_ALREADY_PRESENT
| GL_ERROR_ITEM_NOT_FOUND

definition MAX_NAME_SIZE :: nat where
  "MAX_NAME_SIZE = 30"

text \<open>
  A destructor is a callback that releases an object: it acts on the log of released objects.
\<close>

record 'a generic_list =
  gl_name :: string
  gl_items :: "'a list"
  gl_items_count :: u32
  gl_item_size :: u64
  gl_comparator :: "'a \<Rightarrow> 'a \<Rightarrow> int"
  gl_destructor :: "'a \<Rightarrow> 'a list \<Rightarrow> 'a list"
  gl_printer :: "('a \<Rightarrow> string) option"

definition RA_CLI_destroy :: "ra_client \<Rightarrow> ra_client list \<Rightarrow> ra_client list" where
  "RA_CLI_destroy client released = client # released"

section \<open>Operations\<close>

text \<open>\<open>alloc\<close>, \<open>alloc_item\<close> and \<open>alloc_data\<close> are the outcomes of the calls of \<^verbatim>\<open>malloc\<close>.\<close>

definition gl_create ::
  "bool \<Rightarrow> string \<Rightarrow> u64 \<Rightarrow> ('a \<Rightarrow> 'a \<Rightarrow> int) option \<Rightarrow> ('a \<Rightarrow> 'a list \<Rightarrow> 'a list) option \<Rightarrow>
   ('a \<Rightarrow> string) option \<Rightarrow> 'a generic_list option" where
  "gl_create alloc list_name item_size comparator destructor printer =
     (case (destructor, comparator) of
        (Some d, Some c) \<Rightarrow>
          if \<not> alloc then None
          else Some \<lparr> gl_name = take MAX_NAME_SIZE list_name,
                      gl_items = [],
                      gl_items_count = 0,
                      gl_item_size = item_size,
                      gl_comparator = c,
                      gl_destructor = d,
                      gl_printer = printer \<rparr>
      | _ \<Rightarrow> None)"

definition gl_count :: "'a generic_list \<Rightarrow> u32" where
  "gl_count l = gl_items_count l"

fun gl_search :: "('a \<Rightarrow> 'a \<Rightarrow> int) \<Rightarrow> 'a list \<Rightarrow> 'a \<Rightarrow> 'a option" where
  "gl_search cmp [] x = None"
| "gl_search cmp (d # iter) x = (if cmp d x = 0 then Some d else gl_search cmp iter x)"

definition gl_is_containing :: "'a generic_list \<Rightarrow> 'a \<Rightarrow> bool" where
  "gl_is_containing l x = (gl_search (gl_comparator l) (gl_items l) x \<noteq> None)"

definition gl_get_reference :: "'a generic_list \<Rightarrow> 'a \<Rightarrow> 'a option" where
  "gl_get_reference l x = gl_search (gl_comparator l) (gl_items l) x"

definition gl_insert ::
  "bool \<Rightarrow> bool \<Rightarrow> 'a generic_list \<Rightarrow> 'a \<Rightarrow> gl_result \<times> 'a generic_list" where
  "gl_insert alloc_item alloc_data l x =
     (if gl_is_containing l x then (GL_ERROR_ITEM_ALREADY_PRESENT, l)
      else if \<not> alloc_item then (GL_ERROR_MEMORY, l)
      else if \<not> alloc_data then (GL_ERROR_MEMORY, l)
      else (GL_SUCCESS, l\<lparr>gl_items := x # gl_items l, gl_items_count := gl_items_count l + 1\<rparr>))"

text \<open>
  The loop \<^verbatim>\<open>for (iter = ...; iter->next != NULL; iter = iter->next)\<close> that unlinks the
  cell after \<open>iter\<close> when it matches: the argument is the chain from \<open>iter\<close> on.
\<close>

fun gl_unlink_next :: "('a \<Rightarrow> 'a \<Rightarrow> int) \<Rightarrow> 'a list \<Rightarrow> 'a \<Rightarrow> 'a option \<times> 'a list" where
  "gl_unlink_next cmp (iter # nxt # rest) x =
     (if cmp nxt x = 0 then (Some nxt, iter # rest)
      else let (d, chain) = gl_unlink_next cmp (nxt # rest) x in (d, iter # chain))"
| "gl_unlink_next cmp chain x = (None, chain)"

text \<open>
  \<^verbatim>\<open>gl_delete\<close> as written: the head is dereferenced without a test, the search loop starts
  with \<^verbatim>\<open>iter = head->next\<close> (dereferenced without a test), and the count is not updated.
\<close>

definition gl_delete ::
  "'a generic_list \<Rightarrow> 'a \<Rightarrow> 'a list \<Rightarrow> (gl_result \<times> 'a generic_list \<times> 'a list) run" where
  "gl_delete l x released =
     (case gl_items l of
        [] \<Rightarrow> Inl Null_Deref
      | h # rest \<Rightarrow>
          if gl_comparator l h x = 0
          then Inr (GL_SUCCESS, l\<lparr>gl_items := rest\<rparr>, gl_destructor l h released)
          else (case rest of
                  [] \<Rightarrow> Inl Null_Deref
                | _ # _ \<Rightarrow>
                    (case gl_unlink_next (gl_comparator l) rest x of
                       (Some d, rest') \<Rightarrow>
                         Inr (GL_SUCCESS, l\<lparr>gl_items := h # rest'\<rparr>, gl_destructor l d released)
                     | (None, _) \<Rightarrow> Inr (GL_ERROR_ITEM_NOT_FOUND, l, released))))"

definition gl_remove :: "'a generic_list \<Rightarrow> 'a \<Rightarrow> ('a option \<times> 'a generic_list) run" where
  "gl_remove l x =
     (case gl_items l of
        [] \<Rightarrow> Inl Null_Deref
      | h # rest \<Rightarrow>
          if gl_comparator l h x = 0
          then Inr (Some h, l\<lparr>gl_items := rest, gl_items_count := gl_items_count l - 1\<rparr>)
          else (case gl_unlink_next (gl_comparator l) (h # rest) x of
                  (Some d, chain) \<Rightarrow>
                    Inr (Some d, l\<lparr>gl_items := chain, gl_items_count := gl_items_count l - 1\<rparr>)
                | (None, _) \<Rightarrow> Inr (None, l)))"

subsection \<open>gl_destroy on the cells\<close>

text \<open>A cell holds its data and the address of the next one; a freed cell has no content.\<close>

type_synonym 'a gl_cells = "nat \<rightharpoonup> 'a \<times> nat option"

fun gl_layout :: "nat \<Rightarrow> 'a list \<Rightarrow> 'a gl_cells" where
  "gl_layout a [] = Map.empty"
| "gl_layout a (x # xs) =
     (gl_layout (Suc a) xs)(a \<mapsto> (x, if xs = [] then None else Some (Suc a)))"

definition gl_cell_at :: "'a gl_cells \<Rightarrow> nat \<Rightarrow> ('a \<times> nat option) run" where
  "gl_cell_at cells a = (case cells a of None \<Rightarrow> Inl Use_After_Free | Some c \<Rightarrow> Inr c)"

fun gl_destroy_loop ::
  "nat \<Rightarrow> ('a \<Rightarrow> 'a list \<Rightarrow> 'a list) \<Rightarrow> 'a gl_cells \<Rightarrow> nat option \<Rightarrow> 'a list \<Rightarrow> 'a list run" where
  "gl_destroy_loop 0 dtor cells iter released = Inl No_Return"
| "gl_destroy_loop (Suc n) dtor cells None released = Inr released"
| "gl_destroy_loop (Suc n) dtor cells (Some iter) released =
     bind_run (gl_cell_at cells iter) (\<lambda>(data, nxt).
       let released' = dtor data released;
           cells' = cells(iter := None)
       in bind_run (gl_cell_at cells' iter) (\<lambda>(_, nxt'). gl_destroy_loop n dtor cells' nxt' released'))"

definition gl_destroy :: "'a generic_list \<Rightarrow> 'a list \<Rightarrow> 'a list run" where
  "gl_destroy l released =
     gl_destroy_loop (Suc (length (gl_items l))) (gl_destructor l) (gl_layout 0 (gl_items l))
       (if gl_items l = [] then None else Some 0) released"

section \<open>What the operations do to the list of items\<close>

lemma gl_search_Some:
  "gl_search cmp xs x = Some d \<Longrightarrow> d \<in> set xs \<and> cmp d x = 0"
  by (induction xs) (auto split: if_splits)

lemma gl_search_None_iff: "gl_search cmp xs x = None \<longleftrightarrow> (\<forall>d\<in>set xs. cmp d x \<noteq> 0)"
  by (induction xs) auto

lemma gl_is_containing_iff [abs_simps]:
  "gl_is_containing l x \<longleftrightarrow> (\<exists>d\<in>set (gl_items l). gl_comparator l d x = 0)"
  by (auto simp: gl_is_containing_def gl_search_None_iff)

text \<open>Removing the first element that satisfies a predicate: the reference for both loops.\<close>

fun remove_first :: "('a \<Rightarrow> bool) \<Rightarrow> 'a list \<Rightarrow> 'a list" where
  "remove_first P [] = []"
| "remove_first P (x # xs) = (if P x then xs else x # remove_first P xs)"

lemma remove_first_absent: "\<forall>x\<in>set xs. \<not> P x \<Longrightarrow> remove_first P xs = xs"
  by (induction xs) auto

lemma set_remove_first_subset: "set (remove_first P xs) \<subseteq> set xs"
  by (induction xs) auto

lemma length_remove_first:
  "length (remove_first P xs) = (if \<exists>x\<in>set xs. P x then length xs - 1 else length xs)"
proof (induction xs)
  case (Cons x xs)
  then show ?case by (cases xs) auto
qed simp

lemma gl_search_length:
  "gl_search cmp xs x = Some d \<Longrightarrow> Suc (length (remove_first (\<lambda>d. cmp d x = 0) xs)) = length xs"
  by (induction xs) (auto split: if_splits)

lemma sorted_wrt_remove_first: "sorted_wrt R xs \<Longrightarrow> sorted_wrt R (remove_first P xs)"
  using set_remove_first_subset [of P] by (induction xs) fastforce+

lemma gl_unlink_next_eq:
  "gl_unlink_next cmp (h # rest) x =
     (gl_search cmp rest x, h # remove_first (\<lambda>d. cmp d x = 0) rest)"
  by (induction rest arbitrary: h) (auto split: prod.splits)

lemma gl_remove_eq:
  assumes "gl_items l \<noteq> []"
  shows "gl_remove l x =
    (if gl_is_containing l x
     then Inr (gl_get_reference l x,
               l\<lparr>gl_items := remove_first (\<lambda>d. gl_comparator l d x = 0) (gl_items l),
                 gl_items_count := gl_items_count l - 1\<rparr>)
     else Inr (None, l))"
proof (cases "gl_items l")
  case Nil
  with assms show ?thesis by simp
next
  case (Cons h rest)
  show ?thesis
  proof (cases "gl_search (gl_comparator l) rest x")
    case None
    with Cons show ?thesis
      by (simp add: gl_remove_def gl_unlink_next_eq gl_is_containing_def gl_get_reference_def)
  next
    case (Some d)
    with Cons show ?thesis
      by (simp add: gl_remove_def gl_unlink_next_eq gl_is_containing_def gl_get_reference_def)
  qed
qed

section \<open>The contract of a keyed store\<close>

text \<open>
  What the manager needs of its client list: elements are kept apart by an equivalence
  \<open>same\<close>, membership is by \<open>same\<close>, insertion puts a new element in front and removal
  takes the one element that is the same as the argument.
\<close>

locale keyed_store =
  fixes ok :: "'s \<Rightarrow> bool"
    and elems :: "'s \<Rightarrow> 'a list"
    and valid :: "'a \<Rightarrow> bool"
    and same :: "'a \<Rightarrow> 'a \<Rightarrow> bool"
    and member :: "'s \<Rightarrow> 'a \<Rightarrow> bool"
    and insert_op :: "'s \<Rightarrow> 'a \<Rightarrow> 's"
    and remove_op :: "'s \<Rightarrow> 'a \<Rightarrow> ('a option \<times> 's) run"
  assumes same_refl: "valid x \<Longrightarrow> same x x"
    and same_sym: "valid x \<Longrightarrow> valid y \<Longrightarrow> same x y \<Longrightarrow> same y x"
    and same_trans: "valid x \<Longrightarrow> valid y \<Longrightarrow> valid z \<Longrightarrow> same x y \<Longrightarrow> same y z \<Longrightarrow> same x z"
    and elems_valid: "ok s \<Longrightarrow> x \<in> set (elems s) \<Longrightarrow> valid x"
    and elems_apart: "ok s \<Longrightarrow> sorted_wrt (\<lambda>x y. \<not> same x y) (elems s)"
    and member_iff: "ok s \<Longrightarrow> valid x \<Longrightarrow> member s x \<longleftrightarrow> (\<exists>y\<in>set (elems s). same y x)"
    and insert_new: "ok s \<Longrightarrow> valid x \<Longrightarrow> \<not> member s x \<Longrightarrow>
      elems (insert_op s x) = x # elems s \<and> ok (insert_op s x)"
    and insert_present: "member s x \<Longrightarrow> insert_op s x = s"
    and remove_present: "ok s \<Longrightarrow> valid x \<Longrightarrow> member s x \<Longrightarrow>
      \<exists>y s'. remove_op s x = Inr (Some y, s') \<and> y \<in> set (elems s) \<and> same y x \<and>
        elems s' = remove_first (\<lambda>z. same z x) (elems s) \<and> ok s'"
    and remove_absent: "elems s \<noteq> [] \<Longrightarrow> \<not> member s x \<Longrightarrow> remove_op s x = Inr (None, s)"
begin

lemma ok_insert: "ok s \<Longrightarrow> valid x \<Longrightarrow> ok (insert_op s x)"
  using insert_new insert_present by (cases "member s x") auto

lemma member_insert: "ok s \<Longrightarrow> valid x \<Longrightarrow> member (insert_op s x) x"
  using insert_new insert_present same_refl
  by (cases "member s x") (auto simp: member_iff)

text \<open>Inserting a new element and removing it restores the elements.\<close>

lemma insert_remove:
  assumes "ok s" and "valid x" and "\<not> member s x"
  shows "\<exists>s'. remove_op (insert_op s x) x = Inr (Some x, s') \<and> elems s' = elems s \<and> ok s'"
proof -
  from assms have new: "elems (insert_op s x) = x # elems s" "ok (insert_op s x)"
    using insert_new by auto
  from remove_present [OF new(2) assms(2) member_insert [OF assms(1,2)]]
  obtain y s' where *: "remove_op (insert_op s x) x = Inr (Some y, s')"
      "y \<in> set (x # elems s)" "same y x" "elems s' = remove_first (\<lambda>z. same z x) (x # elems s)" "ok s'"
    using new by auto
  have "y \<notin> set (elems s)" using *(3) assms by (auto simp: member_iff)
  with * assms(2) show ?thesis by (auto simp: same_refl)
qed

text \<open>At most one element is the same as \<open>x\<close>, so after one removal none is.\<close>

lemma apart_remove_first:
  assumes "sorted_wrt (\<lambda>x y. \<not> same x y) xs" and "\<forall>z\<in>set xs. valid z" and "valid x"
  shows "\<not> (\<exists>y\<in>set (remove_first (\<lambda>z. same z x) xs). same y x)"
  using assms
proof (induction xs)
  case (Cons z xs)
  show ?case
  proof (cases "same z x")
    case True
    have "\<not> same y x" if "y \<in> set xs" for y
    proof
      assume "same y x"
      moreover have "valid y" "valid z" "\<not> same z y" using that Cons.prems by auto
      ultimately show False
        using True same_sym [of y x] same_trans [of z x y] Cons.prems(3) by blast
    qed
    with True show ?thesis by simp
  next
    case False
    with Cons show ?thesis by auto
  qed
qed simp

lemma remove_not_member:
  assumes "ok s" and "valid x" and "member s x" and "remove_op s x = Inr (r, s')"
  shows "\<not> member s' x \<and> ok s' \<and> Suc (length (elems s')) = length (elems s)"
proof -
  from remove_present [OF assms(1-3)] assms(4)
  have s': "elems s' = remove_first (\<lambda>z. same z x) (elems s)" "ok s'" by auto
  have "\<not> (\<exists>y\<in>set (elems s'). same y x)"
    unfolding s'(1) by (rule apart_remove_first) (use assms elems_apart elems_valid in auto)
  then have "\<not> member s' x" using s'(2) assms(2) by (simp add: member_iff)
  moreover have ex: "\<exists>y\<in>set (elems s). same y x" using assms by (simp add: member_iff)
  then have "Suc (length (elems s')) = length (elems s)"
    unfolding s'(1) by (subst length_remove_first) (auto intro: Suc_pred)
  ultimately show ?thesis using s'(2) by simp
qed

end

section \<open>The client list keeps its contract\<close>

definition gl_client_ok :: "ra_client generic_list \<Rightarrow> bool" where
  "gl_client_ok l \<longleftrightarrow>
     gl_comparator l = RA_CLI_compare \<and>
     (\<forall>c\<in>set (gl_items l). client_wf c) \<and>
     sorted_wrt (\<lambda>a b. \<not> same_client a b) (gl_items l) \<and>
     gl_items_count l = of_nat (length (gl_items l))"

lemma gl_create_ok [inv_intros]:
  "gl_create al name sz (Some RA_CLI_compare) (Some d) pr = Some l \<Longrightarrow> gl_client_ok l"
  by (auto simp: gl_create_def gl_client_ok_def split: if_splits)

lemma gl_contains_same:
  "gl_client_ok l \<Longrightarrow> gl_is_containing l c \<longleftrightarrow> (\<exists>d\<in>set (gl_items l). same_client d c)"
  by (auto simp: gl_is_containing_iff gl_client_ok_def same_client_def)

lemma gl_insert_ok [inv_intros]:
  "gl_client_ok l \<Longrightarrow> client_wf c \<Longrightarrow> gl_client_ok (snd (gl_insert a1 a2 l c))"
  using same_client_sym
  by (auto simp: gl_insert_def gl_contains_same) (auto simp: gl_client_ok_def)

lemma gl_remove_ok:
  assumes ok: "gl_client_ok l" and "gl_is_containing l c"
  shows "\<exists>d l'. gl_remove l c = Inr (Some d, l') \<and> d \<in> set (gl_items l) \<and> same_client d c \<and>
    gl_items l' = remove_first (\<lambda>z. same_client z c) (gl_items l) \<and> gl_client_ok l'"
proof -
  let ?xs = "remove_first (\<lambda>z. same_client z c) (gl_items l)"
  let ?l = "l\<lparr>gl_items := ?xs, gl_items_count := gl_items_count l - 1\<rparr>"
  have ne: "gl_items l \<noteq> []" using assms by (auto simp: gl_is_containing_iff)
  obtain d where d: "gl_get_reference l c = Some d"
    using assms by (auto simp: gl_is_containing_def gl_get_reference_def)
  have cmp: "gl_comparator l = RA_CLI_compare" using ok by (simp add: gl_client_ok_def)
  have "gl_remove l c = Inr (Some d, ?l)"
    using assms(2) by (simp add: gl_remove_eq [OF ne] d cmp same_client_def)
  moreover have "d \<in> set (gl_items l)" and "same_client d c"
    using gl_search_Some [of "gl_comparator l" "gl_items l" c d] d
    by (simp_all add: gl_get_reference_def same_client_def cmp)
  moreover have "length ?xs = length (gl_items l) - 1"
    using calculation by (auto simp: length_remove_first)
  then have "of_nat (length ?xs) = (of_nat (length (gl_items l)) - 1 :: u32)"
    using ne by (cases "gl_items l") auto
  then have "gl_client_ok ?l"
    using ok set_remove_first_subset [of "\<lambda>z. same_client z c" "gl_items l"]
    by (auto simp: gl_client_ok_def intro: sorted_wrt_remove_first)
  ultimately show ?thesis by auto
qed

lemma gl_remove_absent:
  "gl_items l \<noteq> [] \<Longrightarrow> \<not> gl_is_containing l c \<Longrightarrow> gl_remove l c = Inr (None, l)"
  by (simp add: gl_remove_eq)

interpretation clients: keyed_store gl_client_ok gl_items client_wf same_client gl_is_containing
  "\<lambda>l c. snd (gl_insert True True l c)" gl_remove
proof (unfold_locales, goal_cases)
  case 1 show ?case by simp
next
  case 2 then show ?case by (rule same_client_sym)
next
  case 3 then show ?case by (blast intro: same_client_trans)
next
  case 4 then show ?case by (simp add: gl_client_ok_def)
next
  case 5 then show ?case by (simp add: gl_client_ok_def)
next
  case 6 then show ?case by (simp add: gl_contains_same)
next
  case (7 s x) then show ?case
    using gl_insert_ok [of s x True True] by (simp add: gl_insert_def)
next
  case 8 then show ?case by (simp add: gl_insert_def)
next
  case 9 then show ?case by (simp add: gl_remove_ok)
next
  case 10 then show ?case by (rule gl_remove_absent)
qed

section \<open>Properties\<close>

definition sample_list :: "ra_client generic_list" where
  "sample_list =
     \<lparr> gl_name = ''Serving clients'',
       gl_items = map sample_client [1, 2, 3],
       gl_items_count = 3, gl_item_size = 48,
       gl_comparator = RA_CLI_compare, gl_destructor = RA_CLI_destroy, gl_printer = None \<rparr>"

lemma same_sample_client [simp]:
  "same_client (sample_client m) (sample_client n) \<longleftrightarrow> (ucast m :: u32) = ucast n"
  by (simp add: same_client_iff) (simp add: sample_client_def)

lemma compare_sample_client [simp]:
  "RA_CLI_compare (sample_client m) (sample_client n) = 0 \<longleftrightarrow> (ucast m :: u32) = ucast n"
  using same_sample_client by (simp only: same_client_def)

lemma sample_list_ok [simp]: "gl_client_ok sample_list"
  by (simp add: gl_client_ok_def sample_list_def)

text \<open>\<^verbatim>\<open>gl_remove\<close> of a client the list serves returns the stored object of that client,
  takes exactly one item out, leaves no item for that client, keeps the order of the others
  and keeps the item count equal to the length.\<close>

theorem gl_remove_served_client:
  assumes "gl_client_ok l" and "client_wf c" and "gl_is_containing l c"
  shows "\<exists>d l'. gl_remove l c = Inr (Some d, l') \<and> d \<in> set (gl_items l) \<and> same_client d c \<and>
    gl_items l' = remove_first (\<lambda>z. same_client z c) (gl_items l) \<and>
    \<not> gl_is_containing l' c \<and> gl_client_ok l' \<and>
    Suc (length (gl_items l')) = length (gl_items l) \<and> gl_count l' = gl_count l - 1"
proof -
  from clients.remove_present [OF assms] obtain d l' where
    r: "gl_remove l c = Inr (Some d, l')" "d \<in> set (gl_items l)" "same_client d c"
      "gl_items l' = remove_first (\<lambda>z. same_client z c) (gl_items l)" "gl_client_ok l'" by blast
  have n: "\<not> gl_is_containing l' c \<and> gl_client_ok l' \<and>
      Suc (length (gl_items l')) = length (gl_items l)"
    by (rule clients.remove_not_member [OF assms r(1)])
  then have "gl_count l' = gl_count l - 1"
    using assms(1) r(5) by (simp add: gl_count_def gl_client_ok_def flip: n [THEN conjunct2, THEN conjunct2])
  with r n show ?thesis by blast
qed

theorem gl_remove_served_client_witness:
  "\<exists>d l'. gl_remove sample_list (sample_client 2) = Inr (Some d, l') \<and> gl_count l' = 2"
proof -
  have "gl_is_containing sample_list (sample_client 2)"
    by (simp add: gl_contains_same) (simp add: sample_list_def)
  from gl_remove_served_client [OF sample_list_ok sample_client_wf this]
  show ?thesis by (auto simp: gl_count_def sample_list_def)
qed

text \<open>Inserting a client that is not served and removing it again gives back that client
  and the same list of served clients.\<close>

theorem gl_insert_remove_roundtrip:
  assumes "gl_client_ok l" and "client_wf c" and "\<not> gl_is_containing l c"
  shows "fst (gl_insert True True l c) = GL_SUCCESS \<and>
    (\<exists>l'. gl_remove (snd (gl_insert True True l c)) c = Inr (Some c, l') \<and>
      gl_items l' = gl_items l \<and> gl_client_ok l')"
  using clients.insert_remove [OF assms] assms(3) by (simp add: gl_insert_def)

theorem gl_insert_remove_roundtrip_witness:
  "fst (gl_insert True True sample_list (sample_client 9)) = GL_SUCCESS"
proof -
  have "\<not> gl_is_containing sample_list (sample_client 9)"
    by (simp add: gl_contains_same) (simp add: sample_list_def)
  from gl_insert_remove_roundtrip [OF sample_list_ok sample_client_wf this]
  show ?thesis by blast
qed

text \<open>\<^verbatim>\<open>gl_delete\<close> never examines the second item: when only the second item matches, the
  list reports that it contains the client, yet the deletion answers
  \<^verbatim>\<open>GL_ERROR_ITEM_NOT_FOUND\<close> and changes nothing; and when the list has a single item that
  does not match, the deletion dereferences NULL.\<close>

theorem gl_delete_skips_second:
  assumes "gl_items l = h # s # rest"
    and "gl_comparator l h x \<noteq> 0" and "gl_comparator l s x = 0"
    and "\<forall>d\<in>set rest. gl_comparator l d x \<noteq> 0"
  shows "gl_is_containing l x \<and> gl_delete l x released = Inr (GL_ERROR_ITEM_NOT_FOUND, l, released) \<and>
    gl_delete (l\<lparr>gl_items := [h]\<rparr>) x released = Inl Null_Deref"
proof -
  have "gl_search (gl_comparator l) rest x = None"
    using assms(4) by (simp add: gl_search_None_iff)
  with assms show ?thesis
    by (simp add: gl_is_containing_iff gl_delete_def gl_unlink_next_eq)
qed

theorem gl_delete_skips_second_witness:
  "gl_delete sample_list (sample_client 2) [] = Inr (GL_ERROR_ITEM_NOT_FOUND, sample_list, [])"
  using gl_delete_skips_second
    [of sample_list "sample_client 1" "sample_client 2" "[sample_client 3]" "sample_client 2" "[]"]
  by (simp add: sample_list_def)

text \<open>When \<^verbatim>\<open>gl_delete\<close> does delete an item it leaves the item count as it was, so a
  list whose count was right no longer satisfies its invariant (\<^verbatim>\<open>gl_remove\<close> does
  decrement it).\<close>

theorem gl_delete_stale_count:
  assumes "gl_client_ok l" and "length (gl_items l) < 2 ^ 32"
    and "gl_delete l c released = Inr (GL_SUCCESS, l', released')"
  shows "gl_count l' = gl_count l \<and> Suc (length (gl_items l')) = length (gl_items l) \<and>
    \<not> gl_client_ok l'"
proof -
  from assms(3) have len: "gl_items_count l' = gl_items_count l
      \<and> Suc (length (gl_items l')) = length (gl_items l)"
    by (auto simp: gl_delete_def gl_unlink_next_eq gl_search_length
        split: list.splits if_splits option.splits)
  then have small: "length (gl_items l') < 2 ^ 32" using assms(2) by simp
  have "(of_nat (length (gl_items l)) :: u32) \<noteq> of_nat (length (gl_items l'))"
    using len assms(2) small by (simp add: word_of_nat_eq_iff take_bit_nat_eq_self)
  with len assms(1) show ?thesis
    by (auto simp: gl_client_ok_def gl_count_def)
qed

theorem gl_delete_stale_count_witness:
  "\<exists>l' log. gl_delete sample_list (sample_client 1) [] = Inr (GL_SUCCESS, l', log) \<and>
    gl_count l' = 3 \<and> length (gl_items l') = 2 \<and> \<not> gl_client_ok l'"
proof -
  let ?l = "sample_list\<lparr>gl_items := map sample_client [2, 3]\<rparr>"
  have run: "gl_delete sample_list (sample_client 1) [] = Inr (GL_SUCCESS, ?l, [sample_client 1])"
    by (simp add: gl_delete_def sample_list_def RA_CLI_destroy_def)
  have "length (gl_items sample_list) < 2 ^ 32" by (simp add: sample_list_def)
  from gl_delete_stale_count [OF sample_list_ok this run] run show ?thesis
    by (auto simp: gl_count_def sample_list_def)
qed

lemma gl_layout_head [simp]:
  "gl_layout a (x # xs) a = Some (x, if xs = [] then None else Some (Suc a))"
  by simp

text \<open>\<^verbatim>\<open>gl_destroy\<close> advances through the \<^verbatim>\<open>next\<close> field of the cell it has just
  freed: it reads freed memory for every list with at least one item, and is safe only on the
  empty list.\<close>

theorem gl_destroy_use_after_free:
  "gl_destroy l released =
     (if gl_items l = [] then Inr released else Inl Use_After_Free)"
  by (cases "gl_items l") (simp_all add: gl_destroy_def gl_cell_at_def Let_def)

end
