(* ===== verification/Scheduler_Queue.thy ===== *)
theory Scheduler_Queue
  imports Generic_List "HOL-Library.Multiset"
begin

text \<open>
  The delta queue of \<^verbatim>\<open>ra-additionals/scheduler_queue.c\<close>: each cell stores how long to wait
  after the cell before it. Times are of a type with \<open>+\<close>, \<open>-\<close> and \<open><\<close>, so the operations
  are the C code for any number type; the lemmas are about exact arithmetic (an ordered ring such
  as \<open>int\<close> or \<open>rat\<close>), where the rounding of C's \<^verbatim>\<open>float\<close> is absent. The abstraction
  \<open>sq_schedule\<close> gives each client its absolute time from now; the locale \<open>timer_queue\<close>
  is the contract the manager relies on.
\<close>

section \<open>State\<close>

datatype sq_result =
  SQ_SUCCESS
| SQ_ERROR_MEMORY
| SQ_ERROR_ITEM_ALREADY_PRESENT
| SQ_ERROR_ITEM_NOT_FOUND
| SQ_ERROR_INVALID_TIME

record 't sq_item =
  sq_client :: ra_client
  sq_delta :: 't

record 't scheduler_queue =
  sq_items :: "'t sq_item list"
  sq_items_count :: u32

section \<open>Operations\<close>

definition sq_create :: "bool \<Rightarrow> 't scheduler_queue option" where
  "sq_create alloc = (if \<not> alloc then None else Some \<lparr> sq_items = [], sq_items_count = 0 \<rparr>)"

definition sq_count :: "'t scheduler_queue \<Rightarrow> u32" where
  "sq_count q = sq_items_count q"

text \<open>
  The search loop of \<^verbatim>\<open>sq_insert\<close>: the list is what follows \<^verbatim>\<open>iter\<close> and \<open>time_sum\<close> the
  time of \<^verbatim>\<open>iter\<close>; the new cell is linked after \<^verbatim>\<open>iter\<close> and the delta of its successor is
  reduced.
\<close>

fun sq_insert_loop ::
  "'t::{plus,minus,ord} \<Rightarrow> 't sq_item list \<Rightarrow> ra_client \<Rightarrow> 't \<Rightarrow> 't sq_item list" where
  "sq_insert_loop time_sum [] client tts = [\<lparr> sq_client = client, sq_delta = tts - time_sum \<rparr>]"
| "sq_insert_loop time_sum (nxt # rest) client tts =
     (if time_sum + sq_delta nxt < tts
      then nxt # sq_insert_loop (time_sum + sq_delta nxt) rest client tts
      else let delta = tts - time_sum
           in \<lparr> sq_client = client, sq_delta = delta \<rparr>
              # nxt\<lparr>sq_delta := sq_delta nxt - delta\<rparr> # rest)"

definition sq_insert ::
  "bool \<Rightarrow> 't::{plus,minus,ord} scheduler_queue \<Rightarrow> ra_client \<Rightarrow> 't \<Rightarrow>
   sq_result \<times> 't scheduler_queue" where
  "sq_insert alloc q client tts =
     (if \<not> alloc then (SQ_ERROR_MEMORY, q)
      else let items =
             (case sq_items q of
                [] \<Rightarrow> [\<lparr> sq_client = client, sq_delta = tts \<rparr>]
              | h # rest \<Rightarrow>
                  if tts < sq_delta h
                  then \<lparr> sq_client = client, sq_delta = tts \<rparr>
                       # h\<lparr>sq_delta := sq_delta h - tts\<rparr> # rest
                  else h # sq_insert_loop (sq_delta h) rest client tts)
           in (SQ_SUCCESS, q\<lparr>sq_items := items, sq_items_count := sq_items_count q + 1\<rparr>))"

definition sq_update_time_unslept ::
  "'t::ord scheduler_queue \<Rightarrow> 't \<Rightarrow> sq_result \<times> 't scheduler_queue" where
  "sq_update_time_unslept q time_left =
     (case sq_items q of
        [] \<Rightarrow> (SQ_SUCCESS, q)
      | h # rest \<Rightarrow>
          if sq_delta h < time_left then (SQ_ERROR_INVALID_TIME, q)
          else (SQ_SUCCESS, q\<lparr>sq_items := h\<lparr>sq_delta := time_left\<rparr> # rest\<rparr>))"

definition EMPTY_SQ_LIST_TTS :: "'t::numeral" where
  "EMPTY_SQ_LIST_TTS = 3600"

definition sq_get_time_to_sleep :: "'t::numeral scheduler_queue \<Rightarrow> 't" where
  "sq_get_time_to_sleep q =
     (case sq_items q of [] \<Rightarrow> EMPTY_SQ_LIST_TTS | h # _ \<Rightarrow> sq_delta h)"

definition sq_remove :: "'t scheduler_queue \<Rightarrow> ra_client option \<times> 't scheduler_queue" where
  "sq_remove q =
     (case sq_items q of
        [] \<Rightarrow> (None, q)
      | h # rest \<Rightarrow>
          (Some (sq_client h), q\<lparr>sq_items := rest, sq_items_count := sq_items_count q - 1\<rparr>))"

fun sq_bump :: "'t::plus \<Rightarrow> 't sq_item list \<Rightarrow> 't sq_item list" where
  "sq_bump d [] = []"
| "sq_bump d (x # xs) = x\<lparr>sq_delta := sq_delta x + d\<rparr> # xs"

fun sq_unlink ::
  "'t::plus sq_item list \<Rightarrow> ra_client \<Rightarrow> ra_client option \<times> 't sq_item list" where
  "sq_unlink [] client = (None, [])"
| "sq_unlink (nxt # rest) client =
     (if RA_CLI_compare (sq_client nxt) client \<noteq> 0
      then let (found, chain) = sq_unlink rest client in (found, nxt # chain)
      else (Some (sq_client nxt), sq_bump (sq_delta nxt) rest))"

definition sq_remove_all_scheduled ::
  "'t::plus scheduler_queue \<Rightarrow> ra_client \<Rightarrow> ra_client option \<times> 't scheduler_queue" where
  "sq_remove_all_scheduled q client =
     (case sq_items q of
        [] \<Rightarrow> (None, q)
      | h # rest \<Rightarrow>
          if RA_CLI_compare (sq_client h) client = 0
          then (Some (sq_client h),
                q\<lparr>sq_items := sq_bump (sq_delta h) rest, sq_items_count := sq_items_count q - 1\<rparr>)
          else (case sq_unlink rest client of
                  (None, _) \<Rightarrow> (None, q)
                | (Some c, chain) \<Rightarrow>
                    (Some c, q\<lparr>sq_items := h # chain, sq_items_count := sq_items_count q - 1\<rparr>)))"

text \<open>\<^verbatim>\<open>sq_destroy\<close> frees as many cells as the count says; the result is what is left.\<close>

fun sq_destroy_loop :: "nat \<Rightarrow> 't sq_item list \<Rightarrow> 't sq_item list run" where
  "sq_destroy_loop 0 items = Inr items"
| "sq_destroy_loop (Suc n) [] = Inl Null_Deref"
| "sq_destroy_loop (Suc n) (h # rest) = sq_destroy_loop n rest"

definition sq_destroy :: "'t scheduler_queue \<Rightarrow> 't sq_item list run" where
  "sq_destroy q = sq_destroy_loop (unat (sq_items_count q)) (sq_items q)"

section \<open>The schedule a queue stands for\<close>

fun sq_times :: "'t::plus \<Rightarrow> 't sq_item list \<Rightarrow> (ra_client \<times> 't) list" where
  "sq_times s [] = []"
| "sq_times s (x # xs) = (sq_client x, s + sq_delta x) # sq_times (s + sq_delta x) xs"

definition sq_schedule :: "'t::{plus,zero} scheduler_queue \<Rightarrow> (ra_client \<times> 't) list" where
  "sq_schedule q = sq_times 0 (sq_items q)"

definition sq_ok :: "'t::linordered_idom scheduler_queue \<Rightarrow> bool" where
  "sq_ok q \<longleftrightarrow> (\<forall>x\<in>set (tl (sq_items q)). 0 \<le> sq_delta x) \<and>
     sq_items_count q = of_nat (length (sq_items q))"

text \<open>The reference: insertion of a deadline into a list ordered by deadline.\<close>

fun timed_insert_after :: "'c \<Rightarrow> 't::ord \<Rightarrow> ('c \<times> 't) list \<Rightarrow> ('c \<times> 't) list" where
  "timed_insert_after c t [] = [(c, t)]"
| "timed_insert_after c t ((d, u) # xs) =
     (if u < t then (d, u) # timed_insert_after c t xs else (c, t) # (d, u) # xs)"

fun timed_insert :: "'c \<Rightarrow> 't::ord \<Rightarrow> ('c \<times> 't) list \<Rightarrow> ('c \<times> 't) list" where
  "timed_insert c t [] = [(c, t)]"
| "timed_insert c t ((d, u) # xs) =
     (if t < u then (c, t) # (d, u) # xs else (d, u) # timed_insert_after c t xs)"

definition shift_times :: "'t::minus \<Rightarrow> ('c \<times> 't) list \<Rightarrow> ('c \<times> 't) list" where
  "shift_times d xs = map (\<lambda>(c, u). (c, u - d)) xs"

lemma mset_timed_insert_after [simp]:
  "mset (timed_insert_after c t xs) = add_mset (c, t) (mset xs)"
  by (induction xs) auto

lemma mset_timed_insert [simp]: "mset (timed_insert c t xs) = add_mset (c, t) (mset xs)"
  by (cases "(c, t, xs)" rule: timed_insert.cases) auto

lemma sq_times_shift:
  fixes s :: "'t::linordered_idom"
  shows "sq_times (s - d) xs = shift_times d (sq_times s xs)"
proof (induction xs arbitrary: s)
  case (Cons x xs)
  have "sq_times (s - d + sq_delta x) xs = shift_times d (sq_times (s + sq_delta x) xs)"
    using Cons.IH [of "s + sq_delta x"] by (simp add: algebra_simps)
  then show ?case by (simp add: shift_times_def)
qed (simp add: shift_times_def)

lemma sq_times_lower:
  fixes s :: "'t::linordered_idom"
  shows "\<forall>x\<in>set xs. 0 \<le> sq_delta x \<Longrightarrow> (c, t) \<in> set (sq_times s xs) \<Longrightarrow> s \<le> t"
proof (induction xs arbitrary: s)
  case (Cons x xs)
  then have "0 \<le> sq_delta x" by simp
  then have le: "s \<le> s + sq_delta x" by simp
  from Cons.prems(2) consider "t = s + sq_delta x" | "(c, t) \<in> set (sq_times (s + sq_delta x) xs)"
    by auto
  then show ?case
  proof cases
    case 2
    with Cons have "s + sq_delta x \<le> t" by simp
    with le show ?thesis by (rule order_trans)
  qed (use le in simp)
qed simp

lemma sorted_sq_times:
  fixes s :: "'t::linordered_idom"
  shows "\<forall>x\<in>set xs. 0 \<le> sq_delta x \<Longrightarrow> sorted (map snd (sq_times s xs))"
  by (induction xs arbitrary: s) (auto dest: sq_times_lower)

lemma sorted_sq_schedule:
  assumes "sq_ok q"
  shows "sorted (map snd (sq_schedule q))"
proof (cases "sq_items q")
  case (Cons h rest)
  with assms have "\<forall>x\<in>set rest. 0 \<le> sq_delta x" by (simp add: sq_ok_def)
  with Cons show ?thesis
    by (auto simp: sq_schedule_def sorted_sq_times dest: sq_times_lower)
qed (simp add: sq_schedule_def)

lemma map_fst_sq_times [simp]: "map fst (sq_times s xs) = map sq_client xs"
  by (induction xs arbitrary: s) auto

lemma length_sq_times [simp]: "length (sq_times s xs) = length xs"
  by (induction xs arbitrary: s) auto

section \<open>What the operations do to the schedule\<close>

lemma sq_times_insert_loop:
  fixes s :: "'t::linordered_idom"
  shows "sq_times s (sq_insert_loop s xs c t) = timed_insert_after c t (sq_times s xs)"
  by (induction xs arbitrary: s) (auto simp: Let_def algebra_simps)

lemma sq_insert_schedule [abs_simps]:
  fixes t :: "'t::linordered_idom"
  shows "sq_schedule (snd (sq_insert True q c t)) = timed_insert c t (sq_schedule q)"
  by (auto simp: sq_insert_def sq_schedule_def sq_times_insert_loop Let_def split: list.split)

lemma sq_times_bump:
  fixes s :: "'t::linordered_idom"
  shows "sq_times s (sq_bump d xs) = sq_times (s + d) xs"
  by (cases xs) (auto simp: algebra_simps)

lemma tl_sq_bump: "tl (sq_bump d xs) = tl xs"
  by (cases xs) auto

lemma length_sq_bump [simp]: "length (sq_bump d xs) = length xs"
  by (cases xs) auto

lemma sq_unlink_eq:
  fixes xs :: "'t::linordered_idom sq_item list"
  shows "fst (sq_unlink xs c) = find (\<lambda>d. RA_CLI_compare d c = 0) (map sq_client xs) \<and>
    sq_times s (snd (sq_unlink xs c))
      = remove_first (\<lambda>(d, _). RA_CLI_compare d c = 0) (sq_times s xs)"
  by (induction xs arbitrary: s) (auto simp: sq_times_bump split: prod.splits)

lemma sq_unlink_None:
  "fst (sq_unlink xs c) = None \<Longrightarrow> snd (sq_unlink xs c) = xs"
  by (induction xs) (auto split: prod.splits if_splits)

lemma sq_unlink_length:
  "fst (sq_unlink xs c) = Some d \<Longrightarrow> Suc (length (snd (sq_unlink xs c))) = length xs"
  by (induction xs) (auto split: prod.splits if_splits)

lemma sq_remove_all_scheduled_schedule [abs_simps]:
  fixes q :: "'t::linordered_idom scheduler_queue"
  shows "fst (sq_remove_all_scheduled q c)
      = find (\<lambda>d. RA_CLI_compare d c = 0) (map fst (sq_schedule q))"
    and "sq_schedule (snd (sq_remove_all_scheduled q c))
      = remove_first (\<lambda>(d, _). RA_CLI_compare d c = 0) (sq_schedule q)"
proof -
  have "fst (sq_remove_all_scheduled q c)
        = find (\<lambda>d. RA_CLI_compare d c = 0) (map fst (sq_schedule q)) \<and>
      sq_schedule (snd (sq_remove_all_scheduled q c))
        = remove_first (\<lambda>(d, _). RA_CLI_compare d c = 0) (sq_schedule q)"
  proof (cases "sq_items q")
    case (Cons h rest)
    show ?thesis
    proof (cases "sq_unlink rest c")
      case (Pair r chain)
      with Cons sq_unlink_eq [of rest c "sq_delta h"] sq_unlink_None [of rest c] show ?thesis
        by (auto simp: sq_remove_all_scheduled_def sq_schedule_def sq_times_bump
            split: option.split)
    qed
  qed (simp add: sq_remove_all_scheduled_def sq_schedule_def)
  then show "fst (sq_remove_all_scheduled q c)
      = find (\<lambda>d. RA_CLI_compare d c = 0) (map fst (sq_schedule q))"
    and "sq_schedule (snd (sq_remove_all_scheduled q c))
      = remove_first (\<lambda>(d, _). RA_CLI_compare d c = 0) (sq_schedule q)"
    by simp_all
qed

lemma sq_remove_schedule [abs_simps]:
  fixes q :: "'t::linordered_idom scheduler_queue"
  shows "sq_schedule q = [] \<Longrightarrow> sq_remove q = (None, q)"
    and "sq_schedule q = (c, t) # xs \<Longrightarrow>
      fst (sq_remove q) = Some c \<and> sq_schedule (snd (sq_remove q)) = shift_times t xs"
proof -
  show "sq_schedule q = [] \<Longrightarrow> sq_remove q = (None, q)"
    by (cases "sq_items q") (auto simp: sq_remove_def sq_schedule_def)
  assume sched: "sq_schedule q = (c, t) # xs"
  then obtain h rest where "sq_items q = h # rest" and "sq_client h = c" and t: "sq_delta h = t"
      and xs: "sq_times t rest = xs"
    by (cases "sq_items q") (auto simp: sq_schedule_def)
  moreover have "sq_times 0 rest = shift_times t (sq_times t rest)"
    using sq_times_shift [of t t rest] by simp
  ultimately show "fst (sq_remove q) = Some c \<and> sq_schedule (snd (sq_remove q)) = shift_times t xs"
    by (simp add: sq_remove_def sq_schedule_def)
qed

lemma sq_get_time_to_sleep_schedule [abs_simps]:
  fixes q :: "'t::linordered_idom scheduler_queue"
  shows "sq_schedule q = (c, t) # xs \<Longrightarrow> sq_get_time_to_sleep q = t"
  by (cases "sq_items q") (auto simp: sq_get_time_to_sleep_def sq_schedule_def)

lemma sq_update_schedule [abs_simps]:
  fixes q :: "'t::linordered_idom scheduler_queue"
  assumes "sq_schedule q = (c, t) # xs" and "r \<le> t"
  shows "sq_schedule (snd (sq_update_time_unslept q r)) = shift_times (t - r) (sq_schedule q)"
proof -
  from assms obtain h rest where "sq_items q = h # rest" and "sq_delta h = t"
    by (cases "sq_items q") (auto simp: sq_schedule_def)
  moreover have "sq_times r rest = shift_times (t - r) (sq_times t rest)"
    using sq_times_shift [of t "t - r" rest] by simp
  ultimately show ?thesis
    using assms(2) by (simp add: sq_update_time_unslept_def sq_schedule_def shift_times_def)
qed

section \<open>The invariant\<close>

lemma sq_insert_loop_nonneg:
  fixes s :: "'t::linordered_idom"
  shows "\<forall>x\<in>set xs. 0 \<le> sq_delta x \<Longrightarrow> s \<le> t \<Longrightarrow>
    \<forall>x\<in>set (sq_insert_loop s xs c t). 0 \<le> sq_delta x"
proof (induction xs arbitrary: s)
  case (Cons x xs)
  show ?case
  proof (cases "s + sq_delta x < t")
    case True
    with Cons.IH [of "s + sq_delta x"] Cons.prems show ?thesis by auto
  next
    case False
    with Cons.prems show ?thesis by (auto simp: Let_def algebra_simps)
  qed
qed simp

lemma length_sq_insert_loop [simp]: "length (sq_insert_loop s xs c t) = Suc (length xs)"
  by (induction xs arbitrary: s) (auto simp: Let_def)

lemma sq_insert_ok [inv_intros]:
  fixes t :: "'t::linordered_idom"
  assumes "sq_ok q"
  shows "sq_ok (snd (sq_insert alloc q c t))"
proof (cases "sq_items q")
  case (Cons h rest)
  with assms sq_insert_loop_nonneg [of rest "sq_delta h" t c] show ?thesis
    by (auto simp: sq_insert_def sq_ok_def Let_def)
qed (use assms in \<open>auto simp: sq_insert_def sq_ok_def\<close>)

lemma sq_update_ok [inv_intros]:
  "sq_ok q \<Longrightarrow> sq_ok (snd (sq_update_time_unslept q r))"
  by (auto simp: sq_update_time_unslept_def sq_ok_def split: list.split)

lemma set_tl_subset: "set (tl xs) \<subseteq> set xs"
  by (cases xs) auto

lemma sq_remove_ok [inv_intros]: "sq_ok q \<Longrightarrow> sq_ok (snd (sq_remove q))"
  using set_tl_subset [of "tl (sq_items q)"]
  by (auto simp: sq_remove_def sq_ok_def split: list.split)

lemma sq_bump_nonneg:
  fixes d :: "'t::linordered_idom"
  shows "\<forall>x\<in>set xs. 0 \<le> sq_delta x \<Longrightarrow> 0 \<le> d \<Longrightarrow> \<forall>x\<in>set (sq_bump d xs). 0 \<le> sq_delta x"
  by (cases xs) auto

lemma sq_unlink_nonneg:
  fixes xs :: "'t::linordered_idom sq_item list"
  shows "\<forall>x\<in>set xs. 0 \<le> sq_delta x \<Longrightarrow> \<forall>x\<in>set (snd (sq_unlink xs c)). 0 \<le> sq_delta x"
  by (induction xs) (auto simp: sq_bump_nonneg split: prod.splits)

lemma sq_remove_all_scheduled_ok [inv_intros]:
  fixes q :: "'t::linordered_idom scheduler_queue"
  assumes "sq_ok q"
  shows "sq_ok (snd (sq_remove_all_scheduled q c))"
proof (cases "sq_items q")
  case (Cons h rest)
  obtain r chain where u: "sq_unlink rest c = (r, chain)" by fastforce
  have "\<forall>x\<in>set chain. 0 \<le> sq_delta x"
    using sq_unlink_nonneg [of rest c] assms Cons by (simp add: sq_ok_def u)
  moreover have "Suc (length chain) = length rest" if "r = Some d" for d
    using sq_unlink_length [of rest c d] that by (simp add: u)
  ultimately show ?thesis
    using assms Cons set_tl_subset [of rest]
    by (auto simp: sq_remove_all_scheduled_def sq_ok_def u tl_sq_bump split: option.split)
qed (use assms in \<open>simp add: sq_remove_all_scheduled_def\<close>)

section \<open>The contract of a timer queue\<close>

text \<open>Popping at most \<open>n\<close> times collects the clients in the order they come out.\<close>

fun drain :: "('s \<Rightarrow> 'c option \<times> 's) \<Rightarrow> nat \<Rightarrow> 's \<Rightarrow> 'c list" where
  "drain pop 0 s = []"
| "drain pop (Suc n) s =
     (case pop s of (None, _) \<Rightarrow> [] | (Some c, s') \<Rightarrow> c # drain pop n s')"

locale timer_queue =
  fixes ok :: "'s \<Rightarrow> bool"
    and sched :: "'s \<Rightarrow> ('c \<times> 't::linordered_idom) list"
    and matches :: "'c \<Rightarrow> 'c \<Rightarrow> bool"
    and add_op :: "'s \<Rightarrow> 'c \<Rightarrow> 't \<Rightarrow> 's"
    and pop_op :: "'s \<Rightarrow> 'c option \<times> 's"
    and cancel_op :: "'s \<Rightarrow> 'c \<Rightarrow> 'c option \<times> 's"
    and resume_op :: "'s \<Rightarrow> 't \<Rightarrow> 's"
    and next_delay :: "'s \<Rightarrow> 't"
  assumes sched_sorted: "ok s \<Longrightarrow> sorted (map snd (sched s))"
    and add_sched: "ok s \<Longrightarrow> sched (add_op s c t) = timed_insert c t (sched s) \<and> ok (add_op s c t)"
    and pop_empty: "sched s = [] \<Longrightarrow> pop_op s = (None, s)"
    and pop_first: "ok s \<Longrightarrow> sched s = (c, t) # xs \<Longrightarrow>
      fst (pop_op s) = Some c \<and> sched (snd (pop_op s)) = shift_times t xs \<and> ok (snd (pop_op s))"
    and cancel_sched: "ok s \<Longrightarrow>
      sched (snd (cancel_op s c)) = remove_first (\<lambda>(d, _). matches d c) (sched s) \<and>
      ok (snd (cancel_op s c))"
    and resume_sched: "ok s \<Longrightarrow> sched s = (c, t) # xs \<Longrightarrow> r \<le> t \<Longrightarrow>
      sched (resume_op s r) = shift_times (t - r) (sched s) \<and> ok (resume_op s r)"
    and delay_first: "sched s = (c, t) # xs \<Longrightarrow> next_delay s = t"
begin

text \<open>The delay to sleep is the earliest deadline.\<close>

lemma next_delay_earliest:
  assumes "ok s" and "(d, u) \<in> set (sched s)"
  shows "next_delay s \<le> u"
proof (cases "sched s")
  case (Cons x xs)
  obtain c t where x: "x = (c, t)" by (cases x)
  from sched_sorted [OF assms(1)] Cons x have "\<forall>v\<in>set (map snd xs). t \<le> v" by simp
  with assms(2) Cons x have "t \<le> u" by auto
  then show ?thesis using delay_first Cons x by simp
qed (use assms in simp)

text \<open>Clients come out in the order of the schedule: earliest deadline first.\<close>

lemma drain_schedule:
  "ok s \<Longrightarrow> drain pop_op n s = take n (map fst (sched s))"
proof (induction n arbitrary: s)
  case (Suc n)
  show ?case
  proof (cases "sched s")
    case Nil
    then show ?thesis by (simp add: pop_empty)
  next
    case (Cons x xs)
    obtain c t where x: "x = (c, t)" by (cases x)
    from pop_first [OF Suc.prems] Cons x obtain s' where
      p: "pop_op s = (Some c, s')" "sched s' = shift_times t xs" "ok s'"
      by (cases "pop_op s") auto
    have "map fst (shift_times t xs) = map fst xs"
      by (simp add: shift_times_def case_prod_beta comp_def)
    with Suc.IH [OF p(3)] p Cons x show ?thesis by simp
  qed
qed simp

lemma remove_first_timed_insert_after:
  "\<forall>(d, u)\<in>set xs. \<not> matches d c \<Longrightarrow> matches c c \<Longrightarrow>
   remove_first (\<lambda>(d, _). matches d c) (timed_insert_after c t xs) = xs"
  by (induction xs) (auto simp: remove_first_absent)

text \<open>Scheduling a client that is not scheduled and cancelling it restores the schedule.\<close>

lemma add_cancel:
  assumes "ok s" and "\<forall>(d, u)\<in>set (sched s). \<not> matches d c" and "matches c c"
  shows "sched (snd (cancel_op (add_op s c t) c)) = sched s"
proof -
  have "remove_first (\<lambda>(d, _). matches d c) (timed_insert c t (sched s)) = sched s"
    using assms remove_first_timed_insert_after [of "tl (sched s)" c t]
    by (cases "sched s") (auto simp: remove_first_absent)
  then show ?thesis using add_sched [OF assms(1)] cancel_sched by simp
qed

end

interpretation sq: timer_queue
  "sq_ok :: 't::linordered_idom scheduler_queue \<Rightarrow> bool" sq_schedule same_client
  "\<lambda>q c t. snd (sq_insert True q c t)" sq_remove sq_remove_all_scheduled
  "\<lambda>q r. snd (sq_update_time_unslept q r)" sq_get_time_to_sleep
proof (unfold_locales, goal_cases)
  case 1 then show ?case by (rule sorted_sq_schedule)
next
  case 2 then show ?case by (simp add: abs_simps inv_intros)
next
  case 3 then show ?case by (simp add: abs_simps)
next
  case 4 then show ?case by (simp add: abs_simps inv_intros)
next
  case 5 then show ?case by (simp add: abs_simps inv_intros same_client_def)
next
  case 6 then show ?case by (metis sq_update_schedule sq_update_ok)
next
  case 7 then show ?case by (rule sq_get_time_to_sleep_schedule)
qed

section \<open>Properties\<close>

text \<open>C22: \<^verbatim>\<open>sq_insert\<close> puts the client at its deadline and moves no other client: the schedule
  after the call is the schedule before with (client, time) inserted in deadline order.\<close>

theorem sq_insert_refines:
  fixes q :: "'t::linordered_idom scheduler_queue"
  shows "fst (sq_insert True q c t) = SQ_SUCCESS \<and>
    sq_schedule (snd (sq_insert True q c t)) = timed_insert c t (sq_schedule q) \<and>
    mset (sq_schedule (snd (sq_insert True q c t))) = add_mset (c, t) (mset (sq_schedule q))"
  by (simp add: sq_insert_schedule) (simp add: sq_insert_def Let_def)

text \<open>The operations of the queue as events, and a run of them.\<close>

datatype 't sq_event =
  Sq_Insert bool ra_client 't
| Sq_Unslept 't
| Sq_Remove
| Sq_Remove_All ra_client

fun sq_event_step ::
  "'t::linordered_idom scheduler_queue \<Rightarrow> 't sq_event \<Rightarrow> 't scheduler_queue" where
  "sq_event_step q (Sq_Insert alloc c t) = snd (sq_insert alloc q c t)"
| "sq_event_step q (Sq_Unslept r) = snd (sq_update_time_unslept q r)"
| "sq_event_step q Sq_Remove = snd (sq_remove q)"
| "sq_event_step q (Sq_Remove_All c) = snd (sq_remove_all_scheduled q c)"

lemma sq_event_step_ok: "sq_ok q \<Longrightarrow> sq_ok (sq_event_step q e)"
  by (cases e) (simp_all add: inv_intros)

lemma sq_events_ok: "sq_ok q \<Longrightarrow> sq_ok (foldl sq_event_step q es)"
  by (induction es arbitrary: q) (auto intro: sq_event_step_ok)

text \<open>C21: Whatever sequence of operations follows \<^verbatim>\<open>sq_create\<close>, the schedule stays ordered by
  deadline, the item count is the number of cells (modulo 2^32), and the time to sleep never
  exceeds the deadline of any scheduled client.\<close>

theorem sq_run_invariant:
  fixes es :: "'t::linordered_idom sq_event list"
  assumes "sq_create True = Some q0" and "q = foldl sq_event_step q0 es"
  shows "sorted (map snd (sq_schedule q)) \<and>
    sq_count q = of_nat (length (sq_schedule q)) \<and>
    (\<forall>(c, t)\<in>set (sq_schedule q). sq_get_time_to_sleep q \<le> t)"
proof -
  from assms(1) have "sq_ok q0" by (auto simp: sq_create_def sq_ok_def)
  then have ok: "sq_ok q" unfolding assms(2) by (rule sq_events_ok)
  then show ?thesis
    using sq.next_delay_earliest [OF ok] sorted_sq_schedule [OF ok]
    by (auto simp: sq_count_def sq_ok_def sq_schedule_def)
qed

definition sample_events :: "int sq_event list" where
  "sample_events = [Sq_Insert True (sample_client 1) 10, Sq_Insert True (sample_client 2) 4,
     Sq_Insert True (sample_client 3) 7, Sq_Unslept 1]"

definition sample_queue :: "int scheduler_queue" where
  "sample_queue = foldl sq_event_step \<lparr> sq_items = [], sq_items_count = 0 \<rparr> sample_events"

lemma sample_queue_schedule:
  "sq_schedule sample_queue = [(sample_client 2, 1), (sample_client 3, 4), (sample_client 1, 7)]"
  by (simp add: sample_queue_def sample_events_def sq_insert_def sq_update_time_unslept_def
      sq_schedule_def Let_def)

lemma sample_queue_ok [simp]: "sq_ok sample_queue"
  unfolding sample_queue_def by (rule sq_events_ok) (simp add: sq_ok_def)

theorem sq_run_invariant_witness:
  "sorted (map snd (sq_schedule sample_queue)) \<and> sq_count sample_queue = 3"
  using sq_run_invariant [OF _ sample_queue_def, unfolded sq_create_def, simplified]
  by (simp add: sample_queue_schedule)

text \<open>The clients leave the queue earliest deadline first: draining it with
  \<^verbatim>\<open>sq_remove\<close> gives them in the order of the schedule.\<close>

theorem sq_serves_earliest_deadline_first:
  fixes q :: "'t::linordered_idom scheduler_queue"
  assumes "sq_ok q"
  shows "drain sq_remove n q = take n (map fst (sq_schedule q)) \<and>
    sorted (map snd (sq_schedule q))"
  using sq.drain_schedule [OF assms] sorted_sq_schedule [OF assms] by simp

theorem sq_serves_earliest_deadline_first_witness:
  "drain sq_remove 2 sample_queue = [sample_client 2, sample_client 3]"
  using sq_serves_earliest_deadline_first [OF sample_queue_ok, of 2]
  by (simp add: sample_queue_schedule numeral_2_eq_2)

text \<open>Despite its name, \<^verbatim>\<open>sq_remove_all_scheduled\<close> takes out the first entry of the
  client only; every other client keeps its deadline. Where a client is scheduled once this
  undoes the insertion: scheduling a new client and removing it restores the schedule.\<close>

theorem sq_remove_all_scheduled_refines:
  fixes q :: "'t::linordered_idom scheduler_queue"
  assumes "sq_ok q"
  shows "sq_schedule (snd (sq_remove_all_scheduled q c))
      = remove_first (\<lambda>(d, _). same_client d c) (sq_schedule q) \<and>
    sq_ok (snd (sq_remove_all_scheduled q c)) \<and>
    ((\<forall>(d, u)\<in>set (sq_schedule q). \<not> same_client d c) \<longrightarrow>
      sq_schedule (snd (sq_remove_all_scheduled (snd (sq_insert True q c t)) c)) = sq_schedule q)"
  using sq.cancel_sched [OF assms, of c] sq.add_cancel [OF assms _ same_client_refl, of c t]
  by blast

theorem sq_remove_all_scheduled_refines_witness:
  "sq_schedule (snd (sq_remove_all_scheduled sample_queue (sample_client 3)))
     = [(sample_client 2, 1), (sample_client 1, 7)]"
  using sq_remove_all_scheduled_refines [OF sample_queue_ok, of "sample_client 3"]
  by (simp add: sample_queue_schedule)

lemma sq_destroy_loop_all: "sq_destroy_loop (length items) items = Inr []"
  by (induction items) auto

text \<open>\<^verbatim>\<open>sq_destroy\<close> frees every cell and dereferences no NULL pointer, because the count
  it loops on is the length of the chain.\<close>

theorem sq_destroy_frees_all:
  fixes q :: "'t::linordered_idom scheduler_queue"
  assumes "sq_ok q" and "length (sq_items q) < 2 ^ 32"
  shows "sq_destroy q = Inr []"
  using assms by (simp add: sq_destroy_def sq_ok_def sq_destroy_loop_all unsigned_of_nat take_bit_nat_eq_self)

theorem sq_destroy_frees_all_witness: "sq_destroy sample_queue = Inr []"
proof -
  have "length (sq_items sample_queue) = length (sq_schedule sample_queue)"
    by (simp add: sq_schedule_def)
  then have "length (sq_items sample_queue) < 2 ^ 32" by (simp add: sample_queue_schedule)
  then show ?thesis by (rule sq_destroy_frees_all [OF sample_queue_ok])
qed

end
