(* ===== verification/C_Stdio.thy ===== *)
theory C_Stdio
  imports RA_Bytes
begin

text \<open>
  The part of formatted input and output that \<^verbatim>\<open>verifiers_list.c\<close> uses: decimal printing and
  \<^verbatim>\<open>fscanf\<close> over a list of directives. \<^verbatim>\<open>fscanf\<close> processes directives in order; white space
  in the format skips white space, an ordinary character must match the next input character,
  a conversion skips white space and then takes an optional sign and the longest run of digits.
  A mismatch stops the scan and leaves the offending character unread (matching failure); the
  end of the input is an input failure, reported as EOF when nothing has been converted yet.
  Numbers too large for the conversion saturate at the limits of 64 bits before they are
  narrowed, as \<^verbatim>\<open>strtoul\<close> and \<^verbatim>\<open>strtol\<close> do.
\<close>

section \<open>Decimal numbers\<close>

definition dec_digit :: "nat \<Rightarrow> char" where
  "dec_digit d = char_of (48 + d)"

fun show_nat :: "nat \<Rightarrow> string" where
  "show_nat n = (if n < 10 then [dec_digit n] else show_nat (n div 10) @ [dec_digit (n mod 10)])"

declare show_nat.simps [simp del]

definition show_int :: "int \<Rightarrow> string" where
  "show_int i = (if i < 0 then CHR ''-'' # show_nat (nat (- i)) else show_nat (nat i))"

definition is_digit :: "char \<Rightarrow> bool" where
  "is_digit c \<longleftrightarrow> 48 \<le> (of_char c :: nat) \<and> (of_char c :: nat) \<le> 57"

definition digit_value :: "char \<Rightarrow> nat" where
  "digit_value c = of_char c - 48"

definition read_nat :: "string \<Rightarrow> nat" where
  "read_nat ds = foldl (\<lambda>a c. 10 * a + digit_value c) 0 ds"

lemma dec_digit_simps [simp]:
  assumes "d < 10"
  shows "is_digit (dec_digit d)" and "digit_value (dec_digit d) = d"
proof -
  have "(of_char (dec_digit d) :: nat) = 48 + d"
    using assms by (simp add: dec_digit_def of_char_of)
  then show "is_digit (dec_digit d)" and "digit_value (dec_digit d) = d"
    using assms by (simp_all add: is_digit_def digit_value_def)
qed

lemma show_nat_digits: "\<forall>c\<in>set (show_nat n). is_digit c"
proof (induction n rule: show_nat.induct)
  case (1 n)
  then show ?case by (subst show_nat.simps) auto
qed

lemma show_nat_nonempty [simp]: "show_nat n \<noteq> []"
  by (subst show_nat.simps) simp

lemma read_nat_show_nat [simp]: "read_nat (show_nat n) = n"
proof (induction n rule: show_nat.induct)
  case (1 n)
  show ?case
  proof (cases "n < 10")
    case True
    then show ?thesis by (subst show_nat.simps) (simp add: read_nat_def)
  next
    case False
    with 1 have "read_nat (show_nat (n div 10)) = n div 10" by simp
    then show ?thesis
      using False by (subst show_nat.simps) (simp add: read_nat_def)
  qed
qed

section \<open>fscanf\<close>

datatype scan_directive = Conv_u64 | Conv_d | Conv_u32 | Skip_Space | Lit char

type_synonym scan_vars = "u64 \<times> u32 \<times> u32"

definition is_space :: "char \<Rightarrow> bool" where
  "is_space c \<longleftrightarrow> c = CHR '' '' \<or> (9 \<le> (of_char c :: nat) \<and> (of_char c :: nat) \<le> 13)"

definition skip_space :: "string \<Rightarrow> string" where
  "skip_space s = dropWhile is_space s"

text \<open>An integer item: sign, digits, rest. No digits is a matching failure.\<close>

definition scan_sign :: "string \<Rightarrow> bool \<times> string" where
  "scan_sign s =
     (case s of
        c # r \<Rightarrow> if c = CHR ''-'' then (True, r) else if c = CHR ''+'' then (False, r) else (False, s)
      | [] \<Rightarrow> (False, []))"

definition scan_integer :: "string \<Rightarrow> (bool \<times> nat) option \<times> string" where
  "scan_integer s =
     (let (neg, r) = scan_sign s; ds = takeWhile is_digit r
      in (if ds = [] then None else Some (neg, read_nat ds), dropWhile is_digit r))"

definition strtoul_value :: "bool \<Rightarrow> nat \<Rightarrow> u64" where
  "strtoul_value neg n =
     (if n < 2 ^ 64 then (if neg then - of_nat n else of_nat n) else - 1)"

definition strtol_value :: "bool \<Rightarrow> nat \<Rightarrow> int" where
  "strtol_value neg n =
     (if neg then max (- (2 ^ 63)) (- int n) else min (2 ^ 63 - 1) (int n))"

definition EOF :: int where
  "EOF = - 1"

definition store_conversion ::
  "scan_directive \<Rightarrow> bool \<Rightarrow> nat \<Rightarrow> scan_vars \<Rightarrow> scan_vars" where
  "store_conversion d neg n vars =
     (case vars of (v1, v2, v3) \<Rightarrow>
        (case d of
           Conv_u64 \<Rightarrow> (strtoul_value neg n, v2, v3)
         | Conv_d \<Rightarrow> (v1, word_of_int (strtol_value neg n), v3)
         | Conv_u32 \<Rightarrow> (v1, v2, ucast (strtoul_value neg n))
         | _ \<Rightarrow> vars))"

fun fscanf :: "scan_directive list \<Rightarrow> nat \<Rightarrow> scan_vars \<Rightarrow> string \<Rightarrow> int \<times> scan_vars \<times> string" where
  "fscanf [] assigned vars s = (int assigned, vars, s)"
| "fscanf (Skip_Space # ds) assigned vars s = fscanf ds assigned vars (skip_space s)"
| "fscanf (Lit c # ds) assigned vars s =
     (case s of
        [] \<Rightarrow> (if assigned = 0 then EOF else int assigned, vars, [])
      | x # r \<Rightarrow> if x = c then fscanf ds assigned vars r else (int assigned, vars, s))"
| "fscanf (d # ds) assigned vars s =
     (case skip_space s of
        [] \<Rightarrow> (if assigned = 0 then EOF else int assigned, vars, [])
      | s' \<Rightarrow>
          (case scan_integer s' of
             (None, rest) \<Rightarrow> (int assigned, vars, rest)
           | (Some (neg, n), rest) \<Rightarrow>
               fscanf ds (Suc assigned) (store_conversion d neg n vars) rest))"

subsection \<open>Scanning what was printed\<close>

lemma digit_not_space: "is_digit c \<Longrightarrow> \<not> is_space c"
  by (auto simp: is_digit_def is_space_def)

lemma digit_not_sign: "is_digit c \<Longrightarrow> c \<noteq> CHR ''-'' \<and> c \<noteq> CHR ''+''"
  by (auto simp: is_digit_def)

lemma scan_integer_digits:
  assumes "ds \<noteq> []" and "\<forall>c\<in>set ds. is_digit c" and "\<not> is_digit x"
  shows "scan_integer (ds @ x # rest) = (Some (False, read_nat ds), x # rest)"
proof -
  obtain c cs where ds: "ds = c # cs" using assms(1) by (cases ds) auto
  with assms(2) digit_not_sign have "scan_sign (ds @ x # rest) = (False, ds @ x # rest)"
    by (simp add: scan_sign_def)
  moreover have "takeWhile is_digit (ds @ x # rest) = ds"
    and "dropWhile is_digit (ds @ x # rest) = x # rest"
    using assms by (simp_all add: takeWhile_append dropWhile_append)
  ultimately show ?thesis using assms(1) by (simp add: scan_integer_def)
qed

lemma scan_integer_show_nat:
  "\<not> is_digit x \<Longrightarrow> scan_integer (show_nat n @ x # rest) = (Some (False, n), x # rest)"
  using scan_integer_digits [of "show_nat n" x rest] show_nat_digits [of n] by simp

lemma scan_integer_show_int:
  assumes "\<not> is_digit x"
  shows "scan_integer (show_int i @ x # rest) = (Some (i < 0, nat \<bar>i\<bar>), x # rest)"
proof (cases "i < 0")
  case True
  let ?s = "show_nat (nat (- i)) @ x # rest"
  have "takeWhile is_digit ?s = show_nat (nat (- i))" and "dropWhile is_digit ?s = x # rest"
    using assms show_nat_digits by (simp_all add: takeWhile_append dropWhile_append)
  with True show ?thesis
    by (simp add: show_int_def scan_integer_def scan_sign_def)
next
  case False
  with scan_integer_show_nat [OF assms, of "nat i"] show ?thesis by (simp add: show_int_def)
qed

lemma skip_space_digit: "is_digit c \<Longrightarrow> skip_space (c # s) = c # s"
  by (simp add: skip_space_def digit_not_space)

lemma skip_space_show_nat [simp]: "skip_space (show_nat n @ s) = show_nat n @ s"
  using show_nat_digits [of n] skip_space_digit by (cases "show_nat n") auto

lemma skip_space_show_int [simp]: "skip_space (show_int i @ s) = show_int i @ s"
  by (simp add: show_int_def) (simp add: skip_space_def is_space_def)

lemma skip_space_Cons [simp]:
  "skip_space (c # s) = (if is_space c then skip_space s else c # s)"
  by (simp add: skip_space_def)

lemma show_int_nonempty [simp]: "show_int i \<noteq> []"
  by (simp add: show_int_def)

lemma char_classes [simp]:
  "is_space CHR '' ''" "\<not> is_space CHR '':''" "\<not> is_space CHR ''{''"
  "\<not> is_space CHR ''}''" "\<not> is_space CHR '',''"
  "\<not> is_digit CHR '' ''" "\<not> is_digit CHR '':''" "\<not> is_digit CHR ''{''"
  "\<not> is_digit CHR ''}''" "\<not> is_digit CHR '',''"
  by (simp_all add: is_space_def is_digit_def)

lemma strtoul_value_u64 [simp]: "strtoul_value False (unat (w :: u64)) = w"
  using unsigned_less [where 'a = nat, of w] by (simp add: strtoul_value_def)

lemma strtoul_value_u32 [simp]: "ucast (strtoul_value False (unat (w :: u32))) = w"
proof -
  have "unat w < 2 ^ 64" using unsigned_less [where 'a = nat, of w] by simp
  then show ?thesis
    by (simp add: strtoul_value_def word_unat_eq_iff unsigned_ucast_eq unsigned_of_nat take_bit_nat_eq_self take_bit_word_eq_self)
qed

lemma strtol_value_sint [simp]:
  "word_of_int (strtol_value (sint (w :: u32) < 0) (nat \<bar>sint w\<bar>)) = w"
proof -
  have "- (2 ^ 31) \<le> sint w" and "sint w < 2 ^ 31"
    using sint_range_size [of w] by (simp_all add: word_size)
  then have "strtol_value (sint w < 0) (nat \<bar>sint w\<bar>) = sint w"
    by (auto simp: strtol_value_def)
  then show ?thesis by simp
qed

end
