(* ===== verification/Verifiers_List.thy ===== *)
theory Verifiers_List
  imports C_Stdio
begin

text \<open>
  \<^verbatim>\<open>ra-additionals/verifiers_list.c\<close>: the manager's table of running verifier processes. Each
  entry counts the clients its process serves; the process is reported for killing when the
  last client goes. The table can be written to a file and parsed back. The linked list is a HOL
  list in link order. A parse that does not end is the value \<open>Inl No_Return\<close>.
\<close>

section \<open>State\<close>

record verifier =
  ver_id :: u64
  ver_clients :: u32
  ver_pid :: u32

record verifiers =
  verifiers_count :: u32
  verifiers_head :: "verifier list"

definition no_pid :: u32 where
  "no_pid = - 1"

section \<open>Operations\<close>

text \<open>The search loop every operation starts with.\<close>

fun ver_search :: "u64 \<Rightarrow> verifier list \<Rightarrow> verifier option" where
  "ver_search i [] = None"
| "ver_search i (v # vs) = (if ver_id v = i then Some v else ver_search i vs)"

definition insert_with_count ::
  "bool \<Rightarrow> verifiers \<Rightarrow> u64 \<Rightarrow> u32 \<Rightarrow> u32 \<Rightarrow> verifiers \<times> ra_result" where
  "insert_with_count malloc_ok l i pid count =
     (if ver_search i (verifiers_head l) \<noteq> None then (l, RA_ERROR_VERIFIER_ALREADY_PRESENT)
      else if \<not> malloc_ok then (l, RA_ERROR_MEMORY)
      else (l\<lparr>verifiers_head := \<lparr>ver_id = i, ver_clients = count, ver_pid = pid\<rparr> # verifiers_head l,
              verifiers_count := verifiers_count l + 1\<rparr>, RA_SUCCESS))"

definition RA_VER_create :: "bool \<Rightarrow> verifiers option" where
  "RA_VER_create malloc_ok =
     (if malloc_ok then Some \<lparr>verifiers_count = 0, verifiers_head = []\<rparr> else None)"

definition RA_VER_count :: "verifiers \<Rightarrow> u32" where
  "RA_VER_count l = verifiers_count l"

definition RA_VER_insert :: "bool \<Rightarrow> verifiers \<Rightarrow> u64 \<Rightarrow> u32 \<Rightarrow> verifiers \<times> ra_result" where
  "RA_VER_insert malloc_ok l i pid =
     (if ver_search i (verifiers_head l) \<noteq> None then (l, RA_ERROR_VERIFIER_ALREADY_PRESENT)
      else if \<not> malloc_ok then (l, RA_ERROR_MEMORY)
      else (l\<lparr>verifiers_head := \<lparr>ver_id = i, ver_clients = 1, ver_pid = pid\<rparr> # verifiers_head l,
              verifiers_count := verifiers_count l + 1\<rparr>, RA_SUCCESS))"

fun ver_increment :: "u64 \<Rightarrow> verifier list \<Rightarrow> verifier list" where
  "ver_increment i [] = []"
| "ver_increment i (v # vs) =
     (if ver_id v = i then v\<lparr>ver_clients := ver_clients v + 1\<rparr> # vs else v # ver_increment i vs)"

definition RA_VER_update :: "verifiers \<Rightarrow> u64 \<Rightarrow> verifiers \<times> ra_result" where
  "RA_VER_update l i =
     (if ver_search i (verifiers_head l) \<noteq> None
      then (l\<lparr>verifiers_head := ver_increment i (verifiers_head l)\<rparr>, RA_SUCCESS)
      else (l, RA_ERROR_VERIFIER_NOT_FOUND))"

definition RA_VER_is_running :: "verifiers \<Rightarrow> u64 \<Rightarrow> int" where
  "RA_VER_is_running l i =
     (case ver_search i (verifiers_head l) of Some v \<Rightarrow> sint (ver_clients v) | None \<Rightarrow> 0)"

definition RA_VER_get_pid :: "verifiers \<Rightarrow> u64 \<Rightarrow> u32" where
  "RA_VER_get_pid l i =
     (case ver_search i (verifiers_head l) of Some v \<Rightarrow> ver_pid v | None \<Rightarrow> no_pid)"

text \<open>Unlinking: the head, or the successor found by the loop over \<^verbatim>\<open>iterator->next\<close>.\<close>

fun ver_unlink :: "u64 \<Rightarrow> verifier list \<Rightarrow> verifier list" where
  "ver_unlink i [] = []"
| "ver_unlink i (v # vs) = (if ver_id v = i then vs else v # ver_unlink i vs)"

definition RA_VER_remove :: "verifiers \<Rightarrow> u64 \<Rightarrow> verifiers \<times> u32" where
  "RA_VER_remove l i =
     (if verifiers_head l = [] \<or> verifiers_count l = 0 then (l, no_pid)
      else (case ver_search i (verifiers_head l) of
              None \<Rightarrow> (l, no_pid)
            | Some v \<Rightarrow>
                (l\<lparr>verifiers_head := ver_unlink i (verifiers_head l),
                   verifiers_count := verifiers_count l - 1\<rparr>, ver_pid v)))"

fun ver_decrement :: "u64 \<Rightarrow> verifier list \<Rightarrow> verifier list" where
  "ver_decrement i [] = []"
| "ver_decrement i (v # vs) =
     (if ver_id v = i then v\<lparr>ver_clients := ver_clients v - 1\<rparr> # vs else v # ver_decrement i vs)"

definition RA_VER_dec_clients :: "verifiers \<Rightarrow> u64 \<Rightarrow> verifiers \<times> u32 \<times> ra_result" where
  "RA_VER_dec_clients l i =
     (if verifiers_head l = [] \<or> verifiers_count l = 0 then (l, no_pid, RA_ERROR_VERIFIER_NOT_FOUND)
      else (case ver_search i (verifiers_head l) of
              None \<Rightarrow> (l, no_pid, RA_ERROR_VERIFIER_NOT_FOUND)
            | Some v \<Rightarrow>
                if ver_clients v - 1 = 0
                then (l\<lparr>verifiers_head := ver_unlink i (verifiers_head l),
                        verifiers_count := verifiers_count l - 1\<rparr>, ver_pid v, RA_SUCCESS)
                else (l\<lparr>verifiers_head := ver_decrement i (verifiers_head l)\<rparr>, no_pid, RA_SUCCESS)))"

subsection \<open>The file format\<close>

text \<open>The line \<^verbatim>\<open>"%PRIu64 : { %d , %PRIu32 }"\<close> of the writer, and the reader's directives.\<close>

definition ver_print :: "verifier \<Rightarrow> string" where
  "ver_print v = show_nat (unat (ver_id v)) @ '' : { '' @ show_int (sint (ver_pid v)) @ '' , ''
                 @ show_nat (unat (ver_clients v)) @ '' }''"

definition RA_VER_serialize :: "verifiers \<Rightarrow> string" where
  "RA_VER_serialize l = concat (map ver_print (verifiers_head l))"

definition ver_directives :: "scan_directive list" where
  "ver_directives =
     [Conv_u64, Skip_Space, Lit CHR '':'', Skip_Space, Lit CHR ''{'', Skip_Space,
      Conv_d, Skip_Space, Lit CHR '','', Skip_Space, Conv_u32, Lit CHR ''}'']"

text \<open>
  The parse loop. The three variables keep their values when a scan stops early, and the
  initial ones are whatever the stack holds. \<open>alloc k\<close> tells whether the \<open>k\<close>-th \<^verbatim>\<open>malloc\<close>
  would succeed.
\<close>

partial_function (option) ver_parse_loop ::
  "(nat \<Rightarrow> bool) \<Rightarrow> nat \<Rightarrow> scan_vars \<Rightarrow> string \<Rightarrow> verifiers option \<Rightarrow> verifiers option run option"
where
  "ver_parse_loop alloc k vars s l =
     (case fscanf ver_directives 0 vars s of (r, vars', s') \<Rightarrow>
        if r = EOF then Some (Inr l)
        else (case l of
                None \<Rightarrow> Some (Inl Null_Deref)
              | Some vl \<Rightarrow>
                  ver_parse_loop alloc (Suc k) vars' s'
                    (Some (fst (insert_with_count (alloc k) vl
                                  (fst vars') (fst (snd vars')) (snd (snd vars')))))))"

definition RA_VER_parse ::
  "bool \<Rightarrow> (nat \<Rightarrow> bool) \<Rightarrow> scan_vars \<Rightarrow> string option \<Rightarrow> verifiers option run" where
  "RA_VER_parse malloc_ok alloc vars file =
     bind_run (deref file) (\<lambda>s.
       case ver_parse_loop alloc 0 vars s (RA_VER_create malloc_ok) of
         None \<Rightarrow> Inl No_Return
       | Some r \<Rightarrow> r)"

section \<open>Invariant\<close>

definition ver_wf :: "verifiers \<Rightarrow> bool" where
  "ver_wf l \<longleftrightarrow> distinct (map ver_id (verifiers_head l))
     \<and> length (verifiers_head l) < 2 ^ 32
     \<and> verifiers_count l = of_nat (length (verifiers_head l))"

text \<open>The abstraction: which process serves an application, for how many clients.\<close>

definition ver_map :: "verifiers \<Rightarrow> u64 \<rightharpoonup> (u32 \<times> u32)" where
  "ver_map l i = map_option (\<lambda>v. (ver_pid v, ver_clients v)) (ver_search i (verifiers_head l))"

lemma ver_search_None: "ver_search i vs = None \<longleftrightarrow> i \<notin> ver_id ` set vs"
  by (induction vs) auto

lemma ver_search_Some: "ver_search i vs = Some v \<Longrightarrow> v \<in> set vs \<and> ver_id v = i"
  by (induction vs) (auto split: if_splits)

lemma ver_ids [simp]:
  "map ver_id (ver_increment i vs) = map ver_id vs"
  "map ver_id (ver_decrement i vs) = map ver_id vs"
  by (induction vs) auto

lemma ver_lengths [simp]:
  "length (ver_increment i vs) = length vs"
  "length (ver_decrement i vs) = length vs"
  by (induction vs) auto

lemma ver_unlink_ids: "map ver_id (ver_unlink i vs) = remove1 i (map ver_id vs)"
  by (induction vs) auto

lemma ver_unlink_length:
  "ver_search i vs \<noteq> None \<Longrightarrow> Suc (length (ver_unlink i vs)) = length vs"
  by (induction vs) (auto split: if_splits)

lemma ver_search_increment:
  "ver_search j (ver_increment i vs) =
     (if j = i then map_option (\<lambda>v. v\<lparr>ver_clients := ver_clients v + 1\<rparr>) (ver_search i vs)
      else ver_search j vs)"
  by (induction vs) auto

lemma ver_search_decrement:
  "ver_search j (ver_decrement i vs) =
     (if j = i then map_option (\<lambda>v. v\<lparr>ver_clients := ver_clients v - 1\<rparr>) (ver_search i vs)
      else ver_search j vs)"
  by (induction vs) auto

lemma ver_search_unlink:
  "distinct (map ver_id vs) \<Longrightarrow>
   ver_search j (ver_unlink i vs) = (if j = i then None else ver_search j vs)"
  by (induction vs) (auto simp: ver_search_None)

lemma ver_wf_count_zero: "ver_wf l \<Longrightarrow> verifiers_count l = 0 \<longleftrightarrow> verifiers_head l = []"
  by (auto simp: ver_wf_def word_of_nat_eq_0_iff dest: dvd_imp_le)

lemma ver_wf_unlink:
  assumes "ver_wf l" and "ver_search i (verifiers_head l) \<noteq> None"
  shows "ver_wf (l\<lparr>verifiers_head := ver_unlink i (verifiers_head l),
                   verifiers_count := verifiers_count l - 1\<rparr>)"
proof -
  have len: "length (verifiers_head l) = Suc (length (ver_unlink i (verifiers_head l)))"
    using ver_unlink_length [OF assms(2)] by simp
  show ?thesis using assms(1) len by (simp add: ver_wf_def ver_unlink_ids)
qed

lemma ver_wf_insert [inv_intros]:
  "ver_wf l \<Longrightarrow> length (verifiers_head l) < 2 ^ 32 - 1 \<Longrightarrow> ver_wf (fst (RA_VER_insert ok l i pid))"
  by (auto simp: ver_wf_def RA_VER_insert_def ver_search_None)

lemma ver_wf_insert_count [inv_intros]:
  "ver_wf l \<Longrightarrow> length (verifiers_head l) < 2 ^ 32 - 1 \<Longrightarrow>
   ver_wf (fst (insert_with_count ok l i pid c))"
  by (auto simp: ver_wf_def insert_with_count_def ver_search_None)

lemma ver_wf_update [inv_intros]: "ver_wf l \<Longrightarrow> ver_wf (fst (RA_VER_update l i))"
  by (auto simp: ver_wf_def RA_VER_update_def)

lemma ver_wf_remove [inv_intros]: "ver_wf l \<Longrightarrow> ver_wf (fst (RA_VER_remove l i))"
  by (auto simp: RA_VER_remove_def intro: ver_wf_unlink split: option.splits)

lemma ver_wf_decrement:
  "ver_wf l \<Longrightarrow> ver_wf (l\<lparr>verifiers_head := ver_decrement i (verifiers_head l)\<rparr>)"
  by (simp add: ver_wf_def)

lemma ver_wf_dec_clients [inv_intros]: "ver_wf l \<Longrightarrow> ver_wf (fst (RA_VER_dec_clients l i))"
  by (auto simp: RA_VER_dec_clients_def intro: ver_wf_unlink ver_wf_decrement split: option.splits)

section \<open>Every operation on the map of running processes\<close>

lemma ver_map_insert [abs_simps]:
  "ver_map (fst (RA_VER_insert ok l i pid)) =
     (if ver_map l i = None \<and> ok then (ver_map l)(i \<mapsto> (pid, 1)) else ver_map l)"
  by (auto simp: ver_map_def RA_VER_insert_def)

lemma ver_map_update [abs_simps]:
  "ver_map (fst (RA_VER_update l i)) =
     (ver_map l)(i := map_option (\<lambda>(p, c). (p, c + 1)) (ver_map l i))"
  by (auto simp: ver_map_def RA_VER_update_def ver_search_increment option.map_comp comp_def fun_eq_iff
      split: option.splits)

lemma ver_map_remove [abs_simps]:
  "ver_wf l \<Longrightarrow> ver_map (fst (RA_VER_remove l i)) = (ver_map l)(i := None)"
  using ver_wf_count_zero [of l]
  by (auto simp: ver_map_def RA_VER_remove_def ver_wf_def ver_search_unlink fun_eq_iff
      split: option.splits)

lemma ver_map_dec_clients [abs_simps]:
  assumes "ver_wf l"
  shows "ver_map (fst (RA_VER_dec_clients l i)) =
     (case ver_map l i of
        None \<Rightarrow> ver_map l
      | Some (p, c) \<Rightarrow> if c = 1 then (ver_map l)(i := None) else (ver_map l)(i \<mapsto> (p, c - 1)))"
proof (cases "verifiers_head l = []")
  case True
  then show ?thesis by (simp add: ver_map_def RA_VER_dec_clients_def)
next
  case False
  with assms have "verifiers_count l \<noteq> 0" by (simp add: ver_wf_count_zero)
  moreover from assms have "distinct (map ver_id (verifiers_head l))" by (simp add: ver_wf_def)
  ultimately show ?thesis using False
    by (auto simp: ver_map_def RA_VER_dec_clients_def ver_search_unlink ver_search_decrement fun_eq_iff
        split: option.splits)
qed

lemma ver_dec_clients_result:
  assumes "ver_wf l"
  shows "snd (RA_VER_dec_clients l i) =
     (case ver_map l i of
        None \<Rightarrow> (no_pid, RA_ERROR_VERIFIER_NOT_FOUND)
      | Some (p, c) \<Rightarrow> (if c = 1 then p else no_pid, RA_SUCCESS))"
proof (cases "verifiers_head l = []")
  case True
  then show ?thesis by (simp add: ver_map_def RA_VER_dec_clients_def)
next
  case False
  with assms have "verifiers_count l \<noteq> 0" by (simp add: ver_wf_count_zero)
  with False show ?thesis
    by (auto simp: ver_map_def RA_VER_dec_clients_def split: option.splits)
qed

lemma RA_VER_get_pid_map [abs_simps]:
  "RA_VER_get_pid l i = (case ver_map l i of None \<Rightarrow> no_pid | Some (p, c) \<Rightarrow> p)"
  by (simp add: RA_VER_get_pid_def ver_map_def split: option.splits)

lemma RA_VER_is_running_map [abs_simps]:
  "RA_VER_is_running l i = (case ver_map l i of None \<Rightarrow> 0 | Some (p, c) \<Rightarrow> sint c)"
  by (simp add: RA_VER_is_running_def ver_map_def split: option.splits)

text \<open>A history of calls for one application, and the processes reported for killing.\<close>

fun ver_updates :: "nat \<Rightarrow> u64 \<Rightarrow> verifiers \<Rightarrow> verifiers" where
  "ver_updates 0 i l = l"
| "ver_updates (Suc n) i l = ver_updates n i (fst (RA_VER_update l i))"

fun ver_decs :: "nat \<Rightarrow> u64 \<Rightarrow> verifiers \<Rightarrow> verifiers \<times> u32 list" where
  "ver_decs 0 i l = (l, [])"
| "ver_decs (Suc n) i l =
     (let (l', p, r) = RA_VER_dec_clients l i; (l'', ps) = ver_decs n i l' in (l'', p # ps))"

lemma ver_updates_map:
  "ver_map l i = Some (p, c) \<Longrightarrow>
   ver_map (ver_updates n i l) = (ver_map l)(i \<mapsto> (p, c + of_nat n))"
  by (induction n arbitrary: l c) (simp_all add: abs_simps fun_upd_idem ac_simps)

lemma ver_wf_updates: "ver_wf l \<Longrightarrow> ver_wf (ver_updates n i l)"
  by (induction n arbitrary: l) (simp_all add: ver_wf_update)

lemma ver_decs_map:
  assumes "ver_wf l" and "ver_map l i = Some (p, of_nat (Suc n))" and "Suc n < 2 ^ 32"
  shows "ver_map (fst (ver_decs (Suc n) i l)) = (ver_map l)(i := None)
       \<and> snd (ver_decs (Suc n) i l) = replicate n no_pid @ [p]"
  using assms
proof (induction n arbitrary: l)
  case 0
  obtain l' q r where d: "RA_VER_dec_clients l i = (l', q, r)" by (cases "RA_VER_dec_clients l i")
  with 0 ver_map_dec_clients [of l i] ver_dec_clients_result [of l i]
  show ?case by simp
next
  case (Suc n)
  obtain l' q r where d: "RA_VER_dec_clients l i = (l', q, r)" by (cases "RA_VER_dec_clients l i")
  have "(of_nat (Suc (Suc n)) :: u32) \<noteq> 1"
    using Suc.prems(3) by (simp add: word_of_nat_eq_iff word_unat_eq_iff unsigned_of_nat take_bit_nat_eq_self
        del: of_nat_Suc)
  then have l': "ver_map l' = (ver_map l)(i \<mapsto> (p, of_nat (Suc n)))" and q: "q = no_pid"
    using ver_map_dec_clients [of l i] ver_dec_clients_result [of l i] d Suc.prems by simp_all
  have "ver_wf l'" using ver_wf_dec_clients [of l i] d Suc.prems(1) by simp
  moreover have "ver_map l' i = Some (p, of_nat (Suc n))" by (simp only: l' fun_upd_same)
  ultimately have "ver_map (fst (ver_decs (Suc n) i l')) = (ver_map l')(i := None)
       \<and> snd (ver_decs (Suc n) i l') = replicate n no_pid @ [p]"
    using Suc.prems(3) by (intro Suc.IH) simp_all
  then have IH: "ver_map (fst (ver_decs (Suc n) i l')) = (ver_map l)(i := None)"
    "snd (ver_decs (Suc n) i l') = replicate n no_pid @ [p]"
    by (simp_all only: l' fun_upd_upd)
  have step: "ver_decs (Suc (Suc n)) i l
      = (fst (ver_decs (Suc n) i l'), q # snd (ver_decs (Suc n) i l'))"
    by (simp only: ver_decs.simps(2) [of "Suc n"] d Let_def prod.case split_beta fst_conv snd_conv)
  show ?case unfolding step using IH q by simp
qed

text \<open>A verifier process registered for an application that has none, then counted for
  \<open>n\<close> more clients, is kept while its clients leave: the first \<open>n\<close> calls of
  \<^verbatim>\<open>RA_VER_dec_clients\<close> report no process, the next one reports exactly its pid, and the table
  is back to the processes it ran before.\<close>

theorem RA_VER_client_counting:
  assumes "ver_wf l" and "length (verifiers_head l) < 2 ^ 32 - 1"
    and "ver_map l i = None" and "Suc n < 2 ^ 32"
  shows "let l' = ver_updates n i (fst (RA_VER_insert True l i pid));
             (l'', killed) = ver_decs (Suc n) i l'
         in ver_map l'' = ver_map l \<and> killed = replicate n no_pid @ [pid]"
proof -
  let ?k = "fst (RA_VER_insert True l i pid)"
  have "ver_map ?k = (ver_map l)(i \<mapsto> (pid, 1))" using assms(3) by (simp add: ver_map_insert)
  then have "ver_map (ver_updates n i ?k) = (ver_map l)(i \<mapsto> (pid, of_nat (Suc n)))"
    by (simp add: ver_updates_map [of _ i pid 1])
  moreover have "ver_wf (ver_updates n i ?k)" by (intro ver_wf_updates ver_wf_insert assms)
  ultimately show ?thesis
    using ver_decs_map [of "ver_updates n i ?k" i pid n] assms(3,4)
    by (simp add: Let_def split_beta fun_upd_idem del: ver_decs.simps)
qed

theorem RA_VER_client_counting_witness:
  "snd (ver_decs (Suc 2) 7 (ver_updates 2 7
          (fst (RA_VER_insert True \<lparr>verifiers_count = 0, verifiers_head = []\<rparr> 7 4711))))
     = replicate 2 no_pid @ [4711]"
  using RA_VER_client_counting [of "\<lparr>verifiers_count = 0, verifiers_head = []\<rparr>" 7 2 4711]
  by (simp add: ver_wf_def ver_map_def Let_def split_beta del: ver_decs.simps ver_updates.simps)

section \<open>Serialize and parse\<close>

text \<open>One scan of a line as the reader's format wants it, without the blank before the brace.\<close>

definition ver_print_scannable :: "verifier \<Rightarrow> string" where
  "ver_print_scannable v =
     show_nat (unat (ver_id v)) @ '' : { '' @ show_int (sint (ver_pid v)) @ '' , ''
       @ show_nat (unat (ver_clients v)) @ ''}''"

lemma fscanf_conv:
  assumes "d \<in> {Conv_u64, Conv_d, Conv_u32}" and "skip_space s = s" and "s \<noteq> []"
    and "scan_integer s = (Some (neg, n), rest)"
  shows "fscanf (d # ds) k vars s = fscanf ds (Suc k) (store_conversion d neg n vars) rest"
  using assms by (cases s) (auto simp del: skip_space_Cons)

lemma fscanf_conv_nat:
  "d = Conv_u64 \<or> d = Conv_u32 \<Longrightarrow> \<not> is_digit x \<Longrightarrow>
   fscanf (d # ds) k vars (show_nat n @ x # rest)
     = fscanf ds (Suc k) (store_conversion d False n vars) (x # rest)"
  by (rule fscanf_conv) (auto simp: scan_integer_show_nat)

lemma fscanf_conv_int:
  "\<not> is_digit x \<Longrightarrow>
   fscanf (Conv_d # ds) k vars (show_int i @ x # rest)
     = fscanf ds (Suc k) (store_conversion Conv_d (i < 0) (nat \<bar>i\<bar>) vars) (x # rest)"
  by (rule fscanf_conv) (simp_all add: scan_integer_show_int)

lemma skip_space_Nil [simp]: "skip_space [] = []"
  by (simp add: skip_space_def)

lemma fscanf_prefix:
  assumes "\<not> is_digit x"
  shows "fscanf ver_directives 0 vars
     (show_nat (unat (ver_id v)) @ '' : { '' @ show_int (sint (ver_pid v)) @ '' , ''
        @ show_nat (unat (ver_clients v)) @ x # rest) =
     (3, (ver_id v, ver_pid v, ver_clients v), if x = CHR ''}'' then rest else x # rest)"
  using assms
  by (simp add: ver_directives_def fscanf_conv_nat fscanf_conv_int store_conversion_def split_beta
      del: fscanf.simps(4-6))

lemma fscanf_scannable:
  "fscanf ver_directives 0 vars (ver_print_scannable v @ rest)
     = (3, (ver_id v, ver_pid v, ver_clients v), rest)"
  using fscanf_prefix [of "CHR ''}''" vars v rest] by (simp add: ver_print_scannable_def)

lemma fscanf_printed:
  "fscanf ver_directives 0 vars (ver_print v @ rest)
     = (3, (ver_id v, ver_pid v, ver_clients v), '' }'' @ rest)"
  using fscanf_prefix [of "CHR '' ''" vars v "CHR ''}'' # rest"] by (simp add: ver_print_def)

lemma fscanf_stuck:
  "fscanf ver_directives 0 vars ('' }'' @ rest) = (0, vars, CHR ''}'' # rest)"
  "fscanf ver_directives 0 vars (CHR ''}'' # rest) = (0, vars, CHR ''}'' # rest)"
  by (simp_all add: ver_directives_def scan_integer_def scan_sign_def)

lemma fscanf_empty: "fscanf ver_directives 0 vars [] = (EOF, vars, [])"
  by (simp add: ver_directives_def)

text \<open>Once a scan stands on a brace the loop makes no progress: there is no result.\<close>

lemma ver_parse_loop_stuck:
  "ver_parse_loop alloc k vars (CHR ''}'' # rest) (Some vl) = None"
proof -
  have "ver_parse_loop alloc k vars s l = Some r \<Longrightarrow>
        hd s = CHR ''}'' \<and> s \<noteq> [] \<and> l \<noteq> None \<longrightarrow> False" for alloc k vars s l r
  proof (induction alloc k vars s l r rule: ver_parse_loop.raw_induct [rotated, consumes 1, case_names step])
    case (step f alloc k vars s l r)
    show ?case
    proof
      assume a: "hd s = CHR ''}'' \<and> s \<noteq> [] \<and> l \<noteq> None"
      then obtain t vl where "s = CHR ''}'' # t" and "l = Some vl" by (cases s) auto
      with step.hyps a show False
        using step.IH by (fastforce simp: fscanf_stuck EOF_def)
    qed
  qed
  then show ?thesis by (cases "ver_parse_loop alloc k vars (CHR ''}'' # rest) (Some vl)") fastforce+
qed

text \<open>Reading back what was written never ends: the writer puts a blank before the closing
  brace, the reader's format has none there, so after the first entry every \<^verbatim>\<open>fscanf\<close> stops at
  the brace with result 0, which the loop does not take for the end of the file. It holds for
  every table with at least one process.\<close>

theorem RA_VER_parse_serialize_diverges:
  assumes "verifiers_head l \<noteq> []"
  shows "RA_VER_parse True alloc vars (Some (RA_VER_serialize l)) = Inl No_Return"
proof -
  from assms obtain v vs where l: "verifiers_head l = v # vs" by (cases "verifiers_head l") auto
  let ?rest = "'' }'' @ concat (map ver_print vs)"
  let ?e = "\<lparr>verifiers_count = 0, verifiers_head = []\<rparr>"
  have "ver_parse_loop alloc 1 vars' ?rest (Some vl) = None" for vars' vl
    using ver_parse_loop_stuck [of alloc 2]
    by (subst ver_parse_loop.simps)
      (simp only: fscanf_stuck prod.case EOF_def option.case, simp add: eval_nat_numeral)
  moreover have "RA_VER_serialize l = ver_print v @ concat (map ver_print vs)"
    by (simp add: RA_VER_serialize_def l)
  ultimately have "ver_parse_loop alloc 0 vars (RA_VER_serialize l) (Some ?e) = None"
    by (subst ver_parse_loop.simps) (simp only: fscanf_printed prod.case EOF_def option.case, simp)
  then show ?thesis by (simp add: RA_VER_parse_def RA_VER_create_def)
qed

theorem RA_VER_parse_serialize_diverges_witness:
  "RA_VER_parse True (\<lambda>k. True) (0, 0, 0)
     (Some (RA_VER_serialize \<lparr>verifiers_count = 1,
              verifiers_head = [\<lparr>ver_id = 7, ver_clients = 1, ver_pid = 4711\<rparr>]\<rparr>)) = Inl No_Return"
  by (rule RA_VER_parse_serialize_diverges) simp

lemma ver_parse_loop_scannable:
  assumes "distinct (map ver_id (rev vs @ verifiers_head vl))"
  shows "ver_parse_loop (\<lambda>k. True) k vars (concat (map ver_print_scannable vs)) (Some vl)
     = Some (Inr (Some \<lparr>verifiers_count = verifiers_count vl + of_nat (length vs),
                        verifiers_head = rev vs @ verifiers_head vl\<rparr>))"
  using assms
proof (induction vs arbitrary: k vars vl)
  case Nil
  show ?case by (subst ver_parse_loop.simps) (simp add: fscanf_empty)
next
  case (Cons v vs)
  let ?vl = "\<lparr>verifiers_count = verifiers_count vl + 1, verifiers_head = v # verifiers_head vl\<rparr>"
  have "fst (insert_with_count True vl (ver_id v) (ver_pid v) (ver_clients v)) = ?vl"
    using Cons.prems by (auto simp: insert_with_count_def ver_search_None)
  then show ?case
    using Cons.IH [of ?vl] Cons.prems
    by (subst ver_parse_loop.simps) (auto simp: fscanf_scannable EOF_def ac_simps)
qed

text \<open>On the format the reader really accepts (no blank before the brace) the parser
  returns, and it rebuilds the table, in reverse order of the file.\<close>

theorem RA_VER_parse_reads_its_format:
  assumes "distinct (map ver_id vs)"
  shows "RA_VER_parse True (\<lambda>k. True) vars (Some (concat (map ver_print_scannable vs)))
     = Inr (Some \<lparr>verifiers_count = of_nat (length vs), verifiers_head = rev vs\<rparr>)"
  using ver_parse_loop_scannable [of vs "\<lparr>verifiers_count = 0, verifiers_head = []\<rparr>" 0 vars] assms
  by (simp add: RA_VER_parse_def RA_VER_create_def rev_map [symmetric])

theorem RA_VER_parse_reads_its_format_witness:
  "RA_VER_parse True (\<lambda>k. True) (0, 0, 0)
     (Some (ver_print_scannable \<lparr>ver_id = 7, ver_clients = 3, ver_pid = 4711\<rparr>))
   = Inr (Some \<lparr>verifiers_count = 1, verifiers_head = [\<lparr>ver_id = 7, ver_clients = 3, ver_pid = 4711\<rparr>]\<rparr>)"
  using RA_VER_parse_reads_its_format [of "[\<lparr>ver_id = 7, ver_clients = 3, ver_pid = 4711\<rparr>]" "(0, 0, 0)"]
  by simp

end
