(* ===== verification/Linked_List.thy ===== *)
theory Linked_List
  imports RA_Prelude
begin

text \<open>
  The doubly linked list that \<^verbatim>\<open>ra_memory.c\<close> (blocks of an area) and \<^verbatim>\<open>ra_data_table.c\<close> (areas of
  the table) both build by hand: cells at addresses, a head and a tail pointer, insertion at the
  tail, a walk along the next pointers, and the unlinking that both files use, which frees a cell
  without touching head and tail. A cell that was freed is no longer in the heap, so reaching it
  is the fault \<open>Use_After_Free\<close>.
\<close>

section \<open>Cells and lists\<close>

type_synonym addr = nat

record 'a cell =
  cell_item :: 'a
  cell_next :: "addr option"
  cell_prev :: "addr option"

type_synonym 'a heap = "addr \<Rightarrow> 'a cell option"

record 'a dll =
  dll_heap :: "'a heap"
  dll_head :: "addr option"
  dll_tail :: "addr option"
  dll_fresh :: addr

definition dll_empty :: "'a dll" where
  "dll_empty = \<lparr>dll_heap = (\<lambda>_. None), dll_head = None, dll_tail = None, dll_fresh = 0\<rparr>"

definition load :: "'a heap \<Rightarrow> addr option \<Rightarrow> 'a cell run" where
  "load h p = bind_run (deref p) (\<lambda>a. case h a of None \<Rightarrow> Inl Use_After_Free | Some c \<Rightarrow> Inr c)"

text \<open>Insertion: into the empty list, or behind the tail.\<close>

definition dll_append :: "'a \<Rightarrow> 'a dll \<Rightarrow> 'a dll run" where
  "dll_append x d =
     (let a = dll_fresh d in
      if dll_head d = None \<and> dll_tail d = None
      then Inr (d\<lparr>dll_heap := (dll_heap d)(a \<mapsto> \<lparr>cell_item = x, cell_next = None, cell_prev = None\<rparr>),
                  dll_head := Some a, dll_tail := Some a, dll_fresh := Suc a\<rparr>)
      else bind_run (deref (dll_tail d)) (\<lambda>t.
           bind_run (load (dll_heap d) (Some t)) (\<lambda>c.
             Inr (d\<lparr>dll_heap := (dll_heap d)(t \<mapsto> c\<lparr>cell_next := Some a\<rparr>,
                       a \<mapsto> \<lparr>cell_item = x, cell_next = None, cell_prev = dll_tail d\<rparr>),
                    dll_tail := Some a, dll_fresh := Suc a\<rparr>))))"

text \<open>
  A walk along the next pointers: the addresses and items it meets and how it ends, at NULL
  (\<open>None\<close>) or in a fault. The fuel is the number of addresses ever handed out, so a walk
  that outlives it has met a cell twice.
\<close>

fun dll_steps :: "nat \<Rightarrow> 'a heap \<Rightarrow> addr option \<Rightarrow> (addr \<times> 'a) list \<times> fault option" where
  "dll_steps n h None = ([], None)"
| "dll_steps 0 h (Some a) = ([], Some No_Return)"
| "dll_steps (Suc n) h (Some a) =
     (case h a of
        None \<Rightarrow> ([], Some Use_After_Free)
      | Some c \<Rightarrow> (let (ws, e) = dll_steps n h (cell_next c) in ((a, cell_item c) # ws, e)))"

definition dll_walk :: "'a dll \<Rightarrow> (addr \<times> 'a) list \<times> fault option" where
  "dll_walk d = dll_steps (dll_fresh d) (dll_heap d) (dll_head d)"

text \<open>A search loop that tests for NULL before it looks at the cell.\<close>

fun walk_find :: "('a \<Rightarrow> bool) \<Rightarrow> (addr \<times> 'a) list \<times> fault option \<Rightarrow> (addr \<times> 'a) option run" where
  "walk_find P ([], None) = Inr None"
| "walk_find P ([], Some e) = Inl e"
| "walk_find P ((a, x) # ws, e) = (if P x then Inr (Some (a, x)) else walk_find P (ws, e))"

text \<open>A search loop that looks at the cell before it tests for NULL.\<close>

fun walk_find_unguarded :: "('a \<Rightarrow> bool) \<Rightarrow> (addr \<times> 'a) list \<times> fault option \<Rightarrow> (addr \<times> 'a) run" where
  "walk_find_unguarded P ([], None) = Inl Null_Deref"
| "walk_find_unguarded P ([], Some e) = Inl e"
| "walk_find_unguarded P ((a, x) # ws, e) =
     (if P x then Inr (a, x) else walk_find_unguarded P (ws, e))"

text \<open>The removal both files use: neighbours are relinked, the cell is freed, head and tail
  stay.\<close>

definition set_prev :: "addr option \<Rightarrow> addr option \<Rightarrow> 'a heap \<Rightarrow> 'a heap run" where
  "set_prev p v h =
     (case p of None \<Rightarrow> Inr h
      | Some a \<Rightarrow> bind_run (load h (Some a)) (\<lambda>c. Inr (h(a \<mapsto> c\<lparr>cell_prev := v\<rparr>))))"

definition set_next :: "addr option \<Rightarrow> addr option \<Rightarrow> 'a heap \<Rightarrow> 'a heap run" where
  "set_next p v h =
     (case p of None \<Rightarrow> Inr h
      | Some a \<Rightarrow> bind_run (load h (Some a)) (\<lambda>c. Inr (h(a \<mapsto> c\<lparr>cell_next := v\<rparr>))))"

definition dll_unlink :: "addr \<Rightarrow> 'a dll \<Rightarrow> 'a dll run" where
  "dll_unlink a d =
     bind_run (load (dll_heap d) (Some a)) (\<lambda>c.
     bind_run (set_prev (cell_next c) (cell_prev c) (dll_heap d)) (\<lambda>h.
     bind_run (set_next (cell_prev c) (cell_next c) h) (\<lambda>h'.
       Inr (d\<lparr>dll_heap := h'(a := None)\<rparr>))))"

section \<open>Healthy lists\<close>

definition first :: "addr option \<Rightarrow> addr list \<Rightarrow> addr option" where
  "first q as = (case as of [] \<Rightarrow> q | b # _ \<Rightarrow> Some b)"

lemma first_simps [simp]: "first q [] = q" "first q (b # bs) = Some b"
  by (simp_all add: first_def)

lemma first_append: "first q (as @ bs) = first (first q bs) as"
  by (cases as) simp_all

definition last_of :: "addr option \<Rightarrow> addr list \<Rightarrow> addr option" where
  "last_of p as = (if as = [] then p else Some (last as))"

lemma last_of_simps [simp]:
  "last_of p [] = p" "last_of p (a # as) = last_of (Some a) as" "last_of p (as @ [a]) = Some a"
  by (simp_all add: last_of_def)

lemma last_of_append: "last_of p (as @ bs) = last_of (last_of p as) bs"
  by (induction as arbitrary: p) simp_all

text \<open>The segment of cells \<open>as\<close> with items \<open>xs\<close>, entered from \<open>p\<close> and left to \<open>q\<close>.\<close>

fun lseg :: "'a heap \<Rightarrow> addr option \<Rightarrow> addr list \<Rightarrow> 'a list \<Rightarrow> addr option \<Rightarrow> bool" where
  "lseg h p [] [] q \<longleftrightarrow> True"
| "lseg h p (a # as) (x # xs) q \<longleftrightarrow>
     h a = Some \<lparr>cell_item = x, cell_next = first q as, cell_prev = p\<rparr> \<and> lseg h (Some a) as xs q"
| "lseg h p _ _ q \<longleftrightarrow> False"

definition dll_at :: "'a dll \<Rightarrow> addr list \<Rightarrow> 'a list \<Rightarrow> bool" where
  "dll_at d as xs \<longleftrightarrow> distinct as \<and> (\<forall>a\<in>set as. a < dll_fresh d)
     \<and> dll_head d = first None as \<and> dll_tail d = last_of None as
     \<and> lseg (dll_heap d) None as xs None"

definition dll_list :: "'a dll \<Rightarrow> 'a list \<Rightarrow> bool" where
  "dll_list d xs \<longleftrightarrow> (\<exists>as. dll_at d as xs)"

lemma lseg_length: "lseg h p as xs q \<Longrightarrow> length as = length xs"
  by (induction h p as xs q rule: lseg.induct) simp_all

lemma lseg_append:
  "length as = length xs \<Longrightarrow>
   lseg h p (as @ bs) (xs @ ys) q
     \<longleftrightarrow> lseg h p as xs (first q bs) \<and> lseg h (last_of p as) bs ys q"
  by (induction as xs arbitrary: p rule: list_induct2) (auto simp: first_append)

lemma lseg_other [simp]: "a \<notin> set as \<Longrightarrow> lseg (h(a := c)) p as xs q \<longleftrightarrow> lseg h p as xs q"
  by (induction h p as xs q rule: lseg.induct) auto

lemma lseg_domain: "lseg h p as xs q \<Longrightarrow> a \<in> set as \<Longrightarrow> h a \<noteq> None"
  by (induction h p as xs q rule: lseg.induct) auto

lemma distinct_below_length:
  assumes "distinct as" and "\<forall>a\<in>set as. a < n"
  shows "length as \<le> n"
proof -
  have "card (set as) \<le> card {..<n}" using assms(2) by (intro card_mono) auto
  with assms(1) show ?thesis by (simp add: distinct_card)
qed

lemma dll_steps_lseg:
  "lseg h p as xs None \<Longrightarrow> length as \<le> n \<Longrightarrow> dll_steps n h (first None as) = (zip as xs, None)"
proof (induction as arbitrary: p xs n)
  case Nil
  then show ?case by simp
next
  case (Cons a as)
  then show ?case by (cases xs; cases n) auto
qed

lemma dll_walk_at: "dll_at d as xs \<Longrightarrow> dll_walk d = (zip as xs, None)"
  using dll_steps_lseg [of "dll_heap d" None as xs "dll_fresh d"] distinct_below_length [of as "dll_fresh d"]
  by (auto simp: dll_walk_def dll_at_def)

lemma dll_walk_list:
  assumes "dll_list d xs"
  shows "map snd (fst (dll_walk d)) = xs" and "snd (dll_walk d) = None"
proof -
  from assms obtain as where a: "dll_at d as xs" by (auto simp: dll_list_def)
  then have "length as = length xs" by (auto simp: dll_at_def dest: lseg_length)
  with dll_walk_at [OF a] show "map snd (fst (dll_walk d)) = xs" and "snd (dll_walk d) = None"
    by simp_all
qed

lemma dll_list_unique: "dll_list d xs \<Longrightarrow> dll_list d ys \<Longrightarrow> xs = ys"
  using dll_walk_list(1) by blast

lemma dll_at_head_iff:
  "dll_at d as xs \<Longrightarrow> dll_head d = None \<longleftrightarrow> xs = []"
  "dll_at d as xs \<Longrightarrow> dll_tail d = None \<longleftrightarrow> xs = []"
  by (cases as; cases xs; simp add: dll_at_def last_of_def)+

lemma dll_head_iff:
  "dll_list d xs \<Longrightarrow> dll_head d = None \<longleftrightarrow> xs = []"
  "dll_list d xs \<Longrightarrow> dll_tail d = None \<longleftrightarrow> xs = []"
  unfolding dll_list_def using dll_at_head_iff by blast+

lemma dll_list_empty [simp]: "dll_list dll_empty xs \<longleftrightarrow> xs = []"
proof
  assume "dll_list dll_empty xs"
  with dll_head_iff(1) show "xs = []" by (fastforce simp: dll_empty_def)
next
  assume "xs = []"
  then show "dll_list dll_empty xs"
    unfolding dll_list_def by (intro exI [of _ "[]"]) (simp add: dll_at_def dll_empty_def)
qed

lemma dll_append_empty:
  assumes "dll_at d [] []"
  shows "\<exists>d'. dll_append x d = Inr d' \<and> dll_at d' [dll_fresh d] [x]"
  using assms by (simp add: dll_append_def dll_at_def Let_def)

lemma dll_append_behind:
  assumes "dll_at d (as @ [t]) (ys @ [y])"
  shows "\<exists>d'. dll_append x d = Inr d' \<and> dll_at d' (as @ [t, dll_fresh d]) (ys @ [y, x])"
proof -
  have len: "length as = length ys" using assms by (auto simp: dll_at_def dest: lseg_length)
  have seg: "lseg (dll_heap d) None as ys (Some t)"
    and t: "dll_heap d t = Some \<lparr>cell_item = y, cell_next = None, cell_prev = last_of None as\<rparr>"
    and dis: "distinct as" "t \<notin> set as" "t < dll_fresh d" "\<forall>a\<in>set as. a < dll_fresh d"
    using assms lseg_append [OF len, of "dll_heap d" None "[t]" "[y]"] by (auto simp: dll_at_def)
  have fr: "dll_fresh d \<notin> set as" using dis(4) by auto
  have tl: "dll_tail d = Some t" and hd: "dll_head d = first (Some t) as"
    using assms by (simp_all add: dll_at_def first_append)
  show ?thesis
    using seg t dis fr len
    by (auto simp: dll_append_def Let_def tl hd load_def dll_at_def first_append last_of_append lseg_append)
qed

lemma dll_append_list:
  assumes "dll_list d xs"
  shows "\<exists>d'. dll_append x d = Inr d' \<and> dll_list d' (xs @ [x])"
proof -
  from assms obtain as where a: "dll_at d as xs" by (auto simp: dll_list_def)
  then have len: "length as = length xs" by (auto simp: dll_at_def dest: lseg_length)
  show ?thesis
  proof (cases xs rule: rev_cases)
    case Nil
    with a len dll_append_empty [of d x] show ?thesis by (fastforce simp: dll_list_def)
  next
    case (snoc ys y)
    with len obtain bs t where "as = bs @ [t]" by (cases as rule: rev_cases) auto
    with a snoc dll_append_behind [of d bs t ys y x] show ?thesis
      by (fastforce simp: dll_list_def)
  qed
qed

text \<open>Search loops on a healthy list are list searches.\<close>

lemma walk_find_zip:
  "length as = length xs \<Longrightarrow>
   walk_find P (zip as xs, None) = Inr (find (\<lambda>(a, x). P x) (zip as xs))"
  by (induction as xs rule: list_induct2) auto

lemma walk_find_item:
  "walk_find P (ws, None) = Inr r \<Longrightarrow> map_option snd r = find P (map snd ws)"
  by (induction ws) (auto split: if_splits)

lemma walk_find_total: "\<exists>r. walk_find P (ws, None) = Inr r"
  by (induction ws) auto

lemma walk_find_list:
  assumes "dll_list d xs"
  shows "\<exists>r. walk_find P (dll_walk d) = Inr r \<and> map_option snd r = find P xs"
proof -
  obtain ws where w: "dll_walk d = (ws, None)" and "map snd ws = xs"
    using dll_walk_list [OF assms] by (cases "dll_walk d") auto
  moreover obtain r where "walk_find P (ws, None) = Inr r" using walk_find_total by blast
  ultimately show ?thesis using walk_find_item by fastforce
qed

lemma walk_find_unguarded_none:
  "\<forall>x\<in>snd ` set ws. \<not> P x \<Longrightarrow> walk_find_unguarded P (ws, None) = Inl Null_Deref"
  by (induction ws) auto

lemma walk_find_unguarded_split:
  "length as = length xs \<Longrightarrow> \<forall>x\<in>set xs. \<not> P x \<Longrightarrow> P y \<Longrightarrow>
   walk_find_unguarded P (zip (as @ a # bs) (xs @ y # ys), None) = Inr (a, y)"
  by (induction as xs rule: list_induct2) auto

subsection \<open>What unlinking does\<close>

text \<open>Between two neighbours it removes the item; at either end the list is no longer healthy.\<close>

lemma dll_unlink_middle:
  assumes "dll_at d (as @ p # a # n # bs) (xs @ y # x # z # ys)" and len: "length as = length xs"
  shows "\<exists>d'. dll_unlink a d = Inr d' \<and> dll_at d' (as @ p # n # bs) (xs @ y # z # ys)"
  using assms(1) len
  by (auto simp: dll_at_def lseg_append first_append last_of_append dll_unlink_def load_def
      set_prev_def set_next_def)

lemma dll_unlink_head:
  assumes "dll_at d (a # as) (x # xs)"
  shows "\<exists>d'. dll_unlink a d = Inr d' \<and> dll_walk d' = ([], Some Use_After_Free)"
proof -
  obtain n where n: "dll_fresh d = Suc n" using assms by (cases "dll_fresh d") (auto simp: dll_at_def)
  show ?thesis
  proof (cases as)
    case Nil
    with assms n show ?thesis
      by (auto simp: dll_at_def dll_unlink_def load_def set_prev_def set_next_def dll_walk_def)
  next
    case (Cons b bs)
    with assms n show ?thesis
      by (cases xs)
        (auto simp: dll_at_def dll_unlink_def load_def set_prev_def set_next_def dll_walk_def)
  qed
qed

lemma dll_unlink_last:
  assumes "dll_at d (as @ [p, a]) (xs @ [y, x])" and len: "length as = length xs"
  shows "\<exists>d'. dll_unlink a d = Inr d' \<and> dll_walk d' = (zip (as @ [p]) (xs @ [y]), None)
      \<and> dll_append z d' = Inl Use_After_Free"
proof -
  have seg: "lseg (dll_heap d) None as xs (Some p)"
    and p: "dll_heap d p = Some \<lparr>cell_item = y, cell_next = Some a, cell_prev = last_of None as\<rparr>"
    and a: "dll_heap d a = Some \<lparr>cell_item = x, cell_next = None, cell_prev = Some p\<rparr>"
    and dis: "distinct (as @ [p, a])" "\<forall>b\<in>set (as @ [p, a]). b < dll_fresh d"
    and tl: "dll_tail d = Some a" and hd: "dll_head d = first None (as @ [p])"
    using assms by (auto simp: dll_at_def lseg_append first_append last_of_append)
  let ?h = "((dll_heap d)(p \<mapsto> \<lparr>cell_item = y, cell_next = None, cell_prev = last_of None as\<rparr>))(a := None)"
  have "dll_unlink a d = Inr (d\<lparr>dll_heap := ?h\<rparr>)"
    using a p by (simp add: dll_unlink_def load_def set_prev_def set_next_def)
  moreover have "lseg ?h None (as @ [p]) (xs @ [y]) None"
    using seg p dis len by (simp add: lseg_append)
  then have "dll_walk (d\<lparr>dll_heap := ?h\<rparr>) = (zip (as @ [p]) (xs @ [y]), None)"
    using dll_steps_lseg [of ?h None "as @ [p]" "xs @ [y]" "dll_fresh d"]
      distinct_below_length [of "as @ [p]" "dll_fresh d"] dis hd
    by (auto simp: dll_walk_def)
  moreover have "dll_append z (d\<lparr>dll_heap := ?h\<rparr>) = Inl Use_After_Free"
    using tl by (simp add: dll_append_def load_def Let_def)
  ultimately show ?thesis by blast
qed

section \<open>The interface the components use\<close>

text \<open>
  A sequence store: it can be created empty, an element can be put at its end, and it can be
  read from front to back.
\<close>

locale sequence_store =
  fixes empty :: 's
    and append :: "'a \<Rightarrow> 's \<Rightarrow> 's run"
    and contents :: "'s \<Rightarrow> 'a list"
    and holds :: "'s \<Rightarrow> 'a list \<Rightarrow> bool"
  assumes holds_empty: "holds empty []"
    and holds_append: "holds s xs \<Longrightarrow> \<exists>s'. append x s = Inr s' \<and> holds s' (xs @ [x])"
    and holds_contents: "holds s xs \<Longrightarrow> contents s = xs"
begin

fun append_all :: "'a list \<Rightarrow> 's \<Rightarrow> 's run" where
  "append_all [] s = Inr s"
| "append_all (x # xs) s = bind_run (append x s) (append_all xs)"

lemma append_run:
  assumes "holds s xs" and "append x s = Inr s'"
  shows "holds s' (xs @ [x])"
  using holds_append [OF assms(1), of x] assms(2) by auto

lemma append_no_fault: "holds s xs \<Longrightarrow> append x s \<noteq> Inl e"
  using holds_append [of s xs x] by auto

lemma append_all_holds:
  "holds s xs \<Longrightarrow> \<exists>s'. append_all ys s = Inr s' \<and> holds s' (xs @ ys)"
proof (induction ys arbitrary: s xs)
  case Nil
  then show ?case by simp
next
  case (Cons y ys)
  from holds_append [OF Cons.prems, of y] obtain s1
    where "append y s = Inr s1" and "holds s1 (xs @ [y])" by auto
  with Cons.IH [of s1 "xs @ [y]"] show ?case by simp
qed

lemma append_all_contents: "\<exists>s. append_all ys empty = Inr s \<and> contents s = ys"
  using append_all_holds [OF holds_empty, of ys] holds_contents by fastforce

end

interpretation dll: sequence_store dll_empty dll_append "\<lambda>d. map snd (fst (dll_walk d))" dll_list
  by unfold_locales (auto simp: dll_append_list dll_walk_list)

end
