(* ===== verification/RA_Memory.thy ===== *)
theory RA_Memory
  imports RA_Bytes Linked_List
begin

text \<open>
  \<^verbatim>\<open>client-parametric-files/cond/ra_memory.c\<close>: the memory blocks of the attested code and the
  memory areas that list them. A block is a range of code addresses, relative to the base address
  of the process image; an area is a doubly linked list of blocks with a label and the totals. A
  pointer to a block is a block value (blocks are never changed after their creation) or NULL.
  \<open>memory\<close> is the code of the running process, of which every attested byte is mapped.
\<close>

section \<open>Blocks\<close>

record memory_block =
  block_offset :: u64
  block_size :: u32

type_synonym memory = "u64 \<Rightarrow> u8"

definition ra_mB_create_empty :: "bool \<Rightarrow> memory_block option" where
  "ra_mB_create_empty ok = (if ok then Some \<lparr>block_offset = 0, block_size = 0\<rparr> else None)"

definition ra_mB_create :: "bool \<Rightarrow> u64 \<Rightarrow> u32 \<Rightarrow> memory_block option" where
  "ra_mB_create ok off sz =
     (if ok then Some \<lparr>block_offset = off, block_size = sz\<rparr> else None)"

text \<open>The bytes of a block in the process image that starts at \<open>base\<close>.\<close>

definition block_bytes :: "memory \<Rightarrow> u64 \<Rightarrow> memory_block \<Rightarrow> u8 list" where
  "block_bytes mem base b =
     map (\<lambda>i. mem (block_offset b + base + of_nat i)) [0..<unat (block_size b)]"

text \<open>Writing at an index of the caller's buffer; past its end is out of bounds.\<close>

definition write_at :: "u8 list \<Rightarrow> nat \<Rightarrow> u8 list \<Rightarrow> u8 list run" where
  "write_at buf pos bs =
     (if pos + length bs \<le> length buf
      then Inr (take pos buf @ bs @ drop (pos + length bs) buf) else Inl Out_Of_Bounds)"

definition ra_mB_get_buffer ::
  "memory \<Rightarrow> u64 \<Rightarrow> memory_block \<Rightarrow> u8 list option \<Rightarrow> nat \<Rightarrow> (u8 list option \<times> ra_result) run" where
  "ra_mB_get_buffer mem base b buf pos =
     (case buf of
        None \<Rightarrow> Inr (None, RA_ERROR_NULL_POINTER)
      | Some bs \<Rightarrow> bind_run (write_at bs pos (block_bytes mem base b))
                     (\<lambda>bs'. Inr (Some bs', RA_SUCCESS)))"

definition ra_mB_get_byte :: "memory \<Rightarrow> u64 \<Rightarrow> memory_block \<Rightarrow> u32 \<Rightarrow> u8" where
  "ra_mB_get_byte mem base b i = mem (block_offset b + ucast i + base)"

text \<open>
  A file opened for writing: what was written and how many more bytes it takes; a \<^verbatim>\<open>write\<close>
  that does not fit is short. A file opened for reading is the list of bytes left.
\<close>

type_synonym out_file = "u8 list \<times> nat"

definition fd_write :: "u8 list \<Rightarrow> out_file \<Rightarrow> bool \<times> out_file" where
  "fd_write bs f =
     (case f of (out, room) \<Rightarrow>
        if length bs \<le> room then (True, out @ bs, room - length bs)
        else (False, out @ take room bs, 0))"

definition ra_mB_dump_info :: "memory_block \<Rightarrow> out_file \<Rightarrow> out_file \<times> ra_result" where
  "ra_mB_dump_info b f =
     (let (ok, f1) = fd_write (le_bytes 8 (block_offset b)) f in
      if \<not> ok then (f1, RA_ERROR_GENERIC)
      else let (ok2, f2) = fd_write (le_bytes 4 (block_size b)) f1 in
           if \<not> ok2 then (f2, RA_ERROR_GENERIC) else (f2, RA_SUCCESS))"

text \<open>\<^verbatim>\<open>read\<close> of \<open>n\<close> bytes: the bytes and the rest, or nothing when the file is too short.\<close>

definition fd_read :: "nat \<Rightarrow> u8 list \<Rightarrow> (u8 list \<times> u8 list) option" where
  "fd_read n s = (if n \<le> length s then Some (take n s, drop n s) else None)"

definition ra_mB_parse_info ::
  "mallocs \<Rightarrow> u8 list \<Rightarrow> (memory_block option \<times> mallocs \<times> u8 list) run" where
  "ra_mB_parse_info ms s =
     (let (ok, ms1) = malloc ms in
      bind_run (deref (ra_mB_create_empty ok)) (\<lambda>b.
        case fd_read 8 s of
          None \<Rightarrow> Inr (None, ms1, [])
        | Some (o_bytes, s1) \<Rightarrow>
            (case fd_read 4 s1 of
               None \<Rightarrow> Inr (None, ms1, [])
             | Some (s_bytes, s2) \<Rightarrow>
                 Inr (Some (b\<lparr>block_offset := le_word o_bytes, block_size := le_word s_bytes\<rparr>),
                      ms1, s2))))"

text \<open>Parsing from memory; \<^verbatim>\<open>*pointer\<close> is the list of the bytes it points to.\<close>

definition ra_mB_parse_info_diablo ::
  "mallocs \<Rightarrow> u8 list \<Rightarrow> (memory_block option \<times> mallocs \<times> u8 list) run" where
  "ra_mB_parse_info_diablo ms p =
     (let (ok, ms1) = malloc ms in
      bind_run (deref (ra_mB_create_empty ok)) (\<lambda>b.
      bind_run (read_word p 0 8) (\<lambda>off.
      bind_run (read_word (drop 8 p) 0 4) (\<lambda>sz.
        Inr (Some (b\<lparr>block_offset := off, block_size := sz\<rparr>), ms1, drop 4 (drop 8 p))))))"

section \<open>Areas\<close>

record memory_area =
  area_label :: u16
  area_total_blocks :: u32
  area_total_size :: u32
  area_blocks :: "memory_block dll"

definition ra_mA_create_empty :: "bool \<Rightarrow> memory_area option" where
  "ra_mA_create_empty ok =
     (if ok then Some \<lparr>area_label = 0xFFFF, area_total_blocks = 0, area_total_size = 0,
                       area_blocks = dll_empty\<rparr> else None)"

definition ra_mA_create :: "bool \<Rightarrow> u16 \<Rightarrow> memory_area option" where
  "ra_mA_create ok label =
     (if ok then Some \<lparr>area_label = label, area_total_blocks = 0, area_total_size = 0,
                       area_blocks = dll_empty\<rparr> else None)"

text \<open>Destruction frees the cells it walks over; it faults when the walk does.\<close>

definition ra_mA_destroy :: "memory_area option \<Rightarrow> unit run" where
  "ra_mA_destroy area =
     bind_run (deref area) (\<lambda>a.
       case snd (dll_walk (area_blocks a)) of None \<Rightarrow> Inr () | Some e \<Rightarrow> Inl e)"

definition ra_mA_is_empty :: "memory_area \<Rightarrow> bool" where
  "ra_mA_is_empty a \<longleftrightarrow> area_total_blocks a = 0 \<or> area_total_size a = 0"

definition ra_mA_insert_block ::
  "bool \<Rightarrow> memory_area \<Rightarrow> memory_block \<Rightarrow> (memory_area \<times> ra_result) run" where
  "ra_mA_insert_block ok a b =
     (if \<not> ok then Inr (a, RA_ERROR_MEMORY)
      else bind_run (dll_append b (area_blocks a)) (\<lambda>d.
        Inr (a\<lparr>area_blocks := d, area_total_blocks := area_total_blocks a + 1,
               area_total_size := area_total_size a + block_size b\<rparr>, RA_SUCCESS)))"

definition ra_mA_insert_new_block ::
  "mallocs \<Rightarrow> memory_area \<Rightarrow> u64 \<Rightarrow> u32 \<Rightarrow> (memory_area \<times> ra_result) run" where
  "ra_mA_insert_new_block ms a off sz =
     (let (item_ok, ms1) = malloc ms in
      if \<not> item_ok then Inr (a, RA_ERROR_MEMORY)
      else (case ra_mB_create (fst (malloc ms1)) off sz of
              None \<Rightarrow> Inr (a, RA_ERROR_MEMORY)
            | Some b \<Rightarrow>
                bind_run (dll_append b (area_blocks a)) (\<lambda>d.
                  Inr (a\<lparr>area_blocks := d, area_total_blocks := area_total_blocks a + 1,
                         area_total_size := area_total_size a + sz\<rparr>, RA_SUCCESS))))"

text \<open>The test with which three operations recognise an empty area.\<close>

definition area_blank :: "memory_area \<Rightarrow> bool" where
  "area_blank a \<longleftrightarrow> dll_head (area_blocks a) = None \<and> dll_tail (area_blocks a) = None
     \<and> area_total_blocks a = 0 \<and> area_total_size a = 0"

definition ra_mA_remove_block ::
  "memory_area \<Rightarrow> memory_block \<Rightarrow> (memory_area \<times> ra_result) run" where
  "ra_mA_remove_block a b =
     (if area_blank a then Inr (a, RA_SUCCESS)
      else bind_run (walk_find_unguarded
               (\<lambda>c. \<not> (block_offset c \<noteq> block_offset b \<or> block_size c \<noteq> block_size b))
               (dll_walk (area_blocks a))) (\<lambda>(p, c).
           bind_run (dll_unlink p (area_blocks a)) (\<lambda>d. Inr (a\<lparr>area_blocks := d\<rparr>, RA_SUCCESS))))"

text \<open>Copying all blocks one after the other, at a running 32-bit position.\<close>

fun get_buffer_loop ::
  "memory \<Rightarrow> u64 \<Rightarrow> (addr \<times> memory_block) list \<times> fault option \<Rightarrow> u32 \<Rightarrow> u8 list
     \<Rightarrow> (u8 list \<times> ra_result) run" where
  "get_buffer_loop mem base ([], None) cur buf = Inr (buf, RA_SUCCESS)"
| "get_buffer_loop mem base ([], Some e) cur buf = Inl e"
| "get_buffer_loop mem base ((p, b) # ws, e) cur buf =
     bind_run (write_at buf (unat cur) (block_bytes mem base b)) (\<lambda>buf'.
       get_buffer_loop mem base (ws, e) (cur + block_size b) buf')"

definition ra_mA_get_buffer ::
  "memory \<Rightarrow> u64 \<Rightarrow> memory_area \<Rightarrow> u8 list option \<Rightarrow> (u8 list option \<times> ra_result) run" where
  "ra_mA_get_buffer mem base a buf =
     (case buf of
        None \<Rightarrow> Inr (None, RA_ERROR_NULL_POINTER)
      | Some bs \<Rightarrow> bind_run (get_buffer_loop mem base (dll_walk (area_blocks a)) 0 bs)
                     (\<lambda>(bs', r). Inr (Some bs', r)))"

text \<open>
  The search for the block that holds a byte index. The loop condition reads the block's size
  before it tests the iterator for NULL, except when the index is below the lower bound. The result
  is the block and the index within it, or \<open>None\<close> when the loop stopped at NULL.
\<close>

fun find_block_loop ::
  "(addr \<times> memory_block) list \<times> fault option \<Rightarrow> u32 \<Rightarrow> u32 \<Rightarrow> u32
     \<Rightarrow> (memory_block \<times> u32) option run" where
  "find_block_loop ([], None) i low mov = (if i < low then Inr None else Inl Null_Deref)"
| "find_block_loop ([], Some e) i low mov = Inl e"
| "find_block_loop ((p, b) # ws, e) i low mov =
     (if i < low \<or> i \<ge> low + block_size b
      then find_block_loop (ws, e) i (low + block_size b) (mov - block_size b)
      else Inr (Some (b, mov)))"

definition ra_mA_get_block ::
  "memory_area \<Rightarrow> u32 \<Rightarrow> memory_block option \<Rightarrow> (memory_block option \<times> ra_result) run" where
  "ra_mA_get_block a i ret =
     (if area_blank a then Inr (ret, RA_ERROR_EMPTY_AREA)
      else bind_run (find_block_loop (dll_walk (area_blocks a)) i 0 i) (\<lambda>f.
        case f of None \<Rightarrow> Inr (ret, RA_SUCCESS) | Some (b, mov) \<Rightarrow> Inr (Some b, RA_SUCCESS)))"

definition ra_mA_get_byte ::
  "memory \<Rightarrow> u64 \<Rightarrow> memory_area \<Rightarrow> u32 \<Rightarrow> u8 \<Rightarrow> (u8 \<times> ra_result) run" where
  "ra_mA_get_byte mem base a i ret =
     (if area_blank a then Inr (ret, RA_ERROR_EMPTY_AREA)
      else bind_run (find_block_loop (dll_walk (area_blocks a)) i 0 i) (\<lambda>f.
        case f of
          None \<Rightarrow> Inr (ret, RA_SUCCESS)
        | Some (b, mov) \<Rightarrow> Inr (ra_mB_get_byte mem base b mov, RA_SUCCESS)))"

definition ra_mA_get_label :: "memory_area \<Rightarrow> u16" where
  "ra_mA_get_label a = area_label a"

definition ra_mA_get_total_size :: "memory_area \<Rightarrow> u32" where
  "ra_mA_get_total_size a = area_total_size a"

subsection \<open>Dump and parse\<close>

text \<open>The do-while loop of the dump: it enters with the head, whatever it is.\<close>

fun dump_blocks_loop ::
  "(addr \<times> memory_block) list \<times> fault option \<Rightarrow> out_file \<Rightarrow> (out_file \<times> ra_result) run" where
  "dump_blocks_loop ([], None) f = Inr (f, RA_SUCCESS)"
| "dump_blocks_loop ([], Some e) f = Inl e"
| "dump_blocks_loop ((p, b) # ws, e) f =
     (let (f', r) = ra_mB_dump_info b f in
      if r \<noteq> RA_SUCCESS then Inr (f', RA_ERROR_GENERIC) else dump_blocks_loop (ws, e) f')"

definition ra_mA_dump_info_binary ::
  "memory_area \<Rightarrow> out_file \<Rightarrow> (out_file \<times> ra_result) run" where
  "ra_mA_dump_info_binary a f =
     (if ra_mA_is_empty a then Inr (f, RA_ERROR_GENERIC)
      else let (ok1, f1) = fd_write (le_bytes 2 (area_label a)) f in
        if \<not> ok1 then Inr (f1, RA_ERROR_GENERIC)
        else let (ok2, f2) = fd_write (le_bytes 4 (area_total_blocks a)) f1 in
          if \<not> ok2 then Inr (f2, RA_ERROR_GENERIC)
          else if dll_head (area_blocks a) = None then Inl Null_Deref
          else dump_blocks_loop (dll_walk (area_blocks a)) f2)"

text \<open>
  The loop of both parsers, over a block parser. A failed block or cell allocation destroys the
  area and returns NULL.
\<close>

fun parse_blocks_loop ::
  "(mallocs \<Rightarrow> u8 list \<Rightarrow> (memory_block option \<times> mallocs \<times> u8 list) run)
     \<Rightarrow> nat \<Rightarrow> mallocs \<Rightarrow> u8 list \<Rightarrow> memory_area \<Rightarrow> (memory_area option \<times> mallocs \<times> u8 list) run"
where
  "parse_blocks_loop pb 0 ms p a = Inr (Some a, ms, p)"
| "parse_blocks_loop pb (Suc n) ms p a =
     bind_run (pb ms p) (\<lambda>(blk, ms1, p1).
       case blk of
         None \<Rightarrow> bind_run (ra_mA_destroy (Some a)) (\<lambda>_. Inr (None, ms1, p1))
       | Some b \<Rightarrow>
           bind_run (ra_mA_insert_block (fst (malloc ms1)) a b) (\<lambda>(a', r).
             if r \<noteq> RA_SUCCESS
             then bind_run (ra_mA_destroy (Some a')) (\<lambda>_. Inr (None, snd (malloc ms1), p1))
             else parse_blocks_loop pb n (snd (malloc ms1)) p1 a'))"

definition ra_mA_parse_ads_text_info ::
  "mallocs \<Rightarrow> u8 list \<Rightarrow> (memory_area option \<times> mallocs \<times> u8 list) run" where
  "ra_mA_parse_ads_text_info ms s =
     bind_run (deref (ra_mA_create_empty (fst (malloc ms)))) (\<lambda>a.
       case fd_read 2 s of
         None \<Rightarrow> bind_run (ra_mA_destroy (Some a)) (\<lambda>_. Inr (None, snd (malloc ms), []))
       | Some (l_bytes, s1) \<Rightarrow>
           (case fd_read 4 s1 of
              None \<Rightarrow> bind_run (ra_mA_destroy (Some a)) (\<lambda>_. Inr (None, snd (malloc ms), []))
            | Some (t_bytes, s2) \<Rightarrow>
                parse_blocks_loop ra_mB_parse_info (nat (sint (le_word t_bytes :: u32)))
                  (snd (malloc ms)) s2 (a\<lparr>area_label := le_word l_bytes\<rparr>)))"

definition ra_mA_parse_ads_binary_info ::
  "mallocs \<Rightarrow> u8 list \<Rightarrow> (memory_area option \<times> mallocs \<times> u8 list) run" where
  "ra_mA_parse_ads_binary_info ms p =
     bind_run (deref (ra_mA_create_empty (fst (malloc ms)))) (\<lambda>a.
     bind_run (read_word p 0 2) (\<lambda>label.
     bind_run (read_word (drop 2 p) 0 4) (\<lambda>total :: u32.
       parse_blocks_loop ra_mB_parse_info_diablo (unat total) (snd (malloc ms))
         (drop 4 (drop 2 p)) (a\<lparr>area_label := label\<rparr>))))"

section \<open>The invariant of an area\<close>

definition blocks_size :: "memory_block list \<Rightarrow> nat" where
  "blocks_size bs = sum_list (map (\<lambda>b. unat (block_size b)) bs)"

definition area_ok :: "memory_area \<Rightarrow> memory_block list \<Rightarrow> bool" where
  "area_ok a bs \<longleftrightarrow> dll_list (area_blocks a) bs \<and> length bs < 2 ^ 32 \<and> blocks_size bs < 2 ^ 32
     \<and> area_total_blocks a = of_nat (length bs) \<and> area_total_size a = of_nat (blocks_size bs)"

definition area_code :: "memory \<Rightarrow> u64 \<Rightarrow> memory_block list \<Rightarrow> u8 list" where
  "area_code mem base bs = concat (map (block_bytes mem base) bs)"

lemma blocks_size_simps [simp]:
  "blocks_size [] = 0" "blocks_size (b # bs) = unat (block_size b) + blocks_size bs"
  "blocks_size (bs @ cs) = blocks_size bs + blocks_size cs"
  by (simp_all add: blocks_size_def)

lemma length_block_bytes [simp]: "length (block_bytes mem base b) = unat (block_size b)"
  by (simp add: block_bytes_def)

lemma area_code_simps [simp]:
  "area_code mem base [] = []"
  "area_code mem base (b # bs) = block_bytes mem base b @ area_code mem base bs"
  by (simp_all add: area_code_def)

lemma length_area_code [simp]: "length (area_code mem base bs) = blocks_size bs"
  by (induction bs) simp_all

lemma unat_of_nat_u32: "n < 2 ^ 32 \<Longrightarrow> unat (of_nat n :: u32) = n"
  by (simp add: unsigned_of_nat take_bit_nat_eq_self)

lemma area_ok_total: "area_ok a bs \<Longrightarrow> unat (area_total_size a) = blocks_size bs"
  by (simp add: area_ok_def unat_of_nat_u32)

lemma area_ok_create [inv_intros]:
  "ra_mA_create ok label = Some a \<Longrightarrow> area_ok a []"
  "ra_mA_create_empty ok = Some a \<Longrightarrow> area_ok a []"
  by (auto simp: ra_mA_create_def ra_mA_create_empty_def area_ok_def split: if_splits)

lemma area_ok_relabel: "area_ok (a\<lparr>area_label := l\<rparr>) bs \<longleftrightarrow> area_ok a bs"
  by (simp add: area_ok_def)

lemma area_insert_appended:
  assumes "area_ok a bs" and "dll_list d (bs @ [b])"
    and "length bs + 1 < 2 ^ 32" and "blocks_size bs + unat (block_size b) < 2 ^ 32"
  shows "area_ok (a\<lparr>area_blocks := d, area_total_blocks := area_total_blocks a + 1,
                    area_total_size := area_total_size a + block_size b\<rparr>) (bs @ [b])"
  using assms by (simp add: area_ok_def)

lemma ra_mA_insert_block_ok [inv_intros]:
  assumes "area_ok a bs" and "length bs + 1 < 2 ^ 32" and "blocks_size bs + unat (block_size b) < 2 ^ 32"
  shows "\<exists>a'. ra_mA_insert_block True a b = Inr (a', RA_SUCCESS) \<and> area_ok a' (bs @ [b])
            \<and> area_label a' = area_label a"
proof -
  from assms(1) have "dll_list (area_blocks a) bs" by (simp add: area_ok_def)
  from dll_append_list [OF this, of b] obtain d
    where "dll_append b (area_blocks a) = Inr d" and "dll_list d (bs @ [b])" by blast
  then show ?thesis
    using area_insert_appended [OF assms(1) _ assms(2,3), of d] by (simp add: ra_mA_insert_block_def)
qed

text \<open>A concrete area, built by the insertions.\<close>

definition area_of :: "u16 \<Rightarrow> memory_block list \<Rightarrow> memory_area" where
  "area_of l bs =
     \<lparr>area_label = l, area_total_blocks = of_nat (length bs), area_total_size = of_nat (blocks_size bs),
      area_blocks = (case dll.append_all bs dll_empty of Inr d \<Rightarrow> d | Inl _ \<Rightarrow> dll_empty)\<rparr>"

lemma area_of_ok:
  assumes "length bs < 2 ^ 32" and "blocks_size bs < 2 ^ 32"
  shows "area_ok (area_of l bs) bs"
proof -
  from dll.append_all_holds [OF dll.holds_empty, of bs] obtain d
    where "dll.append_all bs dll_empty = Inr d" and "dll_list d bs" by auto
  with assms show ?thesis by (simp add: area_ok_def area_of_def)
qed

definition sample_blocks :: "memory_block list" where
  "sample_blocks =
     [\<lparr>block_offset = 0x1000, block_size = 2\<rparr>, \<lparr>block_offset = 0x2000, block_size = 3\<rparr>,
      \<lparr>block_offset = 0x3000, block_size = 2\<rparr>]"

lemma sample_area_ok [simp]: "area_ok (area_of l sample_blocks) sample_blocks"
  by (intro area_of_ok) (simp_all add: sample_blocks_def)

lemma sample_blocks_facts [simp]:
  "sample_blocks \<noteq> []" "blocks_size sample_blocks = 7" "length sample_blocks = 3"
  by (simp_all add: sample_blocks_def)

text \<open>Inserting a new block, with both allocations succeeding, appends exactly that range to
  the area and keeps the totals in step, while they fit in 32 bits; when one of the allocations
  fails the area is unchanged.\<close>

theorem ra_mA_insert_new_block_appends:
  assumes "area_ok a bs" and "length bs + 1 < 2 ^ 32" and "blocks_size bs + unat n < 2 ^ 32"
  shows "(\<exists>a'. ra_mA_insert_new_block [] a off n = Inr (a', RA_SUCCESS)
            \<and> area_ok a' (bs @ [\<lparr>block_offset = off, block_size = n\<rparr>])
            \<and> area_code mem base (bs @ [\<lparr>block_offset = off, block_size = n\<rparr>])
                = area_code mem base bs @ map (\<lambda>i. mem (off + base + of_nat i)) [0..<unat n])
     \<and> ra_mA_insert_new_block (False # ms) a off n = Inr (a, RA_ERROR_MEMORY)
     \<and> ra_mA_insert_new_block (True # False # ms) a off n = Inr (a, RA_ERROR_MEMORY)"
proof (intro conjI)
  let ?b = "\<lparr>block_offset = off, block_size = n\<rparr>"
  from assms(1) have "dll_list (area_blocks a) bs" by (simp add: area_ok_def)
  from dll_append_list [OF this, of ?b] obtain d
    where d: "dll_append ?b (area_blocks a) = Inr d" "dll_list d (bs @ [?b])" by blast
  have "area_ok (a\<lparr>area_blocks := d, area_total_blocks := area_total_blocks a + 1,
      area_total_size := area_total_size a + n\<rparr>) (bs @ [?b])"
    using area_insert_appended [OF assms(1) d(2)] assms(2,3) by simp
  with d(1) show "\<exists>a'. ra_mA_insert_new_block [] a off n = Inr (a', RA_SUCCESS)
            \<and> area_ok a' (bs @ [?b])
            \<and> area_code mem base (bs @ [?b])
                = area_code mem base bs @ map (\<lambda>i. mem (off + base + of_nat i)) [0..<unat n]"
    by (simp add: ra_mA_insert_new_block_def ra_mB_create_def area_code_def block_bytes_def)
qed (simp_all add: ra_mA_insert_new_block_def ra_mB_create_def)

theorem ra_mA_insert_new_block_appends_witness:
  "ra_mA_insert_new_block [False] (area_of 9 sample_blocks) 0x4000 1
     = Inr (area_of 9 sample_blocks, RA_ERROR_MEMORY)"
  using ra_mA_insert_new_block_appends [of "area_of 9 sample_blocks" sample_blocks 1] by simp

section \<open>Reading the attested code\<close>

lemma nth_block_bytes:
  "unat i < unat (block_size b) \<Longrightarrow> block_bytes mem base b ! unat i = ra_mB_get_byte mem base b i"
  by (simp add: block_bytes_def ra_mB_get_byte_def ac_simps)

lemma unat_add_no_wrap: "unat x + unat y < 2 ^ 32 \<Longrightarrow> unat (x + y :: u32) = unat x + unat y"
  using unat_add_lem [of x y] by simp

lemma find_block_loop_beyond:
  "length as = length bs \<Longrightarrow> unat low + blocks_size bs \<le> unat i \<Longrightarrow>
   unat low + blocks_size bs < 2 ^ 32 \<Longrightarrow>
   find_block_loop (zip as bs, None) i low m = Inl Null_Deref"
proof (induction as bs arbitrary: low m rule: list_induct2)
  case Nil
  then show ?case by (simp add: word_less_nat_alt)
next
  case (Cons p as b bs)
  then have "unat (low + block_size b) = unat low + unat (block_size b)"
    by (intro unat_add_no_wrap) simp
  with Cons show ?case by (simp add: word_le_nat_alt)
qed

lemma find_block_loop_within:
  "length as = length bs \<Longrightarrow> low \<le> i \<Longrightarrow> unat i < unat low + blocks_size bs \<Longrightarrow>
   unat low + blocks_size bs < 2 ^ 32 \<Longrightarrow>
   \<exists>b m. find_block_loop (zip as bs, None) i low (i - low) = Inr (Some (b, m))
     \<and> b \<in> set bs \<and> unat m < unat (block_size b)
     \<and> ra_mB_get_byte mem base b m = area_code mem base bs ! (unat i - unat low)"
proof (induction as bs arbitrary: low rule: list_induct2)
  case Nil
  then show ?case by (simp add: word_le_nat_alt)
next
  case (Cons p as b bs)
  have plus: "unat (low + block_size b) = unat low + unat (block_size b)"
    using Cons.prems by (intro unat_add_no_wrap) simp
  have minus: "unat (i - low) = unat i - unat low" using Cons.prems(1) by (rule unat_sub)
  have le: "unat low \<le> unat i" using Cons.prems(1) by (simp add: word_le_nat_alt)
  show ?case
  proof (cases "low + block_size b \<le> i")
    case True
    then have "unat low + unat (block_size b) \<le> unat i" using plus by (simp add: word_le_nat_alt)
    with Cons.IH [of "low + block_size b"] Cons.prems True plus show ?thesis
      by (auto simp: nth_append diff_diff_eq)
  next
    case False
    then have lt: "unat (i - low) < unat (block_size b)"
      using plus minus le by (simp add: word_le_nat_alt)
    with nth_block_bytes [OF lt, of mem base] False Cons.prems(1) minus show ?thesis
      by (auto simp: nth_append not_less)
  qed
qed

lemma area_ok_walk:
  assumes "area_ok a bs"
  shows "\<exists>as. length as = length bs \<and> dll_walk (area_blocks a) = (zip as bs, None)"
proof -
  from assms obtain as where "dll_at (area_blocks a) as bs" by (auto simp: area_ok_def dll_list_def)
  with dll_walk_at [OF this] show ?thesis by (auto simp: dll_at_def dest: lseg_length)
qed

lemma area_blank_iff:
  assumes "area_ok a bs"
  shows "area_blank a \<longleftrightarrow> bs = []"
proof -
  from assms have "dll_list (area_blocks a) bs" by (simp add: area_ok_def)
  with dll_head_iff [OF this] assms show ?thesis by (auto simp: area_blank_def area_ok_def)
qed

lemma ra_mA_get_byte_within:
  assumes "area_ok a bs" and "unat i < blocks_size bs"
  shows "ra_mA_get_byte mem base a i ret = Inr (area_code mem base bs ! unat i, RA_SUCCESS)"
proof -
  obtain as where w: "length as = length bs" "dll_walk (area_blocks a) = (zip as bs, None)"
    using area_ok_walk [OF assms(1)] by blast
  from assms have "bs \<noteq> []" and "blocks_size bs < 2 ^ 32" by (auto simp: area_ok_def)
  with find_block_loop_within [OF w(1), of 0 i mem base] assms show ?thesis
    by (auto simp: ra_mA_get_byte_def area_blank_iff w(2))
qed

text \<open>C23: Reading byte \<open>i\<close> of an area is indexing the concatenation of its blocks; past
  the total size the loop condition dereferences the NULL iterator, so the error branch behind the
  loop is never reached; an area without blocks answers \<open>RA_ERROR_EMPTY_AREA\<close>.\<close>

theorem ra_mA_get_byte_refines:
  assumes "area_ok a bs"
  shows "ra_mA_get_byte mem base a i ret =
     (if bs = [] then Inr (ret, RA_ERROR_EMPTY_AREA)
      else if unat i < length (area_code mem base bs)
      then Inr (area_code mem base bs ! unat i, RA_SUCCESS)
      else Inl Null_Deref)"
proof -
  obtain as where w: "length as = length bs" "dll_walk (area_blocks a) = (zip as bs, None)"
    using area_ok_walk [OF assms(1)] by blast
  have "blocks_size bs < 2 ^ 32" using assms by (simp add: area_ok_def)
  with find_block_loop_beyond [OF w(1), of 0 i i] assms show ?thesis
    using ra_mA_get_byte_within [OF assms, of i mem base ret]
    by (auto simp: ra_mA_get_byte_def area_blank_iff w(2))
qed

theorem ra_mA_get_byte_refines_witness:
  "ra_mA_get_byte (\<lambda>x. ucast x) 0 (area_of 9 sample_blocks) 4 0
     = (if sample_blocks = [] then Inr (0, RA_ERROR_EMPTY_AREA)
        else if unat (4 :: u32) < length (area_code (\<lambda>x. ucast x) 0 sample_blocks)
        then Inr (area_code (\<lambda>x. ucast x) 0 sample_blocks ! unat (4 :: u32), RA_SUCCESS)
        else Inl Null_Deref)"
  by (rule ra_mA_get_byte_refines) simp

lemma get_buffer_loop_spec:
  "length as = length bs \<Longrightarrow> unat cur + blocks_size bs < 2 ^ 32 \<Longrightarrow>
   unat cur + blocks_size bs \<le> length buf \<Longrightarrow>
   get_buffer_loop mem base (zip as bs, None) cur buf =
     Inr (take (unat cur) buf @ area_code mem base bs @ drop (unat cur + blocks_size bs) buf, RA_SUCCESS)"
proof (induction as bs arbitrary: cur buf rule: list_induct2)
  case Nil
  then show ?case by simp
next
  case (Cons p as b bs)
  have plus: "unat (cur + block_size b) = unat cur + unat (block_size b)"
    using Cons.prems by (intro unat_add_no_wrap) simp
  let ?buf = "take (unat cur) buf @ block_bytes mem base b @ drop (unat cur + unat (block_size b)) buf"
  have "write_at buf (unat cur) (block_bytes mem base b) = Inr ?buf"
    using Cons.prems by (simp add: write_at_def)
  moreover have "get_buffer_loop mem base (zip as bs, None) (cur + block_size b) ?buf =
     Inr (take (unat (cur + block_size b)) ?buf @ area_code mem base bs
            @ drop (unat (cur + block_size b) + blocks_size bs) ?buf, RA_SUCCESS)"
    using Cons.prems plus by (intro Cons.IH) simp_all
  ultimately show ?case using Cons.prems plus by (simp add: ac_simps)
qed

text \<open>Copying an area out fills the caller's buffer with the whole code of the area, in block
  order, and touches nothing behind it.\<close>

theorem ra_mA_get_buffer_copies:
  assumes "area_ok a bs" and "blocks_size bs \<le> length buf"
  shows "ra_mA_get_buffer mem base a (Some buf) =
     Inr (Some (area_code mem base bs @ drop (blocks_size bs) buf), RA_SUCCESS)"
proof -
  obtain as where "length as = length bs" "dll_walk (area_blocks a) = (zip as bs, None)"
    using area_ok_walk [OF assms(1)] by blast
  with get_buffer_loop_spec [of as bs 0 buf mem base] assms show ?thesis
    by (simp add: ra_mA_get_buffer_def area_ok_def)
qed

theorem ra_mA_get_buffer_copies_witness:
  "ra_mA_get_buffer (\<lambda>x. ucast x) 0 (area_of 9 sample_blocks) (Some (replicate 9 7)) =
     Inr (Some (area_code (\<lambda>x. ucast x) 0 sample_blocks
                 @ drop (blocks_size sample_blocks) (replicate 9 7)), RA_SUCCESS)"
  by (rule ra_mA_get_buffer_copies) simp_all

section \<open>Dump and parse agree\<close>

definition block_dump :: "memory_block \<Rightarrow> u8 list" where
  "block_dump b = le_bytes 8 (block_offset b) @ le_bytes 4 (block_size b)"

definition area_dump :: "u16 \<Rightarrow> memory_block list \<Rightarrow> u8 list" where
  "area_dump label bs =
     le_bytes 2 label @ le_bytes 4 (of_nat (length bs) :: u32) @ concat (map block_dump bs)"

lemma length_block_dump [simp]: "length (block_dump b) = 12"
  by (simp add: block_dump_def)

lemma length_block_dumps [simp]: "length (concat (map block_dump bs)) = 12 * length bs"
  by (induction bs) simp_all

lemma dump_block_ok:
  "12 \<le> room \<Longrightarrow> ra_mB_dump_info b (out, room) = ((out @ block_dump b, room - 12), RA_SUCCESS)"
  by (simp add: ra_mB_dump_info_def fd_write_def block_dump_def)

lemma dump_blocks_loop_ok:
  "length as = length bs \<Longrightarrow> 12 * length bs \<le> room \<Longrightarrow>
   dump_blocks_loop (zip as bs, None) (out, room) =
     Inr ((out @ concat (map block_dump bs), room - 12 * length bs), RA_SUCCESS)"
  by (induction as bs arbitrary: out room rule: list_induct2) (simp_all add: dump_block_ok)

lemma ra_mA_dump_ok:
  assumes "area_ok a bs" and "bs \<noteq> []" and "blocks_size bs \<noteq> 0" and "6 + 12 * length bs \<le> room"
  shows "ra_mA_dump_info_binary a (out, room) =
     Inr ((out @ area_dump (area_label a) bs, room - (6 + 12 * length bs)), RA_SUCCESS)"
proof -
  obtain as where w: "length as = length bs" "dll_walk (area_blocks a) = (zip as bs, None)"
    using area_ok_walk [OF assms(1)] by blast
  have l: "dll_list (area_blocks a) bs" using assms(1) by (simp add: area_ok_def)
  have "unat (of_nat (length bs) :: u32) = length bs" and "unat (of_nat (blocks_size bs) :: u32) = blocks_size bs"
    using assms(1) by (simp_all add: area_ok_def unat_of_nat_u32)
  with assms(2,3) have "(of_nat (length bs) :: u32) \<noteq> 0" and "(of_nat (blocks_size bs) :: u32) \<noteq> 0"
    by auto
  then have "\<not> ra_mA_is_empty a" using assms(1) by (simp add: ra_mA_is_empty_def area_ok_def)
  then show ?thesis
    using assms dll_head_iff(1) [OF l] dump_blocks_loop_ok [OF w(1), of "room - 6"]
    by (simp add: ra_mA_dump_info_binary_def fd_write_def area_dump_def w(2) area_ok_def)
qed

text \<open>What the two block parsers have in common: they read back a dumped block.\<close>

locale block_reader =
  fixes read_block :: "mallocs \<Rightarrow> u8 list \<Rightarrow> (memory_block option \<times> mallocs \<times> u8 list) run"
  assumes reads_dump: "read_block [] (block_dump b @ rest) = Inr (Some b, [], rest)"
begin

lemma loop_reads_dumps:
  "area_ok a bs0 \<Longrightarrow> length (bs0 @ bs) < 2 ^ 32 \<Longrightarrow> blocks_size (bs0 @ bs) < 2 ^ 32 \<Longrightarrow>
   \<exists>a'. parse_blocks_loop read_block (length bs) [] (concat (map block_dump bs) @ rest) a
          = Inr (Some a', [], rest)
      \<and> area_ok a' (bs0 @ bs) \<and> area_label a' = area_label a"
proof (induction bs arbitrary: a bs0)
  case Nil
  then show ?case by simp
next
  case (Cons b bs)
  from Cons.prems obtain a1
    where a1: "ra_mA_insert_block True a b = Inr (a1, RA_SUCCESS)" "area_ok a1 (bs0 @ [b])"
      "area_label a1 = area_label a"
    using ra_mA_insert_block_ok [of a bs0 b] by auto
  from Cons.IH [OF a1(2)] Cons.prems a1 show ?case by (simp add: reads_dump)
qed

end

lemma ra_mB_parse_info_reads: "ra_mB_parse_info [] (block_dump b @ rest) = Inr (Some b, [], rest)"
  by (simp add: ra_mB_parse_info_def ra_mB_create_empty_def fd_read_def block_dump_def)

lemma ra_mB_parse_info_diablo_reads:
  "ra_mB_parse_info_diablo [] (block_dump b @ rest) = Inr (Some b, [], rest)"
  by (simp add: ra_mB_parse_info_diablo_def ra_mB_create_empty_def block_dump_def)

interpretation text_reader: block_reader ra_mB_parse_info
  by unfold_locales (rule ra_mB_parse_info_reads)

interpretation binary_reader: block_reader ra_mB_parse_info_diablo
  by unfold_locales (rule ra_mB_parse_info_diablo_reads)

lemma ra_mA_parse_binary_ok:
  assumes "length bs < 2 ^ 32" and "blocks_size bs < 2 ^ 32"
  shows "\<exists>a'. ra_mA_parse_ads_binary_info [] (area_dump l bs @ rest) = Inr (Some a', [], rest)
     \<and> area_ok a' bs \<and> area_label a' = l"
proof -
  let ?a = "\<lparr>area_label = l, area_total_blocks = 0, area_total_size = 0, area_blocks = dll_empty\<rparr>"
  have "area_ok ?a []" by (simp add: area_ok_def)
  from binary_reader.loop_reads_dumps [OF this, of bs rest] assms show ?thesis
    by (simp add: ra_mA_parse_ads_binary_info_def ra_mA_create_empty_def area_dump_def unat_of_nat_u32)
qed

lemma ra_mA_parse_text_ok:
  assumes "length bs < 2 ^ 31" and "blocks_size bs < 2 ^ 32"
  shows "\<exists>a'. ra_mA_parse_ads_text_info [] (area_dump l bs @ rest) = Inr (Some a', [], rest)
     \<and> area_ok a' bs \<and> area_label a' = l"
proof -
  let ?a = "\<lparr>area_label = l, area_total_blocks = 0, area_total_size = 0, area_blocks = dll_empty\<rparr>"
  have "area_ok ?a []" by (simp add: area_ok_def)
  moreover have "sint (of_nat (length bs) :: u32) = int (length bs)"
    using assms(1) by (simp add: signed_of_nat signed_take_bit_int_eq_self)
  ultimately show ?thesis
    using text_reader.loop_reads_dumps [of ?a "[]" bs rest] assms
    by (simp add: ra_mA_parse_ads_text_info_def ra_mA_create_empty_def area_dump_def fd_read_def)
qed

text \<open>What \<^verbatim>\<open>ra_mA_dump_info_binary\<close> writes of a nonempty area, both parsers read back:
  the same label and the same blocks in the same order, with totals computed anew, and they
  stop exactly behind the dump.\<close>

theorem ra_mA_dump_parse_roundtrip:
  assumes "area_ok a bs" and "bs \<noteq> []" and "blocks_size bs \<noteq> 0" and "length bs < 2 ^ 31"
    and "6 + 12 * length bs \<le> room"
  shows "\<exists>out room'. ra_mA_dump_info_binary a ([], room) = Inr ((out, room'), RA_SUCCESS)
     \<and> (\<exists>b. ra_mA_parse_ads_binary_info [] (out @ rest) = Inr (Some b, [], rest)
            \<and> area_ok b bs \<and> area_label b = area_label a)
     \<and> (\<exists>t. ra_mA_parse_ads_text_info [] (out @ rest) = Inr (Some t, [], rest)
            \<and> area_ok t bs \<and> area_label t = area_label a)"
  using ra_mA_dump_ok [OF assms(1,2,3,5), of "[]"] assms(1,4)
    ra_mA_parse_binary_ok [of bs "area_label a" rest] ra_mA_parse_text_ok [of bs "area_label a" rest]
  by (simp add: area_ok_def)

theorem ra_mA_dump_parse_roundtrip_witness:
  "\<exists>out room'. ra_mA_dump_info_binary (area_of 9 sample_blocks) ([], 100) = Inr ((out, room'), RA_SUCCESS)
     \<and> (\<exists>b. ra_mA_parse_ads_binary_info [] (out @ [1]) = Inr (Some b, [], [1])
            \<and> area_ok b sample_blocks \<and> area_label b = area_label (area_of 9 sample_blocks))
     \<and> (\<exists>t. ra_mA_parse_ads_text_info [] (out @ [1]) = Inr (Some t, [], [1])
            \<and> area_ok t sample_blocks \<and> area_label t = area_label (area_of 9 sample_blocks))"
  by (rule ra_mA_dump_parse_roundtrip) simp_all

section \<open>Removing a block\<close>

definition same_block :: "memory_block \<Rightarrow> memory_block \<Rightarrow> bool" where
  "same_block b c \<longleftrightarrow> \<not> (block_offset c \<noteq> block_offset b \<or> block_size c \<noteq> block_size b)"

lemma same_block_iff [simp]: "same_block b c \<longleftrightarrow> c = b"
  by (cases b; cases c) (auto simp: same_block_def)

lemma ra_mA_remove_block_eq:
  "ra_mA_remove_block a b =
     (if area_blank a then Inr (a, RA_SUCCESS)
      else bind_run (walk_find_unguarded (same_block b) (dll_walk (area_blocks a))) (\<lambda>(p, c).
           bind_run (dll_unlink p (area_blocks a)) (\<lambda>d. Inr (a\<lparr>area_blocks := d\<rparr>, RA_SUCCESS))))"
  by (simp add: ra_mA_remove_block_def same_block_def [abs_def])

lemma area_ok_cells:
  "area_ok a bs \<Longrightarrow> \<exists>as. dll_at (area_blocks a) as bs \<and> length as = length bs"
  by (auto simp: area_ok_def dll_list_def dll_at_def dest: lseg_length)

lemma remove_block_head_faults:
  assumes "dll_walk (area_blocks a) = ([], Some e)" and "area_total_blocks a \<noteq> 0"
  shows "ra_mA_get_byte mem base a i ret = Inl e"
  using assms by (simp add: ra_mA_get_byte_def area_blank_def)

text \<open>\<^verbatim>\<open>ra_mA_remove_block\<close> of the first block frees its cell and leaves the area's head
  pointing at it: every later read of a byte is a use after free, and the totals still count the
  block.\<close>

theorem ra_mA_remove_block_dangles:
  assumes "area_ok a (b # bs)"
  shows "\<exists>a'. ra_mA_remove_block a b = Inr (a', RA_SUCCESS)
          \<and> ra_mA_get_byte mem base a' i ret = Inl Use_After_Free
          \<and> area_total_size a' = area_total_size a \<and> area_total_blocks a' = area_total_blocks a"
proof -
  obtain p as where at: "dll_at (area_blocks a) (p # as) (b # bs)"
    using area_ok_cells [OF assms] by (auto simp: length_Suc_conv)
  obtain d where d: "dll_unlink p (area_blocks a) = Inr d" "dll_walk d = ([], Some Use_After_Free)"
    using dll_unlink_head [OF at] by blast
  have rm: "ra_mA_remove_block a b = Inr (a\<lparr>area_blocks := d\<rparr>, RA_SUCCESS)"
    using area_blank_iff [OF assms] dll_walk_at [OF at] d(1) by (simp add: ra_mA_remove_block_eq)
  have "unat (area_total_blocks a) = length (b # bs)"
    using assms by (simp only: area_ok_def unat_of_nat_u32)
  then have "area_total_blocks a \<noteq> 0" by auto
  then have "ra_mA_get_byte mem base (a\<lparr>area_blocks := d\<rparr>) i ret = Inl Use_After_Free"
    using d(2) by (intro remove_block_head_faults) simp_all
  with rm show ?thesis by simp
qed

theorem ra_mA_remove_block_dangles_witness:
  "\<exists>a'. ra_mA_remove_block (area_of 9 sample_blocks) (hd sample_blocks) = Inr (a', RA_SUCCESS)
      \<and> ra_mA_get_byte (\<lambda>_. 0) 0 a' 0 0 = Inl Use_After_Free
      \<and> area_total_size a' = area_total_size (area_of 9 sample_blocks)
      \<and> area_total_blocks a' = area_total_blocks (area_of 9 sample_blocks)"
  by (rule ra_mA_remove_block_dangles [of _ _ "tl sample_blocks"]) simp

lemma ra_mA_remove_block_missing:
  assumes "area_ok a bs" and "bs \<noteq> []" and "c \<notin> set bs"
  shows "ra_mA_remove_block a c = Inl Null_Deref"
proof -
  obtain as where w: "length as = length bs" "dll_walk (area_blocks a) = (zip as bs, None)"
    using area_ok_walk [OF assms(1)] by blast
  have "\<forall>x\<in>snd ` set (zip as bs). \<not> same_block c x"
    using assms(3) by (auto dest: set_zip_rightD)
  with assms(2) w area_blank_iff [OF assms(1)] show ?thesis
    by (simp add: ra_mA_remove_block_eq walk_find_unguarded_none)
qed

end
