(* ===== verification/Prime_Search.thy ===== *)
theory Prime_Search
  imports RA_Prelude
begin

text \<open>
  \<^verbatim>\<open>closest_prime\<close> of \<^verbatim>\<open>ra-additionals/generic_functions.c\<close>: the search for the largest prime
  not above a number, from which the nonce interpretations take the walk's modulus or generator.
  The bignum counts down one by one; it is an \<open>int\<close>. OpenSSL's primality test is a
  parameter: \<open>is_prime k\<close> is what \<^verbatim>\<open>BN_is_prime_ex\<close> answers, and the named hypothesis
  \<open>prime_test_exact\<close> is its documented meaning (1 for a prime, 0 otherwise), leaving aside its
  error probability.
\<close>

definition is_prime_number :: "int \<Rightarrow> bool" where
  "is_prime_number k \<longleftrightarrow> 2 \<le> k \<and> (\<forall>d\<in>{2..<k}. \<not> d dvd k)"

definition prime_test_exact :: "(int \<Rightarrow> int) \<Rightarrow> bool" where
  "prime_test_exact is_prime \<longleftrightarrow> (\<forall>k. is_prime k = (if is_prime_number k then 1 else 0))"

partial_function (option) prime_loop :: "(int \<Rightarrow> int) \<Rightarrow> int \<Rightarrow> int option" where
  "prime_loop is_prime big = (if is_prime big = 1 then Some big else prime_loop is_prime (big - 1))"

text \<open>
  The result and the new contents of \<^verbatim>\<open>*out\<close>. \<open>dec2bn_ok\<close> is the outcome of
  \<^verbatim>\<open>BN_dec2bn\<close>; the number found is printed and scanned back into 32 bits.
\<close>

definition closest_prime ::
  "(int \<Rightarrow> int) \<Rightarrow> bool \<Rightarrow> u32 \<Rightarrow> u32 \<Rightarrow> (ra_result \<times> u32) run" where
  "closest_prime is_prime dec2bn_ok n out =
     (if n < 2 \<or> \<not> dec2bn_ok then Inr (RA_ERROR_GENERIC, out)
      else (case prime_loop is_prime (uint n) of
              None \<Rightarrow> Inl No_Return
            | Some p \<Rightarrow> Inr (RA_SUCCESS, word_of_int p)))"

text \<open>The specification: the greatest prime not above \<open>n\<close>.\<close>

definition greatest_prime_below :: "int \<Rightarrow> int \<Rightarrow> bool" where
  "greatest_prime_below n p \<longleftrightarrow> is_prime_number p \<and> p \<le> n \<and> (\<forall>q. is_prime_number q \<and> q \<le> n \<longrightarrow> q \<le> p)"

lemma is_prime_number_2 [simp]: "is_prime_number 2"
  by (simp add: is_prime_number_def)

lemma is_prime_number_ge: "is_prime_number p \<Longrightarrow> 2 \<le> p"
  by (simp add: is_prime_number_def)

lemma prime_loop_greatest:
  assumes "prime_test_exact is_prime" and "2 \<le> big"
  shows "\<exists>p. prime_loop is_prime big = Some p \<and> greatest_prime_below big p"
  using assms(2)
proof (induction "nat big" arbitrary: big rule: less_induct)
  case less
  show ?case
  proof (cases "is_prime_number big")
    case True
    with assms(1) show ?thesis
      by (subst prime_loop.simps) (auto simp: prime_test_exact_def greatest_prime_below_def)
  next
    case False
    with less.prems have "3 \<le> big" by (cases "big = 2") auto
    with less.hyps [of "big - 1"] obtain p
      where p: "prime_loop is_prime (big - 1) = Some p" "greatest_prime_below (big - 1) p" by auto
    have "q \<le> big - 1" if "is_prime_number q" "q \<le> big" for q
      using that False by (cases "q = big") auto
    with p(2) have "greatest_prime_below big p" by (auto simp: greatest_prime_below_def)
    with p(1) False assms(1) show ?thesis
      by (subst prime_loop.simps) (auto simp: prime_test_exact_def)
  qed
qed

lemma closest_prime_small: "n < 2 \<Longrightarrow> closest_prime is_prime ok n out = Inr (RA_ERROR_GENERIC, out)"
  by (simp add: closest_prime_def)

lemma closest_prime_success:
  assumes "prime_test_exact is_prime" and "2 \<le> n"
  shows "\<exists>p. (\<forall>out. closest_prime is_prime True n out = Inr (RA_SUCCESS, p))
     \<and> greatest_prime_below (uint n) (uint p)"
proof -
  from assms(2) have n: "2 \<le> uint n" by (simp add: word_le_def)
  with prime_loop_greatest [OF assms(1)] obtain p
    where p: "prime_loop is_prime (uint n) = Some p" "greatest_prime_below (uint n) p" by blast
  then have "0 \<le> p" and "p \<le> uint n"
    by (auto simp: greatest_prime_below_def dest: is_prime_number_ge)
  moreover have "uint n < 2 ^ 32" using unsigned_less [where 'a = int, of n] by simp
  ultimately have "uint (word_of_int p :: u32) = p"
    by (simp add: unsigned_of_int take_bit_int_eq_self)
  with p assms(2) show ?thesis
    by (auto simp: closest_prime_def not_less)
qed

text \<open>\<^verbatim>\<open>closest_prime\<close> returns for every argument: below 2 it reports an error and leaves
  the output untouched, from 2 on the output is the greatest prime not above the argument.\<close>

theorem closest_prime_greatest:
  assumes "prime_test_exact is_prime"
  shows "(n < 2 \<longrightarrow> closest_prime is_prime True n out = Inr (RA_ERROR_GENERIC, out))
     \<and> (2 \<le> n \<longrightarrow> (\<exists>p. closest_prime is_prime True n out = Inr (RA_SUCCESS, p)
                       \<and> greatest_prime_below (uint n) (uint p)))"
  using closest_prime_small [of n is_prime True out] closest_prime_success [OF assms, of n] by blast

definition exact_test :: "int \<Rightarrow> int" where
  "exact_test k = (if is_prime_number k then 1 else 0)"

lemma exact_test_exact [simp]: "prime_test_exact exact_test"
  by (simp add: prime_test_exact_def exact_test_def)

theorem closest_prime_greatest_witness:
  "\<exists>p. closest_prime exact_test True 10 0 = Inr (RA_SUCCESS, p) \<and> greatest_prime_below 10 (uint p)"
  using closest_prime_greatest [OF exact_test_exact, of 10 0] by simp


end
