(* ===== verification/RA_Data_Table.thy ===== *)
theory RA_Data_Table
  imports RA_Memory RA_Client
begin

text \<open>
  \<^verbatim>\<open>client-parametric-files/cond/ra_data_table.c\<close>: the attestation data structure of a client, with
  its application id, attestator number, the monitored memory areas, the current nonce and key and
  the prepared data. A buffer pointer is \<open>None\<close> (NULL) or the bytes allocated behind it.
\<close>

section \<open>State\<close>

record ra_table =
  prepared_data :: "u8 list option"
  prepared_data_size :: u32
  current_nonce :: "u8 list option"
  current_nonce_size :: u32
  current_key :: "u8 list option"
  current_key_size :: u8
  table_areas :: "memory_area dll"
  memory_areas_count :: u16
  app_AID :: "u8 list"
  app_attestator_number :: u64
  is_AID_set :: bool
  is_attestator_number_set :: bool

section \<open>Operations\<close>

text \<open>
  \<open>heap_block\<close> is what the allocated memory holds before the assignments: the application
  id, the attestator number and its flag are not initialised.
\<close>

definition ra_create_table :: "ra_table \<Rightarrow> bool \<Rightarrow> ra_table option" where
  "ra_create_table heap_block ok =
     (if ok then Some (heap_block\<lparr>table_areas := dll_empty, memory_areas_count := 0, is_AID_set := False,
          current_nonce := None, current_nonce_size := 0, prepared_data := None, prepared_data_size := 0,
          current_key := None, current_key_size := 0\<rparr>)
      else None)"

fun destroy_areas_loop :: "(addr \<times> memory_area) list \<times> fault option \<Rightarrow> unit run" where
  "destroy_areas_loop ([], None) = Inr ()"
| "destroy_areas_loop ([], Some e) = Inl e"
| "destroy_areas_loop ((p, a) # ws, e) =
     bind_run (ra_mA_destroy (Some a)) (\<lambda>_. destroy_areas_loop (ws, e))"

definition ra_destroy_table :: "ra_table option \<Rightarrow> unit run" where
  "ra_destroy_table table =
     (case table of None \<Rightarrow> Inr () | Some t \<Rightarrow> destroy_areas_loop (dll_walk (table_areas t)))"

definition insert_table_item :: "ra_table \<Rightarrow> memory_area \<Rightarrow> ra_table run" where
  "insert_table_item t a =
     bind_run (dll_append a (table_areas t)) (\<lambda>d.
       Inr (t\<lparr>table_areas := d, memory_areas_count := memory_areas_count t + 1\<rparr>))"

text \<open>The loops that count to the number of areas dereference the iterator each time.\<close>

fun label_loop :: "nat \<Rightarrow> u16 \<Rightarrow> (addr \<times> memory_area) list \<times> fault option \<Rightarrow> bool run" where
  "label_loop 0 l w = Inr False"
| "label_loop (Suc n) l ([], None) = Inl Null_Deref"
| "label_loop (Suc n) l ([], Some e) = Inl e"
| "label_loop (Suc n) l ((p, a) # ws, e) =
     (if l = ra_mA_get_label a then Inr True else label_loop n l (ws, e))"

definition ra_is_label_defined :: "ra_table \<Rightarrow> u16 \<Rightarrow> bool run" where
  "ra_is_label_defined t l = label_loop (unat (memory_areas_count t)) l (dll_walk (table_areas t))"

definition ra_set_AID :: "ra_table \<Rightarrow> u8 list \<Rightarrow> (ra_table \<times> ra_result) run" where
  "ra_set_AID t n =
     bind_run (read_at n 0 AID_SIZE) (\<lambda>aid. Inr (t\<lparr>app_AID := aid, is_AID_set := True\<rparr>, RA_SUCCESS))"

definition ra_get_AID_reference :: "ra_table \<Rightarrow> u8 list option \<Rightarrow> u8 list option \<times> ra_result" where
  "ra_get_AID_reference t out =
     (if is_AID_set t then (Some (app_AID t), RA_SUCCESS)
      else (out, RA_ERROR_UNDEFINED_SERIAL_NUMBER))"

definition ra_get_AID_as_string :: "ra_table \<Rightarrow> ra_result \<times> string" where
  "ra_get_AID_as_string t = (RA_SUCCESS, hex_string (app_AID t))"

definition ra_set_attestator_number :: "ra_table \<Rightarrow> u64 \<Rightarrow> ra_table \<times> ra_result" where
  "ra_set_attestator_number t n =
     (t\<lparr>app_attestator_number := n, is_attestator_number_set := True\<rparr>, RA_SUCCESS)"

definition ra_get_attestator_number :: "ra_table \<Rightarrow> u64 \<Rightarrow> u64 \<times> ra_result" where
  "ra_get_attestator_number t out =
     (if is_attestator_number_set t then (app_attestator_number t, RA_SUCCESS)
      else (out, RA_ERROR_UNDEFINED_ATTESTATOR_NUMBER))"

definition ra_set_current_nonce ::
  "bool \<Rightarrow> ra_table \<Rightarrow> u8 list \<Rightarrow> u32 \<Rightarrow> (ra_table \<times> ra_result) run" where
  "ra_set_current_nonce ok t nonce sz =
     (let t1 = (if current_nonce t \<noteq> None
                then t\<lparr>current_nonce_size := 0, current_nonce := None\<rparr> else t) in
      if \<not> ok then Inr (t1\<lparr>current_nonce := None\<rparr>, RA_ERROR_MEMORY)
      else bind_run (read_at nonce 0 (unat sz)) (\<lambda>bs.
        Inr (t1\<lparr>current_nonce := Some bs, current_nonce_size := sz\<rparr>, RA_SUCCESS)))"

definition ra_get_current_nonce_size :: "ra_table \<Rightarrow> u32" where
  "ra_get_current_nonce_size t = current_nonce_size t"

definition ra_get_current_nonce_reference :: "ra_table \<Rightarrow> u8 list option" where
  "ra_get_current_nonce_reference t = current_nonce t"

definition ra_get_current_nonce ::
  "ra_table \<Rightarrow> u8 list option \<Rightarrow> (u8 list option \<times> ra_result) run" where
  "ra_get_current_nonce t out =
     (case out of
        None \<Rightarrow> Inr (None, RA_ERROR_NULL_POINTER)
      | Some buf \<Rightarrow>
          (case current_nonce t of
             None \<Rightarrow> Inr (out, RA_ERROR_UNDEFINED_NONCE)
           | Some n \<Rightarrow>
               if current_nonce_size t = 0 then Inr (out, RA_ERROR_UNDEFINED_NONCE)
               else bind_run (read_at n 0 (unat (current_nonce_size t))) (\<lambda>bs.
                    bind_run (write_at buf 0 bs) (\<lambda>buf'. Inr (Some buf', RA_SUCCESS)))))"

definition ra_set_current_key ::
  "bool \<Rightarrow> ra_table \<Rightarrow> u8 list \<Rightarrow> u8 \<Rightarrow> (ra_table \<times> ra_result) run" where
  "ra_set_current_key ok t key sz =
     (let t1 = (if current_key t \<noteq> None
                then t\<lparr>current_key_size := 0, current_key := None\<rparr> else t) in
      if \<not> ok then Inr (t1\<lparr>current_key := None\<rparr>, RA_ERROR_MEMORY)
      else bind_run (read_at key 0 (unat sz)) (\<lambda>bs.
        Inr (t1\<lparr>current_key := Some bs, current_key_size := sz\<rparr>, RA_SUCCESS)))"

definition ra_get_current_key_reference :: "ra_table \<Rightarrow> u8 list option" where
  "ra_get_current_key_reference t = current_key t"

definition ra_get_current_key ::
  "ra_table \<Rightarrow> u8 list option \<Rightarrow> (u8 list option \<times> ra_result) run" where
  "ra_get_current_key t out =
     (case current_key t of
        None \<Rightarrow> Inr (out, RA_ERROR_UNDEFINED_KEY)
      | Some k \<Rightarrow>
          if current_key_size t \<noteq> 0 then Inr (out, RA_ERROR_UNDEFINED_KEY)
          else (case out of
                  None \<Rightarrow> Inr (None, RA_ERROR_NULL_POINTER)
                | Some buf \<Rightarrow>
                    bind_run (read_at k 0 (unat (current_key_size t))) (\<lambda>bs.
                    bind_run (write_at buf 0 bs) (\<lambda>buf'. Inr (Some buf', RA_SUCCESS)))))"

definition ra_get_current_key_size :: "ra_table \<Rightarrow> u8" where
  "ra_get_current_key_size t = current_key_size t"

definition ra_get_memory_areas_count :: "ra_table \<Rightarrow> u16" where
  "ra_get_memory_areas_count t = memory_areas_count t"

definition ra_insert_memory_area ::
  "bool \<Rightarrow> ra_table \<Rightarrow> memory_area option \<Rightarrow> (ra_table \<times> ra_result) run" where
  "ra_insert_memory_area ok t area =
     (case area of
        None \<Rightarrow> Inr (t, RA_ERROR_MALFORMED_MEMORY_AREA)
      | Some a \<Rightarrow>
          bind_run (ra_is_label_defined t (ra_mA_get_label a)) (\<lambda>defined.
            if defined then Inr (t, RA_ERROR_MEMORY_LABEL_ALREADY_DEFINED)
            else if \<not> ok then Inr (t, RA_ERROR_MEMORY)
            else bind_run (insert_table_item t a) (\<lambda>t'. Inr (t', RA_SUCCESS))))"

definition ra_remove_memory_area :: "ra_table \<Rightarrow> u16 \<Rightarrow> (ra_table \<times> ra_result) run" where
  "ra_remove_memory_area t l =
     bind_run (walk_find_unguarded (\<lambda>a. \<not> ra_mA_get_label a \<noteq> l) (dll_walk (table_areas t))) (\<lambda>(p, a).
     bind_run (dll_unlink p (table_areas t)) (\<lambda>d. Inr (t\<lparr>table_areas := d\<rparr>, RA_SUCCESS)))"

definition ra_get_memory_area :: "ra_table \<Rightarrow> u16 \<Rightarrow> memory_area option run" where
  "ra_get_memory_area t l =
     bind_run (walk_find (\<lambda>a. ra_mA_get_label a = l) (dll_walk (table_areas t)))
       (\<lambda>r. Inr (map_option snd r))"

text \<open>Labels are written into the caller's array one by one.\<close>

fun labels_loop ::
  "nat \<Rightarrow> nat \<Rightarrow> (addr \<times> memory_area) list \<times> fault option \<Rightarrow> u16 list \<Rightarrow> u16 list run" where
  "labels_loop 0 i w out = Inr out"
| "labels_loop (Suc n) i ([], None) out = Inl Null_Deref"
| "labels_loop (Suc n) i ([], Some e) out = Inl e"
| "labels_loop (Suc n) i ((p, a) # ws, e) out =
     (if i < length out then labels_loop n (Suc i) (ws, e) (out[i := ra_mA_get_label a])
      else Inl Out_Of_Bounds)"

definition ra_get_labels_list ::
  "ra_table \<Rightarrow> u16 list option \<Rightarrow> (u16 list option \<times> ra_result) run" where
  "ra_get_labels_list t out =
     (case out of
        None \<Rightarrow> Inr (None, RA_ERROR_MEMORY)
      | Some ls \<Rightarrow>
          bind_run (labels_loop (unat (memory_areas_count t)) 0 (dll_walk (table_areas t)) ls)
            (\<lambda>ls'. Inr (Some ls', RA_SUCCESS)))"

definition ra_reset_prepared_data :: "ra_table \<Rightarrow> ra_table" where
  "ra_reset_prepared_data t = t\<lparr>prepared_data_size := 0, prepared_data := None\<rparr>"

definition ra_set_prepared_data ::
  "bool \<Rightarrow> ra_table \<Rightarrow> u8 list option \<Rightarrow> u32 \<Rightarrow> (ra_table \<times> ra_result) run" where
  "ra_set_prepared_data ok t buffer sz =
     (if buffer = None \<and> sz = 0 then Inr (ra_reset_prepared_data t, RA_SUCCESS)
      else if \<not> ok then Inr (t\<lparr>prepared_data := None\<rparr>, RA_ERROR_MEMORY)
      else bind_run (deref buffer) (\<lambda>buf.
           bind_run (read_at buf 0 (unat sz)) (\<lambda>bs.
             Inr (t\<lparr>prepared_data := Some bs, prepared_data_size := sz\<rparr>, RA_SUCCESS))))"

definition ra_get_prepared_data_reference :: "ra_table \<Rightarrow> u8 list option" where
  "ra_get_prepared_data_reference t = prepared_data t"

definition ra_get_prepared_data ::
  "ra_table \<Rightarrow> u8 list option \<Rightarrow> (u8 list option \<times> ra_result) run" where
  "ra_get_prepared_data t out =
     (case out of
        None \<Rightarrow> Inr (None, RA_ERROR_NULL_POINTER)
      | Some buf \<Rightarrow>
          (case prepared_data t of
             None \<Rightarrow> Inr (out, RA_ERROR_EMPTY_PREPARED_DATA)
           | Some d \<Rightarrow>
               if prepared_data_size t = 0 then Inr (out, RA_ERROR_EMPTY_PREPARED_DATA)
               else bind_run (read_at d 0 (unat (prepared_data_size t))) (\<lambda>bs.
                    bind_run (write_at buf 0 bs) (\<lambda>buf'. Inr (Some buf', RA_SUCCESS)))))"

definition ra_get_prepared_data_size :: "ra_table \<Rightarrow> u32" where
  "ra_get_prepared_data_size t = prepared_data_size t"

subsection \<open>Dump and parse\<close>

fun dump_areas_loop ::
  "nat \<Rightarrow> (addr \<times> memory_area) list \<times> fault option \<Rightarrow> out_file \<Rightarrow> (out_file \<times> bool) run" where
  "dump_areas_loop n ([], None) f = Inr (f, True)"
| "dump_areas_loop 0 w f = Inr (f, True)"
| "dump_areas_loop (Suc n) ([], Some e) f = Inl e"
| "dump_areas_loop (Suc n) ((p, a) # ws, e) f =
     bind_run (ra_mA_dump_info_binary a f) (\<lambda>(f', r).
       if r \<noteq> RA_SUCCESS then Inr (f', False) else dump_areas_loop n (ws, e) f')"

text \<open>
  The file after the dump: \<open>None\<close> when it was removed. It is opened without truncation, so
  the bytes of an old file behind the end of the dump stay. \<open>room\<close> is how many bytes can be
  written.
\<close>

definition ra_dump_table_info ::
  "bool \<Rightarrow> u8 list \<Rightarrow> nat \<Rightarrow> ra_table \<Rightarrow> (u8 list option \<times> ra_result) run" where
  "ra_dump_table_info open_ok old room t =
     (if \<not> open_ok then Inr (Some old, RA_ERROR_GENERIC)
      else if \<not> is_AID_set t then Inr (None, RA_ERROR_GENERIC)
      else let (ok1, f1) = fd_write (app_AID t) ([], room) in
        if \<not> ok1 then Inr (None, RA_ERROR_GENERIC)
        else if \<not> is_attestator_number_set t then Inr (None, RA_ERROR_GENERIC)
        else let (ok2, f2) = fd_write (le_bytes 8 (app_attestator_number t)) f1 in
          if \<not> ok2 then Inr (None, RA_ERROR_GENERIC)
          else let (ok3, f3) = fd_write (le_bytes 2 (memory_areas_count t)) f2 in
            if \<not> ok3 then Inr (None, RA_ERROR_GENERIC)
            else bind_run (dump_areas_loop (unat (memory_areas_count t)) (dll_walk (table_areas t)) f3)
              (\<lambda>((out, _), ok). if ok then Inr (Some (out @ drop (length out) old), RA_SUCCESS)
                  else Inr (None, RA_ERROR_GENERIC)))"

text \<open>The loop that swaps byte \<open>i\<close> with byte \<open>AID_SIZE - i - 1\<close>.\<close>

definition swap_bytes :: "nat \<Rightarrow> u8 list \<Rightarrow> u8 list" where
  "swap_bytes i xs = xs[i := xs ! (AID_SIZE - i - 1), AID_SIZE - i - 1 := xs ! i]"

definition swap_AID :: "u8 list \<Rightarrow> u8 list" where
  "swap_AID xs = fold swap_bytes [0..<AID_SIZE div 2] xs"

fun parse_areas_loop ::
  "nat \<Rightarrow> mallocs \<Rightarrow> u8 list \<Rightarrow> ra_table \<Rightarrow> ra_table option run" where
  "parse_areas_loop 0 ms p t = Inr (Some t)"
| "parse_areas_loop (Suc n) ms p t =
     bind_run (ra_mA_parse_ads_binary_info ms p) (\<lambda>(area, ms1, p1).
       case area of
         None \<Rightarrow> bind_run (ra_destroy_table (Some t)) (\<lambda>_. Inr None)
       | Some a \<Rightarrow>
           bind_run (ra_insert_memory_area (fst (malloc ms1)) t (Some a)) (\<lambda>(t', r).
             if r \<noteq> RA_SUCCESS then bind_run (ra_destroy_table (Some t')) (\<lambda>_. Inr None)
             else parse_areas_loop n (snd (malloc ms1)) p1 t'))"

text \<open>\<open>blob\<close> is \<open>None\<close> when the blob address is NULL or the 1 of the declaration.\<close>

definition ra_parse_binary_ads ::
  "ra_table \<Rightarrow> mallocs \<Rightarrow> u8 list option \<Rightarrow> ra_table option run" where
  "ra_parse_binary_ads heap_block ms blob =
     (case blob of
        None \<Rightarrow> Inr None
      | Some p \<Rightarrow>
          bind_run (deref (ra_create_table heap_block (fst (malloc ms)))) (\<lambda>t.
          bind_run (read_at p 0 AID_SIZE) (\<lambda>aid.
          bind_run (read_word (drop AID_SIZE p) 0 8) (\<lambda>number.
          bind_run (read_word (drop 8 (drop AID_SIZE p)) 0 4) (\<lambda>count :: u32.
            parse_areas_loop (unat count) (snd (malloc ms)) (drop 4 (drop 8 (drop AID_SIZE p)))
              (t\<lparr>app_AID := swap_AID aid, is_AID_set := True,
                 app_attestator_number := number, is_attestator_number_set := True\<rparr>))))))"

section \<open>The invariant of the table\<close>

text \<open>A buffer and the size recorded for it.\<close>

definition buffer_ok :: "u8 list option \<Rightarrow> nat \<Rightarrow> bool" where
  "buffer_ok b n \<longleftrightarrow> (case b of None \<Rightarrow> n = 0 | Some bs \<Rightarrow> length bs = n)"

lemma buffer_ok_simps [simp]: "buffer_ok None n \<longleftrightarrow> n = 0" "buffer_ok (Some bs) n \<longleftrightarrow> length bs = n"
  by (simp_all add: buffer_ok_def)

definition table_ok :: "ra_table \<Rightarrow> memory_area list \<Rightarrow> bool" where
  "table_ok t ars \<longleftrightarrow> dll_list (table_areas t) ars \<and> length ars < 2 ^ 16
     \<and> memory_areas_count t = of_nat (length ars)
     \<and> distinct (map area_label ars) \<and> (\<forall>a\<in>set ars. \<exists>bs. area_ok a bs)
     \<and> buffer_ok (current_nonce t) (unat (current_nonce_size t))
     \<and> buffer_ok (current_key t) (unat (current_key_size t))
     \<and> buffer_ok (prepared_data t) (unat (prepared_data_size t))"

lemma unat_of_nat_u16: "n < 2 ^ 16 \<Longrightarrow> unat (of_nat n :: u16) = n"
  by (simp add: unsigned_of_nat take_bit_nat_eq_self)

lemma table_ok_count: "table_ok t ars \<Longrightarrow> unat (memory_areas_count t) = length ars"
  by (simp add: table_ok_def unat_of_nat_u16)

lemma table_ok_create [inv_intros]: "ra_create_table h ok = Some t \<Longrightarrow> table_ok t []"
  by (auto simp: ra_create_table_def table_ok_def split: if_splits)

lemma table_ok_walk:
  assumes "table_ok t ars"
  shows "\<exists>ws. dll_walk (table_areas t) = (ws, None) \<and> map snd ws = ars"
  using assms dll_walk_list [of "table_areas t" ars]
  by (cases "dll_walk (table_areas t)") (auto simp: table_ok_def)

lemma label_loop_walk:
  "n = length ws \<Longrightarrow> label_loop n l (ws, None) = Inr (l \<in> area_label ` snd ` set ws)"
  by (induction ws arbitrary: n) (auto simp: ra_mA_get_label_def)

lemma ra_is_label_defined_ok [run_simps]:
  assumes "table_ok t ars"
  shows "ra_is_label_defined t l = Inr (l \<in> area_label ` set ars)"
proof -
  obtain ws where w: "dll_walk (table_areas t) = (ws, None)" "map snd ws = ars"
    using table_ok_walk [OF assms] by blast
  then have "length ws = length ars" and "snd ` set ws = set ars" by (auto simp flip: w(2))
  with w(1) table_ok_count [OF assms] label_loop_walk [of "length ars" ws l] show ?thesis
    by (simp add: ra_is_label_defined_def)
qed

lemma ra_insert_memory_area_new:
  assumes "table_ok t ars" and "area_ok a bs" and "area_label a \<notin> area_label ` set ars"
    and "length ars + 1 < 2 ^ 16"
  shows "\<exists>t'. ra_insert_memory_area True t (Some a) = Inr (t', RA_SUCCESS) \<and> table_ok t' (ars @ [a])
     \<and> app_AID t' = app_AID t \<and> app_attestator_number t' = app_attestator_number t
     \<and> is_AID_set t' = is_AID_set t \<and> is_attestator_number_set t' = is_attestator_number_set t"
proof -
  from assms(1) have "dll_list (table_areas t) ars" by (simp add: table_ok_def)
  from dll_append_list [OF this, of a] obtain d
    where d: "dll_append a (table_areas t) = Inr d" "dll_list d (ars @ [a])" by blast
  with assms have "table_ok (t\<lparr>table_areas := d, memory_areas_count := memory_areas_count t + 1\<rparr>) (ars @ [a])"
    by (auto simp: table_ok_def)
  with d(1) assms(3) ra_is_label_defined_ok [OF assms(1)] show ?thesis
    by (simp add: ra_insert_memory_area_def insert_table_item_def ra_mA_get_label_def)
qed

text \<open>C30: \<^verbatim>\<open>ra_insert_memory_area\<close> keeps the invariant of the table (labels are unique, the
  count is the number of areas): an area with a fresh label is appended, one with a label in use
  is refused and the table stays as it is, and so it does for a NULL area or without memory.\<close>

theorem ra_insert_memory_area_invariant:
  assumes "table_ok t ars" and "area_ok a bs" and "length ars + 1 < 2 ^ 16"
  shows "ra_insert_memory_area ok t None = Inr (t, RA_ERROR_MALFORMED_MEMORY_AREA)
     \<and> (if area_label a \<in> area_label ` set ars
        then ra_insert_memory_area ok t (Some a) = Inr (t, RA_ERROR_MEMORY_LABEL_ALREADY_DEFINED)
        else ra_insert_memory_area False t (Some a) = Inr (t, RA_ERROR_MEMORY)
           \<and> (\<exists>t'. ra_insert_memory_area True t (Some a) = Inr (t', RA_SUCCESS)
                  \<and> table_ok t' (ars @ [a])))"
  using ra_insert_memory_area_new [OF assms(1,2) _ assms(3)] ra_is_label_defined_ok [OF assms(1)]
  by (auto simp: ra_insert_memory_area_def ra_mA_get_label_def)

text \<open>A concrete table.\<close>

definition blank_table :: ra_table where
  "blank_table =
     \<lparr>prepared_data = None, prepared_data_size = 0, current_nonce = None, current_nonce_size = 0,
      current_key = None, current_key_size = 0, table_areas = dll_empty, memory_areas_count = 0,
      app_AID = replicate 16 0, app_attestator_number = 0, is_AID_set = False,
      is_attestator_number_set = False\<rparr>"

lemma blank_table_ok [simp]: "table_ok blank_table []"
  by (simp add: blank_table_def table_ok_def)

text \<open>A table with given areas and nonce.\<close>

definition table_of :: "memory_area list \<Rightarrow> u8 list \<Rightarrow> ra_table" where
  "table_of ars nonce =
     blank_table\<lparr>table_areas := (case dll.append_all ars dll_empty of Inr d \<Rightarrow> d | Inl _ \<Rightarrow> dll_empty),
       memory_areas_count := of_nat (length ars), current_nonce := Some nonce,
       current_nonce_size := of_nat (length nonce), app_AID := replicate 16 5, is_AID_set := True,
       is_attestator_number_set := True\<rparr>"

lemma table_of_ok:
  assumes "length ars < 2 ^ 16" and "distinct (map area_label ars)" and "\<forall>a\<in>set ars. \<exists>bs. area_ok a bs"
    and "length nonce < 2 ^ 32"
  shows "table_ok (table_of ars nonce) ars"
proof -
  from dll.append_all_holds [OF dll.holds_empty, of ars] obtain d
    where "dll.append_all ars dll_empty = Inr d" and "dll_list d ars" by auto
  with assms show ?thesis
    by (simp add: table_ok_def table_of_def blank_table_def unat_of_nat_u32)
qed

theorem ra_insert_memory_area_invariant_witness:
  "\<exists>t'. ra_insert_memory_area True blank_table (Some (area_of 9 sample_blocks)) = Inr (t', RA_SUCCESS)
     \<and> table_ok t' [area_of 9 sample_blocks]"
  using ra_insert_memory_area_invariant [OF blank_table_ok sample_area_ok, of True 9] by simp

section \<open>Lookups\<close>

lemma find_label:
  "distinct (map area_label ars) \<Longrightarrow> a \<in> set ars \<Longrightarrow>
   find (\<lambda>b. area_label b = area_label a) ars = Some a"
  by (induction ars) (auto simp: rev_image_eqI)

lemma ra_get_memory_area_ok:
  assumes "table_ok t ars"
  shows "ra_get_memory_area t l = Inr (find (\<lambda>a. area_label a = l) ars)"
proof -
  from assms have "dll_list (table_areas t) ars" by (simp add: table_ok_def)
  from walk_find_list [OF this, of "\<lambda>a. area_label a = l"] show ?thesis
    by (auto simp: ra_get_memory_area_def ra_mA_get_label_def)
qed

lemma labels_loop_walk:
  "i + length ws \<le> length out \<Longrightarrow>
   labels_loop (length ws) i (ws, None) out =
     Inr (take i out @ map (area_label \<circ> snd) ws @ drop (i + length ws) out)"
  by (induction ws arbitrary: i out)
    (auto simp: ra_mA_get_label_def take_Suc_conv_app_nth drop_update_cancel)

lemma ra_get_labels_list_ok:
  assumes "table_ok t ars" and "length out = length ars"
  shows "ra_get_labels_list t (Some out) = Inr (Some (map area_label ars), RA_SUCCESS)"
proof -
  obtain ws where w: "dll_walk (table_areas t) = (ws, None)" "map snd ws = ars"
    using table_ok_walk [OF assms(1)] by blast
  then have "length ws = length ars" and "map (area_label \<circ> snd) ws = map area_label ars"
    by (auto simp flip: w(2))
  with labels_loop_walk [of 0 ws out] w(1) assms table_ok_count [OF assms(1)] show ?thesis
    by (simp add: ra_get_labels_list_def)
qed

text \<open>The labels a table lists are those of its areas in insertion order, and looking up any
  listed label finds the area that was inserted under it (and no other label finds anything).\<close>

theorem ra_labels_and_lookup_agree:
  assumes "table_ok t ars" and "length out = length ars"
  shows "ra_get_labels_list t (Some out) = Inr (Some (map area_label ars), RA_SUCCESS)
     \<and> (\<forall>i. i < length ars \<longrightarrow> ra_get_memory_area t (map area_label ars ! i) = Inr (Some (ars ! i)))
     \<and> (\<forall>l. l \<notin> set (map area_label ars) \<longrightarrow> ra_get_memory_area t l = Inr None)"
proof (intro conjI allI impI)
  fix i assume i: "i < length ars"
  have dis: "distinct (map area_label ars)" using assms(1) by (simp add: table_ok_def)
  have "find (\<lambda>a. area_label a = area_label (ars ! i)) ars = Some (ars ! i)"
    using i dis by (simp add: find_label)
  with i show "ra_get_memory_area t (map area_label ars ! i) = Inr (Some (ars ! i))"
    by (simp add: ra_get_memory_area_ok [OF assms(1)])
next
  fix l assume "l \<notin> set (map area_label ars)"
  then show "ra_get_memory_area t l = Inr None"
    by (auto simp: ra_get_memory_area_ok [OF assms(1)] find_None_iff)
qed (rule ra_get_labels_list_ok [OF assms])

theorem ra_labels_and_lookup_agree_witness:
  "ra_get_labels_list blank_table (Some []) = Inr (Some [], RA_SUCCESS)
     \<and> ra_get_memory_area blank_table 3 = Inr None"
  using ra_labels_and_lookup_agree [OF blank_table_ok, of "[]"] by simp

section \<open>Nonce and key\<close>

text \<open>A nonce that was set is read back as it was, whatever nonce the table had before.\<close>

theorem ra_nonce_set_get:
  assumes "length nonce = unat sz" and "sz \<noteq> 0" and "length buf = unat sz"
  shows "\<exists>t'. ra_set_current_nonce True t nonce sz = Inr (t', RA_SUCCESS)
     \<and> ra_get_current_nonce t' (Some buf) = Inr (Some nonce, RA_SUCCESS)
     \<and> ra_get_current_nonce_size t' = sz"
  using assms
  by (auto simp: ra_set_current_nonce_def ra_get_current_nonce_def ra_get_current_nonce_size_def
      read_at_def write_at_def Let_def)

theorem ra_nonce_set_get_witness:
  "\<exists>t'. ra_set_current_nonce True blank_table [1, 2] 2 = Inr (t', RA_SUCCESS)
     \<and> ra_get_current_nonce t' (Some [0, 0]) = Inr (Some [1, 2], RA_SUCCESS)
     \<and> ra_get_current_nonce_size t' = 2"
  by (rule ra_nonce_set_get) simp_all

text \<open>The same does not hold of the key: the getter's size test is inverted, so a nonempty key
  that was set is always reported as undefined.\<close>

theorem ra_key_never_read:
  assumes "length key = unat sz" and "sz \<noteq> 0"
  shows "\<exists>t'. ra_set_current_key True t key sz = Inr (t', RA_SUCCESS)
     \<and> ra_get_current_key_reference t' = Some key
     \<and> ra_get_current_key t' out = Inr (out, RA_ERROR_UNDEFINED_KEY)"
  using assms
  by (auto simp: ra_set_current_key_def ra_get_current_key_def ra_get_current_key_reference_def
      read_at_def Let_def)

theorem ra_key_never_read_witness:
  "\<exists>t'. ra_set_current_key True blank_table [1, 2] 2 = Inr (t', RA_SUCCESS)
     \<and> ra_get_current_key_reference t' = Some [1, 2]
     \<and> ra_get_current_key t' (Some [0, 0]) = Inr (Some [0, 0], RA_ERROR_UNDEFINED_KEY)"
  by (rule ra_key_never_read) simp_all

section \<open>Removing an area\<close>

text \<open>Removing the area at the head of the list frees its cell but keeps the head and the
  count: from then on looking up a label, testing one and inserting an area all use freed memory.\<close>

theorem ra_remove_memory_area_dangles:
  assumes "table_ok t (a # ars)"
  shows "\<exists>t'. ra_remove_memory_area t (area_label a) = Inr (t', RA_SUCCESS)
     \<and> memory_areas_count t' = memory_areas_count t
     \<and> ra_get_memory_area t' l = Inl Use_After_Free
     \<and> ra_is_label_defined t' l = Inl Use_After_Free
     \<and> ra_insert_memory_area ok t' (Some b) = Inl Use_After_Free"
proof -
  from assms obtain as where "dll_at (table_areas t) as (a # ars)" by (auto simp: table_ok_def dll_list_def)
  moreover from this obtain p ps where "as = p # ps" by (cases as) (auto simp: dll_at_def)
  ultimately have at: "dll_at (table_areas t) (p # ps) (a # ars)" by simp
  from dll_unlink_head [OF at] obtain d
    where d: "dll_unlink p (table_areas t) = Inr d" "dll_walk d = ([], Some Use_After_Free)" by blast
  obtain n where "unat (memory_areas_count t) = Suc n" using table_ok_count [OF assms] by simp
  with d dll_walk_at [OF at] show ?thesis
    by (auto simp: ra_remove_memory_area_def ra_mA_get_label_def ra_get_memory_area_def
        ra_is_label_defined_def ra_insert_memory_area_def)
qed

theorem ra_remove_memory_area_dangles_witness:
  "\<exists>t t'. ra_insert_memory_area True blank_table (Some (area_of 9 sample_blocks)) = Inr (t, RA_SUCCESS)
     \<and> ra_remove_memory_area t 9 = Inr (t', RA_SUCCESS)
     \<and> ra_get_memory_area t' 9 = Inl Use_After_Free"
proof -
  obtain t where t: "ra_insert_memory_area True blank_table (Some (area_of 9 sample_blocks)) = Inr (t, RA_SUCCESS)"
    "table_ok t [area_of 9 sample_blocks]"
    using ra_insert_memory_area_new [OF blank_table_ok sample_area_ok, of 9] by auto
  have "area_label (area_of 9 sample_blocks) = 9" by (simp add: area_of_def)
  with t ra_remove_memory_area_dangles [OF t(2), of 9 True "area_of 9 sample_blocks"]
  show ?thesis by auto
qed

section \<open>The attestation data structure in the binary\<close>

text \<open>
  What the parser reads: the application id backwards, the attestator number, a 32-bit count and
  the areas. An entry here is an area as a pair of its label and its blocks.
\<close>

definition ads_image :: "u8 list \<Rightarrow> u64 \<Rightarrow> (u16 \<times> memory_block list) list \<Rightarrow> u8 list" where
  "ads_image aid n entries =
     rev aid @ le_bytes 8 n @ le_bytes 4 (of_nat (length entries) :: u32)
       @ concat (map (\<lambda>(l, bs). area_dump l bs) entries)"

lemma swap_AID_rev:
  assumes "length xs = AID_SIZE"
  shows "swap_AID xs = rev xs"
proof -
  obtain x0 x1 x2 x3 x4 x5 x6 x7 ys where "xs = [x0, x1, x2, x3, x4, x5, x6, x7] @ ys"
    and ys: "length ys = 8"
    using assms by (auto simp: AID_SIZE_def numeral_eq_Suc length_Suc_conv)
  moreover from ys obtain y0 y1 y2 y3 y4 y5 y6 y7 where "ys = [y0, y1, y2, y3, y4, y5, y6, y7]"
    by (auto simp: numeral_eq_Suc length_Suc_conv)
  ultimately show ?thesis by (simp add: swap_AID_def swap_bytes_def AID_SIZE_def upt_rec)
qed

definition entry_ok :: "u16 \<times> memory_block list \<Rightarrow> bool" where
  "entry_ok e \<longleftrightarrow> length (snd e) < 2 ^ 32 \<and> blocks_size (snd e) < 2 ^ 32"

definition area_is :: "u16 \<times> memory_block list \<Rightarrow> memory_area \<Rightarrow> bool" where
  "area_is e a \<longleftrightarrow> area_label a = fst e \<and> area_ok a (snd e)"

lemma list_all2_labels: "list_all2 area_is es ars \<Longrightarrow> map area_label ars = map fst es"
  by (induction rule: list_all2_induct) (simp_all add: area_is_def)

lemma parse_areas_loop_reads:
  assumes "table_ok t ars" and "list_all2 area_is es0 ars"
    and "length (es0 @ es) < 2 ^ 16" and "distinct (map fst (es0 @ es))" and "\<forall>e\<in>set es. entry_ok e"
  shows "\<exists>t' ars'. parse_areas_loop (length es) [] (concat (map (\<lambda>(l, bs). area_dump l bs) es) @ rest) t
          = Inr (Some t')
     \<and> table_ok t' ars' \<and> list_all2 area_is (es0 @ es) ars'
     \<and> app_AID t' = app_AID t \<and> app_attestator_number t' = app_attestator_number t
     \<and> is_AID_set t' = is_AID_set t \<and> is_attestator_number_set t' = is_attestator_number_set t"
  using assms
proof (induction es arbitrary: t ars es0)
  case Nil
  then show ?case by auto
next
  case (Cons e es)
  obtain l bs where e: "e = (l, bs)" by (cases e)
  let ?rest = "concat (map (\<lambda>(l, bs). area_dump l bs) es) @ rest"
  from Cons.prems(5) e obtain a where a: "ra_mA_parse_ads_binary_info [] (area_dump l bs @ ?rest) = Inr (Some a, [], ?rest)"
    "area_ok a bs" "area_label a = l"
    using ra_mA_parse_binary_ok [of bs l ?rest] by (auto simp: entry_ok_def)
  have "area_label ` set ars = fst ` set es0"
    using list_all2_labels [OF Cons.prems(2)] by (metis image_set)
  then have "area_label a \<notin> area_label ` set ars" using Cons.prems(4) a(3) e by auto
  moreover have "length ars + 1 < 2 ^ 16"
    using list_all2_lengthD [OF Cons.prems(2)] Cons.prems(3) by simp
  ultimately obtain t1 where t1: "ra_insert_memory_area True t (Some a) = Inr (t1, RA_SUCCESS)"
    "table_ok t1 (ars @ [a])" "app_AID t1 = app_AID t" "app_attestator_number t1 = app_attestator_number t"
    "is_AID_set t1 = is_AID_set t" "is_attestator_number_set t1 = is_attestator_number_set t"
    using ra_insert_memory_area_new [OF Cons.prems(1) a(2)] by blast
  have "area_is e a" using a e by (simp add: area_is_def)
  then have "list_all2 area_is (es0 @ [e]) (ars @ [a])"
    using Cons.prems(2) by (intro list_all2_appendI) simp_all
  from Cons.IH [OF t1(2) this] Cons.prems a t1 e show ?case by simp
qed

lemma parse_ads_image:
  assumes "length aid = AID_SIZE" and "length es < 2 ^ 16" and "distinct (map fst es)"
    and "\<forall>e\<in>set es. entry_ok e"
  shows "\<exists>t ars. ra_parse_binary_ads h [] (Some (ads_image aid n es @ rest)) = Inr (Some t)
     \<and> table_ok t ars \<and> list_all2 area_is es ars
     \<and> app_AID t = aid \<and> is_AID_set t
     \<and> app_attestator_number t = n \<and> is_attestator_number_set t"
proof -
  obtain t0 where t0: "ra_create_table h True = Some t0" by (simp add: ra_create_table_def)
  let ?t = "t0\<lparr>app_AID := aid, is_AID_set := True,
               app_attestator_number := n, is_attestator_number_set := True\<rparr>"
  have "table_ok t0 []" by (rule table_ok_create [OF t0])
  then have "table_ok ?t []" by (simp add: table_ok_def)
  with parse_areas_loop_reads [of ?t "[]" "[]" es rest] assms
  obtain t' ars' where "parse_areas_loop (length es) [] (concat (map (\<lambda>(l, bs). area_dump l bs) es) @ rest) ?t
          = Inr (Some t')" "table_ok t' ars'" "list_all2 area_is es ars'"
     "app_AID t' = aid" "app_attestator_number t' = n" "is_AID_set t'" "is_attestator_number_set t'"
    by auto
  moreover have "swap_AID (rev aid) = aid" using swap_AID_rev [of "rev aid"] assms(1) by simp
  moreover have "unat (of_nat (length es) :: u32) = length es" using assms(2) by (simp add: unat_of_nat_u32)
  ultimately show ?thesis
    using assms(1) t0 by (auto simp: ra_parse_binary_ads_def ads_image_def)
qed

text \<open>C24: Parsing a well-formed blob gives a table with its application id, its attestator number
  and exactly its areas, block by block and in the same order.\<close>

theorem ra_parse_binary_ads_reads_image:
  assumes "length aid = AID_SIZE" and "length es < 2 ^ 16" and "distinct (map fst es)"
    and "\<forall>e\<in>set es. entry_ok e"
  shows "\<exists>t ars. ra_parse_binary_ads h [] (Some (ads_image aid n es @ rest)) = Inr (Some t)
     \<and> table_ok t ars \<and> list_all2 area_is es ars
     \<and> app_AID t = aid \<and> is_AID_set t
     \<and> app_attestator_number t = n \<and> is_attestator_number_set t"
  by (rule parse_ads_image [OF assms])

definition sample_entries :: "(u16 \<times> memory_block list) list" where
  "sample_entries = [(7, sample_blocks), (9, tl sample_blocks)]"

theorem ra_parse_binary_ads_reads_image_witness:
  "\<exists>t ars. ra_parse_binary_ads blank_table [] (Some (ads_image (replicate 16 5) 3 sample_entries @ []))
       = Inr (Some t)
     \<and> table_ok t ars \<and> list_all2 area_is sample_entries ars
     \<and> app_AID t = replicate 16 5 \<and> is_AID_set t
     \<and> app_attestator_number t = 3 \<and> is_attestator_number_set t"
  by (rule ra_parse_binary_ads_reads_image)
    (simp_all add: AID_SIZE_def sample_entries_def entry_ok_def sample_blocks_def)

text \<open>Every table the parser returns has the first bytes of the blob, reversed, as its id.\<close>

lemma insert_keeps_AID:
  "ra_insert_memory_area ok t a = Inr (t', r) \<Longrightarrow> app_AID t' = app_AID t"
  by (auto simp: ra_insert_memory_area_def insert_table_item_def run_simps split: option.splits if_splits)

lemma parse_areas_loop_keeps_AID:
  "parse_areas_loop n ms p t = Inr (Some t') \<Longrightarrow> app_AID t' = app_AID t"
proof (induction n arbitrary: ms p t)
  case 0
  then show ?case by simp
next
  case (Suc n)
  then show ?case
    by (auto simp: run_simps dest: insert_keeps_AID split: option.splits if_splits)
qed

text \<open>Writing only appends.\<close>

definition extends :: "out_file \<Rightarrow> out_file \<Rightarrow> bool" where
  "extends f g \<longleftrightarrow> (\<exists>bs. fst g = fst f @ bs)"

lemma extends_refl [simp]: "extends f f"
  by (simp add: extends_def)

lemma extends_trans: "extends f g \<Longrightarrow> extends g h \<Longrightarrow> extends f h"
  by (auto simp: extends_def)

lemma fd_write_extends: "fd_write bs f = (ok, g) \<Longrightarrow> extends f g"
  by (auto simp: fd_write_def extends_def split: prod.splits if_splits)

lemma dump_block_extends: "ra_mB_dump_info b f = (g, r) \<Longrightarrow> extends f g"
  by (auto simp: ra_mB_dump_info_def Let_def split: prod.splits if_splits
      dest!: fd_write_extends intro: extends_trans)

lemma dump_blocks_loop_extends: "dump_blocks_loop w f = Inr (g, r) \<Longrightarrow> extends f g"
  by (induction w f rule: dump_blocks_loop.induct)
    (auto simp: Let_def split: prod.splits if_splits dest!: dump_block_extends intro: extends_trans)

lemma dump_area_extends: "ra_mA_dump_info_binary a f = Inr (g, r) \<Longrightarrow> extends f g"
  by (auto simp: ra_mA_dump_info_binary_def Let_def split: prod.splits if_splits
      dest!: fd_write_extends dump_blocks_loop_extends intro: extends_trans)

lemma dump_areas_loop_extends: "dump_areas_loop n w f = Inr (g, ok) \<Longrightarrow> extends f g"
  by (induction n w f rule: dump_areas_loop.induct)
    (auto simp: run_simps split: prod.splits if_splits dest: dump_area_extends intro: extends_trans)

lemma dump_table_prefix:
  assumes "ra_dump_table_info True old room t = Inr (Some out, r)" and "length (app_AID t) = AID_SIZE"
  shows "take AID_SIZE out = app_AID t"
proof -
  from assms(1) obtain ok1 f1 ok2 f2 ok3 f3 g b
    where "fd_write (app_AID t) ([], room) = (True, f1)" and "extends f1 f2" and "extends f2 f3"
      and "extends f3 g" and out: "out = fst g @ drop (length (fst g)) old"
    by (auto simp: ra_dump_table_info_def Let_def run_simps split: prod.splits if_splits
        dest!: fd_write_extends dump_areas_loop_extends)
  then have "fst f1 = app_AID t" and "extends f1 g"
    by (auto simp: fd_write_def split: if_splits intro: extends_trans)
  with out assms(2) show ?thesis by (auto simp: extends_def)
qed

lemma parse_AID:
  assumes "ra_parse_binary_ads h ms (Some p) = Inr (Some t)"
  shows "app_AID t = rev (take AID_SIZE p)"
  using assms
  by (auto simp: ra_parse_binary_ads_def run_simps swap_AID_rev dest!: parse_areas_loop_keeps_AID)

text \<open>The dump of a table is not what the parser reads: whatever the table and its areas, a
  table parsed back from a dump has the application id reversed, so unless the id is a palindrome
  the client parses a different identity.\<close>

theorem ra_dump_parse_reverses_AID:
  assumes "length (app_AID t) = AID_SIZE"
    and "ra_dump_table_info True old room t = Inr (Some out, RA_SUCCESS)"
    and "ra_parse_binary_ads h ms (Some out) = Inr (Some t')"
  shows "app_AID t' = rev (app_AID t)"
  using parse_AID [OF assms(3)] dump_table_prefix [OF assms(2,1)] by simp

text \<open>A dump that the parser accepts: an empty table, with old bytes behind the dump.\<close>

definition dumped_table :: ra_table where
  "dumped_table =
     blank_table\<lparr>app_AID := 1 # replicate 15 0, is_AID_set := True, is_attestator_number_set := True\<rparr>"

lemma dumped_table_file:
  "ra_dump_table_info True (replicate 40 0) 100 dumped_table
     = Inr (Some (1 # replicate 15 0 @ replicate 24 0), RA_SUCCESS)"
  by (simp add: ra_dump_table_info_def fd_write_def dumped_table_def blank_table_def dll_walk_def
      dll_empty_def eval_nat_numeral)

lemma dumped_table_parsed:
  "\<exists>t'. ra_parse_binary_ads blank_table [] (Some (1 # replicate 15 0 @ replicate 24 0)) = Inr (Some t')"
  by (simp add: ra_parse_binary_ads_def ra_create_table_def read_word_def read_at_def AID_SIZE_def
      eval_nat_numeral)

theorem ra_dump_parse_reverses_AID_witness:
  "\<exists>out t'. ra_dump_table_info True (replicate 40 0) 100 dumped_table = Inr (Some out, RA_SUCCESS)
     \<and> ra_parse_binary_ads blank_table [] (Some out) = Inr (Some t')
     \<and> app_AID t' = replicate 15 0 @ [1] \<and> app_AID dumped_table = 1 # replicate 15 0"
proof -
  obtain t' where p: "ra_parse_binary_ads blank_table [] (Some (1 # replicate 15 0 @ replicate 24 0)) = Inr (Some t')"
    using dumped_table_parsed by blast
  have "length (app_AID dumped_table) = AID_SIZE" by (simp add: dumped_table_def AID_SIZE_def)
  from ra_dump_parse_reverses_AID [OF this dumped_table_file p] p dumped_table_file show ?thesis
    by (simp add: dumped_table_def)
qed

end
