(* ===== verification/Nonce_Interpretation.thy ===== *)
theory Nonce_Interpretation
  imports RA_Data_Table Prime_Search
begin

text \<open>
  The four versions of \<^verbatim>\<open>ra_nonce_interpretation_N.c\<close>: how a nonce selects the area to attest, the
  part of it that the random walk covers, the generator of the walk and its initial offset. A
  version fills the caller's \<^verbatim>\<open>decoded_info\<close>, whose initial contents are an argument.
\<close>

record decoded_info =
  info_label :: u16
  info_buffer_size :: u32
  info_actual_size :: u32
  info_generator :: u32
  info_offset :: u32

text \<open>
  The part all versions share: the two bytes three before the end of the nonce, modulo the number
  of areas, index the list of labels. The result is the label and the total size of its area, or
  \<open>None\<close> when the list could not be allocated.
\<close>

definition nonce_label_index :: "ra_table \<Rightarrow> u16 run" where
  "nonce_label_index t =
     bind_run (deref (ra_get_current_nonce_reference t)) (\<lambda>nonce.
       let sz = unat (ra_get_current_nonce_size t) in
       bind_run (guard_run (3 \<le> sz) Out_Of_Bounds) (\<lambda>_.
       bind_run (read_word nonce (sz - 3) 2) (\<lambda>w.
         umod w (ra_get_memory_areas_count t))))"

definition decode_area :: "bool \<Rightarrow> ra_table \<Rightarrow> (u16 \<times> u32) option run" where
  "decode_area malloc_ok t =
     bind_run (nonce_label_index t) (\<lambda>i.
       if \<not> malloc_ok then Inr None
       else bind_run (ra_get_labels_list t (Some (replicate (unat (ra_get_memory_areas_count t)) 0)))
         (\<lambda>(labels, r).
           let label = the labels ! unat i in
           bind_run (ra_get_memory_area t label) (\<lambda>area.
           bind_run (deref area) (\<lambda>a. Inr (Some (label, ra_mA_get_total_size a))))))"

text \<open>The integers stored at the beginning of the nonce and four bytes into it.\<close>

definition nonce_word :: "ra_table \<Rightarrow> nat \<Rightarrow> u32 run" where
  "nonce_word t off =
     bind_run (deref (ra_get_current_nonce_reference t)) (\<lambda>nonce. read_word nonce off 4)"

definition fix_generator :: "u32 \<Rightarrow> u32" where
  "fix_generator g = (if g = 1 \<or> g = 0 then 2 else g)"

type_synonym decoder = "ra_table \<Rightarrow> decoded_info \<Rightarrow> (decoded_info \<times> ra_result) run"

text \<open>Version 1 compares the result of \<^verbatim>\<open>closest_prime\<close> with -1, which no result code is.\<close>

definition decode_nonce_1 :: "(int \<Rightarrow> int) \<Rightarrow> bool \<Rightarrow> bool \<Rightarrow> decoder" where
  "decode_nonce_1 is_prime bn_ok malloc_ok t ret =
     bind_run (decode_area malloc_ok t) (\<lambda>area.
       case area of
         None \<Rightarrow> Inr (ret, RA_ERROR_MEMORY)
       | Some (label, sz) \<Rightarrow>
           bind_run (closest_prime is_prime bn_ok sz (info_actual_size ret)) (\<lambda>(r, actual).
             if ra_result_code r = - 1
             then Inr (ret\<lparr>info_label := label, info_buffer_size := sz, info_actual_size := actual\<rparr>,
                       RA_ERROR_GENERIC)
             else bind_run (if sz \<noteq> actual
                            then bind_run (nonce_word t 4) (\<lambda>w. umod w (sz - actual))
                            else Inr 0) (\<lambda>off.
                  bind_run (nonce_word t 0) (\<lambda>w.
                  bind_run (umod w actual) (\<lambda>g.
                    Inr (\<lparr>info_label = label, info_buffer_size = sz, info_actual_size = actual,
                           info_generator = fix_generator g, info_offset = off\<rparr>, RA_SUCCESS))))))"

definition decode_nonce_2 :: "(int \<Rightarrow> int) \<Rightarrow> bool \<Rightarrow> bool \<Rightarrow> decoder" where
  "decode_nonce_2 is_prime bn_ok malloc_ok t ret =
     bind_run (decode_area malloc_ok t) (\<lambda>area.
       case area of
         None \<Rightarrow> Inr (ret, RA_ERROR_MEMORY)
       | Some (label, sz) \<Rightarrow>
           let ret1 = ret\<lparr>info_label := label, info_buffer_size := sz, info_actual_size := sz\<rparr> in
           bind_run (if info_buffer_size ret1 \<noteq> info_actual_size ret1
                     then bind_run (nonce_word t 4)
                            (\<lambda>w. umod w (info_buffer_size ret1 - info_actual_size ret1))
                     else Inr 0) (\<lambda>off.
             let ret2 = ret1\<lparr>info_offset := off\<rparr> in
             bind_run (closest_prime is_prime bn_ok sz (info_generator ret2)) (\<lambda>(r, g).
               let ret3 = ret2\<lparr>info_generator := g\<rparr> in
               if r \<noteq> RA_SUCCESS then Inr (ret3, RA_ERROR_GENERIC)
               else Inr (ret3\<lparr>info_generator := fix_generator g\<rparr>, RA_SUCCESS))))"

definition decode_nonce_3 :: "(int \<Rightarrow> int) \<Rightarrow> bool \<Rightarrow> bool \<Rightarrow> decoder" where
  "decode_nonce_3 is_prime bn_ok malloc_ok t ret =
     bind_run (decode_area malloc_ok t) (\<lambda>area.
       case area of
         None \<Rightarrow> Inr (ret, RA_ERROR_MEMORY)
       | Some (label, sz) \<Rightarrow>
           let ret1 = ret\<lparr>info_label := label, info_buffer_size := sz, info_actual_size := sz,
                         info_offset := 0\<rparr> in
           bind_run (closest_prime is_prime bn_ok sz (info_generator ret1)) (\<lambda>(r, g).
             let ret2 = ret1\<lparr>info_generator := g\<rparr> in
             if r \<noteq> RA_SUCCESS then Inr (ret2, RA_ERROR_GENERIC)
             else Inr (ret2\<lparr>info_generator := fix_generator g\<rparr>, RA_SUCCESS)))"

definition decode_nonce_4 :: "(int \<Rightarrow> int) \<Rightarrow> bool \<Rightarrow> bool \<Rightarrow> decoder" where
  "decode_nonce_4 is_prime bn_ok malloc_ok t ret =
     bind_run (decode_area malloc_ok t) (\<lambda>area.
       case area of
         None \<Rightarrow> Inr (ret, RA_ERROR_MEMORY)
       | Some (label, sz) \<Rightarrow>
           let ret1 = ret\<lparr>info_label := label, info_buffer_size := sz\<rparr> in
           bind_run (closest_prime is_prime bn_ok sz (info_actual_size ret1)) (\<lambda>(r, actual).
             let ret2 = ret1\<lparr>info_actual_size := actual\<rparr> in
             if r \<noteq> RA_SUCCESS then Inr (ret2, RA_ERROR_GENERIC)
             else
               let ret3 = ret2\<lparr>info_offset := 0\<rparr> in
               bind_run (closest_prime is_prime bn_ok (actual - 1) (info_generator ret3)) (\<lambda>(r2, g).
                 let ret4 = ret3\<lparr>info_generator := g\<rparr> in
                 if r2 \<noteq> RA_SUCCESS then Inr (ret4, RA_ERROR_GENERIC)
                 else Inr (ret4\<lparr>info_generator := fix_generator g\<rparr>, RA_SUCCESS))))"

text \<open>The information printer decodes the nonce too; it keeps nothing of it.\<close>

definition print_encoded_info :: "decoder \<Rightarrow> decoded_info \<Rightarrow> ra_table \<Rightarrow> unit run" where
  "print_encoded_info decode garbage t =
     (if ra_get_current_nonce_reference t \<noteq> None
      then bind_run (decode t garbage) (\<lambda>_. Inr ()) else Inr ())"

section \<open>What a decoded nonce says\<close>

text \<open>The area a nonce selects in a healthy table.\<close>

definition selected_area :: "ra_table \<Rightarrow> memory_area list \<Rightarrow> u8 list \<Rightarrow> memory_area" where
  "selected_area t ars nonce =
     ars ! (unat (le_word (take 2 (drop (length nonce - 3) nonce)) :: u16) mod length ars)"

definition nonce_in :: "ra_table \<Rightarrow> u8 list \<Rightarrow> bool" where
  "nonce_in t nonce \<longleftrightarrow> current_nonce t = Some nonce \<and> length nonce = unat (current_nonce_size t)"

lemma nonce_label_index_ok:
  assumes "table_ok t ars" and "ars \<noteq> []" and "nonce_in t nonce" and "3 \<le> length nonce"
  shows "\<exists>i. nonce_label_index t = Inr i
     \<and> unat i = unat (le_word (take 2 (drop (length nonce - 3) nonce)) :: u16) mod length ars"
proof -
  let ?c = "memory_areas_count t"
  have c: "unat ?c = length ars" by (rule table_ok_count [OF assms(1)])
  with assms(2) have "?c \<noteq> 0" by auto
  with assms(3,4) c show ?thesis
    by (simp add: nonce_label_index_def ra_get_current_nonce_reference_def ra_get_current_nonce_size_def
        ra_get_memory_areas_count_def nonce_in_def Let_def read_word_in_bounds unat_mod)
qed

lemma decode_area_ok:
  assumes "table_ok t ars" and "ars \<noteq> []" and "nonce_in t nonce" and "3 \<le> length nonce"
  shows "decode_area True t = Inr (Some (area_label (selected_area t ars nonce),
     area_total_size (selected_area t ars nonce)))"
proof -
  let ?a = "selected_area t ars nonce"
  obtain i where i: "nonce_label_index t = Inr i"
    "unat i = unat (le_word (take 2 (drop (length nonce - 3) nonce)) :: u16) mod length ars"
    using nonce_label_index_ok [OF assms] by blast
  then have lt: "unat i < length ars" and a: "?a = ars ! unat i"
    using assms(2) by (simp_all add: selected_area_def)
  have "distinct (map area_label ars)" using assms(1) by (simp add: table_ok_def)
  with lt have "find (\<lambda>a. area_label a = area_label (ars ! unat i)) ars = Some (ars ! unat i)"
    by (simp add: find_label)
  moreover have "ra_get_labels_list t (Some (replicate (unat (ra_get_memory_areas_count t)) 0))
      = Inr (Some (map area_label ars), RA_SUCCESS)"
    by (rule ra_get_labels_list_ok [OF assms(1)])
      (simp add: ra_get_memory_areas_count_def table_ok_count [OF assms(1)])
  ultimately show ?thesis
    using i(1) lt ra_get_memory_area_ok [OF assms(1)]
    by (simp add: decode_area_def Let_def a ra_mA_get_total_size_def)
qed

lemma selected_area_in: "ars \<noteq> [] \<Longrightarrow> selected_area t ars nonce \<in> set ars"
  by (simp add: selected_area_def)

lemma nonce_word_ok:
  "nonce_in t nonce \<Longrightarrow> off + 4 \<le> length nonce \<Longrightarrow>
   nonce_word t off = Inr (le_word (take 4 (drop off nonce)))"
  by (simp add: nonce_word_def nonce_in_def ra_get_current_nonce_reference_def read_word_in_bounds)

text \<open>What every version must deliver for the walk to stay inside the area.\<close>

definition info_in_bounds :: "decoded_info \<Rightarrow> bool" where
  "info_in_bounds i \<longleftrightarrow> 0 < info_actual_size i
     \<and> unat (info_offset i) + unat (info_actual_size i) \<le> unat (info_buffer_size i)"

lemma fix_generator_ge: "2 \<le> unat (fix_generator g)"
proof (cases "g = 1 \<or> g = 0")
  case False
  then have "unat g \<noteq> 0" and "unat g \<noteq> 1" by (auto simp: word_unat_eq_iff)
  with False show ?thesis by (simp add: fix_generator_def)
qed (simp add: fix_generator_def)

lemma fix_generator_id: "2 \<le> unat g \<Longrightarrow> fix_generator g = g"
  by (auto simp: fix_generator_def)

lemma fix_generator_less: "unat g < n \<Longrightarrow> 2 < n \<Longrightarrow> unat (fix_generator g) < n"
  by (simp add: fix_generator_def)

lemma is_prime_number_3: "is_prime_number 3"
proof -
  have "{2..<3 :: int} = {2}" by auto
  then show ?thesis by (simp add: is_prime_number_def)
qed

lemma uint_int_unat: "uint (w :: 'a::len word) = int (unat w)"
  by simp

lemma closest_prime_nat:
  assumes "prime_test_exact is_prime" and "2 \<le> unat n"
  shows "\<exists>p. (\<forall>out. closest_prime is_prime True n out = Inr (RA_SUCCESS, p))
     \<and> greatest_prime_below (uint n) (uint p) \<and> 2 \<le> unat p \<and> unat p \<le> unat n"
proof -
  from assms(2) have "2 \<le> n" by (simp add: word_le_nat_alt)
  with closest_prime_success [OF assms(1)] obtain p
    where p: "\<And>out. closest_prime is_prime True n out = Inr (RA_SUCCESS, p)"
      "greatest_prime_below (uint n) (uint p)" by blast
  then have "2 \<le> uint p" and "uint p \<le> uint n"
    by (auto simp: greatest_prime_below_def dest: is_prime_number_ge)
  then have "2 \<le> unat p" and "unat p \<le> unat n"
    by (simp_all only: uint_int_unat of_nat_le_iff)
  with p show ?thesis by blast
qed

text \<open>The situation all versions are used in.\<close>

definition decodable :: "ra_table \<Rightarrow> memory_area list \<Rightarrow> u8 list \<Rightarrow> nat \<Rightarrow> bool" where
  "decodable t ars nonce n \<longleftrightarrow> table_ok t ars \<and> ars \<noteq> [] \<and> nonce_in t nonce \<and> 8 \<le> length nonce
     \<and> n \<le> unat (area_total_size (selected_area t ars nonce))"

lemma decodable_area:
  "decodable t ars nonce n \<Longrightarrow>
   decode_area True t = Inr (Some (area_label (selected_area t ars nonce),
     area_total_size (selected_area t ars nonce)))"
  by (rule decode_area_ok) (simp_all add: decodable_def)

lemma decodable_word:
  "decodable t ars nonce n \<Longrightarrow> off \<le> 4 \<Longrightarrow>
   nonce_word t off = Inr (le_word (take 4 (drop off nonce)))"
  by (rule nonce_word_ok) (simp_all add: decodable_def)

lemma umod_ok: "unat m \<noteq> 0 \<Longrightarrow> \<exists>r. umod w m = Inr r \<and> unat r < unat m"
  by (cases "m = 0") (auto simp: umod_def unat_mod unat_gt_0)

lemma unat_diff_le: "unat (y :: u32) \<le> unat x \<Longrightarrow> unat (x - y) = unat x - unat y"
  by (simp add: unat_sub word_le_nat_alt)

lemma decode_nonce_1_ok:
  assumes "prime_test_exact is_prime" and "decodable t ars nonce 2"
  defines "s \<equiv> area_total_size (selected_area t ars nonce)"
  shows "\<exists>i. (\<forall>ret. decode_nonce_1 is_prime True True t ret = Inr (i, RA_SUCCESS))
     \<and> info_label i = area_label (selected_area t ars nonce) \<and> info_buffer_size i = s
     \<and> info_in_bounds i \<and> greatest_prime_below (uint s) (uint (info_actual_size i))
     \<and> 2 \<le> unat (info_generator i)
     \<and> (2 < unat (info_actual_size i) \<longrightarrow> unat (info_generator i) < unat (info_actual_size i))"
proof -
  have "2 \<le> unat s" using assms(2) by (simp add: decodable_def s_def)
  from closest_prime_nat [OF assms(1) this] obtain p
    where p: "\<And>out. closest_prime is_prime True s out = Inr (RA_SUCCESS, p)"
      "greatest_prime_below (uint s) (uint p)" "2 \<le> unat p" "unat p \<le> unat s" by blast
  note area = decodable_area [OF assms(2), folded s_def]
  have "\<exists>off. (s = p \<and> off = 0 \<or> s \<noteq> p \<and> umod (le_word (take 4 (drop 4 nonce))) (s - p) = Inr off)
      \<and> unat off + unat p \<le> unat s"
  proof (cases "s = p")
    case False
    then have "unat (s - p) \<noteq> 0" by (auto simp: unat_eq_zero)
    with umod_ok obtain r where "umod (le_word (take 4 (drop 4 nonce))) (s - p) = Inr r" "unat r < unat (s - p)"
      by blast
    with False p(4) show ?thesis by (auto simp: unat_diff_le)
  qed simp
  then obtain off where off: "s = p \<and> off = 0 \<or> s \<noteq> p \<and> umod (le_word (take 4 (drop 4 nonce))) (s - p) = Inr off"
    "unat off + unat p \<le> unat s" by blast
  obtain g where g: "umod (le_word (take 4 nonce)) p = Inr g" "unat g < unat p"
    using umod_ok [of p "le_word (take 4 nonce)"] p(3) by auto
  have "\<forall>ret. decode_nonce_1 is_prime True True t ret =
     Inr (\<lparr>info_label = area_label (selected_area t ars nonce), info_buffer_size = s,
            info_actual_size = p, info_generator = fix_generator g, info_offset = off\<rparr>, RA_SUCCESS)"
    using off(1) decodable_word [OF assms(2), of 0] decodable_word [OF assms(2), of 4]
    by (auto simp: decode_nonce_1_def area p(1) g(1))
  moreover have "0 < p" using p(3) by (simp add: word_less_nat_alt)
  ultimately show ?thesis
    using p off(2) g(2) fix_generator_ge [of g] fix_generator_less [of g "unat p"]
    by (simp add: info_in_bounds_def)
qed

text \<open>Versions 2 and 3 cover the whole area; version 4 a prime part with a smaller prime.\<close>

lemma decode_nonce_23_ok:
  assumes "prime_test_exact is_prime" and "decodable t ars nonce 2"
  defines "s \<equiv> area_total_size (selected_area t ars nonce)"
  shows "\<exists>p i. greatest_prime_below (uint s) (uint p)
     \<and> i = \<lparr>info_label = area_label (selected_area t ars nonce), info_buffer_size = s,
             info_actual_size = s, info_generator = p, info_offset = 0\<rparr>
     \<and> (\<forall>ret. decode_nonce_2 is_prime True True t ret = Inr (i, RA_SUCCESS)
            \<and> decode_nonce_3 is_prime True True t ret = Inr (i, RA_SUCCESS))"
proof -
  have "2 \<le> unat s" using assms(2) by (simp add: decodable_def s_def)
  from closest_prime_nat [OF assms(1) this] obtain p
    where p: "\<And>out. closest_prime is_prime True s out = Inr (RA_SUCCESS, p)"
      "greatest_prime_below (uint s) (uint p)" "2 \<le> unat p" by blast
  have "fix_generator p = p" by (rule fix_generator_id [OF p(3)])
  with p(1,2) decodable_area [OF assms(2)] show ?thesis
    by (auto simp: decode_nonce_2_def decode_nonce_3_def Let_def s_def intro!: decoded_info.equality)
qed

lemma decode_nonce_4_ok:
  assumes "prime_test_exact is_prime" and "decodable t ars nonce 3"
  defines "s \<equiv> area_total_size (selected_area t ars nonce)"
  shows "\<exists>i. (\<forall>ret. decode_nonce_4 is_prime True True t ret = Inr (i, RA_SUCCESS))
     \<and> info_label i = area_label (selected_area t ars nonce) \<and> info_buffer_size i = s
     \<and> info_in_bounds i \<and> info_offset i = 0
     \<and> greatest_prime_below (uint s) (uint (info_actual_size i))
     \<and> greatest_prime_below (uint (info_actual_size i) - 1) (uint (info_generator i))
     \<and> 2 \<le> unat (info_generator i) \<and> unat (info_generator i) < unat (info_actual_size i)"
proof -
  have "3 \<le> unat s" using assms(2) by (simp add: decodable_def s_def)
  then have "2 \<le> unat s" by simp
  from closest_prime_nat [OF assms(1) this] obtain p
    where p: "\<And>out. closest_prime is_prime True s out = Inr (RA_SUCCESS, p)"
      "greatest_prime_below (uint s) (uint p)" "2 \<le> unat p" "unat p \<le> unat s" by blast
  have "is_prime_number 3" by (rule is_prime_number_3)
  moreover have "3 \<le> uint s" using \<open>3 \<le> unat s\<close> by (simp only: uint_int_unat)
  ultimately have "3 \<le> uint p" using p(2) by (auto simp: greatest_prime_below_def)
  then have p3: "3 \<le> unat p" by (simp only: uint_int_unat)
  have m: "unat (p - 1) = unat p - 1" using p3 by (simp add: unat_diff_le)
  then have mi: "uint (p - 1) = uint p - 1" using p3 by (simp only: uint_int_unat)
  have "2 \<le> unat (p - 1)" using m p3 by simp
  from closest_prime_nat [OF assms(1) this] obtain g
    where g: "\<And>out. closest_prime is_prime True (p - 1) out = Inr (RA_SUCCESS, g)"
      "greatest_prime_below (uint (p - 1)) (uint g)" "2 \<le> unat g" "unat g \<le> unat (p - 1)" by blast
  have "\<forall>ret. decode_nonce_4 is_prime True True t ret =
     Inr (\<lparr>info_label = area_label (selected_area t ars nonce), info_buffer_size = s,
            info_actual_size = p, info_generator = g, info_offset = 0\<rparr>, RA_SUCCESS)"
    using decodable_area [OF assms(2)] p(1) g(1) fix_generator_id [OF g(3)]
    by (simp add: decode_nonce_4_def s_def Let_def)
  moreover have "0 < p" using p(3) by (simp add: word_less_nat_alt)
  ultimately show ?thesis
    using p g m mi p3 by (simp add: info_in_bounds_def)
qed

section \<open>The contract of a decoder\<close>

text \<open>
  What the data preparation needs of a version: on an area of at least \<open>least\<close> bytes it
  succeeds, selects the area the nonce names and describes a window inside it.
\<close>

locale nonce_decoder =
  fixes decode :: decoder
    and least :: nat
  assumes decode_ok: "decodable t ars nonce least \<Longrightarrow>
    \<exists>i. (\<forall>ret. decode t ret = Inr (i, RA_SUCCESS))
      \<and> info_label i = area_label (selected_area t ars nonce)
      \<and> info_buffer_size i = area_total_size (selected_area t ars nonce)
      \<and> info_in_bounds i"

text \<open>A version whose walk visits every byte of the window once: the generator is a unit.\<close>

locale permuting_decoder = nonce_decoder +
  assumes decode_unit: "decodable t ars nonce least \<Longrightarrow> decode t ret = Inr (i, RA_SUCCESS) \<Longrightarrow>
    coprime (unat (info_generator i)) (unat (info_actual_size i))"

lemma is_prime_number_coprime:
  assumes "is_prime_number (int p)" and "0 < g" and "g < p"
  shows "coprime g p"
proof (rule ccontr)
  assume "\<not> coprime g p"
  then obtain d where d: "d dvd g" "d dvd p" "d \<noteq> 1" by (auto simp: coprime_def)
  with assms(2) have "d \<le> g" and "d \<noteq> 0" by (auto dest: dvd_imp_le)
  with d assms(3) have "int d \<in> {2..<int p}" and "int d dvd int p" by auto
  with assms(1) show False unfolding is_prime_number_def by blast
qed

lemma greatest_prime_coprime:
  assumes "greatest_prime_below n (uint p)" and "2 \<le> unat g" and "unat g < unat p"
  shows "coprime (unat g) (unat (p :: u32))"
  using assms by (intro is_prime_number_coprime) (simp_all add: greatest_prime_below_def)

subsection \<open>The four versions fulfil it\<close>

lemma prime_test_exact_iff: "prime_test_exact f \<longleftrightarrow> f = exact_test"
  by (auto simp: prime_test_exact_def exact_test_def)

lemma decodable_mono: "decodable t ars nonce n \<Longrightarrow> m \<le> n \<Longrightarrow> decodable t ars nonce m"
  by (simp add: decodable_def)

lemma decode_23_bounds:
  assumes "decodable t ars nonce 2"
  shows "\<exists>i. (\<forall>ret. decode_nonce_2 exact_test True True t ret = Inr (i, RA_SUCCESS)
               \<and> decode_nonce_3 exact_test True True t ret = Inr (i, RA_SUCCESS))
      \<and> info_label i = area_label (selected_area t ars nonce)
      \<and> info_buffer_size i = area_total_size (selected_area t ars nonce)
      \<and> info_in_bounds i"
proof -
  have "0 < area_total_size (selected_area t ars nonce)"
    using assms by (simp add: decodable_def word_less_nat_alt)
  with decode_nonce_23_ok [OF exact_test_exact assms] show ?thesis
    by (auto simp: info_in_bounds_def)
qed

interpretation v1: permuting_decoder "decode_nonce_1 exact_test True True" 3
proof
  fix t ars nonce
  assume a: "decodable t ars nonce 3"
  then have d: "decodable t ars nonce 2" by (rule decodable_mono) simp
  show "\<exists>i. (\<forall>ret. decode_nonce_1 exact_test True True t ret = Inr (i, RA_SUCCESS))
      \<and> info_label i = area_label (selected_area t ars nonce)
      \<and> info_buffer_size i = area_total_size (selected_area t ars nonce) \<and> info_in_bounds i"
    using decode_nonce_1_ok [OF exact_test_exact d] by blast
  fix ret i
  assume "decode_nonce_1 exact_test True True t ret = Inr (i, RA_SUCCESS)"
  with decode_nonce_1_ok [OF exact_test_exact d]
  have i: "greatest_prime_below (uint (area_total_size (selected_area t ars nonce))) (uint (info_actual_size i))"
    "2 \<le> unat (info_generator i)"
    "2 < unat (info_actual_size i) \<longrightarrow> unat (info_generator i) < unat (info_actual_size i)"
    by auto
  have "is_prime_number 3" by (rule is_prime_number_3)
  moreover have "3 \<le> uint (area_total_size (selected_area t ars nonce))"
    using a unfolding decodable_def uint_int_unat by linarith
  ultimately have "3 \<le> uint (info_actual_size i)" using i(1) by (auto simp: greatest_prime_below_def)
  then have "2 < unat (info_actual_size i)" by (simp only: uint_int_unat)
  with i show "coprime (unat (info_generator i)) (unat (info_actual_size i))"
    by (intro greatest_prime_coprime) auto
qed

interpretation v2: nonce_decoder "decode_nonce_2 exact_test True True" 2
  by unfold_locales (use decode_23_bounds in blast)

interpretation v3: nonce_decoder "decode_nonce_3 exact_test True True" 2
  by unfold_locales (use decode_23_bounds in blast)

interpretation v4: permuting_decoder "decode_nonce_4 exact_test True True" 3
proof
  fix t ars nonce
  assume a: "decodable t ars nonce 3"
  show "\<exists>i. (\<forall>ret. decode_nonce_4 exact_test True True t ret = Inr (i, RA_SUCCESS))
      \<and> info_label i = area_label (selected_area t ars nonce)
      \<and> info_buffer_size i = area_total_size (selected_area t ars nonce) \<and> info_in_bounds i"
    using decode_nonce_4_ok [OF exact_test_exact a] by blast
  fix ret i
  assume "decode_nonce_4 exact_test True True t ret = Inr (i, RA_SUCCESS)"
  with decode_nonce_4_ok [OF exact_test_exact a]
  show "coprime (unat (info_generator i)) (unat (info_actual_size i))"
    by (intro greatest_prime_coprime) auto
qed

section \<open>Properties\<close>

definition in_area :: "memory_area \<Rightarrow> (decoded_info \<times> ra_result) run \<Rightarrow> bool" where
  "in_area a r \<longleftrightarrow>
     (case r of
        Inr (i, res) \<Rightarrow> res = RA_SUCCESS \<and> info_label i = area_label a
          \<and> info_buffer_size i = area_total_size a \<and> info_in_bounds i
      | Inl e \<Rightarrow> False)"

text \<open>C25: In a table with areas, on a nonce of at least eight bytes that selects an area of at least
  three, all four versions succeed, select the same area, and describe a nonempty window that lies
  inside it.\<close>

theorem decode_nonce_versions_in_area:
  assumes "prime_test_exact is_prime" and "decodable t ars nonce 3"
  shows "in_area (selected_area t ars nonce) (decode_nonce_1 is_prime True True t ret)
     \<and> in_area (selected_area t ars nonce) (decode_nonce_2 is_prime True True t ret)
     \<and> in_area (selected_area t ars nonce) (decode_nonce_3 is_prime True True t ret)
     \<and> in_area (selected_area t ars nonce) (decode_nonce_4 is_prime True True t ret)"
proof -
  have d: "decodable t ars nonce 2" using assms(2) by (rule decodable_mono) simp
  show ?thesis
    using assms(1) v1.decode_ok [OF assms(2)] v2.decode_ok [OF d]
      v3.decode_ok [OF d] v4.decode_ok [OF assms(2)]
    by (auto simp: in_area_def prime_test_exact_iff)
qed

text \<open>A concrete table with one area and a nonce.\<close>

definition sample_area :: memory_area where
  "sample_area = area_of 9 sample_blocks"

definition sample_nonce :: "u8 list" where
  "sample_nonce = [1, 2, 3, 4, 5, 6, 7, 8]"

definition blank_info :: decoded_info where
  "blank_info = \<lparr>info_label = 0, info_buffer_size = 0, info_actual_size = 0, info_generator = 0, info_offset = 0\<rparr>"

definition sample_table :: ra_table where
  "sample_table = table_of [sample_area] sample_nonce"

lemma sample_table_ok [simp]: "table_ok sample_table [sample_area]"
  unfolding sample_table_def
  by (rule table_of_ok) (auto simp: sample_area_def sample_nonce_def intro: exI [of _ sample_blocks])

lemma selected_sample_area [simp]: "selected_area sample_table [sample_area] nonce = sample_area"
  by (simp add: selected_area_def)

lemma sample_area_size [simp]: "area_total_size sample_area = 7"
  by (simp add: sample_area_def area_of_def)

lemma sample_decodable [simp]: "n \<le> 7 \<Longrightarrow> decodable sample_table [sample_area] sample_nonce n"
  by (simp add: decodable_def nonce_in_def) (simp add: sample_table_def table_of_def sample_nonce_def)

theorem decode_nonce_versions_in_area_witness:
  "in_area sample_area (decode_nonce_1 exact_test True True sample_table blank_info)
     \<and> in_area sample_area (decode_nonce_2 exact_test True True sample_table blank_info)
     \<and> in_area sample_area (decode_nonce_3 exact_test True True sample_table blank_info)
     \<and> in_area sample_area (decode_nonce_4 exact_test True True sample_table blank_info)"
  using decode_nonce_versions_in_area [OF exact_test_exact, of sample_table "[sample_area]" sample_nonce blank_info]
  by simp

text \<open>Version 1 does not notice that \<^verbatim>\<open>closest_prime\<close> failed: for an area of fewer than two
  bytes it still reports success and the number of bytes to attest is what the caller's structure
  happened to hold before the call.\<close>

theorem decode_nonce_1_garbage:
  assumes "decodable t ars nonce 0" and "unat (area_total_size (selected_area t ars nonce)) < 2"
    and "info_actual_size garbage \<noteq> 0"
  shows "\<exists>i. decode_nonce_1 is_prime True True t garbage = Inr (i, RA_SUCCESS)
     \<and> info_actual_size i = info_actual_size garbage"
proof -
  let ?s = "area_total_size (selected_area t ars nonce)" and ?g = "info_actual_size garbage"
  have "closest_prime is_prime True ?s ?g = Inr (RA_ERROR_GENERIC, ?g)"
    using assms(2) by (intro closest_prime_small) (simp add: word_less_nat_alt)
  then show ?thesis
    using assms(3) decodable_area [OF assms(1)] decodable_word [OF assms(1), of 0]
      decodable_word [OF assms(1), of 4]
    by (auto simp: decode_nonce_1_def umod_def)
qed

definition tiny_area :: memory_area where
  "tiny_area = area_of 3 [\<lparr>block_offset = 0, block_size = 1\<rparr>]"

lemma tiny_table_ok: "table_ok (table_of [tiny_area] sample_nonce) [tiny_area]"
  by (rule table_of_ok) (auto simp: tiny_area_def sample_nonce_def intro!: exI area_of_ok)

theorem decode_nonce_1_garbage_witness:
  "\<exists>i. decode_nonce_1 exact_test True True (table_of [tiny_area] sample_nonce)
         \<lparr>info_label = 0, info_buffer_size = 0, info_actual_size = 123456, info_generator = 0, info_offset = 0\<rparr>
       = Inr (i, RA_SUCCESS) \<and> info_actual_size i = 123456"
proof -
  let ?t = "table_of [tiny_area] sample_nonce"
  have sel: "selected_area ?t [tiny_area] sample_nonce = tiny_area" by (simp add: selected_area_def)
  have "nonce_in ?t sample_nonce" by (simp add: nonce_in_def table_of_def sample_nonce_def)
  then have "decodable ?t [tiny_area] sample_nonce 0"
    using tiny_table_ok by (simp add: decodable_def) (simp add: sample_nonce_def)
  from decode_nonce_1_garbage [OF this, of "\<lparr>info_label = 0, info_buffer_size = 0, info_actual_size = 123456,
      info_generator = 0, info_offset = 0\<rparr>" exact_test]
  show ?thesis by (simp add: sel) (simp add: tiny_area_def area_of_def)
qed

end
