(* ===== verification/Data_Preparation.thy ===== *)
theory Data_Preparation
  imports Nonce_Interpretation "HOL-Library.Multiset"
begin

text \<open>
  \<^verbatim>\<open>client-parametric-files/cond/ra_data_preparation.c\<close>: the random walk that reads the attested
  bytes in the order the nonce dictates. OpenSSL's modular multiplication is a parameter
  \<open>mod_mul\<close>: the product modulo the third argument, or \<open>None\<close> when \<^verbatim>\<open>BN_mod_mul\<close>
  reports failure. The hypothesis \<open>mod_mul_exact\<close> is its documentation: it fails on a zero
  modulus and computes the residue otherwise.
\<close>

type_synonym mod_mul = "nat \<Rightarrow> nat \<Rightarrow> nat \<Rightarrow> nat option"

definition mod_mul_exact :: "mod_mul \<Rightarrow> bool" where
  "mod_mul_exact f \<longleftrightarrow> (\<forall>a b m. f a b m = (if m = 0 then None else Some (a * b mod m)))"

definition exact_mod_mul :: mod_mul where
  "exact_mod_mul a b m = (if m = 0 then None else Some (a * b mod m))"

lemma exact_mod_mul_exact [simp]: "mod_mul_exact exact_mod_mul"
  by (simp add: mod_mul_exact_def exact_mod_mul_def)

section \<open>Operations\<close>

text \<open>The result is printed and scanned into the caller's 32-bit variable.\<close>

definition calculate_index :: "mod_mul \<Rightarrow> u32 \<Rightarrow> u32 \<Rightarrow> u32 \<Rightarrow> u32 \<Rightarrow> u32 \<times> ra_result" where
  "calculate_index mm base exponent m result =
     (case mm (unat base) (unat exponent) (unat m) of
        None \<Rightarrow> (result, RA_ERROR_GENERIC)
      | Some r \<Rightarrow> (of_nat r, RA_SUCCESS))"

text \<open>
  The walk, from step \<open>i\<close> with the variable \<open>index\<close>: the buffer of prepared bytes is filled
  position by position; on an error of a step the walk ends with its code.
\<close>

fun random_walk ::
  "mod_mul \<Rightarrow> memory \<Rightarrow> u64 \<Rightarrow> memory_area \<Rightarrow> decoded_info \<Rightarrow> nat list \<Rightarrow> u32 \<Rightarrow> u8 list
     \<Rightarrow> (u8 list \<times> ra_result) run" where
  "random_walk mm mem base a info [] index buf = Inr (buf, RA_SUCCESS)"
| "random_walk mm mem base a info (i # is) index buf =
     (let (index', r) = calculate_index mm (info_generator info) (of_nat i) (info_actual_size info) index in
      if r \<noteq> RA_SUCCESS then Inr (buf, r)
      else bind_run (ra_mA_get_byte mem base a (index' + info_offset info) (buf ! i)) (\<lambda>(b, r2).
        if r2 \<noteq> RA_SUCCESS then Inr (buf[i := b], r2)
        else random_walk mm mem base a info is index' (buf[i := b])))"

text \<open>
  \<open>garbage\<close> is the uninitialised \<^verbatim>\<open>nonce_info\<close>, \<open>tmp\<close> the uninitialised buffer; the two
  booleans are the outcomes of its allocation and of the one in \<^verbatim>\<open>ra_set_prepared_data\<close>, whose
  result is ignored.
\<close>

definition ra_prepare_data ::
  "decoder \<Rightarrow> mod_mul \<Rightarrow> memory \<Rightarrow> u64 \<Rightarrow> decoded_info \<Rightarrow> (nat \<Rightarrow> u8) \<Rightarrow> bool \<Rightarrow> bool \<Rightarrow> ra_table
     \<Rightarrow> (ra_table \<times> ra_result) run" where
  "ra_prepare_data decode mm mem base garbage tmp tmp_ok set_ok t =
     (if ra_get_current_nonce_reference t = None \<or> ra_get_current_nonce_size t = 0
      then Inr (ra_reset_prepared_data t, RA_ERROR_UNDEFINED_PARAMETERS)
      else bind_run (decode t garbage) (\<lambda>(info, r).
        if r \<noteq> RA_SUCCESS then Inr (t, RA_ERROR_GENERIC)
        else bind_run (ra_get_memory_area t (info_label info)) (\<lambda>area.
          case area of
            None \<Rightarrow> Inr (t, RA_ERROR_EMPTY_AREA)
          | Some a \<Rightarrow>
              if \<not> tmp_ok then Inr (ra_reset_prepared_data t, RA_ERROR_MEMORY)
              else let n = unat (info_actual_size info) in
                bind_run (random_walk mm mem base a info [0..<n] 0 (map tmp [0..<n])) (\<lambda>(buf, r2).
                  if r2 \<noteq> RA_SUCCESS then Inr (ra_reset_prepared_data t, r2)
                  else bind_run (ra_set_prepared_data set_ok t (Some buf) (info_actual_size info))
                    (\<lambda>(t', _). Inr (t', RA_SUCCESS))))))"

section \<open>The walk\<close>

text \<open>Its specification: the offsets it visits, and the bytes of the code there.\<close>

definition walk_index :: "decoded_info \<Rightarrow> nat \<Rightarrow> nat" where
  "walk_index info i = unat (info_generator info) * i mod unat (info_actual_size info)"

definition walked_bytes :: "decoded_info \<Rightarrow> u8 list \<Rightarrow> u8 list" where
  "walked_bytes info code =
     map (\<lambda>i. code ! (unat (info_offset info) + walk_index info i)) [0..<unat (info_actual_size info)]"

text \<open>The window of the area a decoded nonce describes.\<close>

definition window :: "decoded_info \<Rightarrow> u8 list \<Rightarrow> u8 list" where
  "window info code = take (unat (info_actual_size info)) (drop (unat (info_offset info)) code)"

lemma calculate_index_ok:
  assumes "mod_mul_exact mm" and "0 < info_actual_size info" and "i < unat (info_actual_size info)"
  shows "calculate_index mm (info_generator info) (of_nat i) (info_actual_size info) index
     = (of_nat (walk_index info i), RA_SUCCESS)"
    and "unat (of_nat (walk_index info i) :: u32) = walk_index info i"
    and "walk_index info i < unat (info_actual_size info)"
proof -
  have b: "unat (info_actual_size info) < 2 ^ 32"
    using unsigned_less [where 'a = nat, of "info_actual_size info"] by simp
  from assms(2) have "unat (info_actual_size info) \<noteq> 0" by (simp add: word_less_nat_alt)
  moreover from b assms(3) have "unat (of_nat i :: u32) = i" by (simp add: unat_of_nat_u32)
  ultimately show "calculate_index mm (info_generator info) (of_nat i) (info_actual_size info) index
     = (of_nat (walk_index info i), RA_SUCCESS)"
    using assms(1) by (simp add: calculate_index_def mod_mul_exact_def walk_index_def)
  show lt: "walk_index info i < unat (info_actual_size info)"
    using assms(3) by (simp add: walk_index_def)
  with b show "unat (of_nat (walk_index info i) :: u32) = walk_index info i"
    by (simp add: unat_of_nat_u32)
qed

lemma random_walk_ok:
  assumes "mod_mul_exact mm" and "area_ok a bs" and "info_in_bounds info"
    and "unat (info_buffer_size info) = blocks_size bs"
    and "set is \<subseteq> {..<unat (info_actual_size info)}"
    and "length buf = unat (info_actual_size info)"
  shows "random_walk mm mem base a info is index buf =
     Inr (fold (\<lambda>i buf. buf[i := area_code mem base bs ! (unat (info_offset info) + walk_index info i)]) is buf,
          RA_SUCCESS)"
  using assms(5,6)
proof (induction "is" arbitrary: index buf)
  case Nil
  then show ?case by simp
next
  case (Cons i "is")
  let ?w = "walk_index info i" and ?o = "info_offset info" and ?n = "info_actual_size info"
  have pos: "0 < ?n" using assms(3) by (simp add: info_in_bounds_def)
  have i: "i < unat ?n" using Cons.prems(1) by simp
  note c = calculate_index_ok [OF assms(1) pos i]
  have fit: "?w + unat ?o < blocks_size bs"
    using c(3) assms(3,4) by (simp add: info_in_bounds_def)
  moreover have "blocks_size bs < 2 ^ 32" using assms(2) by (simp add: area_ok_def)
  ultimately have u: "unat (of_nat ?w + ?o) = ?w + unat ?o"
    using c(2) unat_add_no_wrap [of "of_nat ?w" ?o] by simp
  with fit have "ra_mA_get_byte mem base a (of_nat ?w + ?o) (buf ! i)
      = Inr (area_code mem base bs ! (unat ?o + ?w), RA_SUCCESS)"
    using ra_mA_get_byte_within [OF assms(2), of "of_nat ?w + ?o"] by (simp add: add.commute)
  with c(1) Cons show ?case by simp
qed

lemma fold_update_all:
  "length buf = n \<Longrightarrow> fold (\<lambda>i buf. buf[i := f i]) [0..<n] buf = map f [0..<n]"
proof (induction n arbitrary: buf)
  case 0
  then show ?case by simp
next
  case (Suc n)
  then obtain xs x where b: "buf = xs @ [x]" "length xs = n" by (metis length_Suc_conv_rev)
  have "fold (\<lambda>i buf. buf[i := f i]) is (xs @ [x]) = fold (\<lambda>i buf. buf[i := f i]) is xs @ [x]"
    if "set is \<subseteq> {..<length xs}" for "is"
    using that by (induction "is" arbitrary: xs) (auto simp: list_update_append)
  moreover have "set [0..<n] \<subseteq> {..<length xs}" using b(2) by auto
  ultimately show ?case using b Suc.IH [OF b(2)] by (simp add: list_update_append)
qed

lemma random_walk_walked:
  assumes "mod_mul_exact mm" and "area_ok a bs" and "info_in_bounds info"
    and "unat (info_buffer_size info) = blocks_size bs"
  defines "n \<equiv> unat (info_actual_size info)"
  shows "random_walk mm mem base a info [0..<n] index (map tmp [0..<n]) =
     Inr (walked_bytes info (area_code mem base bs), RA_SUCCESS)"
  using random_walk_ok [OF assms(1-4), of "[0..<n]" "map tmp [0..<n]" mem base index]
    fold_update_all [of "map tmp [0..<n]" n]
  by (simp add: n_def walked_bytes_def atLeast0LessThan)

subsection \<open>When the walk is a permutation\<close>

lemma residue_unique:
  assumes "coprime g n" and "g * i mod n = g * j mod n" and "i \<le> j" and "j < (n :: nat)"
  shows "i = j"
proof -
  have "n dvd g * j - g * i"
    using assms(2,3) by (metis mod_eq_dvd_iff_nat mult_le_mono2)
  then have "n dvd g * (j - i)" by (simp add: diff_mult_distrib2)
  then have "n dvd j - i" using assms(1) by (simp add: coprime_commute coprime_dvd_mult_right_iff)
  with assms(3,4) show ?thesis by (auto dest: dvd_imp_le)
qed

lemma walk_index_inj: "coprime g n \<Longrightarrow> inj_on (\<lambda>i. g * i mod n) {..<n :: nat}"
  using residue_unique by (intro inj_onI) (metis lessThan_iff linear)

lemma walk_index_image:
  assumes "coprime g n" and "0 < (n :: nat)"
  shows "(\<lambda>i. g * i mod n) ` {..<n} = {..<n}"
proof (rule card_subset_eq)
  show "(\<lambda>i. g * i mod n) ` {..<n} \<subseteq> {..<n}" using assms(2) by auto
  show "card ((\<lambda>i. g * i mod n) ` {..<n}) = card {..<n}"
    by (rule card_image [OF walk_index_inj [OF assms(1)]])
qed simp

lemma walked_bytes_mset:
  assumes "coprime (unat (info_generator info)) (unat (info_actual_size info))"
    and "info_in_bounds info" and "length code = unat (info_buffer_size info)"
  shows "mset (walked_bytes info code) = mset (window info code)"
proof -
  let ?n = "unat (info_actual_size info)" and ?k = "unat (info_offset info)"
  have n: "0 < ?n" and fit: "?k + ?n \<le> length code"
    using assms(2,3) by (simp_all add: info_in_bounds_def word_less_nat_alt)
  have "window info code = map (\<lambda>j. code ! (?k + j)) [0..<?n]"
    using fit by (intro nth_equalityI) (simp_all add: window_def)
  then have w: "mset (window info code) = image_mset (\<lambda>j. code ! (?k + j)) (mset_set {..<?n})"
    by (simp add: atLeast0LessThan)
  have "mset_set {..<?n} = image_mset (walk_index info) (mset_set {..<?n})"
    using image_mset_mset_set [OF walk_index_inj [OF assms(1)]] walk_index_image [OF assms(1) n]
    by (simp add: walk_index_def [abs_def])
  then show ?thesis
    by (simp add: w walked_bytes_def atLeast0LessThan) (metis (no_types, lifting) comp_apply image_mset_cong multiset.map_comp)
qed

section \<open>What data preparation computes\<close>

text \<open>The blocks of an area of a healthy table, as the table's walk finds them.\<close>

definition area_block_list :: "memory_area \<Rightarrow> memory_block list" where
  "area_block_list a = map snd (fst (dll_walk (area_blocks a)))"

lemma area_block_list_eq: "area_ok a bs \<Longrightarrow> area_block_list a = bs"
  by (simp add: area_block_list_def area_ok_def dll_walk_list(1))

lemma table_area_ok: "table_ok t ars \<Longrightarrow> a \<in> set ars \<Longrightarrow> area_ok a (area_block_list a)"
  using area_block_list_eq by (fastforce simp: table_ok_def)

text \<open>The code of the area that a nonce selects.\<close>

definition selected_code :: "memory \<Rightarrow> u64 \<Rightarrow> ra_table \<Rightarrow> memory_area list \<Rightarrow> u8 list \<Rightarrow> u8 list" where
  "selected_code mem base t ars nonce = area_code mem base (area_block_list (selected_area t ars nonce))"

lemma selected_code_length:
  assumes "decodable t ars nonce n"
  shows "length (selected_code mem base t ars nonce) = unat (area_total_size (selected_area t ars nonce))"
proof -
  have "area_ok (selected_area t ars nonce) (area_block_list (selected_area t ars nonce))"
    using assms by (intro table_area_ok) (auto simp: decodable_def intro: selected_area_in)
  then show ?thesis by (simp add: selected_code_def area_ok_total)
qed

text \<open>A decoder walks the area that the nonce selects as \<open>info\<close> describes it, whatever the
  uninitialised memory of the run and wherever the code is.\<close>

definition walks_selected ::
  "decoder \<Rightarrow> mod_mul \<Rightarrow> ra_table \<Rightarrow> memory_area list \<Rightarrow> u8 list \<Rightarrow> decoded_info \<Rightarrow> bool" where
  "walks_selected decode mm t ars nonce info \<longleftrightarrow>
     (\<forall>ret. decode t ret = Inr (info, RA_SUCCESS)) \<and> info_in_bounds info
     \<and> info_buffer_size info = area_total_size (selected_area t ars nonce)
     \<and> (\<forall>mem base garbage tmp. ra_prepare_data decode mm mem base garbage tmp True True t =
          Inr (t\<lparr>prepared_data := Some (walked_bytes info (selected_code mem base t ars nonce)),
                 prepared_data_size := info_actual_size info\<rparr>, RA_SUCCESS))"

context nonce_decoder
begin

lemma prepare_data_walks:
  assumes "decodable t ars nonce least" and "mod_mul_exact mm"
  shows "\<exists>info. walks_selected decode mm t ars nonce info"
proof -
  let ?a = "selected_area t ars nonce"
  obtain info where i: "\<forall>ret. decode t ret = Inr (info, RA_SUCCESS)" "info_label info = area_label ?a"
    "info_buffer_size info = area_total_size ?a" "info_in_bounds info"
    using decode_ok [OF assms(1)] by blast
  have tok: "table_ok t ars" and ne: "ars \<noteq> []" using assms(1) by (simp_all add: decodable_def)
  have "?a \<in> set ars" by (rule selected_area_in [OF ne])
  then have aok: "area_ok ?a (area_block_list ?a)" by (rule table_area_ok [OF tok])
  have "distinct (map area_label ars)" using tok by (simp add: table_ok_def)
  with \<open>?a \<in> set ars\<close> have "find (\<lambda>a. area_label a = area_label ?a) ars = Some ?a"
    by (simp add: find_label)
  then have get: "ra_get_memory_area t (info_label info) = Inr (Some ?a)"
    using i(2) by (simp add: ra_get_memory_area_ok [OF tok])
  have n: "current_nonce t \<noteq> None" "current_nonce_size t \<noteq> 0"
    using assms(1) by (auto simp: decodable_def nonce_in_def)
  have "ra_prepare_data decode mm mem base garbage tmp True True t =
      Inr (t\<lparr>prepared_data := Some (walked_bytes info (selected_code mem base t ars nonce)),
             prepared_data_size := info_actual_size info\<rparr>, RA_SUCCESS)" for mem base garbage tmp
  proof -
    let ?w = "walked_bytes info (selected_code mem base t ars nonce)"
    have "ra_set_prepared_data True t (Some ?w) (info_actual_size info)
        = Inr (t\<lparr>prepared_data := Some ?w, prepared_data_size := info_actual_size info\<rparr>, RA_SUCCESS)"
      by (simp add: ra_set_prepared_data_def read_at_def walked_bytes_def)
    then show ?thesis
      using n i get random_walk_walked [OF assms(2) aok i(4)] area_ok_total [OF aok]
      by (simp add: ra_prepare_data_def ra_get_current_nonce_reference_def ra_get_current_nonce_size_def
          Let_def selected_code_def)
  qed
  with i show ?thesis unfolding walks_selected_def by blast
qed

end

context permuting_decoder
begin

lemma prepare_data_permutes:
  assumes "decodable t ars nonce least" and "mod_mul_exact mm"
  shows "\<exists>info t'. decode t garbage = Inr (info, RA_SUCCESS) \<and> info_in_bounds info
     \<and> ra_prepare_data decode mm mem base garbage tmp True True t = Inr (t', RA_SUCCESS)
     \<and> mset (the (prepared_data t')) = mset (window info (selected_code mem base t ars nonce))
     \<and> length (the (prepared_data t')) = unat (prepared_data_size t')"
proof -
  obtain info where i: "walks_selected decode mm t ars nonce info"
    using prepare_data_walks [OF assms] by blast
  have "coprime (unat (info_generator info)) (unat (info_actual_size info))"
    by (rule decode_unit [OF assms(1)]) (use i in \<open>simp add: walks_selected_def\<close>)
  with i show ?thesis
    by (simp add: walks_selected_def walked_bytes_mset selected_code_length [OF assms(1)]) (simp add: walked_bytes_def)
qed

end

section \<open>Properties\<close>

definition built_versions :: "(int \<Rightarrow> int) \<Rightarrow> decoder set" where
  "built_versions is_prime =
     {decode_nonce_1 is_prime True True, decode_nonce_2 is_prime True True,
      decode_nonce_3 is_prime True True, decode_nonce_4 is_prime True True}"

definition permuting_versions :: "(int \<Rightarrow> int) \<Rightarrow> decoder set" where
  "permuting_versions is_prime = {decode_nonce_1 is_prime True True, decode_nonce_4 is_prime True True}"

lemma prepare_any_version:
  assumes "prime_test_exact is_prime" and "mod_mul_exact mm" and "decodable t ars nonce 3"
    and "decode \<in> built_versions is_prime"
  shows "\<exists>info. walks_selected decode mm t ars nonce info"
proof -
  have d: "decodable t ars nonce 2" using assms(3) by (rule decodable_mono) simp
  have e: "is_prime = exact_test" using assms(1) by (simp add: prime_test_exact_iff)
  show ?thesis
    using assms(4) v1.prepare_data_walks [OF assms(3,2)] v2.prepare_data_walks [OF d assms(2)]
      v3.prepare_data_walks [OF d assms(2)] v4.prepare_data_walks [OF assms(3,2)]
    unfolding e built_versions_def by blast
qed

text \<open>C9: With any of the four nonce versions, on a nonce that selects an area of at least three
  bytes, data preparation runs without a fault, succeeds, and the prepared data is the walk
  specification: at position i the byte of the area at offset + (generator * i mod actual size). The
  uninitialised memory of the run does not show in the result.\<close>

theorem ra_prepare_data_walks:
  assumes "prime_test_exact is_prime" and "mod_mul_exact mm" and "decodable t ars nonce 3"
    and "decode \<in> built_versions is_prime"
  shows "\<exists>info. decode t garbage = Inr (info, RA_SUCCESS)
     \<and> ra_prepare_data decode mm mem base garbage tmp True True t =
         Inr (t\<lparr>prepared_data := Some (walked_bytes info (selected_code mem base t ars nonce)),
                prepared_data_size := info_actual_size info\<rparr>, RA_SUCCESS)"
  using prepare_any_version [OF assms] unfolding walks_selected_def by blast

theorem ra_prepare_data_walks_witness:
  "\<exists>info. decode_nonce_1 exact_test True True sample_table blank_info = Inr (info, RA_SUCCESS)
     \<and> ra_prepare_data (decode_nonce_1 exact_test True True) exact_mod_mul (\<lambda>x. ucast x) 0 blank_info
         (\<lambda>_. 0) True True sample_table =
         Inr (sample_table\<lparr>prepared_data := Some (walked_bytes info
                (selected_code (\<lambda>x. ucast x) 0 sample_table [sample_area] sample_nonce)),
              prepared_data_size := info_actual_size info\<rparr>, RA_SUCCESS)"
  by (rule ra_prepare_data_walks [OF exact_test_exact exact_mod_mul_exact]) (simp_all add: built_versions_def)

text \<open>C8: With versions 1 and 4 the walk reads every byte of the window exactly once: the prepared
  data is a permutation of the window, so a change of any byte of it changes the prepared data.\<close>

theorem ra_prepare_data_permutes_window:
  assumes "prime_test_exact is_prime" and "mod_mul_exact mm" and "decodable t ars nonce 3"
    and "decode \<in> permuting_versions is_prime"
  shows "\<exists>info t'. decode t garbage = Inr (info, RA_SUCCESS) \<and> info_in_bounds info
     \<and> ra_prepare_data decode mm mem base garbage tmp True True t = Inr (t', RA_SUCCESS)
     \<and> mset (the (prepared_data t')) = mset (window info (selected_code mem base t ars nonce))
     \<and> length (the (prepared_data t')) = unat (prepared_data_size t')"
proof -
  have e: "is_prime = exact_test" using assms(1) by (simp add: prime_test_exact_iff)
  show ?thesis
    using assms(4) v1.prepare_data_permutes [OF assms(3,2), of garbage mem base tmp]
      v4.prepare_data_permutes [OF assms(3,2), of garbage mem base tmp]
    unfolding e permuting_versions_def by blast
qed

theorem ra_prepare_data_permutes_window_witness:
  "\<exists>info t'. decode_nonce_4 exact_test True True sample_table blank_info = Inr (info, RA_SUCCESS)
     \<and> info_in_bounds info
     \<and> ra_prepare_data (decode_nonce_4 exact_test True True) exact_mod_mul (\<lambda>x. ucast x) 0 blank_info
         (\<lambda>_. 0) True True sample_table = Inr (t', RA_SUCCESS)
     \<and> mset (the (prepared_data t')) =
         mset (window info (selected_code (\<lambda>x. ucast x) 0 sample_table [sample_area] sample_nonce))
     \<and> length (the (prepared_data t')) = unat (prepared_data_size t')"
  by (rule ra_prepare_data_permutes_window [OF exact_test_exact exact_mod_mul_exact])
    (simp_all add: permuting_versions_def)

lemma prime_size_walked:
  assumes "prime_test_exact is_prime" and "mod_mul_exact mm" and "decodable t ars nonce 2"
    and "is_prime_number (uint (area_total_size (selected_area t ars nonce)))"
    and "decode \<in> {decode_nonce_2 is_prime True True, decode_nonce_3 is_prime True True}"
  shows "\<exists>info. walks_selected decode mm t ars nonce info
     \<and> (\<forall>mem base. walked_bytes info (selected_code mem base t ars nonce)
          = replicate (unat (area_total_size (selected_area t ars nonce))) (hd (selected_code mem base t ars nonce)))"
proof -
  let ?s = "area_total_size (selected_area t ars nonce)"
  have e: "is_prime = exact_test" using assms(1) by (simp add: prime_test_exact_iff)
  obtain p i where p: "greatest_prime_below (uint ?s) (uint p)"
    and i: "i = \<lparr>info_label = area_label (selected_area t ars nonce), info_buffer_size = ?s,
                 info_actual_size = ?s, info_generator = p, info_offset = 0\<rparr>"
    and runs: "\<forall>ret. decode_nonce_2 exact_test True True t ret = Inr (i, RA_SUCCESS)
            \<and> decode_nonce_3 exact_test True True t ret = Inr (i, RA_SUCCESS)"
    using decode_nonce_23_ok [OF exact_test_exact assms(3)] by blast
  have dec: "greatest_prime_below (uint ?s) (uint (info_generator i))" "info_actual_size i = ?s"
    "info_offset i = 0"
    using p by (simp_all add: i)
  have "uint (info_generator i) = uint ?s"
    using dec(1) assms(4) by (auto simp: greatest_prime_below_def)
  then have g: "info_generator i = ?s" by (simp only: word_uint_eq_iff)
  have walked: "walked_bytes i (selected_code mem base t ars nonce)
      = replicate (unat ?s) (hd (selected_code mem base t ars nonce))" for mem base
  proof -
    have "selected_code mem base t ars nonce \<noteq> []"
      using selected_code_length [OF assms(3), of mem base] assms(3) by (auto simp: decodable_def)
    then show ?thesis
      by (intro nth_equalityI) (simp_all add: walked_bytes_def walk_index_def dec(2,3) g hd_conv_nth)
  qed
  obtain info where w: "walks_selected decode mm t ars nonce info"
    using assms(5) v2.prepare_data_walks [OF assms(3,2)] v3.prepare_data_walks [OF assms(3,2)]
    unfolding e by blast
  moreover have "info = i"
    using w runs assms(5) unfolding e walks_selected_def by fastforce
  ultimately show ?thesis using walked by blast
qed

text \<open>With versions 2 and 3 an area whose size is a prime number is not attested: the generator
  equals the size, every step of the walk reads offset 0, and the prepared data is the first byte of
  the area repeated, whatever the rest of the code is.\<close>

theorem ra_prepare_data_prime_size:
  assumes "prime_test_exact is_prime" and "mod_mul_exact mm" and "decodable t ars nonce 2"
    and "is_prime_number (uint (area_total_size (selected_area t ars nonce)))"
    and "decode \<in> {decode_nonce_2 is_prime True True, decode_nonce_3 is_prime True True}"
  shows "\<exists>t'. ra_prepare_data decode mm mem base garbage tmp True True t = Inr (t', RA_SUCCESS)
     \<and> prepared_data t' = Some (replicate (unat (area_total_size (selected_area t ars nonce)))
                                  (hd (selected_code mem base t ars nonce)))"
  using prime_size_walked [OF assms] unfolding walks_selected_def by fastforce

theorem ra_prepare_data_prime_size_witness:
  "\<exists>t'. ra_prepare_data (decode_nonce_2 exact_test True True) exact_mod_mul (\<lambda>x. ucast x) 0 blank_info
         (\<lambda>_. 0) True True sample_table = Inr (t', RA_SUCCESS)
     \<and> prepared_data t' = Some (replicate (unat (area_total_size (selected_area sample_table [sample_area] sample_nonce)))
          (hd (selected_code (\<lambda>x. ucast x) 0 sample_table [sample_area] sample_nonce)))"
proof (rule ra_prepare_data_prime_size [OF exact_test_exact exact_mod_mul_exact])
  have "{2..<7 :: int} = {2, 3, 4, 5, 6}" by auto
  then show "is_prime_number (uint (area_total_size (selected_area sample_table [sample_area] sample_nonce)))"
    by (simp add: is_prime_number_def)
qed simp_all

end
