(* ===== verification/Do_Hash.thy ===== *)
theory Do_Hash
  imports RA_Data_Table
begin

text \<open>
  The versions of \<^verbatim>\<open>ra_do_hash_*.c\<close> that use OpenSSL digests. The buffer to hash is the
  concatenation of the nonce, the prepared data, the application id and the attestator number; the
  digest function is a parameter, from the bytes of the buffer to the bytes it writes. The named
  hypothesis \<open>digest_length\<close> states how many it writes.
\<close>

type_synonym digest = "u8 list \<Rightarrow> u8 list"

definition digest_length :: "nat \<Rightarrow> digest \<Rightarrow> bool" where
  "digest_length n D \<longleftrightarrow> (\<forall>bs. length (D bs) = n)"

definition MD5_DIGEST_LENGTH :: nat where "MD5_DIGEST_LENGTH = 16"

definition SHA_DIGEST_LENGTH :: nat where "SHA_DIGEST_LENGTH = 20"

definition SHA256_DIGEST_LENGTH :: nat where "SHA256_DIGEST_LENGTH = 32"

definition RIPEMD160_DIGEST_LENGTH :: nat where "RIPEMD160_DIGEST_LENGTH = 20"

section \<open>The common body\<close>

text \<open>
  The size of the buffer: the first three summands are added in 32 bits, the last in 64. A
  \<^verbatim>\<open>memcpy\<close> behind its end, or from NULL, is a fault.
\<close>

definition buffer_to_hash_size :: "u32 \<Rightarrow> u32 \<Rightarrow> nat" where
  "buffer_to_hash_size nonce_size data_size = unat (nonce_size + data_size + of_nat AID_SIZE) + 8"

definition copy_to :: "u8 list \<Rightarrow> nat \<Rightarrow> u8 list option \<Rightarrow> nat \<Rightarrow> u8 list run" where
  "copy_to buf pos src n =
     (if n = 0 then Inr buf
      else bind_run (deref src) (\<lambda>bs. bind_run (read_at bs 0 n) (\<lambda>part. write_at buf pos part)))"

definition buffer_to_hash ::
  "u8 list option \<Rightarrow> u32 \<Rightarrow> u8 list option \<Rightarrow> u32 \<Rightarrow> u8 list option \<Rightarrow> u64 \<Rightarrow> u8 list run" where
  "buffer_to_hash nonce nonce_size data data_size AID number =
     bind_run (copy_to (replicate (buffer_to_hash_size nonce_size data_size) 0) 0 nonce (unat nonce_size)) (\<lambda>b1.
     bind_run (copy_to b1 (unat nonce_size) data (unat data_size)) (\<lambda>b2.
     bind_run (copy_to b2 (unat nonce_size + unat data_size) AID AID_SIZE) (\<lambda>b3.
       write_at b3 (unat nonce_size + unat data_size + AID_SIZE) (le_bytes 8 number))))"

text \<open>The result with \<^verbatim>\<open>*packed_data\<close> and \<^verbatim>\<open>*packed_data_size\<close> after the call.\<close>

type_synonym packed = "u8 list option \<times> u32"

type_synonym hasher =
  "u8 list option \<Rightarrow> u32 \<Rightarrow> u8 list option \<Rightarrow> u32 \<Rightarrow> u8 list option \<Rightarrow> u64 \<Rightarrow> packed \<Rightarrow> (packed \<times> ra_result) run"

definition do_hash_with :: "nat \<Rightarrow> digest \<Rightarrow> bool \<Rightarrow> bool \<Rightarrow> hasher" where
  "do_hash_with n D buf_ok out_ok nonce nonce_size data data_size AID number p =
     (if \<not> buf_ok then Inr (p, RA_ERROR_MEMORY)
      else bind_run (buffer_to_hash nonce nonce_size data data_size AID number) (\<lambda>buf.
        if \<not> out_ok then Inr ((None, 0), RA_ERROR_MEMORY)
        else bind_run (write_at (replicate n 0) 0 (D buf)) (\<lambda>out.
          Inr ((Some out, of_nat n), RA_SUCCESS))))"

definition ra_do_hash_md5 :: "digest \<Rightarrow> bool \<Rightarrow> bool \<Rightarrow> hasher" where
  "ra_do_hash_md5 MD5 = do_hash_with MD5_DIGEST_LENGTH MD5"

definition ra_do_hash_sha1 :: "digest \<Rightarrow> bool \<Rightarrow> bool \<Rightarrow> hasher" where
  "ra_do_hash_sha1 SHA1 = do_hash_with SHA_DIGEST_LENGTH SHA1"

definition ra_do_hash_sha256 :: "digest \<Rightarrow> bool \<Rightarrow> bool \<Rightarrow> hasher" where
  "ra_do_hash_sha256 SHA256 = do_hash_with SHA256_DIGEST_LENGTH SHA256"

definition ra_do_hash_ripemd160 :: "digest \<Rightarrow> bool \<Rightarrow> bool \<Rightarrow> hasher" where
  "ra_do_hash_ripemd160 RIPEMD160 = do_hash_with RIPEMD160_DIGEST_LENGTH RIPEMD160"

section \<open>What is hashed\<close>

definition hash_message :: "u8 list \<Rightarrow> u8 list \<Rightarrow> u8 list \<Rightarrow> u64 \<Rightarrow> u8 list" where
  "hash_message nonce data AID number = nonce @ data @ AID @ le_bytes 8 number"

definition hash_inputs_ok :: "u8 list \<Rightarrow> u32 \<Rightarrow> u8 list \<Rightarrow> u32 \<Rightarrow> u8 list \<Rightarrow> bool" where
  "hash_inputs_ok nonce nonce_size data data_size AID \<longleftrightarrow>
     length nonce = unat nonce_size \<and> length data = unat data_size \<and> length AID = AID_SIZE
     \<and> unat nonce_size + unat data_size + AID_SIZE < 2 ^ 32"

lemma copy_to_next:
  "length src = n \<Longrightarrow> n \<le> k \<Longrightarrow> length pre = pos \<Longrightarrow>
   copy_to (pre @ replicate k 0) pos (Some src) n = Inr (pre @ src @ replicate (k - n) 0)"
  by (auto simp: copy_to_def read_at_def write_at_def)

lemma buffer_to_hash_size_ok:
  "hash_inputs_ok nonce ns data ds AID \<Longrightarrow>
   buffer_to_hash_size ns ds = unat ns + unat ds + AID_SIZE + 8"
  using unat_add_no_wrap [of ns ds] unat_add_no_wrap [of "ns + ds" "of_nat AID_SIZE"]
  by (simp add: hash_inputs_ok_def buffer_to_hash_size_def AID_SIZE_def)

lemma buffer_to_hash_message:
  assumes "hash_inputs_ok nonce ns data ds AID"
  shows "buffer_to_hash (Some nonce) ns (Some data) ds (Some AID) number = Inr (hash_message nonce data AID number)"
proof -
  let ?k = "unat ns + unat ds + AID_SIZE + 8"
  have l: "length nonce = unat ns" "length data = unat ds" "length AID = AID_SIZE"
    using assms by (simp_all add: hash_inputs_ok_def)
  have "copy_to (replicate ?k 0) 0 (Some nonce) (unat ns) = Inr (nonce @ replicate (?k - unat ns) 0)"
    using copy_to_next [of nonce "unat ns" ?k "[]" 0] l by simp
  moreover have "copy_to (nonce @ replicate (?k - unat ns) 0) (unat ns) (Some data) (unat ds)
      = Inr ((nonce @ data) @ replicate (AID_SIZE + 8) 0)"
    using copy_to_next [of data "unat ds" "?k - unat ns" nonce "unat ns"] l by simp
  moreover have "copy_to ((nonce @ data) @ replicate (AID_SIZE + 8) 0) (unat ns + unat ds) (Some AID) AID_SIZE
      = Inr ((nonce @ data @ AID) @ replicate 8 0)"
    using copy_to_next [of AID AID_SIZE "AID_SIZE + 8" "nonce @ data" "unat ns + unat ds"] l by simp
  moreover have "write_at ((nonce @ data @ AID) @ replicate 8 0) (unat ns + unat ds + AID_SIZE) (le_bytes 8 number)
      = Inr ((nonce @ data @ AID) @ le_bytes 8 number)"
    using l by (simp add: write_at_def)
  ultimately show ?thesis
    by (simp only: buffer_to_hash_def buffer_to_hash_size_ok [OF assms] bind_run_simps hash_message_def
        append_assoc)
qed

lemma do_hash_with_ok:
  assumes "digest_length n D" and "hash_inputs_ok nonce ns data ds AID"
  shows "do_hash_with n D True True (Some nonce) ns (Some data) ds (Some AID) number p =
     Inr ((Some (D (hash_message nonce data AID number)), of_nat n), RA_SUCCESS)"
  using assms(1) by (simp add: do_hash_with_def buffer_to_hash_message [OF assms(2)] write_at_def digest_length_def)

text \<open>All four digest versions compute the digest of nonce, prepared data, application id and
  attestator number laid end to end, and report its length, when the sizes fit in 32 bits; nothing
  of the message depends on where the nonce ends and the data begins.\<close>

theorem ra_do_hash_digest_of_message:
  assumes "hash_inputs_ok nonce ns data ds AID"
    and "digest_length 16 MD5" and "digest_length 20 SHA1" and "digest_length 32 SHA256"
    and "digest_length 20 RIPEMD160"
  shows "let m = hash_message nonce data AID number in
       ra_do_hash_md5 MD5 True True (Some nonce) ns (Some data) ds (Some AID) number p
           = Inr ((Some (MD5 m), 16), RA_SUCCESS)
     \<and> ra_do_hash_sha1 SHA1 True True (Some nonce) ns (Some data) ds (Some AID) number p
           = Inr ((Some (SHA1 m), 20), RA_SUCCESS)
     \<and> ra_do_hash_sha256 SHA256 True True (Some nonce) ns (Some data) ds (Some AID) number p
           = Inr ((Some (SHA256 m), 32), RA_SUCCESS)
     \<and> ra_do_hash_ripemd160 RIPEMD160 True True (Some nonce) ns (Some data) ds (Some AID) number p
           = Inr ((Some (RIPEMD160 m), 20), RA_SUCCESS)"
  using do_hash_with_ok [OF _ assms(1)] assms(2-5)
  by (simp add: ra_do_hash_md5_def ra_do_hash_sha1_def ra_do_hash_sha256_def ra_do_hash_ripemd160_def
      MD5_DIGEST_LENGTH_def SHA_DIGEST_LENGTH_def SHA256_DIGEST_LENGTH_def RIPEMD160_DIGEST_LENGTH_def Let_def)

text \<open>A concrete stand-in for a digest: the first bytes of the message.\<close>

definition prefix_digest :: "nat \<Rightarrow> digest" where
  "prefix_digest n bs = take n (bs @ replicate n 0)"

lemma prefix_digest_length [simp]: "digest_length n (prefix_digest n)"
  by (auto simp: digest_length_def prefix_digest_def min_def)

theorem ra_do_hash_digest_of_message_witness:
  "ra_do_hash_md5 (prefix_digest 16) True True (Some [1, 2]) 2 (Some [3]) 1 (Some (replicate 16 0)) 5 (None, 0)
     = Inr ((Some (prefix_digest 16 (hash_message [1, 2] [3] (replicate 16 0) 5)), 16), RA_SUCCESS)"
  using ra_do_hash_digest_of_message [of "[1, 2]" 2 "[3]" 1 "replicate 16 0" "prefix_digest 16"
      "prefix_digest 20" "prefix_digest 32" "prefix_digest 20" 5 "(None, 0)"]
  by (simp add: hash_inputs_ok_def AID_SIZE_def Let_def)

text \<open>The sizes are not part of the message, unlike the formula of the header: moving the
  boundary between nonce and data leaves the digest unchanged, for every digest function.\<close>

theorem ra_do_hash_boundary_ambiguous:
  assumes "hash_inputs_ok (xs @ ys) ns1 zs ds1 AID" and "hash_inputs_ok xs ns2 (ys @ zs) ds2 AID"
  shows "do_hash_with n D True True (Some (xs @ ys)) ns1 (Some zs) ds1 (Some AID) number p
     = do_hash_with n D True True (Some xs) ns2 (Some (ys @ zs)) ds2 (Some AID) number p"
  by (simp add: do_hash_with_def buffer_to_hash_message [OF assms(1)] buffer_to_hash_message [OF assms(2)]
      hash_message_def)

theorem ra_do_hash_boundary_ambiguous_witness:
  "do_hash_with 16 (prefix_digest 16) True True (Some ([1] @ [2])) 2 (Some [3]) 1 (Some (replicate 16 0)) 5 (None, 0)
     = do_hash_with 16 (prefix_digest 16) True True (Some [1]) 1 (Some ([2] @ [3])) 2 (Some (replicate 16 0)) 5 (None, 0)"
  by (rule ra_do_hash_boundary_ambiguous) (simp_all add: hash_inputs_ok_def AID_SIZE_def)

end
