(* ===== verification/Blake2s.thy ===== *)
theory Blake2s
  imports Do_Hash
begin

text \<open>
  The hash function BLAKE2s of \<^verbatim>\<open>external/blake2s-ref.c\<close> with the helpers of
  \<^verbatim>\<open>blake2-impl.h\<close> and the structures of \<^verbatim>\<open>blake2.h\<close>, and the version of \<^verbatim>\<open>ra_do_hash\<close> that
  uses it. The state of the C code is a record; the input of \<^verbatim>\<open>blake2s_update\<close> is the list of
  the \<^verbatim>\<open>inlen\<close> bytes at \<^verbatim>\<open>in\<close>. Copies into the buffer of the state are bounded writes, so a
  write behind its end is a fault. A reference definition on whole messages, with the counter
  as one 64-bit number, states what the incremental code computes.
\<close>

section \<open>Loads, stores and rotations\<close>

definition load32 :: "u8 list \<Rightarrow> u32" where
  "load32 p = ucast (p ! 0) OR push_bit 8 (ucast (p ! 1)) OR push_bit 16 (ucast (p ! 2))
     OR push_bit 24 (ucast (p ! 3))"

definition store32 :: "u32 \<Rightarrow> u8 list" where
  "store32 w = [ucast w, ucast (drop_bit 8 w), ucast (drop_bit 8 (drop_bit 8 w)),
     ucast (drop_bit 8 (drop_bit 8 (drop_bit 8 w)))]"

definition store48 :: "u64 \<Rightarrow> u8 list" where
  "store48 w = (let w1 = drop_bit 8 w; w2 = drop_bit 8 w1; w3 = drop_bit 8 w2; w4 = drop_bit 8 w3;
       w5 = drop_bit 8 w4
     in [ucast w, ucast w1, ucast w2, ucast w3, ucast w4, ucast w5])"

definition rotr32 :: "u32 \<Rightarrow> nat \<Rightarrow> u32" where
  "rotr32 w c = drop_bit c w OR push_bit (32 - c) w"

fun secure_zero_memory :: "u8 list \<Rightarrow> nat \<Rightarrow> u8 list" where
  "secure_zero_memory (b # bs) (Suc n) = 0 # secure_zero_memory bs n"
| "secure_zero_memory bs _ = bs"

section \<open>Structures and constants\<close>

definition BLAKE2S_BLOCKBYTES :: nat where "BLAKE2S_BLOCKBYTES = 64"

definition BLAKE2S_OUTBYTES :: nat where "BLAKE2S_OUTBYTES = 32"

definition BLAKE2S_KEYBYTES :: nat where "BLAKE2S_KEYBYTES = 32"

definition BLAKE2S_SALTBYTES :: nat where "BLAKE2S_SALTBYTES = 8"

definition BLAKE2S_PERSONALBYTES :: nat where "BLAKE2S_PERSONALBYTES = 8"

lemmas blake2s_constants = BLAKE2S_BLOCKBYTES_def BLAKE2S_OUTBYTES_def BLAKE2S_KEYBYTES_def
  BLAKE2S_SALTBYTES_def BLAKE2S_PERSONALBYTES_def

text \<open>The packed parameter block. The field \<^verbatim>\<open>leaf_length\<close> is only written through \<^verbatim>\<open>store32\<close>:
  it is kept as the bytes in memory.\<close>

record blake2s_param =
  bp_digest_length :: u8
  bp_key_length :: u8
  bp_fanout :: u8
  bp_depth :: u8
  bp_leaf_length :: "u8 list"
  bp_node_offset :: "u8 list"
  bp_node_depth :: u8
  bp_inner_length :: u8
  bp_salt :: "u8 list"
  bp_personal :: "u8 list"

text \<open>Its bytes, as \<^verbatim>\<open>blake2s_init_param\<close> reads them through a cast pointer.\<close>

definition param_bytes :: "blake2s_param \<Rightarrow> u8 list" where
  "param_bytes P = [bp_digest_length P, bp_key_length P, bp_fanout P, bp_depth P]
     @ bp_leaf_length P @ bp_node_offset P @ [bp_node_depth P, bp_inner_length P]
     @ bp_salt P @ bp_personal P"

record blake2s_state =
  bs_h :: "u32 list"
  bs_t :: "u32 list"
  bs_f :: "u32 list"
  bs_buf :: "u8 list"
  bs_buflen :: nat
  bs_last_node :: u8

definition blake2s_IV :: "u32 list" where
  "blake2s_IV = [0x6A09E667, 0xBB67AE85, 0x3C6EF372, 0xA54FF53A,
     0x510E527F, 0x9B05688C, 0x1F83D9AB, 0x5BE0CD19]"

definition blake2s_sigma :: "nat list list" where
  "blake2s_sigma =
    [[ 0,  1,  2,  3,  4,  5,  6,  7,  8,  9, 10, 11, 12, 13, 14, 15],
     [14, 10,  4,  8,  9, 15, 13,  6,  1, 12,  0,  2, 11,  7,  5,  3],
     [11,  8, 12,  0,  5,  2, 15, 13, 10, 14,  3,  6,  7,  1,  9,  4],
     [ 7,  9,  3,  1, 13, 12, 11, 14,  2,  6,  5, 10,  4,  0, 15,  8],
     [ 9,  0,  5,  7,  2,  4, 10, 15, 14,  1, 11, 12,  6,  8,  3, 13],
     [ 2, 12,  6, 10,  0, 11,  8,  3,  4, 13,  7,  5, 15, 14,  1,  9],
     [12,  5,  1, 15, 14, 13,  4, 10,  0,  7,  6,  3,  9,  2,  8, 11],
     [13, 11,  7, 14, 12,  1,  3,  9,  5,  0, 15,  4,  8,  6,  2, 10],
     [ 6, 15, 14,  9, 11,  3,  0,  8, 12,  2, 13,  7,  1,  4, 10,  5],
     [10,  2,  8,  4,  7,  6,  1,  5, 15, 11,  9, 14,  3, 12, 13,  0]]"

section \<open>Flags and counter\<close>

definition blake2s_set_lastnode :: "blake2s_state \<Rightarrow> blake2s_state" where
  "blake2s_set_lastnode S = S\<lparr>bs_f := (bs_f S)[1 := NOT 0]\<rparr>"

definition blake2s_clear_lastnode :: "blake2s_state \<Rightarrow> blake2s_state" where
  "blake2s_clear_lastnode S = S\<lparr>bs_f := (bs_f S)[1 := 0]\<rparr>"

definition blake2s_set_lastblock :: "blake2s_state \<Rightarrow> blake2s_state" where
  "blake2s_set_lastblock S =
     (let S = if bs_last_node S \<noteq> 0 then blake2s_set_lastnode S else S
      in S\<lparr>bs_f := (bs_f S)[0 := NOT 0]\<rparr>)"

definition blake2s_clear_lastblock :: "blake2s_state \<Rightarrow> blake2s_state" where
  "blake2s_clear_lastblock S =
     (let S = if bs_last_node S \<noteq> 0 then blake2s_clear_lastnode S else S
      in S\<lparr>bs_f := (bs_f S)[0 := 0]\<rparr>)"

definition blake2s_increment_counter :: "blake2s_state \<Rightarrow> u32 \<Rightarrow> blake2s_state" where
  "blake2s_increment_counter S inc =
     (let t = (bs_t S)[0 := bs_t S ! 0 + inc]
      in S\<lparr>bs_t := t[1 := t ! 1 + (if t ! 0 < inc then 1 else 0)]\<rparr>)"

section \<open>Parameters\<close>

definition blake2s_param_set_digest_length :: "blake2s_param \<Rightarrow> u8 \<Rightarrow> blake2s_param" where
  "blake2s_param_set_digest_length P outlen = P\<lparr>bp_digest_length := outlen\<rparr>"

definition blake2s_param_set_fanout :: "blake2s_param \<Rightarrow> u8 \<Rightarrow> blake2s_param" where
  "blake2s_param_set_fanout P fanout = P\<lparr>bp_fanout := fanout\<rparr>"

definition blake2s_param_set_max_depth :: "blake2s_param \<Rightarrow> u8 \<Rightarrow> blake2s_param" where
  "blake2s_param_set_max_depth P depth = P\<lparr>bp_depth := depth\<rparr>"

definition blake2s_param_set_leaf_length :: "blake2s_param \<Rightarrow> u32 \<Rightarrow> blake2s_param" where
  "blake2s_param_set_leaf_length P leaf_length = P\<lparr>bp_leaf_length := store32 leaf_length\<rparr>"

definition blake2s_param_set_node_offset :: "blake2s_param \<Rightarrow> u64 \<Rightarrow> blake2s_param" where
  "blake2s_param_set_node_offset P node_offset = P\<lparr>bp_node_offset := store48 node_offset\<rparr>"

definition blake2s_param_set_node_depth :: "blake2s_param \<Rightarrow> u8 \<Rightarrow> blake2s_param" where
  "blake2s_param_set_node_depth P node_depth = P\<lparr>bp_node_depth := node_depth\<rparr>"

definition blake2s_param_set_inner_length :: "blake2s_param \<Rightarrow> u8 \<Rightarrow> blake2s_param" where
  "blake2s_param_set_inner_length P inner_length = P\<lparr>bp_inner_length := inner_length\<rparr>"

definition blake2s_param_set_salt :: "blake2s_param \<Rightarrow> u8 list \<Rightarrow> blake2s_param run" where
  "blake2s_param_set_salt P salt =
     bind_run (copy_to (bp_salt P) 0 (Some salt) BLAKE2S_SALTBYTES) (\<lambda>b. Inr (P\<lparr>bp_salt := b\<rparr>))"

definition blake2s_param_set_personal :: "blake2s_param \<Rightarrow> u8 list \<Rightarrow> blake2s_param run" where
  "blake2s_param_set_personal P personal =
     bind_run (copy_to (bp_personal P) 0 (Some personal) BLAKE2S_PERSONALBYTES)
       (\<lambda>b. Inr (P\<lparr>bp_personal := b\<rparr>))"

section \<open>The compression function\<close>

text \<open>The macros \<^verbatim>\<open>G\<close> and \<^verbatim>\<open>ROUND\<close> on the working vector.\<close>

definition blake2s_G :: "u32 list \<Rightarrow> nat \<Rightarrow> nat \<Rightarrow> nat \<Rightarrow> nat \<Rightarrow> nat \<Rightarrow> nat \<Rightarrow> u32 list \<Rightarrow> u32 list" where
  "blake2s_G m r i a b c d v0 =
     (let v1 = v0[a := v0 ! a + v0 ! b + m ! (blake2s_sigma ! r ! (2 * i + 0))];
          v2 = v1[d := rotr32 (v1 ! d XOR v1 ! a) 16];
          v3 = v2[c := v2 ! c + v2 ! d];
          v4 = v3[b := rotr32 (v3 ! b XOR v3 ! c) 12];
          v5 = v4[a := v4 ! a + v4 ! b + m ! (blake2s_sigma ! r ! (2 * i + 1))];
          v6 = v5[d := rotr32 (v5 ! d XOR v5 ! a) 8];
          v7 = v6[c := v6 ! c + v6 ! d]
      in v7[b := rotr32 (v7 ! b XOR v7 ! c) 7])"

definition blake2s_ROUND :: "u32 list \<Rightarrow> nat \<Rightarrow> u32 list \<Rightarrow> u32 list" where
  "blake2s_ROUND m r v0 =
     (let v1 = blake2s_G m r 0 0 4 8 12 v0;
          v2 = blake2s_G m r 1 1 5 9 13 v1;
          v3 = blake2s_G m r 2 2 6 10 14 v2;
          v4 = blake2s_G m r 3 3 7 11 15 v3;
          v5 = blake2s_G m r 4 0 5 10 15 v4;
          v6 = blake2s_G m r 5 1 6 11 12 v5;
          v7 = blake2s_G m r 6 2 7 8 13 v6
      in blake2s_G m r 7 3 4 9 14 v7)"

definition blake2s_compress :: "blake2s_state \<Rightarrow> u8 list \<Rightarrow> blake2s_state" where
  "blake2s_compress S block =
     (let m = map (\<lambda>i. load32 (drop (i * 4) block)) [0..<16];
          v = map (\<lambda>i. bs_h S ! i) [0..<8]
            @ [blake2s_IV ! 0, blake2s_IV ! 1, blake2s_IV ! 2, blake2s_IV ! 3,
               bs_t S ! 0 XOR blake2s_IV ! 4, bs_t S ! 1 XOR blake2s_IV ! 5,
               bs_f S ! 0 XOR blake2s_IV ! 6, bs_f S ! 1 XOR blake2s_IV ! 7];
          v = blake2s_ROUND m 0 v; v = blake2s_ROUND m 1 v; v = blake2s_ROUND m 2 v;
          v = blake2s_ROUND m 3 v; v = blake2s_ROUND m 4 v; v = blake2s_ROUND m 5 v;
          v = blake2s_ROUND m 6 v; v = blake2s_ROUND m 7 v; v = blake2s_ROUND m 8 v;
          v = blake2s_ROUND m 9 v
      in S\<lparr>bs_h := map (\<lambda>i. bs_h S ! i XOR v ! i XOR v ! (i + 8)) [0..<8]\<rparr>)"

lemma bs_buflen_compress [simp]: "bs_buflen (blake2s_compress S b) = bs_buflen S"
  by (simp add: blake2s_compress_def Let_def)

lemma bs_buflen_increment_counter [simp]: "bs_buflen (blake2s_increment_counter S inc) = bs_buflen S"
  by (simp add: blake2s_increment_counter_def Let_def)

section \<open>Update\<close>

function blake2s_update :: "blake2s_state \<Rightarrow> u8 list \<Rightarrow> blake2s_state run" where
  "blake2s_update S inp =
     (if inp = [] then Inr S
      else
        let left = bs_buflen S;
            fill = 2 * BLAKE2S_BLOCKBYTES - left
        in if 2 * BLAKE2S_BLOCKBYTES < left then Inl Out_Of_Bounds
           else if fill < length inp
           then bind_run (write_at (bs_buf S) left (take fill inp)) (\<lambda>buf.
             let S1 = S\<lparr>bs_buf := buf, bs_buflen := left + fill\<rparr>;
                 S2 = blake2s_compress (blake2s_increment_counter S1 (of_nat BLAKE2S_BLOCKBYTES)) buf
             in bind_run (read_at (bs_buf S2) BLAKE2S_BLOCKBYTES BLAKE2S_BLOCKBYTES) (\<lambda>upper.
                bind_run (write_at (bs_buf S2) 0 upper) (\<lambda>buf'.
                  blake2s_update (S2\<lparr>bs_buf := buf', bs_buflen := bs_buflen S2 - BLAKE2S_BLOCKBYTES\<rparr>)
                    (drop fill inp))))
           else bind_run (write_at (bs_buf S) left inp) (\<lambda>buf.
             Inr (S\<lparr>bs_buf := buf, bs_buflen := left + length inp\<rparr>)))"
  by pat_completeness auto

termination
  by (relation "measures [\<lambda>(S, inp). length inp, \<lambda>(S, inp). bs_buflen S]")
    (auto simp: BLAKE2S_BLOCKBYTES_def)

declare blake2s_update.simps [simp del]

section \<open>Initialisation\<close>

text \<open>\<^verbatim>\<open>blake2s_init0\<close> clears the whole state before it loads the initial vector.\<close>

definition blake2s_init0 :: blake2s_state where
  "blake2s_init0 = \<lparr>bs_h = map (\<lambda>i. blake2s_IV ! i) [0..<8], bs_t = [0, 0], bs_f = [0, 0],
     bs_buf = replicate (2 * BLAKE2S_BLOCKBYTES) 0, bs_buflen = 0, bs_last_node = 0\<rparr>"

definition blake2s_init_param :: "blake2s_param \<Rightarrow> blake2s_state" where
  "blake2s_init_param P =
     (let S = blake2s_init0; p = param_bytes P
      in S\<lparr>bs_h := map (\<lambda>i. bs_h S ! i XOR load32 (drop (i * 4) p)) [0..<8]\<rparr>)"

definition sequential_param :: "u8 \<Rightarrow> u8 \<Rightarrow> blake2s_param" where
  "sequential_param outlen keylen =
     \<lparr>bp_digest_length = outlen, bp_key_length = keylen, bp_fanout = 1, bp_depth = 1,
      bp_leaf_length = store32 0, bp_node_offset = store48 0, bp_node_depth = 0,
      bp_inner_length = 0, bp_salt = replicate BLAKE2S_SALTBYTES 0,
      bp_personal = replicate BLAKE2S_PERSONALBYTES 0\<rparr>"

text \<open>The functions return 0 or -1; the state is unchanged when -1 is returned, so the model
  returns no state then.\<close>

definition blake2s_init :: "u8 \<Rightarrow> blake2s_state option" where
  "blake2s_init outlen =
     (if outlen = 0 \<or> unat outlen > BLAKE2S_OUTBYTES then None
      else Some (blake2s_init_param (sequential_param outlen 0)))"

definition blake2s_init_key :: "u8 \<Rightarrow> u8 list option \<Rightarrow> u8 \<Rightarrow> blake2s_state option run" where
  "blake2s_init_key outlen key keylen =
     (if outlen = 0 \<or> unat outlen > BLAKE2S_OUTBYTES then Inr None
      else (case key of
        None \<Rightarrow> Inr None
      | Some k \<Rightarrow>
          if keylen = 0 \<or> unat keylen > BLAKE2S_KEYBYTES then Inr None
          else bind_run (copy_to (replicate BLAKE2S_BLOCKBYTES 0) 0 (Some k) (unat keylen)) (\<lambda>block.
            bind_run (blake2s_update (blake2s_init_param (sequential_param outlen keylen)) block)
              (\<lambda>S. Inr (Some S)))))"

section \<open>Finalisation and the simple interface\<close>

text \<open>The result is the buffer at \<^verbatim>\<open>out\<close> after the digest has been copied to its start.\<close>

definition blake2s_final :: "blake2s_state \<Rightarrow> u8 list \<Rightarrow> u8 \<Rightarrow> (blake2s_state \<times> u8 list) run" where
  "blake2s_final S out outlen =
     bind_run
       (if BLAKE2S_BLOCKBYTES < bs_buflen S
        then
          let S1 = blake2s_increment_counter S (of_nat BLAKE2S_BLOCKBYTES);
              S2 = blake2s_compress S1 (bs_buf S1);
              len = bs_buflen S2 - BLAKE2S_BLOCKBYTES
          in bind_run (read_at (bs_buf S2) BLAKE2S_BLOCKBYTES len) (\<lambda>upper.
             bind_run (write_at (bs_buf S2) 0 upper) (\<lambda>buf.
               Inr (S2\<lparr>bs_buf := buf, bs_buflen := len\<rparr>)))
        else Inr S) (\<lambda>S.
     let S = blake2s_set_lastblock (blake2s_increment_counter S (of_nat (bs_buflen S)))
     in bind_run (write_at (bs_buf S) (bs_buflen S)
                    (replicate (2 * BLAKE2S_BLOCKBYTES - bs_buflen S) 0)) (\<lambda>buf.
        let S = blake2s_compress (S\<lparr>bs_buf := buf\<rparr>) buf;
            buffer = concat (map (\<lambda>i. store32 (bs_h S ! i)) [0..<8])
        in bind_run (read_at buffer 0 (unat outlen)) (\<lambda>digest.
           bind_run (write_at out 0 digest) (\<lambda>out'. Inr (S, out')))))"

text \<open>\<^verbatim>\<open>blake2s\<close>: the buffer at \<^verbatim>\<open>out\<close> after the call and the code returned.\<close>

definition blake2s ::
  "u8 list option \<Rightarrow> u8 list option \<Rightarrow> u8 list option \<Rightarrow> u8 \<Rightarrow> u64 \<Rightarrow> u8 \<Rightarrow> (u8 list option \<times> int) run" where
  "blake2s out inp key outlen inlen keylen =
     (case inp of None \<Rightarrow> Inr (out, -1) | Some bs \<Rightarrow>
     (case out of None \<Rightarrow> Inr (out, -1) | Some o_buf \<Rightarrow>
        let keylen = (if key = None then 0 else keylen)
        in bind_run (if 0 < keylen then blake2s_init_key outlen key keylen
                     else Inr (blake2s_init outlen)) (\<lambda>init.
           (case init of None \<Rightarrow> Inr (out, -1)
            | Some S \<Rightarrow>
               bind_run (read_at bs 0 (unat inlen)) (\<lambda>input.
               bind_run (blake2s_update S input) (\<lambda>S.
               bind_run (blake2s_final S o_buf outlen) (\<lambda>(S, o_buf'). Inr (Some o_buf', 0))))))))"

section \<open>The shape of the state\<close>

definition blake2s_ok :: "blake2s_state \<Rightarrow> bool" where
  "blake2s_ok S \<longleftrightarrow> length (bs_h S) = 8 \<and> length (bs_t S) = 2 \<and> length (bs_f S) = 2
     \<and> length (bs_buf S) = 128 \<and> bs_buflen S \<le> 128"

lemma blake2s_compress_fields [simp]:
  "bs_t (blake2s_compress S b) = bs_t S" "bs_f (blake2s_compress S b) = bs_f S"
  "bs_buf (blake2s_compress S b) = bs_buf S" "bs_last_node (blake2s_compress S b) = bs_last_node S"
  "length (bs_h (blake2s_compress S b)) = 8"
  by (simp_all add: blake2s_compress_def Let_def)

lemma blake2s_increment_counter_fields [simp]:
  "bs_h (blake2s_increment_counter S inc) = bs_h S" "bs_f (blake2s_increment_counter S inc) = bs_f S"
  "bs_buf (blake2s_increment_counter S inc) = bs_buf S"
  "bs_last_node (blake2s_increment_counter S inc) = bs_last_node S"
  "length (bs_t (blake2s_increment_counter S inc)) = length (bs_t S)"
  by (simp_all add: blake2s_increment_counter_def Let_def)

text \<open>A full buffer is flushed: its first half is compressed, its second half moves down.\<close>

definition flush :: "blake2s_state \<Rightarrow> blake2s_state" where
  "flush S = (let S2 = blake2s_compress (blake2s_increment_counter S 64) (bs_buf S)
     in S2\<lparr>bs_buf := drop 64 (bs_buf S) @ drop 64 (bs_buf S), bs_buflen := bs_buflen S - 64\<rparr>)"

text \<open>Absorbing one byte, the reference for \<^verbatim>\<open>blake2s_update\<close>: the buffer is flushed only when
  it is full and another byte arrives.\<close>

definition absorb_byte :: "blake2s_state \<Rightarrow> u8 \<Rightarrow> blake2s_state" where
  "absorb_byte S c = (let S = if bs_buflen S = 128 then flush S else S
     in S\<lparr>bs_buf := (bs_buf S)[bs_buflen S := c], bs_buflen := Suc (bs_buflen S)\<rparr>)"

lemma flush_ok: "blake2s_ok S \<Longrightarrow> blake2s_ok (flush S)"
  by (auto simp: blake2s_ok_def flush_def Let_def)

lemma absorb_byte_ok: "blake2s_ok S \<Longrightarrow> blake2s_ok (absorb_byte S c)"
  using flush_ok [of S] by (auto simp: absorb_byte_def Let_def blake2s_ok_def flush_def)

lemma absorb_bytes_ok: "blake2s_ok S \<Longrightarrow> blake2s_ok (foldl absorb_byte S bs)"
  by (induction bs arbitrary: S) (simp_all add: absorb_byte_ok)

lemma absorb_bytes_fit:
  assumes "blake2s_ok S" and "bs_buflen S + length bs \<le> 128"
  shows "foldl absorb_byte S bs =
    S\<lparr>bs_buf := take (bs_buflen S) (bs_buf S) @ bs @ drop (bs_buflen S + length bs) (bs_buf S),
      bs_buflen := bs_buflen S + length bs\<rparr>"
  using assms
proof (induction bs arbitrary: S)
  case Nil
  then show ?case by simp
next
  case (Cons b bs)
  let ?S = "absorb_byte S b"
  have step: "?S = S\<lparr>bs_buf := (bs_buf S)[bs_buflen S := b], bs_buflen := Suc (bs_buflen S)\<rparr>"
    using Cons.prems by (simp add: absorb_byte_def)
  have len: "bs_buflen S < length (bs_buf S)"
    using Cons.prems by (simp add: blake2s_ok_def)
  have "foldl absorb_byte ?S bs = ?S\<lparr>bs_buf := take (bs_buflen ?S) (bs_buf ?S) @ bs
      @ drop (bs_buflen ?S + length bs) (bs_buf ?S), bs_buflen := bs_buflen ?S + length bs\<rparr>"
    using Cons.prems by (intro Cons.IH absorb_byte_ok) (simp_all add: step)
  then show ?case using len
    by (simp add: step take_Suc_conv_app_nth)
qed

lemma absorb_after_flush:
  "bs_buflen S = 128 \<Longrightarrow> absorb_byte S c = absorb_byte (flush S) c"
  by (simp add: absorb_byte_def flush_def Let_def)

lemma read_upper_half: "length buf = 128 \<Longrightarrow> read_at buf 64 64 = Inr (drop 64 buf)"
  by (simp add: read_at_def)

lemma write_lower_half: "length buf = 128 \<Longrightarrow> write_at buf 0 (drop 64 buf) = Inr (drop 64 buf @ drop 64 buf)"
  by (simp add: write_at_def)

lemma blake2s_update_full:
  assumes "bs_buflen S \<le> 128" and "128 - bs_buflen S < length inp"
    and "write_at (bs_buf S) (bs_buflen S) (take (128 - bs_buflen S) inp) = Inr buf" and "length buf = 128"
  shows "blake2s_update S inp
    = blake2s_update (flush (S\<lparr>bs_buf := buf, bs_buflen := 128\<rparr>)) (drop (128 - bs_buflen S) inp)"
proof -
  have "inp \<noteq> []" using assms(2) by auto
  with assms show ?thesis
    by (subst blake2s_update.simps)
      (simp add: BLAKE2S_BLOCKBYTES_def read_upper_half write_lower_half flush_def Let_def)
qed

lemma blake2s_update_absorb:
  "blake2s_ok S \<Longrightarrow> blake2s_update S inp = Inr (foldl absorb_byte S inp)"
proof (induction "2 * length inp + of_bool (bs_buflen S = 128)" arbitrary: S inp rule: less_induct)
  case less
  note ok = less.prems
  let ?left = "bs_buflen S" and ?fill = "128 - bs_buflen S"
  have left: "?left \<le> 128" and len: "length (bs_buf S) = 128"
    using ok by (simp_all add: blake2s_ok_def)
  show ?case
  proof (cases "?fill < length inp")
    case False
    then show ?thesis
      using left len absorb_bytes_fit [OF ok, of inp]
      by (subst blake2s_update.simps) (auto simp: BLAKE2S_BLOCKBYTES_def write_at_def Let_def)
  next
    case True
    let ?buf = "take ?left (bs_buf S) @ take ?fill inp"
    let ?S1 = "S\<lparr>bs_buf := ?buf, bs_buflen := 128\<rparr>"
    have fit: "foldl absorb_byte S (take ?fill inp) = ?S1"
      using absorb_bytes_fit [OF ok, of "take ?fill inp"] True left len by (simp add: min_def)
    have ok1: "blake2s_ok ?S1"
      using absorb_bytes_ok [OF ok, of "take ?fill inp"] unfolding fit .
    have buf1: "length ?buf = 128" using True left len by simp
    obtain c rest where rest: "drop ?fill inp = c # rest"
      using True by (cases "drop ?fill inp") auto
    have "foldl absorb_byte S inp = foldl absorb_byte S (take ?fill inp @ drop ?fill inp)" by simp
    also have "\<dots> = foldl absorb_byte ?S1 (c # rest)"
      by (simp only: foldl_append fit rest)
    also have "\<dots> = foldl absorb_byte (flush ?S1) (drop ?fill inp)"
      by (simp add: absorb_after_flush rest)
    finally have all: "foldl absorb_byte S inp = foldl absorb_byte (flush ?S1) (drop ?fill inp)" .
    have w1: "write_at (bs_buf S) ?left (take ?fill inp) = Inr ?buf"
      using True left len by (simp add: write_at_def)
    have step: "blake2s_update S inp = blake2s_update (flush ?S1) (drop ?fill inp)"
      using True left by (intro blake2s_update_full w1 buf1) simp_all
    have "blake2s_update (flush ?S1) (drop ?fill inp) = Inr (foldl absorb_byte (flush ?S1) (drop ?fill inp))"
      using True left by (intro less.hyps flush_ok ok1) (auto simp: flush_def Let_def)
    then show ?thesis using step all by simp
  qed
qed

section \<open>The reference definition\<close>

text \<open>
  BLAKE2s as RFC 7693 states it: the mixing of four words, a round as eight mixings of columns
  and diagonals, the compression of a block with the number of bytes so far as one 64-bit
  counter, and the chaining over a message whose last block has between 1 and 64 bytes (or is
  empty when the message is).
\<close>

definition rfc_mix :: "u32 \<Rightarrow> u32 \<Rightarrow> u32 \<Rightarrow> u32 \<Rightarrow> u32 \<Rightarrow> u32 \<Rightarrow> u32 \<times> u32 \<times> u32 \<times> u32" where
  "rfc_mix a b c d x y =
     (let a = a + b + x; d = word_rotr 16 (d XOR a); c = c + d; b = word_rotr 12 (b XOR c);
          a = a + b + y; d = word_rotr 8 (d XOR a); c = c + d; b = word_rotr 7 (b XOR c)
      in (a, b, c, d))"

definition rfc_lanes :: "(nat \<times> nat \<times> nat \<times> nat) list" where
  "rfc_lanes = [(0, 4, 8, 12), (1, 5, 9, 13), (2, 6, 10, 14), (3, 7, 11, 15),
                (0, 5, 10, 15), (1, 6, 11, 12), (2, 7, 8, 13), (3, 4, 9, 14)]"

definition rfc_lane :: "u32 list \<Rightarrow> nat list \<Rightarrow> u32 list \<Rightarrow> nat \<Rightarrow> u32 list" where
  "rfc_lane m s v i =
     (case rfc_lanes ! i of (i1, i2, i3, i4) \<Rightarrow>
      case rfc_mix (v ! i1) (v ! i2) (v ! i3) (v ! i4) (m ! (s ! (2 * i))) (m ! (s ! (2 * i + 1))) of
        (a, b, c, d) \<Rightarrow> v[i1 := a, i2 := b, i3 := c, i4 := d])"

definition rfc_round :: "u32 list \<Rightarrow> u32 list \<Rightarrow> nat list \<Rightarrow> u32 list" where
  "rfc_round m v s = foldl (rfc_lane m s) v [0..<8]"

definition rfc_words :: "u8 list \<Rightarrow> u32 list" where
  "rfc_words block = map (\<lambda>i. le_word (take 4 (drop (4 * i) block))) [0..<16]"

definition rfc_F :: "u32 list \<Rightarrow> u8 list \<Rightarrow> u64 \<Rightarrow> bool \<Rightarrow> u32 list" where
  "rfc_F h block n final =
     (let v = h @ blake2s_IV;
          v = v[12 := v ! 12 XOR ucast n, 13 := v ! 13 XOR ucast (drop_bit 32 n)];
          v = (if final then v[14 := NOT (v ! 14)] else v);
          v = foldl (rfc_round (rfc_words block)) v blake2s_sigma
      in map (\<lambda>i. h ! i XOR v ! i XOR v ! (i + 8)) [0..<8])"

definition pad_to :: "nat \<Rightarrow> u8 list \<Rightarrow> u8 list" where
  "pad_to n bs = bs @ replicate (n - length bs) 0"

function rfc_chain :: "u32 list \<Rightarrow> u64 \<Rightarrow> u8 list \<Rightarrow> u32 list" where
  "rfc_chain h n msg =
     (if length msg \<le> 64 then rfc_F h (pad_to 64 msg) (n + of_nat (length msg)) True
      else rfc_chain (rfc_F h (take 64 msg) (n + 64) False) (n + 64) (drop 64 msg))"
  by pat_completeness auto

termination by (relation "measure (\<lambda>(h, n, msg). length msg)") auto

declare rfc_chain.simps [simp del]

definition rfc_h0 :: "nat \<Rightarrow> nat \<Rightarrow> u32 list" where
  "rfc_h0 kk nn = blake2s_IV[0 := blake2s_IV ! 0 XOR 0x01010000 XOR push_bit 8 (of_nat kk) XOR of_nat nn]"

definition rfc_blake2s :: "nat \<Rightarrow> u8 list \<Rightarrow> u8 list \<Rightarrow> u8 list" where
  "rfc_blake2s nn key msg =
     (let msg = (if key = [] then msg else pad_to 64 key @ msg)
      in take nn (concat (map (le_bytes 4) (rfc_chain (rfc_h0 (length key) nn) 0 msg))))"

section \<open>The compression function against the reference\<close>

lemma rotr32_word_rotr: "c < 32 \<Longrightarrow> rotr32 w c = word_rotr c w"
proof (rule bit_word_eqI)
  fix n assume "c < 32" and "n < LENGTH(32)"
  then show "bit (rotr32 w c) n = bit (word_rotr c w) n"
  proof (cases "n + c < 32")
    case True
    then have "(n + c) mod 32 = n + c" and "\<not> 32 - c \<le> n" by auto
    with True show ?thesis
      by (simp add: rotr32_def bit_simps bit_word_rotr_iff add.commute)
  next
    case False
    with \<open>c < 32\<close> \<open>n < LENGTH(32)\<close> have "(n + c) mod 32 = n - (32 - c)" and "32 - c \<le> n"
      by (auto simp: le_mod_geq)
    moreover have "\<not> bit w (n + c)"
      using False by (auto dest: bit_imp_le_length)
    ultimately show ?thesis
      using \<open>n < LENGTH(32)\<close> by (simp add: rotr32_def bit_simps bit_word_rotr_iff add.commute)
  qed
qed

lemma load32_le_word:
  assumes "4 \<le> length p"
  shows "load32 p = le_word (take 4 p)"
proof -
  from assms obtain a b c d r where "p = a # b # c # d # r"
    by (auto simp: numeral_eq_Suc Suc_le_length_iff)
  then show ?thesis
    by (simp add: load32_def push_bit_or push_bit_push_bit)
qed

lemma store32_le_bytes: "store32 w = le_bytes 4 w"
  by (simp add: store32_def numeral_eq_Suc)

lemma length_store32 [simp]: "length (store32 w) = 4"
  by (simp add: store32_def)

lemma collapse_updates:
  assumes "distinct [a, b, c, d]" and "a < length v" and "b < length v" and "c < length v" and "d < length v"
  shows "v[a := x1, d := x2, c := x3, b := x4, a := y1, d := y2, c := y3, b := y4]
    = v[a := y1, b := y4, c := y3, d := y2]"
  using assms by (auto simp: list_eq_iff_nth_eq nth_list_update)

lemma blake2s_G_mix:
  assumes "distinct [a, b, c, d]" and "a < length v" and "b < length v" and "c < length v" and "d < length v"
  shows "blake2s_G m r i a b c d v =
    (case rfc_mix (v ! a) (v ! b) (v ! c) (v ! d) (m ! (blake2s_sigma ! r ! (2 * i)))
            (m ! (blake2s_sigma ! r ! (2 * i + 1))) of
       (a', b', c', d') \<Rightarrow> v[a := a', b := b', c := c', d := d'])"
proof -
  define x where "x = m ! (blake2s_sigma ! r ! (2 * i))"
  define y where "y = m ! (blake2s_sigma ! r ! (2 * i + 1))"
  define x1 where "x1 = v ! a + v ! b + x"
  define x2 where "x2 = word_rotr 16 (v ! d XOR x1)"
  define x3 where "x3 = v ! c + x2"
  define x4 where "x4 = word_rotr 12 (v ! b XOR x3)"
  define y1 where "y1 = x1 + x4 + y"
  define y2 where "y2 = word_rotr 8 (x2 XOR y1)"
  define y3 where "y3 = x3 + y2"
  define y4 where "y4 = word_rotr 7 (x4 XOR y3)"
  note defs = x_def [symmetric] y_def [symmetric] x1_def [symmetric] x2_def [symmetric] x3_def [symmetric]
    x4_def [symmetric] y1_def [symmetric] y2_def [symmetric] y3_def [symmetric] y4_def [symmetric]
  define v1 where "v1 = v[a := x1]"
  define v2 where "v2 = v1[d := x2]"
  define v3 where "v3 = v2[c := x3]"
  define v4 where "v4 = v3[b := x4]"
  define v5 where "v5 = v4[a := y1]"
  define v6 where "v6 = v5[d := y2]"
  define v7 where "v7 = v6[c := y3]"
  define v8 where "v8 = v7[b := y4]"
  note vs = v1_def v2_def v3_def v4_def v5_def v6_def v7_def v8_def
  have s1: "v[a := v ! a + v ! b + x] = v1"
    using assms by (simp add: vs x1_def rotr32_word_rotr)
  have s2: "v1[d := rotr32 (v1 ! d XOR v1 ! a) 16] = v2"
    using assms by (simp add: vs x2_def rotr32_word_rotr)
  have s3: "v2[c := v2 ! c + v2 ! d] = v3"
    using assms by (simp add: vs x3_def rotr32_word_rotr)
  have s4: "v3[b := rotr32 (v3 ! b XOR v3 ! c) 12] = v4"
    using assms by (simp add: vs x4_def rotr32_word_rotr)
  have s5: "v4[a := v4 ! a + v4 ! b + y] = v5"
    using assms by (simp add: vs y1_def rotr32_word_rotr)
  have s6: "v5[d := rotr32 (v5 ! d XOR v5 ! a) 8] = v6"
    using assms by (simp add: vs y2_def rotr32_word_rotr)
  have s7: "v6[c := v6 ! c + v6 ! d] = v7"
    using assms by (simp add: vs y3_def rotr32_word_rotr)
  have s8: "v7[b := rotr32 (v7 ! b XOR v7 ! c) 7] = v8"
    using assms by (simp add: vs y4_def rotr32_word_rotr)
  have G: "blake2s_G m r i a b c d v = v[a := x1, d := x2, c := x3, b := x4, a := y1, d := y2, c := y3, b := y4]"
    unfolding blake2s_G_def add_0_right x_def [symmetric] y_def [symmetric]
    by (simp only: Let_def s1 s2 s3 s4 s5 s6 s7 s8) (simp add: vs)
  have "rfc_mix (v ! a) (v ! b) (v ! c) (v ! d) x y = (y1, y4, y3, y2)"
    by (simp add: rfc_mix_def Let_def defs)
  then show ?thesis
    unfolding x_def [symmetric] y_def [symmetric] G collapse_updates [OF assms] by simp
qed

lemma blake2s_ROUND_rfc:
  assumes "length v = 16" and "r < 10"
  shows "blake2s_ROUND m r v = rfc_round m v (blake2s_sigma ! r)"
proof -
  have lane: "blake2s_G m r i a b c d w = rfc_lane m (blake2s_sigma ! r) w i"
    if "i < 8" and "rfc_lanes ! i = (a, b, c, d)" and "length w = 16" for i a b c d w
  proof -
    from that(1) have "i \<in> {0, 1, 2, 3, 4, 5, 6, 7}" by auto
    with that(2, 3) show ?thesis
      by (auto simp: rfc_lanes_def rfc_lane_def blake2s_G_mix)
  qed
  have len: "length (rfc_lane m (blake2s_sigma ! r) w i) = length w" for w i
    by (simp add: rfc_lane_def split: prod.splits)
  have "[0..<8] = [0, 1, 2, 3, 4, 5, 6, 7::nat]" by (simp add: upt_rec)
  with assms show ?thesis
    by (simp add: blake2s_ROUND_def rfc_round_def Let_def lane len rfc_lanes_def)
qed

lemma length_rfc_round [simp]: "length (rfc_round m v s) = length v"
proof -
  have "length (foldl (rfc_lane m s) v is) = length v" for "is"
    by (induction "is" arbitrary: v) (simp_all add: rfc_lane_def split: prod.splits)
  then show ?thesis by (simp add: rfc_round_def)
qed

text \<open>The two halves of the counter as one number.\<close>

definition counter :: "blake2s_state \<Rightarrow> u64" where
  "counter S = of_nat (unat (bs_t S ! 0) + 2 ^ 32 * unat (bs_t S ! 1))"

lemma ucast_of_nat_u64_u32: "(ucast (of_nat n :: u64) :: u32) = of_nat n"
  by transfer simp

lemma drop_bit_of_nat_u64: "n < 2 ^ 64 \<Longrightarrow> drop_bit 32 (of_nat n :: u64) = of_nat (n div 2 ^ 32)"
  by transfer (simp add: take_bit_eq_mod drop_bit_eq_div flip: of_nat_mod of_nat_div)

lemma of_nat_shifted_half: "(of_nat (2 ^ 32 * unat (of_nat n :: u32)) :: u64) = of_nat (2 ^ 32 * n)"
proof -
  have "2 ^ 32 * (n mod 2 ^ 32) mod 2 ^ 64 = (2 ^ 32 * n) mod (2 ^ 64 :: nat)"
    by (simp add: mult_mod_right)
  then show ?thesis by (simp add: word_unat_eq_iff unat_of_nat del: of_nat_mult)
qed

lemma unat_u32_bound: "unat (w :: u32) < 2 ^ 32"
  using unsigned_less [where 'a = nat, of w] by simp

lemma counter_low: "(ucast (counter S) :: u32) = bs_t S ! 0"
proof -
  have "(of_nat (2 ^ 32 * unat (bs_t S ! 1)) :: u32) = 0"
    by (simp add: word_unat_eq_iff unat_of_nat del: of_nat_mult)
  then have "(of_nat (unat (bs_t S ! 0) + 2 ^ 32 * unat (bs_t S ! 1)) :: u32) = bs_t S ! 0"
    by (simp only: of_nat_add) simp
  then show ?thesis
    by (simp only: counter_def ucast_of_nat_u64_u32)
qed

lemma counter_high: "(ucast (drop_bit 32 (counter S)) :: u32) = bs_t S ! 1"
proof -
  have "unat (bs_t S ! 0) + 2 ^ 32 * unat (bs_t S ! 1) < 2 ^ 64"
    using unat_u32_bound [of "bs_t S ! 0"] unat_u32_bound [of "bs_t S ! 1"] by simp
  then have "drop_bit 32 (counter S) = of_nat (unat (bs_t S ! 1))"
    using unat_u32_bound [of "bs_t S ! 0"]
    by (simp only: counter_def drop_bit_of_nat_u64) (simp del: of_nat_add of_nat_mult)
  then show ?thesis by (simp only: ucast_of_nat_u64_u32) simp
qed

lemma carry_less:
  fixes x inc :: u32
  shows "x + inc < inc \<longleftrightarrow> 2 ^ 32 \<le> unat x + unat inc"
    and "unat (x + inc) + (if x + inc < inc then 2 ^ 32 else 0) = unat x + unat inc"
  using unat_u32_bound [of x] unat_u32_bound [of inc]
  by (auto simp: word_less_nat_alt unat_word_ariths mod_if)

lemma counter_increment:
  assumes "length (bs_t S) = 2"
  shows "counter (blake2s_increment_counter S inc) = counter S + ucast inc"
proof -
  define x y where "x = bs_t S ! 0" and "y = bs_t S ! 1"
  define k :: nat where "k = (if x + inc < inc then 1 else 0)"
  have "counter (blake2s_increment_counter S inc)
      = of_nat (unat (x + inc)) + of_nat (2 ^ 32 * unat (of_nat (unat y + k) :: u32))"
    using assms
    by (simp add: counter_def blake2s_increment_counter_def Let_def k_def flip: x_def y_def del: One_nat_def)
  also have "\<dots> = of_nat (unat (x + inc) + 2 ^ 32 * k + 2 ^ 32 * unat y)"
    unfolding of_nat_shifted_half of_nat_add [symmetric] by (simp add: algebra_simps)
  also have "unat (x + inc) + 2 ^ 32 * k = unat x + unat inc"
    using carry_less(2) [of x inc] by (simp add: k_def split: if_splits)
  also have "(of_nat (unat x + unat inc + 2 ^ 32 * unat y) :: u64) = counter S + of_nat (unat inc)"
    by (simp add: counter_def x_def y_def)
  finally show ?thesis by simp
qed

section \<open>Chaining against the reference\<close>

text \<open>The states of a hash in progress: no flag is set, no tree node is used.\<close>

definition blake2s_running :: "blake2s_state \<Rightarrow> bool" where
  "blake2s_running S \<longleftrightarrow> blake2s_ok S \<and> bs_f S = [0, 0] \<and> bs_last_node S = 0"

lemma blake2s_words:
  assumes "64 \<le> length block"
  shows "map (\<lambda>i. load32 (drop (i * 4) block)) [0..<16] = rfc_words (take 64 block)"
proof -
  have "load32 (drop (i * 4) block) = le_word (take 4 (drop (4 * i) (take 64 block)))" if "i < 16" for i
  proof -
    have "take 4 (drop (4 * i) (take 64 block)) = take 4 (drop (4 * i) block)"
      using that by (simp add: drop_take min_def)
    then show ?thesis using that assms by (simp add: load32_le_word mult.commute)
  qed
  then show ?thesis by (simp add: rfc_words_def)
qed

lemma sigma_rounds:
  "foldl (rfc_round w) v blake2s_sigma
    = foldl (\<lambda>v r. rfc_round w v (blake2s_sigma ! r)) v [0, 1, 2, 3, 4, 5, 6, 7, 8, 9]"
  by (simp add: blake2s_sigma_def)

lemma blake2s_compress_F:
  assumes "blake2s_ok S" and "bs_f S = [if final then NOT 0 else 0, 0]" and "64 \<le> length block"
  shows "bs_h (blake2s_compress S block) = rfc_F (bs_h S) (take 64 block) (counter S) final"
proof -
  define w where "w = rfc_words (take 64 block)"
  define v where "v = (let v = bs_h S @ blake2s_IV;
      v = v[12 := v ! 12 XOR ucast (counter S), 13 := v ! 13 XOR ucast (drop_bit 32 (counter S))]
    in if final then v[14 := NOT (v ! 14)] else v)"
  have h: "length (bs_h S) = 8" using assms(1) by (simp add: blake2s_ok_def)
  then obtain h0 h1 h2 h3 h4 h5 h6 h7 where hs: "bs_h S = [h0, h1, h2, h3, h4, h5, h6, h7]"
    by (auto simp: numeral_eq_Suc length_Suc_conv)
  have v: "map (\<lambda>i. bs_h S ! i) [0..<8]
      @ [blake2s_IV ! 0, blake2s_IV ! 1, blake2s_IV ! 2, blake2s_IV ! 3,
         bs_t S ! 0 XOR blake2s_IV ! 4, bs_t S ! 1 XOR blake2s_IV ! 5,
         bs_f S ! 0 XOR blake2s_IV ! 6, bs_f S ! 1 XOR blake2s_IV ! 7] = v"
    using assms(2) unfolding v_def Let_def counter_low counter_high hs
    by (simp add: blake2s_IV_def upt_rec xor.commute)
  have "length v = 16"
    unfolding v [symmetric] by simp
  then have rounds: "blake2s_ROUND w 9 (blake2s_ROUND w 8 (blake2s_ROUND w 7 (blake2s_ROUND w 6
      (blake2s_ROUND w 5 (blake2s_ROUND w 4 (blake2s_ROUND w 3 (blake2s_ROUND w 2
        (blake2s_ROUND w 1 (blake2s_ROUND w 0 v))))))))) = foldl (rfc_round w) v blake2s_sigma"
    by (simp add: sigma_rounds blake2s_ROUND_rfc)
  have "bs_h (blake2s_compress S block)
      = map (\<lambda>i. bs_h S ! i XOR foldl (rfc_round w) v blake2s_sigma ! i
          XOR foldl (rfc_round w) v blake2s_sigma ! (i + 8)) [0..<8]"
    unfolding blake2s_compress_def Let_def blake2s_words [OF assms(3)] v w_def [symmetric] rounds by simp
  also have "\<dots> = rfc_F (bs_h S) (take 64 block) (counter S) final"
    unfolding rfc_F_def v_def w_def Let_def by simp
  finally show ?thesis .
qed

text \<open>The chaining value of a state for the bytes that follow is kept by every byte absorbed.\<close>

definition chain_value :: "blake2s_state \<Rightarrow> u8 list \<Rightarrow> u32 list" where
  "chain_value S bs = rfc_chain (bs_h S) (counter S) (take (bs_buflen S) (bs_buf S) @ bs)"

lemma flush_running: "blake2s_running S \<Longrightarrow> blake2s_running (flush S)"
  using flush_ok [of S] by (simp add: blake2s_running_def flush_def Let_def)

lemma increment_ok: "blake2s_ok (blake2s_increment_counter S inc) = blake2s_ok S"
  by (simp add: blake2s_ok_def)

lemma counter_cong: "bs_t S = bs_t S' \<Longrightarrow> counter S = counter S'"
  by (simp add: counter_def)

lemma bs_t_update [simp]:
  "bs_t (S\<lparr>bs_buf := b\<rparr>) = bs_t S" "bs_t (S\<lparr>bs_buf := b, bs_buflen := n\<rparr>) = bs_t S"
  by simp_all

lemma compress_full_block:
  assumes "blake2s_running S"
  shows "bs_h (blake2s_compress (blake2s_increment_counter S 64) (bs_buf S))
      = rfc_F (bs_h S) (take 64 (bs_buf S)) (counter S + 64) False"
  using assms blake2s_compress_F [of "blake2s_increment_counter S 64" False "bs_buf S"]
  by (simp add: blake2s_running_def increment_ok counter_increment blake2s_ok_def)

lemma counter_compress:
  "blake2s_ok S \<Longrightarrow> counter (blake2s_compress (blake2s_increment_counter S 64) b) = counter S + 64"
  using counter_cong [of "blake2s_compress (blake2s_increment_counter S 64) b" "blake2s_increment_counter S 64"]
  by (simp add: counter_increment blake2s_ok_def)

lemma chain_value_flush:
  assumes "blake2s_running S" and "64 < bs_buflen S"
    and "bs_h S' = bs_h (blake2s_compress (blake2s_increment_counter S 64) (bs_buf S))"
    and "bs_t S' = bs_t (blake2s_increment_counter S 64)"
    and "take (bs_buflen S') (bs_buf S') = drop 64 (take (bs_buflen S) (bs_buf S))"
  shows "chain_value S' bs = chain_value S bs"
proof -
  have ok: "blake2s_ok S" using assms(1) by (simp add: blake2s_running_def)
  have c: "counter S' = counter S + 64"
    using counter_cong [OF assms(4)] ok by (simp add: counter_increment blake2s_ok_def)
  have "64 < length (take (bs_buflen S) (bs_buf S) @ bs)"
    using ok assms(2) by (simp add: blake2s_ok_def)
  moreover have "take 64 (take (bs_buflen S) (bs_buf S) @ bs) = take 64 (bs_buf S)"
    and "drop 64 (take (bs_buflen S) (bs_buf S) @ bs) = take (bs_buflen S') (bs_buf S') @ bs"
    using ok assms(2, 5) by (simp_all add: blake2s_ok_def min_def)
  ultimately show ?thesis
    using compress_full_block [OF assms(1)] c assms(3)
    unfolding chain_value_def by (subst (2) rfc_chain.simps) simp
qed

lemma chain_value_absorb:
  assumes "blake2s_running S"
  shows "chain_value (absorb_byte S c) bs = chain_value S (c # bs)"
proof -
  have room: "chain_value (absorb_byte S c) bs = chain_value S (c # bs)"
    if "blake2s_running S" and "bs_buflen S < 128" for S
  proof -
    have "bs_buflen S < length (bs_buf S)" using that by (simp add: blake2s_running_def blake2s_ok_def)
    then have "take (Suc (bs_buflen S)) ((bs_buf S)[bs_buflen S := c]) = take (bs_buflen S) (bs_buf S) @ [c]"
      by (simp add: take_Suc_conv_app_nth)
    with that(2) show ?thesis
      by (simp add: chain_value_def absorb_byte_def counter_def)
  qed
  show ?thesis
  proof (cases "bs_buflen S = 128")
    case False
    then show ?thesis using assms room [of S] by (simp add: blake2s_running_def blake2s_ok_def)
  next
    case True
    have "chain_value (flush S) (c # bs) = chain_value S (c # bs)"
      using True assms by (intro chain_value_flush) (auto simp: flush_def Let_def blake2s_running_def blake2s_ok_def)
    moreover have "chain_value (absorb_byte (flush S) c) bs = chain_value (flush S) (c # bs)"
      using True by (intro room flush_running assms) (simp add: flush_def Let_def)
    ultimately show ?thesis using absorb_after_flush [OF True] by simp
  qed
qed

lemma absorb_byte_running: "blake2s_running S \<Longrightarrow> blake2s_running (absorb_byte S c)"
  using absorb_byte_ok [of S c] by (simp add: blake2s_running_def absorb_byte_def flush_def Let_def)

lemma absorb_bytes_running: "blake2s_running S \<Longrightarrow> blake2s_running (foldl absorb_byte S bs)"
  by (induction bs arbitrary: S) (simp_all add: absorb_byte_running)

lemma chain_value_absorb_bytes:
  "blake2s_running S \<Longrightarrow> chain_value (foldl absorb_byte S bs) [] = chain_value S bs"
  by (induction bs arbitrary: S) (simp_all add: chain_value_absorb absorb_byte_running)

section \<open>Finalisation against the reference\<close>

definition output_words :: "u32 list \<Rightarrow> u8 list" where
  "output_words h = concat (map (le_bytes 4) h)"

lemma length_output_words: "length (output_words h) = 4 * length h"
  by (induction h) (simp_all add: output_words_def)

lemma stored_words:
  assumes "length h = 8"
  shows "concat (map (\<lambda>i. store32 (h ! i)) [0..<8]) = output_words h"
proof -
  have "map (\<lambda>i. store32 (h ! i)) [0..<8] = map (le_bytes 4) (map ((!) h) [0..<length h])"
    using assms by (simp add: store32_le_bytes)
  then show ?thesis by (simp only: map_nth output_words_def)
qed

lemma length_rfc_F [simp]: "length (rfc_F h b n f) = 8"
  by (simp add: rfc_F_def Let_def)

lemma ucast_of_nat_small:
  assumes "n < 2 ^ 32"
  shows "(ucast (of_nat n :: u32) :: u64) = of_nat n"
proof -
  have "(ucast w :: u64) = of_nat (unat w)" for w :: u32 by transfer simp
  moreover have "unat (of_nat n :: u32) = n" using assms by (simp add: unat_of_nat)
  ultimately show ?thesis by metis
qed

lemma last_block_compressed:
  assumes "blake2s_running S" and "bs_buflen S \<le> 64" and "64 \<le> length b"
    and "take 64 b = pad_to 64 (take (bs_buflen S) (bs_buf S))"
  shows "bs_h (blake2s_compress ((blake2s_set_lastblock
           (blake2s_increment_counter S (of_nat (bs_buflen S))))\<lparr>bs_buf := b\<rparr>) b) = chain_value S []"
proof -
  let ?T = "(blake2s_set_lastblock (blake2s_increment_counter S (of_nat (bs_buflen S))))\<lparr>bs_buf := b\<rparr>"
  have ok: "length (bs_h S) = 8" "length (bs_t S) = 2" "length (bs_buf S) = 128"
      "bs_f S = [0, 0]" "bs_last_node S = 0"
    using assms(1) by (simp_all add: blake2s_running_def blake2s_ok_def)
  have short: "bs_h (blake2s_compress ?T b) = bs_h (blake2s_compress (?T\<lparr>bs_buf := bs_buf S\<rparr>) b)"
    by (simp add: blake2s_compress_def Let_def)
  have F': "bs_h (blake2s_compress (?T\<lparr>bs_buf := bs_buf S\<rparr>) b)
      = rfc_F (bs_h S) (take 64 b) (counter (?T\<lparr>bs_buf := bs_buf S\<rparr>)) True"
    using ok assms(2, 3) blake2s_compress_F [of "?T\<lparr>bs_buf := bs_buf S\<rparr>" True b]
    by (simp add: blake2s_ok_def blake2s_set_lastblock_def)
  have "counter (?T\<lparr>bs_buf := bs_buf S\<rparr>) = counter (blake2s_increment_counter S (of_nat (bs_buflen S)))"
    using ok by (intro counter_cong) (simp add: blake2s_set_lastblock_def)
  also have "\<dots> = counter S + of_nat (bs_buflen S)"
    using ok assms(2) by (simp add: counter_increment ucast_of_nat_small)
  finally have n: "counter (?T\<lparr>bs_buf := bs_buf S\<rparr>) = counter S + of_nat (bs_buflen S)" .
  show ?thesis
    unfolding short F' n assms(4) chain_value_def
    using ok assms(2) by (subst rfc_chain.simps) (simp add: min_def)
qed

lemma blake2s_final_short:
  assumes "blake2s_running S" and "bs_buflen S \<le> 64" and "unat outlen \<le> 32" and "unat outlen \<le> length out"
  obtains S' where "blake2s_final S out outlen
      = Inr (S', take (unat outlen) (output_words (chain_value S [])) @ drop (unat outlen) out)"
    and "blake2s_ok S'"
proof -
  let ?n = "bs_buflen S"
  let ?b = "take ?n (bs_buf S) @ replicate (128 - ?n) 0"
  let ?T = "blake2s_set_lastblock (blake2s_increment_counter S (of_nat ?n))"
  have ok: "length (bs_h S) = 8" "length (bs_t S) = 2" "length (bs_buf S) = 128"
      "bs_f S = [0, 0]" "bs_last_node S = 0"
    using assms(1) by (simp_all add: blake2s_running_def blake2s_ok_def)
  have T: "bs_buf ?T = bs_buf S" "bs_buflen ?T = ?n"
    using ok by (simp_all add: blake2s_set_lastblock_def)
  have w: "write_at (bs_buf S) ?n (replicate (128 - ?n) 0) = Inr ?b"
    using ok assms(2) by (simp add: write_at_def)
  have pad: "take 64 ?b = pad_to 64 (take ?n (bs_buf S))"
    using ok assms(2) by (simp add: pad_to_def min_def)
  have h: "bs_h (blake2s_compress (?T\<lparr>bs_buf := ?b\<rparr>) ?b) = chain_value S []"
    using ok assms(2) by (intro last_block_compressed assms(1, 2) pad) simp
  then have len: "length (chain_value S []) = 8"
    by (metis blake2s_compress_fields(5))
  have stored: "concat (map (\<lambda>i. store32 (chain_value S [] ! i)) [0..<8]) = output_words (chain_value S [])"
    by (rule stored_words [OF len])
  have r: "read_at (output_words (chain_value S [])) 0 (unat outlen)
      = Inr (take (unat outlen) (output_words (chain_value S [])))"
    using len assms(3) by (simp add: read_at_def length_output_words)
  have w2: "write_at out 0 (take (unat outlen) (output_words (chain_value S [])))
      = Inr (take (unat outlen) (output_words (chain_value S [])) @ drop (unat outlen) out)"
    using len assms(3, 4) by (simp add: write_at_def length_output_words min_def)
  have "blake2s_final S out outlen = Inr (blake2s_compress (?T\<lparr>bs_buf := ?b\<rparr>) ?b,
      take (unat outlen) (output_words (chain_value S [])) @ drop (unat outlen) out)"
    using assms(2) unfolding blake2s_final_def BLAKE2S_BLOCKBYTES_def
    by (simp add: Let_def T w h stored r w2)
  moreover have "blake2s_ok (blake2s_compress (?T\<lparr>bs_buf := ?b\<rparr>) ?b)"
    using ok assms(2) by (simp add: blake2s_ok_def blake2s_set_lastblock_def)
  ultimately show thesis by (rule that)
qed

lemma blake2s_final_ok:
  assumes "blake2s_running S" and "unat outlen \<le> 32" and "unat outlen \<le> length out"
  obtains S' where "blake2s_final S out outlen
      = Inr (S', take (unat outlen) (output_words (chain_value S [])) @ drop (unat outlen) out)"
    and "blake2s_ok S'"
proof (cases "64 < bs_buflen S")
  case False
  then show thesis using blake2s_final_short [OF assms(1) _ assms(2, 3)] that by auto
next
  case True
  let ?n = "bs_buflen S - 64"
  let ?U = "blake2s_compress (blake2s_increment_counter S 64) (bs_buf S)"
  define b where "b = take ?n (drop 64 (bs_buf S)) @ drop ?n (bs_buf S)"
  define T where "T = ?U\<lparr>bs_buf := b, bs_buflen := ?n\<rparr>"
  have ok: "length (bs_buf S) = 128" "bs_buflen S \<le> 128"
    using assms(1) by (simp_all add: blake2s_running_def blake2s_ok_def)
  have len: "length b = 128" using ok by (auto simp: b_def min_def)
  have r: "read_at (bs_buf S) 64 ?n = Inr (take ?n (drop 64 (bs_buf S)))"
    using ok True by (simp add: read_at_def)
  have half: "drop ?n (bs_buf S) = drop 64 (bs_buf S)" if "64 \<le> ?n"
    using that ok by (intro arg_cong [where f = "\<lambda>n. drop n (bs_buf S)"]) simp
  have w: "write_at (bs_buf S) 0 (take ?n (drop 64 (bs_buf S))) = Inr b"
    using ok True half by (auto simp: write_at_def b_def min_def)
  have running: "blake2s_running T"
    using assms(1) len ok by (simp add: T_def blake2s_running_def blake2s_ok_def)
  have small: "bs_buflen T \<le> 64" using ok by (simp add: T_def)
  have "take ?n b = drop 64 (take (bs_buflen S) (bs_buf S))"
    using ok True half by (simp add: b_def drop_take min_def)
  then have chain: "chain_value T [] = chain_value S []"
    using True assms(1) by (intro chain_value_flush) (simp_all add: T_def)
  have "blake2s_final S out outlen = blake2s_final T out outlen"
    using True small unfolding blake2s_final_def BLAKE2S_BLOCKBYTES_def
    by (simp add: Let_def r w T_def)
  then show thesis
    using blake2s_final_short [OF running small assms(2, 3)] that chain by metis
qed

section \<open>The whole function against the reference\<close>

lemma blake2s_IV_nth: "length blake2s_IV = 8"
  by (simp add: blake2s_IV_def)

lemma init_param_h:
  "bs_h (blake2s_init_param (sequential_param nn kk)) = rfc_h0 (unat kk) (unat nn)"
proof -
  have word0: "load32 [nn, kk, 1, 1] = 0x01010000 XOR push_bit 8 (of_nat (unat kk)) XOR of_nat (unat nn)"
  proof (rule bit_word_eqI)
    fix i assume "i < LENGTH(32)"
    have "\<not> bit kk n" "\<not> bit nn n" if "8 \<le> n" for n
      using that by (auto dest: bit_imp_le_length)
    moreover have "bit (0x01010000 :: u32) i \<longleftrightarrow> i = 16 \<or> i = 24"
      using \<open>i < LENGTH(32)\<close> by (simp add: less_Suc_eq numeral_eq_Suc) auto
    ultimately show "bit (load32 [nn, kk, 1, 1]) i
        = bit (0x01010000 XOR push_bit 8 (of_nat (unat kk)) XOR of_nat (unat nn) :: u32) i"
      using \<open>i < LENGTH(32)\<close> by (auto simp: load32_def bit_simps)
  qed
  have rest: "load32 (a # b # c # d # r) = load32 [a, b, c, d]" and zero: "load32 [0, 0, 0, 0] = 0"
    for a b c d r by (simp_all add: load32_def)
  have p: "param_bytes (sequential_param nn kk) = [nn, kk, 1, 1, 0, 0, 0, 0, 0, 0, 0, 0, 0, 0, 0, 0,
      0, 0, 0, 0, 0, 0, 0, 0, 0, 0, 0, 0, 0, 0, 0, 0]"
    by (simp add: param_bytes_def sequential_param_def store32_def store48_def blake2s_constants
        numeral_eq_Suc)
  have drops: "[load32 (drop (i * 4) (param_bytes (sequential_param nn kk))). i \<leftarrow> [0, 1, 2, 3, 4, 5, 6, 7]]
      = [load32 [nn, kk, 1, 1], 0, 0, 0, 0, 0, 0, 0]"
    unfolding p by (simp add: load32_def)
  have idx: "[0..<8] = [0, 1, 2, 3, 4, 5, 6, 7::nat]" by (simp add: upt_rec)
  have "bs_h (blake2s_init_param (sequential_param nn kk))
      = map (\<lambda>i. blake2s_IV ! i XOR load32 (drop (i * 4) (param_bytes (sequential_param nn kk)))) [0..<8]"
    by (simp add: blake2s_init_param_def blake2s_init0_def Let_def)
  also have "\<dots> = map (\<lambda>i. blake2s_IV ! i XOR
      [load32 [nn, kk, 1, 1], 0, 0, 0, 0, 0, 0, 0] ! i) [0..<8]"
    using drops by (simp only: idx) simp
  also have "\<dots> = rfc_h0 (unat kk) (unat nn)"
    unfolding idx word0 by (simp add: rfc_h0_def blake2s_IV_def xor.assoc)
  finally show ?thesis .
qed

lemma blake2s_init_running:
  "blake2s_running (blake2s_init_param (sequential_param nn kk))"
  "bs_t (blake2s_init_param (sequential_param nn kk)) = [0, 0]"
  "bs_buflen (blake2s_init_param (sequential_param nn kk)) = 0"
  by (simp_all add: blake2s_running_def blake2s_ok_def blake2s_init_param_def blake2s_init0_def Let_def
      blake2s_constants)

definition blake2s_args_ok :: "u8 list \<Rightarrow> u8 list \<Rightarrow> u8 list option \<Rightarrow> u8 \<Rightarrow> u64 \<Rightarrow> u8 \<Rightarrow> bool" where
  "blake2s_args_ok out inp key outlen inlen keylen \<longleftrightarrow>
     0 < unat outlen \<and> unat outlen \<le> BLAKE2S_OUTBYTES \<and> unat outlen \<le> length out
     \<and> length inp = unat inlen
     \<and> (case key of None \<Rightarrow> True | Some k \<Rightarrow> length k = unat keylen \<and> unat keylen \<le> BLAKE2S_KEYBYTES)"

lemma chain_value_init:
  "chain_value (blake2s_init_param (sequential_param nn kk)) bs = rfc_chain (rfc_h0 (unat kk) (unat nn)) 0 bs"
  by (simp add: chain_value_def init_param_h blake2s_init_running counter_def)

lemma running_hash:
  assumes "blake2s_running S" and "unat outlen \<le> 32" and "unat outlen \<le> length out" and "length inp = unat inlen"
  shows "bind_run (read_at inp 0 (unat inlen)) (\<lambda>input.
         bind_run (blake2s_update S input) (\<lambda>S.
         bind_run (blake2s_final S out outlen) (\<lambda>(S, out'). Inr (Some out', 0 :: int))))
       = Inr (Some (take (unat outlen) (output_words (chain_value S inp)) @ drop (unat outlen) out), 0)"
proof -
  have ok: "blake2s_ok S" using assms(1) by (simp add: blake2s_running_def)
  obtain S' where "blake2s_final (foldl absorb_byte S inp) out outlen
      = Inr (S', take (unat outlen) (output_words (chain_value (foldl absorb_byte S inp) [])) @ drop (unat outlen) out)"
    using blake2s_final_ok [OF absorb_bytes_running [OF assms(1)] assms(2, 3)] by metis
  then show ?thesis
    using assms(4) by (simp add: read_at_def blake2s_update_absorb [OF ok] chain_value_absorb_bytes [OF assms(1)])
qed

lemma blake2s_init_key_running:
  assumes "0 < unat outlen" and "unat outlen \<le> 32" and "0 < unat keylen" and "unat keylen \<le> 32"
    and "length key = unat keylen"
  defines "S \<equiv> foldl absorb_byte (blake2s_init_param (sequential_param outlen keylen)) (pad_to 64 key)"
  shows "blake2s_init_key outlen (Some key) keylen = Inr (Some S)" and "blake2s_running S"
    and "chain_value S bs = rfc_chain (rfc_h0 (unat keylen) (unat outlen)) 0 (pad_to 64 key @ bs)"
proof -
  let ?I = "blake2s_init_param (sequential_param outlen keylen)"
  have "copy_to (replicate 64 0) 0 (Some key) (unat keylen) = Inr (pad_to 64 key)"
    using copy_to_next [of key "unat keylen" 64 "[]" 0] assms(4, 5) by (simp add: pad_to_def)
  moreover have "blake2s_update ?I (pad_to 64 key) = Inr S"
    unfolding S_def using blake2s_init_running(1) [of outlen keylen]
    by (intro blake2s_update_absorb) (simp add: blake2s_running_def)
  moreover have "outlen \<noteq> 0" "keylen \<noteq> 0" using assms(1, 3) by auto
  ultimately show "blake2s_init_key outlen (Some key) keylen = Inr (Some S)"
    using assms(2, 4) by (simp add: blake2s_init_key_def blake2s_constants)
  show "blake2s_running S"
    unfolding S_def by (intro absorb_bytes_running blake2s_init_running)
  have "chain_value S bs = chain_value (foldl absorb_byte S bs) []"
    using \<open>blake2s_running S\<close> by (simp add: chain_value_absorb_bytes)
  also have "\<dots> = chain_value ?I (pad_to 64 key @ bs)"
    using chain_value_absorb_bytes [OF blake2s_init_running(1), of outlen keylen "pad_to 64 key @ bs"]
    by (simp add: S_def)
  finally show "chain_value S bs = rfc_chain (rfc_h0 (unat keylen) (unat outlen)) 0 (pad_to 64 key @ bs)"
    by (simp add: chain_value_init)
qed

definition key_bytes :: "u8 list option \<Rightarrow> u8 list" where
  "key_bytes key = (case key of None \<Rightarrow> [] | Some k \<Rightarrow> k)"

lemma blake2s_rfc:
  assumes "blake2s_args_ok out inp key outlen inlen keylen"
  shows "blake2s (Some out) (Some inp) key outlen inlen keylen
    = Inr (Some (rfc_blake2s (unat outlen) (key_bytes key) inp @ drop (unat outlen) out), 0)"
proof (cases "key_bytes key = []")
  case True
  then have "\<not> 0 < (if key = None then 0 else keylen)"
    using assms by (auto simp: blake2s_args_ok_def key_bytes_def unat_eq_0 split: option.splits)
  moreover have "blake2s_init outlen = Some (blake2s_init_param (sequential_param outlen 0))"
    using assms by (auto simp: blake2s_args_ok_def blake2s_init_def)
  ultimately show ?thesis
    using assms True running_hash [OF blake2s_init_running(1) [of outlen 0], of outlen out inp inlen]
    by (simp add: blake2s_def Let_def blake2s_args_ok_def BLAKE2S_OUTBYTES_def chain_value_init
        rfc_blake2s_def output_words_def)
next
  case False
  then obtain k where k: "key = Some k" "k \<noteq> []" "key_bytes key = k"
    by (auto simp: key_bytes_def split: option.splits)
  have l: "length k = unat keylen" "unat keylen \<le> 32"
    using assms k by (auto simp: blake2s_args_ok_def BLAKE2S_KEYBYTES_def)
  moreover have "0 < length k" using k by simp
  ultimately have pos: "0 < unat keylen" "0 < keylen" by (auto simp: word_less_nat_alt)
  show ?thesis
    using assms k l pos blake2s_init_key_running [of outlen keylen k]
      running_hash [OF blake2s_init_key_running(2), of outlen keylen k outlen out inp inlen]
    by (simp add: blake2s_def Let_def blake2s_args_ok_def BLAKE2S_OUTBYTES_def
        rfc_blake2s_def output_words_def)
qed

section \<open>The hash block that uses it\<close>

definition BLAKE_HASH_SIZE :: nat where "BLAKE_HASH_SIZE = 32"

text \<open>When \<^verbatim>\<open>blake2s\<close> fails the digest buffer is handed out with its size left as it was
  (and the buffer that was hashed is not freed).\<close>

definition ra_do_hash_blake2 :: "bool \<Rightarrow> bool \<Rightarrow> u8 list option \<Rightarrow> u32 \<Rightarrow> u8 list option \<Rightarrow> u32
  \<Rightarrow> u8 list option \<Rightarrow> u64 \<Rightarrow> u8 list option \<Rightarrow> u8 \<Rightarrow> packed \<Rightarrow> (packed \<times> ra_result) run" where
  "ra_do_hash_blake2 buf_ok out_ok nonce nonce_size data data_size AID number key key_size p =
     (if \<not> buf_ok then Inr (p, RA_ERROR_MEMORY)
      else bind_run (buffer_to_hash nonce nonce_size data data_size AID number) (\<lambda>buf.
        if \<not> out_ok then Inr ((None, 0), RA_ERROR_MEMORY)
        else bind_run (blake2s (Some (replicate BLAKE_HASH_SIZE 0)) (Some buf) key (of_nat BLAKE_HASH_SIZE)
                 (of_nat (buffer_to_hash_size nonce_size data_size)) key_size) (\<lambda>(out, code).
          if code \<noteq> 0 then Inr ((out, snd p), RA_ERROR_GENERIC)
          else Inr ((out, of_nat BLAKE_HASH_SIZE), RA_SUCCESS))))"

lemma length_write_at: "write_at buf pos bs = Inr buf' \<Longrightarrow> length buf' = length buf"
  by (auto simp: write_at_def split: if_splits)

lemma length_copy_to: "copy_to buf pos src n = Inr buf' \<Longrightarrow> length buf' = length buf"
  by (auto simp: copy_to_def run_simps length_write_at split: if_splits)

lemma length_buffer_to_hash:
  "buffer_to_hash nonce ns data ds AID number = Inr buf \<Longrightarrow> length buf = buffer_to_hash_size ns ds"
  by (auto simp: buffer_to_hash_def run_simps dest!: length_copy_to length_write_at)

lemma length_rfc_chain: "length (rfc_chain h n msg) = 8"
  by (induction h n msg rule: rfc_chain.induct) (subst rfc_chain.simps, simp)

lemma length_rfc_blake2s [simp]: "nn \<le> 32 \<Longrightarrow> length (rfc_blake2s nn key msg) = nn"
  using length_output_words [of "rfc_chain h n m" for h n m]
  by (simp add: rfc_blake2s_def Let_def length_rfc_chain output_words_def)

lemma buffer_to_hash_size_u64:
  "unat (of_nat (buffer_to_hash_size ns ds) :: u64) = buffer_to_hash_size ns ds"
proof -
  have "buffer_to_hash_size ns ds < 2 ^ LENGTH(64)"
    using unat_u32_bound [of "ns + ds + of_nat AID_SIZE"] by (simp add: buffer_to_hash_size_def)
  then show ?thesis by (simp only: unat_of_nat take_bit_nat_eq_self mod_less)
qed

lemma ra_do_hash_blake2_with:
  "ra_do_hash_blake2 buf_ok out_ok nonce ns data ds AID number None key_size p
     = do_hash_with 32 (rfc_blake2s 32 []) buf_ok out_ok nonce ns data ds AID number p"
proof -
  have "bind_run (blake2s (Some (replicate 32 0)) (Some buf) None 32 (of_nat (buffer_to_hash_size ns ds)) key_size)
        (\<lambda>(out, code). if code \<noteq> 0 then Inr ((out, snd p), RA_ERROR_GENERIC)
          else Inr ((out, of_nat 32), RA_SUCCESS))
      = bind_run (write_at (replicate 32 0) 0 (rfc_blake2s 32 [] buf)) (\<lambda>out. Inr ((Some out, of_nat 32), RA_SUCCESS))"
    if "buffer_to_hash nonce ns data ds AID number = Inr buf" for buf
  proof -
    have "blake2s_args_ok (replicate 32 0) buf None 32 (of_nat (buffer_to_hash_size ns ds)) key_size"
      using length_buffer_to_hash [OF that]
      by (simp add: blake2s_args_ok_def BLAKE2S_OUTBYTES_def buffer_to_hash_size_u64 del: of_nat_add)
    from blake2s_rfc [OF this] show ?thesis
      by (simp add: key_bytes_def write_at_def)
  qed
  then show ?thesis
    unfolding ra_do_hash_blake2_def do_hash_with_def BLAKE_HASH_SIZE_def
    by (cases "buffer_to_hash nonce ns data ds AID number") simp_all
qed

section \<open>Properties\<close>

text \<open>C18: BLAKE2s as the incremental code computes it (with the lazy double buffer, the counter in
  two 32-bit halves and the unrolled rounds) writes the digest that RFC 7693 defines on the whole
  message, for every digest length from 1 to 32 and every key of at most 32 bytes, and changes
  nothing behind the digest.\<close>

theorem blake2s_matches_rfc7693:
  assumes "blake2s_args_ok out inp key outlen inlen keylen"
  shows "blake2s (Some out) (Some inp) key outlen inlen keylen
    = Inr (Some (rfc_blake2s (unat outlen) (key_bytes key) inp @ drop (unat outlen) out), 0)"
  by (rule blake2s_rfc [OF assms])

theorem blake2s_matches_rfc7693_witness:
  "blake2s (Some [9, 9, 9]) (Some [1, 2]) (Some [7]) 2 2 1 = Inr (Some (rfc_blake2s 2 [7] [1, 2] @ [9]), 0)"
  using blake2s_matches_rfc7693 [of "[9, 9, 9]" "[1, 2]" "Some [7]" 2 2 1]
  by (simp add: blake2s_args_ok_def blake2s_constants key_bytes_def)

text \<open>C20: Updates can be split anywhere: on a well-formed state no update runs out of the buffer,
  the state it leaves is well formed, and hashing two pieces one after the other leaves exactly
  the state of hashing them at once.\<close>

theorem blake2s_update_streaming:
  assumes "blake2s_ok S"
  shows "\<exists>T. blake2s_update S xs = Inr T \<and> blake2s_ok T \<and> blake2s_update S (xs @ ys) = blake2s_update T ys"
  using absorb_bytes_ok [OF assms, of xs]
  by (simp add: blake2s_update_absorb assms)

theorem blake2s_update_streaming_witness:
  "\<exists>T. blake2s_update blake2s_init0 [1, 2] = Inr T \<and> blake2s_ok T
     \<and> blake2s_update blake2s_init0 ([1, 2] @ [3]) = blake2s_update T [3]"
  by (rule blake2s_update_streaming)
    (simp add: blake2s_ok_def blake2s_init0_def blake2s_constants)

text \<open>C19: The BLAKE2 version of the hash block without a key, as attestator and verifier call it, is
  the common hash block on the digest of RFC 7693, on every branch and for all sizes.\<close>

theorem ra_do_hash_blake2_is_digest:
  "ra_do_hash_blake2 buf_ok out_ok nonce ns data ds AID number None key_size p
     = do_hash_with 32 (rfc_blake2s 32 []) buf_ok out_ok nonce ns data ds AID number p"
  by (rule ra_do_hash_blake2_with)

text \<open>A key longer than 32 bytes makes the BLAKE2 hash block fail, with a digest buffer handed
  out but its size not set.\<close>

theorem ra_do_hash_blake2_long_key:
  assumes "hash_inputs_ok nonce ns data ds AID" and "32 < unat key_size"
  shows "ra_do_hash_blake2 True True (Some nonce) ns (Some data) ds (Some AID) number (Some key) key_size p
     = Inr ((Some (replicate 32 0), snd p), RA_ERROR_GENERIC)"
proof -
  have "0 < key_size" using assms(2) by (auto simp: word_less_nat_alt)
  then show ?thesis
    using assms(2) by (simp add: ra_do_hash_blake2_def buffer_to_hash_message [OF assms(1)] blake2s_def Let_def
        blake2s_init_key_def blake2s_constants BLAKE_HASH_SIZE_def)
qed

theorem ra_do_hash_blake2_long_key_witness:
  "ra_do_hash_blake2 True True (Some [1]) 1 (Some [2]) 1 (Some (replicate 16 0)) 5 (Some []) 33 (None, 7)
     = Inr ((Some (replicate 32 0), 7), RA_ERROR_GENERIC)"
  using ra_do_hash_blake2_long_key [of "[1]" 1 "[2]" 1 "replicate 16 0" 33 5 "[]" "(None, 7)"]
  by (simp add: hash_inputs_ok_def AID_SIZE_def)

end
