(* ===== verification/RA_Defines.thy ===== *)
theory RA_Defines
  imports C_Stdio RA_Client
begin

text \<open>
  \<^verbatim>\<open>headers/ra_defines.h\<close>: the paths and commands under which the server's processes find each other,
  the defaults the manager passes on, and the sizes of the fields of the protocol's messages. Limits
  that one component alone uses stand with it.
\<close>

section \<open>Paths and commands\<close>

text \<open>\<^verbatim>\<open>%020PRIu64\<close>: decimal, padded with zeros to twenty places.\<close>

definition pad_zeros :: "nat \<Rightarrow> string \<Rightarrow> string" where
  "pad_zeros n s = replicate (n - length s) CHR ''0'' @ s"

definition ASPIRE_STD_RA_BASE_PATH :: string where
  "ASPIRE_STD_RA_BASE_PATH = ''/opt/online_backends''"

text \<open>The directory of an attestator, which all the path formats begin with.\<close>

definition attestator_path :: "string \<Rightarrow> u64 \<Rightarrow> string" where
  "attestator_path aid number =
     ASPIRE_STD_RA_BASE_PATH @ ''/'' @ aid @ ''/remote_attestation/'' @ pad_zeros 20 (show_nat (unat number))"

definition EXTRACTOR_COMMAND :: string where "EXTRACTOR_COMMAND = ''extractor''"

definition extractor_path :: "string \<Rightarrow> u64 \<Rightarrow> string" where
  "extractor_path aid number = attestator_path aid number @ ''/extractor''"

definition VERIFIER_COMMAND :: string where "VERIFIER_COMMAND = ''verifier''"

definition verifier_path :: "string \<Rightarrow> u64 \<Rightarrow> string" where
  "verifier_path aid number = attestator_path aid number @ ''/verifier''"

definition ads_path :: "string \<Rightarrow> u64 \<Rightarrow> string" where
  "ads_path aid number = attestator_path aid number @ ''/binaries/ads''"

definition exe_path :: "string \<Rightarrow> u64 \<Rightarrow> string" where
  "exe_path aid number = attestator_path aid number @ ''/binaries/exe''"

definition DEFAULT_NONCE_LENGTH :: string where "DEFAULT_NONCE_LENGTH = ''32''"

definition DEFAULT_NONCE_TOTAL :: string where "DEFAULT_NONCE_TOTAL = ''100''"

section \<open>Sizes of the message fields\<close>

definition RESP_TIME_SIZE :: nat where "RESP_TIME_SIZE = 8"

definition RESP_REQUEST_ID_SIZE :: nat where "RESP_REQUEST_ID_SIZE = 8"

definition RESP_ATTESTATOR_NO_SIZE :: nat where "RESP_ATTESTATOR_NO_SIZE = 8"

definition RESP_HASH_LENGTH_SIZE :: nat where "RESP_HASH_LENGTH_SIZE = 4"

definition VERIFIER_RESP_HEADER_SIZE :: nat where
  "VERIFIER_RESP_HEADER_SIZE =
     RESP_TIME_SIZE + AID_SIZE + RESP_ATTESTATOR_NO_SIZE + RESP_REQUEST_ID_SIZE + RESP_HASH_LENGTH_SIZE"

definition ATTESTATOR_RESP_HEADER_SIZE :: nat where
  "ATTESTATOR_RESP_HEADER_SIZE = AID_SIZE + RESP_ATTESTATOR_NO_SIZE + RESP_REQUEST_ID_SIZE + RESP_HASH_LENGTH_SIZE"

definition REQUEST_ID_SIZE :: nat where "REQUEST_ID_SIZE = 8"

definition REQUEST_NONCE_LENGTH_SIZE :: nat where "REQUEST_NONCE_LENGTH_SIZE = 4"

definition REQUEST_HEADER_SIZE :: nat where
  "REQUEST_HEADER_SIZE = REQUEST_ID_SIZE + REQUEST_NONCE_LENGTH_SIZE"

lemmas field_sizes = RESP_TIME_SIZE_def RESP_REQUEST_ID_SIZE_def RESP_ATTESTATOR_NO_SIZE_def
  RESP_HASH_LENGTH_SIZE_def REQUEST_ID_SIZE_def REQUEST_NONCE_LENGTH_SIZE_def

end
