(* ===== verification/Attestator.thy ===== *)
theory Attestator
  imports Data_Preparation Do_Hash RA_Defines
begin

text \<open>
  \<^verbatim>\<open>client-parametric-files/uncond/attestator.c\<close>: the callback that answers an attestation request.
  It runs under the deinit mutex from its first to its last statement, so it is one atomic step
  on the table. The result is the table and the message handed to \<^verbatim>\<open>acclSend\<close>, or \<open>None\<close>
  when nothing is sent; whether the sending succeeds is only logged.
\<close>

text \<open>
  What the routine works with: the versions of nonce interpretation and hash it is built with, the
  running code, the outcomes of its allocations, and the uninitialised variables it passes on.
\<close>

record attest_env =
  env_decode :: decoder
  env_mod_mul :: mod_mul
  env_hash :: hasher
  env_memory :: memory
  env_base :: u64
  env_nonce_ok :: bool
  env_walk_ok :: bool
  env_data_ok :: bool
  env_response_ok :: bool
  env_print_info :: decoded_info
  env_info :: decoded_info
  env_tmp :: "nat \<Rightarrow> u8"
  env_AID :: "u8 list option"
  env_number :: u64
  env_packed :: packed

definition attestator_response ::
  "u8 list option \<Rightarrow> u64 \<Rightarrow> u64 \<Rightarrow> packed \<Rightarrow> u8 list run" where
  "attestator_response AID number req_id p =
     bind_run (deref AID) (\<lambda>aid.
     bind_run (read_at aid 0 AID_SIZE) (\<lambda>a.
     bind_run (copy_to (replicate (unat (snd p)) 0) 0 (fst p) (unat (snd p))) (\<lambda>h.
       Inr (a @ le_bytes 8 number @ le_bytes 8 req_id @ le_bytes 4 (snd p) @ h))))"

text \<open>The routine, with the version of \<^verbatim>\<open>ra_prepare_data\<close> that is linked in.\<close>

definition attestator_with ::
  "(ra_table \<Rightarrow> (ra_table \<times> ra_result) run) \<Rightarrow> attest_env \<Rightarrow> bool \<Rightarrow> u8 list option \<Rightarrow> ra_table
     \<Rightarrow> (ra_table \<times> u8 list option) run" where
  "attestator_with prepare env force_exit in_buffer t =
     (case in_buffer of
        None \<Rightarrow> Inr (t, None)
      | Some buf \<Rightarrow>
          if force_exit then Inr (t, None)
          else
            let AID = fst (ra_get_AID_reference t (env_AID env));
                number = fst (ra_get_attestator_number t (env_number env)) in
            bind_run (read_word buf 0 8) (\<lambda>req_id.
            bind_run (read_word buf REQUEST_ID_SIZE 4) (\<lambda>nonce_size.
            bind_run (ra_set_current_nonce (env_nonce_ok env) t (drop REQUEST_HEADER_SIZE buf) nonce_size) (\<lambda>(t1, _).
            bind_run (print_encoded_info (env_decode env) (env_print_info env) t1) (\<lambda>_.
            bind_run (prepare t1) (\<lambda>(t2, r).
            if r \<noteq> RA_SUCCESS then Inr (t2, None)
            else bind_run (env_hash env (ra_get_current_nonce_reference t2) (ra_get_current_nonce_size t2)
                            (ra_get_prepared_data_reference t2) (ra_get_prepared_data_size t2)
                            AID number (env_packed env)) (\<lambda>(p, r2).
              if r2 \<noteq> RA_SUCCESS then Inr (t2, None)
              else let t3 = ra_reset_prepared_data t2 in
                if \<not> env_response_ok env then Inr (t3, None)
                else bind_run (attestator_response AID number req_id p) (\<lambda>response.
                  Inr (t3, Some response)))))))))"

text \<open>Built with \<^verbatim>\<open>ra_data_preparation.c\<close>.\<close>

definition attestator_routine ::
  "attest_env \<Rightarrow> bool \<Rightarrow> u8 list option \<Rightarrow> ra_table \<Rightarrow> (ra_table \<times> u8 list option) run" where
  "attestator_routine env =
     attestator_with (ra_prepare_data (env_decode env) (env_mod_mul env) (env_memory env) (env_base env)
       (env_info env) (env_tmp env) (env_walk_ok env) (env_data_ok env)) env"

text \<open>The request message the manager sends: id, nonce length, nonce.\<close>

definition request_message :: "u64 \<Rightarrow> u8 list \<Rightarrow> u8 list" where
  "request_message req_id nonce = le_bytes 8 req_id @ le_bytes 4 (of_nat (length nonce) :: u32) @ nonce"

text \<open>The table once the nonce of the request is set.\<close>

definition with_nonce :: "ra_table \<Rightarrow> u8 list \<Rightarrow> ra_table" where
  "with_nonce t nonce = t\<lparr>current_nonce := Some nonce, current_nonce_size := of_nat (length nonce)\<rparr>"

lemma set_nonce_of_request:
  assumes "length nonce < 2 ^ 32"
  shows "ra_set_current_nonce True t (nonce @ rest) (of_nat (length nonce)) = Inr (with_nonce t nonce, RA_SUCCESS)"
  using assms by (simp add: ra_set_current_nonce_def with_nonce_def Let_def read_at_def unat_of_nat_u32)

lemma request_fields:
  "read_word (request_message r nonce) 0 8 = Inr r"
  "read_word (request_message r nonce) REQUEST_ID_SIZE 4 = Inr (of_nat (length nonce) :: u32)"
  "drop REQUEST_HEADER_SIZE (request_message r nonce) = nonce"
  by (simp_all add: request_message_def field_sizes REQUEST_HEADER_SIZE_def)

lemma attestator_response_ok:
  assumes "length aid = AID_SIZE" and "length h = unat n"
  shows "attestator_response (Some aid) number req_id (Some h, n) =
     Inr (aid @ le_bytes 8 number @ le_bytes 8 req_id @ le_bytes 4 n @ h)"
proof -
  have "copy_to (replicate (unat n) 0) 0 (Some h) (unat n) = Inr h"
    using copy_to_next [of h "unat n" "unat n" "[]" 0] assms(2) by simp
  then show ?thesis using assms by (simp add: attestator_response_def read_at_def)
qed

text \<open>
  The routine on a well-formed request, for a decoder and a preparation that deliver (as the
  contracts of the blocks guarantee): the response carries the identity of the table, the request id
  and the digest of nonce and prepared bytes.
\<close>

lemma attestator_with_responds:
  assumes "env_nonce_ok env" and "env_response_ok env"
    and id: "is_AID_set t" "is_attestator_number_set t" "length (app_AID t) = AID_SIZE"
    and nonce: "length nonce < 2 ^ 32"
    and info: "\<forall>ret. env_decode env (with_nonce t nonce) ret = Inr (info, RA_SUCCESS)"
    and data: "prepare (with_nonce t nonce)
               = Inr ((with_nonce t nonce)\<lparr>prepared_data := Some d, prepared_data_size := dn\<rparr>, RA_SUCCESS)"
    and hash: "env_hash env (Some nonce) (of_nat (length nonce)) (Some d) dn (Some (app_AID t))
                 (app_attestator_number t) (env_packed env) = Inr ((Some h, n), RA_SUCCESS)"
    and h: "length h = unat n"
  shows "attestator_with prepare env False (Some (request_message req_id nonce)) t =
     Inr ((with_nonce t nonce)\<lparr>prepared_data := None, prepared_data_size := 0\<rparr>,
          Some (app_AID t @ le_bytes 8 (app_attestator_number t) @ le_bytes 8 req_id @ le_bytes 4 n @ h))"
proof -
  have "ra_set_current_nonce True t nonce (of_nat (length nonce)) = Inr (with_nonce t nonce, RA_SUCCESS)"
    using set_nonce_of_request [OF nonce, of t "[]"] by simp
  moreover have "print_encoded_info (env_decode env) (env_print_info env) (with_nonce t nonce) = Inr ()"
    using info by (simp add: print_encoded_info_def)
  ultimately show ?thesis
    using assms(1,2) id data hash
    by (simp add: attestator_with_def request_fields ra_get_AID_reference_def
        ra_get_attestator_number_def ra_get_current_nonce_reference_def ra_get_current_nonce_size_def
        ra_get_prepared_data_reference_def ra_get_prepared_data_size_def ra_reset_prepared_data_def
        attestator_response_ok [OF id(3) h] with_nonce_def Let_def)
qed

lemma attestator_routine_responds:
  assumes "env_nonce_ok env" and "env_walk_ok env" and "env_data_ok env" and "env_response_ok env"
    and "is_AID_set t" "is_attestator_number_set t" "length (app_AID t) = AID_SIZE"
    and "length nonce < 2 ^ 32"
    and "\<forall>ret. env_decode env (with_nonce t nonce) ret = Inr (info, RA_SUCCESS)"
    and data: "ra_prepare_data (env_decode env) (env_mod_mul env) (env_memory env) (env_base env)
                 (env_info env) (env_tmp env) True True (with_nonce t nonce)
               = Inr ((with_nonce t nonce)\<lparr>prepared_data := Some d, prepared_data_size := dn\<rparr>, RA_SUCCESS)"
    and "env_hash env (Some nonce) (of_nat (length nonce)) (Some d) dn (Some (app_AID t))
                 (app_attestator_number t) (env_packed env) = Inr ((Some h, n), RA_SUCCESS)"
    and "length h = unat n"
  shows "attestator_routine env False (Some (request_message req_id nonce)) t =
     Inr ((with_nonce t nonce)\<lparr>prepared_data := None, prepared_data_size := 0\<rparr>,
          Some (app_AID t @ le_bytes 8 (app_attestator_number t) @ le_bytes 8 req_id @ le_bytes 4 n @ h))"
  unfolding attestator_routine_def
  by (rule attestator_with_responds [OF assms(1,4-9) _ assms(11,12)]) (use assms(2,3) data in simp)

text \<open>An application that is shutting down, or an empty message, gets no answer and leaves the
  table as it is; otherwise the length of a request is never checked: one shorter than its 12-byte
  header is read past its end.\<close>

theorem attestator_routine_guards:
  "attestator_routine env force_exit None t = Inr (t, None)
     \<and> attestator_routine env True (Some buf) t = Inr (t, None)
     \<and> attestator_routine env False (Some (take (REQUEST_HEADER_SIZE - 1) buf)) t = Inl Out_Of_Bounds"
  by (auto simp: attestator_routine_def attestator_with_def Let_def read_word_def read_at_def field_sizes
      REQUEST_HEADER_SIZE_def)

end
