(* ===== verification/Verifier.thy ===== *)
theory Verifier
  imports Do_Hash RA_Defines
begin

text \<open>
  \<^verbatim>\<open>server-components/verifier.c\<close>: the process that judges one response. It reads the message from
  its standard input (a pipe that the forwarder has filled: the list of bytes in it), fetches the
  request from the database, recomputes the hash and records a verdict. The database is a
  parameter with the two lookups the verifier makes; its result is the list of updates.
\<close>

section \<open>Types\<close>

datatype request_status = PENDING | SUCCESS | FAILED | EXPIRED_SUCCESS | EXPIRED_FAILED | EXPIRED_NONE

datatype reaction_status = REACTION_STATUS_NONE | REACTION_STATUS_COMPROMISED | REACTION_STATUS_UNKNOWN

fun request_status_to_string :: "request_status \<Rightarrow> string" where
  "request_status_to_string PENDING = ''PENDING''"
| "request_status_to_string SUCCESS = ''SUCCESS''"
| "request_status_to_string FAILED = ''FAILED''"
| "request_status_to_string EXPIRED_SUCCESS = ''EXPIRED_SUCCESS''"
| "request_status_to_string EXPIRED_FAILED = ''EXPIRED_FAILED''"
| "request_status_to_string EXPIRED_NONE = ''EXPIRED_NONE''"

text \<open>What \<^verbatim>\<open>ra_db_get_data_to_verify\<close> delivers for a request; a buffer may be NULL.\<close>

record request_row =
  row_nonce :: "u8 list option"
  row_nonce_size :: u32
  row_data :: "u8 list option"
  row_data_size :: u32
  row_send_time :: u64
  row_status :: request_status
  row_validity :: u16

record verifier_db =
  db_application_id :: "string \<Rightarrow> u64 \<Rightarrow> u64"
  db_data_to_verify :: "u64 \<Rightarrow> request_row \<times> ra_result"

datatype db_update =
  Set_Reaction_Status u64 reaction_status
| Finalize_Request u64 request_status u32

text \<open>\<^verbatim>\<open>difftime\<close> of two times in whole seconds; a double holds it exactly below 2^53.\<close>

definition difftime :: "u64 \<Rightarrow> u64 \<Rightarrow> int" where
  "difftime t1 t0 = sint t1 - sint t0"

section \<open>The verifier process\<close>

definition verdict :: "bool \<Rightarrow> u64 \<Rightarrow> request_row \<Rightarrow> request_status" where
  "verdict right response_time row =
     (if right
      then (if difftime response_time (row_send_time row) < uint (row_validity row)
            then SUCCESS else EXPIRED_SUCCESS)
      else (if difftime response_time (row_send_time row) < uint (row_validity row)
            then FAILED else EXPIRED_FAILED))"

text \<open>
  \<open>app_id0\<close>, \<open>p0\<close> are the uninitialised variables for the application id and the computed
  hash, \<open>recv_ok\<close> the outcome of the allocation for the received hash.
\<close>

definition verifier_main ::
  "hasher \<Rightarrow> verifier_db \<Rightarrow> u64 \<Rightarrow> packed \<Rightarrow> bool \<Rightarrow> u8 list \<Rightarrow> db_update list run" where
  "verifier_main do_hash db app_id0 p0 recv_ok input =
     (if length input < VERIFIER_RESP_HEADER_SIZE then Inr []
      else
        let header = take VERIFIER_RESP_HEADER_SIZE input;
            rest = drop VERIFIER_RESP_HEADER_SIZE input in
        bind_run (read_word header 0 8) (\<lambda>response_time.
        bind_run (read_at header RESP_TIME_SIZE AID_SIZE) (\<lambda>AID.
        bind_run (read_word header (RESP_TIME_SIZE + AID_SIZE) 8) (\<lambda>number.
        bind_run (read_word header (RESP_TIME_SIZE + AID_SIZE + 8) 8) (\<lambda>req_id.
        bind_run (read_word header (RESP_TIME_SIZE + AID_SIZE + 16) 4) (\<lambda>hash_size :: u32.
          let app_id = db_application_id db (hex_string AID) app_id0 in
          if \<not> recv_ok then Inr []
          else if length rest < unat hash_size then Inr []
          else let received = take (unat hash_size) rest;
                   (row, r) = db_data_to_verify db req_id in
            if r \<noteq> RA_SUCCESS then Inr []
            else bind_run (do_hash (row_nonce row) (row_nonce_size row) (row_data row) (row_data_size row)
                            (Some AID) number p0) (\<lambda>(p, r2).
              if r2 \<noteq> RA_SUCCESS then Inr []
              else bind_run (deref (fst p)) (\<lambda>computed.
                bind_run (memcmp computed received (unat hash_size)) (\<lambda>c.
                  let status = verdict (c = 0) response_time row;
                      elapsed = ucast (response_time - row_send_time row) in
                  Inr ((if c = 0 then [] else [Set_Reaction_Status app_id REACTION_STATUS_COMPROMISED])
                       @ [Finalize_Request req_id status elapsed]))))))))))"

section \<open>Messages\<close>

text \<open>What the forwarder writes for a response: the time of arrival, then the response.\<close>

definition response_message :: "u8 list \<Rightarrow> u64 \<Rightarrow> u64 \<Rightarrow> u8 list \<Rightarrow> u8 list" where
  "response_message AID number req_id h =
     AID @ le_bytes 8 number @ le_bytes 8 req_id @ le_bytes 4 (of_nat (length h) :: u32) @ h"

definition verifier_input :: "u64 \<Rightarrow> u8 list \<Rightarrow> u8 list" where
  "verifier_input response_time response = le_bytes 8 response_time @ response"

lemma verifier_main_on_response:
  assumes "length AID = AID_SIZE" and "length h < 2 ^ 32"
  shows "verifier_main do_hash db app_id0 p0 True (verifier_input tm (response_message AID number req_id h)) =
     (case db_data_to_verify db req_id of (row, r) \<Rightarrow>
        if r \<noteq> RA_SUCCESS then Inr []
        else bind_run (do_hash (row_nonce row) (row_nonce_size row) (row_data row) (row_data_size row)
                        (Some AID) number p0) (\<lambda>(p, r2).
          if r2 \<noteq> RA_SUCCESS then Inr []
          else bind_run (deref (fst p)) (\<lambda>computed.
            bind_run (memcmp computed h (length h)) (\<lambda>c.
              Inr ((if c = 0 then []
                    else [Set_Reaction_Status (db_application_id db (hex_string AID) app_id0)
                            REACTION_STATUS_COMPROMISED])
                   @ [Finalize_Request req_id (verdict (c = 0) tm row)
                        (ucast (tm - row_send_time row))])))))"
proof -
  define H where "H = le_bytes 8 tm @ AID @ le_bytes 8 number @ le_bytes 8 req_id
    @ le_bytes 4 (of_nat (length h) :: u32)"
  have split: "verifier_input tm (response_message AID number req_id h) = H @ h"
    by (simp add: verifier_input_def response_message_def H_def)
  have len: "length H = VERIFIER_RESP_HEADER_SIZE"
    using assms(1) by (simp add: H_def VERIFIER_RESP_HEADER_SIZE_def AID_SIZE_def field_sizes)
  then have parts: "take VERIFIER_RESP_HEADER_SIZE (H @ h) = H" "drop VERIFIER_RESP_HEADER_SIZE (H @ h) = h"
    by simp_all
  have f: "read_word H 0 8 = Inr tm" "read_at H RESP_TIME_SIZE AID_SIZE = Inr AID"
    "read_word H (RESP_TIME_SIZE + AID_SIZE) 8 = Inr number"
    "read_word H (RESP_TIME_SIZE + AID_SIZE + 8) 8 = Inr req_id"
    "read_word H (RESP_TIME_SIZE + AID_SIZE + 16) 4 = Inr (of_nat (length h) :: u32)"
    using assms(1) read_word_append [of "le_bytes 8 tm @ AID" "RESP_TIME_SIZE + AID_SIZE" 8 number]
      read_word_append [of "le_bytes 8 tm @ AID @ le_bytes 8 number" "RESP_TIME_SIZE + AID_SIZE + 8" 8 req_id]
      read_word_append [of "le_bytes 8 tm @ AID @ le_bytes 8 number @ le_bytes 8 req_id"
        "RESP_TIME_SIZE + AID_SIZE + 16" 4 "of_nat (length h) :: u32" "[]"]
    by (simp_all add: RESP_TIME_SIZE_def H_def)
  show ?thesis
    unfolding verifier_main_def split Let_def parts
    by (simp add: split_beta f len unat_of_nat_u32 [OF assms(2)] cong: if_cong)
qed

section \<open>Properties\<close>

text \<open>A hash function that yields \<open>n\<close> bytes for every request the database knows.\<close>

definition hashes_row :: "hasher \<Rightarrow> request_row \<Rightarrow> u8 list \<Rightarrow> u64 \<Rightarrow> packed \<Rightarrow> u8 list \<Rightarrow> bool" where
  "hashes_row do_hash row AID number p0 computed \<longleftrightarrow>
     (\<exists>n. do_hash (row_nonce row) (row_nonce_size row) (row_data row) (row_data_size row)
             (Some AID) number p0 = Inr ((Some computed, n), RA_SUCCESS))"

lemma verifier_judges:
  assumes "length AID = AID_SIZE" and "length h < 2 ^ 32"
    and "db_data_to_verify db req_id = (row, RA_SUCCESS)"
    and "hashes_row do_hash row AID number p0 computed" and "length h \<le> length computed"
  shows "verifier_main do_hash db app_id0 p0 True (verifier_input tm (response_message AID number req_id h)) =
     (let right = (h = take (length h) computed) in
      Inr ((if right then []
            else [Set_Reaction_Status (db_application_id db (hex_string AID) app_id0)
                    REACTION_STATUS_COMPROMISED])
           @ [Finalize_Request req_id (verdict right tm row) (ucast (tm - row_send_time row))]))"
proof -
  obtain c where c: "memcmp computed h (length h) = Inr c"
    using assms(5) by (auto simp: memcmp_def)
  have "c = 0 \<longleftrightarrow> h = take (length h) computed"
    using memcmp_eq_0 [OF assms(5), of h] c by auto
  with c assms(3,4) verifier_main_on_response [OF assms(1,2)] show ?thesis
    by (auto simp: hashes_row_def Let_def)
qed

text \<open>C10: The verdict on a response whose hash is not longer than the recomputed one: exactly one
  request is finalized, the one the response names; it is \<^verbatim>\<open>SUCCESS\<close> or \<^verbatim>\<open>EXPIRED_SUCCESS\<close> when
  the received bytes are a prefix of the recomputed hash and \<^verbatim>\<open>FAILED\<close> or \<^verbatim>\<open>EXPIRED_FAILED\<close>
  otherwise, by the time elapsed since the request was sent; and the application is marked
  compromised exactly in the latter cases.\<close>

theorem verifier_verdict:
  assumes "length AID = AID_SIZE" and "length h < 2 ^ 32"
    and "db_data_to_verify db req_id = (row, RA_SUCCESS)"
    and "hashes_row do_hash row AID number p0 computed" and "length h \<le> length computed"
  shows "\<exists>updates. verifier_main do_hash db app_id0 p0 True
           (verifier_input tm (response_message AID number req_id h)) = Inr updates
     \<and> (\<exists>status elapsed. last updates = Finalize_Request req_id status elapsed
          \<and> (status \<in> {SUCCESS, EXPIRED_SUCCESS} \<longleftrightarrow> h = take (length h) computed)
          \<and> (status \<in> {SUCCESS, FAILED} \<longleftrightarrow> difftime tm (row_send_time row) < uint (row_validity row))
          \<and> butlast updates =
              (if status \<in> {SUCCESS, EXPIRED_SUCCESS} then []
               else [Set_Reaction_Status (db_application_id db (hex_string AID) app_id0)
                       REACTION_STATUS_COMPROMISED]))"
  unfolding verifier_judges [OF assms] by (auto simp: verdict_def Let_def)

text \<open>A concrete database with one request, hashed with the stand-in digest.\<close>

definition sample_row :: request_row where
  "sample_row =
     \<lparr>row_nonce = Some [1, 2], row_nonce_size = 2, row_data = Some [3], row_data_size = 1,
      row_send_time = 100, row_status = PENDING, row_validity = 10\<rparr>"

lemma sample_row_times [simp]: "row_send_time sample_row = 100" "row_validity sample_row = 10"
  by (simp_all add: sample_row_def)

definition sample_db :: verifier_db where
  "sample_db =
     \<lparr>db_application_id = (\<lambda>_ _. 77),
      db_data_to_verify = (\<lambda>i. (sample_row, if i = 4 then RA_SUCCESS else RA_ERROR_DB_QUERY))\<rparr>"

definition sample_AID :: "u8 list" where
  "sample_AID = replicate 16 5"

lemma sample_AID_length [simp]: "length sample_AID = AID_SIZE"
  by (simp add: sample_AID_def AID_SIZE_def)

definition sample_digest :: "u8 list" where
  "sample_digest = prefix_digest 16 (hash_message [1, 2] [3] sample_AID 9)"

lemma sample_digest_length [simp]: "length sample_digest = 16"
  using prefix_digest_length [of 16] by (simp add: sample_digest_def digest_length_def)

lemma sample_hashes_row [simp]:
  "hashes_row (ra_do_hash_md5 (prefix_digest 16) True True) sample_row sample_AID 9 p0 sample_digest"
proof -
  have "hash_inputs_ok [1, 2] 2 [3] 1 sample_AID" by (simp add: hash_inputs_ok_def) (simp add: AID_SIZE_def)
  from do_hash_with_ok [OF prefix_digest_length this, of 16 9 p0] show ?thesis
    by (simp add: hashes_row_def sample_row_def ra_do_hash_md5_def MD5_DIGEST_LENGTH_def sample_digest_def)
qed

lemma sample_db_row [simp]: "db_data_to_verify sample_db 4 = (sample_row, RA_SUCCESS)"
  by (simp add: sample_db_def)

theorem verifier_verdict_witness:
  "\<exists>updates. verifier_main (ra_do_hash_md5 (prefix_digest 16) True True) sample_db 0 (None, 0) True
           (verifier_input 105 (response_message sample_AID 9 4 sample_digest)) = Inr updates
     \<and> (\<exists>status elapsed. last updates = Finalize_Request 4 status elapsed
          \<and> (status \<in> {SUCCESS, EXPIRED_SUCCESS} \<longleftrightarrow> sample_digest = take (length sample_digest) sample_digest)
          \<and> (status \<in> {SUCCESS, FAILED} \<longleftrightarrow> difftime 105 (row_send_time sample_row) < uint (row_validity sample_row))
          \<and> butlast updates =
              (if status \<in> {SUCCESS, EXPIRED_SUCCESS} then []
               else [Set_Reaction_Status (db_application_id sample_db (hex_string sample_AID) 0)
                       REACTION_STATUS_COMPROMISED]))"
  by (rule verifier_verdict) simp_all

text \<open>C29: The length of the comparison comes from the response: a response with a hash of length 0
  that arrives in time is accepted for every request, whatever was attested.\<close>

theorem verifier_accepts_empty_hash:
  assumes "length AID = AID_SIZE" and "db_data_to_verify db req_id = (row, RA_SUCCESS)"
    and "hashes_row do_hash row AID number p0 computed"
    and "difftime tm (row_send_time row) < uint (row_validity row)"
  shows "verifier_main do_hash db app_id0 p0 True (verifier_input tm (response_message AID number req_id []))
     = Inr [Finalize_Request req_id SUCCESS (ucast (tm - row_send_time row))]"
  using verifier_judges [OF assms(1) _ assms(2,3), of "[]"] assms(4) by (simp add: verdict_def)

theorem verifier_accepts_empty_hash_witness:
  "verifier_main (ra_do_hash_md5 (prefix_digest 16) True True) sample_db 0 (None, 0) True
      (verifier_input 105 (response_message sample_AID 9 4 []))
   = Inr [Finalize_Request 4 SUCCESS (ucast (105 - row_send_time sample_row))]"
  by (rule verifier_accepts_empty_hash [of _ _ _ sample_row _ _ _ sample_digest])
    (simp_all add: difftime_def)

text \<open>A response that claims a hash longer than the digest is compared past the end of the
  computed buffer.\<close>

theorem verifier_overreads_digest:
  assumes "length AID = AID_SIZE" and "length h < 2 ^ 32"
    and "db_data_to_verify db req_id = (row, RA_SUCCESS)"
    and "hashes_row do_hash row AID number p0 computed" and "length computed < length h"
  shows "verifier_main do_hash db app_id0 p0 True (verifier_input tm (response_message AID number req_id h))
     = Inl Out_Of_Bounds"
  using verifier_main_on_response [OF assms(1,2)] assms(3-5)
  by (auto simp: hashes_row_def memcmp_def)

theorem verifier_overreads_digest_witness:
  "verifier_main (ra_do_hash_md5 (prefix_digest 16) True True) sample_db 0 (None, 0) True
      (verifier_input 105 (response_message sample_AID 9 4 (replicate 17 0))) = Inl Out_Of_Bounds"
  by (rule verifier_overreads_digest [of _ _ _ _ sample_row _ _ _ sample_digest]) simp_all

end
