(* ===== verification/Verifier_Forwarder.thy ===== *)
theory Verifier_Forwarder
  imports Verifier RA_Defines
begin

text \<open>
  \<^verbatim>\<open>server-components/verifier_forwarder.c\<close>: the process the portal starts for each response. It
  reads the declared number of bytes from its standard input, picks the verifier program from the
  application id and attestator number, and pipes the time of arrival and the response into it.
\<close>

section \<open>Reading the payload\<close>

text \<open>The outcomes of the successive \<^verbatim>\<open>read\<close> calls: an error, or some bytes (none at the end).\<close>

datatype read_outcome = Read_Error | Read_Bytes "u8 list"

text \<open>
  The loop that collects \<open>n\<close> bytes in \<open>buf\<close>; \<open>None\<close> is an exit with an error. A read
  never returns more than it was asked for, and the stream ends when the outcomes are used up.
\<close>

fun read_payload :: "read_outcome list \<Rightarrow> nat \<Rightarrow> u8 list \<Rightarrow> u8 list option" where
  "read_payload [] n buf = (if length buf < n then None else Some buf)"
| "read_payload (Read_Error # rs) n buf = (if length buf < n then None else Some buf)"
| "read_payload (Read_Bytes bs # rs) n buf =
     (if \<not> length buf < n then Some buf
      else let got = take (n - length buf) bs in
        if got = [] then None else read_payload rs n (buf @ got))"

text \<open>\<^verbatim>\<open>atoi\<close>: white space, a sign, digits; 0 when there are none.\<close>

definition atoi :: "string \<Rightarrow> int" where
  "atoi s =
     (case fst (scan_integer (skip_space s)) of
        None \<Rightarrow> 0
      | Some (neg, n) \<Rightarrow> sint (word_of_int (strtol_value neg n) :: u32))"

section \<open>The process\<close>

datatype forwarder_result =
  Forwarder_Error
| Forwarded (fwd_path: string) (fwd_input: "u8 list")

definition forwarder_main ::
  "nat \<Rightarrow> string \<Rightarrow> bool \<Rightarrow> read_outcome list \<Rightarrow> u64 \<Rightarrow> bool \<Rightarrow> forwarder_result run" where
  "forwarder_main argc argv2 malloc_ok reads now fork_ok =
     (if argc < 3 then Inr Forwarder_Error
      else let len = atoi argv2 in
        if len \<le> 0 then Inr Forwarder_Error
        else if \<not> malloc_ok then Inr Forwarder_Error
        else (case read_payload reads (nat len) [] of
                None \<Rightarrow> Inr Forwarder_Error
              | Some in_buf \<Rightarrow>
                  bind_run (read_at in_buf 0 AID_SIZE) (\<lambda>AID.
                  bind_run (read_at in_buf AID_SIZE 1) (\<lambda>number_byte.
                    let attestator_number = ucast (hd number_byte) :: u64 in
                    if \<not> fork_ok then Inr Forwarder_Error
                    else Inr (Forwarded (verifier_path (hex_string AID) attestator_number)
                                (le_bytes 8 now @ in_buf))))))"

section \<open>Properties\<close>

lemma atoi_show_nat:
  assumes "n < 2 ^ 31"
  shows "atoi (show_nat n) = int n"
proof -
  have d: "takeWhile is_digit (show_nat n) = show_nat n"
    using show_nat_digits [of n] by (simp add: takeWhile_eq_all_conv)
  have "scan_sign (show_nat n) = (False, show_nat n)"
    using show_nat_digits [of n] digit_not_sign by (cases "show_nat n") (auto simp: scan_sign_def)
  moreover have "skip_space (show_nat n) = show_nat n" using skip_space_show_nat [of n "[]"] by simp
  ultimately have "fst (scan_integer (skip_space (show_nat n))) = Some (False, n)"
    by (simp add: scan_integer_def d)
  moreover have "sint (word_of_int (int n) :: u32) = int n"
    using assms by (simp add: signed_of_nat signed_take_bit_int_eq_self)
  ultimately show ?thesis using assms by (simp add: atoi_def strtol_value_def)
qed

text \<open>However the payload is cut into reads, it is put together again.\<close>

lemma read_payload_chunks:
  "\<forall>c\<in>set cs. c \<noteq> [] \<Longrightarrow> length buf + length (concat cs) = n \<Longrightarrow>
   read_payload (map Read_Bytes cs) n buf = Some (buf @ concat cs)"
  by (induction cs arbitrary: buf) (auto simp: Let_def)

lemma read_payload_short:
  "length buf + length (concat cs) < n \<Longrightarrow> read_payload (map Read_Bytes cs) n buf = None"
  by (induction cs arbitrary: buf) (auto simp: Let_def)

lemma forwarder_main_chunks:
  assumes "\<forall>c\<in>set cs. c \<noteq> []" and "concat cs = payload" and "length payload < 2 ^ 31"
    and "AID_SIZE < length payload"
  shows "forwarder_main 3 (show_nat (length payload)) True (map Read_Bytes cs) now True =
     Inr (Forwarded (verifier_path (hex_string (take AID_SIZE payload)) (ucast (payload ! AID_SIZE)))
            (verifier_input now payload))"
proof -
  have "read_payload (map Read_Bytes cs) (length payload) [] = Some payload"
    using read_payload_chunks [of cs "[]" "length payload"] assms(1,2) by simp
  moreover have "hd (take 1 (drop AID_SIZE payload)) = payload ! AID_SIZE"
    using assms(4) by (simp add: hd_drop_conv_nth)
  ultimately show ?thesis
    using assms(3,4) atoi_show_nat [OF assms(3)]
    by (auto simp: forwarder_main_def read_at_def verifier_input_def Let_def)
qed

text \<open>Whatever pieces the payload arrives in, the forwarder passes it on complete, behind the
  time of arrival, to the verifier of the application id at the start of the payload; when fewer
  bytes arrive than declared, nothing is forwarded.\<close>

theorem forwarder_forwards_payload:
  assumes "\<forall>c\<in>set cs. c \<noteq> []" and "length (concat cs) < 2 ^ 31" and "AID_SIZE < length (concat cs)"
  shows "(\<exists>path. forwarder_main 3 (show_nat (length (concat cs))) True (map Read_Bytes cs) now True =
       Inr (Forwarded path (verifier_input now (concat cs))))
     \<and> (\<forall>n. length (concat cs) < n \<and> n < 2 ^ 31 \<longrightarrow>
          forwarder_main 3 (show_nat n) True (map Read_Bytes cs) now True = Inr Forwarder_Error)"
proof (intro conjI allI impI)
  show "\<exists>path. forwarder_main 3 (show_nat (length (concat cs))) True (map Read_Bytes cs) now True =
       Inr (Forwarded path (verifier_input now (concat cs)))"
    using forwarder_main_chunks [OF assms(1) refl assms(2,3)] by blast
  fix n
  assume n: "length (concat cs) < n \<and> n < 2 ^ 31"
  then have "read_payload (map Read_Bytes cs) n [] = None"
    using read_payload_short [of "[]" cs n] by simp
  with n atoi_show_nat [of n] show "forwarder_main 3 (show_nat n) True (map Read_Bytes cs) now True = Inr Forwarder_Error"
    by (simp add: forwarder_main_def)
qed

theorem forwarder_forwards_payload_witness:
  "\<exists>path. forwarder_main 3 (show_nat 20) True [Read_Bytes (replicate 15 1), Read_Bytes (replicate 5 2)] 7 True =
     Inr (Forwarded path (verifier_input 7 (replicate 15 1 @ replicate 5 2)))"
  using forwarder_forwards_payload [of "[replicate 15 1, replicate 5 2]" 7] by (simp add: AID_SIZE_def)

text \<open>Only the first byte of the attestator number selects the verifier: the responses of two
  attestators whose numbers agree in the low byte go to the same verifier program.\<close>

theorem forwarder_number_low_byte:
  assumes "length AID = AID_SIZE" and "length h < 2 ^ 30" and "ucast n1 = (ucast n2 :: u8)"
  shows "\<exists>path in1 in2.
     forwarder_main 3 (show_nat (length (response_message AID n1 r1 h))) True
       [Read_Bytes (response_message AID n1 r1 h)] now True = Inr (Forwarded path in1)
     \<and> forwarder_main 3 (show_nat (length (response_message AID n2 r2 h))) True
       [Read_Bytes (response_message AID n2 r2 h)] now True = Inr (Forwarded path in2)"
proof -
  have len: "length (response_message AID n r h) = AID_SIZE + 20 + length h" for n r
    using assms(1) by (simp add: response_message_def)
  have byte: "response_message AID n r h ! AID_SIZE = ucast n" for n r
    using assms(1) by (simp add: response_message_def nth_append numeral_eq_Suc)
  have aid: "take AID_SIZE (response_message AID n r h) = AID" for n r
    using assms(1) by (simp add: response_message_def)
  have bounds: "length (response_message AID n r h) < 2 ^ 31" "AID_SIZE < length (response_message AID n r h)" for n r
    using assms(2) by (simp_all add: len AID_SIZE_def)
  have nonempty: "response_message AID n r h \<noteq> []" for n r using bounds(2) [of n r] by auto
  have "forwarder_main 3 (show_nat (length (response_message AID n r h))) True
       [Read_Bytes (response_message AID n r h)] now True =
     Inr (Forwarded (verifier_path (hex_string AID) (ucast (ucast n :: u8)))
           (verifier_input now (response_message AID n r h)))" for n r
    using forwarder_main_chunks [OF _ _ bounds, of "[response_message AID n r h]" n r now] nonempty [of n r]
    by (simp add: byte aid)
  then show ?thesis using assms(3) by simp
qed

theorem forwarder_number_low_byte_witness:
  "\<exists>path in1 in2.
     forwarder_main 3 (show_nat (length (response_message sample_AID 1 4 []))) True
       [Read_Bytes (response_message sample_AID 1 4 [])] 7 True = Inr (Forwarded path in1)
     \<and> forwarder_main 3 (show_nat (length (response_message sample_AID 257 4 []))) True
       [Read_Bytes (response_message sample_AID 257 4 [])] 7 True = Inr (Forwarded path in2)"
  by (rule forwarder_number_low_byte) simp_all

end
