(* ===== verification/Protocol.thy ===== *)
theory Protocol
  imports Attestator Verifier_Forwarder
begin

text \<open>
  The components together: a request goes to the attestator, its response through the forwarder to
  the verifier, which compares it with what the extractor prepared for the same nonce from the
  original binary. The extractor's preparation is \<open>ra_prepare_data\<close> on the same data
  structure over its own image of the code.
\<close>

section \<open>Preparation on the two sides\<close>

lemma permuting_coprime:
  assumes "prime_test_exact is_prime" and "decodable t ars nonce 3"
    and "decode \<in> permuting_versions is_prime" and "decode t ret = Inr (info, RA_SUCCESS)"
  shows "coprime (unat (info_generator info)) (unat (info_actual_size info))"
  using assms v1.decode_unit [OF assms(2), of ret info] v4.decode_unit [OF assms(2), of ret info]
  by (auto simp: permuting_versions_def prime_test_exact_iff)

text \<open>Where the walk is a permutation, equal walks come from equal windows.\<close>

lemma walked_bytes_inj:
  assumes "coprime (unat (info_generator info)) (unat (info_actual_size info))"
    and "info_in_bounds info"
    and "length c1 = unat (info_buffer_size info)" and "length c2 = unat (info_buffer_size info)"
    and "walked_bytes info c1 = walked_bytes info c2"
  shows "window info c1 = window info c2"
proof (rule nth_equalityI)
  let ?n = "unat (info_actual_size info)" and ?k = "unat (info_offset info)"
  have fit: "?k + ?n \<le> length c1" "?k + ?n \<le> length c2" and n: "0 < ?n"
    using assms(2-4) by (simp_all add: info_in_bounds_def word_less_nat_alt)
  then show "length (window info c1) = length (window info c2)" by (simp add: window_def)
  fix j
  assume "j < length (window info c1)"
  then have j: "j < ?n" using fit by (simp add: window_def)
  then obtain i where i: "i < ?n" "j = walk_index info i"
    using walk_index_image [OF assms(1) n] by (auto simp: walk_index_def [abs_def] image_iff set_eq_iff)
  have "walked_bytes info c1 ! i = walked_bytes info c2 ! i" using assms(5) by simp
  then have "c1 ! (?k + j) = c2 ! (?k + j)" using i by (simp add: walked_bytes_def)
  then show "window info c1 ! j = window info c2 ! j" using j fit by (simp add: window_def)
qed

section \<open>One exchange\<close>

text \<open>What the database holds for the request once the extractor's data was stored and sent.\<close>

definition stored_row :: "u8 list \<Rightarrow> ra_table \<Rightarrow> u64 \<Rightarrow> u16 \<Rightarrow> request_row" where
  "stored_row nonce ts sent validity =
     \<lparr>row_nonce = Some nonce, row_nonce_size = of_nat (length nonce), row_data = prepared_data ts,
      row_data_size = prepared_data_size ts, row_send_time = sent, row_status = PENDING,
      row_validity = validity\<rparr>"

text \<open>
  An attestator that is built with a version of the decoder and a digest of \<open>n\<close> bytes, whose
  allocations succeed, with its identity set and areas that the nonce can select from.
\<close>

definition attestator_ready ::
  "(int \<Rightarrow> int) \<Rightarrow> nat \<Rightarrow> digest \<Rightarrow> attest_env \<Rightarrow> ra_table \<Rightarrow> memory_area list \<Rightarrow> u8 list \<Rightarrow> bool" where
  "attestator_ready is_prime n D env t ars nonce \<longleftrightarrow>
     env_nonce_ok env \<and> env_walk_ok env \<and> env_data_ok env \<and> env_response_ok env
     \<and> env_decode env \<in> built_versions is_prime
     \<and> env_hash env = do_hash_with n D True True
     \<and> is_AID_set t \<and> is_attestator_number_set t \<and> length (app_AID t) = AID_SIZE
     \<and> decodable (with_nonce t nonce) ars nonce 3
     \<and> length nonce + unat (area_total_size (selected_area (with_nonce t nonce) ars nonce)) + AID_SIZE < 2 ^ 32"

definition libraries_ok :: "(int \<Rightarrow> int) \<Rightarrow> mod_mul \<Rightarrow> nat \<Rightarrow> digest \<Rightarrow> bool" where
  "libraries_ok is_prime mm n D \<longleftrightarrow>
     prime_test_exact is_prime \<and> mod_mul_exact mm \<and> digest_length n D \<and> n < 2 ^ 32"

text \<open>The attestator's side of the exchange.\<close>

lemma attestator_answers:
  assumes lib: "libraries_ok is_prime (env_mod_mul env) n D"
    and ready: "attestator_ready is_prime n D env t ars nonce"
  defines "tn \<equiv> with_nonce t nonce"
  shows "\<exists>info. walks_selected (env_decode env) (env_mod_mul env) tn ars nonce info
     \<and> (\<forall>c. hash_inputs_ok nonce (of_nat (length nonce)) (walked_bytes info c) (info_actual_size info) (app_AID t))
     \<and> attestator_routine env False (Some (request_message req_id nonce)) t =
         Inr (tn\<lparr>prepared_data := None, prepared_data_size := 0\<rparr>,
              Some (response_message (app_AID t) (app_attestator_number t) req_id
                (D (hash_message nonce (walked_bytes info (selected_code (env_memory env) (env_base env) tn ars nonce))
                     (app_AID t) (app_attestator_number t)))))"
proof -
  have dec: "decodable tn ars nonce 3" and v: "env_decode env \<in> built_versions is_prime"
    using ready by (simp_all add: attestator_ready_def tn_def)
  obtain info where w: "walks_selected (env_decode env) (env_mod_mul env) tn ars nonce info"
    using prepare_any_version [OF _ _ dec v, of "env_mod_mul env"] lib unfolding libraries_ok_def by blast
  then have i: "\<forall>ret. env_decode env tn ret = Inr (info, RA_SUCCESS)" "info_in_bounds info"
    "info_buffer_size info = area_total_size (selected_area tn ars nonce)"
    and run: "\<And>mem base garbage tmp. ra_prepare_data (env_decode env) (env_mod_mul env) mem base garbage tmp True True tn =
          Inr (tn\<lparr>prepared_data := Some (walked_bytes info (selected_code mem base tn ars nonce)),
                 prepared_data_size := info_actual_size info\<rparr>, RA_SUCCESS)"
    by (simp_all add: walks_selected_def)
  have nl: "length nonce < 2 ^ 32" using ready by (simp add: attestator_ready_def)
  have hin: "hash_inputs_ok nonce (of_nat (length nonce)) (walked_bytes info c) (info_actual_size info) (app_AID t)" for c
    using ready i(2,3) nl
    by (simp add: hash_inputs_ok_def attestator_ready_def info_in_bounds_def walked_bytes_def
        unat_of_nat_u32 tn_def)
  let ?d = "walked_bytes info (selected_code (env_memory env) (env_base env) tn ars nonce)"
  let ?h = "D (hash_message nonce ?d (app_AID t) (app_attestator_number t))"
  have n: "digest_length n D" "n < 2 ^ 32" using lib by (simp_all add: libraries_ok_def)
  then have hl: "length ?h = unat (of_nat n :: u32)" and ln: "length ?h = n"
    by (simp_all add: digest_length_def unat_of_nat_u32)
  have "env_hash env (Some nonce) (of_nat (length nonce)) (Some ?d) (info_actual_size info) (Some (app_AID t))
          (app_attestator_number t) (env_packed env) = Inr ((Some ?h, of_nat n), RA_SUCCESS)"
    using ready do_hash_with_ok [OF n(1) hin] by (simp add: attestator_ready_def)
  from attestator_routine_responds [OF _ _ _ _ _ _ _ nl i(1) [unfolded tn_def] run [unfolded tn_def]
      this [unfolded tn_def] hl [unfolded tn_def], of req_id] ready
  have "attestator_routine env False (Some (request_message req_id nonce)) t =
     Inr (tn\<lparr>prepared_data := None, prepared_data_size := 0\<rparr>,
       Some (response_message (app_AID t) (app_attestator_number t) req_id ?h))"
    by (simp add: attestator_ready_def tn_def response_message_def ln [unfolded tn_def])
  with w hin show ?thesis by blast
qed

text \<open>The bytes an attestator hashes for the code \<open>c\<close>, and a digest that separates two of them.\<close>

definition attested_message :: "ra_table \<Rightarrow> u8 list \<Rightarrow> decoded_info \<Rightarrow> u8 list \<Rightarrow> u8 list" where
  "attested_message t nonce info c =
     hash_message nonce (walked_bytes info c) (app_AID t) (app_attestator_number t)"

definition no_collision :: "digest \<Rightarrow> u8 list \<Rightarrow> u8 list \<Rightarrow> bool" where
  "no_collision D m1 m2 \<longleftrightarrow> m1 \<noteq> m2 \<longrightarrow> D m1 \<noteq> D m2"

section \<open>A concrete exchange\<close>

definition sample_info :: decoded_info where
  "sample_info = \<lparr>info_label = 0, info_buffer_size = 0, info_actual_size = 0, info_generator = 0, info_offset = 0\<rparr>"

definition sample_env :: "memory \<Rightarrow> attest_env" where
  "sample_env mem =
     \<lparr>env_decode = decode_nonce_1 exact_test True True, env_mod_mul = exact_mod_mul,
      env_hash = do_hash_with 32 (prefix_digest 32) True True, env_memory = mem, env_base = 0,
      env_nonce_ok = True, env_walk_ok = True, env_data_ok = True, env_response_ok = True,
      env_print_info = sample_info, env_info = sample_info, env_tmp = (\<lambda>_. 0), env_AID = None,
      env_number = 0, env_packed = (None, 0)\<rparr>"

definition server_memory :: memory where "server_memory x = ucast x"

definition tampered_memory :: memory where "tampered_memory x = ucast x + 1"

lemma sample_env_simps [simp]:
  "env_decode (sample_env mem) = decode_nonce_1 exact_test True True"
  "env_mod_mul (sample_env mem) = exact_mod_mul"
  "env_memory (sample_env mem) = mem" "env_base (sample_env mem) = 0"
  by (simp_all add: sample_env_def)

lemma sample_libraries [simp]: "libraries_ok exact_test exact_mod_mul 32 (prefix_digest 32)"
  by (simp add: libraries_ok_def)

lemma with_nonce_sample [simp]: "with_nonce sample_table sample_nonce = sample_table"
  by (simp add: with_nonce_def sample_table_def table_of_def)

lemma sample_table_identity [simp]:
  "is_AID_set sample_table" "is_attestator_number_set sample_table"
  "app_AID sample_table = sample_AID" "app_attestator_number sample_table = 0"
  by (simp_all add: sample_table_def table_of_def sample_AID_def blank_table_def)

lemma sample_ready [simp]:
  "attestator_ready exact_test 32 (prefix_digest 32) (sample_env mem) sample_table [sample_area] sample_nonce"
  by (simp add: attestator_ready_def built_versions_def sample_env_def)
    (simp add: sample_nonce_def AID_SIZE_def)

lemma sample_prepared:
  "\<exists>info ts. decode_nonce_1 exact_test True True sample_table sample_info = Inr (info, RA_SUCCESS)
     \<and> info_in_bounds info
     \<and> info_buffer_size info = area_total_size (selected_area sample_table [sample_area] sample_nonce)
     \<and> ra_prepare_data (decode_nonce_1 exact_test True True) exact_mod_mul server_memory 0 sample_info
         (\<lambda>_. 0) True True sample_table = Inr (ts, RA_SUCCESS)"
proof -
  have "decodable sample_table [sample_area] sample_nonce 3" by simp
  from v1.prepare_data_walks [OF this exact_mod_mul_exact] show ?thesis
    unfolding walks_selected_def by blast
qed

definition one_row_db :: "u64 \<Rightarrow> request_row \<Rightarrow> verifier_db" where
  "one_row_db i row =
     \<lparr>db_application_id = (\<lambda>_ _. 77),
      db_data_to_verify = (\<lambda>j. (row, if j = i then RA_SUCCESS else RA_ERROR_DB_QUERY))\<rparr>"

lemma one_row_db_row [simp]: "db_data_to_verify (one_row_db i row) i = (row, RA_SUCCESS)"
  by (simp add: one_row_db_def)

lemma tampered_code: "area_code tampered_memory b bs = map (\<lambda>x. x + 1) (area_code server_memory b bs)"
  by (induction bs) (simp_all add: block_bytes_def tampered_memory_def server_memory_def)

lemma window_map: "window info (map f c) = map f (window info c)"
  by (simp add: window_def take_map drop_map)

lemma prefix_digest_long: "n \<le> length m \<Longrightarrow> prefix_digest n m = take n m"
  by (simp add: prefix_digest_def)

lemma prefix_digest_separates:
  assumes "length d1 = length d2" and "length nonce + length d1 \<le> n"
    and "n \<le> length (hash_message nonce d1 AID k)"
  shows "no_collision (prefix_digest n) (hash_message nonce d1 AID k) (hash_message nonce d2 AID k)"
proof -
  let ?m = "\<lambda>d. nonce @ d @ AID @ le_bytes 8 k"
  have start: "take (length nonce + length d) (?m d) = nonce @ d" for d
    by simp
  have "d1 = d2" if "take n (?m d1) = take n (?m d2)"
  proof -
    from that have "take (length nonce + length d1) (take n (?m d1)) = take (length nonce + length d1) (take n (?m d2))"
      by (rule arg_cong)
    then have "take (length nonce + length d1) (?m d1) = take (length nonce + length d1) (?m d2)"
      by (simp only: take_take min_absorb1 [OF assms(2)])
    then have "nonce @ d1 = nonce @ d2"
      using start [of d1] start [of d2] by (simp only: assms(1))
    then show ?thesis by (simp only: append_same_eq same_append_eq)
  qed
  moreover have "n \<le> length (?m d1)" "n \<le> length (?m d2)"
    using assms(3) by (simp_all only: hash_message_def length_append assms(1))
  ultimately show ?thesis
    unfolding no_collision_def hash_message_def using prefix_digest_long [of n "?m d1"] prefix_digest_long [of n "?m d2"]
    by fastforce
qed

text \<open>C1: Completeness of the protocol. For every nonce version and digest, every request and table:
  if the attestator is ready and runs the code that the extractor prepared the nonce from, then the
  request message yields a response on which the verifier, fed by the forwarder, finalizes exactly
  that request as \<^verbatim>\<open>SUCCESS\<close>, provided it arrives in time; nothing is marked compromised and the
  prepared data is wiped from the client's table.\<close>

theorem attestation_accepted:
  assumes "libraries_ok is_prime (env_mod_mul env) n D"
    and "attestator_ready is_prime n D env t ars nonce"
    and "ra_prepare_data (env_decode env) (env_mod_mul env) mem base garbage tmp True True (with_nonce t nonce)
           = Inr (ts, RA_SUCCESS)"
    and "selected_code mem base (with_nonce t nonce) ars nonce
           = selected_code (env_memory env) (env_base env) (with_nonce t nonce) ars nonce"
    and "db_data_to_verify db req_id = (stored_row nonce ts sent validity, RA_SUCCESS)"
    and "difftime now sent < uint validity"
  shows "\<exists>t' response.
     attestator_routine env False (Some (request_message req_id nonce)) t = Inr (t', Some response)
     \<and> prepared_data t' = None
     \<and> verifier_main (do_hash_with n D True True) db app_id p True (verifier_input now response)
         = Inr [Finalize_Request req_id SUCCESS (ucast (now - sent))]"
proof -
  let ?tn = "with_nonce t nonce"
  obtain info where w: "walks_selected (env_decode env) (env_mod_mul env) ?tn ars nonce info"
    and hin: "\<And>c. hash_inputs_ok nonce (of_nat (length nonce)) (walked_bytes info c) (info_actual_size info) (app_AID t)"
    and run: "attestator_routine env False (Some (request_message req_id nonce)) t =
         Inr (?tn\<lparr>prepared_data := None, prepared_data_size := 0\<rparr>,
              Some (response_message (app_AID t) (app_attestator_number t) req_id
                (D (hash_message nonce (walked_bytes info (selected_code (env_memory env) (env_base env) ?tn ars nonce))
                     (app_AID t) (app_attestator_number t)))))"
    using attestator_answers [OF assms(1,2), of req_id] by blast
  let ?d = "walked_bytes info (selected_code (env_memory env) (env_base env) ?tn ars nonce)"
  let ?h = "D (hash_message nonce ?d (app_AID t) (app_attestator_number t))"
  have ts: "prepared_data ts = Some ?d" "prepared_data_size ts = info_actual_size info"
    using w assms(3,4) by (auto simp: walks_selected_def)
  have D: "digest_length n D" "n < 2 ^ 32" using assms(1) by (simp_all add: libraries_ok_def)
  have "hashes_row (do_hash_with n D True True) (stored_row nonce ts sent validity) (app_AID t)
      (app_attestator_number t) p ?h"
    using do_hash_with_ok [OF D(1) hin] by (simp add: hashes_row_def stored_row_def ts)
  moreover have "length (app_AID t) = AID_SIZE" using assms(2) by (simp add: attestator_ready_def)
  moreover have "length ?h < 2 ^ 32" using D by (simp add: digest_length_def)
  ultimately have "verifier_main (do_hash_with n D True True) db app_id p True
      (verifier_input now (response_message (app_AID t) (app_attestator_number t) req_id ?h))
      = Inr [Finalize_Request req_id SUCCESS (ucast (now - sent))]"
    using verifier_judges [OF _ _ assms(5)] assms(6) by (simp add: verdict_def stored_row_def)
  with run show ?thesis by auto
qed

theorem attestation_accepted_witness:
  "\<exists>row t' response.
     attestator_routine (sample_env server_memory) False (Some (request_message 4 sample_nonce)) sample_table
       = Inr (t', Some response)
     \<and> prepared_data t' = None
     \<and> verifier_main (do_hash_with 32 (prefix_digest 32) True True) (one_row_db 4 row) 0 (None, 0) True
         (verifier_input 105 response) = Inr [Finalize_Request 4 SUCCESS (ucast (105 - 100 :: u64))]"
proof -
  obtain ts where "ra_prepare_data (decode_nonce_1 exact_test True True) exact_mod_mul server_memory 0 sample_info
         (\<lambda>_. 0) True True sample_table = Inr (ts, RA_SUCCESS)"
    using sample_prepared by blast
  then show ?thesis
    using attestation_accepted [of exact_test "sample_env server_memory" 32 "prefix_digest 32" sample_table
        "[sample_area]" sample_nonce server_memory 0 sample_info "\<lambda>_. 0" ts
        "one_row_db 4 (stored_row sample_nonce ts 100 10)" 4 100 10 105 0 "(None, 0)"]
    by (auto simp: difftime_def)
qed

text \<open>C2: Detection. With a version whose walk is a permutation, if the window that the nonce selects
  differs in any byte between the running code and the prepared code, and the digest does not
  collide on the two messages, then the verifier finalizes the request as failed and marks the
  application compromised, whenever the response arrives.\<close>

theorem tampering_detected:
  assumes "libraries_ok is_prime (env_mod_mul env) n D"
    and "attestator_ready is_prime n D env t ars nonce"
    and "env_decode env \<in> permuting_versions is_prime"
    and "ra_prepare_data (env_decode env) (env_mod_mul env) mem base garbage tmp True True (with_nonce t nonce)
           = Inr (ts, RA_SUCCESS)"
    and "env_decode env (with_nonce t nonce) ret = Inr (info, RA_SUCCESS)"
    and "server_code = selected_code mem base (with_nonce t nonce) ars nonce"
    and "client_code = selected_code (env_memory env) (env_base env) (with_nonce t nonce) ars nonce"
    and "window info server_code \<noteq> window info client_code"
    and "no_collision D (attested_message t nonce info server_code) (attested_message t nonce info client_code)"
    and "db_data_to_verify db req_id = (stored_row nonce ts sent validity, RA_SUCCESS)"
  shows "\<exists>t' response status.
     attestator_routine env False (Some (request_message req_id nonce)) t = Inr (t', Some response)
     \<and> verifier_main (do_hash_with n D True True) db app_id p True (verifier_input now response)
         = Inr [Set_Reaction_Status (db_application_id db (hex_string (app_AID t)) app_id)
                  REACTION_STATUS_COMPROMISED,
                Finalize_Request req_id status (ucast (now - sent))]
     \<and> status \<in> {FAILED, EXPIRED_FAILED}"
proof -
  let ?tn = "with_nonce t nonce"
  obtain info' where w: "walks_selected (env_decode env) (env_mod_mul env) ?tn ars nonce info'"
    and hin: "\<And>c. hash_inputs_ok nonce (of_nat (length nonce)) (walked_bytes info' c) (info_actual_size info') (app_AID t)"
    and run: "attestator_routine env False (Some (request_message req_id nonce)) t =
         Inr (?tn\<lparr>prepared_data := None, prepared_data_size := 0\<rparr>,
              Some (response_message (app_AID t) (app_attestator_number t) req_id
                (D (hash_message nonce (walked_bytes info' (selected_code (env_memory env) (env_base env) ?tn ars nonce))
                     (app_AID t) (app_attestator_number t)))))"
    using attestator_answers [OF assms(1,2), of req_id] by blast
  have "info' = info" using w assms(5) by (simp add: walks_selected_def)
  note w = w [unfolded this] and hin = hin [unfolded this] and run = run [unfolded this, folded assms(7)]
  have dec: "decodable ?tn ars nonce 3" using assms(2) by (simp add: attestator_ready_def)
  let ?hs = "D (attested_message t nonce info server_code)" and ?hc = "D (attested_message t nonce info client_code)"
  have ts: "prepared_data ts = Some (walked_bytes info server_code)" "prepared_data_size ts = info_actual_size info"
    using w assms(4,6) by (auto simp: walks_selected_def)
  have "coprime (unat (info_generator info)) (unat (info_actual_size info))"
    using permuting_coprime [OF _ dec assms(3,5)] assms(1) by (simp add: libraries_ok_def)
  moreover have "info_in_bounds info" "info_buffer_size info = area_total_size (selected_area ?tn ars nonce)"
    using w by (simp_all add: walks_selected_def)
  ultimately have "walked_bytes info server_code \<noteq> walked_bytes info client_code"
    using walked_bytes_inj [of info server_code client_code] assms(6-8) selected_code_length [OF dec] by auto
  then have "attested_message t nonce info server_code \<noteq> attested_message t nonce info client_code"
    by (simp add: attested_message_def hash_message_def walked_bytes_def)
  with assms(9) have ne: "?hs \<noteq> ?hc" by (simp add: no_collision_def)
  have D: "digest_length n D" "n < 2 ^ 32" using assms(1) by (simp_all add: libraries_ok_def)
  then have len: "length ?hc = n" "length ?hs = n" by (simp_all add: digest_length_def)
  have "hashes_row (do_hash_with n D True True) (stored_row nonce ts sent validity) (app_AID t)
      (app_attestator_number t) p ?hs"
    using do_hash_with_ok [OF D(1) hin] by (simp add: hashes_row_def stored_row_def ts attested_message_def)
  moreover have "length (app_AID t) = AID_SIZE" using assms(2) by (simp add: attestator_ready_def)
  ultimately have "verifier_main (do_hash_with n D True True) db app_id p True
      (verifier_input now (response_message (app_AID t) (app_attestator_number t) req_id ?hc))
      = Inr [Set_Reaction_Status (db_application_id db (hex_string (app_AID t)) app_id) REACTION_STATUS_COMPROMISED,
             Finalize_Request req_id (verdict False now (stored_row nonce ts sent validity)) (ucast (now - sent))]"
    using verifier_judges [OF _ _ assms(10), of "app_AID t" ?hc] len D(2) ne by (simp add: stored_row_def)
  with run show ?thesis by (auto simp: attested_message_def verdict_def)
qed

theorem tampering_detected_witness:
  "\<exists>row t' response status.
     attestator_routine (sample_env tampered_memory) False (Some (request_message 4 sample_nonce)) sample_table
       = Inr (t', Some response)
     \<and> verifier_main (do_hash_with 32 (prefix_digest 32) True True) (one_row_db 4 row) 0 (None, 0) True
         (verifier_input 105 response)
       = Inr [Set_Reaction_Status 77 REACTION_STATUS_COMPROMISED,
              Finalize_Request 4 status (ucast (105 - 100 :: u64))]
     \<and> status \<in> {FAILED, EXPIRED_FAILED}"
proof -
  obtain info ts where p: "ra_prepare_data (decode_nonce_1 exact_test True True) exact_mod_mul server_memory 0
        sample_info (\<lambda>_. 0) True True sample_table = Inr (ts, RA_SUCCESS)"
    and i: "decode_nonce_1 exact_test True True sample_table sample_info = Inr (info, RA_SUCCESS)"
      "info_in_bounds info"
      "info_buffer_size info = area_total_size (selected_area sample_table [sample_area] sample_nonce)"
    using sample_prepared by blast
  let ?s = "selected_code server_memory 0 sample_table [sample_area] sample_nonce"
  let ?c = "selected_code tampered_memory 0 sample_table [sample_area] sample_nonce"
  have c: "?c = map (\<lambda>x. x + 1) ?s" by (simp add: selected_code_def tampered_code)
  have size: "length ?s = 7"
    using selected_code_length [of sample_table "[sample_area]" sample_nonce 3 server_memory 0] by simp
  have n: "0 < unat (info_actual_size info)" "unat (info_offset info) + unat (info_actual_size info) \<le> 7"
    using i(2,3) by (simp_all add: info_in_bounds_def word_less_nat_alt)
  then have "window info ?s \<noteq> []" using size by (simp add: window_def)
  then have "window info ?s \<noteq> window info ?c"
    by (cases "window info ?s") (simp_all add: c window_map)
  moreover have "no_collision (prefix_digest 32) (attested_message sample_table sample_nonce info ?s)
      (attested_message sample_table sample_nonce info ?c)"
    unfolding attested_message_def using n
    by - (rule prefix_digest_separates,
      simp_all add: walked_bytes_def hash_message_def sample_nonce_def AID_SIZE_def)
  ultimately show ?thesis
    using tampering_detected [of exact_test "sample_env tampered_memory" 32 "prefix_digest 32" sample_table
        "[sample_area]" sample_nonce server_memory 0 sample_info "\<lambda>_. 0" ts sample_info info ?s ?c
        "one_row_db 4 (stored_row sample_nonce ts 100 10)" 4 100 10 0 "(None, 0)" 105] p i(1)
    by (auto simp: permuting_versions_def one_row_db_def)
qed

end
