(* ===== verification/Database.thy ===== *)
theory Database
  imports Verifier
begin

text \<open>
  \<^verbatim>\<open>ra-additionals/ra_database.c\<close> and the statements of \<^verbatim>\<open>headers/ra_database.h\<close> on the tables of
  \<^verbatim>\<open>setup/create_tables\<close>. A table is the list of its rows; a statement is what SQL makes of its
  text on these rows (keys, foreign keys, defaults and \<^verbatim>\<open>AUTO_INCREMENT\<close> included), \<open>None\<close>
  when it violates a constraint. The MySQL client library and the server's answers are the
  parameter \<open>db_link\<close>: whether initialisation, connection and each statement succeed.
  Columns travel as decimal text; the code scans each with the width of its column, so a value
  arrives unchanged.
\<close>

section \<open>Tables\<close>

record application_row =
  app_row_id :: u64
  app_row_AID :: string

record attestator_row =
  att_id :: u64
  att_application :: u64
  att_number :: u64
  att_sleep_avg :: u32
  att_sleep_var :: u32

record prepared_row =
  pd_id :: u64
  pd_attestator :: u64
  pd_nonce :: "u8 list"
  pd_data :: "u8 list"
  pd_area :: u16

record ra_request =
  rq_id :: u64
  rq_prepared :: u64
  rq_session :: u64
  rq_send_time :: u64
  rq_response_time :: "u32 option"
  rq_status :: request_status
  rq_validity :: u16
  rq_startup :: bool

record session_row =
  ses_id :: u64
  ses_attestator :: u64
  ses_start :: u64
  ses_finish :: "u64 option"
  ses_active :: bool

record reaction_row =
  react_application :: u64
  react_status :: reaction_status

record tables =
  applications :: "application_row list"
  attestators :: "attestator_row list"
  startup_areas :: "(u64 \<times> u16) list"
  prepared :: "prepared_row list"
  requests :: "ra_request list"
  sessions :: "session_row list"
  reactions :: "reaction_row list"
  next_prepared :: nat
  next_request :: nat
  next_session :: nat

section \<open>The client library\<close>

text \<open>
  \<open>link_query i\<close> is the outcome of the i-th statement on the connection as far as the server
  decides it. Every service opens a connection of its own.
\<close>

record db_link =
  link_init :: bool
  link_connect :: bool
  link_query :: "nat \<Rightarrow> bool"

definition connected :: "db_link \<Rightarrow> 'a \<times> ra_result \<Rightarrow> 'a \<Rightarrow> 'a \<times> ra_result" where
  "connected l service out =
     (if link_init l
      then (if link_connect l then service else (out, RA_ERROR_DB_MYSQL))
      else (out, RA_ERROR_DB_MYSQL))"

definition link_up :: db_link where
  "link_up = \<lparr>link_init = True, link_connect = True, link_query = (\<lambda>_. True)\<rparr>"

lemma connected_simps [simp]:
  "connected link_up service out = service" "link_query link_up i"
  by (simp_all add: connected_def link_up_def)

text \<open>An updating statement as \<^verbatim>\<open>mysql_query\<close> runs it: a failed one changes no row.\<close>

definition mysql_update :: "db_link \<Rightarrow> nat \<Rightarrow> tables option \<Rightarrow> tables option" where
  "mysql_update l i stmt = (if link_query l i then stmt else None)"

lemma mysql_update_simps [simp]: "mysql_update link_up i stmt = stmt"
  by (simp add: mysql_update_def)

section \<open>Statements\<close>

text \<open>
  Comparison of a \<^verbatim>\<open>CHAR\<close> column with the default collation of the schema's character set
  ignores the case of letters.
\<close>

definition fold_case :: "char \<Rightarrow> char" where
  "fold_case c = (if 97 \<le> (of_char c :: nat) \<and> (of_char c :: nat) \<le> 122 then char_of ((of_char c :: nat) - 32) else c)"

definition same_text :: "string \<Rightarrow> string \<Rightarrow> bool" where
  "same_text s t \<longleftrightarrow> map fold_case s = map fold_case t"

definition select_application_id :: "tables \<Rightarrow> string \<Rightarrow> u64 list" where
  "select_application_id T AID = [app_row_id a. a \<leftarrow> applications T, same_text (app_row_AID a) AID]"

definition select_attestators :: "tables \<Rightarrow> string \<Rightarrow> u64 \<Rightarrow> (application_row \<times> attestator_row) list" where
  "select_attestators T AID number =
     [(a, t). t \<leftarrow> attestators T, a \<leftarrow> applications T,
        att_application t = app_row_id a \<and> same_text (app_row_AID a) AID \<and> att_number t = number]"

text \<open>The prepared data of an attestator that no request has used.\<close>

definition select_unused :: "tables \<Rightarrow> u64 \<Rightarrow> prepared_row list" where
  "select_unused T attestator_id =
     [p. p \<leftarrow> prepared T, a \<leftarrow> attestators T,
        att_id a = attestator_id \<and> att_id a = pd_attestator p \<and> pd_id p \<notin> set (map rq_prepared (requests T))]"

definition select_unused_by_area :: "tables \<Rightarrow> u64 \<Rightarrow> u16 \<Rightarrow> prepared_row list" where
  "select_unused_by_area T attestator_id area = [p. p \<leftarrow> select_unused T attestator_id, pd_area p = area]"

definition select_startup_areas :: "tables \<Rightarrow> u64 \<Rightarrow> u16 list" where
  "select_startup_areas T attestator_id = [m. (a, m) \<leftarrow> startup_areas T, a = attestator_id]"

definition select_data_to_verify :: "tables \<Rightarrow> u64 \<Rightarrow> (prepared_row \<times> ra_request) list" where
  "select_data_to_verify T request_id =
     [(p, r). r \<leftarrow> requests T, p \<leftarrow> prepared T, pd_id p = rq_prepared r \<and> rq_id r = request_id]"

definition select_active_sessions :: "tables \<Rightarrow> u64 \<Rightarrow> u64 list" where
  "select_active_sessions T attestator_id =
     [ses_id s. s \<leftarrow> sessions T, ses_attestator s = attestator_id \<and> ses_active s]"

text \<open>
  Insertions: the new row gets the next number of its table; a foreign key without its target
  makes the statement fail, and so do a used up counter and a nonce too long for its column
  (strict mode).
\<close>

definition insert_request :: "tables \<Rightarrow> u64 \<Rightarrow> u64 \<Rightarrow> u64 \<Rightarrow> u16 \<Rightarrow> bool \<Rightarrow> tables option" where
  "insert_request T now prepared_data_id session_id validity is_startup =
     (if prepared_data_id \<in> set (map pd_id (prepared T)) \<and> session_id \<in> set (map ses_id (sessions T))
         \<and> next_request T < 2 ^ 64
      then Some (T\<lparr>requests := requests T @
                     [\<lparr>rq_id = of_nat (next_request T), rq_prepared = prepared_data_id,
                       rq_session = session_id, rq_send_time = now, rq_response_time = None,
                       rq_status = PENDING, rq_validity = validity, rq_startup = is_startup\<rparr>],
                   next_request := Suc (next_request T)\<rparr>)
      else None)"

definition insert_data :: "tables \<Rightarrow> u64 \<Rightarrow> u8 list \<Rightarrow> u8 list \<Rightarrow> u16 \<Rightarrow> tables option" where
  "insert_data T attestator_id nonce data area =
     (if attestator_id \<in> set (map att_id (attestators T)) \<and> length nonce < 2 ^ 8
         \<and> next_prepared T < 2 ^ 64
      then Some (T\<lparr>prepared := prepared T @
                     [\<lparr>pd_id = of_nat (next_prepared T), pd_attestator = attestator_id,
                       pd_nonce = nonce, pd_data = data, pd_area = area\<rparr>],
                   next_prepared := Suc (next_prepared T)\<rparr>)
      else None)"

definition insert_session :: "tables \<Rightarrow> u64 \<Rightarrow> u64 \<Rightarrow> tables option" where
  "insert_session T now attestator_id =
     (if attestator_id \<in> set (map att_id (attestators T)) \<and> next_session T < 2 ^ 64
      then Some (T\<lparr>sessions := sessions T @
                     [\<lparr>ses_id = of_nat (next_session T), ses_attestator = attestator_id,
                       ses_start = now, ses_finish = None, ses_active = True\<rparr>],
                   next_session := Suc (next_session T)\<rparr>)
      else None)"

text \<open>A session that a request refers to cannot be deleted.\<close>

definition delete_session :: "tables \<Rightarrow> u64 \<Rightarrow> tables option" where
  "delete_session T session_id =
     (if session_id \<in> set (map rq_session (requests T)) \<and> session_id \<in> set (map ses_id (sessions T))
      then None else Some (T\<lparr>sessions := filter (\<lambda>s. ses_id s \<noteq> session_id) (sessions T)\<rparr>))"

definition close_all_active_sessions :: "tables \<Rightarrow> u64 \<Rightarrow> tables" where
  "close_all_active_sessions T attestator_id =
     T\<lparr>sessions := map (\<lambda>s. if ses_attestator s = attestator_id then s\<lparr>ses_active := False\<rparr> else s) (sessions T)\<rparr>"

definition update_close_session :: "tables \<Rightarrow> u64 \<Rightarrow> u64 \<Rightarrow> tables" where
  "update_close_session T now session_id =
     T\<lparr>sessions := map (\<lambda>s. if ses_id s = session_id
                              then s\<lparr>ses_finish := Some now, ses_active := False\<rparr> else s) (sessions T)\<rparr>"

definition update_reaction :: "tables \<Rightarrow> u64 \<Rightarrow> reaction_status \<Rightarrow> tables" where
  "update_reaction T application_id status =
     T\<lparr>reactions := map (\<lambda>r. if react_application r = application_id
                               then r\<lparr>react_status := status\<rparr> else r) (reactions T)\<rparr>"

section \<open>The trigger on requests\<close>

text \<open>
  The trigger \<^verbatim>\<open>startup_attestation\<close> runs after every update of a request. When a start-up
  request has become a success and the application's reaction status is unknown, it counts, over
  the attestators of the application that have start-up areas, the areas and the successful
  start-up requests of active sessions, and clears the reaction status when the sums agree.
  A scalar subquery is NULL without a row and an error with several.
\<close>

definition request_applications :: "tables \<Rightarrow> u64 \<Rightarrow> u64 list" where
  "request_applications T request_id =
     [app_row_id a. r \<leftarrow> requests T, p \<leftarrow> prepared T, t \<leftarrow> attestators T, a \<leftarrow> applications T,
        rq_id r = request_id \<and> rq_prepared r = pd_id p \<and> pd_attestator p = att_id t
        \<and> att_application t = app_row_id a]"

definition request_reactions :: "tables \<Rightarrow> u64 \<Rightarrow> reaction_status list" where
  "request_reactions T request_id =
     [react_status x. i \<leftarrow> request_applications T request_id, x \<leftarrow> reactions T, react_application x = i]"

definition should_attest :: "tables \<Rightarrow> u64 \<Rightarrow> nat" where
  "should_attest T attestator_id = length (select_startup_areas T attestator_id)"

definition valid_startup :: "tables \<Rightarrow> u64 \<Rightarrow> nat" where
  "valid_startup T attestator_id =
     length [r. s \<leftarrow> sessions T, r \<leftarrow> requests T,
       ses_attestator s = attestator_id \<and> ses_id s = rq_session r \<and> rq_status r = SUCCESS
       \<and> rq_startup r \<and> ses_active s]"

definition startup_attestators :: "tables \<Rightarrow> u64 \<Rightarrow> u64 list" where
  "startup_attestators T application_id =
     [att_id t. t \<leftarrow> attestators T, att_application t = application_id \<and> 0 < should_attest T (att_id t)]"

definition application_proved :: "tables \<Rightarrow> u64 \<Rightarrow> bool" where
  "application_proved T application_id \<longleftrightarrow>
     (let ts = startup_attestators T application_id in
      (\<exists>t\<in>set ts. 0 < valid_startup T t)
      \<and> sum_list (map (should_attest T) ts) = sum_list (map (valid_startup T) ts))"

definition startup_attestation :: "tables \<Rightarrow> ra_request \<Rightarrow> tables option" where
  "startup_attestation T new =
     (if rq_startup new \<and> rq_status new = SUCCESS
      then (case request_reactions T (rq_id new) of
              [] \<Rightarrow> Some T
            | [status] \<Rightarrow>
                if status = REACTION_STATUS_UNKNOWN
                then (case request_applications T (rq_id new) of
                        [application_id] \<Rightarrow>
                          if application_proved T application_id
                          then Some (update_reaction T application_id REACTION_STATUS_NONE) else Some T
                      | _ \<Rightarrow> None)
                else Some T
            | _ \<Rightarrow> None)
      else Some T)"

text \<open>The update of the request \<open>request_id\<close>, a primary key, with its trigger.\<close>

definition set_request :: "tables \<Rightarrow> u64 \<Rightarrow> request_status \<Rightarrow> u32 \<Rightarrow> tables" where
  "set_request T request_id status response_time =
     T\<lparr>requests := map (\<lambda>r. if rq_id r = request_id
          then r\<lparr>rq_response_time := Some response_time, rq_status := status\<rparr> else r) (requests T)\<rparr>"

definition update_request :: "tables \<Rightarrow> u64 \<Rightarrow> request_status \<Rightarrow> u32 \<Rightarrow> tables option" where
  "update_request T request_id status response_time =
     (let T' = set_request T request_id status response_time in
      case find (\<lambda>r. rq_id r = request_id) (requests T') of
        None \<Rightarrow> Some T'
      | Some new \<Rightarrow> startup_attestation T' new)"

section \<open>Services\<close>

text \<open>An output parameter is an argument: what it holds when the service does not assign it.\<close>

definition ra_db_get_application_id :: "db_link \<Rightarrow> tables \<Rightarrow> string \<Rightarrow> u64 \<Rightarrow> u64 \<times> ra_result" where
  "ra_db_get_application_id l T AID application_id = connected l
     (if link_query l 0
      then (case select_application_id T AID of
              row # _ \<Rightarrow> (row, RA_SUCCESS)
            | [] \<Rightarrow> (application_id, RA_ERROR_DB_QUERY))
      else (application_id, RA_ERROR_DB_MYSQL)) application_id"

definition ra_db_get_attestator_id :: "db_link \<Rightarrow> tables \<Rightarrow> string \<Rightarrow> u64 \<Rightarrow> u64 \<Rightarrow> u64 \<times> ra_result" where
  "ra_db_get_attestator_id l T AID number attestator_id = connected l
     (if link_query l 0
      then (case select_attestators T AID number of
              (a, t) # _ \<Rightarrow> (att_id t, RA_SUCCESS)
            | [] \<Rightarrow> (attestator_id, RA_ERROR_DB_QUERY))
      else (attestator_id, RA_ERROR_DB_MYSQL)) attestator_id"

record attestation_parameters =
  par_application :: u64
  par_attestator :: u64
  par_sleep_avg :: u32
  par_sleep_var :: u32

definition ra_db_get_attestation_parameters ::
  "db_link \<Rightarrow> tables \<Rightarrow> string \<Rightarrow> u64 \<Rightarrow> attestation_parameters \<Rightarrow> attestation_parameters \<times> ra_result" where
  "ra_db_get_attestation_parameters l T AID number out = connected l
     (if link_query l 0
      then (case select_attestators T AID number of
              (a, t) # _ \<Rightarrow> (\<lparr>par_application = app_row_id a, par_attestator = att_id t,
                              par_sleep_avg = att_sleep_avg t, par_sleep_var = att_sleep_var t\<rparr>, RA_SUCCESS)
            | [] \<Rightarrow> (out, RA_ERROR_DB_QUERY))
      else (out, RA_ERROR_DB_MYSQL)) out"

definition ra_db_finalize_request ::
  "db_link \<Rightarrow> tables \<Rightarrow> u64 \<Rightarrow> request_status \<Rightarrow> u32 \<Rightarrow> tables \<times> ra_result" where
  "ra_db_finalize_request l T request_id status response_time = connected l
     (case mysql_update l 0 (update_request T request_id status response_time) of
        Some T' \<Rightarrow> (T', RA_SUCCESS) | None \<Rightarrow> (T, RA_ERROR_DB_MYSQL)) T"

text \<open>
  The two allocations are for the nonce and the data. When the first fails the code leaves the
  result at \<^verbatim>\<open>RA_SUCCESS\<close>. When the second fails, the cleanup frees the address of the caller's
  variable instead of the buffer it points to.
\<close>

definition ra_db_get_data_to_verify ::
  "bool \<Rightarrow> bool \<Rightarrow> db_link \<Rightarrow> tables \<Rightarrow> u64 \<Rightarrow> request_row \<Rightarrow> (request_row \<times> ra_result) run" where
  "ra_db_get_data_to_verify nonce_ok data_ok l T request_id out =
     (let out0 = out\<lparr>row_nonce := None, row_data := None\<rparr>;
          (out1, ret) = connected l
            (if link_query l 0
             then (case select_data_to_verify T request_id of
                     [] \<Rightarrow> (out0, RA_ERROR_DB_QUERY)
                   | (p, r) # _ \<Rightarrow>
                       let sized = out0\<lparr>row_nonce_size := of_nat (length (pd_nonce p))\<rparr> in
                       if \<not> nonce_ok then (sized, RA_SUCCESS)
                       else
                         let nonce = sized\<lparr>row_nonce := Some (pd_nonce p),
                                           row_data_size := of_nat (length (pd_data p))\<rparr> in
                         if \<not> data_ok then (nonce, RA_ERROR_MEMORY)
                         else (nonce\<lparr>row_data := Some (pd_data p), row_send_time := rq_send_time r,
                                     row_status := rq_status r, row_validity := rq_validity r\<rparr>, RA_SUCCESS))
             else (out0, RA_ERROR_DB_MYSQL)) out0
      in if ret \<noteq> RA_SUCCESS \<and> (row_data out1 \<noteq> None \<or> row_nonce out1 \<noteq> None)
         then Inl Bad_Free else Inr (out1, ret))"

text \<open>
  The aggregate query has one row: the number of unused nonces and, when there is one, the columns
  of a row that the server chooses (\<open>pick\<close>).
\<close>

record valid_nonce =
  vn_prepared_id :: u64
  vn_nonce :: "u8 list option"
  vn_size :: u32
  vn_left :: u32
  vn_area :: u16

type_synonym row_choice = "prepared_row list \<Rightarrow> prepared_row"

definition chooses_row :: "row_choice \<Rightarrow> bool" where
  "chooses_row pick \<longleftrightarrow> (\<forall>rows. rows \<noteq> [] \<longrightarrow> pick rows \<in> set rows)"

lemma hd_chooses_row [simp]: "chooses_row hd"
  by (simp add: chooses_row_def)

definition ra_db_get_valid_nonce ::
  "row_choice \<Rightarrow> bool \<Rightarrow> db_link \<Rightarrow> tables \<Rightarrow> u64 \<Rightarrow> valid_nonce \<Rightarrow> valid_nonce \<times> ra_result" where
  "ra_db_get_valid_nonce pick malloc_ok l T attestator_id out =
     (let out0 = out\<lparr>vn_nonce := None\<rparr> in connected l
       (if link_query l 0
        then let rows = select_unused T attestator_id;
                 row = pick rows;
                 out1 = out0\<lparr>vn_left := of_nat (length rows)\<rparr> in
          if vn_left out1 \<noteq> 0
          then let out2 = out1\<lparr>vn_size := of_nat (length (pd_nonce row)), vn_prepared_id := pd_id row,
                               vn_area := pd_area row\<rparr> in
            if malloc_ok then (out2\<lparr>vn_nonce := Some (pd_nonce row)\<rparr>, RA_SUCCESS)
            else (out2, RA_ERROR_MEMORY)
          else (out1, RA_ERROR_DB_NO_DATA)
        else (out0, RA_ERROR_DB_MYSQL)) out0)"

definition ra_db_get_valid_nonce_by_area_label ::
  "row_choice \<Rightarrow> bool \<Rightarrow> db_link \<Rightarrow> tables \<Rightarrow> u64 \<Rightarrow> u16 \<Rightarrow> valid_nonce \<Rightarrow> valid_nonce \<times> ra_result" where
  "ra_db_get_valid_nonce_by_area_label pick malloc_ok l T attestator_id area out =
     (let out0 = out\<lparr>vn_nonce := None\<rparr> in connected l
       (if link_query l 0
        then let rows = select_unused_by_area T attestator_id area; row = pick rows in
          if rows \<noteq> []
          then let out2 = out0\<lparr>vn_size := of_nat (length (pd_nonce row)), vn_prepared_id := pd_id row\<rparr> in
            if malloc_ok then (out2\<lparr>vn_nonce := Some (pd_nonce row)\<rparr>, RA_SUCCESS)
            else (out2, RA_ERROR_MEMORY)
          else (out0, RA_ERROR_DB_NO_DATA)
        else (out0, RA_ERROR_DB_MYSQL)) out0)"

text \<open>
  The labels of the areas to attest at start-up; \<open>labels\<close> is what the caller's pointer holds
  before (\<open>None\<close> for NULL). On an error the code frees it when it is not NULL, although nothing was
  allocated.
\<close>

definition ra_db_get_area_labels_to_attest_at_startup ::
  "bool \<Rightarrow> db_link \<Rightarrow> tables \<Rightarrow> u64 \<Rightarrow> u16 list option \<Rightarrow> u16
     \<Rightarrow> (u16 list option \<times> u16 \<times> ra_result) run" where
  "ra_db_get_area_labels_to_attest_at_startup malloc_ok l T attestator_id labels labels_count =
     (let ((labels1, count1), ret) = connected l
        (if link_query l 0
         then let rows = select_startup_areas T attestator_id in
           if rows \<noteq> []
           then (if malloc_ok then ((Some rows, of_nat (length rows)), RA_SUCCESS)
                 else ((labels, labels_count), RA_ERROR_MEMORY))
           else ((labels, 0), RA_SUCCESS)
         else ((labels, labels_count), RA_ERROR_DB_MYSQL)) (labels, labels_count)
      in if ret \<noteq> RA_SUCCESS \<and> labels1 \<noteq> None then Inl Bad_Free else Inr (labels1, count1, ret))"

definition ra_db_set_reaction_status ::
  "db_link \<Rightarrow> tables \<Rightarrow> u64 \<Rightarrow> reaction_status \<Rightarrow> tables \<times> ra_result" where
  "ra_db_set_reaction_status l T application_id status = connected l
     (case mysql_update l 0 (Some (update_reaction T application_id status)) of
        Some T' \<Rightarrow> (T', RA_SUCCESS) | None \<Rightarrow> (T, RA_ERROR_DB_MYSQL)) T"

subsection \<open>Sessions\<close>

definition ra_db_start_session ::
  "db_link \<Rightarrow> tables \<Rightarrow> u64 \<Rightarrow> u64 \<Rightarrow> u64 \<Rightarrow> (tables \<times> u64) \<times> ra_result" where
  "ra_db_start_session l T now attestator_id session_id = connected l
     (case mysql_update l 0 (Some (close_all_active_sessions T attestator_id)) of
        None \<Rightarrow> ((T, session_id), RA_ERROR_DB_MYSQL)
      | Some T1 \<Rightarrow>
          (case mysql_update l 1 (insert_session T1 now attestator_id) of
             None \<Rightarrow> ((T1, session_id), RA_ERROR_DB_MYSQL)
           | Some T2 \<Rightarrow> ((T2, of_nat (next_session T1)), RA_SUCCESS))) (T, session_id)"

definition ra_db_revoke_session :: "db_link \<Rightarrow> tables \<Rightarrow> u64 \<Rightarrow> tables \<times> ra_result" where
  "ra_db_revoke_session l T session_id = connected l
     (case mysql_update l 0 (delete_session T session_id) of
        Some T' \<Rightarrow> (T', RA_SUCCESS) | None \<Rightarrow> (T, RA_ERROR_DB_MYSQL)) T"

definition ra_db_close_session :: "db_link \<Rightarrow> tables \<Rightarrow> u64 \<Rightarrow> u64 \<Rightarrow> tables \<times> ra_result" where
  "ra_db_close_session l T now session_id = connected l
     (case mysql_update l 0 (Some (update_close_session T now session_id)) of
        Some T' \<Rightarrow> (T', RA_SUCCESS) | None \<Rightarrow> (T, RA_ERROR_DB_MYSQL)) T"

definition ra_db_get_active_session :: "db_link \<Rightarrow> tables \<Rightarrow> u64 \<Rightarrow> u64 \<Rightarrow> u64 \<times> ra_result" where
  "ra_db_get_active_session l T attestator_id session_id = connected l
     (if link_query l 0
      then (case select_active_sessions T attestator_id of
              [row] \<Rightarrow> (row, RA_SUCCESS)
            | _ \<Rightarrow> (session_id, RA_ERROR_SESSION_TABLE_ANOMALY))
      else (session_id, RA_ERROR_DB_QUERY)) session_id"

section \<open>The invariant of the tables\<close>

definition keys_below :: "u64 list \<Rightarrow> nat \<Rightarrow> bool" where
  "keys_below ks n \<longleftrightarrow> distinct ks \<and> (\<forall>k\<in>set ks. unat k < n)"

lemma keys_below_fresh: "keys_below ks n \<Longrightarrow> n < 2 ^ 64 \<Longrightarrow> of_nat n \<notin> set ks"
  by (auto simp: keys_below_def unat_of_nat take_bit_nat_eq_self)

lemma keys_below_add:
  "keys_below ks n \<Longrightarrow> n < 2 ^ 64 \<Longrightarrow> keys_below (ks @ [of_nat n]) (Suc n)"
  using keys_below_fresh [of ks n]
  by (auto simp: keys_below_def unat_of_nat take_bit_nat_eq_self less_Suc_eq)

lemma keys_below_filter: "keys_below (map f xs) n \<Longrightarrow> keys_below (map f (filter P xs)) n"
  by (auto simp: keys_below_def distinct_map inj_on_def)

text \<open>
  Primary keys and foreign keys, at most one active session for each attestator, and no prepared
  data used by two requests.
\<close>

definition db_keys :: "tables \<Rightarrow> bool" where
  "db_keys T \<longleftrightarrow>
     keys_below (map pd_id (prepared T)) (next_prepared T)
     \<and> keys_below (map rq_id (requests T)) (next_request T)
     \<and> keys_below (map ses_id (sessions T)) (next_session T)
     \<and> distinct (map att_id (attestators T))
     \<and> (\<forall>r\<in>set (requests T). rq_prepared r \<in> set (map pd_id (prepared T))
                              \<and> rq_session r \<in> set (map ses_id (sessions T)))
     \<and> (\<forall>p\<in>set (prepared T). pd_attestator p \<in> set (map att_id (attestators T)))
     \<and> (\<forall>s\<in>set (sessions T). ses_attestator s \<in> set (map att_id (attestators T)))"

definition one_session :: "tables \<Rightarrow> bool" where
  "one_session T \<longleftrightarrow> (\<forall>a. length (select_active_sessions T a) \<le> 1)"

definition nonces_once :: "tables \<Rightarrow> bool" where
  "nonces_once T \<longleftrightarrow> distinct (map rq_prepared (requests T))"

definition db_ok :: "tables \<Rightarrow> bool" where
  "db_ok T \<longleftrightarrow> db_keys T \<and> one_session T \<and> nonces_once T"

text \<open>A map over a table that keeps the key columns.\<close>

lemma map_keys [simp]:
  "map pd_id (prepared (set_request T i st rt)) = map pd_id (prepared T)"
  "map rq_id (requests (set_request T i st rt)) = map rq_id (requests T)"
  "map rq_prepared (requests (set_request T i st rt)) = map rq_prepared (requests T)"
  "map rq_session (requests (set_request T i st rt)) = map rq_session (requests T)"
  "map ses_id (sessions (close_all_active_sessions T a)) = map ses_id (sessions T)"
  "map ses_id (sessions (update_close_session T now i)) = map ses_id (sessions T)"
  "map ses_attestator (sessions (close_all_active_sessions T a)) = map ses_attestator (sessions T)"
  "map ses_attestator (sessions (update_close_session T now i)) = map ses_attestator (sessions T)"
  by (auto simp: set_request_def close_all_active_sessions_def update_close_session_def)

lemma db_keys_iff:
  "db_keys T \<longleftrightarrow>
     keys_below (map pd_id (prepared T)) (next_prepared T)
     \<and> keys_below (map rq_id (requests T)) (next_request T)
     \<and> keys_below (map ses_id (sessions T)) (next_session T)
     \<and> distinct (map att_id (attestators T))
     \<and> set (map rq_prepared (requests T)) \<subseteq> set (map pd_id (prepared T))
     \<and> set (map rq_session (requests T)) \<subseteq> set (map ses_id (sessions T))
     \<and> set (map pd_attestator (prepared T)) \<subseteq> set (map att_id (attestators T))
     \<and> set (map ses_attestator (sessions T)) \<subseteq> set (map att_id (attestators T))"
  by (auto simp: db_keys_def)

lemma table_fields [simp]:
  "prepared (set_request T i st rt) = prepared T" "sessions (set_request T i st rt) = sessions T"
  "attestators (set_request T i st rt) = attestators T"
  "next_prepared (set_request T i st rt) = next_prepared T"
  "next_request (set_request T i st rt) = next_request T"
  "next_session (set_request T i st rt) = next_session T"
  by (simp_all add: set_request_def)

lemma session_fields [simp]:
  "prepared (close_all_active_sessions T a) = prepared T" "requests (close_all_active_sessions T a) = requests T"
  "attestators (close_all_active_sessions T a) = attestators T"
  "next_prepared (close_all_active_sessions T a) = next_prepared T"
  "next_request (close_all_active_sessions T a) = next_request T"
  "next_session (close_all_active_sessions T a) = next_session T"
  "prepared (update_close_session T now i) = prepared T" "requests (update_close_session T now i) = requests T"
  "attestators (update_close_session T now i) = attestators T"
  "next_prepared (update_close_session T now i) = next_prepared T"
  "next_request (update_close_session T now i) = next_request T"
  "next_session (update_close_session T now i) = next_session T"
  by (simp_all add: close_all_active_sessions_def update_close_session_def)

lemma reaction_fields [simp]:
  "prepared (update_reaction T i st) = prepared T" "requests (update_reaction T i st) = requests T"
  "sessions (update_reaction T i st) = sessions T" "attestators (update_reaction T i st) = attestators T"
  "next_prepared (update_reaction T i st) = next_prepared T"
  "next_request (update_reaction T i st) = next_request T"
  "next_session (update_reaction T i st) = next_session T"
  by (simp_all add: update_reaction_def)

lemma select_active_sessions_filter:
  "select_active_sessions T a = map ses_id (filter (\<lambda>s. ses_attestator s = a \<and> ses_active s) (sessions T))"
  by (simp add: select_active_sessions_def concat_map_guard)

section \<open>Preservation by the statements\<close>

lemma one_session_map:
  assumes "one_session T" and "sessions T' = map f (sessions T)"
    and "\<And>s. ses_attestator (f s) = ses_attestator s"
    and "\<And>s. ses_active (f s) \<Longrightarrow> ses_active s"
  shows "one_session T'"
  unfolding one_session_def
proof
  fix a
  have "length (filter (\<lambda>s. ses_attestator s = a \<and> ses_active (f s)) (sessions T)) \<le> 1"
    by (rule length_filter_le_one [where Q = "\<lambda>s. ses_attestator s = a \<and> ses_active s"])
      (use assms in \<open>auto simp: one_session_def select_active_sessions_filter\<close>)
  then show "length (select_active_sessions T' a) \<le> 1"
    using assms(2,3) by (simp add: select_active_sessions_filter filter_map comp_def)
qed

lemma set_request_ok: "db_ok T \<Longrightarrow> db_ok (set_request T i st rt)"
  by (simp add: db_ok_def db_keys_iff one_session_def nonces_once_def select_active_sessions_filter
      del: set_map)

lemma update_reaction_ok [inv_intros]: "db_ok T \<Longrightarrow> db_ok (update_reaction T i st)"
  by (simp add: db_ok_def db_keys_iff one_session_def nonces_once_def select_active_sessions_filter
      del: set_map)

lemma startup_attestation_cases:
  "startup_attestation T new = Some T' \<Longrightarrow> T' = T \<or> (\<exists>a. T' = update_reaction T a REACTION_STATUS_NONE)"
  by (auto simp: startup_attestation_def split: if_splits list.splits)

lemma update_request_cases:
  assumes "update_request T i st rt = Some T'"
  obtains "T' = set_request T i st rt"
  | a where "T' = update_reaction (set_request T i st rt) a REACTION_STATUS_NONE"
  using assms startup_attestation_cases by (fastforce simp: update_request_def Let_def split: option.splits)

lemma update_request_ok [inv_intros]: "db_ok T \<Longrightarrow> update_request T i st rt = Some T' \<Longrightarrow> db_ok T'"
  by (erule update_request_cases) (auto intro: set_request_ok update_reaction_ok)

lemma close_all_ok [inv_intros]:
  assumes "db_ok T"
  shows "db_ok (close_all_active_sessions T a)"
proof -
  have "one_session (close_all_active_sessions T a)"
    by (rule one_session_map [of T _ "\<lambda>s. if ses_attestator s = a then s\<lparr>ses_active := False\<rparr> else s"])
      (use assms in \<open>auto simp: db_ok_def close_all_active_sessions_def split: if_splits\<close>)
  then show ?thesis
    using assms by (simp add: db_ok_def db_keys_iff nonces_once_def del: set_map)
qed

lemma update_close_session_ok [inv_intros]:
  assumes "db_ok T"
  shows "db_ok (update_close_session T now i)"
proof -
  have "one_session (update_close_session T now i)"
    by (rule one_session_map [of T _
          "\<lambda>s. if ses_id s = i then s\<lparr>ses_finish := Some now, ses_active := False\<rparr> else s"])
      (use assms in \<open>auto simp: db_ok_def update_close_session_def split: if_splits\<close>)
  then show ?thesis
    using assms by (simp add: db_ok_def db_keys_iff nonces_once_def del: set_map)
qed

lemma insert_request_ok [inv_intros]:
  assumes "db_ok T" and "insert_request T now i s v b = Some T'" and "i \<notin> set (map rq_prepared (requests T))"
  shows "db_ok T'"
  using assms keys_below_add [of "map rq_id (requests T)" "next_request T"]
  by (auto simp: insert_request_def db_ok_def db_keys_def one_session_def nonces_once_def
      select_active_sessions_filter split: if_splits)

lemma insert_data_ok [inv_intros]:
  assumes "db_ok T" and "insert_data T a n d m = Some T'"
  shows "db_ok T'"
  using assms keys_below_add [of "map pd_id (prepared T)" "next_prepared T"]
  by (auto simp: insert_data_def db_ok_def db_keys_def one_session_def nonces_once_def
      select_active_sessions_filter split: if_splits)

lemma close_all_none_active [simp]: "select_active_sessions (close_all_active_sessions T a) a = []"
  by (auto simp: select_active_sessions_filter close_all_active_sessions_def filter_map filter_empty_conv)

lemma close_all_others:
  "b \<noteq> a \<Longrightarrow> select_active_sessions (close_all_active_sessions T a) b = select_active_sessions T b"
  unfolding select_active_sessions_filter close_all_active_sessions_def
  by (simp add: filter_map comp_def) (rule map_cong, auto intro: filter_cong)

lemma insert_session_active:
  assumes "insert_session T now a = Some T'"
  shows "select_active_sessions T' b =
    select_active_sessions T b @ (if a = b then [of_nat (next_session T)] else [])"
  using assms by (auto simp: insert_session_def select_active_sessions_filter split: if_splits)

lemma insert_session_ok [inv_intros]:
  assumes "db_ok T" and "insert_session T now a = Some T'" and "select_active_sessions T a = []"
  shows "db_ok T'"
proof -
  have "one_session T'"
    using assms(1,3) by (auto simp: one_session_def insert_session_active [OF assms(2)] db_ok_def)
  then show ?thesis
    using assms keys_below_add [of "map ses_id (sessions T)" "next_session T"]
    by (auto simp: insert_session_def db_ok_def db_keys_def nonces_once_def split: if_splits)
qed

lemma delete_session_ok [inv_intros]:
  assumes "db_ok T" and "delete_session T i = Some T'"
  shows "db_ok T'"
proof -
  have "one_session T'"
    unfolding one_session_def
  proof
    fix a
    have "length (filter (\<lambda>s. ses_id s \<noteq> i \<and> ses_attestator s = a \<and> ses_active s) (sessions T)) \<le> 1"
      by (rule length_filter_le_one [where Q = "\<lambda>s. ses_attestator s = a \<and> ses_active s"])
        (use assms(1) in \<open>auto simp: db_ok_def one_session_def select_active_sessions_filter\<close>)
    then show "length (select_active_sessions T' a) \<le> 1"
      using assms(2)
      by (auto simp: delete_session_def select_active_sessions_filter conj_commute conj_left_commute split: if_splits)
  qed
  moreover have "set (map rq_session (requests T)) \<subseteq> set (map ses_id (filter (\<lambda>s. ses_id s \<noteq> i) (sessions T)))"
  proof -
    have "set (map ses_id (filter (\<lambda>s. ses_id s \<noteq> i) (sessions T))) = set (map ses_id (sessions T)) - {i}"
      by auto
    moreover have "set (map rq_session (requests T)) \<subseteq> set (map ses_id (sessions T))"
      using assms(1) by (simp add: db_ok_def db_keys_iff del: set_map)
    moreover from this have "i \<notin> set (map rq_session (requests T))"
      using assms(2) by (auto simp: delete_session_def simp del: set_map split: if_splits)
    ultimately show ?thesis by blast
  qed
  moreover have "T' = T\<lparr>sessions := filter (\<lambda>s. ses_id s \<noteq> i) (sessions T)\<rparr>"
    using assms(2) by (simp add: delete_session_def split: if_splits)
  ultimately show ?thesis
    using assms(1) keys_below_filter [of ses_id "sessions T" "next_session T" "\<lambda>s. ses_id s \<noteq> i"]
    by (auto simp: db_ok_def db_keys_iff nonces_once_def)
qed

section \<open>What the services do\<close>

lemma set_select_unused:
  "set (select_unused T a) = {p \<in> set (prepared T). pd_attestator p = a
     \<and> a \<in> set (map att_id (attestators T)) \<and> pd_id p \<notin> set (map rq_prepared (requests T))}"
  by (auto simp: select_unused_def)

lemma set_select_unused_by_area:
  "set (select_unused_by_area T a m) = {p \<in> set (select_unused T a). pd_area p = m}"
  by (auto simp: select_unused_by_area_def)

definition offers_unused :: "tables \<Rightarrow> u64 \<Rightarrow> valid_nonce \<Rightarrow> prepared_row \<Rightarrow> bool" where
  "offers_unused T a v p \<longleftrightarrow> p \<in> set (select_unused T a) \<and> vn_prepared_id v = pd_id p
     \<and> vn_nonce v = Some (pd_nonce p) \<and> vn_size v = of_nat (length (pd_nonce p))"

lemma valid_nonce_offers:
  assumes "chooses_row pick" and "ra_db_get_valid_nonce pick ok l T a out = (v, RA_SUCCESS)"
  shows "\<exists>p. offers_unused T a v p \<and> vn_area v = pd_area p"
proof -
  have "select_unused T a \<noteq> []"
    using assms(2) by (auto simp: ra_db_get_valid_nonce_def connected_def Let_def split: if_splits)
  then have "pick (select_unused T a) \<in> set (select_unused T a)"
    using assms(1) by (simp add: chooses_row_def)
  then show ?thesis
    using assms(2) by (auto simp: ra_db_get_valid_nonce_def connected_def Let_def offers_unused_def split: if_splits)
qed

lemma valid_nonce_by_area_offers:
  assumes "chooses_row pick" and "ra_db_get_valid_nonce_by_area_label pick ok l T a m out = (v, RA_SUCCESS)"
  shows "\<exists>p. offers_unused T a v p \<and> pd_area p = m"
proof -
  have "select_unused_by_area T a m \<noteq> []"
    using assms(2)
    by (auto simp: ra_db_get_valid_nonce_by_area_label_def connected_def Let_def split: if_splits)
  then have "pick (select_unused_by_area T a m) \<in> set (select_unused_by_area T a m)"
    using assms(1) by (simp add: chooses_row_def)
  then show ?thesis
    using assms(2)
    by (auto simp: ra_db_get_valid_nonce_by_area_label_def connected_def Let_def offers_unused_def
        set_select_unused_by_area split: if_splits)
qed

lemma offers_unused_fresh: "offers_unused T a v p \<Longrightarrow> vn_prepared_id v \<notin> set (map rq_prepared (requests T))"
  by (auto simp: offers_unused_def set_select_unused)

lemma start_session_ok [inv_intros]:
  assumes "db_ok T" and "ra_db_start_session l T now a s0 = ((T', s), r)"
  shows "db_ok T'"
  using assms insert_session_ok [OF close_all_ok [OF assms(1), of a], of now a]
  by (auto simp: ra_db_start_session_def connected_def mysql_update_def
      intro: close_all_ok split: if_splits option.splits)

lemma revoke_session_ok [inv_intros]: "db_ok T \<Longrightarrow> ra_db_revoke_session l T s = (T', r) \<Longrightarrow> db_ok T'"
  by (auto simp: ra_db_revoke_session_def connected_def mysql_update_def
      intro: delete_session_ok split: if_splits option.splits)

lemma close_session_ok [inv_intros]: "db_ok T \<Longrightarrow> ra_db_close_session l T now s = (T', r) \<Longrightarrow> db_ok T'"
  by (auto simp: ra_db_close_session_def connected_def mysql_update_def
      intro: update_close_session_ok split: if_splits option.splits)

lemma finalize_request_ok [inv_intros]:
  "db_ok T \<Longrightarrow> ra_db_finalize_request l T i st rt = (T', r) \<Longrightarrow> db_ok T'"
  by (auto simp: ra_db_finalize_request_def connected_def mysql_update_def
      intro: update_request_ok split: if_splits option.splits)

lemma set_reaction_ok [inv_intros]: "db_ok T \<Longrightarrow> ra_db_set_reaction_status l T i st = (T', r) \<Longrightarrow> db_ok T'"
  by (auto simp: ra_db_set_reaction_status_def connected_def mysql_update_def
      intro: update_reaction_ok split: if_splits option.splits)

text \<open>A session that was started is new and the only active one of its attestator.\<close>

lemma started_session:
  assumes "db_ok T" and "ra_db_start_session l T now a s0 = ((T', s), RA_SUCCESS)"
  shows "s \<notin> set (map ses_id (sessions T))"
    and "select_active_sessions T' b = (if b = a then [s] else select_active_sessions T b)"
proof -
  let ?C = "close_all_active_sessions T a"
  have ins: "insert_session ?C now a = Some T'" and s: "s = of_nat (next_session T)"
    and room: "next_session T < 2 ^ 64"
    using assms(2)
    by (auto simp: ra_db_start_session_def connected_def mysql_update_def insert_session_def
        split: if_splits option.splits)
  show "select_active_sessions T' b = (if b = a then [s] else select_active_sessions T b)"
    using insert_session_active [OF ins, of b] by (simp add: close_all_others s)
  show "s \<notin> set (map ses_id (sessions T))"
    using keys_below_fresh [of "map ses_id (sessions T)" "next_session T"] room assms(1)
    by (simp add: db_ok_def db_keys_def s del: set_map)
qed

lemma closed_session:
  assumes "select_active_sessions T a = [s]"
  shows "select_active_sessions (update_close_session T later s) a = []"
proof -
  have "\<forall>v\<in>set (sessions T). ses_attestator v = a \<and> ses_active v \<longrightarrow> ses_id v = s"
  proof safe
    fix v
    assume "v \<in> set (sessions T)" "a = ses_attestator v" "ses_active v"
    then have "ses_id v \<in> set (select_active_sessions T a)" by (simp add: select_active_sessions_filter)
    with assms show "ses_id v = s" by simp
  qed
  then show ?thesis
    by (auto simp: select_active_sessions_filter update_close_session_def filter_empty_conv)
qed

text \<open>C26: Starting a session closes the others of the attestator and opens exactly one, which the
  lookup finds until it is closed.\<close>

theorem ra_db_session_lifecycle:
  assumes "db_ok T" and "ra_db_start_session l T now a s0 = ((T', s), RA_SUCCESS)"
  shows "ra_db_get_active_session link_up T' a x = (s, RA_SUCCESS)
     \<and> s \<notin> set (map ses_id (sessions T))
     \<and> (\<forall>b. b \<noteq> a \<longrightarrow> select_active_sessions T' b = select_active_sessions T b)
     \<and> ra_db_get_active_session link_up (fst (ra_db_close_session link_up T' later s)) a x
         = (x, RA_ERROR_SESSION_TABLE_ANOMALY)"
  using started_session [OF assms] closed_session [of T' a s later]
  by (simp add: ra_db_get_active_session_def ra_db_close_session_def)

text \<open>Tables with one application, one attestator with a session, and one unused nonce.\<close>

definition sample_tables :: "u8 list \<Rightarrow> u8 list \<Rightarrow> tables" where
  "sample_tables nonce data =
     \<lparr>applications = [\<lparr>app_row_id = 77, app_row_AID = hex_string sample_AID\<rparr>],
      attestators = [\<lparr>att_id = 3, att_application = 77, att_number = 0, att_sleep_avg = 10, att_sleep_var = 1\<rparr>],
      startup_areas = [(3, 9)],
      prepared = [\<lparr>pd_id = 1, pd_attestator = 3, pd_nonce = nonce, pd_data = data, pd_area = 9\<rparr>],
      requests = [],
      sessions = [\<lparr>ses_id = 1, ses_attestator = 3, ses_start = 50, ses_finish = None, ses_active = True\<rparr>],
      reactions = [\<lparr>react_application = 77, react_status = REACTION_STATUS_UNKNOWN\<rparr>],
      next_prepared = 2, next_request = 4, next_session = 2\<rparr>"

lemma sample_tables_ok [simp]: "db_ok (sample_tables nonce data)"
  by (simp add: sample_tables_def db_ok_def db_keys_def keys_below_def one_session_def nonces_once_def
      select_active_sessions_def)

theorem ra_db_session_lifecycle_witness:
  "\<exists>T' s. ra_db_get_active_session link_up T' 3 0 = (s, RA_SUCCESS)
     \<and> s \<notin> set (map ses_id (sessions (sample_tables [1, 2] [3])))"
proof -
  have "\<exists>T' s. ra_db_start_session link_up (sample_tables [1, 2] [3]) 60 3 0 = ((T', s), RA_SUCCESS)"
    by (simp add: ra_db_start_session_def insert_session_def close_all_active_sessions_def sample_tables_def)
  then show ?thesis
    using ra_db_session_lifecycle [OF sample_tables_ok] by blast
qed

text \<open>C27: The nonce that the aggregate query delivers belongs to the attestator and to no request; the
  service reports missing data exactly when there is none.\<close>

theorem ra_db_get_valid_nonce_unused:
  assumes "chooses_row pick" and "length (select_unused T a) < 2 ^ 32"
    and "ra_db_get_valid_nonce pick True link_up T a out = (v, r)"
  shows "r = (if \<exists>p\<in>set (prepared T). pd_attestator p = a \<and> a \<in> set (map att_id (attestators T))
                    \<and> pd_id p \<notin> set (map rq_prepared (requests T))
              then RA_SUCCESS else RA_ERROR_DB_NO_DATA)
     \<and> unat (vn_left v) = length (select_unused T a)
     \<and> (r = RA_SUCCESS \<longrightarrow> (\<exists>p. offers_unused T a v p \<and> vn_area v = pd_area p))"
proof -
  have n: "unat (of_nat (length (select_unused T a)) :: u32) = length (select_unused T a)"
    using assms(2) by (simp add: unat_of_nat_u32)
  then have z: "(of_nat (length (select_unused T a)) :: u32) = 0 \<longleftrightarrow> select_unused T a = []"
    by (metis length_0_conv unat_0 unat_eq_zero)
  have e: "(\<exists>p\<in>set (prepared T). pd_attestator p = a
      \<and> a \<in> set (map att_id (attestators T)) \<and> pd_id p \<notin> set (map rq_prepared (requests T)))
      \<longleftrightarrow> select_unused T a \<noteq> []"
    by (auto simp: set_empty [symmetric] set_select_unused simp del: set_empty)
  have "r = (if select_unused T a = [] then RA_ERROR_DB_NO_DATA else RA_SUCCESS)
      \<and> unat (vn_left v) = length (select_unused T a)"
    using assms(3) n z by (auto simp: ra_db_get_valid_nonce_def Let_def split: if_splits)
  then show ?thesis
    unfolding e using valid_nonce_offers [OF assms(1)] assms(3) by auto
qed

theorem ra_db_get_valid_nonce_unused_witness:
  "\<exists>v. ra_db_get_valid_nonce hd True link_up (sample_tables [1, 2] [3]) 3
         \<lparr>vn_prepared_id = 0, vn_nonce = None, vn_size = 0, vn_left = 0, vn_area = 0\<rparr> = (v, RA_SUCCESS)
     \<and> vn_left v = 1"
proof -
  obtain v r where v: "ra_db_get_valid_nonce hd True link_up (sample_tables [1, 2] [3]) 3
      \<lparr>vn_prepared_id = 0, vn_nonce = None, vn_size = 0, vn_left = 0, vn_area = 0\<rparr> = (v, r)"
    by fastforce
  have "length (select_unused (sample_tables [1, 2] [3]) 3) = 1"
    by (simp add: select_unused_def sample_tables_def)
  with ra_db_get_valid_nonce_unused [OF hd_chooses_row _ v] v show ?thesis
    by (auto simp: sample_tables_def word_unat_eq_iff)
qed

text \<open>The two failing allocations of the lookup that the verifier makes.\<close>

theorem ra_db_get_data_to_verify_failures:
  assumes "select_data_to_verify T i \<noteq> []"
  shows "ra_db_get_data_to_verify True False link_up T i out = Inl Bad_Free
     \<and> (\<exists>row. ra_db_get_data_to_verify False data_ok link_up T i out = Inr (row, RA_SUCCESS)
              \<and> row_nonce row = None \<and> row_data row = None
              \<and> row_send_time row = row_send_time out \<and> row_validity row = row_validity out)"
  using assms by (cases "select_data_to_verify T i")
    (auto simp: ra_db_get_data_to_verify_def Let_def split: prod.splits)

theorem ra_db_get_data_to_verify_failures_witness:
  "\<exists>T. insert_request (sample_tables [1, 2] [3]) 100 1 1 10 False = Some T
     \<and> ra_db_get_data_to_verify True False link_up T 4 sample_row = Inl Bad_Free"
proof -
  obtain T where T: "insert_request (sample_tables [1, 2] [3]) 100 1 1 10 False = Some T"
    by (simp add: insert_request_def sample_tables_def)
  then have "select_data_to_verify T 4 \<noteq> []"
    by (auto simp: insert_request_def sample_tables_def select_data_to_verify_def)
  with ra_db_get_data_to_verify_failures T show ?thesis by blast
qed

section \<open>The processes on the database\<close>

text \<open>
  What the processes other than a serving thread do to the tables, one transaction each: the extractor
  stores prepared data, the connection listener starts, closes and revokes sessions, the verifier
  records verdicts. None of them touches a request's nonce or takes a prepared row away.
\<close>

inductive db_step :: "tables \<Rightarrow> tables \<Rightarrow> bool" where
  db_extract: "insert_data T a n d m = Some T' \<Longrightarrow> db_step T T'"
| db_start: "ra_db_start_session l T now a s0 = ((T', s), r) \<Longrightarrow> db_step T T'"
| db_close: "ra_db_close_session l T now s = (T', r) \<Longrightarrow> db_step T T'"
| db_revoke: "ra_db_revoke_session l T s = (T', r) \<Longrightarrow> db_step T T'"
| db_finalize: "ra_db_finalize_request l T i st rt = (T', r) \<Longrightarrow> db_step T T'"
| db_react: "ra_db_set_reaction_status l T i st' = (T', r) \<Longrightarrow> db_step T T'"

definition request_keys :: "tables \<Rightarrow> (u64 \<times> u64) list" where
  "request_keys T = map (\<lambda>r. (rq_id r, rq_prepared r)) (requests T)"

lemma rq_prepared_keys: "map rq_prepared (requests T) = map snd (request_keys T)"
  by (simp add: request_keys_def)

lemma db_step_ok [inv_intros]: "db_step T T' \<Longrightarrow> db_ok T \<Longrightarrow> db_ok T'"
  by (induction rule: db_step.induct) (blast intro: inv_intros)+

lemma update_request_frame:
  "update_request T i st rt = Some T' \<Longrightarrow>
     request_keys T' = request_keys T \<and> prepared T' = prepared T \<and> attestators T' = attestators T"
  by (erule update_request_cases) (auto simp: request_keys_def set_request_def)

lemma db_step_frame:
  "db_step T T' \<Longrightarrow>
     request_keys T' = request_keys T \<and> set (prepared T) \<subseteq> set (prepared T') \<and> attestators T' = attestators T"
proof (induction rule: db_step.induct)
  case (db_finalize l T i st rt T' r)
  then show ?case
    using update_request_frame [of T i st rt]
    by (auto simp: ra_db_finalize_request_def connected_def mysql_update_def split: if_splits option.splits)
qed (auto simp: insert_data_def insert_session_def delete_session_def connected_def
    mysql_update_def ra_db_start_session_def ra_db_close_session_def ra_db_revoke_session_def
    ra_db_set_reaction_status_def request_keys_def split: if_splits option.splits)

lemma db_step_unused:
  "db_step T T' \<Longrightarrow> set (select_unused T a) \<subseteq> set (select_unused T' a)"
  using db_step_frame [of T T'] by (auto simp: set_select_unused rq_prepared_keys simp del: set_map)

lemma distinct_repeated:
  assumes "distinct ps" and "\<And>p. length (filter (Q p) xs) \<le> 1"
  shows "distinct (concat (map (\<lambda>p. map (\<lambda>_. p) (filter (Q p) xs)) ps))"
  using assms(1)
proof (induction ps)
  case (Cons p ps)
  have "distinct (map (\<lambda>_. p) ys)" if "length ys \<le> 1" for ys :: "'b list"
    using that by (cases ys) auto
  with Cons assms(2) show ?case by auto
qed simp

lemma distinct_select_unused:
  assumes "db_ok T"
  shows "distinct (select_unused T a)"
proof -
  have "length (filter (\<lambda>x. att_id x = a) xs) \<le> 1" if "distinct (map att_id xs)" for xs :: "attestator_row list"
    using that by (induction xs) (auto simp: filter_empty_conv rev_image_eqI)
  then have one: "length (filter (\<lambda>x. att_id x = a) (attestators T)) \<le> 1"
    using assms by (simp add: db_ok_def db_keys_def)
  have "distinct (prepared T)"
    using assms by (simp add: db_ok_def db_keys_def keys_below_def distinct_map)
  then show ?thesis
    unfolding select_unused_def concat_map_guard
    by (rule distinct_repeated) (rule length_filter_le_one [OF _ one], simp)
qed

lemma db_steps_unused:
  "db_step\<^sup>*\<^sup>* T U \<Longrightarrow> set (select_unused T a) \<subseteq> set (select_unused U a)"
  by (induction rule: rtranclp_induct) (use db_step_unused in blast)+

lemma db_steps_more_unused:
  assumes "db_ok T" and "db_step\<^sup>*\<^sup>* T U"
  shows "length (select_unused T a) \<le> length (select_unused U a)"
proof -
  have "length (select_unused T a) = card (set (select_unused T a))"
    using distinct_select_unused [OF assms(1)] by (simp add: distinct_card)
  also have "\<dots> \<le> card (set (select_unused U a))" by (rule card_mono [OF _ db_steps_unused [OF assms(2)]]) simp
  also have "\<dots> \<le> length (select_unused U a)" by (rule card_length)
  finally show ?thesis .
qed

text \<open>Every nonce fits its column.\<close>

definition nonces_fit :: "tables \<Rightarrow> bool" where
  "nonces_fit T \<longleftrightarrow> (\<forall>p\<in>set (prepared T). length (pd_nonce p) < 2 ^ 8)"

lemma db_step_nonces_fit: "db_step T T' \<Longrightarrow> nonces_fit T \<Longrightarrow> nonces_fit T'"
proof (induction rule: db_step.induct)
  case (db_finalize l T i st rt T' r)
  then show ?case
    using update_request_frame [of T i st rt]
    by (auto simp: nonces_fit_def ra_db_finalize_request_def connected_def mysql_update_def split: if_splits option.splits)
qed (auto simp: nonces_fit_def insert_data_def insert_session_def delete_session_def connected_def
    mysql_update_def ra_db_start_session_def ra_db_close_session_def ra_db_revoke_session_def
    ra_db_set_reaction_status_def split: if_splits option.splits)

lemma db_steps_nonces_fit: "db_step\<^sup>*\<^sup>* T U \<Longrightarrow> nonces_fit T \<Longrightarrow> nonces_fit U"
  by (induction rule: rtranclp_induct) (auto intro: db_step_nonces_fit)

end
