(* ===== verification/Manager_Requests.thy ===== *)
theory Manager_Requests
  imports Complex_Main Database Verifier_Forwarder Attestator Scheduler_Queue
begin

text \<open>
  \<^verbatim>\<open>server-components/manager.c\<close>, the functions a serving thread calls: the conversion of times, the
  transaction that records and sends a request, the service of a scheduled client and the
  attestation of a client at start-up. Floating point numbers are rationals (no rounding). The
  websocket library is a parameter: whether it accepts a message.
\<close>

section \<open>Times\<close>

record timeval =
  now_sec :: int
  now_usec :: int

record timespec =
  tv_sec :: int
  tv_nsec :: int

definition time_left :: "timespec \<Rightarrow> timeval \<Rightarrow> rat" where
  "time_left timeToWait now =
     of_int (tv_sec timeToWait - now_sec now)
       + of_int (tv_nsec timeToWait - now_usec now * 1000) / 1000000000"

definition transform_time_to_sleep :: "timeval \<Rightarrow> rat \<Rightarrow> timespec" where
  "transform_time_to_sleep now secs_to_sleep =
     (let seconds = \<lfloor>secs_to_sleep\<rfloor>;
          nano_seconds = round ((secs_to_sleep - of_int \<lfloor>secs_to_sleep\<rfloor>) * 1000000000)
      in \<lparr>tv_sec = now_sec now + seconds + nano_seconds div 1000000000,
          tv_nsec = (now_usec now * 1000 + nano_seconds) mod 1000000000\<rparr>)"

text \<open>\<open>rd\<close> is the result of \<^verbatim>\<open>rand()\<close>; the arithmetic is on 32-bit unsigned integers.\<close>

definition compute_random_sleep :: "int \<Rightarrow> ra_client \<Rightarrow> rat run" where
  "compute_random_sleep rd client =
     (let sleep_avg = RA_CLI_get_sleep_avg_seconds client;
          sleep_var = RA_CLI_get_sleep_var_seconds client in
      bind_run (umod (word_of_int rd) (2 * sleep_var * 1000)) (\<lambda>r.
        Inr (of_int (uint (1000 * (sleep_avg + sleep_var) - r)) / 1000)))"

section \<open>Sending a request\<close>

text \<open>
  A message handed to the websocket library: attestator number, application id, bytes. The array
  of contexts has ten entries and is indexed with the attestator number.
\<close>

type_synonym ws_message = "u64 \<times> string \<times> u8 list"

definition MAX_ATTESTATORS_ALLOWED :: nat where "MAX_ATTESTATORS_ALLOWED = 10"

definition atomic_asclWebSocketSend ::
  "(ws_message \<Rightarrow> bool) \<Rightarrow> u64 \<Rightarrow> string \<Rightarrow> u8 list \<Rightarrow> bool run" where
  "atomic_asclWebSocketSend ws number AID buffer =
     (if \<not> unat number < MAX_ATTESTATORS_ALLOWED then Inl Out_Of_Bounds else Inr (ws (number, AID, buffer)))"

text \<open>
  The outcomes one call of \<^verbatim>\<open>send_ra_request\<close> meets: the database connection (statement 0 is the
  insertion, statement 1 the commit), the time at the server, the allocation of the message and the
  websocket.
\<close>

record send_env =
  se_link :: db_link
  se_now :: u64
  se_malloc :: bool
  se_ws :: "ws_message \<Rightarrow> bool"

text \<open>A transaction that is rolled back leaves the rows but not the counter as they were.\<close>

definition rolled_back :: "tables \<Rightarrow> tables \<Rightarrow> tables" where
  "rolled_back T T' = T\<lparr>next_request := next_request T'\<rparr>"

text \<open>
  The result: the tables, the message the library accepted, and the return value. After a failed
  connection the statements on it fail. When the message cannot be allocated the code neither
  commits nor rolls back; switching autocommit back on commits the request.
\<close>

definition send_ra_request ::
  "send_env \<Rightarrow> tables \<Rightarrow> u64 \<Rightarrow> u8 list option \<Rightarrow> u32 \<Rightarrow> string \<Rightarrow> u64 \<Rightarrow> bool \<Rightarrow> u64
     \<Rightarrow> (tables \<times> ws_message list \<times> bool) run" where
  "send_ra_request env T prepared_data_id nonce nonce_size AID number is_startup session_id =
     (if \<not> link_init (se_link env) then Inl Null_Deref
      else if \<not> link_connect (se_link env) then Inr (T, [], False)
      else (case mysql_update (se_link env) 0
                   (insert_request T (se_now env) prepared_data_id session_id 1800 is_startup) of
              None \<Rightarrow> Inr (T, [], False)
            | Some T' \<Rightarrow>
                let request_id = of_nat (next_request T) :: u64 in
                if \<not> se_malloc env then Inr (T', [], False)
                else bind_run (copy_to (replicate (unat nonce_size) 0) 0 nonce (unat nonce_size)) (\<lambda>body.
                  let packet = le_bytes 8 request_id @ le_bytes 4 nonce_size @ body in
                  bind_run (atomic_asclWebSocketSend (se_ws env) number AID packet) (\<lambda>accepted.
                    if accepted
                    then Inr (if link_query (se_link env) 1 then T' else rolled_back T T',
                              [(number, AID, packet)], True)
                    else Inr (rolled_back T T', [], False)))))"

section \<open>The extractor process\<close>

text \<open>\<^verbatim>\<open>%020PRId64\<close>: signed, the sign counts as one of the twenty places.\<close>

definition show_padded_signed :: "u64 \<Rightarrow> string" where
  "show_padded_signed n =
     (if sint n < 0 then CHR ''-'' # pad_zeros 19 (show_nat (nat (- sint n)))
      else pad_zeros 20 (show_nat (nat (sint n))))"

type_synonym command = "string \<times> string list"

definition launch_extractor :: "bool \<Rightarrow> string \<Rightarrow> u64 \<Rightarrow> command list" where
  "launch_extractor fork_ok AID number =
     (if fork_ok
      then [(extractor_path AID number, [EXTRACTOR_COMMAND, AID, show_padded_signed number, DEFAULT_NONCE_LENGTH, DEFAULT_NONCE_TOTAL])]
      else [])"

section \<open>Serving a scheduled client\<close>

definition NONCE_CRITICAL_THRESHOLD :: u32 where "NONCE_CRITICAL_THRESHOLD = 10"

record serve_env =
  sv_pick :: row_choice
  sv_link :: db_link
  sv_malloc :: bool
  sv_fork :: bool
  sv_send :: send_env
  sv_vars :: valid_nonce

type_synonym served = "tables \<times> ws_message list \<times> command list \<times> bool"

definition serve_client :: "serve_env \<Rightarrow> tables \<Rightarrow> ra_client \<Rightarrow> served run" where
  "serve_client env T client =
     (let number = RA_CLI_get_attestator_number client;
          AID = snd (RA_CLI_get_AID_as_string client);
          (v, r) = ra_db_get_valid_nonce (sv_pick env) (sv_malloc env) (sv_link env) T
                     (RA_CLI_get_attestator_id client) (sv_vars env) in
      if r \<noteq> RA_SUCCESS \<and> r \<noteq> RA_ERROR_DB_NO_DATA then Inr (T, [], [], False)
      else if vn_left v < NONCE_CRITICAL_THRESHOLD
      then Inr (T, [], launch_extractor (sv_fork env) AID number, False)
      else bind_run (send_ra_request (sv_send env) T (vn_prepared_id v) (vn_nonce v) (vn_size v) AID number
                       False (RA_CLI_get_session_id client)) (\<lambda>(T', sent, ok). Inr (T', sent, [], ok)))"

section \<open>Attesting a client at start-up\<close>

definition ATTEST_AT_STARTUP_MAX_ERRORS :: nat where "ATTEST_AT_STARTUP_MAX_ERRORS = 5"

text \<open>
  The loop that waits for prepared data of one area. \<open>lookup k\<close> is the k-th lookup: the database
  changes between two of them. The result: the variables, the extractors launched and whether the
  loop ended with data; \<open>None\<close> when it does not end.
\<close>

type_synonym lookup = "nat \<Rightarrow> valid_nonce \<Rightarrow> valid_nonce \<times> ra_result"

partial_function (option) startup_retry ::
  "lookup \<Rightarrow> nat \<Rightarrow> nat \<Rightarrow> nat \<Rightarrow> valid_nonce \<Rightarrow> (valid_nonce \<times> nat \<times> bool) option" where
  "startup_retry lookup k count_errors launched v =
     (let (v', r) = lookup k v in
      if r = RA_SUCCESS then Some (v', launched, True)
      else if r = RA_ERROR_DB_NO_DATA then startup_retry lookup (Suc k) count_errors (Suc launched) v'
      else if ATTEST_AT_STARTUP_MAX_ERRORS \<le> Suc count_errors then Some (v', launched, False)
      else startup_retry lookup (Suc k) (Suc count_errors) launched v')"

text \<open>
  The outcomes the function meets: for each label the lookups, the variables before the first of
  them, and the outcomes of sending. \<open>su_labels\<close>, \<open>su_count\<close> are uninitialised variables.
\<close>

record startup_env =
  su_link :: db_link
  su_malloc :: bool
  su_fork :: bool
  su_labels :: "u16 list option"
  su_count :: u16
  su_lookup :: "u16 \<Rightarrow> lookup"
  su_vars :: "u16 \<Rightarrow> valid_nonce"
  su_send :: "u16 \<Rightarrow> send_env"

fun startup_loop ::
  "startup_env \<Rightarrow> string \<Rightarrow> u64 \<Rightarrow> u64 \<Rightarrow> u16 list \<Rightarrow> tables \<Rightarrow> bool \<Rightarrow> served run" where
  "startup_loop env AID number session_id [] T ret = Inr (T, [], [], ret)"
| "startup_loop env AID number session_id (label # labels) T ret =
     (case startup_retry (su_lookup env label) 0 0 0 (su_vars env label) of
        None \<Rightarrow> Inl No_Return
      | Some (v, launched, found) \<Rightarrow>
          bind_run (send_ra_request (su_send env label) T (vn_prepared_id v) (vn_nonce v) (vn_size v)
                      AID number True session_id) (\<lambda>(T1, sent, _).
          bind_run (startup_loop env AID number session_id labels T1 (ret \<and> found)) (\<lambda>(T2, sent2, cmds2, ret2).
            Inr (T2, sent @ sent2,
                 concat (replicate launched (launch_extractor (su_fork env) AID number)) @ cmds2, ret2))))"

definition attest_client_at_startup :: "startup_env \<Rightarrow> tables \<Rightarrow> ra_client \<Rightarrow> served run" where
  "attest_client_at_startup env T client =
     (let attestator_id = RA_CLI_get_attestator_id client;
          number = RA_CLI_get_attestator_number client;
          AID = snd (RA_CLI_get_AID_as_string client) in
      bind_run (ra_db_get_area_labels_to_attest_at_startup (su_malloc env) (su_link env) T attestator_id
                  (su_labels env) (su_count env)) (\<lambda>(labels, labels_count, r).
        if r \<noteq> RA_SUCCESS then Inr (T, [], [], True)
        else if labels_count = 0 then Inr (T, [], [], True)
        else bind_run (deref labels) (\<lambda>ls.
          startup_loop env AID number (RA_CLI_get_session_id client) (take (unat labels_count) ls) T True)))"

section \<open>Properties of the time conversions\<close>

definition deadline_ns :: "timespec \<Rightarrow> int" where
  "deadline_ns ts = tv_sec ts * 1000000000 + tv_nsec ts"

definition time_ns :: "timeval \<Rightarrow> int" where
  "time_ns now = now_sec now * 1000000000 + now_usec now * 1000"

definition sleep_nanos :: "rat \<Rightarrow> int" where
  "sleep_nanos s = round ((s - of_int \<lfloor>s\<rfloor>) * 1000000000)"

definition sleep_ns :: "rat \<Rightarrow> int" where
  "sleep_ns s = \<lfloor>s\<rfloor> * 1000000000 + sleep_nanos s"

lemma sleep_nanos_bounds: "0 \<le> sleep_nanos s \<and> sleep_nanos s \<le> 1000000000"
proof -
  have "0 \<le> s - of_int \<lfloor>s\<rfloor>" "s - of_int \<lfloor>s\<rfloor> < 1" by linarith+
  then have "0 \<le> (s - of_int \<lfloor>s\<rfloor>) * 1000000000" "(s - of_int \<lfloor>s\<rfloor>) * 1000000000 \<le> of_int 1000000000"
    by simp_all
  then show ?thesis using round_mono [of 0 "(s - of_int \<lfloor>s\<rfloor>) * 1000000000"]
      round_mono [of "(s - of_int \<lfloor>s\<rfloor>) * 1000000000" "of_int 1000000000"]
    by (simp only: round_of_int round_0 sleep_nanos_def)
qed

text \<open>The deadline handed to the timed wait: the nanoseconds are reduced modulo a second and the
  carry is dropped, so the thread wakes up exactly one second early whenever the nanoseconds of the
  clock and of the sleep add up to a full second.\<close>

theorem transform_time_loses_carry:
  assumes "0 \<le> now_usec now" and "now_usec now < 1000000"
  shows "deadline_ns (transform_time_to_sleep now s) =
     time_ns now + sleep_ns s
       - (if sleep_nanos s < 1000000000 \<and> 1000000000 \<le> now_usec now * 1000 + sleep_nanos s then 1000000000 else 0)"
proof -
  define n where "n = sleep_nanos s"
  define N where "N = now_usec now * 1000"
  have n: "0 \<le> n" "n \<le> 1000000000" using sleep_nanos_bounds [of s] by (simp_all add: n_def)
  have N: "0 \<le> N" "N < 1000000000" using assms by (simp_all add: N_def)
  have "n div 1000000000 * 1000000000 + (N + n) mod 1000000000 =
      N + n - (if n < 1000000000 \<and> 1000000000 \<le> N + n then 1000000000 else 0)"
  proof (cases "n = 1000000000")
    case False
    then have "n < 1000000000" using n by simp
    then have d: "n div 1000000000 = 0" using n(1) by simp
    show ?thesis
    proof (cases "N + n < 1000000000")
      case True
      then show ?thesis using d n(1) N(1) by simp
    next
      case carry: False
      have "(N + n) mod 1000000000 = (N + n - 1000000000) mod 1000000000"
        by (metis minus_mod_self2)
      also have "\<dots> = N + n - 1000000000"
        using carry \<open>n < 1000000000\<close> N(2) by (intro mod_pos_pos_trivial) auto
      finally show ?thesis using d carry \<open>n < 1000000000\<close> by simp
    qed
  qed (use N in \<open>simp add: mod_add_self2\<close>)
  moreover have "transform_time_to_sleep now s =
      \<lparr>tv_sec = now_sec now + \<lfloor>s\<rfloor> + n div 1000000000, tv_nsec = (N + n) mod 1000000000\<rparr>"
    by (simp only: transform_time_to_sleep_def Let_def n_def N_def sleep_nanos_def)
  ultimately show ?thesis
    by (simp add: deadline_ns_def time_ns_def sleep_ns_def flip: n_def N_def)
qed

theorem transform_time_loses_carry_witness:
  "deadline_ns (transform_time_to_sleep \<lparr>now_sec = 100, now_usec = 600000\<rparr> (5 / 2))
     = time_ns \<lparr>now_sec = 100, now_usec = 600000\<rparr> + sleep_ns (5 / 2) - 1000000000"
proof -
  have "\<lfloor>5 / 2 :: rat\<rfloor> = 2" by (simp add: floor_eq_iff)
  then have "sleep_nanos (5 / 2) = 500000000"
    using round_of_int [of 500000000, where 'a = rat] by (simp add: sleep_nanos_def)
  then show ?thesis
    using transform_time_loses_carry [of "\<lparr>now_sec = 100, now_usec = 600000\<rparr>" "5 / 2"] by simp
qed

text \<open>With a variation that is positive and not above the average, and no overflow, the random
  sleep lies in the interval around the average; a variation of 0 divides by zero.\<close>

theorem compute_random_sleep_range:
  assumes "1000 * (uint (cl_sleep_avg_seconds c) + uint (cl_sleep_var_seconds c)) < 2 ^ 32"
    and "cl_sleep_var_seconds c \<le> cl_sleep_avg_seconds c"
  shows "if cl_sleep_var_seconds c = 0 then compute_random_sleep rd c = Inl Div_By_Zero
     else (\<exists>s. compute_random_sleep rd c = Inr s
       \<and> of_int (uint (cl_sleep_avg_seconds c) - uint (cl_sleep_var_seconds c)) < s
       \<and> s \<le> of_int (uint (cl_sleep_avg_seconds c) + uint (cl_sleep_var_seconds c)))"
proof (cases "cl_sleep_var_seconds c = 0")
  case True
  then show ?thesis by (simp add: compute_random_sleep_def RA_CLI_get_sleep_var_seconds_def)
next
  case False
  define a where "a = uint (cl_sleep_avg_seconds c)"
  define v where "v = uint (cl_sleep_var_seconds c)"
  define d where "d = 2 * cl_sleep_var_seconds c * 1000"
  define r where "r = word_of_int rd mod d"
  have v: "0 < v" "v \<le> a" "1000 * (a + v) < 4294967296"
    using False assms uint_ge_0 [of "cl_sleep_var_seconds c"]
    by (auto simp: a_def v_def word_le_def uint_0_iff less_le)
  have d: "uint d = 2000 * v"
    unfolding d_def v_def using v by (simp add: uint_word_ariths v_def a_def)
  then have "d \<noteq> 0" using v by (auto simp: word_uint_eq_iff)
  have r: "0 \<le> uint r" "uint r < 2000 * v"
    using v d by (simp_all add: r_def uint_mod)
  have sum: "uint (1000 * (cl_sleep_avg_seconds c + cl_sleep_var_seconds c)) = 1000 * (a + v)"
  proof -
    have "(a + v) mod 4294967296 = a + v" using v by simp
    then show ?thesis using v by (simp add: uint_word_ariths a_def v_def)
  qed
  have diff: "uint (1000 * (cl_sleep_avg_seconds c + cl_sleep_var_seconds c) - r) = 1000 * (a + v) - uint r"
    using sum r v by (simp add: uint_sub_if')
  have "compute_random_sleep rd c = Inr (of_int (1000 * (a + v) - uint r) / 1000)"
    unfolding compute_random_sleep_def RA_CLI_get_sleep_var_seconds_def RA_CLI_get_sleep_avg_seconds_def
      Let_def d_def [symmetric] umod_simps(1) [OF \<open>d \<noteq> 0\<close>] bind_run_simps r_def [symmetric] diff ..
  moreover define x where "x = (of_int (1000 * (a + v) - uint r) :: rat)"
  ultimately have run: "compute_random_sleep rd c = Inr (x / 1000)" by simp
  have "(a - v) * 1000 < 1000 * (a + v) - uint r" "1000 * (a + v) - uint r \<le> (a + v) * 1000"
    using r by simp_all
  then have "(of_int ((a - v) * 1000) :: rat) < x" "x \<le> of_int ((a + v) * 1000)"
    unfolding x_def by (simp_all only: of_int_less_iff of_int_le_iff)
  then have "of_int (a - v) < x / 1000" "x / 1000 \<le> of_int (a + v)"
    unfolding of_int_mult by simp_all
  with run have "\<exists>s. compute_random_sleep rd c = Inr s \<and> of_int (a - v) < s \<and> s \<le> of_int (a + v)"
    by blast
  then show ?thesis using False unfolding a_def v_def by simp
qed

theorem compute_random_sleep_range_witness:
  "\<exists>s. compute_random_sleep 7 ((sample_client 3)\<lparr>cl_sleep_avg_seconds := 10, cl_sleep_var_seconds := 1\<rparr>) = Inr s
     \<and> 9 < s \<and> s \<le> 11"
  using compute_random_sleep_range [of "(sample_client 3)\<lparr>cl_sleep_avg_seconds := 10, cl_sleep_var_seconds := 1\<rparr>" 7]
  by simp

section \<open>Properties of sending\<close>

lemma nonce_body:
  assumes "length bs < 2 ^ 32"
  shows "copy_to (replicate (unat (of_nat (length bs) :: u32)) 0) 0 (Some bs) (unat (of_nat (length bs) :: u32)) = Inr bs"
  using copy_to_next [of bs "length bs" "length bs" "[]" 0] assms by (simp add: unat_of_nat_u32)

lemma insert_request_id:
  "insert_request T now i s v b = Some T' \<Longrightarrow> next_request T' = Suc (next_request T)"
  by (auto simp: insert_request_def split: if_splits)

text \<open>C17: The transaction: with a nonce in hand and an attestator number within the array of contexts,
  the function returns; it reports success exactly when the library took the message, which is then
  the request message with the id of the inserted row; a request is on record and not sent only
  when the message could not be allocated.\<close>

theorem send_ra_request_transaction:
  assumes "link_init (se_link env)" and "length bs < 2 ^ 32" and "unat number < MAX_ATTESTATORS_ALLOWED"
  shows "\<exists>T' sent ok.
     send_ra_request env T i (Some bs) (of_nat (length bs)) AID number startup s = Inr (T', sent, ok)
     \<and> sent = (if ok then [(number, AID, request_message (of_nat (next_request T)) bs)] else [])
     \<and> (ok \<and> link_query (se_link env) 1 \<longrightarrow> insert_request T (se_now env) i s 1800 startup = Some T')
     \<and> (\<not> ok \<longrightarrow> requests T' = requests T
          \<or> \<not> se_malloc env \<and> insert_request T (se_now env) i s 1800 startup = Some T')"
proof (cases "link_connect (se_link env) \<and> link_query (se_link env) 0")
  case up: True
  show ?thesis
  proof (cases "insert_request T (se_now env) i s 1800 startup")
    case None
    with up assms show ?thesis by (auto simp: send_ra_request_def mysql_update_def)
  next
    case (Some T')
    then have "send_ra_request env T i (Some bs) (of_nat (length bs)) AID number startup s =
      (let m = (number, AID, request_message (of_nat (next_request T)) bs) in
       if \<not> se_malloc env then Inr (T', [], False)
       else if se_ws env m then Inr (if link_query (se_link env) 1 then T' else rolled_back T T', [m], True)
       else Inr (rolled_back T T', [], False))"
      using up assms by (simp add: send_ra_request_def mysql_update_def nonce_body [OF assms(2)]
          atomic_asclWebSocketSend_def request_message_def Let_def)
    then show ?thesis by (auto simp: Some Let_def rolled_back_def)
  qed
qed (use assms in \<open>auto simp: send_ra_request_def mysql_update_def\<close>)

definition sample_send :: "bool \<Rightarrow> send_env" where
  "sample_send malloc_ok = \<lparr>se_link = link_up, se_now = 100, se_malloc = malloc_ok, se_ws = (\<lambda>_. True)\<rparr>"

lemma sample_send_fields [simp]:
  "se_link (sample_send b) = link_up" "se_now (sample_send b) = 100" "se_malloc (sample_send b) = b"
  "se_ws (sample_send b) = (\<lambda>_. True)"
  by (simp_all add: sample_send_def)

lemma link_up_init [simp]: "link_init link_up" "link_connect link_up"
  by (simp_all add: link_up_def)

lemma sample_next_request [simp]: "next_request (sample_tables nonce data) = 4"
  by (simp add: sample_tables_def)

theorem send_ra_request_transaction_witness:
  "\<exists>T' sent ok. send_ra_request (sample_send True) (sample_tables [1, 2] [3]) 1 (Some [1, 2]) 2 ''aid'' 0 False 1
       = Inr (T', sent, ok)
     \<and> sent = (if ok then [(0, ''aid'', request_message 4 [1, 2])] else [])"
proof -
  have "link_init (se_link (sample_send True))" "length [1, 2 :: u8] < 2 ^ 32" "unat (0 :: u64) < MAX_ATTESTATORS_ALLOWED"
    by (simp_all add: MAX_ATTESTATORS_ALLOWED_def)
  from send_ra_request_transaction [OF this, of "sample_tables [1, 2] [3]" 1 "''aid''" False 1]
  obtain T' sent ok where "send_ra_request (sample_send True) (sample_tables [1, 2] [3]) 1 (Some [1, 2])
        (of_nat (length [1, 2 :: u8])) ''aid'' 0 False 1 = Inr (T', sent, ok)"
      "sent = (if ok then [(0, ''aid'', request_message (of_nat (next_request (sample_tables [1, 2] [3]))) [1, 2])] else [])"
    by (elim exE conjE) (rule that)
  then show ?thesis
    by (intro exI [of _ T'] exI [of _ sent] exI [of _ ok]) simp
qed

lemma send_ra_request_True:
  assumes "send_ra_request env U i nonce n AID number b s = Inr (U', sent, True)" and "link_query (se_link env) 1"
  shows "insert_request U (se_now env) i s 1800 b = Some U'
    \<and> (\<exists>body. copy_to (replicate (unat n) 0) 0 nonce (unat n) = Inr body
           \<and> sent = [(number, AID, le_bytes 8 (of_nat (next_request U) :: u64) @ le_bytes 4 n @ body)])"
proof (cases "mysql_update (se_link env) 0 (insert_request U (se_now env) i s 1800 b)")
  case None
  with assms show ?thesis by (simp add: send_ra_request_def split: if_splits)
next
  case (Some V)
  then have "insert_request U (se_now env) i s 1800 b = Some V" by (simp add: mysql_update_def split: if_splits)
  with Some assms show ?thesis
    by (auto simp: send_ra_request_def Let_def bind_run_Inr_iff atomic_asclWebSocketSend_def split: if_splits)
qed

section \<open>Properties of the start-up attestation\<close>

lemma startup_retry_no_data:
  assumes "\<And>k v. snd (lookup k v) = RA_ERROR_DB_NO_DATA"
  shows "startup_retry lookup k e l v = None"
proof (rule ccontr)
  assume "startup_retry lookup k e l v \<noteq> None"
  then obtain r where "startup_retry lookup k e l v = Some r" by blast
  then show False
    using assms
  proof (induction lookup k e l v r rule: startup_retry.raw_induct [rotated, consumes 1, case_names step])
    case (step rec lookup k e l v r)
    obtain w where "lookup k v = (w, RA_ERROR_DB_NO_DATA)" using step.prems by (metis prod.collapse)
    then have "rec lookup (Suc k) e (Suc l) w = Some r" using step.hyps by simp
    then show ?case by (rule step.IH) (rule step.prems)
  qed
qed

lemma startup_retry_ends:
  assumes "\<And>v. snd (lookup (k + n) v) = RA_SUCCESS"
  shows "\<exists>v' m found. startup_retry lookup k e l v = Some (v', l + m, found) \<and> m \<le> n"
  using assms
proof (induction n arbitrary: k e l v)
  case 0
  then show ?case by (subst startup_retry.simps) (auto simp: split_beta)
next
  case (Suc n)
  obtain v' r where step: "lookup k v = (v', r)" by fastforce
  have IH: "\<exists>v'' m found. startup_retry lookup (Suc k) e' l' v' = Some (v'', l' + m, found) \<and> m \<le> n" for e' l'
    using Suc.IH [of "Suc k" e' l' v'] Suc.prems by simp
  obtain v1 m1 f1 where r1: "startup_retry lookup (Suc k) (Suc e) l v' = Some (v1, l + m1, f1)" "m1 \<le> n"
    using IH by blast
  obtain v2 m2 f2 where r2: "startup_retry lookup (Suc k) e (Suc l) v' = Some (v2, Suc l + m2, f2)" "m2 \<le> n"
    using IH by blast
  have "startup_retry lookup k e l v \<in>
      {Some (v', l + 0, True), Some (v2, l + Suc m2, f2), Some (v', l + 0, False), Some (v1, l + m1, f1)}"
    using r1(1) r2(1) by (subst startup_retry.simps) (simp add: step)
  moreover have "0 \<le> Suc n" "Suc m2 \<le> Suc n" "m1 \<le> Suc n" using r1 r2 by simp_all
  ultimately show ?case by blast
qed

text \<open>C35: The loop that waits for prepared data ends once a lookup succeeds, having launched at most one
  extractor for each lookup before; while there is no data it never ends, and launches an extractor
  in every round.\<close>

theorem startup_retry_termination:
  "((\<forall>v. snd (lookup n v) = RA_SUCCESS) \<longrightarrow>
       (\<exists>v' m found. startup_retry lookup 0 0 0 v = Some (v', m, found) \<and> m \<le> n))
   \<and> ((\<forall>k v. snd (lookup k v) = RA_ERROR_DB_NO_DATA) \<longrightarrow> startup_retry lookup 0 0 0 v = None)"
  using startup_retry_ends [of lookup 0 n 0 0 v] startup_retry_no_data [of lookup 0 0 0 v] by auto

theorem startup_retry_termination_witness:
  "\<exists>v' m found. startup_retry (\<lambda>k v. (v, if k = 1 then RA_SUCCESS else RA_ERROR_DB_NO_DATA)) 0 0 0
      \<lparr>vn_prepared_id = 0, vn_nonce = None, vn_size = 0, vn_left = 0, vn_area = 0\<rparr> = Some (v', m, found) \<and> m \<le> 1"
  using startup_retry_termination [of "\<lambda>k v. (v, if k = 1 then RA_SUCCESS else RA_ERROR_DB_NO_DATA)" 1
      "\<lparr>vn_prepared_id = 0, vn_nonce = None, vn_size = 0, vn_left = 0, vn_area = 0\<rparr>"] by simp

lemma startup_retry_errors:
  assumes "\<And>k v. lookup k v = (f v, RA_ERROR_MEMORY)" and "\<And>v. f (f v) = f v"
  shows "startup_retry lookup 0 0 0 v = Some (f v, 0, False)"
proof -
  have last: "startup_retry lookup k 4 0 v = Some (f v, 0, False)" for k v
    by (subst startup_retry.simps) (simp add: assms ATTEST_AT_STARTUP_MAX_ERRORS_def)
  have next_one: "e < 4 \<Longrightarrow> startup_retry lookup k e 0 v = startup_retry lookup (Suc k) (Suc e) 0 (f v)" for k e v
    by (subst startup_retry.simps) (simp add: assms ATTEST_AT_STARTUP_MAX_ERRORS_def)
  show ?thesis
    using last [of 4] by (simp add: next_one assms(2) numeral_eq_Suc)
qed

text \<open>When the buffer for the nonce cannot be allocated five times, the loop gives up, but the
  request is sent all the same: the row found is inserted as a request and the message is copied
  from NULL.\<close>

theorem startup_sends_null_nonce:
  assumes "\<And>k v. su_lookup env label k v = ra_db_get_valid_nonce_by_area_label pick False link_up T a label v"
    and "select_unused_by_area T a label \<noteq> []"
    and "(of_nat (length (pd_nonce (pick (select_unused_by_area T a label)))) :: u32) \<noteq> 0"
    and "se_link (su_send env label) = link_up" and "se_malloc (su_send env label)"
    and "insert_request T (se_now (su_send env label)) (pd_id (pick (select_unused_by_area T a label))) s 1800 True \<noteq> None"
  shows "startup_loop env AID number s (label # labels) T ret = Inl Null_Deref"
proof -
  let ?p = "pick (select_unused_by_area T a label)"
  let ?f = "\<lambda>v. v\<lparr>vn_nonce := None, vn_size := of_nat (length (pd_nonce ?p)), vn_prepared_id := pd_id ?p\<rparr>"
  have "startup_retry (su_lookup env label) 0 0 0 (su_vars env label) = Some (?f (su_vars env label), 0, False)"
    by (rule startup_retry_errors)
      (use assms(2) in \<open>simp_all add: assms(1) ra_db_get_valid_nonce_by_area_label_def Let_def\<close>)
  moreover have "unat (of_nat (length (pd_nonce ?p)) :: u32) \<noteq> 0"
    using assms(3) by (simp add: unat_eq_zero)
  ultimately show ?thesis
    using assms(4-6) by (auto simp: send_ra_request_def copy_to_def)
qed

definition sample_startup :: startup_env where
  "sample_startup =
     \<lparr>su_link = link_up, su_malloc = True, su_fork = True, su_labels = None, su_count = 0,
      su_lookup = (\<lambda>label k v. ra_db_get_valid_nonce_by_area_label hd False link_up (sample_tables [1, 2] [3]) 3 label v),
      su_vars = (\<lambda>_. \<lparr>vn_prepared_id = 0, vn_nonce = None, vn_size = 0, vn_left = 0, vn_area = 0\<rparr>),
      su_send = (\<lambda>_. sample_send True)\<rparr>"

theorem startup_sends_null_nonce_witness:
  "startup_loop sample_startup ''aid'' 0 1 [9] (sample_tables [1, 2] [3]) True = Inl Null_Deref"
proof -
  have "select_unused_by_area (sample_tables [1, 2] [3]) 3 9 =
      [\<lparr>pd_id = 1, pd_attestator = 3, pd_nonce = [1, 2], pd_data = [3], pd_area = 9\<rparr>]"
    by (simp add: select_unused_by_area_def select_unused_def sample_tables_def)
  then show ?thesis
    by (intro startup_sends_null_nonce [of sample_startup 9 hd "sample_tables [1, 2] [3]" 3])
      (simp_all add: sample_startup_def insert_request_def, simp_all add: sample_tables_def)
qed

end
