(* ===== verification/Nonce_Use.thy ===== *)
theory Nonce_Use
  imports Manager_Requests
begin

text \<open>
  The use of nonces by the threads of \<^verbatim>\<open>server-components/manager.c\<close>. A thread that serves a client
  looks up an unused nonce on one connection and inserts the request for it on another one; between the two
  any other thread or process may run. The two halves of \<^verbatim>\<open>serve_client\<close> are steps of their own here, with
  what a thread holds in its local variables between them. The insertion, the sending and the commit or
  rollback of \<^verbatim>\<open>send_ra_request\<close> are one step: no other connection sees a row that is not committed.
\<close>

section \<open>The two halves of serving a client\<close>

definition serve_lookup :: "serve_env \<Rightarrow> tables \<Rightarrow> ra_client \<Rightarrow> valid_nonce \<times> ra_result" where
  "serve_lookup env T client =
     ra_db_get_valid_nonce (sv_pick env) (sv_malloc env) (sv_link env) T
       (RA_CLI_get_attestator_id client) (sv_vars env)"

fun serve_send :: "serve_env \<Rightarrow> tables \<Rightarrow> ra_client \<Rightarrow> valid_nonce \<times> ra_result \<Rightarrow> served run" where
  "serve_send env T client (v, r) =
     (let number = RA_CLI_get_attestator_number client;
          AID = snd (RA_CLI_get_AID_as_string client) in
      if r \<noteq> RA_SUCCESS \<and> r \<noteq> RA_ERROR_DB_NO_DATA then Inr (T, [], [], False)
      else if vn_left v < NONCE_CRITICAL_THRESHOLD
      then Inr (T, [], launch_extractor (sv_fork env) AID number, False)
      else bind_run (send_ra_request (sv_send env) T (vn_prepared_id v) (vn_nonce v) (vn_size v) AID number
                       False (RA_CLI_get_session_id client)) (\<lambda>(T', sent, ok). Inr (T', sent, [], ok)))"

lemma serve_client_halves: "serve_client env T client = serve_send env T client (serve_lookup env T client)"
  by (simp add: serve_client_def serve_lookup_def split_beta Let_def
      serve_send.simps [of env T client "fst x" "snd x" for x, unfolded prod.collapse])

section \<open>Threads and processes on the database\<close>

text \<open>
  What a thread holds between a lookup and the insertion: the client it serves and the variables of the
  lookup. At start-up only lookups that found a nonce are followed here: after five failing ones the
  loop sends what the variables held before (\<open>startup_sends_null_nonce\<close> in \<^theory_text>\<open>Manager_Requests\<close>).
\<close>

datatype nonce_in_hand = Scheduled ra_client "valid_nonce \<times> ra_result" | At_Startup ra_client valid_nonce

record nonce_system =
  ns_tables :: tables
  ns_hand :: "nat \<Rightarrow> nonce_in_hand option"
  ns_sent :: "ws_message list"

text \<open>\<open>serves i a\<close>: clients of attestator \<open>a\<close> are given to thread \<open>i\<close>.\<close>

inductive nonce_step :: "(nat \<Rightarrow> u64 \<Rightarrow> bool) \<Rightarrow> nonce_system \<Rightarrow> nonce_system \<Rightarrow> bool" for serves where
  ns_lookup: "ns_hand s i = None \<Longrightarrow> serves i (RA_CLI_get_attestator_id c) \<Longrightarrow> chooses_row (sv_pick env) \<Longrightarrow>
    nonce_step serves s (s\<lparr>ns_hand := (ns_hand s)(i \<mapsto> Scheduled c (serve_lookup env (ns_tables s) c))\<rparr>)"
| ns_send: "ns_hand s i = Some (Scheduled c found) \<Longrightarrow>
    serve_send env (ns_tables s) c found = Inr (T', sent, cmds, ok) \<Longrightarrow>
    nonce_step serves s \<lparr>ns_tables = T', ns_hand = (ns_hand s)(i := None), ns_sent = ns_sent s @ sent\<rparr>"
| ns_startup_lookup: "ns_hand s i = None \<Longrightarrow> serves i (RA_CLI_get_attestator_id c) \<Longrightarrow> chooses_row pick \<Longrightarrow>
    ra_db_get_valid_nonce_by_area_label pick ok l (ns_tables s) (RA_CLI_get_attestator_id c) m out = (v, RA_SUCCESS) \<Longrightarrow>
    nonce_step serves s (s\<lparr>ns_hand := (ns_hand s)(i \<mapsto> At_Startup c v)\<rparr>)"
| ns_startup_send: "ns_hand s i = Some (At_Startup c v) \<Longrightarrow>
    send_ra_request env (ns_tables s) (vn_prepared_id v) (vn_nonce v) (vn_size v)
      (snd (RA_CLI_get_AID_as_string c)) (RA_CLI_get_attestator_number c) True (RA_CLI_get_session_id c)
      = Inr (T', sent, ok) \<Longrightarrow>
    nonce_step serves s \<lparr>ns_tables = T', ns_hand = (ns_hand s)(i := None), ns_sent = ns_sent s @ sent\<rparr>"
| ns_other: "db_step (ns_tables s) T' \<Longrightarrow> nonce_step serves s (s\<lparr>ns_tables := T'\<rparr>)"

definition nonce_start :: "tables \<Rightarrow> nonce_system" where
  "nonce_start T = \<lparr>ns_tables = T, ns_hand = (\<lambda>_. None), ns_sent = []\<rparr>"

section \<open>What sending does to the tables\<close>

definition skipped_request :: "tables \<Rightarrow> tables" where
  "skipped_request T = T\<lparr>next_request := Suc (next_request T)\<rparr>"

lemma skipped_request_fields [simp]:
  "prepared (skipped_request T) = prepared T" "requests (skipped_request T) = requests T"
  "attestators (skipped_request T) = attestators T"
  by (simp_all add: skipped_request_def)

lemma skipped_request_ok: "db_ok T \<Longrightarrow> db_ok (skipped_request T)"
  by (auto simp: skipped_request_def db_ok_def db_keys_def keys_below_def one_session_def nonces_once_def
      select_active_sessions_def intro: less_SucI)

lemma send_ra_request_tables:
  assumes "send_ra_request env T i nonce n AID number b s = Inr (T', sent, ok)"
  shows "T' = T \<or> T' = skipped_request T \<or> insert_request T (se_now env) i s 1800 b = Some T'"
proof (cases "mysql_update (se_link env) 0 (insert_request T (se_now env) i s 1800 b)")
  case None
  with assms show ?thesis by (simp add: send_ra_request_def split: if_splits)
next
  case (Some V)
  then have V: "insert_request T (se_now env) i s 1800 b = Some V" by (simp add: mysql_update_def split: if_splits)
  then have "rolled_back T V = skipped_request T"
    using insert_request_id [OF V] by (simp add: rolled_back_def skipped_request_def)
  with Some V assms show ?thesis
    by (auto simp: send_ra_request_def Let_def bind_run_Inr_iff split: if_splits)
qed

section \<open>The invariant\<close>

fun hand_attestator :: "nonce_in_hand \<Rightarrow> u64" where
  "hand_attestator (Scheduled c found) = RA_CLI_get_attestator_id c"
| "hand_attestator (At_Startup c v) = RA_CLI_get_attestator_id c"

text \<open>The nonce in hand is unused; without one the number of nonces is below the threshold.\<close>

fun hand_ok :: "tables \<Rightarrow> nonce_in_hand \<Rightarrow> bool" where
  "hand_ok T (Scheduled c (v, r)) \<longleftrightarrow>
     (r = RA_SUCCESS \<longrightarrow> vn_prepared_id v \<in> pd_id ` set (select_unused T (RA_CLI_get_attestator_id c)))
     \<and> (r = RA_ERROR_DB_NO_DATA \<longrightarrow> vn_left v < NONCE_CRITICAL_THRESHOLD)"
| "hand_ok T (At_Startup c v) \<longleftrightarrow> vn_prepared_id v \<in> pd_id ` set (select_unused T (RA_CLI_get_attestator_id c))"

definition nonces_reserved :: "(nat \<Rightarrow> u64 \<Rightarrow> bool) \<Rightarrow> nonce_system \<Rightarrow> bool" where
  "nonces_reserved serves s \<longleftrightarrow> db_ok (ns_tables s)
     \<and> (\<forall>i h. ns_hand s i = Some h \<longrightarrow> serves i (hand_attestator h) \<and> hand_ok (ns_tables s) h)"

lemma nonces_reserved_start: "db_ok T \<Longrightarrow> nonces_reserved serves (nonce_start T)"
  by (simp add: nonces_reserved_def nonce_start_def)

lemma nonces_reservedD:
  "nonces_reserved serves s \<Longrightarrow> ns_hand s i = Some h \<Longrightarrow> serves i (hand_attestator h) \<and> hand_ok (ns_tables s) h"
  by (simp add: nonces_reserved_def)

lemma hand_ok_mono:
  assumes "hand_ok T h" and "set (select_unused T (hand_attestator h)) \<subseteq> set (select_unused T' (hand_attestator h))"
  shows "hand_ok T' h"
  using assms by (cases "(T, h)" rule: hand_ok.cases) auto

lemma serve_lookup_hand:
  assumes "chooses_row (sv_pick env)"
  shows "hand_ok T (Scheduled c (serve_lookup env T c))"
proof -
  obtain v r where vr: "serve_lookup env T c = (v, r)" by fastforce
  have "vn_prepared_id v \<in> pd_id ` set (select_unused T (RA_CLI_get_attestator_id c))" if "r = RA_SUCCESS"
    using valid_nonce_offers [OF assms, of "sv_malloc env" "sv_link env" T "RA_CLI_get_attestator_id c" "sv_vars env" v]
      vr that by (auto simp: serve_lookup_def offers_unused_def)
  moreover have "vn_left v < NONCE_CRITICAL_THRESHOLD" if "r = RA_ERROR_DB_NO_DATA"
    using vr that
    by (auto simp: serve_lookup_def ra_db_get_valid_nonce_def connected_def Let_def NONCE_CRITICAL_THRESHOLD_def
        split: if_splits)
  ultimately show ?thesis by (simp add: vr)
qed

text \<open>Using a row of one attestator leaves the unused rows of the others.\<close>

lemma select_unused_insert:
  assumes "db_ok T" and "insert_request T now (pd_id p) s v b = Some T'" and "p \<in> set (select_unused T a)" and "a' \<noteq> a"
  shows "set (select_unused T a') \<subseteq> set (select_unused T' a')"
proof
  fix q
  assume q: "q \<in> set (select_unused T a')"
  then have "pd_attestator q \<noteq> pd_attestator p" using assms(3,4) by (auto simp: set_select_unused)
  moreover have "inj_on pd_id (set (prepared T))"
    using assms(1) by (simp add: db_ok_def db_keys_def keys_below_def distinct_map)
  ultimately have "pd_id q \<noteq> pd_id p" using q assms(3) by (auto simp: set_select_unused inj_on_def)
  then show "q \<in> set (select_unused T' a')"
    using q assms(2) by (auto simp: set_select_unused insert_request_def split: if_splits)
qed

lemma request_sent_reserved:
  assumes inv: "nonces_reserved serves s" and one: "\<And>i j a. serves i a \<Longrightarrow> serves j a \<Longrightarrow> i = j"
    and hand: "ns_hand s i = Some h" and row: "key \<in> pd_id ` set (select_unused (ns_tables s) (hand_attestator h))"
    and sent: "send_ra_request env (ns_tables s) key nonce n AID number b ses = Inr (T', sent, ok)"
  shows "nonces_reserved serves \<lparr>ns_tables = T', ns_hand = (ns_hand s)(i := None), ns_sent = out\<rparr>"
    and "\<exists>added. request_keys T' = request_keys (ns_tables s) @ added"
proof -
  let ?T = "ns_tables s" and ?a = "hand_attestator h"
  obtain p where p: "p \<in> set (select_unused ?T ?a)" "key = pd_id p" using row by blast
  have ok: "db_ok ?T" using inv by (simp add: nonces_reserved_def)
  have fresh: "key \<notin> set (map rq_prepared (requests ?T))" using p by (simp add: set_select_unused)
  consider "T' = ?T" | "T' = skipped_request ?T" | "insert_request ?T (se_now env) key ses 1800 b = Some T'"
    using send_ra_request_tables [OF sent] by blast
  then have step: "db_ok T' \<and> (\<exists>added. request_keys T' = request_keys ?T @ added)
      \<and> (\<forall>a'. a' \<noteq> ?a \<longrightarrow> set (select_unused ?T a') \<subseteq> set (select_unused T' a'))"
  proof cases
    case 3
    then have "\<exists>added. request_keys T' = request_keys ?T @ added"
      by (auto simp: insert_request_def request_keys_def split: if_splits)
    then show ?thesis
      using insert_request_ok [OF ok 3 fresh] select_unused_insert [OF ok 3 [unfolded p(2)] p(1)] by blast
  qed (use ok skipped_request_ok in \<open>auto simp: request_keys_def set_select_unused\<close>)
  then show "\<exists>added. request_keys T' = request_keys ?T @ added" by blast
  have "serves j (hand_attestator g) \<and> hand_ok T' g" if g: "((ns_hand s)(i := None)) j = Some g" for j g
  proof -
    have j: "j \<noteq> i" "ns_hand s j = Some g" using g by (auto split: if_splits)
    then have "serves j (hand_attestator g)" "hand_ok ?T g" "serves i ?a"
      using inv hand by (auto simp: nonces_reserved_def)
    moreover from this j(1) one have "hand_attestator g \<noteq> ?a" by metis
    ultimately show ?thesis using hand_ok_mono [of ?T g T'] step by blast
  qed
  then show "nonces_reserved serves \<lparr>ns_tables = T', ns_hand = (ns_hand s)(i := None), ns_sent = out\<rparr>"
    using step by (auto simp: nonces_reserved_def)
qed

lemma nonces_reserved_drop:
  "nonces_reserved serves s \<Longrightarrow>
     nonces_reserved serves \<lparr>ns_tables = ns_tables s, ns_hand = (ns_hand s)(i := None), ns_sent = out\<rparr>"
  by (auto simp: nonces_reserved_def)

lemma nonce_step_reserved:
  assumes one: "\<And>i j a. serves i a \<Longrightarrow> serves j a \<Longrightarrow> i = j"
  shows "nonce_step serves s s' \<Longrightarrow> nonces_reserved serves s \<Longrightarrow> nonces_reserved serves s'
    \<and> (\<exists>added. request_keys (ns_tables s') = request_keys (ns_tables s) @ added)"
proof (induction rule: nonce_step.induct)
  case (ns_lookup s i c env)
  then show ?case using serve_lookup_hand [of env "ns_tables s" c] by (auto simp: nonces_reserved_def)
next
  case (ns_send s i c found env T' sent cmds ok)
  obtain v r where found: "found = (v, r)" by fastforce
  have hand: "hand_ok (ns_tables s) (Scheduled c (v, r))"
    using nonces_reservedD [OF ns_send(3,1)] found by simp
  show ?case
  proof (cases "r = RA_SUCCESS \<and> \<not> vn_left v < NONCE_CRITICAL_THRESHOLD")
    case True
    then have "send_ra_request (sv_send env) (ns_tables s) (vn_prepared_id v) (vn_nonce v) (vn_size v)
        (snd (RA_CLI_get_AID_as_string c)) (RA_CLI_get_attestator_number c) False (RA_CLI_get_session_id c) = Inr (T', sent, ok)"
      using ns_send(2) by (auto simp: found Let_def bind_run_Inr_iff)
    from request_sent_reserved [OF ns_send(3) one ns_send(1) _ this] hand True show ?thesis by (auto simp: found)
  next
    case False
    then have "T' = ns_tables s" using ns_send(2) hand by (auto simp: found Let_def split: if_splits)
    then show ?thesis using nonces_reserved_drop [OF ns_send(3)] by simp
  qed
next
  case (ns_startup_lookup s i c pick ok l m out v)
  then show ?case
    using valid_nonce_by_area_offers [OF ns_startup_lookup(3,4)]
    by (auto simp: nonces_reserved_def offers_unused_def)
next
  case (ns_startup_send s i c v env T' sent ok)
  have "hand_ok (ns_tables s) (At_Startup c v)" using nonces_reservedD [OF ns_startup_send(3,1)] by simp
  with request_sent_reserved [OF ns_startup_send(3) one ns_startup_send(1) _ ns_startup_send(2)] show ?case by simp
next
  case (ns_other s T')
  have "hand_ok T' h" if "ns_hand s i = Some h" for i h
    using hand_ok_mono [OF conjunct2 [OF nonces_reservedD [OF ns_other(2) that]] db_step_unused [OF ns_other(1)]] .
  then show ?case
    using ns_other(2) db_step_frame [OF ns_other(1)] db_step_ok [OF ns_other(1)]
    by (simp add: nonces_reserved_def)
qed

lemma nonce_steps_reserved:
  assumes one: "\<And>i j a. serves i a \<Longrightarrow> serves j a \<Longrightarrow> i = j"
  shows "(nonce_step serves)\<^sup>*\<^sup>* s s' \<Longrightarrow> nonces_reserved serves s \<Longrightarrow> nonces_reserved serves s'
    \<and> (\<exists>added. request_keys (ns_tables s') = request_keys (ns_tables s) @ added)"
proof (induction rule: rtranclp_induct)
  case (step u v)
  then show ?case using nonce_step_reserved [OF one step.hyps(2)] by fastforce
qed simp

section \<open>Serving when everything is up\<close>

definition send_up :: "send_env \<Rightarrow> bool" where
  "send_up env \<longleftrightarrow> se_link env = link_up \<and> se_malloc env \<and> (\<forall>m. se_ws env m)"

definition lookup_up :: "serve_env \<Rightarrow> bool" where
  "lookup_up env \<longleftrightarrow> chooses_row (sv_pick env) \<and> sv_link env = link_up \<and> sv_malloc env"

definition enough_nonces :: "tables \<Rightarrow> u64 \<Rightarrow> bool" where
  "enough_nonces T a \<longleftrightarrow> 10 \<le> length (select_unused T a) \<and> length (select_unused T a) < 2 ^ 32"

definition holds_row :: "valid_nonce \<Rightarrow> prepared_row \<Rightarrow> bool" where
  "holds_row v p \<longleftrightarrow> \<not> vn_left v < NONCE_CRITICAL_THRESHOLD \<and> vn_prepared_id v = pd_id p
     \<and> vn_nonce v = Some (pd_nonce p) \<and> vn_size v = of_nat (length (pd_nonce p))"

lemma picked_unused:
  assumes "lookup_up env" and "enough_nonces T a"
  shows "sv_pick env (select_unused T a) \<in> set (select_unused T a)"
proof -
  have "length (select_unused T a) \<noteq> 0" using assms(2) unfolding enough_nonces_def by linarith
  then have "select_unused T a \<noteq> []" by blast
  then show ?thesis using assms(1) unfolding lookup_up_def chooses_row_def by blast
qed

lemma serve_lookup_found:
  assumes "lookup_up env" and "enough_nonces T (RA_CLI_get_attestator_id c)"
  shows "\<exists>v. serve_lookup env T c = (v, RA_SUCCESS)
    \<and> holds_row v (sv_pick env (select_unused T (RA_CLI_get_attestator_id c)))"
proof -
  let ?n = "length (select_unused T (RA_CLI_get_attestator_id c))"
  have n: "unat (of_nat ?n :: u32) = ?n" using assms(2) by (simp add: enough_nonces_def unat_of_nat_u32)
  then have "\<not> (of_nat ?n :: u32) < 10" using assms(2) by (simp add: enough_nonces_def word_less_nat_alt)
  moreover have "(of_nat ?n :: u32) \<noteq> 0" using n assms(2) by (auto simp: enough_nonces_def)
  ultimately have "serve_lookup env T c = (v, RA_SUCCESS) \<and> holds_row v (sv_pick env (select_unused T (RA_CLI_get_attestator_id c)))"
    if "v = fst (serve_lookup env T c)" for v
    using assms(1) that
    by (simp add: serve_lookup_def ra_db_get_valid_nonce_def lookup_up_def holds_row_def Let_def NONCE_CRITICAL_THRESHOLD_def)
  then show ?thesis by blast
qed

lemma serve_send_found:
  assumes "send_up (sv_send env)" and "holds_row v p" and "length (pd_nonce p) < 2 ^ 32"
    and "unat (RA_CLI_get_attestator_number c) < MAX_ATTESTATORS_ALLOWED"
    and "insert_request T (se_now (sv_send env)) (pd_id p) (RA_CLI_get_session_id c) 1800 False = Some T'"
  shows "serve_send env T c (v, RA_SUCCESS) = Inr (T', [(RA_CLI_get_attestator_number c, hex_string (cl_AID c),
     request_message (of_nat (next_request T)) (pd_nonce p))], [], True)"
  using assms nonce_body [OF assms(3)]
  by (simp add: holds_row_def send_up_def send_ra_request_def Let_def atomic_asclWebSocketSend_def
      request_message_def RA_CLI_get_AID_as_string_def)

definition request_row_of :: "tables \<Rightarrow> serve_env \<Rightarrow> ra_client \<Rightarrow> prepared_row \<Rightarrow> ra_request" where
  "request_row_of T env c p =
     \<lparr>rq_id = of_nat (next_request T), rq_prepared = pd_id p, rq_session = RA_CLI_get_session_id c,
      rq_send_time = se_now (sv_send env), rq_response_time = None, rq_status = PENDING,
      rq_validity = 1800, rq_startup = False\<rparr>"

lemma insert_request_row:
  assumes "p \<in> set (prepared T)" and "RA_CLI_get_session_id c \<in> set (map ses_id (sessions T))" and "next_request T < 2 ^ 64"
  shows "insert_request T (se_now (sv_send env)) (pd_id p) (RA_CLI_get_session_id c) 1800 False =
    Some (T\<lparr>requests := requests T @ [request_row_of T env c p], next_request := Suc (next_request T)\<rparr>)"
  using assms by (simp add: insert_request_def request_row_of_def)

section \<open>A stocked attestator\<close>

definition stocked_tables :: tables where
  "stocked_tables = (sample_tables [1, 2] [3])\<lparr>prepared :=
     map (\<lambda>k. \<lparr>pd_id = of_nat k, pd_attestator = 3, pd_nonce = [1, of_nat k], pd_data = [3], pd_area = 9\<rparr>) [1..<12],
     next_prepared := 12\<rparr>"

lemma stocked_rows:
  "prepared stocked_tables =
     map (\<lambda>k. \<lparr>pd_id = of_nat k, pd_attestator = 3, pd_nonce = [1, of_nat k], pd_data = [3], pd_area = 9\<rparr>)
       [1, 2, 3, 4, 5, 6, 7, 8, 9, 10, 11]"
  by (simp add: stocked_tables_def upt_rec)

lemma stocked_ok: "db_ok stocked_tables"
  by (simp add: db_ok_def db_keys_def keys_below_def one_session_def nonces_once_def select_active_sessions_def stocked_rows)
    (simp add: stocked_tables_def sample_tables_def)

lemma stocked_unused: "select_unused stocked_tables 3 = prepared stocked_tables"
  unfolding select_unused_def stocked_rows by (simp add: stocked_tables_def sample_tables_def)

lemma stocked_enough: "enough_nonces stocked_tables 3"
  by (simp add: enough_nonces_def stocked_unused stocked_rows)

definition sample_serve :: serve_env where
  "sample_serve = \<lparr>sv_pick = hd, sv_link = link_up, sv_malloc = True, sv_fork = True, sv_send = sample_send True,
     sv_vars = \<lparr>vn_prepared_id = 0, vn_nonce = None, vn_size = 0, vn_left = 0, vn_area = 0\<rparr>\<rparr>"

lemma sample_serve_up [simp]: "lookup_up sample_serve" "send_up (sv_send sample_serve)" "sv_pick sample_serve = hd"
  by (simp_all add: sample_serve_def lookup_up_def send_up_def)

definition sample_session_client :: ra_client where
  "sample_session_client = (sample_client 3)\<lparr>cl_attestator_id := 3, cl_session_id := 1\<rparr>"

lemma sample_session_client_fields [simp]:
  "RA_CLI_get_attestator_number sample_session_client = 3" "RA_CLI_get_attestator_id sample_session_client = 3"
  "RA_CLI_get_session_id sample_session_client = 1" "cl_AID sample_session_client = replicate 16 0"
  by (simp_all add: sample_session_client_def sample_client_def RA_CLI_get_attestator_number_def
      RA_CLI_get_attestator_id_def RA_CLI_get_session_id_def)

declare serve_send.simps [simp del]

lemma sample_session_run:
  assumes "serves i 3"
  shows "\<exists>s. (nonce_step serves)\<^sup>*\<^sup>* (nonce_start stocked_tables) s \<and> length (requests (ns_tables s)) = 1"
proof -
  let ?p = "hd (prepared stocked_tables)"
  let ?T' = "stocked_tables\<lparr>requests := requests stocked_tables @ [request_row_of stocked_tables sample_serve sample_session_client ?p],
     next_request := Suc (next_request stocked_tables)\<rparr>"
  obtain v where v: "serve_lookup sample_serve stocked_tables sample_session_client = (v, RA_SUCCESS)" "holds_row v ?p"
    using serve_lookup_found [of sample_serve stocked_tables sample_session_client] stocked_enough
    by (auto simp: stocked_unused)
  have ins: "insert_request stocked_tables (se_now (sv_send sample_serve)) (pd_id ?p)
      (RA_CLI_get_session_id sample_session_client) 1800 False = Some ?T'"
    by (rule insert_request_row) (simp_all add: stocked_rows, simp_all add: stocked_tables_def sample_tables_def)
  have size: "length (pd_nonce ?p) < 2 ^ 32" by (simp add: stocked_rows)
  have "\<exists>sent. serve_send sample_serve stocked_tables sample_session_client (v, RA_SUCCESS) = Inr (?T', sent, [], True)"
    using serve_send_found [OF _ v(2) size _ ins] by (simp add: MAX_ATTESTATORS_ALLOWED_def)
  then obtain sent where sent: "serve_send sample_serve stocked_tables sample_session_client (v, RA_SUCCESS) = Inr (?T', sent, [], True)"
    by blast
  let ?s1 = "(nonce_start stocked_tables)\<lparr>ns_hand := [i \<mapsto> Scheduled sample_session_client (v, RA_SUCCESS)]\<rparr>"
  have one: "nonce_step serves (nonce_start stocked_tables) ?s1"
    using nonce_step.ns_lookup [of "nonce_start stocked_tables" i serves sample_session_client sample_serve] assms v(1)
    by (simp add: nonce_start_def)
  have "nonce_step serves ?s1 \<lparr>ns_tables = ?T', ns_hand = (ns_hand ?s1)(i := None), ns_sent = ns_sent ?s1 @ sent\<rparr>"
    by (rule nonce_step.ns_send) (use sent in \<open>simp_all add: nonce_start_def\<close>)
  with one have "(nonce_step serves)\<^sup>*\<^sup>* (nonce_start stocked_tables)
      \<lparr>ns_tables = ?T', ns_hand = (ns_hand ?s1)(i := None), ns_sent = ns_sent ?s1 @ sent\<rparr>"
    by (meson converse_rtranclp_into_rtranclp rtranclp.rtrancl_refl)
  moreover have "length (requests ?T') = 1" by (simp add: stocked_tables_def sample_tables_def)
  ultimately show ?thesis by (metis (no_types, lifting) nonce_system.select_convs(1))
qed

section \<open>Properties\<close>

text \<open>C4: Nonces are used once when no two threads serve the same attestator. In every interleaving of
  the threads' lookups and sends, which may fail in any way that lets the thread go on, with the
  transactions of the other processes in between, the tables stay well formed, requests are only added
  and keep their ids and nonces, and no two requests use the same prepared data.\<close>

theorem nonces_never_reused:
  assumes "db_ok T" and "\<And>i j a. serves i a \<Longrightarrow> serves j a \<Longrightarrow> i = j"
    and "(nonce_step serves)\<^sup>*\<^sup>* (nonce_start T) s"
  shows "db_ok (ns_tables s) \<and> (\<exists>added. request_keys (ns_tables s) = request_keys T @ added)
     \<and> (\<forall>i j. i < length (requests (ns_tables s)) \<and> j < length (requests (ns_tables s))
           \<and> rq_prepared (requests (ns_tables s) ! i) = rq_prepared (requests (ns_tables s) ! j) \<longrightarrow> i = j)"
proof -
  let ?rs = "requests (ns_tables s)"
  have run: "nonces_reserved serves s" "\<exists>added. request_keys (ns_tables s) = request_keys T @ added"
    using nonce_steps_reserved [OF assms(2,3) nonces_reserved_start [OF assms(1)]] by (auto simp: nonce_start_def)
  then have "distinct (map rq_prepared ?rs)"
    by (simp add: nonces_reserved_def db_ok_def nonces_once_def)
  then have "i = j" if "i < length ?rs" "j < length ?rs" "rq_prepared (?rs ! i) = rq_prepared (?rs ! j)" for i j
    using that nth_eq_iff_index_eq [of "map rq_prepared ?rs" i j] by simp
  then show ?thesis using run by (simp add: nonces_reserved_def)
qed

theorem nonces_never_reused_witness:
  "\<exists>s. (nonce_step (\<lambda>i a. i = unat a))\<^sup>*\<^sup>* (nonce_start stocked_tables) s
     \<and> length (requests (ns_tables s)) = 1 \<and> db_ok (ns_tables s)"
proof -
  obtain s where s: "(nonce_step (\<lambda>i a. i = unat a))\<^sup>*\<^sup>* (nonce_start stocked_tables) s" "length (requests (ns_tables s)) = 1"
    using sample_session_run [of "\<lambda>i a. i = unat a" 3] by auto
  then show ?thesis using nonces_never_reused [OF stocked_ok _ s(1)] by blast
qed

text \<open>C31: The lookup of a nonce and the insertion of its request are two transactions, and the thread
  of a client is chosen without looking at its attestator. When two threads serve clients of one
  attestator and both look up before either sends, the run in which every call succeeds uses the same
  prepared data twice: two requests with different ids are on record for it, and both clients are sent
  its nonce. The server is taken to pick the same row for the same query on the same rows.\<close>

theorem nonce_reused_by_race:
  assumes "i \<noteq> j" and "serves i a" and "serves j a"
    and "RA_CLI_get_attestator_id c1 = a" and "RA_CLI_get_attestator_id c2 = a"
    and "enough_nonces T a" and "\<forall>p\<in>set (select_unused T a). length (pd_nonce p) < 2 ^ 32"
    and "lookup_up env1" and "lookup_up env2" and "sv_pick env2 = sv_pick env1"
    and "send_up (sv_send env1)" and "send_up (sv_send env2)"
    and "unat (RA_CLI_get_attestator_number c1) < MAX_ATTESTATORS_ALLOWED"
    and "unat (RA_CLI_get_attestator_number c2) < MAX_ATTESTATORS_ALLOWED"
    and "RA_CLI_get_session_id c1 \<in> set (map ses_id (sessions T))"
    and "RA_CLI_get_session_id c2 \<in> set (map ses_id (sessions T))"
    and "Suc (next_request T) < 2 ^ 64"
  shows "\<exists>s p r1 r2. (nonce_step serves)\<^sup>*\<^sup>* (nonce_start T) s \<and> p \<in> set (select_unused T a)
     \<and> requests (ns_tables s) = requests T @ [r1, r2]
     \<and> rq_prepared r1 = pd_id p \<and> rq_prepared r2 = pd_id p \<and> rq_id r1 \<noteq> rq_id r2
     \<and> ns_sent s =
         [(RA_CLI_get_attestator_number c1, hex_string (cl_AID c1), request_message (rq_id r1) (pd_nonce p)),
          (RA_CLI_get_attestator_number c2, hex_string (cl_AID c2), request_message (rq_id r2) (pd_nonce p))]
     \<and> \<not> nonces_once (ns_tables s)"
proof -
  define p where "p = sv_pick env1 (select_unused T a)"
  define r1 where "r1 = request_row_of T env1 c1 p"
  define T1 where "T1 = T\<lparr>requests := requests T @ [r1], next_request := Suc (next_request T)\<rparr>"
  define r2 where "r2 = request_row_of T1 env2 c2 p"
  define T2 where "T2 = T1\<lparr>requests := requests T1 @ [r2], next_request := Suc (next_request T1)\<rparr>"
  have p: "p \<in> set (select_unused T a)" "p \<in> set (prepared T)" "length (pd_nonce p) < 2 ^ 32"
    using picked_unused [OF assms(8,6)] assms(7) by (auto simp: p_def set_select_unused)
  obtain v1 v2 where v1: "serve_lookup env1 T c1 = (v1, RA_SUCCESS)" "holds_row v1 p"
    and v2: "serve_lookup env2 T c2 = (v2, RA_SUCCESS)" "holds_row v2 p"
    using serve_lookup_found [of env1 T c1] serve_lookup_found [of env2 T c2] assms(4-6,8-10) by (auto simp: p_def)
  have ins1: "insert_request T (se_now (sv_send env1)) (pd_id p) (RA_CLI_get_session_id c1) 1800 False = Some T1"
    using insert_request_row [OF p(2) assms(15)] assms(17) by (simp add: T1_def r1_def)
  have "p \<in> set (prepared T1)" "RA_CLI_get_session_id c2 \<in> set (map ses_id (sessions T1))" "next_request T1 < 2 ^ 64"
    using p(2) assms(16,17) by (simp_all add: T1_def)
  from insert_request_row [OF this]
  have ins2: "insert_request T1 (se_now (sv_send env2)) (pd_id p) (RA_CLI_get_session_id c2) 1800 False = Some T2"
    by (simp add: T2_def r2_def)
  let ?m1 = "(RA_CLI_get_attestator_number c1, hex_string (cl_AID c1), request_message (rq_id r1) (pd_nonce p))"
  let ?m2 = "(RA_CLI_get_attestator_number c2, hex_string (cl_AID c2), request_message (rq_id r2) (pd_nonce p))"
  have send1: "serve_send env1 T c1 (v1, RA_SUCCESS) = Inr (T1, [?m1], [], True)"
    using serve_send_found [OF assms(11) v1(2) p(3) assms(13) ins1] by (simp add: r1_def request_row_of_def)
  have send2: "serve_send env2 T1 c2 (v2, RA_SUCCESS) = Inr (T2, [?m2], [], True)"
    using serve_send_found [OF assms(12) v2(2) p(3) assms(14) ins2] by (simp add: r2_def request_row_of_def)
  let ?h1 = "Scheduled c1 (v1, RA_SUCCESS)" and ?h2 = "Scheduled c2 (v2, RA_SUCCESS)"
  have st1: "nonce_step serves (nonce_start T) \<lparr>ns_tables = T, ns_hand = [i \<mapsto> ?h1], ns_sent = []\<rparr>"
    using nonce_step.ns_lookup [of "nonce_start T" i serves c1 env1] assms(2,4,8) v1(1)
    by (simp add: nonce_start_def lookup_up_def)
  have st2: "nonce_step serves \<lparr>ns_tables = T, ns_hand = [i \<mapsto> ?h1], ns_sent = []\<rparr>
      \<lparr>ns_tables = T, ns_hand = [i \<mapsto> ?h1, j \<mapsto> ?h2], ns_sent = []\<rparr>"
    using nonce_step.ns_lookup [of "\<lparr>ns_tables = T, ns_hand = [i \<mapsto> ?h1], ns_sent = []\<rparr>" j serves c2 env2]
      assms(1,3,5,9) v2(1) by (simp add: lookup_up_def)
  have st3: "nonce_step serves \<lparr>ns_tables = T, ns_hand = [i \<mapsto> ?h1, j \<mapsto> ?h2], ns_sent = []\<rparr>
      \<lparr>ns_tables = T1, ns_hand = [i \<mapsto> ?h1, j \<mapsto> ?h2](i := None), ns_sent = [?m1]\<rparr>"
    using nonce_step.ns_send [of "\<lparr>ns_tables = T, ns_hand = [i \<mapsto> ?h1, j \<mapsto> ?h2], ns_sent = []\<rparr>" i c1
        "(v1, RA_SUCCESS)" env1 T1 "[?m1]" "[]" True serves] assms(1) send1 by simp
  have st4: "nonce_step serves \<lparr>ns_tables = T1, ns_hand = [i \<mapsto> ?h1, j \<mapsto> ?h2](i := None), ns_sent = [?m1]\<rparr>
      \<lparr>ns_tables = T2, ns_hand = [i \<mapsto> ?h1, j \<mapsto> ?h2](i := None, j := None), ns_sent = [?m1, ?m2]\<rparr>"
    using nonce_step.ns_send [of "\<lparr>ns_tables = T1, ns_hand = [i \<mapsto> ?h1, j \<mapsto> ?h2](i := None), ns_sent = [?m1]\<rparr>" j c2
        "(v2, RA_SUCCESS)" env2 T2 "[?m2]" "[]" True serves] assms(1) send2 by simp
  let ?s = "\<lparr>ns_tables = T2, ns_hand = [i \<mapsto> ?h1, j \<mapsto> ?h2](i := None, j := None), ns_sent = [?m1, ?m2]\<rparr>"
  have "(nonce_step serves)\<^sup>*\<^sup>* (nonce_start T) ?s"
    using st1 st2 st3 st4 by (meson rtranclp.rtrancl_into_rtrancl rtranclp.rtrancl_refl)
  moreover have rs: "requests T2 = requests T @ [r1, r2]" by (simp add: T2_def T1_def)
  moreover have ps: "rq_prepared r1 = pd_id p" "rq_prepared r2 = pd_id p"
    by (simp_all add: r1_def r2_def request_row_of_def)
  moreover have "rq_id r1 \<noteq> rq_id r2"
  proof
    assume "rq_id r1 = rq_id r2"
    then have "unat (of_nat (next_request T) :: u64) = unat (of_nat (Suc (next_request T)) :: u64)"
      by (simp only: r1_def r2_def T1_def request_row_of_def) simp
    then show False using assms(17) by (simp add: unat_of_nat take_bit_nat_eq_self del: of_nat_Suc)
  qed
  moreover have "\<not> nonces_once T2" by (simp add: nonces_once_def rs ps)
  ultimately show ?thesis
    using p(1) by - (rule exI [of _ ?s], rule exI [of _ p], rule exI [of _ r1], rule exI [of _ r2], simp)
qed

theorem nonce_reused_by_race_witness:
  "\<exists>s r1 r2 nonce. (nonce_step (\<lambda>i a. i < 2))\<^sup>*\<^sup>* (nonce_start stocked_tables) s
     \<and> requests (ns_tables s) = [r1, r2] \<and> rq_prepared r1 = rq_prepared r2
     \<and> ns_sent s = [(3, hex_string (replicate 16 0), request_message (rq_id r1) nonce),
                    (3, hex_string (replicate 16 0), request_message (rq_id r2) nonce)]"
proof -
  have sizes: "\<forall>p\<in>set (select_unused stocked_tables 3). length (pd_nonce p) < 2 ^ 32"
    by (simp add: stocked_unused stocked_rows)
  have rows: "RA_CLI_get_session_id sample_session_client \<in> set (map ses_id (sessions stocked_tables))"
    "Suc (next_request stocked_tables) < 2 ^ 64" "requests stocked_tables = []"
    by (simp_all add: stocked_tables_def sample_tables_def)
  have number: "unat (RA_CLI_get_attestator_number sample_session_client) < MAX_ATTESTATORS_ALLOWED"
    by (simp add: MAX_ATTESTATORS_ALLOWED_def)
  have two: "(0 :: nat) \<noteq> 1" "(0 :: nat) < 2" "(1 :: nat) < 2" by simp_all
  have ids: "RA_CLI_get_attestator_id sample_session_client = 3" by simp
  obtain s r1 r2 and p :: prepared_row where run: "(nonce_step (\<lambda>i a. i < 2))\<^sup>*\<^sup>* (nonce_start stocked_tables) s"
    "requests (ns_tables s) = requests stocked_tables @ [r1, r2]" "rq_prepared r1 = pd_id p" "rq_prepared r2 = pd_id p"
    and sent: "ns_sent s = [(RA_CLI_get_attestator_number sample_session_client, hex_string (cl_AID sample_session_client),
        request_message (rq_id r1) (pd_nonce p)),
      (RA_CLI_get_attestator_number sample_session_client, hex_string (cl_AID sample_session_client),
        request_message (rq_id r2) (pd_nonce p))]"
    using nonce_reused_by_race [of 0 1 "\<lambda>i a. i < 2", OF two ids ids stocked_enough sizes sample_serve_up(1)
        sample_serve_up(1) refl sample_serve_up(2) sample_serve_up(2) number number rows(1) rows(1) rows(2)]
    by blast
  have "requests (ns_tables s) = [r1, r2]" using run(2) rows(3) by simp
  moreover have "rq_prepared r1 = rq_prepared r2" using run(3,4) by simp
  moreover note sent [simplified]
  ultimately show ?thesis using run(1) by blast
qed

end
