(* ===== verification/Manager_Threads.thy ===== *)
theory Manager_Threads
  imports Manager_Requests
begin

text \<open>
  \<^verbatim>\<open>server-components/manager.c\<close>, the threads: the loop of a serving thread
  (\<^verbatim>\<open>actual_manager_routine\<close>) and the connection listener
  (\<^verbatim>\<open>asclWebSocketDispatcherMessage\<close>) that hands clients to the threads. One iteration of the loop
  runs under the mutex of its thread, from the evaluation of the event to the next wait, so it is
  one atomic step on the thread's state; so is a hand-over by the listener.
\<close>

section \<open>State\<close>

datatype actual_manager_action = client_up | client_down | die

text \<open>
  A thread: its served clients and its schedule, and the slot through which the listener passes
  it a client object, by address. \<open>mt_exit\<close> is the local flag that ends the loop.
\<close>

record manager_thread =
  mt_clients :: "ra_client generic_list"
  mt_queue :: "rat scheduler_queue"
  mt_count :: u32
  mt_action :: actual_manager_action
  mt_passing :: "(nat \<times> ra_client) option"
  mt_exit :: bool

text \<open>What the threads share: the database, the messages sent, the commands launched, and the
  addresses of the client objects that are allocated.\<close>

record manager_world =
  mw_tables :: tables
  mw_sent :: "ws_message list"
  mw_commands :: "command list"
  mw_live :: "nat set"

datatype wake = Timed_Out | Woken

text \<open>The outcomes of one iteration: the clock before and after the wait, the services, the random
  number, and the allocations of the queue and the list.\<close>

record wake_env =
  wk_before :: timeval
  wk_after :: timeval
  wk_serve :: serve_env
  wk_startup :: startup_env
  wk_rand :: int
  wk_alloc_queue :: bool
  wk_alloc_item :: bool
  wk_alloc_data :: bool

section \<open>The loop of a serving thread\<close>

definition NOT_SERVED_RE_SCHEDULING_STANDARD_TIME :: rat where
  "NOT_SERVED_RE_SCHEDULING_STANDARD_TIME = 5"

definition after_service :: "manager_world \<Rightarrow> tables \<Rightarrow> ws_message list \<Rightarrow> command list \<Rightarrow> manager_world" where
  "after_service w T sent cmds =
     w\<lparr>mw_tables := T, mw_sent := mw_sent w @ sent, mw_commands := mw_commands w @ cmds\<rparr>"

text \<open>The thread's own objects, created before the loop; the main thread has set the count to 0 and
  left the action and the slot uninitialised (\<open>action\<close>, \<open>passing\<close>). A list or queue that could not
  be allocated is used without a test.\<close>

definition manager_thread_create ::
  "bool \<Rightarrow> bool \<Rightarrow> actual_manager_action \<Rightarrow> (nat \<times> ra_client) option \<Rightarrow> manager_thread run" where
  "manager_thread_create list_ok queue_ok action passing =
     bind_run (deref (gl_create list_ok ''Serving clients'' 48 (Some RA_CLI_compare) (Some RA_CLI_destroy) None)) (\<lambda>l.
     bind_run (deref (sq_create queue_ok)) (\<lambda>q.
       Inr \<lparr>mt_clients = l, mt_queue = q, mt_count = 0, mt_action = action, mt_passing = passing,
            mt_exit = False\<rparr>))"

definition serve_timeout ::
  "wake_env \<Rightarrow> manager_world \<Rightarrow> manager_thread \<Rightarrow> (manager_world \<times> manager_thread) run" where
  "serve_timeout env w t =
     (case sq_remove (mt_queue t) of
        (None, _) \<Rightarrow> Inr (w, t)
      | (Some client_to_serve, q) \<Rightarrow>
          bind_run (serve_client (wk_serve env) (mw_tables w) client_to_serve) (\<lambda>(T, sent, cmds, served).
          bind_run (if served then compute_random_sleep (wk_rand env) client_to_serve
                    else Inr NOT_SERVED_RE_SCHEDULING_STANDARD_TIME) (\<lambda>tts.
            Inr (after_service w T sent cmds,
                 t\<lparr>mt_queue := snd (sq_insert (wk_alloc_queue env) q client_to_serve tts)\<rparr>))))"

text \<open>Reading the client object behind the slot.\<close>

definition passing_client :: "manager_world \<Rightarrow> manager_thread \<Rightarrow> (nat \<times> ra_client) run" where
  "passing_client w t =
     bind_run (deref (mt_passing t)) (\<lambda>(a, c). if a \<in> mw_live w then Inr (a, c) else Inl Use_After_Free)"

definition handle_up ::
  "wake_env \<Rightarrow> manager_world \<Rightarrow> manager_thread \<Rightarrow> (manager_world \<times> manager_thread) run" where
  "handle_up env w t =
     (if mt_passing t = None then Inr (w, t)
      else bind_run (passing_client w t) (\<lambda>(a, c).
        bind_run (attest_client_at_startup (wk_startup env) (mw_tables w) c) (\<lambda>(T, sent, cmds, _).
          let w' = after_service w T sent cmds;
              (r, l) = gl_insert (wk_alloc_item env) (wk_alloc_data env) (mt_clients t) c in
          if r = GL_ERROR_ITEM_ALREADY_PRESENT then Inr (w', t)
          else bind_run (compute_random_sleep (wk_rand env) c) (\<lambda>tts.
            Inr (w', t\<lparr>mt_clients := l, mt_count := gl_count l,
                       mt_queue := snd (sq_insert (wk_alloc_queue env) (mt_queue t) c tts),
                       mt_passing := None\<rparr>)))))"

text \<open>
  The comparator reads the passed object only when there is an item to compare it with. The copy
  that the list held and the passed object are freed.
\<close>

definition handle_down ::
  "manager_world \<Rightarrow> manager_thread \<Rightarrow> (manager_world \<times> manager_thread) run" where
  "handle_down w t =
     (if gl_items (mt_clients t) = [] then Inr (w, t\<lparr>mt_passing := None\<rparr>)
      else bind_run (passing_client w t) (\<lambda>(a, c).
        if gl_is_containing (mt_clients t) c
        then let q = snd (sq_remove_all_scheduled (mt_queue t) c) in
          bind_run (gl_remove (mt_clients t) c) (\<lambda>(_, l).
            Inr (w\<lparr>mw_live := mw_live w - {a}\<rparr>,
                 t\<lparr>mt_clients := l, mt_queue := q, mt_count := gl_count l, mt_passing := None\<rparr>))
        else Inr (w, t\<lparr>mt_passing := None\<rparr>)))"

definition handle_die :: "manager_world \<Rightarrow> manager_thread \<Rightarrow> (manager_world \<times> manager_thread) run" where
  "handle_die w t =
     bind_run (sq_destroy (mt_queue t)) (\<lambda>_.
     bind_run (gl_destroy (mt_clients t) []) (\<lambda>_. Inr (w, t\<lparr>mt_exit := True\<rparr>)))"

definition manager_iteration ::
  "wake_env \<Rightarrow> wake \<Rightarrow> manager_world \<Rightarrow> manager_thread \<Rightarrow> (manager_world \<times> manager_thread) run" where
  "manager_iteration env event w t =
     (let current_time_to_sleep = transform_time_to_sleep (wk_before env) (sq_get_time_to_sleep (mt_queue t)) in
      case event of
        Timed_Out \<Rightarrow> serve_timeout env w t
      | Woken \<Rightarrow>
          let left = time_left current_time_to_sleep (wk_after env);
              t1 = t\<lparr>mt_queue := snd (sq_update_time_unslept (mt_queue t) left)\<rparr> in
          (case mt_action t1 of
             client_up \<Rightarrow> handle_up env w t1
           | client_down \<Rightarrow> handle_down w t1
           | die \<Rightarrow> handle_die w t1))"

section \<open>The connection listener\<close>

datatype ws_event = WS_OPEN | WS_SEND | WS_EXCHANGE | WS_CLOSE | WS_OTHER

datatype ascl_result = ASCL_SUCCESS | ASCL_ERROR

text \<open>\<^verbatim>\<open>%02hhx\<close>: white space is skipped, then at most two characters, a sign and hexadecimal digits;
  without a digit the variable keeps its value.\<close>

definition hex_value :: "char \<Rightarrow> nat option" where
  "hex_value c =
     (let n = of_char c :: nat in
      if 48 \<le> n \<and> n \<le> 57 then Some (n - 48)
      else if 65 \<le> n \<and> n \<le> 70 then Some (n - 55)
      else if 97 \<le> n \<and> n \<le> 102 then Some (n - 87)
      else None)"

definition scan_hex_pair :: "string \<Rightarrow> u8 \<Rightarrow> u8" where
  "scan_hex_pair s old =
     (let (neg, r) = scan_sign (take 2 (skip_space s));
          ds = map the (takeWhile (\<lambda>v. v \<noteq> None) (map hex_value r));
          n = foldl (\<lambda>n d. 16 * n + d) 0 ds in
      if ds = [] then old else if neg then - of_nat n else of_nat n)"

definition parse_AID :: "string \<Rightarrow> u8 list \<Rightarrow> u8 list" where
  "parse_AID s old = map (\<lambda>j. scan_hex_pair (drop (2 * j) s) (old ! j)) [0..<AID_SIZE]"

text \<open>The loop that looks for the thread with the fewest clients.\<close>

definition least_loaded :: "u32 list \<Rightarrow> nat" where
  "least_loaded counts = fold (\<lambda>i i_min. if counts ! i < counts ! i_min then i else i_min) [1..<length counts] 0"

text \<open>
  The listener's state: the shared world, the threads and the next free address. The outcomes of a
  call: the connections, the time, the allocation of the client object and the uninitialised
  variables.
\<close>

record manager =
  mg_world :: manager_world
  mg_threads :: "manager_thread list"
  mg_next :: nat

record dispatch_env =
  de_params :: db_link
  de_start :: db_link
  de_react :: db_link
  de_revoke :: db_link
  de_active :: db_link
  de_close :: db_link
  de_now :: u64
  de_malloc :: bool
  de_out :: attestation_parameters
  de_session :: u64
  de_AID :: "u8 list"

definition set_tables :: "manager \<Rightarrow> tables \<Rightarrow> manager" where
  "set_tables m T = m\<lparr>mg_world := (mg_world m)\<lparr>mw_tables := T\<rparr>\<rparr>"

text \<open>Handing an object to a thread overwrites the slot and the action.\<close>

definition pass_client :: "(nat \<times> ra_client) option \<Rightarrow> actual_manager_action \<Rightarrow> manager_thread \<Rightarrow> manager_thread" where
  "pass_client c action t = t\<lparr>mt_passing := c, mt_action := action\<rparr>"

definition allocate_client :: "manager \<Rightarrow> ra_client option \<Rightarrow> manager \<times> (nat \<times> ra_client) option" where
  "allocate_client m c =
     (case c of
        None \<Rightarrow> (m, None)
      | Some client \<Rightarrow>
          (m\<lparr>mg_world := (mg_world m)\<lparr>mw_live := insert (mg_next m) (mw_live (mg_world m))\<rparr>,
             mg_next := Suc (mg_next m)\<rparr>, Some (mg_next m, client)))"

definition connection_opened ::
  "dispatch_env \<Rightarrow> attestation_parameters \<Rightarrow> ra_client option \<Rightarrow> manager \<Rightarrow> (ascl_result \<times> manager) run" where
  "connection_opened env par client m =
     (let ((T1, session_id), r) =
        ra_db_start_session (de_start env) (mw_tables (mg_world m)) (de_now env) (par_attestator par) (de_session env) in
      if r \<noteq> RA_SUCCESS then Inr (ASCL_ERROR, set_tables m T1)
      else bind_run (deref client) (\<lambda>c.
        let c1 = RA_CLI_set_session_id c session_id;
            (T2, r2) = ra_db_set_reaction_status (de_react env) T1 (par_application par) REACTION_STATUS_UNKNOWN in
        if r2 \<noteq> RA_SUCCESS
        then Inr (ASCL_ERROR, set_tables m (fst (ra_db_revoke_session (de_revoke env) T2 session_id)))
        else if mg_threads m = [] then Inl Out_Of_Bounds
        else let (m1, obj) = allocate_client (set_tables m T2) (Some c1);
                 i_min = least_loaded (map mt_count (mg_threads m1)) in
          Inr (ASCL_SUCCESS,
               m1\<lparr>mg_threads := (mg_threads m1)[i_min := pass_client obj client_up (mg_threads m1 ! i_min)]\<rparr>)))"

definition connection_closed ::
  "dispatch_env \<Rightarrow> attestation_parameters \<Rightarrow> ra_client option \<Rightarrow> manager \<Rightarrow> (ascl_result \<times> manager) run" where
  "connection_closed env par client m =
     (let T = mw_tables (mg_world m);
          (session_id, r) = ra_db_get_active_session (de_active env) T (par_attestator par) (de_session env) in
      if r \<noteq> RA_SUCCESS then Inr (ASCL_ERROR, m)
      else let (T1, r1) = ra_db_close_session (de_close env) T (de_now env) session_id in
        if r1 \<noteq> RA_SUCCESS then Inr (ASCL_ERROR, set_tables m T1)
        else let (T2, r2) = ra_db_set_reaction_status (de_react env) T1 (par_application par) REACTION_STATUS_UNKNOWN in
          if r2 \<noteq> RA_SUCCESS
          then Inr (ASCL_ERROR, set_tables m (fst (ra_db_revoke_session (de_revoke env) T2 session_id)))
          else let (m1, obj) = allocate_client (set_tables m T2) client in
            Inr (ASCL_SUCCESS, m1\<lparr>mg_threads := map (pass_client obj client_down) (mg_threads m1)\<rparr>))"

definition asclWebSocketDispatcherMessage ::
  "dispatch_env \<Rightarrow> u64 \<Rightarrow> string \<Rightarrow> ws_event \<Rightarrow> manager \<Rightarrow> (ascl_result \<times> manager) run" where
  "asclWebSocketDispatcherMessage env number application_id message_id m =
     (let AID = parse_AID application_id (de_AID env);
          (par, r) = ra_db_get_attestation_parameters (de_params env) (mw_tables (mg_world m)) application_id number (de_out env) in
      if r \<noteq> RA_SUCCESS then Inr (ASCL_ERROR, m)
      else bind_run (RA_CLI_create (de_malloc env) AID number (par_attestator par) (par_sleep_avg par)
                       (par_sleep_var par) 0xFFFFFFFFFFFFFFFF 0) (\<lambda>client.
        case message_id of
          WS_OPEN \<Rightarrow> connection_opened env par client m
        | WS_CLOSE \<Rightarrow> connection_closed env par client m
        | _ \<Rightarrow> Inr (ASCL_SUCCESS, m)))"

text \<open>Shutting down: the main thread sets the action of every thread.\<close>

definition request_shutdown :: "manager \<Rightarrow> manager" where
  "request_shutdown m = m\<lparr>mg_threads := map (\<lambda>t. t\<lparr>mt_action := die\<rparr>) (mg_threads m)\<rparr>"

section \<open>The invariant of a thread\<close>

definition thread_ok :: "manager_thread \<Rightarrow> bool" where
  "thread_ok t \<longleftrightarrow> gl_client_ok (mt_clients t) \<and> sq_ok (mt_queue t)
     \<and> mset (map fst (sq_schedule (mt_queue t))) = mset (gl_items (mt_clients t))
     \<and> mt_count t = gl_count (mt_clients t)"

text \<open>The part of it that holds whatever becomes of the allocations.\<close>

definition thread_wf :: "manager_thread \<Rightarrow> bool" where
  "thread_wf t \<longleftrightarrow> gl_client_ok (mt_clients t) \<and> sq_ok (mt_queue t) \<and> mt_count t = gl_count (mt_clients t)"

lemma thread_ok_wf: "thread_ok t \<longleftrightarrow>
    thread_wf t \<and> mset (map fst (sq_schedule (mt_queue t))) = mset (gl_items (mt_clients t))"
  by (auto simp: thread_ok_def thread_wf_def)

definition allocations_ok :: "wake_env \<Rightarrow> bool" where
  "allocations_ok env \<longleftrightarrow> wk_alloc_queue env \<and> wk_alloc_item env \<and> wk_alloc_data env"

definition passing_wf :: "manager_thread \<Rightarrow> bool" where
  "passing_wf t \<longleftrightarrow> (\<forall>a c. mt_passing t = Some (a, c) \<longrightarrow> client_wf c)"

lemma mset_schedule_insert:
  "image_mset fst (mset (sq_schedule (snd (sq_insert True q c (tts :: rat)))))
     = add_mset c (image_mset fst (mset (sq_schedule q)))"
  by (simp add: sq_insert_schedule)

lemma map_fst_schedule: "map fst (sq_schedule q) = map sq_client (sq_items q)"
  by (simp add: sq_schedule_def)

lemma schedule_clients_update [simp]:
  "map fst (sq_schedule (snd (sq_update_time_unslept q r))) = map fst (sq_schedule (q :: rat scheduler_queue))"
  by (simp add: map_fst_schedule sq_update_time_unslept_def split: list.split)

lemma sq_remove_clients:
  "sq_remove q = (Some c, q') \<Longrightarrow> mset (map fst (sq_schedule (q :: rat scheduler_queue))) = add_mset c (mset (map fst (sq_schedule q')))"
  by (auto simp: map_fst_schedule sq_remove_def split: list.splits)

text \<open>Where a predicate holds of at most one element, removing the first leaves the others.\<close>

lemma mset_remove_first:
  "length (filter P xs) \<le> 1 \<Longrightarrow> mset (remove_first P xs) = filter_mset (\<lambda>x. \<not> P x) (mset xs)"
proof (induction xs)
  case (Cons x xs)
  show ?case
  proof (cases "P x")
    case True
    then have "\<forall>y\<in>set xs. \<not> P y" using Cons.prems by (simp add: filter_empty_conv)
    then have "filter_mset (\<lambda>x. \<not> P x) (mset xs) = mset xs" by (simp add: filter_mset_eq_conv)
    with True show ?thesis by simp
  qed (use Cons in simp)
qed simp

lemma map_remove_first: "map f (remove_first (\<lambda>x. P (f x)) xs) = remove_first P (map f xs)"
  by (induction xs) auto

lemma apart_filter_le_one:
  assumes "sorted_wrt (\<lambda>a b. \<not> same_client a b) xs" and "\<forall>x\<in>set xs. client_wf x" and "client_wf c"
  shows "length (filter (\<lambda>x. same_client x c) xs) \<le> 1"
  using assms
proof (induction xs)
  case (Cons x xs)
  show ?case
  proof (cases "same_client x c")
    case True
    have "\<not> same_client y c" if "y \<in> set xs" for y
    proof
      assume "same_client y c"
      then have "same_client x y" using True that Cons.prems
        by (auto simp: same_client_iff)
      then show False using that Cons.prems(1) by auto
    qed
    then show ?thesis using True by (simp add: filter_empty_conv)
  qed (use Cons in simp)
qed simp

lemma remove_client_both:
  assumes "thread_ok t" and "client_wf c" and "gl_is_containing (mt_clients t) c"
    and "gl_remove (mt_clients t) c = Inr (d, l)"
  shows "gl_client_ok l \<and> mset (map fst (sq_schedule (snd (sq_remove_all_scheduled (mt_queue t) c)))) = mset (gl_items l)"
proof -
  let ?xs = "gl_items (mt_clients t)" and ?S = "sq_schedule (mt_queue t)" and ?P = "\<lambda>x. same_client x c"
  have ok: "gl_client_ok (mt_clients t)" and m: "mset (map fst ?S) = mset ?xs"
    using assms(1) by (simp_all add: thread_ok_def)
  from gl_remove_ok [OF ok assms(3)] assms(4)
  have l: "gl_items l = remove_first ?P ?xs" "gl_client_ok l" by auto
  have one: "length (filter ?P ?xs) \<le> 1"
    by (rule apart_filter_le_one) (use ok assms(2) in \<open>auto simp: gl_client_ok_def\<close>)
  then have "size (filter_mset ?P (mset (map fst ?S))) \<le> 1" by (simp only: m) (simp flip: mset_filter)
  then have one': "length (filter ?P (map fst ?S)) \<le> 1" by (metis mset_filter size_mset)
  have "map fst (sq_schedule (snd (sq_remove_all_scheduled (mt_queue t) c))) = remove_first ?P (map fst ?S)"
    using map_remove_first [of fst ?P ?S]
    by (simp add: sq_remove_all_scheduled_schedule same_client_def case_prod_beta')
  then show ?thesis using l mset_remove_first [OF one] mset_remove_first [OF one'] m by simp
qed

lemma serve_timeout_ok:
  assumes "thread_ok t" and "allocations_ok env" and "serve_timeout env w t = Inr (w', t')"
  shows "thread_ok t'"
proof (cases "sq_remove (mt_queue t)")
  case (Pair c q)
  show ?thesis
  proof (cases c)
    case None
    with Pair assms show ?thesis by (simp add: serve_timeout_def)
  next
    case (Some client)
    then obtain tts where t': "t' = t\<lparr>mt_queue := snd (sq_insert True q client tts)\<rparr>"
      using Pair assms(2,3) by (auto simp: serve_timeout_def allocations_ok_def bind_run_Inr_iff)
    have "sq_ok q" using sq_remove_ok [of "mt_queue t"] assms(1) Pair by (simp add: thread_ok_def)
    then show ?thesis
      using assms(1) sq_remove_clients [of "mt_queue t" client q] Pair Some
      by (simp add: thread_ok_def t' mset_schedule_insert sq_insert_ok)
  qed
qed

lemma handle_up_ok:
  assumes "thread_ok t" and "allocations_ok env" and "passing_wf t" and "handle_up env w t = Inr (w', t')"
  shows "thread_ok t'"
proof (cases "mt_passing t")
  case None
  with assms show ?thesis by (simp add: handle_up_def)
next
  case (Some ac)
  obtain a c where ac: "ac = (a, c)" by fastforce
  then have wf: "client_wf c" using assms(3) Some by (simp add: passing_wf_def)
  show ?thesis
  proof (cases "gl_is_containing (mt_clients t) c")
    case True
    with Some ac assms show ?thesis
      by (auto simp: handle_up_def passing_client_def gl_insert_def bind_run_Inr_iff split: if_splits)
  next
    case False
    let ?l = "snd (gl_insert True True (mt_clients t) c)"
    obtain tts where t': "t' = t\<lparr>mt_clients := ?l, mt_count := gl_count ?l,
        mt_queue := snd (sq_insert True (mt_queue t) c tts), mt_passing := None\<rparr>"
      using False Some ac assms(2,4)
      by (auto simp: handle_up_def passing_client_def gl_insert_def allocations_ok_def bind_run_Inr_iff Let_def
          split: if_splits)
    have "gl_client_ok ?l" using gl_insert_ok [OF _ wf] assms(1) by (simp add: thread_ok_def)
    moreover have "gl_items ?l = c # gl_items (mt_clients t)" using False by (simp add: gl_insert_def)
    ultimately show ?thesis
      using assms(1) by (simp add: thread_ok_def t' mset_schedule_insert sq_insert_ok)
  qed
qed

lemma handle_down_ok:
  assumes "thread_ok t" and "passing_wf t" and "handle_down w t = Inr (w', t')"
  shows "thread_ok t'"
proof (cases "mt_passing t")
  case None
  with assms show ?thesis
    by (auto simp: handle_down_def passing_client_def thread_ok_def split: if_splits)
next
  case (Some ac)
  obtain a c where ac: "ac = (a, c)" by fastforce
  then have wf: "client_wf c" using assms(2) Some by (simp add: passing_wf_def)
  show ?thesis
  proof (cases "gl_items (mt_clients t) \<noteq> [] \<and> gl_is_containing (mt_clients t) c")
    case True
    then obtain d l where l: "gl_remove (mt_clients t) c = Inr (d, l)"
      and t': "t' = t\<lparr>mt_clients := l, mt_queue := snd (sq_remove_all_scheduled (mt_queue t) c),
                 mt_count := gl_count l, mt_passing := None\<rparr>"
      using Some ac assms(3)
      by (auto simp: handle_down_def passing_client_def bind_run_Inr_iff Let_def split: if_splits)
    show ?thesis
      using remove_client_both [OF assms(1) wf _ l] True assms(1)
      by (simp add: thread_ok_def t' sq_remove_all_scheduled_ok)
  next
    case False
    with Some ac assms show ?thesis
      by (auto simp: handle_down_def passing_client_def thread_ok_def bind_run_Inr_iff split: if_splits)
  qed
qed

lemma update_unslept_ok: "thread_ok t \<Longrightarrow> thread_ok (t\<lparr>mt_queue := snd (sq_update_time_unslept (mt_queue t) r)\<rparr>)"
  using schedule_clients_update [of "mt_queue t" r]
  by (simp add: thread_ok_def sq_update_ok)

lemma manager_iteration_ok:
  assumes "thread_ok t" and "allocations_ok env" and "event = Woken \<Longrightarrow> mt_action t = die \<or> passing_wf t"
    and "manager_iteration env event w t = Inr (w', t')"
  shows "thread_ok t'"
proof (cases event)
  case Timed_Out
  then show ?thesis
    using serve_timeout_ok [OF assms(1,2)] assms(4) by (simp add: manager_iteration_def)
next
  case Woken
  define t1 where "t1 = t\<lparr>mt_queue := snd (sq_update_time_unslept (mt_queue t)
      (time_left (transform_time_to_sleep (wk_before env) (sq_get_time_to_sleep (mt_queue t))) (wk_after env)))\<rparr>"
  have t1: "thread_ok t1" "mt_action t \<noteq> die \<Longrightarrow> passing_wf t1" "mt_action t1 = mt_action t"
    using assms(1,3) Woken update_unslept_ok by (auto simp: t1_def passing_wf_def)
  show ?thesis
  proof (cases "mt_action t")
    case client_up
    with Woken assms(4) t1 show ?thesis
      by (intro handle_up_ok [OF t1(1) assms(2) t1(2)]) (simp_all add: manager_iteration_def Let_def flip: t1_def)
  next
    case client_down
    with Woken assms(4) t1 show ?thesis
      by (intro handle_down_ok [OF t1(1,2)]) (simp_all add: manager_iteration_def Let_def flip: t1_def)
  next
    case die
    with Woken assms(4) t1 show ?thesis
      by (auto simp: manager_iteration_def Let_def handle_die_def bind_run_Inr_iff thread_ok_def simp flip: t1_def)
  qed
qed

lemma serve_timeout_wf:
  "thread_wf t \<Longrightarrow> serve_timeout env w t = Inr (w', t') \<Longrightarrow> thread_wf t'"
  using sq_remove_ok [of "mt_queue t"]
  by (auto simp: serve_timeout_def thread_wf_def bind_run_Inr_iff intro: sq_insert_ok split: option.splits prod.splits)

lemma handle_up_wf:
  "thread_wf t \<Longrightarrow> passing_wf t \<Longrightarrow> handle_up env w t = Inr (w', t') \<Longrightarrow> thread_wf t'"
  using gl_insert_ok [of "mt_clients t" _ "wk_alloc_item env" "wk_alloc_data env"]
  by (auto simp: handle_up_def thread_wf_def passing_wf_def passing_client_def bind_run_Inr_iff deref_Inr_iff Let_def
      case_prod_beta intro: sq_insert_ok split: if_splits)

lemma handle_down_wf: "thread_wf t \<Longrightarrow> handle_down w t = Inr (w', t') \<Longrightarrow> thread_wf t'"
  using gl_remove_ok [of "mt_clients t"]
  by (fastforce simp: handle_down_def thread_wf_def passing_client_def bind_run_Inr_iff deref_Inr_iff Let_def
      intro: sq_remove_all_scheduled_ok split: if_splits)

lemma manager_iteration_wf:
  assumes "thread_wf t" and "event = Woken \<Longrightarrow> mt_action t = client_up \<Longrightarrow> passing_wf t"
    and "manager_iteration env event w t = Inr (w', t')"
  shows "thread_wf t'"
proof (cases event)
  case Timed_Out
  with assms show ?thesis using serve_timeout_wf by (simp add: manager_iteration_def)
next
  case Woken
  define t1 where "t1 = t\<lparr>mt_queue := snd (sq_update_time_unslept (mt_queue t)
      (time_left (transform_time_to_sleep (wk_before env) (sq_get_time_to_sleep (mt_queue t))) (wk_after env)))\<rparr>"
  have t1: "thread_wf t1" "mt_action t1 = mt_action t" "mt_passing t1 = mt_passing t"
    using assms(1) by (simp_all add: t1_def thread_wf_def sq_update_ok)
  show ?thesis
  proof (cases "mt_action t")
    case client_up
    then have "passing_wf t1" using assms(2) Woken t1(3) by (simp add: passing_wf_def)
    with client_up Woken assms(3) t1 show ?thesis
      by (intro handle_up_wf [OF t1(1)]) (simp_all add: manager_iteration_def Let_def flip: t1_def)
  next
    case client_down
    with Woken assms(3) t1 show ?thesis
      by (intro handle_down_wf [OF t1(1)]) (simp add: manager_iteration_def Let_def flip: t1_def)
  next
    case die
    with Woken assms(3) t1 show ?thesis
      by (auto simp: manager_iteration_def Let_def handle_die_def bind_run_Inr_iff thread_wf_def simp flip: t1_def)
  qed
qed

text \<open>The result of \<^verbatim>\<open>sq_insert\<close> is not looked at: a client whose new place in the schedule cannot be allocated
  stays in the list of served clients, but nothing serves it any more.\<close>

theorem failed_insertion_drops_client:
  assumes "thread_ok t" and "sq_schedule (mt_queue t) = (c, d) # rest" and "\<not> wk_alloc_queue env"
    and "serve_client (wk_serve env) (mw_tables w) c = Inr (T, sent, cmds, served)"
    and "served \<Longrightarrow> compute_random_sleep (wk_rand env) c = Inr again"
  shows "\<exists>t'. manager_iteration env Timed_Out w t = Inr (after_service w T sent cmds, t')
     \<and> sq_schedule (mt_queue t') = shift_times d rest
     \<and> c \<in> set (gl_items (mt_clients t')) \<and> c \<notin> set (map fst (sq_schedule (mt_queue t')))"
proof -
  obtain q where q: "sq_remove (mt_queue t) = (Some c, q)" and sched: "sq_schedule q = shift_times d rest"
    using sq_remove_schedule(2) [OF assms(2)] by (metis prod.collapse)
  have m: "mset (gl_items (mt_clients t)) = add_mset c (mset (map fst rest))"
    using assms(1,2) by (metis fst_conv list.simps(9) mset.simps(2) thread_ok_def)
  then have c: "c \<in> set (gl_items (mt_clients t))" by (metis set_mset_mset union_single_eq_member)
  have ok: "gl_client_ok (mt_clients t)" using assms(1) by (simp add: thread_ok_def)
  then have wf: "client_wf c" and apart: "sorted_wrt (\<lambda>a b. \<not> same_client a b) (gl_items (mt_clients t))"
    using c by (auto simp: gl_client_ok_def)
  have "distinct xs" if "sorted_wrt (\<lambda>a b. \<not> same_client a b) xs" "\<forall>x\<in>set xs. client_wf x" for xs
    using that by (induction xs) (auto dest: bspec)
  then have "distinct (gl_items (mt_clients t))" using apart ok by (simp add: gl_client_ok_def)
  then have "c \<notin> set (map fst rest)"
    using m by (metis distinct.simps(2) list.simps(15) mset.simps(2) mset_eq_imp_distinct_iff set_mset_mset)
  moreover have "map fst (shift_times d rest) = map fst rest" by (simp add: shift_times_def case_prod_beta comp_def)
  ultimately have "c \<notin> fst ` set (shift_times d rest)" by (metis set_map)
  then show ?thesis
    using assms(3-5) c sched
    by (cases served) (simp_all add: manager_iteration_def serve_timeout_def q sq_insert_def)
qed

text \<open>A client that is served, with a thread that serves it and one that does not, after a close of its
  connection was announced.\<close>

definition sample_thread :: "u64 list \<Rightarrow> actual_manager_action \<Rightarrow> (nat \<times> ra_client) option \<Rightarrow> manager_thread" where
  "sample_thread ns action passing =
     \<lparr>mt_clients = sample_list\<lparr>gl_items := map sample_client ns, gl_items_count := of_nat (length ns)\<rparr>,
      mt_queue = \<lparr>sq_items = map (\<lambda>n. \<lparr>sq_client = sample_client n, sq_delta = 5\<rparr>) ns,
                  sq_items_count = of_nat (length ns)\<rparr>,
      mt_count = of_nat (length ns), mt_action = action, mt_passing = passing, mt_exit = False\<rparr>"

definition sample_world :: "nat set \<Rightarrow> manager_world" where
  "sample_world live = \<lparr>mw_tables = sample_tables [1, 2] [3], mw_sent = [], mw_commands = [], mw_live = live\<rparr>"

definition sample_wake :: wake_env where
  "sample_wake =
     \<lparr>wk_before = \<lparr>now_sec = 100, now_usec = 0\<rparr>, wk_after = \<lparr>now_sec = 102, now_usec = 0\<rparr>,
      wk_serve = \<lparr>sv_pick = hd, sv_link = link_up, sv_malloc = True, sv_fork = True, sv_send = sample_send True,
        sv_vars = \<lparr>vn_prepared_id = 0, vn_nonce = None, vn_size = 0, vn_left = 0, vn_area = 0\<rparr>\<rparr>,
      wk_startup = sample_startup, wk_rand = 7, wk_alloc_queue = True, wk_alloc_item = True,
      wk_alloc_data = True\<rparr>"

lemma sample_wake_ok [simp]: "allocations_ok sample_wake"
  by (simp add: sample_wake_def allocations_ok_def)

lemma sample_thread_ok:
  assumes "sorted_wrt (\<lambda>m n. (ucast m :: u32) \<noteq> ucast n) ns"
  shows "thread_ok (sample_thread ns action passing)"
proof -
  have "gl_client_ok (sample_list\<lparr>gl_items := map sample_client ns, gl_items_count := of_nat (length ns)\<rparr>)"
    using assms by (auto simp: gl_client_ok_def sorted_wrt_map) (simp add: sample_list_def)
  then show ?thesis
    by (simp add: thread_ok_def sample_thread_def sq_ok_def map_fst_schedule gl_count_def comp_def
        map_tl [symmetric] del: mset_map)
qed

lemma sample_served:
  "gl_is_containing (mt_clients (sample_thread ns action passing)) (sample_client n)
     \<longleftrightarrow> (\<exists>m\<in>set ns. (ucast m :: u32) = ucast n)"
  by (simp add: gl_is_containing_iff sample_thread_def) (simp add: sample_list_def)

section \<open>A client that disconnects\<close>

lemma iteration_down_served:
  assumes "mt_action t = client_down" and "mt_passing t = Some (a, c)" and "a \<in> mw_live w"
    and "gl_is_containing (mt_clients t) c" and "gl_remove (mt_clients t) c = Inr (d, l)"
  shows "\<exists>q. manager_iteration env Woken w t =
     Inr (w\<lparr>mw_live := mw_live w - {a}\<rparr>,
          t\<lparr>mt_clients := l, mt_queue := q, mt_count := gl_count l, mt_passing := None\<rparr>)"
proof -
  have "gl_items (mt_clients t) \<noteq> []" using assms(4) by (auto simp: gl_is_containing_iff)
  then show ?thesis
    using assms by (auto simp: manager_iteration_def Let_def handle_down_def passing_client_def)
qed

lemma iteration_down_faults:
  assumes "mt_action t = client_down" and "gl_items (mt_clients t) \<noteq> []"
  shows "mt_passing t = None \<Longrightarrow> manager_iteration env Woken w t = Inl Null_Deref"
    and "mt_passing t = Some (a, c) \<Longrightarrow> a \<notin> mw_live w \<Longrightarrow> manager_iteration env Woken w t = Inl Use_After_Free"
  using assms by (simp_all add: manager_iteration_def Let_def handle_down_def passing_client_def)

text \<open>A timed wait may return without a signal. The action of the last event is still set and the slot
  is empty: after a disconnection a thread that still serves clients dereferences NULL.\<close>

theorem spurious_wake_null_deref:
  assumes "mt_action t = client_down" and "mt_passing t = Some (a, c)" and "thread_ok t" and "client_wf c"
    and "a \<in> mw_live w" and "gl_is_containing (mt_clients t) c" and "1 < length (gl_items (mt_clients t))"
  shows "\<exists>w' t'. manager_iteration env1 Woken w t = Inr (w', t')
     \<and> manager_iteration env2 Woken w' t' = Inl Null_Deref"
proof -
  have ok: "gl_client_ok (mt_clients t)" using assms(3) by (simp add: thread_ok_def)
  obtain d l where l: "gl_remove (mt_clients t) c = Inr (d, l)"
    using clients.remove_present [OF ok assms(4,6)] by blast
  then have "gl_items l \<noteq> []" using clients.remove_not_member [OF ok assms(4,6)] assms(7) by force
  then show ?thesis
    using iteration_down_served [OF assms(1,2,5,6) l, of env1] assms(1)
      iteration_down_faults(1) [of "t\<lparr>mt_clients := l, mt_queue := q, mt_count := gl_count l, mt_passing := None\<rparr>" for q]
    by fastforce
qed

theorem spurious_wake_null_deref_witness:
  "\<exists>w' t'. manager_iteration sample_wake Woken (sample_world {5})
       (sample_thread [1, 2] client_down (Some (5, sample_client 2))) = Inr (w', t')
     \<and> manager_iteration sample_wake Woken w' t' = Inl Null_Deref"
proof (rule spurious_wake_null_deref)
  show "thread_ok (sample_thread [1, 2] client_down (Some (5, sample_client 2)))" by (rule sample_thread_ok) simp
  show "gl_is_containing (mt_clients (sample_thread [1, 2] client_down (Some (5, sample_client 2)))) (sample_client 2)"
    using sample_served [of "[1, 2]"] by simp
qed (simp_all add: sample_thread_def sample_world_def)

section \<open>The listener\<close>

text \<open>The loop finds the first thread among those with the fewest clients.\<close>

lemma least_loaded_prefix:
  assumes "counts \<noteq> []" and "n \<le> length counts" and "0 < n"
  shows "(let k = fold (\<lambda>i i_min. if counts ! i < counts ! i_min then i else i_min) [1..<n] 0 in
     k < n \<and> (\<forall>i<n. counts ! k \<le> counts ! i) \<and> (\<forall>i<k. counts ! k < (counts ! i :: u32)))"
  using assms(2,3)
proof (induction n)
  case (Suc n)
  show ?case
  proof (cases "n = 0")
    case False
    then show ?thesis using Suc by (auto simp: Let_def less_Suc_eq)
  qed simp
qed simp

theorem least_loaded_minimum:
  assumes "counts \<noteq> []"
  shows "least_loaded counts < length counts
     \<and> (\<forall>i<length counts. counts ! least_loaded counts \<le> counts ! i)
     \<and> (\<forall>i<least_loaded counts. counts ! least_loaded counts < counts ! i)"
  using least_loaded_prefix [OF assms, of "length counts"] assms by (simp add: least_loaded_def Let_def)

theorem least_loaded_minimum_witness:
  "least_loaded [3, 1, 2, 1] < 4 \<and> [3, 1, 2, 1 :: u32] ! least_loaded [3, 1, 2, 1] \<le> 1"
  using least_loaded_minimum [of "[3, 1, 2, 1]"] by (auto dest: spec [of _ 1])

section \<open>Runs of the manager\<close>

text \<open>
  A step of the manager: a call of the listener, an iteration of one thread whose allocations succeed,
  after any event (so also after a wait that returned without a signal), a change of the database by
  another process, or the request to shut down.
\<close>

inductive manager_step :: "manager \<Rightarrow> manager \<Rightarrow> bool" where
  ms_listen: "asclWebSocketDispatcherMessage env number aid event m = Inr (r, m') \<Longrightarrow> manager_step m m'"
| ms_serve: "i < length (mg_threads m) \<Longrightarrow> allocations_ok env \<Longrightarrow>
    manager_iteration env event (mg_world m) (mg_threads m ! i) = Inr (w', t') \<Longrightarrow>
    manager_step m (m\<lparr>mg_world := w', mg_threads := (mg_threads m)[i := t']\<rparr>)"
| ms_database: "manager_step m (set_tables m T)"
| ms_shutdown: "manager_step m (request_shutdown m)"

definition manager_ok :: "manager \<Rightarrow> bool" where
  "manager_ok m \<longleftrightarrow> (\<forall>t\<in>set (mg_threads m). thread_ok t \<and> passing_wf t)"

lemma bind_run_pair:
  "bind_run m (\<lambda>(x, y). k x y) = Inr z \<longleftrightarrow> (\<exists>x y. m = Inr (x, y) \<and> k x y = Inr z)"
  by (cases m) auto

lemma manager_iteration_passing:
  assumes "manager_iteration env event w t = Inr (w', t')"
  shows "mt_passing t' = None \<or> mt_passing t' = mt_passing t"
  using assms
  by (auto simp: manager_iteration_def serve_timeout_def handle_up_def handle_down_def handle_die_def
      bind_run_Inr_iff Let_def case_prod_beta
      split: wake.splits actual_manager_action.splits option.splits if_splits)

lemma pass_client_ok:
  "thread_ok t \<Longrightarrow> (\<And>a c. obj = Some (a, c) \<Longrightarrow> client_wf c) \<Longrightarrow>
   thread_ok (pass_client obj action t) \<and> passing_wf (pass_client obj action t)"
  by (simp add: pass_client_def thread_ok_def passing_wf_def)

lemma set_session_wf [simp]: "client_wf (RA_CLI_set_session_id c s) = client_wf c"
  by (simp add: RA_CLI_set_session_id_def client_wf_def)

lemma manager_ok_fields [simp]:
  "mg_threads (set_tables m T) = mg_threads m" "manager_ok (set_tables m T) = manager_ok m"
  "mg_threads (fst (allocate_client m c)) = mg_threads m"
  by (auto simp: set_tables_def manager_ok_def allocate_client_def split: option.splits)

lemma allocated_client:
  "snd (allocate_client m client) = Some (a, c) \<Longrightarrow> client = Some c"
  by (auto simp: allocate_client_def split: option.splits)

text \<open>What a call of the listener that is not refused does.\<close>

lemma connection_opened_cases:
  assumes "connection_opened env par client m = Inr (r, m')"
  obtains "r = ASCL_ERROR" "mg_threads m' = mg_threads m"
  | c T1 T2 s where "r = ASCL_SUCCESS" "client = Some c" "mg_threads m \<noteq> []"
    "ra_db_start_session (de_start env) (mw_tables (mg_world m)) (de_now env) (par_attestator par) (de_session env)
       = ((T1, s), RA_SUCCESS)"
    "ra_db_set_reaction_status (de_react env) T1 (par_application par) REACTION_STATUS_UNKNOWN = (T2, RA_SUCCESS)"
    "mw_tables (mg_world m') = T2"
    "mg_threads m' = (mg_threads m)[least_loaded (map mt_count (mg_threads m)) :=
       pass_client (Some (mg_next m, RA_CLI_set_session_id c s)) client_up
         (mg_threads m ! least_loaded (map mt_count (mg_threads m)))]"
proof -
  obtain T1 s r1 where start: "ra_db_start_session (de_start env) (mw_tables (mg_world m)) (de_now env)
      (par_attestator par) (de_session env) = ((T1, s), r1)" by (metis prod.collapse)
  obtain T2 r2 where react: "ra_db_set_reaction_status (de_react env) T1 (par_application par)
      REACTION_STATUS_UNKNOWN = (T2, r2)" by fastforce
  consider "r1 \<noteq> RA_SUCCESS" | "r1 = RA_SUCCESS" "r2 \<noteq> RA_SUCCESS" | "r1 = RA_SUCCESS" "r2 = RA_SUCCESS" by blast
  then show ?thesis
  proof cases
    case 3
    with assms start react show ?thesis
      by (intro that(2) [of "the client" T1 s T2])
        (auto simp: connection_opened_def bind_run_Inr_iff deref_Inr_iff Let_def allocate_client_def
          set_tables_def split: if_splits)
  qed (use assms start react that(1) in \<open>auto simp: connection_opened_def bind_run_Inr_iff Let_def set_tables_def\<close>)
qed

lemma connection_opened_ok:
  assumes "manager_ok m" and "\<And>c. client = Some c \<Longrightarrow> client_wf c"
    and "connection_opened env par client m = Inr (r, m')"
  shows "manager_ok m'"
  using assms(3)
proof (cases rule: connection_opened_cases)
  case 1
  with assms(1) show ?thesis by (simp add: manager_ok_def)
next
  case (2 c T1 T2 s)
  let ?i = "least_loaded (map mt_count (mg_threads m))"
  have "?i < length (mg_threads m)"
    using least_loaded_prefix [of "map mt_count (mg_threads m)" "length (mg_threads m)"] 2(3)
    by (simp add: least_loaded_def Let_def)
  then have "thread_ok (mg_threads m ! ?i)" using assms(1) by (simp add: manager_ok_def)
  then have "thread_ok t \<and> passing_wf t" if "t = pass_client (Some (mg_next m, RA_CLI_set_session_id c s)) client_up
      (mg_threads m ! ?i)" for t
    unfolding that by (rule pass_client_ok) (use assms(2) [OF 2(2)] in auto)
  with assms(1) show ?thesis
    unfolding manager_ok_def 2(7) by (auto dest!: set_update_subset_insert [THEN subsetD])
qed

lemma connection_closed_cases:
  assumes "connection_closed env par client m = Inr (r, m')"
  shows "mg_threads m' = mg_threads m
    \<or> (\<exists>obj. (\<forall>a c. obj = Some (a, c) \<longrightarrow> client = Some c)
            \<and> mg_threads m' = map (pass_client obj client_down) (mg_threads m))"
proof -
  obtain s r0 where act: "ra_db_get_active_session (de_active env) (mw_tables (mg_world m)) (par_attestator par)
      (de_session env) = (s, r0)" by fastforce
  obtain T1 r1 where close: "ra_db_close_session (de_close env) (mw_tables (mg_world m)) (de_now env) s = (T1, r1)"
    by fastforce
  obtain T2 r2 where react: "ra_db_set_reaction_status (de_react env) T1 (par_application par)
      REACTION_STATUS_UNKNOWN = (T2, r2)" by fastforce
  obtain m1 obj where al: "allocate_client (set_tables m T2) client = (m1, obj)" by fastforce
  have obj: "\<forall>a c. obj = Some (a, c) \<longrightarrow> client = Some c"
    using allocated_client [of "set_tables m T2" client] al by auto
  have m1: "mg_threads m1 = mg_threads m"
    using al manager_ok_fields(3) [of "set_tables m T2" client] by simp
  have "m' = m \<or> (\<exists>T. m' = set_tables m T) \<or> mg_threads m' = map (pass_client obj client_down) (mg_threads m1)"
    using assms by (auto simp: connection_closed_def act close react al Let_def split: if_splits)
  with obj m1 show ?thesis by auto
qed

lemma connection_closed_success:
  assumes "connection_closed env par client m = Inr (ASCL_SUCCESS, m')"
  shows "\<exists>obj. (\<forall>a c. obj = Some (a, c) \<longrightarrow> client = Some c)
     \<and> mg_threads m' = map (pass_client obj client_down) (mg_threads m)
     \<and> (\<forall>c. client = Some c \<longrightarrow> obj = Some (mg_next m, c) \<and> mg_next m \<in> mw_live (mg_world m'))"
proof -
  obtain s r0 where act: "ra_db_get_active_session (de_active env) (mw_tables (mg_world m)) (par_attestator par)
      (de_session env) = (s, r0)" by fastforce
  obtain T1 r1 where close: "ra_db_close_session (de_close env) (mw_tables (mg_world m)) (de_now env) s = (T1, r1)"
    by fastforce
  obtain T2 r2 where react: "ra_db_set_reaction_status (de_react env) T1 (par_application par)
      REACTION_STATUS_UNKNOWN = (T2, r2)" by fastforce
  obtain m1 obj where al: "allocate_client (set_tables m T2) client = (m1, obj)" by fastforce
  have m': "m' = m1\<lparr>mg_threads := map (pass_client obj client_down) (mg_threads m1)\<rparr>"
    using assms by (simp add: connection_closed_def act close react al Let_def split: if_splits)
  show ?thesis
    using al m' by (cases client) (auto simp: allocate_client_def set_tables_def)
qed

lemma connection_closed_object:
  assumes "connection_closed env par (Some c) m = Inr (ASCL_SUCCESS, m')"
  shows "mg_threads m' = map (pass_client (Some (mg_next m, c)) client_down) (mg_threads m)"
    and "mg_next m \<in> mw_live (mg_world m')"
  using connection_closed_success [OF assms] by auto

lemma connection_closed_ok:
  assumes "manager_ok m" and "\<And>c. client = Some c \<Longrightarrow> client_wf c"
    and "connection_closed env par client m = Inr (r, m')"
  shows "manager_ok m'"
  using connection_closed_cases [OF assms(3)] assms(1,2)
  by (auto simp: manager_ok_def pass_client_ok)

lemma dispatcher_ok:
  assumes "manager_ok m" and "asclWebSocketDispatcherMessage env number aid event m = Inr (r, m')"
  shows "manager_ok m'"
proof -
  obtain par r0 where par: "ra_db_get_attestation_parameters (de_params env) (mw_tables (mg_world m)) aid number (de_out env)
      = (par, r0)" by fastforce
  show ?thesis
  proof (cases "r0 = RA_SUCCESS")
    case True
    then obtain client where client: "RA_CLI_create (de_malloc env) (parse_AID aid (de_AID env)) number
        (par_attestator par) (par_sleep_avg par) (par_sleep_var par) 0xFFFFFFFFFFFFFFFF 0 = Inr client"
      and run: "(case event of WS_OPEN \<Rightarrow> connection_opened env par client m
          | WS_CLOSE \<Rightarrow> connection_closed env par client m | _ \<Rightarrow> Inr (ASCL_SUCCESS, m)) = Inr (r, m')"
      using assms(2) by (auto simp: asclWebSocketDispatcherMessage_def par Let_def bind_run_Inr_iff)
    have "client_wf c" if "client = Some c" for c
      using RA_CLI_create_wf client that by blast
    with run assms(1) show ?thesis
      by (cases event) (auto intro: connection_opened_ok connection_closed_ok)
  qed (use assms in \<open>auto simp: asclWebSocketDispatcherMessage_def par Let_def\<close>)
qed

lemma manager_step_ok: "manager_step m m' \<Longrightarrow> manager_ok m \<Longrightarrow> manager_ok m'"
proof (induction rule: manager_step.induct)
  case (ms_serve i m env event w' t')
  then have t: "thread_ok (mg_threads m ! i)" "passing_wf (mg_threads m ! i)" by (simp_all add: manager_ok_def)
  have "thread_ok t'" by (rule manager_iteration_ok [OF t(1) ms_serve(2) _ ms_serve(3)]) (simp add: t(2))
  moreover have "passing_wf t'"
    using manager_iteration_passing [OF ms_serve(3)] t(2) by (auto simp: passing_wf_def)
  ultimately show ?case
    using ms_serve(4) by (auto simp: manager_ok_def dest!: set_update_subset_insert [THEN subsetD])
next
  case (ms_listen env number aid event m r m')
  then show ?case by (blast intro: dispatcher_ok)
qed (simp_all add: request_shutdown_def manager_ok_def thread_ok_def passing_wf_def)

lemma manager_thread_create_ok:
  "manager_thread_create list_ok queue_ok action passing = Inr t \<Longrightarrow> thread_ok t"
  using gl_create_ok [of list_ok "''Serving clients''" 48 RA_CLI_destroy None]
  by (auto simp: manager_thread_create_def bind_run_Inr_iff deref_Inr_iff thread_ok_def sq_create_def sq_ok_def
      map_fst_schedule gl_create_def gl_count_def split: if_splits)

lemma manager_steps_ok: "manager_step\<^sup>*\<^sup>* m m' \<Longrightarrow> manager_ok m \<Longrightarrow> manager_ok m'"
  by (induction rule: rtranclp_induct) (auto intro: manager_step_ok)

text \<open>Along every run of listener, threads and other processes in which no allocation of a thread fails,
  every thread keeps its list and queue well formed, publishes the number of clients it serves, and has each served client, and no other,
  scheduled exactly once.\<close>

theorem manager_run_invariant:
  assumes "manager_ok m" and "manager_step\<^sup>*\<^sup>* m m'" and "t \<in> set (mg_threads m')"
  shows "gl_client_ok (mt_clients t) \<and> sq_ok (mt_queue t)
     \<and> mset (map fst (sq_schedule (mt_queue t))) = mset (gl_items (mt_clients t))
     \<and> mt_count t = gl_count (mt_clients t)"
  using manager_steps_ok [OF assms(2,1)] assms(3) by (simp add: manager_ok_def thread_ok_def)

definition sample_manager :: manager where
  "sample_manager =
     \<lparr>mg_world = sample_world {5},
      mg_threads = [sample_thread [1, 2] client_down (Some (5, sample_client 2)), sample_thread [3] client_up None],
      mg_next = 6\<rparr>"

lemma sample_manager_ok [simp]: "manager_ok sample_manager"
  using sample_thread_ok [of "[1, 2]" client_down "Some (5, sample_client 2)"] sample_thread_ok [of "[3]" client_up None]
  by (simp add: manager_ok_def sample_manager_def passing_wf_def sample_thread_def)

theorem manager_run_invariant_witness:
  "mset (map fst (sq_schedule (mt_queue (mg_threads (request_shutdown sample_manager) ! 0))))
     = mset (gl_items (mt_clients (mg_threads (request_shutdown sample_manager) ! 0)))"
  using manager_run_invariant [OF sample_manager_ok r_into_rtranclp [where r = manager_step, OF ms_shutdown],
      of "mg_threads (request_shutdown sample_manager) ! 0"]
  by (simp add: request_shutdown_def sample_manager_def)

text \<open>C15: A timeout serves the client with the earliest deadline and puts it back into the schedule: after a
  random sleep when it was served, after five seconds otherwise; the others keep their deadlines.\<close>

theorem timeout_reschedules_earliest:
  assumes "wk_alloc_queue env" and "sq_schedule (mt_queue t) = (c, d) # rest"
    and "serve_client (wk_serve env) (mw_tables w) c = Inr (T, sent, cmds, served)"
    and "served \<Longrightarrow> compute_random_sleep (wk_rand env) c = Inr again"
  shows "\<exists>t'. manager_iteration env Timed_Out w t = Inr (after_service w T sent cmds, t')
     \<and> sq_schedule (mt_queue t') = timed_insert c (if served then again else 5) (shift_times d rest)
     \<and> mt_clients t' = mt_clients t"
proof -
  obtain q where q: "sq_remove (mt_queue t) = (Some c, q)" and sched: "sq_schedule q = shift_times d rest"
    using sq_remove_schedule(2) [OF assms(2)] by (metis prod.collapse)
  show ?thesis
    using assms(1,3,4)
    by (cases served) (simp_all add: manager_iteration_def serve_timeout_def q sched sq_insert_schedule
        NOT_SERVED_RE_SCHEDULING_STANDARD_TIME_def)
qed

theorem timeout_reschedules_earliest_witness:
  "\<exists>w' t'. manager_iteration sample_wake Timed_Out (sample_world {}) (sample_thread [3, 1] client_up None) = Inr (w', t')
     \<and> sq_schedule (mt_queue t') = [(sample_client 1, 5), (sample_client 3, 5)]"
proof -
  let ?t = "sample_thread [3, 1] client_up None"
  have env: "sv_pick (wk_serve sample_wake) = hd" "sv_link (wk_serve sample_wake) = link_up" "wk_alloc_queue sample_wake"
    "mw_tables (sample_world {}) = sample_tables [1, 2] [3]"
    by (simp_all add: sample_wake_def sample_world_def)
  have "cl_attestator_id (sample_client 3) = 7" by (simp add: sample_client_def)
  moreover have "select_unused (sample_tables [1, 2] [3]) 7 = []" by (simp add: select_unused_def sample_tables_def)
  ultimately have serve: "\<exists>cmds. serve_client (wk_serve sample_wake) (mw_tables (sample_world {})) (sample_client 3)
      = Inr (sample_tables [1, 2] [3], [], cmds, False)"
    by (simp add: serve_client_def Let_def ra_db_get_valid_nonce_def env RA_CLI_get_attestator_id_def
        NONCE_CRITICAL_THRESHOLD_def)
  have sched: "sq_schedule (mt_queue ?t) = [(sample_client 3, 5), (sample_client 1, 10)]"
    by (simp add: sq_schedule_def sample_thread_def)
  from serve obtain cmds where "serve_client (wk_serve sample_wake) (mw_tables (sample_world {})) (sample_client 3)
      = Inr (sample_tables [1, 2] [3], [], cmds, False)" by blast
  from timeout_reschedules_earliest [OF env(3) sched this] show ?thesis
    by (auto simp: shift_times_def)
qed

lemma connection_opened_session:
  assumes "db_ok (mw_tables (mg_world m))" and "connection_opened env par client m = Inr (ASCL_SUCCESS, m')"
  obtains c s i where "client = Some c" and "i = least_loaded (map mt_count (mg_threads m))"
    and "i < length (mg_threads m)" and "\<forall>t\<in>set (mg_threads m). mt_count (mg_threads m ! i) \<le> mt_count t"
    and "mg_threads m' = (mg_threads m)[i := (mg_threads m ! i)\<lparr>mt_passing := Some (mg_next m, c\<lparr>cl_session_id := s\<rparr>),
           mt_action := client_up\<rparr>]"
    and "db_ok (mw_tables (mg_world m'))" and "s \<notin> set (map ses_id (sessions (mw_tables (mg_world m))))"
    and "\<And>b. select_active_sessions (mw_tables (mg_world m')) b
       = (if b = par_attestator par then [s] else select_active_sessions (mw_tables (mg_world m)) b)"
  using assms(2)
proof (cases rule: connection_opened_cases)
  case (2 c T1 T2 s)
  let ?i = "least_loaded (map mt_count (mg_threads m))"
  have i: "?i < length (mg_threads m)" "\<forall>k<length (mg_threads m). mt_count (mg_threads m ! ?i) \<le> mt_count (mg_threads m ! k)"
    using least_loaded_prefix [of "map mt_count (mg_threads m)" "length (mg_threads m)"] 2(3)
    by (auto simp: least_loaded_def Let_def)
  have T2: "T2 = update_reaction T1 (par_application par) REACTION_STATUS_UNKNOWN"
    using 2(5) by (auto simp: ra_db_set_reaction_status_def connected_def mysql_update_def split: if_splits)
  then have active: "select_active_sessions T2 b
      = (if b = par_attestator par then [s] else select_active_sessions (mw_tables (mg_world m)) b)" for b
    using started_session(2) [OF assms(1) 2(4), of b] by (simp add: select_active_sessions_filter)
  have "db_ok T2" using start_session_ok [OF assms(1) 2(4)] T2 by (simp add: update_reaction_ok)
  moreover have "\<forall>t\<in>set (mg_threads m). mt_count (mg_threads m ! ?i) \<le> mt_count t"
    using i(2) by (auto simp: in_set_conv_nth)
  ultimately show ?thesis
    using 2 i(1) active started_session(1) [OF assms(1) 2(4)]
    by (intro that [of c ?i s]) (simp_all add: pass_client_def RA_CLI_set_session_id_def)
qed simp

text \<open>C16: A connection that the listener accepts: the attestator has exactly one active session, which is
  new; the client object carries its id and is in the slot of the least loaded thread, the other
  threads are as before.\<close>

theorem listener_opens_session:
  assumes "db_ok (mw_tables (mg_world m))" and "connection_opened env par client m = Inr (ASCL_SUCCESS, m')"
  shows "\<exists>c s i. client = Some c
     \<and> db_ok (mw_tables (mg_world m'))
     \<and> select_active_sessions (mw_tables (mg_world m')) (par_attestator par) = [s]
     \<and> s \<notin> set (map ses_id (sessions (mw_tables (mg_world m))))
     \<and> i < length (mg_threads m) \<and> (\<forall>t\<in>set (mg_threads m). mt_count (mg_threads m ! i) \<le> mt_count t)
     \<and> mg_threads m' = (mg_threads m)[i := (mg_threads m ! i)\<lparr>mt_passing := Some (mg_next m, c\<lparr>cl_session_id := s\<rparr>),
           mt_action := client_up\<rparr>]"
  using assms by (rule connection_opened_session) auto

definition sample_dispatch :: dispatch_env where
  "sample_dispatch =
     \<lparr>de_params = link_up, de_start = link_up, de_react = link_up, de_revoke = link_up, de_active = link_up,
      de_close = link_up, de_now = 60, de_malloc = True,
      de_out = \<lparr>par_application = 0, par_attestator = 0, par_sleep_avg = 0, par_sleep_var = 0\<rparr>,
      de_session = 0, de_AID = replicate 16 0\<rparr>"

definition sample_parameters :: attestation_parameters where
  "sample_parameters = \<lparr>par_application = 77, par_attestator = 3, par_sleep_avg = 10, par_sleep_var = 1\<rparr>"

theorem listener_opens_session_witness:
  "\<exists>m' s. connection_opened sample_dispatch sample_parameters (Some (sample_client 0)) sample_manager = Inr (ASCL_SUCCESS, m')
     \<and> select_active_sessions (mw_tables (mg_world m')) 3 = [s]"
proof -
  let ?T = "sample_tables [1, 2] [3]"
  have T: "mw_tables (mg_world sample_manager) = ?T" by (simp add: sample_manager_def sample_world_def)
  have "\<exists>T1 s. ra_db_start_session link_up ?T 60 3 0 = ((T1, s), RA_SUCCESS)"
    by (simp add: ra_db_start_session_def insert_session_def close_all_active_sessions_def sample_tables_def)
  then obtain m' where m': "connection_opened sample_dispatch sample_parameters (Some (sample_client 0)) sample_manager
      = Inr (ASCL_SUCCESS, m')"
    by (auto simp: connection_opened_def T sample_dispatch_def sample_parameters_def ra_db_set_reaction_status_def Let_def
        allocate_client_def set_tables_def) (auto simp: sample_manager_def case_prod_beta Let_def)
  have "db_ok (mw_tables (mg_world sample_manager))" by (simp add: T)
  from listener_opens_session [OF this m'] m' show ?thesis by (auto simp: sample_parameters_def)
qed

text \<open>C32: When the listener accepts the end of a connection, it announces it to all threads with one and the
  same object. The thread that serves the client frees it, and a thread that serves other clients and wakes
  up later reads it.\<close>

theorem close_broadcast_use_after_free:
  assumes "manager_ok m" and "client_wf c"
    and "connection_closed env par (Some c) m = Inr (ASCL_SUCCESS, m1)"
    and "i < length (mg_threads m)" and "j < length (mg_threads m)" and "i \<noteq> j"
    and "gl_is_containing (mt_clients (mg_threads m ! i)) c" and "gl_items (mt_clients (mg_threads m ! j)) \<noteq> []"
  shows "\<exists>w t. manager_iteration env1 Woken (mg_world m1) (mg_threads m1 ! i) = Inr (w, t)
     \<and> manager_iteration env2 Woken w (mg_threads m1 ! j) = Inl Use_After_Free"
proof -
  let ?ti = "mg_threads m1 ! i" and ?tj = "mg_threads m1 ! j" and ?a = "mg_next m"
  note object = connection_closed_object [OF assms(3)]
  have i: "mt_action ?ti = client_down" "mt_passing ?ti = Some (?a, c)" "mt_clients ?ti = mt_clients (mg_threads m ! i)"
    and j: "mt_action ?tj = client_down" "mt_passing ?tj = Some (?a, c)" "mt_clients ?tj = mt_clients (mg_threads m ! j)"
    using assms(4,5) by (simp_all add: object(1) pass_client_def)
  have "gl_client_ok (mt_clients (mg_threads m ! i))" using assms(1,4) by (simp add: manager_ok_def thread_ok_def)
  then obtain d l where "gl_remove (mt_clients ?ti) c = Inr (d, l)"
    using clients.remove_present [OF _ assms(2,7)] i(3) by auto
  from iteration_down_served [OF i(1,2) object(2) _ this, of env1] obtain t where
    "manager_iteration env1 Woken (mg_world m1) ?ti
       = Inr ((mg_world m1)\<lparr>mw_live := mw_live (mg_world m1) - {?a}\<rparr>, t)"
    using assms(7) i(3) by auto
  moreover have "?a \<notin> mw_live ((mg_world m1)\<lparr>mw_live := mw_live (mg_world m1) - {?a}\<rparr>)" by simp
  ultimately show ?thesis using iteration_down_faults(2) [OF j(1) _ j(2)] assms(8) j(3) by metis
qed

theorem close_broadcast_use_after_free_witness:
  "\<exists>m1 w t. connection_closed sample_dispatch sample_parameters (Some (sample_client 2)) sample_manager
       = Inr (ASCL_SUCCESS, m1)
     \<and> manager_iteration sample_wake Woken (mg_world m1) (mg_threads m1 ! 0) = Inr (w, t)
     \<and> manager_iteration sample_wake Woken w (mg_threads m1 ! 1) = Inl Use_After_Free"
proof -
  have "select_active_sessions (sample_tables [1, 2] [3]) 3 = [1]"
    by (simp add: select_active_sessions_def sample_tables_def)
  then have "ra_db_get_active_session link_up (mw_tables (mg_world sample_manager)) 3 x = (1, RA_SUCCESS)" for x
    by (simp add: ra_db_get_active_session_def sample_manager_def sample_world_def)
  then obtain m1 where closed: "connection_closed sample_dispatch sample_parameters (Some (sample_client 2)) sample_manager
      = Inr (ASCL_SUCCESS, m1)"
    by (simp add: connection_closed_def sample_dispatch_def sample_parameters_def ra_db_close_session_def
        ra_db_set_reaction_status_def Let_def case_prod_beta)
  have threads: "mg_threads sample_manager
      = [sample_thread [1, 2] client_down (Some (5, sample_client 2)), sample_thread [3] client_up None]"
    by (simp add: sample_manager_def)
  have "gl_is_containing (mt_clients (mg_threads sample_manager ! 0)) (sample_client 2)"
    using sample_served [of "[1, 2]" client_down "Some (5, sample_client 2)" 2] by (simp add: threads)
  moreover have "gl_items (mt_clients (mg_threads sample_manager ! 1)) \<noteq> []" by (simp add: threads sample_thread_def)
  ultimately show ?thesis
    using close_broadcast_use_after_free [OF sample_manager_ok _ closed, of 0 1 sample_wake sample_wake] closed
    by (auto simp: threads)
qed

end
