(* ===== verification/Manager_Main.thy ===== *)
theory Manager_Main
  imports Manager_Threads Verifier_Forwarder
begin

text \<open>
  \<^verbatim>\<open>server-components/manager.c\<close>, the process: \<^verbatim>\<open>main\<close> creates the serving threads, services the
  websockets, from which the connection listener is called, until the signal handler sets
  \<^verbatim>\<open>force_exit\<close>, and then stops and joins the threads one by one. Each thread is between its waits or in
  \<^verbatim>\<open>pthread_cond_timedwait\<close>; a signal reaches it only there. Spurious wake-ups are not part of the runs
  here, they are in the steps of \<^theory_text>\<open>Manager_Threads\<close>.
\<close>

section \<open>Start-up\<close>

text \<open>The number of threads, from the arguments after the name of the program.\<close>

definition total_actual_managers :: "string list \<Rightarrow> int" where
  "total_actual_managers args = (case args of [a] \<Rightarrow> atoi a | _ \<Rightarrow> 4)"

text \<open>\<^verbatim>\<open>sizeof(actual_manager_t)\<close> on a 64-bit Linux; the product with the signed count is an unsigned
  64-bit number.\<close>

definition ACTUAL_MANAGER_SIZE :: nat where "ACTUAL_MANAGER_SIZE = 120"

definition managers_bytes :: "int \<Rightarrow> u64" where
  "managers_bytes n = of_int n * of_nat ACTUAL_MANAGER_SIZE"

text \<open>
  The contexts of the websocket library: the code stores what \<^verbatim>\<open>asclWebSocketInit\<close> returns without a test
  and only hands it back. What \<^verbatim>\<open>asclWebSocketShutdown\<close> does to a context is the library's own; the model keeps the contexts that were handed to it, in order.
\<close>

definition shutdown_contexts :: "nat list \<Rightarrow> nat list" where
  "shutdown_contexts calls = calls @ [0..<MAX_ATTESTATORS_ALLOWED]"

text \<open>
  The roll-back when thread \<open>i\<close> cannot be created: the counter \<open>j\<close> is unsigned, so the condition
  \<^verbatim>\<open>j >= 0\<close> always holds. The calls on mutex, condition and thread of number \<open>i\<close> have no result that
  the loop looks at, but for one that is printed. The fuel bounds the rounds; the result is what was
  handed to the library and whether the loop ended.
\<close>

fun rollback_loop :: "nat \<Rightarrow> u32 \<Rightarrow> nat list \<Rightarrow> nat list \<times> bool" where
  "rollback_loop 0 j calls = (calls, False)"
| "rollback_loop (Suc n) j calls =
     (if j \<ge> 0 then rollback_loop n (j - 1) (shutdown_contexts calls) else (calls, True))"

text \<open>The outcomes at the creation of a thread: of \<^verbatim>\<open>pthread_create\<close>, of the allocations of the thread, and
  what its uninitialised action and slot hold.\<close>

record launch_env =
  le_create :: bool
  le_list :: bool
  le_queue :: bool
  le_action :: actual_manager_action
  le_passing :: "(nat \<times> ra_client) option"

text \<open>The loop that creates the threads; \<open>None\<close> is the exit after a roll-back.\<close>

fun launch_loop ::
  "nat \<Rightarrow> (nat \<Rightarrow> launch_env) \<Rightarrow> nat list \<Rightarrow> manager_thread list \<Rightarrow> manager_thread list option run" where
  "launch_loop fuel env [] ts = Inr (Some ts)"
| "launch_loop fuel env (i # is) ts =
     (if \<not> le_create (env i)
      then (if snd (rollback_loop fuel (of_nat i) []) then Inr None else Inl No_Return)
      else bind_run (manager_thread_create (le_list (env i)) (le_queue (env i)) (le_action (env i)) (le_passing (env i)))
        (\<lambda>t. launch_loop fuel env is (ts @ [t])))"

section \<open>The running process\<close>

text \<open>A thread is waiting, waiting no longer since a signal reached it, between the end of an iteration
  and the next wait, or ended.\<close>

datatype thread_phase = Waiting | Signalled | Between | Ended

text \<open>Where \<^verbatim>\<open>main\<close> is: servicing the sockets, about to stop thread \<open>i\<close>, joining it, returned.\<close>

datatype manager_pc = Servicing | Stopping nat | Joining nat | Returned

record manager_process =
  mp_manager :: manager
  mp_phases :: "thread_phase list"
  mp_shutdowns :: "nat list"
  mp_force_exit :: bool
  mp_main :: manager_pc

text \<open>\<^verbatim>\<open>main\<close> up to its service loop; \<open>None\<close> when it exits. \<open>alloc\<close> is \<^verbatim>\<open>malloc\<close> by size, \<open>signal_ok\<close> the success of
  \<^verbatim>\<open>signal\<close>. The loop compares its unsigned counter with the signed number of threads.\<close>

definition manager_start ::
  "nat \<Rightarrow> (nat \<Rightarrow> launch_env) \<Rightarrow> (u64 \<Rightarrow> bool) \<Rightarrow> bool \<Rightarrow> string list \<Rightarrow> manager_world \<Rightarrow> nat \<Rightarrow> manager_process option run" where
  "manager_start fuel env alloc signal_ok args world nxt =
     (let total = total_actual_managers args in
      if \<not> alloc (managers_bytes total) then Inr None
      else bind_run (launch_loop fuel env [0..<unat (of_int total :: u32)] []) (\<lambda>started.
        case started of
          None \<Rightarrow> Inr None
        | Some ts \<Rightarrow>
            if \<not> signal_ok then Inr None
            else Inr (Some
              \<lparr>mp_manager = \<lparr>mg_world = world, mg_threads = ts, mg_next = nxt\<rparr>,
               mp_phases = replicate (length ts) Between, mp_shutdowns = [],
               mp_force_exit = False, mp_main = Servicing\<rparr>)))"

definition sighandler :: "manager_process \<Rightarrow> manager_process" where
  "sighandler s = s\<lparr>mp_force_exit := True\<rparr>"

text \<open>\<^verbatim>\<open>pthread_cond_signal\<close>.\<close>

definition wake_up :: "thread_phase \<Rightarrow> thread_phase" where
  "wake_up p = (if p = Waiting then Signalled else p)"

text \<open>The threads that a call of the listener signals: the one that gets the new client, all at the end of a
  connection.\<close>

definition signalled_threads :: "ws_event \<Rightarrow> ascl_result \<Rightarrow> manager \<Rightarrow> nat set" where
  "signalled_threads event r m =
     (if r \<noteq> ASCL_SUCCESS then {}
      else case event of
        WS_OPEN \<Rightarrow> {least_loaded (map mt_count (mg_threads m))}
      | WS_CLOSE \<Rightarrow> {..<length (mg_threads m)}
      | _ \<Rightarrow> {})"

definition wake_up_all :: "nat set \<Rightarrow> thread_phase list \<Rightarrow> thread_phase list" where
  "wake_up_all is ps = map (\<lambda>(i, p). if i \<in> is then wake_up p else p) (enumerate 0 ps)"

definition listen :: "dispatch_env \<Rightarrow> u64 \<Rightarrow> string \<Rightarrow> ws_event \<Rightarrow> manager_process \<Rightarrow> manager_process run" where
  "listen env number aid event s =
     bind_run (asclWebSocketDispatcherMessage env number aid event (mp_manager s)) (\<lambda>(r, m).
       Inr (s\<lparr>mp_manager := m, mp_phases := wake_up_all (signalled_threads event r (mp_manager s)) (mp_phases s)\<rparr>))"

text \<open>A step of thread \<open>i\<close>: its wait ends, by the timeout or the signal, and it runs one iteration; or it starts to
  wait.\<close>

definition after_iteration ::
  "nat \<Rightarrow> manager_process \<Rightarrow> (manager_world \<times> manager_thread) \<Rightarrow> manager_process" where
  "after_iteration i s r =
     s\<lparr>mp_manager := (mp_manager s)\<lparr>mg_world := fst r, mg_threads := (mg_threads (mp_manager s))[i := snd r]\<rparr>,
       mp_phases := (mp_phases s)[i := if mt_exit (snd r) then Ended else Between]\<rparr>"

definition thread_step :: "wake_env \<Rightarrow> nat \<Rightarrow> manager_process \<Rightarrow> manager_process run" where
  "thread_step env i s =
     (let w = mg_world (mp_manager s); t = mg_threads (mp_manager s) ! i in
      case mp_phases s ! i of
        Waiting \<Rightarrow> bind_run (manager_iteration env Timed_Out w t) (\<lambda>r. Inr (after_iteration i s r))
      | Signalled \<Rightarrow> bind_run (manager_iteration env Woken w t) (\<lambda>r. Inr (after_iteration i s r))
      | Between \<Rightarrow> Inr (s\<lparr>mp_phases := (mp_phases s)[i := Waiting]\<rparr>)
      | Ended \<Rightarrow> Inr s)"

text \<open>A step of \<^verbatim>\<open>main\<close>: the test of the service loop, stopping a thread, joining it, and at the end shutting the
  contexts down.\<close>

definition stop_thread :: "nat \<Rightarrow> manager_process \<Rightarrow> manager_process" where
  "stop_thread i s =
     s\<lparr>mp_manager := (mp_manager s)\<lparr>mg_threads := (mg_threads (mp_manager s))[i := (mg_threads (mp_manager s) ! i)\<lparr>mt_action := die\<rparr>]\<rparr>,
       mp_phases := (mp_phases s)[i := wake_up (mp_phases s ! i)], mp_main := Joining i\<rparr>"

definition manager_main_step :: "manager_process \<Rightarrow> manager_process run" where
  "manager_main_step s =
     (case mp_main s of
        Servicing \<Rightarrow> Inr (if mp_force_exit s then s\<lparr>mp_main := Stopping 0\<rparr> else s)
      | Stopping i \<Rightarrow>
          if i < length (mg_threads (mp_manager s)) then Inr (stop_thread i s)
          else Inr (s\<lparr>mp_shutdowns := shutdown_contexts (mp_shutdowns s), mp_main := Returned\<rparr>)
      | Joining i \<Rightarrow> Inr (if mp_phases s ! i = Ended then s\<lparr>mp_main := Stopping (Suc i)\<rparr> else s)
      | Returned \<Rightarrow> Inr s)"

text \<open>
  The steps of the process, each with the answer to whether the allocations of the thread that took it
  succeeded. The threads' waits end by their timeout or by a signal.
\<close>

inductive process_action :: "bool \<Rightarrow> manager_process \<Rightarrow> manager_process \<Rightarrow> bool" where
  pa_main: "manager_main_step s = Inr s' \<Longrightarrow> process_action True s s'"
| pa_listen: "mp_main s = Servicing \<Longrightarrow> listen env number aid event s = Inr s' \<Longrightarrow> process_action True s s'"
| pa_thread: "i < length (mg_threads (mp_manager s)) \<Longrightarrow> thread_step env i s = Inr s' \<Longrightarrow>
    process_action (allocations_ok env) s s'"
| pa_interrupt: "process_action True s (sighandler s)"
| pa_database: "process_action True s (s\<lparr>mp_manager := set_tables (mp_manager s) T\<rparr>)"

definition process_step :: "manager_process \<Rightarrow> manager_process \<Rightarrow> bool" where
  "process_step s s' \<longleftrightarrow> (\<exists>ok. process_action ok s s')"

lemma process_stepI: "process_action ok s s' \<Longrightarrow> process_step s s'"
  by (auto simp: process_step_def)

section \<open>The invariant\<close>

text \<open>A thread that a signal has reached has a client that the listener put into its slot, unless it is told
  to stop: the uninitialised slot of a new thread is never read. \<open>P\<close> is what holds of each thread.\<close>

definition slot_filled :: "thread_phase \<Rightarrow> manager_thread \<Rightarrow> bool" where
  "slot_filled p t \<longleftrightarrow> (p = Signalled \<longrightarrow> mt_action t = die \<or> passing_wf t)"

definition process_inv :: "(manager_thread \<Rightarrow> bool) \<Rightarrow> manager_process \<Rightarrow> bool" where
  "process_inv P s \<longleftrightarrow> length (mp_phases s) = length (mg_threads (mp_manager s))
     \<and> (\<forall>i < length (mg_threads (mp_manager s)).
          P (mg_threads (mp_manager s) ! i) \<and> slot_filled (mp_phases s ! i) (mg_threads (mp_manager s) ! i))"

lemma length_wake_up_all [simp]: "length (wake_up_all is ps) = length ps"
  by (simp add: wake_up_all_def)

lemma nth_wake_up_all [simp]: "i < length ps \<Longrightarrow> wake_up_all is ps ! i = (if i \<in> is then wake_up (ps ! i) else ps ! i)"
  by (simp add: wake_up_all_def nth_enumerate_eq)

text \<open>What the listener does to the threads: each is as before, or has a client in its slot and is signalled.\<close>

lemma dispatcher_threads:
  assumes "asclWebSocketDispatcherMessage env number aid event m = Inr (r, m')"
  shows "length (mg_threads m') = length (mg_threads m)"
    and "i < length (mg_threads m) \<Longrightarrow>
      mg_threads m' ! i = mg_threads m ! i \<and> i \<notin> signalled_threads event r m
      \<or> (\<exists>obj action. mg_threads m' ! i = pass_client obj action (mg_threads m ! i)
            \<and> (\<forall>a c. obj = Some (a, c) \<longrightarrow> client_wf c))"
proof -
  obtain par r0 where par: "ra_db_get_attestation_parameters (de_params env) (mw_tables (mg_world m)) aid number (de_out env)
      = (par, r0)" by fastforce
  have "length (mg_threads m') = length (mg_threads m) \<and> (i < length (mg_threads m) \<longrightarrow>
      mg_threads m' ! i = mg_threads m ! i \<and> i \<notin> signalled_threads event r m
      \<or> (\<exists>obj action. mg_threads m' ! i = pass_client obj action (mg_threads m ! i)
            \<and> (\<forall>a c. obj = Some (a, c) \<longrightarrow> client_wf c)))"
  proof (cases "r0 = RA_SUCCESS")
    case True
    then obtain client where client: "RA_CLI_create (de_malloc env) (parse_AID aid (de_AID env)) number
        (par_attestator par) (par_sleep_avg par) (par_sleep_var par) 0xFFFFFFFFFFFFFFFF 0 = Inr client"
      and run: "(case event of WS_OPEN \<Rightarrow> connection_opened env par client m
          | WS_CLOSE \<Rightarrow> connection_closed env par client m | _ \<Rightarrow> Inr (ASCL_SUCCESS, m)) = Inr (r, m')"
      using assms by (auto simp: asclWebSocketDispatcherMessage_def par Let_def bind_run_Inr_iff)
    have wf: "client_wf c" if "client = Some c" for c
      using RA_CLI_create_wf client that by blast
    show ?thesis
    proof (cases event)
      case WS_OPEN
      then have "connection_opened env par client m = Inr (r, m')" using run by simp
      then show ?thesis
      proof (cases rule: connection_opened_cases)
        case (2 c T1 T2 s)
        have wf: "client_wf (RA_CLI_set_session_id c s)" using wf 2(2) by simp
        show ?thesis
          using WS_OPEN 2(1,7) wf
          by (cases "i = least_loaded (map mt_count (mg_threads m))") (auto simp: signalled_threads_def)
      qed (auto simp: signalled_threads_def)
    next
      case WS_CLOSE
      then have closed: "connection_closed env par client m = Inr (r, m')" using run by simp
      show ?thesis
      proof (cases "r = ASCL_SUCCESS")
        case True
        obtain obj where "\<forall>a c. obj = Some (a, c) \<longrightarrow> client = Some c"
          "mg_threads m' = map (pass_client obj client_down) (mg_threads m)"
          using connection_closed_success [OF closed [unfolded True]] by blast
        with wf show ?thesis by auto
      next
        case False
        then have none: "signalled_threads event r m = {}" by (simp add: signalled_threads_def)
        from connection_closed_cases [OF closed] show ?thesis
        proof (elim disjE exE conjE)
          fix obj
          assume "\<forall>a c. obj = Some (a, c) \<longrightarrow> client = Some c"
            "mg_threads m' = map (pass_client obj client_down) (mg_threads m)"
          with wf show ?thesis by auto
        qed (simp add: none)
      qed
    qed (use run in \<open>simp_all add: signalled_threads_def\<close>)
  qed (use assms in \<open>simp add: asclWebSocketDispatcherMessage_def par Let_def signalled_threads_def\<close>)
  then show "length (mg_threads m') = length (mg_threads m)"
    and "i < length (mg_threads m) \<Longrightarrow>
      mg_threads m' ! i = mg_threads m ! i \<and> i \<notin> signalled_threads event r m
      \<or> (\<exists>obj action. mg_threads m' ! i = pass_client obj action (mg_threads m ! i)
            \<and> (\<forall>a c. obj = Some (a, c) \<longrightarrow> client_wf c))"
    by blast+
qed

lemma slot_filled_unsignalled: "slot_filled (wake_up p) t \<Longrightarrow> slot_filled p t" "slot_filled Between t" "slot_filled Waiting t"
  "slot_filled Ended t"
  by (auto simp: slot_filled_def wake_up_def split: if_splits)

lemma listen_inv:
  assumes "process_inv P s" and "listen env number aid event s = Inr s'"
    and pass: "\<And>t obj action. P t \<Longrightarrow> P (pass_client obj action t)"
  shows "process_inv P s'"
proof -
  obtain r m' where m': "asclWebSocketDispatcherMessage env number aid event (mp_manager s) = Inr (r, m')"
    and s': "s' = s\<lparr>mp_manager := m', mp_phases := wake_up_all (signalled_threads event r (mp_manager s)) (mp_phases s)\<rparr>"
    using assms(2) by (auto simp: listen_def bind_run_Inr_iff)
  note threads = dispatcher_threads [OF m']
  show ?thesis
    unfolding process_inv_def
  proof (intro conjI allI impI)
    show "length (mp_phases s') = length (mg_threads (mp_manager s'))"
      using assms(1) threads(1) by (simp add: s' process_inv_def)
    fix i
    assume "i < length (mg_threads (mp_manager s'))"
    then have i: "i < length (mg_threads (mp_manager s))" "i < length (mp_phases s)"
      using assms(1) threads(1) by (simp_all add: s' process_inv_def)
    then have old: "P (mg_threads (mp_manager s) ! i)" "slot_filled (mp_phases s ! i) (mg_threads (mp_manager s) ! i)"
      using assms(1) by (simp_all add: process_inv_def)
    from threads(2) [OF i(1)] show "P (mg_threads (mp_manager s') ! i)" using old(1) pass by (auto simp: s')
    from threads(2) [OF i(1)] show "slot_filled (mp_phases s' ! i) (mg_threads (mp_manager s') ! i)"
      using old(2) i(2) by (auto simp: s' slot_filled_def pass_client_def passing_wf_def)
  qed
qed

lemma process_inv_update:
  assumes "process_inv P s" and "P t" and "slot_filled p t"
    and "mg_threads (mp_manager s') = (mg_threads (mp_manager s))[i := t]" and "mp_phases s' = (mp_phases s)[i := p]"
  shows "process_inv P s'"
  unfolding process_inv_def
proof (intro conjI allI impI)
  show "length (mp_phases s') = length (mg_threads (mp_manager s'))" using assms(1,4,5) by (simp add: process_inv_def)
  fix k
  assume "k < length (mg_threads (mp_manager s'))"
  then show "P (mg_threads (mp_manager s') ! k)" "slot_filled (mp_phases s' ! k) (mg_threads (mp_manager s') ! k)"
    using assms by (cases "k = i"; simp add: process_inv_def)+
qed

lemma thread_step_inv:
  assumes "process_inv P s" and "i < length (mg_threads (mp_manager s))" and "thread_step env i s = Inr s'"
    and iter: "\<And>event w t w' t'. P t \<Longrightarrow> (event = Woken \<Longrightarrow> mt_action t = die \<or> passing_wf t) \<Longrightarrow>
      manager_iteration env event w t = Inr (w', t') \<Longrightarrow> P t'"
  shows "process_inv P s'"
proof -
  let ?t = "mg_threads (mp_manager s) ! i"
  have t: "P ?t" "slot_filled (mp_phases s ! i) ?t" using assms(1,2) by (simp_all add: process_inv_def)
  have after: "process_inv P (after_iteration i s (w', t'))"
    if "manager_iteration env event (mg_world (mp_manager s)) ?t = Inr (w', t')"
      "event = Woken \<Longrightarrow> mt_action ?t = die \<or> passing_wf ?t" for event w' t'
  proof (rule process_inv_update [OF assms(1), of t' "if mt_exit t' then Ended else Between" _ i])
    show "P t'" using iter [OF t(1) _ that(1)] that(2) by blast
    show "slot_filled (if mt_exit t' then Ended else Between) t'" by (simp add: slot_filled_def)
  qed (simp_all add: after_iteration_def)
  show ?thesis
  proof (cases "mp_phases s ! i")
    case Waiting
    with assms(3) after show ?thesis by (auto simp: thread_step_def Let_def bind_run_Inr_iff)
  next
    case Signalled
    with t(2) have "mt_action ?t = die \<or> passing_wf ?t" by (simp add: slot_filled_def)
    with Signalled assms(3) after show ?thesis by (auto simp: thread_step_def Let_def bind_run_Inr_iff)
  next
    case Between
    then have "s' = s\<lparr>mp_phases := (mp_phases s)[i := Waiting]\<rparr>" using assms(3) by (simp add: thread_step_def Let_def)
    then show ?thesis
      using process_inv_update [OF assms(1) t(1), of Waiting s' i] by (simp add: slot_filled_unsignalled)
  next
    case Ended
    with assms(1,3) show ?thesis by (simp add: thread_step_def Let_def)
  qed
qed

lemma main_step_inv:
  assumes "process_inv P s" and "manager_main_step s = Inr s'" and stop: "\<And>t. P t \<Longrightarrow> P (t\<lparr>mt_action := die\<rparr>)"
  shows "process_inv P s'"
proof (cases "\<exists>i. mp_main s = Stopping i \<and> i < length (mg_threads (mp_manager s))")
  case True
  then obtain i where i: "i < length (mg_threads (mp_manager s))" and s': "s' = stop_thread i s"
    using assms(2) by (auto simp: manager_main_step_def)
  show ?thesis
    by (rule process_inv_update [OF assms(1), of "(mg_threads (mp_manager s) ! i)\<lparr>mt_action := die\<rparr>" "wake_up (mp_phases s ! i)" s' i])
      (use assms(1) stop i in \<open>simp_all add: s' stop_thread_def process_inv_def slot_filled_def\<close>)
next
  case False
  with assms(2) have "mg_threads (mp_manager s') = mg_threads (mp_manager s)" "mp_phases s' = mp_phases s"
    by (cases "mp_main s"; auto simp: manager_main_step_def)+
  with assms(1) show ?thesis by (simp add: process_inv_def)
qed

text \<open>A property of the threads that every action of the process keeps.\<close>

lemma process_action_inv:
  assumes "process_action ok s s'" and "process_inv P s"
    and pass: "\<And>t obj action. P t \<Longrightarrow> P (pass_client obj action t)"
    and stop: "\<And>t. P t \<Longrightarrow> P (t\<lparr>mt_action := die\<rparr>)"
    and iter: "\<And>env event w t w' t'. (ok \<Longrightarrow> allocations_ok env) \<Longrightarrow> P t \<Longrightarrow>
      (event = Woken \<Longrightarrow> mt_action t = die \<or> passing_wf t) \<Longrightarrow>
      manager_iteration env event w t = Inr (w', t') \<Longrightarrow> P t'"
  shows "process_inv P s'"
  using assms(1)
proof (cases rule: process_action.cases)
  case pa_main
  then show ?thesis using main_step_inv [OF assms(2) _ stop] by simp
next
  case (pa_listen env number aid event)
  then show ?thesis using listen_inv [OF assms(2) _ pass] by blast
next
  case (pa_thread i env)
  show ?thesis
  proof (rule thread_step_inv [OF assms(2) pa_thread(2,3)])
    fix event w t w' t'
    assume t: "P t" "event = Woken \<Longrightarrow> mt_action t = die \<or> passing_wf t" "manager_iteration env event w t = Inr (w', t')"
    show "P t'" by (rule iter [OF _ t]) (use pa_thread(1) in simp)
  qed
qed (use assms(2) in \<open>simp_all add: process_inv_def sighandler_def\<close>)

lemma process_wf_run:
  assumes "process_step\<^sup>*\<^sup>* s s'" and "process_inv thread_wf s"
  shows "process_inv thread_wf s'"
  using assms
proof (induction rule: rtranclp_induct)
  case (step s1 s2)
  then obtain ok where "process_action ok s1 s2" by (auto simp: process_step_def)
  from this step.IH [OF step.prems] show ?case
  proof (rule process_action_inv)
    fix env event w t w' t'
    assume t: "thread_wf t" "event = Woken \<Longrightarrow> mt_action t = die \<or> passing_wf t"
      "manager_iteration env event w t = Inr (w', t')"
    show "thread_wf t'" by (rule manager_iteration_wf [OF t(1) _ t(3)]) (use t(2) in auto)
  qed (simp_all add: thread_wf_def pass_client_def)
qed simp

lemma process_ok_run:
  assumes "(process_action True)\<^sup>*\<^sup>* s s'" and "process_inv thread_ok s"
  shows "process_inv thread_ok s'"
  using assms
proof (induction rule: rtranclp_induct)
  case (step s1 s2)
  from step(2) step.IH [OF step.prems] show ?case
  proof (rule process_action_inv)
    fix env event w t w' t'
    assume t: "True \<Longrightarrow> allocations_ok env" "thread_ok t" "event = Woken \<Longrightarrow> mt_action t = die \<or> passing_wf t"
      "manager_iteration env event w t = Inr (w', t')"
    show "thread_ok t'"
      by (rule manager_iteration_ok [OF t(2) t(1) t(3) t(4)]) simp_all
  qed (simp_all add: thread_ok_def pass_client_def)
qed simp

lemma launch_loop_ok:
  assumes "launch_loop fuel env is ts = Inr (Some ts')" and "\<forall>t\<in>set ts. thread_ok t"
  shows "\<forall>t\<in>set ts'. thread_ok t"
  using assms
proof (induction "is" arbitrary: ts)
  case (Cons i "is")
  then have "le_create (env i)" by (auto split: if_splits)
  with Cons.prems(1) obtain t where t:
    "manager_thread_create (le_list (env i)) (le_queue (env i)) (le_action (env i)) (le_passing (env i)) = Inr t"
    "launch_loop fuel env is (ts @ [t]) = Inr (Some ts')"
    by (auto simp: bind_run_Inr_iff)
  from Cons.IH [OF t(2)] Cons.prems manager_thread_create_ok [OF t(1)] show ?case by simp
qed simp

lemma manager_start_ok:
  assumes "manager_start fuel env alloc signal_ok args world nxt = Inr (Some s)"
  shows "process_inv thread_ok s"
proof -
  obtain ts where "launch_loop fuel env [0..<unat (of_int (total_actual_managers args) :: u32)] [] = Inr (Some ts)"
    and s: "mg_threads (mp_manager s) = ts" "mp_phases s = replicate (length ts) Between"
    using assms by (auto simp: manager_start_def Let_def bind_run_Inr_iff split: if_splits option.splits)
  with launch_loop_ok [of fuel env _ "[]" ts] show ?thesis by (simp add: process_inv_def slot_filled_unsignalled)
qed

section \<open>Properties\<close>

text \<open>C7: From the start of the process on, whatever connections, disconnections, timeouts, signals and other
  processes on the database, also while the process shuts down, with waits that end by their timeout or a
  signal: every thread keeps its list and queue well formed and publishes the number of clients it serves,
  even when allocations of the threads fail. As long as none of them has failed, it has each served client,
  and no other, scheduled exactly once. (A failed insertion into the queue goes unnoticed and ends this, as
  \<^theory_text>\<open>failed_insertion_drops_client\<close> shows.)\<close>

theorem manager_process_invariant:
  assumes "manager_start fuel env alloc signal_ok args world nxt = Inr (Some s0)"
  shows "(\<forall>s t. process_step\<^sup>*\<^sup>* s0 s \<longrightarrow> t \<in> set (mg_threads (mp_manager s)) \<longrightarrow>
        gl_client_ok (mt_clients t) \<and> sq_ok (mt_queue t) \<and> mt_count t = gl_count (mt_clients t))
     \<and> (\<forall>s t. (process_action True)\<^sup>*\<^sup>* s0 s \<longrightarrow> t \<in> set (mg_threads (mp_manager s)) \<longrightarrow>
        mset (map fst (sq_schedule (mt_queue t))) = mset (gl_items (mt_clients t)))"
proof (intro conjI allI impI)
  note start = manager_start_ok [OF assms]
  fix s t
  assume run: "process_step\<^sup>*\<^sup>* s0 s" and t: "t \<in> set (mg_threads (mp_manager s))"
  have "process_inv thread_wf s0" using start by (simp add: process_inv_def thread_ok_wf)
  with run have "process_inv thread_wf s" by (rule process_wf_run)
  with t have "thread_wf t" by (auto simp: process_inv_def in_set_conv_nth)
  then show "gl_client_ok (mt_clients t)" "sq_ok (mt_queue t)" "mt_count t = gl_count (mt_clients t)"
    by (simp_all add: thread_wf_def)
next
  note start = manager_start_ok [OF assms]
  fix s t
  assume run: "(process_action True)\<^sup>*\<^sup>* s0 s" and t: "t \<in> set (mg_threads (mp_manager s))"
  from run start have "process_inv thread_ok s" by (rule process_ok_run)
  with t have "thread_ok t" by (auto simp: process_inv_def in_set_conv_nth)
  then show "mset (map fst (sq_schedule (mt_queue t))) = mset (gl_items (mt_clients t))" by (simp add: thread_ok_wf)
qed

definition sample_launch :: launch_env where
  "sample_launch = \<lparr>le_create = True, le_list = True, le_queue = True, le_action = client_up, le_passing = None\<rparr>"

lemma sample_start:
  "\<exists>s0. manager_start 2 (\<lambda>_. sample_launch) (\<lambda>_. True) True [] (sample_world {}) 0 = Inr (Some s0)
     \<and> mp_phases s0 = replicate 4 Between \<and> length (mg_threads (mp_manager s0)) = 4 \<and> mp_main s0 = Servicing
     \<and> (\<forall>t\<in>set (mg_threads (mp_manager s0)). \<not> mt_exit t)
     \<and> mg_world (mp_manager s0) = sample_world {} \<and> mg_next (mp_manager s0) = 0"
proof -
  have "[0..<unat (of_int (total_actual_managers []) :: u32)] = [0, 1, 2, 3]"
    by (simp add: total_actual_managers_def upt_rec)
  then show ?thesis
    by (simp add: manager_start_def Let_def sample_launch_def manager_thread_create_def gl_create_def sq_create_def
        numeral_eq_Suc)
qed

theorem manager_process_invariant_witness:
  "\<exists>s0. manager_start 2 (\<lambda>_. sample_launch) (\<lambda>_. True) True [] (sample_world {}) 0 = Inr (Some s0)
     \<and> (\<forall>s. process_step\<^sup>*\<^sup>* s0 s \<longrightarrow> (\<forall>t\<in>set (mg_threads (mp_manager s)). mt_count t = gl_count (mt_clients t)))"
proof -
  obtain s0 where s0: "manager_start 2 (\<lambda>_. sample_launch) (\<lambda>_. True) True [] (sample_world {}) 0 = Inr (Some s0)"
    using sample_start by blast
  from manager_process_invariant [OF s0] s0 show ?thesis by blast
qed

subsection \<open>Lost signals\<close>

lemma timeout_keeps:
  assumes "manager_iteration env Timed_Out w t = Inr r"
  shows "mt_passing (snd r) = mt_passing t \<and> mt_clients (snd r) = mt_clients t \<and> mt_exit (snd r) = mt_exit t"
  using assms
  by (auto simp: manager_iteration_def serve_timeout_def bind_run_Inr_iff Let_def split: option.splits prod.splits)

text \<open>The state of a thread to which the last signal was lost.\<close>

definition unsignalled :: "nat \<Rightarrow> manager_process \<Rightarrow> bool" where
  "unsignalled i s \<longleftrightarrow> i < length (mg_threads (mp_manager s)) \<and> length (mp_phases s) = length (mg_threads (mp_manager s))
     \<and> mp_phases s ! i \<in> {Between, Waiting} \<and> \<not> mt_exit (mg_threads (mp_manager s) ! i)"

lemma unsignalled_thread_step:
  assumes "thread_step env j s = Inr s'" and "j < length (mg_threads (mp_manager s))" and "unsignalled i s"
  shows "unsignalled i s' \<and> mp_main s' = mp_main s
    \<and> mt_passing (mg_threads (mp_manager s') ! i) = mt_passing (mg_threads (mp_manager s) ! i)
    \<and> mt_clients (mg_threads (mp_manager s') ! i) = mt_clients (mg_threads (mp_manager s) ! i)"
proof (cases "mp_phases s ! j = Waiting \<or> mp_phases s ! j = Signalled")
  case True
  then obtain event r where r: "manager_iteration env event (mg_world (mp_manager s)) (mg_threads (mp_manager s) ! j) = Inr r"
    "s' = after_iteration j s r" and event: "mp_phases s ! j = Waiting \<Longrightarrow> event = Timed_Out"
    using assms(1) by (auto simp: thread_step_def Let_def bind_run_Inr_iff)
  show ?thesis
  proof (cases "j = i")
    case True
    then have "event = Timed_Out" using assms(3) \<open>_ \<or> _\<close> event by (auto simp: unsignalled_def)
    from timeout_keeps [OF r(1) [unfolded this]] assms(3) True show ?thesis
      by (simp add: r(2) after_iteration_def unsignalled_def)
  next
    case False
    with assms(3) show ?thesis by (simp add: r(2) after_iteration_def unsignalled_def)
  qed
next
  case False
  then have "s' = s \<or> s' = s\<lparr>mp_phases := (mp_phases s)[j := Waiting]\<rparr>"
    using assms(1) by (cases "mp_phases s ! j") (simp_all add: thread_step_def Let_def)
  with assms(3) show ?thesis by (cases "j = i") (auto simp: unsignalled_def)
qed

lemma joining_step:
  assumes "process_step s s'" and "mp_main s = Joining i" and "unsignalled i s"
  shows "mp_main s' = Joining i \<and> unsignalled i s'"
proof -
  obtain ok where "process_action ok s s'" using assms(1) by (auto simp: process_step_def)
  then show ?thesis
  proof (cases rule: process_action.cases)
    case pa_main
    then show ?thesis using assms(2,3) by (auto simp: manager_main_step_def unsignalled_def)
  next
    case (pa_thread j env)
    with unsignalled_thread_step [OF pa_thread(3,2) assms(3)] assms(2) show ?thesis by simp
  next
    case (pa_database T)
    then show ?thesis using assms(2,3) by (simp add: unsignalled_def)
  qed (use assms(2,3) in \<open>simp_all add: sighandler_def unsignalled_def\<close>)
qed

lemma joining_run:
  "process_step\<^sup>*\<^sup>* s s' \<Longrightarrow> mp_main s = Joining i \<Longrightarrow> unsignalled i s \<Longrightarrow> mp_main s' = Joining i \<and> unsignalled i s'"
  by (induction rule: rtranclp_induct) (auto dest: joining_step)

text \<open>C36: The order to stop is not kept for a thread that is not waiting when it is signalled. When \<^verbatim>\<open>main\<close> stops
  a thread between two of its waits, the thread looks at its action only after another signal, which
  never comes: \<^verbatim>\<open>main\<close> stays in \<^verbatim>\<open>pthread_join\<close> in every run that follows.\<close>

theorem shutdown_hangs:
  assumes "mp_main s = Stopping i" and "i < length (mg_threads (mp_manager s))"
    and "length (mp_phases s) = length (mg_threads (mp_manager s))" and "mp_phases s ! i = Between"
    and "\<not> mt_exit (mg_threads (mp_manager s) ! i)"
  shows "\<exists>s1. manager_main_step s = Inr s1 \<and> (\<forall>s'. process_step\<^sup>*\<^sup>* s1 s' \<longrightarrow> mp_main s' = Joining i)"
proof -
  have "manager_main_step s = Inr (stop_thread i s)" using assms(1,2) by (simp add: manager_main_step_def)
  moreover have "mp_main (stop_thread i s) = Joining i" "unsignalled i (stop_thread i s)"
    using assms by (simp_all add: stop_thread_def unsignalled_def wake_up_def)
  ultimately show ?thesis using joining_run by blast
qed

theorem shutdown_hangs_witness:
  "\<exists>s0 s1. manager_start 2 (\<lambda>_. sample_launch) (\<lambda>_. True) True [] (sample_world {}) 0 = Inr (Some s0)
     \<and> process_step\<^sup>*\<^sup>* s0 s1 \<and> (\<forall>s'. process_step\<^sup>*\<^sup>* s1 s' \<longrightarrow> mp_main s' = Joining 0)"
proof -
  obtain s0 where s0: "manager_start 2 (\<lambda>_. sample_launch) (\<lambda>_. True) True [] (sample_world {}) 0 = Inr (Some s0)"
    "mp_phases s0 = replicate 4 Between" "length (mg_threads (mp_manager s0)) = 4" "mp_main s0 = Servicing"
    "\<forall>t\<in>set (mg_threads (mp_manager s0)). \<not> mt_exit t"
    using sample_start by blast
  define s where "s = (sighandler s0)\<lparr>mp_main := Stopping 0\<rparr>"
  have "manager_main_step (sighandler s0) = Inr s"
    by (simp add: s_def manager_main_step_def sighandler_def s0(4))
  then have run: "process_step\<^sup>*\<^sup>* s0 s"
    using converse_rtranclp_into_rtranclp [OF process_stepI [OF pa_interrupt] r_into_rtranclp [of process_step, OF process_stepI [OF pa_main]]] by blast
  have s: "mp_main s = Stopping 0" "0 < length (mg_threads (mp_manager s))"
    "length (mp_phases s) = length (mg_threads (mp_manager s))" "mp_phases s ! 0 = Between"
    "\<not> mt_exit (mg_threads (mp_manager s) ! 0)"
    using s0(2-5) by (simp_all add: s_def sighandler_def)
  from shutdown_hangs [OF this] obtain s1 where s1: "manager_main_step s = Inr s1"
    "\<forall>s'. process_step\<^sup>*\<^sup>* s1 s' \<longrightarrow> mp_main s' = Joining 0" by blast
  from run process_stepI [OF pa_main [OF s1(1)]] have "process_step\<^sup>*\<^sup>* s0 s1" by (rule rtranclp.rtrancl_into_rtrancl)
  with s0(1) s1(2) show ?thesis by blast
qed

definition threads_step :: "manager_process \<Rightarrow> manager_process \<Rightarrow> bool" where
  "threads_step s s' \<longleftrightarrow> (\<exists>j env. j < length (mg_threads (mp_manager s)) \<and> thread_step env j s = Inr s')"

lemma unsignalled_run:
  assumes "threads_step\<^sup>*\<^sup>* s s'" and "unsignalled i s"
  shows "unsignalled i s' \<and> mt_passing (mg_threads (mp_manager s') ! i) = mt_passing (mg_threads (mp_manager s) ! i)
    \<and> mt_clients (mg_threads (mp_manager s') ! i) = mt_clients (mg_threads (mp_manager s) ! i)"
  using assms(1)
proof (induction rule: rtranclp_induct)
  case (step s' s'')
  then obtain j env where "j < length (mg_threads (mp_manager s'))" "thread_step env j s' = Inr s''"
    by (auto simp: threads_step_def)
  with unsignalled_thread_step [of env j s' s'' i] step.IH show ?case by simp
qed (use assms(2) in simp)

lemma dispatcher_opened:
  assumes "asclWebSocketDispatcherMessage env number aid WS_OPEN m = Inr (ASCL_SUCCESS, m')"
  obtains c where "mg_threads m' = (mg_threads m)[least_loaded (map mt_count (mg_threads m)) :=
       pass_client (Some (mg_next m, c)) client_up (mg_threads m ! least_loaded (map mt_count (mg_threads m)))]"
    and "least_loaded (map mt_count (mg_threads m)) < length (mg_threads m)"
proof -
  obtain par client where "connection_opened env par client m = Inr (ASCL_SUCCESS, m')"
    using assms by (auto simp: asclWebSocketDispatcherMessage_def Let_def bind_run_Inr_iff split: prod.splits if_splits)
  then show thesis
  proof (cases rule: connection_opened_cases)
    case (2 c T1 T2 s)
    have "least_loaded (map mt_count (mg_threads m)) < length (mg_threads m)"
      using least_loaded_prefix [of "map mt_count (mg_threads m)" "length (mg_threads m)"] 2(3)
      by (simp add: least_loaded_def Let_def)
    with 2(7) show thesis by (rule that)
  qed simp
qed

text \<open>The same happens to a new client: when the listener hands it to a thread that is between two waits, the
  thread does not take it over, whatever the threads do, until the listener signals again; its slot
  keeps the client meanwhile.\<close>

theorem handover_lost:
  assumes "length (mp_phases s) = length (mg_threads (mp_manager s))"
    and "asclWebSocketDispatcherMessage env number aid WS_OPEN (mp_manager s) = Inr (ASCL_SUCCESS, m)"
    and "i = least_loaded (map mt_count (mg_threads (mp_manager s)))"
    and "mp_phases s ! i = Between" and "\<not> mt_exit (mg_threads (mp_manager s) ! i)"
  shows "\<exists>s1 c. listen env number aid WS_OPEN s = Inr s1
     \<and> (\<forall>s'. threads_step\<^sup>*\<^sup>* s1 s' \<longrightarrow>
          mt_passing (mg_threads (mp_manager s') ! i) = Some (mg_next (mp_manager s), c)
        \<and> mt_clients (mg_threads (mp_manager s') ! i) = mt_clients (mg_threads (mp_manager s) ! i))"
proof -
  let ?ts = "mg_threads (mp_manager s)"
  obtain c where ts: "mg_threads m = ?ts[i := pass_client (Some (mg_next (mp_manager s), c)) client_up (?ts ! i)]"
    and i: "i < length ?ts"
    using assms(2) unfolding assms(3) by (rule dispatcher_opened)
  define s1 where "s1 = s\<lparr>mp_manager := m, mp_phases := wake_up_all {i} (mp_phases s)\<rparr>"
  have listen: "listen env number aid WS_OPEN s = Inr s1"
    using assms(2,3) by (simp add: listen_def s1_def signalled_threads_def)
  have unsignalled: "unsignalled i s1"
    using assms(1,4,5) i ts by (simp add: unsignalled_def s1_def wake_up_def pass_client_def)
  have slot: "mt_passing (mg_threads (mp_manager s1) ! i) = Some (mg_next (mp_manager s), c)"
    "mt_clients (mg_threads (mp_manager s1) ! i) = mt_clients (?ts ! i)"
    using ts i by (simp_all add: s1_def pass_client_def)
  have "mt_passing (mg_threads (mp_manager s') ! i) = Some (mg_next (mp_manager s), c)
      \<and> mt_clients (mg_threads (mp_manager s') ! i) = mt_clients (?ts ! i)" if "threads_step\<^sup>*\<^sup>* s1 s'" for s'
    using unsignalled_run [OF that unsignalled] slot by simp
  with listen show ?thesis by blast
qed

lemma sample_open:
  assumes "mw_tables (mg_world m) = sample_tables [1, 2] [3]" and "mg_threads m \<noteq> []"
  shows "\<exists>m'. asclWebSocketDispatcherMessage sample_dispatch 0 (hex_string sample_AID) WS_OPEN m = Inr (ASCL_SUCCESS, m')"
proof -
  let ?T = "sample_tables [1, 2] [3]"
  have par: "ra_db_get_attestation_parameters link_up ?T (hex_string sample_AID) 0 out = (sample_parameters, RA_SUCCESS)" for out
    by (simp add: ra_db_get_attestation_parameters_def select_attestators_def sample_tables_def sample_parameters_def
        same_text_def)
  have client: "\<exists>c. RA_CLI_create True (parse_AID (hex_string sample_AID) old) n a av v x y = Inr (Some c)" for old n a av v x y
    by (simp add: RA_CLI_create_def read_at_def parse_AID_def)
  then obtain c where c: "RA_CLI_create True (parse_AID (hex_string sample_AID) (replicate 16 0)) 0 (par_attestator sample_parameters)
      (par_sleep_avg sample_parameters) (par_sleep_var sample_parameters) 0xFFFFFFFFFFFFFFFF 0 = Inr (Some c)" by blast
  have "\<exists>T1 s. ra_db_start_session link_up ?T 60 3 0 = ((T1, s), RA_SUCCESS)"
    by (simp add: ra_db_start_session_def insert_session_def close_all_active_sessions_def sample_tables_def)
  then obtain m' where "connection_opened sample_dispatch sample_parameters (Some c) m = Inr (ASCL_SUCCESS, m')"
    using assms
    by (auto simp: connection_opened_def sample_dispatch_def sample_parameters_def ra_db_set_reaction_status_def Let_def
        allocate_client_def set_tables_def case_prod_beta)
  moreover have env: "de_params sample_dispatch = link_up" "de_malloc sample_dispatch" "de_AID sample_dispatch = replicate 16 0"
    by (simp_all add: sample_dispatch_def)
  ultimately show ?thesis
    using assms(1) c by (simp add: asclWebSocketDispatcherMessage_def par Let_def)
qed

theorem handover_lost_witness:
  "\<exists>s0 s1 i c. manager_start 2 (\<lambda>_. sample_launch) (\<lambda>_. True) True [] (sample_world {}) 0 = Inr (Some s0)
     \<and> listen sample_dispatch 0 (hex_string sample_AID) WS_OPEN s0 = Inr s1
     \<and> (\<forall>s'. threads_step\<^sup>*\<^sup>* s1 s' \<longrightarrow> mt_passing (mg_threads (mp_manager s') ! i) = Some (0, c))"
proof -
  obtain s0 where s0: "manager_start 2 (\<lambda>_. sample_launch) (\<lambda>_. True) True [] (sample_world {}) 0 = Inr (Some s0)"
    "mp_phases s0 = replicate 4 Between" "length (mg_threads (mp_manager s0)) = 4"
    "\<forall>t\<in>set (mg_threads (mp_manager s0)). \<not> mt_exit t"
    "mg_world (mp_manager s0) = sample_world {}" "mg_next (mp_manager s0) = 0"
    using sample_start by blast
  have "mw_tables (mg_world (mp_manager s0)) = sample_tables [1, 2] [3]" "mg_threads (mp_manager s0) \<noteq> []"
    using s0(3,5) by (auto simp: sample_world_def)
  then obtain m where m: "asclWebSocketDispatcherMessage sample_dispatch 0 (hex_string sample_AID) WS_OPEN (mp_manager s0)
      = Inr (ASCL_SUCCESS, m)"
    using sample_open by blast
  define i where "i = least_loaded (map mt_count (mg_threads (mp_manager s0)))"
  have i: "i < 4" using dispatcher_opened [OF m] s0(3) unfolding i_def by metis
  with s0(2-4) have "mp_phases s0 ! i = Between" "\<not> mt_exit (mg_threads (mp_manager s0) ! i)"
    "length (mp_phases s0) = length (mg_threads (mp_manager s0))" by simp_all
  from handover_lost [OF this(3) m i_def this(1,2)] s0(1,6) show ?thesis by metis
qed

lemma connection_opened_next:
  assumes "connection_opened env par client m = Inr (ASCL_SUCCESS, m')"
  shows "mg_next m' = Suc (mg_next m)"
proof -
  obtain T1 s r1 where start: "ra_db_start_session (de_start env) (mw_tables (mg_world m)) (de_now env)
      (par_attestator par) (de_session env) = ((T1, s), r1)" by (metis prod.collapse)
  obtain T2 r2 where react: "ra_db_set_reaction_status (de_react env) T1 (par_application par)
      REACTION_STATUS_UNKNOWN = (T2, r2)" by fastforce
  show ?thesis
    using assms start react
    by (auto simp: connection_opened_def bind_run_Inr_iff Let_def allocate_client_def set_tables_def split: if_splits)
qed

text \<open>C33: A hand-over that was not taken yet is overwritten: two connections accepted before a thread runs,
  of different attestators, go to the same thread, and the second client replaces the first in its slot. The
  first client is then in no slot and no thread has taken it over, although the session it was given is
  still the active one of its attestator: it is never attested.\<close>

theorem pending_client_overwritten:
  assumes "db_ok (mw_tables (mg_world m))"
    and "connection_opened env1 par1 client1 m = Inr (ASCL_SUCCESS, m1)"
    and "connection_opened env2 par2 client2 m1 = Inr (ASCL_SUCCESS, m2)"
    and "par_attestator par1 \<noteq> par_attestator par2"
    and "\<forall>t\<in>set (mg_threads m). \<forall>a c. mt_passing t = Some (a, c) \<longrightarrow> a < mg_next m"
  shows "\<exists>i c. i < length (mg_threads m) \<and> mt_passing (mg_threads m1 ! i) = Some (mg_next m, c)
     \<and> (\<forall>t\<in>set (mg_threads m2). \<forall>c'. mt_passing t \<noteq> Some (mg_next m, c'))
     \<and> map mt_clients (mg_threads m2) = map mt_clients (mg_threads m)
     \<and> select_active_sessions (mw_tables (mg_world m2)) (par_attestator par1) = [cl_session_id c]"
proof -
  obtain c1 s1 i where i: "i = least_loaded (map mt_count (mg_threads m))" "i < length (mg_threads m)"
    and m1: "mg_threads m1 = (mg_threads m)[i := (mg_threads m ! i)\<lparr>mt_passing := Some (mg_next m, c1\<lparr>cl_session_id := s1\<rparr>),
           mt_action := client_up\<rparr>]"
    and ok: "db_ok (mw_tables (mg_world m1))"
    and active1: "\<And>b. select_active_sessions (mw_tables (mg_world m1)) b
       = (if b = par_attestator par1 then [s1] else select_active_sessions (mw_tables (mg_world m)) b)"
    using connection_opened_session [OF assms(1,2)] by metis
  have counts: "map mt_count (mg_threads m1) = map mt_count (mg_threads m)"
    using i(2) by (simp add: m1 map_update list_update_same_conv)
  obtain c2 s2 where m2: "mg_threads m2 = (mg_threads m1)[i := (mg_threads m1 ! i)\<lparr>mt_passing := Some (mg_next m1, c2\<lparr>cl_session_id := s2\<rparr>),
           mt_action := client_up\<rparr>]"
    and active2: "\<And>b. select_active_sessions (mw_tables (mg_world m2)) b
       = (if b = par_attestator par2 then [s2] else select_active_sessions (mw_tables (mg_world m1)) b)"
    using connection_opened_session [OF ok assms(3)] unfolding counts i(1) [symmetric] by metis
  with i(2) have final: "mg_threads m2 = (mg_threads m)[i := (mg_threads m ! i)\<lparr>mt_passing := Some (Suc (mg_next m),
      c2\<lparr>cl_session_id := s2\<rparr>), mt_action := client_up\<rparr>]"
    by (simp add: m1 connection_opened_next [OF assms(2)])
  have "\<forall>t\<in>set (mg_threads m2). \<forall>c. mt_passing t \<noteq> Some (mg_next m, c)"
    using assms(5) unfolding final by (auto dest!: set_update_subset_insert [THEN subsetD])
  moreover have "map mt_clients (mg_threads m2) = map mt_clients (mg_threads m)"
    using i(2) by (simp add: final map_update list_update_same_conv)
  moreover have "mt_passing (mg_threads m1 ! i) = Some (mg_next m, c1\<lparr>cl_session_id := s1\<rparr>)"
    using i(2) by (simp add: m1)
  moreover have "select_active_sessions (mw_tables (mg_world m2)) (par_attestator par1) = [cl_session_id (c1\<lparr>cl_session_id := s1\<rparr>)]"
    using active1 active2 assms(4) by simp
  ultimately show ?thesis using i(2) by blast
qed

text \<open>Two attestators of the sample application.\<close>

definition paired_manager :: manager where
  "paired_manager = set_tables sample_manager ((sample_tables [1, 2] [3])\<lparr>attestators :=
     [\<lparr>att_id = 3, att_application = 77, att_number = 0, att_sleep_avg = 10, att_sleep_var = 1\<rparr>,
      \<lparr>att_id = 5, att_application = 77, att_number = 4, att_sleep_avg = 10, att_sleep_var = 1\<rparr>]\<rparr>)"

lemma paired_manager_ok: "db_ok (mw_tables (mg_world paired_manager))" "mg_threads paired_manager = mg_threads sample_manager"
  "mg_next paired_manager = mg_next sample_manager"
  by (simp add: paired_manager_def set_tables_def sample_tables_def db_ok_def db_keys_def keys_below_def one_session_def
      nonces_once_def select_active_sessions_def)
    (simp_all add: paired_manager_def set_tables_def)

lemma sample_opens:
  assumes "par_attestator par \<in> set (map att_id (attestators (mw_tables (mg_world m))))"
    and "next_session (mw_tables (mg_world m)) < 100" and "mg_threads m \<noteq> []"
  shows "\<exists>m'. connection_opened sample_dispatch par (Some c) m = Inr (ASCL_SUCCESS, m')
     \<and> attestators (mw_tables (mg_world m')) = attestators (mw_tables (mg_world m))
     \<and> next_session (mw_tables (mg_world m')) = Suc (next_session (mw_tables (mg_world m)))
     \<and> mg_threads m' \<noteq> []"
proof -
  let ?T = "mw_tables (mg_world m)"
  have "\<exists>T1 s. ra_db_start_session link_up ?T 60 (par_attestator par) 0 = ((T1, s), RA_SUCCESS)
      \<and> attestators T1 = attestators ?T \<and> next_session T1 = Suc (next_session ?T)"
    using assms(1,2) by (auto simp: ra_db_start_session_def insert_session_def close_all_active_sessions_def)
  with assms show ?thesis
    by (auto simp: connection_opened_def sample_dispatch_def ra_db_set_reaction_status_def Let_def
        allocate_client_def set_tables_def update_reaction_def case_prod_beta)
qed

theorem pending_client_overwritten_witness:
  "\<exists>m1 m2 i c. connection_opened sample_dispatch sample_parameters (Some (sample_client 0)) paired_manager
       = Inr (ASCL_SUCCESS, m1)
     \<and> connection_opened sample_dispatch (sample_parameters\<lparr>par_attestator := 5\<rparr>) (Some (sample_client 4)) m1
       = Inr (ASCL_SUCCESS, m2)
     \<and> mt_passing (mg_threads m1 ! i) = Some (mg_next paired_manager, c)
     \<and> (\<forall>t\<in>set (mg_threads m2). \<forall>c'. mt_passing t \<noteq> Some (mg_next paired_manager, c'))
     \<and> select_active_sessions (mw_tables (mg_world m2)) 3 = [cl_session_id c]"
proof -
  have start: "map att_id (attestators (mw_tables (mg_world paired_manager))) = [3, 5]"
    "next_session (mw_tables (mg_world paired_manager)) = 2" "mg_threads paired_manager \<noteq> []"
    by (simp_all add: paired_manager_def set_tables_def sample_tables_def sample_manager_def)
  have par: "par_attestator sample_parameters = 3" by (simp add: sample_parameters_def)
  obtain m1 where m1: "connection_opened sample_dispatch sample_parameters (Some (sample_client 0)) paired_manager
      = Inr (ASCL_SUCCESS, m1)" "map att_id (attestators (mw_tables (mg_world m1))) = [3, 5]"
      "next_session (mw_tables (mg_world m1)) = 3" "mg_threads m1 \<noteq> []"
    using sample_opens [of sample_parameters paired_manager "sample_client 0"] start par by auto
  obtain m2 where m2: "connection_opened sample_dispatch (sample_parameters\<lparr>par_attestator := 5\<rparr>) (Some (sample_client 4)) m1
      = Inr (ASCL_SUCCESS, m2)"
    using sample_opens [of "sample_parameters\<lparr>par_attestator := 5\<rparr>" m1 "sample_client 4"] m1 by auto
  have "\<forall>t\<in>set (mg_threads paired_manager). \<forall>a c. mt_passing t = Some (a, c) \<longrightarrow> a < mg_next paired_manager"
    by (simp add: paired_manager_ok) (simp add: sample_manager_def sample_thread_def)
  from pending_client_overwritten [OF paired_manager_ok(1) m1(1) m2 _ this] m1(1) m2 par show ?thesis by auto
qed

lemma rollback_endless:
  "rollback_loop n j calls = (calls @ concat (replicate n [0..<MAX_ATTESTATORS_ALLOWED]), False)"
  by (induction n arbitrary: j calls) (simp_all add: shutdown_contexts_def)

lemma launch_loop_fails:
  assumes "\<exists>i\<in>set is. \<not> le_create (env i)" and "\<forall>i. le_list (env i) \<and> le_queue (env i)"
  shows "launch_loop fuel env is ts = Inl No_Return"
  using assms(1)
proof (induction "is" arbitrary: ts)
  case (Cons i "is")
  with assms(2) show ?case
    by (cases "le_create (env i)") (simp_all add: manager_thread_create_def gl_create_def sq_create_def rollback_endless)
qed simp

text \<open>C34: When a thread cannot be created, the process never gets to the exit behind the roll-back: the unsigned
  counter does not fall below zero, so that however many rounds are made there is another one, and every
  round hands all contexts to \<^verbatim>\<open>asclWebSocketShutdown\<close> once more. (The calls of a round are taken to return;
  one that ends the process does so in the roll-back.)\<close>

theorem manager_create_failure:
  assumes "\<forall>n. alloc n" and "i < unat (of_int (total_actual_managers args) :: u32)" and "\<not> le_create (env i)"
    and "\<forall>i. le_list (env i) \<and> le_queue (env i)"
  shows "\<forall>fuel. manager_start fuel env alloc signal_ok args world nxt = Inl No_Return
     \<and> rollback_loop fuel (of_nat i) [] = (concat (replicate fuel [0..<MAX_ATTESTATORS_ALLOWED]), False)"
proof -
  have "\<exists>i\<in>set [0..<unat (of_int (total_actual_managers args) :: u32)]. \<not> le_create (env i)"
    using assms(2,3) by auto
  from launch_loop_fails [OF this assms(4), where ts = "[]"] show ?thesis
    using assms(1) by (simp add: manager_start_def Let_def rollback_endless)
qed

theorem manager_create_failure_witness:
  "manager_start 2 (\<lambda>_. sample_launch\<lparr>le_create := False\<rparr>) (\<lambda>_. True) True [] (sample_world {}) 0 = Inl No_Return
   \<and> count_list (fst (rollback_loop 2 0 [])) 7 = 2"
proof -
  have "0 < unat (of_int (total_actual_managers []) :: u32)" by (simp add: total_actual_managers_def)
  from manager_create_failure [of "\<lambda>_. True" 0 "[]" "\<lambda>_. sample_launch\<lparr>le_create := False\<rparr>" True "sample_world {}" 0, OF _ this]
  have "manager_start 2 (\<lambda>_. sample_launch\<lparr>le_create := False\<rparr>) (\<lambda>_. True) True [] (sample_world {}) 0 = Inl No_Return
     \<and> rollback_loop 2 0 [] = (concat (replicate 2 [0..<MAX_ATTESTATORS_ALLOWED]), False)"
    by (simp add: sample_launch_def)
  then show ?thesis by (simp add: MAX_ATTESTATORS_ALLOWED_def upt_rec numeral_2_eq_2)
qed

text \<open>A thread that takes the order to stop ends only when it serves no client; otherwise the destruction of its
  list reads the cell that it has just freed.\<close>

theorem thread_shutdown:
  assumes "thread_ok t" and "length (sq_items (mt_queue t)) < 2 ^ 32" and "mt_action t = die"
  shows "if gl_items (mt_clients t) = []
     then \<exists>t'. manager_iteration env Woken w t = Inr (w, t') \<and> mt_exit t'
     else manager_iteration env Woken w t = Inl Use_After_Free"
proof -
  let ?left = "time_left (transform_time_to_sleep (wk_before env) (sq_get_time_to_sleep (mt_queue t))) (wk_after env)"
  let ?q = "snd (sq_update_time_unslept (mt_queue t) ?left)"
  have "sq_ok ?q" using assms(1) by (simp add: thread_ok_def sq_update_ok)
  moreover have "length (sq_items ?q) < 2 ^ 32"
    using assms(2) by (auto simp: sq_update_time_unslept_def split: list.split)
  ultimately have "sq_destroy ?q = Inr []" by (rule sq_destroy_frees_all)
  then show ?thesis
    using assms(3)
    by (simp add: manager_iteration_def Let_def handle_die_def gl_destroy_use_after_free)
qed

theorem thread_shutdown_witness:
  "manager_iteration sample_wake Woken (sample_world {}) (sample_thread [3] die None) = Inl Use_After_Free"
  using thread_shutdown [OF sample_thread_ok, of "[3]" die None sample_wake "sample_world {}"]
  by (simp add: sample_thread_def)

end
