(* ===== verification/Extractor.thy ===== *)
theory Extractor
  imports Attestator Manager_Requests
begin

text \<open>
  \<^verbatim>\<open>server-components/extractor.c\<close> and \<^verbatim>\<open>ra_nonce_generation.c\<close>: the process that draws
  random nonces, prepares the attestation data they ask for from the image of the program on
  disk, and stores both. An attempt of the extraction loop is one function on the state of the
  process and the tables; the outcomes of its calls into libraries are a record per attempt.
  Printing and the release of memory at an \<^verbatim>\<open>exit\<close> are left out, and so is the variable
  \<^verbatim>\<open>app_AID\<close>, which is written but never read.
\<close>

section \<open>Nonce generation\<close>

text \<open>\<^verbatim>\<open>RAND_bytes\<close> returns 1 and the bytes, 0 when it fails and -1 when the generator does not
  support it; only 1 fills the buffer.\<close>

type_synonym rand_result = "int \<times> u8 list"

definition random_generate_nonce :: "rand_result \<Rightarrow> u8 list \<Rightarrow> (u8 list \<times> ra_result) run" where
  "random_generate_nonce rand buf =
     bind_run (if fst rand = 1 then write_at buf 0 (snd rand) else Inr buf) (\<lambda>buf'.
       Inr (buf', if fst rand = 0 then RA_ERROR_RANDOM_GENERATOR else RA_SUCCESS))"

section \<open>One attempt\<close>

record attempt_env =
  xe_rand :: rand_result
  xe_nonce_ok :: bool
  xe_decode :: decoder
  xe_prepare_info :: decoded_info
  xe_tmp :: "nat \<Rightarrow> u8"
  xe_walk_ok :: bool
  xe_data_ok :: bool
  xe_store_ok :: bool
  xe_query_ok :: bool
  xe_label_decode :: decoder
  xe_info :: decoded_info
  xe_insert_ok :: bool

record extraction =
  ex_table :: ra_table
  ex_nonce :: "u8 list"
  ex_db :: tables
  ex_extracted :: int
  ex_errors :: nat

text \<open>
  \<^verbatim>\<open>mysql_real_escape_string\<close> writes at most \<^verbatim>\<open>2 * n + 1\<close> bytes, a string literal that stands for
  the \<open>n\<close> bytes it was given; the result of the model is these bytes. A buffer that is smaller
  than the function demands is a fault.
\<close>

definition escaped :: "nat \<Rightarrow> u8 list option \<Rightarrow> nat \<Rightarrow> u8 list run" where
  "escaped capacity src n =
     bind_run (guard_run (2 * n + 1 \<le> capacity) Out_Of_Bounds) (\<lambda>_.
       if n = 0 then Inr [] else bind_run (deref src) (\<lambda>bs. read_at bs 0 n))"

text \<open>What became of an attempt. After a failure to set the nonce the loop goes on without taking
  the increment of its counter back.\<close>

datatype attempt = Stored | Failed | Failed_Counted

definition extract_one ::
  "mod_mul \<Rightarrow> memory \<Rightarrow> u64 \<Rightarrow> attempt_env \<Rightarrow> u64 \<Rightarrow> u32 \<Rightarrow> extraction \<Rightarrow> (attempt \<times> extraction) run" where
  "extract_one mm mem base e attestator_id nonce_length S =
     bind_run (random_generate_nonce (xe_rand e) (ex_nonce S)) (\<lambda>(nonce, r0).
     let S0 = S\<lparr>ex_nonce := nonce\<rparr> in
     if r0 \<noteq> RA_SUCCESS then Inr (Failed, S0)
     else bind_run (ra_set_current_nonce (xe_nonce_ok e) (ex_table S0) nonce nonce_length) (\<lambda>(t1, r1).
     let S1 = S0\<lparr>ex_table := t1\<rparr> in
     if r1 \<noteq> RA_SUCCESS then Inr (Failed_Counted, S1)
     else bind_run (ra_prepare_data (xe_decode e) mm mem base (xe_prepare_info e) (xe_tmp e) (xe_walk_ok e)
                      (xe_data_ok e) t1) (\<lambda>(t2, _).
     let S2 = S1\<lparr>ex_table := t2\<rparr>; data_size = ra_get_prepared_data_size t2 in
     if \<not> xe_store_ok e then Inr (Failed, S2)
     else bind_run (escaped (unat (nonce_length * 2 + 1)) (Some nonce) (unat nonce_length)) (\<lambda>nonce_to_store.
     bind_run (escaped (unat (data_size * 2 + 1)) (ra_get_prepared_data_reference t2) (unat data_size)) (\<lambda>data_to_store.
     bind_run (xe_label_decode e t2 (xe_info e)) (\<lambda>(info, _).
     if \<not> xe_query_ok e then Inl Null_Deref
     else (case (if xe_insert_ok e
                 then insert_data (ex_db S2) attestator_id nonce_to_store data_to_store (info_label info)
                 else None) of
             None \<Rightarrow> Inr (Failed, S2)
           | Some T \<Rightarrow> Inr (Stored, S2\<lparr>ex_db := T\<rparr>))))))))"

section \<open>The extraction loop\<close>

definition EXTRACTOR_MAX_ERROR_ALLOWED :: nat where "EXTRACTOR_MAX_ERROR_ALLOWED = 20"

text \<open>An attempt that failed is counted; the counter of records is decremented before the loop
  increments it again, except when the nonce could not be set.\<close>

definition count_error :: "attempt \<Rightarrow> extraction \<Rightarrow> extraction" where
  "count_error a S = S\<lparr>ex_extracted := ex_extracted S - (if a = Failed_Counted then 0 else 1),
                       ex_errors := ex_errors S + 1\<rparr>"

definition one_extracted :: "extraction \<Rightarrow> extraction" where
  "one_extracted S = S\<lparr>ex_extracted := ex_extracted S + 1\<rparr>"

lemma extract_one_counters:
  assumes "extract_one mm mem base e attestator_id nonce_length S = Inr (a, S')"
  shows "ex_extracted S' = ex_extracted S" and "ex_errors S' = ex_errors S"
  using assms by (auto simp: extract_one_def bind_run_Inr_iff Let_def split: if_splits option.splits)

function extract_loop ::
  "mod_mul \<Rightarrow> memory \<Rightarrow> u64 \<Rightarrow> (nat \<Rightarrow> attempt_env) \<Rightarrow> nat \<Rightarrow> u64 \<Rightarrow> u32 \<Rightarrow> int \<Rightarrow> extraction \<Rightarrow> extraction run" where
  "extract_loop mm mem base env i attestator_id nonce_length wanted S =
     (if wanted \<le> ex_extracted S then Inr S
      else bind_run (extract_one mm mem base (env i) attestator_id nonce_length S) (\<lambda>r.
        if fst r = Stored
        then extract_loop mm mem base env (i + 1) attestator_id nonce_length wanted (one_extracted (snd r))
        else let S' = count_error (fst r) (snd r) in
          if EXTRACTOR_MAX_ERROR_ALLOWED \<le> ex_errors S' then Inr S'
          else extract_loop mm mem base env (i + 1) attestator_id nonce_length wanted (one_extracted S')))"
  by pat_completeness auto

termination
  by (relation "measure (\<lambda>(mm, mem, base, env, i, a, n, wanted, S).
      nat (wanted - ex_extracted S) + (EXTRACTOR_MAX_ERROR_ALLOWED - ex_errors S))")
    (auto simp: one_extracted_def count_error_def extract_one_counters)

declare extract_loop.simps [simp del]

section \<open>Arguments and files\<close>

text \<open>\<^verbatim>\<open>sscanf\<close> of one integer: without digits it leaves the variable as it is.\<close>

definition sscanf_signed :: "string \<Rightarrow> 'a::len word \<Rightarrow> 'a word" where
  "sscanf_signed s old = (case fst (scan_integer (skip_space s)) of
       None \<Rightarrow> old
     | Some (neg, n) \<Rightarrow> word_of_int (strtol_value neg n))"

text \<open>
  What the BFD library finds in an executable: it may not open the descriptor, not recognise the
  format, find no section \<^verbatim>\<open>.text\<close>, or give its position in the file and its size. The function
  only prints when the descriptor could not be opened and hands NULL on.
\<close>

datatype bfd_file = Bfd_Not_Opened | Bfd_Not_Recognized | Bfd_No_Text | Bfd_Text nat nat

definition getTextSectionOffsetAndSize :: "bfd_file \<Rightarrow> (nat \<times> nat) option run" where
  "getTextSectionOffsetAndSize b =
     (case b of
        Bfd_Not_Opened \<Rightarrow> Inl Null_Deref
      | Bfd_Not_Recognized \<Rightarrow> Inr None
      | Bfd_No_Text \<Rightarrow> Inr None
      | Bfd_Text filepos text_size \<Rightarrow> Inr (Some (filepos, text_size)))"

record load_env =
  le_number :: u64
  le_length :: u32
  le_ads :: "string \<Rightarrow> u8 list option"
  le_ads_read :: bool
  le_heap_block :: ra_table
  le_parse :: mallocs
  le_exe :: "string \<Rightarrow> u8 list option"
  le_bfd :: "u8 list \<Rightarrow> bfd_file"
  le_image_ok :: bool
  le_base :: u64
  le_memory :: memory
  le_nonce :: "nat \<Rightarrow> u8"
  le_buffers_ok :: bool
  le_mysql_ok :: bool
  le_link :: db_link
  le_attestator_id :: u64

text \<open>The address space once the section has been read to the base address.\<close>

definition image_memory :: "memory \<Rightarrow> u64 \<Rightarrow> u8 list \<Rightarrow> memory" where
  "image_memory mem base code a = (if unat (a - base) < length code then code ! unat (a - base) else mem a)"

text \<open>
  Loading the two files: the parsed data structure and the bytes of the section \<^verbatim>\<open>.text\<close>, or
  \<open>None\<close> when the process exits with code 1. The three conditions on reading the structure
  (\<^verbatim>\<open>fstat\<close>, the allocation and \<^verbatim>\<open>read\<close>) have the same consequence and are one outcome of the
  environment.
\<close>

definition load_ads :: "load_env \<Rightarrow> string \<Rightarrow> u64 \<Rightarrow> ra_table option run" where
  "load_ads L aid number =
     (case le_ads L (ads_path aid number) of
        None \<Rightarrow> Inr None
      | Some ads \<Rightarrow>
          if \<not> le_ads_read L then Inr None
          else bind_run (ra_parse_binary_ads (le_heap_block L) (le_parse L) (Some ads)) (\<lambda>ads_struct.
            (case ads_struct of
               None \<Rightarrow> Inr None
             | Some t \<Rightarrow> Inr (if aid \<noteq> snd (ra_get_AID_as_string t) then None else Some t))))"

definition load_text :: "load_env \<Rightarrow> string \<Rightarrow> u64 \<Rightarrow> u8 list option run" where
  "load_text L aid number =
     (case le_exe L (exe_path aid number) of
        None \<Rightarrow> Inr None
      | Some exe \<Rightarrow>
          bind_run (getTextSectionOffsetAndSize (le_bfd L exe)) (\<lambda>text.
            (case text of
               None \<Rightarrow> Inr None
             | Some (filepos, text_size) \<Rightarrow>
                 let code = take text_size (drop filepos exe) in
                 Inr (if le_image_ok L \<and> length code = text_size then Some code else None))))"

text \<open>Once everything is loaded: the connection, the lookup of the attestator and the loop. The two
  allocations of nonce buffers are one outcome, and so are the two steps of the connection.\<close>

definition run_extraction ::
  "mod_mul \<Rightarrow> load_env \<Rightarrow> (nat \<Rightarrow> attempt_env) \<Rightarrow> string list \<Rightarrow> u64 \<Rightarrow> tables \<Rightarrow> ra_table \<Rightarrow> u8 list \<Rightarrow> (tables \<times> int) run" where
  "run_extraction mm L env argv number T t code =
     (let nonce_length = sscanf_signed (argv ! 3) (le_length L);
          (attestator_id, r) = ra_db_get_attestator_id (le_link L) T (snd (ra_get_AID_as_string t)) number
                                 (le_attestator_id L) in
      if \<not> le_buffers_ok L \<or> \<not> le_mysql_ok L \<or> r \<noteq> RA_SUCCESS then Inr (T, 1)
      else bind_run (extract_loop mm (image_memory (le_memory L) (le_base L) code) (le_base L) env 0
                       attestator_id nonce_length (atoi (argv ! 4))
                       \<lparr>ex_table = t, ex_nonce = map (le_nonce L) [0..<unat nonce_length],
                        ex_db = T, ex_extracted = 0, ex_errors = 0\<rparr>) (\<lambda>S.
             Inr (ex_db S, if ex_errors S = EXTRACTOR_MAX_ERROR_ALLOWED then 1 else 0)))"

text \<open>The process from its arguments to its exit: the tables it leaves and its exit code.\<close>

definition extractor_main ::
  "mod_mul \<Rightarrow> load_env \<Rightarrow> (nat \<Rightarrow> attempt_env) \<Rightarrow> string list \<Rightarrow> tables \<Rightarrow> (tables \<times> int) run" where
  "extractor_main mm L env argv T =
     (if length argv < 5 then Inl Null_Deref
      else if length (argv ! 1) \<noteq> AID_SIZE * 2 then Inr (T, 1)
      else
        let number = sscanf_signed (argv ! 2) (le_number L) in
        bind_run (load_ads L (argv ! 1) number) (\<lambda>ads.
          (case ads of
             None \<Rightarrow> Inr (T, 1)
           | Some t \<Rightarrow>
               bind_run (load_text L (argv ! 1) number) (\<lambda>text.
                 (case text of
                    None \<Rightarrow> Inr (T, 1)
                  | Some code \<Rightarrow> run_extraction mm L env argv number T t code)))))"

section \<open>What is counted\<close>

lemma insert_data_appends:
  "insert_data T a n d m = Some T' \<Longrightarrow>
   prepared T' = prepared T @ [\<lparr>pd_id = of_nat (next_prepared T), pd_attestator = a, pd_nonce = n, pd_data = d, pd_area = m\<rparr>]"
  by (auto simp: insert_data_def split: if_splits)

lemma insert_data_adds_row: "insert_data T a n d m = Some T' \<Longrightarrow> \<exists>row. prepared T' = prepared T @ [row]"
  using insert_data_appends by blast

lemma extract_loop_done: "wanted \<le> ex_extracted S \<Longrightarrow>
   extract_loop mm mem base env i attestator_id nonce_length wanted S = Inr S"
  by (simp add: extract_loop.simps [of mm])

lemma extract_loop_step:
  assumes "\<not> wanted \<le> ex_extracted S"
    and "extract_one mm mem base (env i) attestator_id nonce_length S = Inr (a, S1)"
  shows "extract_loop mm mem base env i attestator_id nonce_length wanted S =
    (if a = Stored then extract_loop mm mem base env (i + 1) attestator_id nonce_length wanted (one_extracted S1)
     else if EXTRACTOR_MAX_ERROR_ALLOWED \<le> ex_errors (count_error a S1) then Inr (count_error a S1)
     else extract_loop mm mem base env (i + 1) attestator_id nonce_length wanted (one_extracted (count_error a S1)))"
  using assms by (subst extract_loop.simps) simp

lemma extract_loop_runs:
  assumes "\<not> wanted \<le> ex_extracted S"
    and "extract_loop mm mem base env i attestator_id nonce_length wanted S = Inr S'"
  obtains a S1 where "extract_one mm mem base (env i) attestator_id nonce_length S = Inr (a, S1)"
  using assms by (subst (asm) extract_loop.simps) (auto simp: bind_run_Inr_iff)

lemma extract_one_rows:
  assumes "extract_one mm mem base e attestator_id nonce_length S = Inr (a, S')"
  shows "(a = Stored \<longrightarrow> (\<exists>row. prepared (ex_db S') = prepared (ex_db S) @ [row]))
     \<and> (a \<noteq> Stored \<longrightarrow> ex_db S' = ex_db S) \<and> (xe_nonce_ok e \<longrightarrow> a \<noteq> Failed_Counted)"
  using assms
  by (auto simp: extract_one_def bind_run_Inr_iff Let_def ra_set_current_nonce_def
      split: if_splits option.splits) (blast dest: insert_data_adds_row)+

text \<open>The counter against the number of rows added: the last attempt of an aborted extraction is
  taken back without having been counted.\<close>

lemma extract_loop_counts:
  assumes "extract_loop mm mem base env i attestator_id nonce_length wanted S = Inr S'"
    and "\<forall>j. xe_nonce_ok (env j)" and "ex_errors S < EXTRACTOR_MAX_ERROR_ALLOWED" and "ex_extracted S \<le> wanted"
  shows "\<exists>rows. prepared (ex_db S') = prepared (ex_db S) @ rows
     \<and> (ex_errors S' < EXTRACTOR_MAX_ERROR_ALLOWED
          \<and> ex_extracted S' = wanted \<and> int (length rows) = wanted - ex_extracted S
        \<or> ex_errors S' = EXTRACTOR_MAX_ERROR_ALLOWED
          \<and> ex_extracted S' = ex_extracted S + int (length rows) - 1)"
  using assms
proof (induction mm mem base env i attestator_id nonce_length wanted S rule: extract_loop.induct)
  case (1 mm mem base env i attestator_id nonce_length wanted S)
  show ?case
  proof (cases "wanted \<le> ex_extracted S")
    case True
    then show ?thesis using "1.prems" by (auto simp: extract_loop_done)
  next
    case False
    then obtain a S1 where one: "extract_one mm mem base (env i) attestator_id nonce_length S = Inr (a, S1)"
      using "1.prems"(1) by (rule extract_loop_runs)
    note c = extract_one_counters [OF one] and rows = extract_one_rows [OF one]
    note run = "1.prems"(1) [unfolded extract_loop_step [where env = env and i = i, OF False one]]
    show ?thesis
    proof (cases "a = Stored")
      case True
      with run have "extract_loop mm mem base env (Suc i) attestator_id nonce_length wanted (one_extracted S1) = Inr S'"
        by simp
      from "1.IH"(1) [OF False one, simplified, OF True this] True False "1.prems" c rows show ?thesis
        by (fastforce simp: one_extracted_def)
    next
      case failed: False
      then have a: "a = Failed" using rows "1.prems"(2) by (cases a) auto
      let ?S = "count_error a S1"
      show ?thesis
      proof (cases "EXTRACTOR_MAX_ERROR_ALLOWED \<le> ex_errors ?S")
        case True
        then show ?thesis using run failed a c rows "1.prems"(3)
          by (auto simp: count_error_def)
      next
        case goes: False
        with run failed have "extract_loop mm mem base env (Suc i) attestator_id nonce_length wanted
            (one_extracted ?S) = Inr S'" by simp
        from "1.IH"(2) [OF False one, simplified, OF failed refl goes this] "1.prems"(2) a goes False c rows show ?thesis
          by (fastforce simp: one_extracted_def count_error_def)
      qed
    qed
  qed
qed

section \<open>What is stored\<close>

text \<open>The prepared data of earlier nonces stays in the table; no version of the decoder reads it.\<close>

definition with_prepared :: "ra_table \<Rightarrow> u8 list option \<Rightarrow> u32 \<Rightarrow> ra_table" where
  "with_prepared t d n = t\<lparr>prepared_data := d, prepared_data_size := n\<rparr>"

lemma with_prepared_fields [simp]:
  "table_areas (with_prepared t d n) = table_areas t"
  "memory_areas_count (with_prepared t d n) = memory_areas_count t"
  "current_nonce (with_prepared t d n) = current_nonce t"
  "current_nonce_size (with_prepared t d n) = current_nonce_size t"
  "prepared_data (with_prepared t d n) = d"
  "prepared_data_size (with_prepared t d n) = n"
  by (simp_all add: with_prepared_def)

lemma with_prepared_fold:
  "t\<lparr>prepared_data := d, prepared_data_size := n\<rparr> = with_prepared t d n"
  "with_prepared (with_prepared t d n) d' n' = with_prepared t d' n'"
  by (simp_all add: with_prepared_def)

lemma with_prepared_inject: "with_prepared t d n = with_prepared t d' n' \<longleftrightarrow> d = d' \<and> n = n'"
  by (metis with_prepared_fields(5, 6))

lemma built_ignores_prepared:
  assumes "decode \<in> built_versions is_prime"
  shows "decode (with_prepared t d n) ret = decode t ret"
proof -
  have index: "nonce_label_index (with_prepared t d n) = nonce_label_index t"
    by (simp add: nonce_label_index_def ra_get_current_nonce_reference_def ra_get_current_nonce_size_def
        ra_get_memory_areas_count_def)
  have area: "ra_get_memory_area (with_prepared t d n) l = ra_get_memory_area t l" for l
    by (simp add: ra_get_memory_area_def)
  have labels: "ra_get_labels_list (with_prepared t d n) ls = ra_get_labels_list t ls" for ls
    by (simp add: ra_get_labels_list_def split: option.split)
  have a: "decode_area ok (with_prepared t d n) = decode_area ok t" for ok
    by (cases ok) (simp_all add: decode_area_def index area labels ra_get_memory_areas_count_def)
  have w: "nonce_word (with_prepared t d n) = nonce_word t"
    by (simp add: nonce_word_def ra_get_current_nonce_reference_def fun_eq_iff)
  have "decode_nonce_1 p b m (with_prepared t d n) ret = decode_nonce_1 p b m t ret"
    and "decode_nonce_2 p b m (with_prepared t d n) ret = decode_nonce_2 p b m t ret"
    and "decode_nonce_3 p b m (with_prepared t d n) ret = decode_nonce_3 p b m t ret"
    and "decode_nonce_4 p b m (with_prepared t d n) ret = decode_nonce_4 p b m t ret" for p b m
    unfolding decode_nonce_1_def decode_nonce_2_def decode_nonce_3_def decode_nonce_4_def a w by (rule refl)+
  then show ?thesis
    using assms by (auto simp: built_versions_def)
qed

lemma prepare_over_prepared:
  assumes "decode \<in> built_versions is_prime" and "walks_selected decode mm t ars nonce info"
    and "current_nonce t \<noteq> None" and "current_nonce_size t \<noteq> 0"
  shows "ra_prepare_data decode mm mem base garbage tmp True True (with_prepared t d n) =
     Inr (with_prepared t (Some (walked_bytes info (selected_code mem base t ars nonce))) (info_actual_size info),
          RA_SUCCESS)"
proof -
  have area: "ra_get_memory_area (with_prepared t d n) l = ra_get_memory_area t l" for l
    by (simp add: ra_get_memory_area_def)
  have info: "decode t garbage = Inr (info, RA_SUCCESS)" "decode (with_prepared t d n) garbage = Inr (info, RA_SUCCESS)"
    using assms(1, 2) by (simp_all add: walks_selected_def built_ignores_prepared)
  have "ra_prepare_data decode mm mem base garbage tmp True True t =
      Inr (with_prepared t (Some (walked_bytes info (selected_code mem base t ars nonce))) (info_actual_size info), RA_SUCCESS)"
    using assms(2) by (simp add: walks_selected_def with_prepared_fold)
  then show ?thesis
    using info assms(3, 4)
    by (auto simp: ra_prepare_data_def ra_get_current_nonce_reference_def ra_get_current_nonce_size_def
        area ra_set_prepared_data_def Let_def bind_run_Inr_iff with_prepared_fold with_prepared_inject
        split: option.splits if_splits)
qed

text \<open>A row that holds what the selected code of the image prepares to under its nonce.\<close>

definition row_prepared ::
  "decoder \<Rightarrow> mod_mul \<Rightarrow> memory \<Rightarrow> u64 \<Rightarrow> ra_table \<Rightarrow> memory_area list \<Rightarrow> u64 \<Rightarrow> prepared_row \<Rightarrow> bool" where
  "row_prepared decode mm mem base t ars attestator_id row \<longleftrightarrow>
     (let tn = with_nonce t (pd_nonce row) in
      \<exists>info. walks_selected decode mm tn ars (pd_nonce row) info
        \<and> pd_data row = walked_bytes info (selected_code mem base tn ars (pd_nonce row))
        \<and> pd_area row = info_label info \<and> pd_attestator row = attestator_id)"

text \<open>Attempts whose allocations succeed and whose random generator delivers.\<close>

definition attempt_ok :: "decoder \<Rightarrow> u32 \<Rightarrow> attempt_env \<Rightarrow> bool" where
  "attempt_ok decode nonce_length e \<longleftrightarrow>
     fst (xe_rand e) = 1 \<and> length (snd (xe_rand e)) = unat nonce_length
     \<and> xe_nonce_ok e \<and> xe_walk_ok e \<and> xe_data_ok e \<and> xe_store_ok e \<and> xe_query_ok e
     \<and> xe_decode e = decode \<and> xe_label_decode e = decode"

text \<open>Attempts that may fail, but run: the generator delivers or reports its failure with 0, and memory
  suffices for the nonce and the preparation and for the text of the statement. The buffers for the escaped
  texts and the statement itself may fail.\<close>

definition attempt_runs :: "decoder \<Rightarrow> u32 \<Rightarrow> attempt_env \<Rightarrow> bool" where
  "attempt_runs decode nonce_length e \<longleftrightarrow>
     (fst (xe_rand e) = 0 \<or> fst (xe_rand e) = 1 \<and> length (snd (xe_rand e)) = unat nonce_length)
     \<and> xe_nonce_ok e \<and> xe_walk_ok e \<and> xe_data_ok e \<and> xe_query_ok e
     \<and> xe_decode e = decode \<and> xe_label_decode e = decode"

lemma attempt_ok_runs: "attempt_ok decode n e \<longleftrightarrow> attempt_runs decode n e \<and> fst (xe_rand e) = 1 \<and> xe_store_ok e"
  by (auto simp: attempt_ok_def attempt_runs_def)

definition extractor_ready :: "ra_table \<Rightarrow> memory_area list \<Rightarrow> u32 \<Rightarrow> bool" where
  "extractor_ready t ars nonce_length \<longleftrightarrow>
     2 * unat nonce_length + 1 < 2 ^ 32
     \<and> (\<forall>a\<in>set ars. 2 * unat (area_total_size a) + 1 < 2 ^ 32)
     \<and> (\<forall>nonce. length nonce = unat nonce_length \<longrightarrow> decodable (with_nonce t nonce) ars nonce 3)"

lemma unat_double: "2 * unat w + 1 < 2 ^ 32 \<Longrightarrow> unat (w * 2 + 1 :: u32) = 2 * unat w + 1"
  by (simp add: unat_word_ariths mult.commute)

lemma escaped_ok:
  "length bs = unat w \<Longrightarrow> 2 * unat w + 1 < 2 ^ 32 \<Longrightarrow>
   escaped (unat (w * 2 + 1 :: u32)) (Some bs) (unat w) = Inr bs"
  by (auto simp: escaped_def unat_double read_at_def)

lemma walks_selected_unique:
  "walks_selected decode mm t ars nonce i \<Longrightarrow> walks_selected decode mm t ars nonce j \<Longrightarrow> i = j"
  by (simp add: walks_selected_def)

text \<open>The states of an extraction from the table \<open>t\<close>.\<close>

definition extracting :: "ra_table \<Rightarrow> u32 \<Rightarrow> extraction \<Rightarrow> bool" where
  "extracting t nonce_length S \<longleftrightarrow> length (ex_nonce S) = unat nonce_length
     \<and> (\<exists>b k d n. ex_table S = with_prepared (t\<lparr>current_nonce := b, current_nonce_size := k\<rparr>) d n)"

lemma extracting_start:
  assumes "ex_table S = t" and "length (ex_nonce S) = unat nonce_length"
  shows "extracting t nonce_length S"
proof -
  have "t = with_prepared (t\<lparr>current_nonce := current_nonce t, current_nonce_size := current_nonce_size t\<rparr>)
      (prepared_data t) (prepared_data_size t)"
    by (simp add: with_prepared_def)
  with assms show ?thesis unfolding extracting_def by blast
qed

lemma set_nonce_extracting:
  assumes "extracting t nonce_length S" and "length nonce = unat nonce_length"
  obtains d n where "ra_set_current_nonce True (ex_table S) nonce nonce_length
    = Inr (with_prepared (with_nonce t nonce) d n, RA_SUCCESS)"
proof -
  obtain b k d n where t: "ex_table S = with_prepared (t\<lparr>current_nonce := b, current_nonce_size := k\<rparr>) d n"
    using assms(1) by (auto simp: extracting_def)
  have "ra_set_current_nonce True (ex_table S) nonce nonce_length
      = Inr (with_prepared (with_nonce t nonce) d n, RA_SUCCESS)"
    using assms(2) by (simp add: t ra_set_current_nonce_def Let_def read_at_def with_nonce_def with_prepared_def)
  then show thesis by (rule that)
qed

lemma extract_one_runs:
  assumes "prime_test_exact is_prime" and "mod_mul_exact mm" and "decode \<in> built_versions is_prime"
    and "extractor_ready t ars nonce_length" and "attempt_runs decode nonce_length e" and "extracting t nonce_length S"
    and "fst (xe_rand e) = 1"
  obtains nonce info S2 where "length nonce = unat nonce_length"
    and "walks_selected decode mm (with_nonce t nonce) ars nonce info" and "ex_db S2 = ex_db S"
    and "\<And>T. extracting t nonce_length (S2\<lparr>ex_db := T\<rparr>)"
    and "extract_one mm mem base e attestator_id nonce_length S
      = (case (if xe_store_ok e \<and> xe_insert_ok e
               then insert_data (ex_db S) attestator_id nonce
                      (walked_bytes info (selected_code mem base (with_nonce t nonce) ars nonce)) (info_label info)
               else None) of
           None \<Rightarrow> Inr (Failed, S2) | Some T \<Rightarrow> Inr (Stored, S2\<lparr>ex_db := T\<rparr>))"
proof -
  define nonce where "nonce = snd (xe_rand e)"
  have len: "length nonce = unat nonce_length" "length (ex_nonce S) = unat nonce_length"
    using assms(5-7) by (simp_all add: attempt_runs_def extracting_def nonce_def)
  have rand: "random_generate_nonce (xe_rand e) (ex_nonce S) = Inr (nonce, RA_SUCCESS)"
    using assms(7) len by (simp add: random_generate_nonce_def write_at_def nonce_def)
  obtain d n where set: "ra_set_current_nonce True (ex_table S) nonce nonce_length
      = Inr (with_prepared (with_nonce t nonce) d n, RA_SUCCESS)"
    using set_nonce_extracting [OF assms(6) len(1)] .
  let ?tn = "with_nonce t nonce"
  have dec: "decodable ?tn ars nonce 3" using assms(4) len by (simp add: extractor_ready_def)
  obtain info where w: "walks_selected decode mm ?tn ars nonce info"
    using prepare_any_version [OF assms(1, 2) dec assms(3)] by blast
  let ?data = "walked_bytes info (selected_code mem base ?tn ars nonce)"
  let ?t2 = "with_prepared ?tn (Some ?data) (info_actual_size info)"
  have nz: "current_nonce ?tn \<noteq> None" "current_nonce_size ?tn \<noteq> 0"
    using dec by (auto simp: decodable_def nonce_in_def)
  have prep: "ra_prepare_data decode mm mem base g tmp True True (with_prepared ?tn d n) = Inr (?t2, RA_SUCCESS)" for g tmp
    by (rule prepare_over_prepared [OF assms(3) w nz])
  have label: "decode ?t2 g = Inr (info, RA_SUCCESS)" for g
    using w by (simp add: built_ignores_prepared [OF assms(3)] walks_selected_def)
  have "ars \<noteq> []" using dec by (simp add: decodable_def)
  then have "2 * unat (area_total_size (selected_area ?tn ars nonce)) + 1 < 2 ^ 32"
    using assms(4) selected_area_in [of ars ?tn nonce] by (simp add: extractor_ready_def)
  then have size: "2 * unat (info_actual_size info) + 1 < 2 ^ 32"
    using w by (auto simp: walks_selected_def info_in_bounds_def)
  have esc: "escaped (unat (nonce_length * 2 + 1)) (Some nonce) (unat nonce_length) = Inr nonce"
    "escaped (unat (info_actual_size info * 2 + 1)) (Some ?data) (unat (info_actual_size info)) = Inr ?data"
    using assms(4) len size by (simp_all add: escaped_ok extractor_ready_def walked_bytes_def)
  let ?S2 = "S\<lparr>ex_nonce := nonce, ex_table := ?t2\<rparr>"
  let ?ins = "if xe_store_ok e \<and> xe_insert_ok e then insert_data (ex_db S) attestator_id nonce ?data (info_label info) else None"
  have one: "extract_one mm mem base e attestator_id nonce_length S
      = (case ?ins of None \<Rightarrow> Inr (Failed, ?S2) | Some T \<Rightarrow> Inr (Stored, ?S2\<lparr>ex_db := T\<rparr>))"
    using assms(5) rand set prep label esc
    by (cases "xe_store_ok e") (simp_all add: extract_one_def attempt_runs_def ra_get_prepared_data_size_def ra_get_prepared_data_reference_def Let_def)
  have ex: "extracting t nonce_length (?S2\<lparr>ex_db := T\<rparr>)" for T
    using len by (auto simp: extracting_def with_nonce_def)
  show thesis
    by (rule that [OF len(1) w _ ex one]) simp
qed

lemma extract_one_ok:
  assumes "prime_test_exact is_prime" and "mod_mul_exact mm" and "decode \<in> built_versions is_prime"
    and "extractor_ready t ars nonce_length" and "attempt_runs decode nonce_length e" and "extracting t nonce_length S"
  obtains a S' where "extract_one mm mem base e attestator_id nonce_length S = Inr (a, S')"
    and "extracting t nonce_length S'" and "a \<noteq> Failed_Counted" and "a \<noteq> Stored \<Longrightarrow> ex_db S' = ex_db S"
    and "a = Stored \<Longrightarrow> \<exists>row. prepared (ex_db S') = prepared (ex_db S) @ [row]
      \<and> row_prepared decode mm mem base t ars attestator_id row"
proof (cases "fst (xe_rand e) = 1")
  case False
  then have "fst (xe_rand e) = 0" using assms(5) by (simp add: attempt_runs_def)
  then have "extract_one mm mem base e attestator_id nonce_length S = Inr (Failed, S)"
    by (simp add: extract_one_def random_generate_nonce_def)
  then show thesis by (rule that) (use assms(6) in simp_all)
next
  case rand: True
  obtain nonce info S2 where w: "walks_selected decode mm (with_nonce t nonce) ars nonce info"
    and db: "ex_db S2 = ex_db S" and ex: "\<And>T. extracting t nonce_length (S2\<lparr>ex_db := T\<rparr>)"
    and one: "extract_one mm mem base e attestator_id nonce_length S
      = (case (if xe_store_ok e \<and> xe_insert_ok e
               then insert_data (ex_db S) attestator_id nonce
                      (walked_bytes info (selected_code mem base (with_nonce t nonce) ars nonce)) (info_label info)
               else None) of
           None \<Rightarrow> Inr (Failed, S2) | Some T \<Rightarrow> Inr (Stored, S2\<lparr>ex_db := T\<rparr>))"
    using extract_one_runs [OF assms rand, of mem base attestator_id] by metis
  let ?data = "walked_bytes info (selected_code mem base (with_nonce t nonce) ars nonce)"
  let ?ins = "if xe_store_ok e \<and> xe_insert_ok e then insert_data (ex_db S) attestator_id nonce ?data (info_label info) else None"
  show thesis
  proof (cases ?ins)
    case None
    have "S2\<lparr>ex_db := ex_db S2\<rparr> = S2" by simp
    then have "extracting t nonce_length S2" using ex [of "ex_db S2"] by metis
    then show thesis using that [of Failed S2] one None db by simp
  next
    case (Some T)
    have "row_prepared decode mm mem base t ars attestator_id
        \<lparr>pd_id = of_nat (next_prepared (ex_db S)), pd_attestator = attestator_id, pd_nonce = nonce,
         pd_data = ?data, pd_area = info_label info\<rparr>"
      using w by (auto simp: row_prepared_def Let_def)
    moreover have "insert_data (ex_db S) attestator_id nonce ?data (info_label info) = Some T"
      using Some by (simp split: if_splits)
    note insert_data_appends [OF this]
    ultimately show thesis using that [of Stored "S2\<lparr>ex_db := T\<rparr>"] one Some ex [of T] by auto
  qed
qed

lemma extracting_counted [simp]:
  "extracting t n (one_extracted S) = extracting t n S" "extracting t n (count_error a S) = extracting t n S"
  by (simp_all add: extracting_def one_extracted_def count_error_def)

lemma extract_loop_prepared:
  assumes "prime_test_exact is_prime" and "mod_mul_exact mm" and "decode \<in> built_versions is_prime"
    and "extractor_ready t ars nonce_length" and "\<forall>j. attempt_runs decode nonce_length (env j)"
    and "extracting t nonce_length S"
  shows "\<exists>S' rows. extract_loop mm mem base env i attestator_id nonce_length wanted S = Inr S'
     \<and> prepared (ex_db S') = prepared (ex_db S) @ rows
     \<and> (\<forall>row\<in>set rows. row_prepared decode mm mem base t ars attestator_id row)"
  using assms
proof (induction mm mem base env i attestator_id nonce_length wanted S rule: extract_loop.induct)
  case (1 mm mem base env i attestator_id nonce_length wanted S)
  show ?case
  proof (cases "wanted \<le> ex_extracted S")
    case True
    then show ?thesis by (auto simp: extract_loop_done)
  next
    case False
    obtain a S1 where one: "extract_one mm mem base (env i) attestator_id nonce_length S = Inr (a, S1)"
      and ex: "extracting t nonce_length S1" and kept: "a \<noteq> Stored \<Longrightarrow> ex_db S1 = ex_db S"
      and row: "a = Stored \<Longrightarrow> \<exists>row. prepared (ex_db S1) = prepared (ex_db S) @ [row]
        \<and> row_prepared decode mm mem base t ars attestator_id row"
      using extract_one_ok [OF "1.prems"(1-4) spec [OF "1.prems"(5), of i] "1.prems"(6), of mem base attestator_id]
      by metis
    note step = extract_loop_step [where env = env and i = i, OF False one]
    show ?thesis
    proof (cases "a = Stored")
      case True
      then obtain row where row: "prepared (ex_db S1) = prepared (ex_db S) @ [row]"
        "row_prepared decode mm mem base t ars attestator_id row" using row by blast
      from "1.IH"(1) [OF False one, simplified, OF True "1.prems"(1-5) ex]
      obtain S' rows where "extract_loop mm mem base env (Suc i) attestator_id nonce_length wanted (one_extracted S1) = Inr S'"
        and "prepared (ex_db S') = prepared (ex_db S1) @ rows"
        and "\<forall>row\<in>set rows. row_prepared decode mm mem base t ars attestator_id row"
        by (auto simp: one_extracted_def)
      then show ?thesis using step True row by (intro exI [of _ S'] exI [of _ "row # rows"]) simp
    next
      case failed: False
      show ?thesis
      proof (cases "EXTRACTOR_MAX_ERROR_ALLOWED \<le> ex_errors (count_error a S1)")
        case True
        then show ?thesis using step failed kept by (auto simp: count_error_def)
      next
        case goes: False
        from ex have ex': "extracting t nonce_length (count_error a S1)" by simp
        from "1.IH"(2) [OF False one, simplified, OF failed refl goes "1.prems"(1-5) ex']
        show ?thesis using step failed goes kept by (auto simp: one_extracted_def count_error_def)
      qed
    qed
  qed
qed

section \<open>Extraction delivers\<close>

lemma select_unused_snoc:
  assumes "distinct (map att_id (attestators T))" and "a \<in> set (map att_id (attestators T))"
    and "pd_attestator p = a" and "pd_id p \<notin> set (map rq_prepared (requests T))"
    and "prepared T' = prepared T @ [p]" and "attestators T' = attestators T" and "requests T' = requests T"
  shows "select_unused T' a = select_unused T a @ [p]"
proof -
  have one: "map (\<lambda>_. p) (filter (\<lambda>x. att_id x = a) xs) = [p]"
    if "distinct (map att_id xs)" "a \<in> set (map att_id xs)" for xs
    using that
  proof (induction xs)
    case (Cons x xs)
    then show ?case
      by (cases "att_id x = a") (force simp: filter_empty_conv image_iff)+
  qed simp
  have "[p. x \<leftarrow> attestators T, att_id x = a \<and> att_id x = pd_attestator p \<and> pd_id p \<notin> set (map rq_prepared (requests T))] = [p]"
    unfolding concat_map_guard using one [OF assms(1, 2)] assms(3, 4) by (simp cong: filter_cong)
  then show ?thesis
    using assms(5-7) by (simp add: select_unused_def)
qed

lemma insert_data_unused:
  assumes "db_ok T" and "insert_data T a n d m = Some T'"
  shows "length (select_unused T' a) = Suc (length (select_unused T a))"
    and "db_ok T'" and "next_prepared T' = Suc (next_prepared T)" and "attestators T' = attestators T"
proof -
  have ins: "a \<in> set (map att_id (attestators T))" "next_prepared T < 2 ^ 64"
    "T' = T\<lparr>prepared := prepared T @ [\<lparr>pd_id = of_nat (next_prepared T), pd_attestator = a, pd_nonce = n,
       pd_data = d, pd_area = m\<rparr>], next_prepared := Suc (next_prepared T)\<rparr>"
    using assms(2) by (auto simp: insert_data_def split: if_splits)
  have keys: "db_keys T" using assms(1) by (simp add: db_ok_def)
  then have "of_nat (next_prepared T) \<notin> set (map rq_prepared (requests T))"
    using keys_below_fresh [of "map pd_id (prepared T)" "next_prepared T"] ins(2)
    unfolding db_keys_iff by blast
  then have "select_unused T' a = select_unused T a @ [\<lparr>pd_id = of_nat (next_prepared T), pd_attestator = a,
      pd_nonce = n, pd_data = d, pd_area = m\<rparr>]"
    using keys ins by (intro select_unused_snoc) (simp_all add: db_keys_def)
  then show "length (select_unused T' a) = Suc (length (select_unused T a))" by simp
  show "db_ok T'" using insert_data_ok assms by blast
  show "next_prepared T' = Suc (next_prepared T)" "attestators T' = attestators T"
    using ins(3) by simp_all
qed

text \<open>A table that takes all the rows wanted: the foreign key has its target, the nonce fits its
  column, and the counter does not run out.\<close>

definition takes_rows :: "tables \<Rightarrow> u64 \<Rightarrow> u32 \<Rightarrow> int \<Rightarrow> bool" where
  "takes_rows T attestator_id nonce_length k \<longleftrightarrow>
     db_ok T \<and> attestator_id \<in> set (map att_id (attestators T)) \<and> unat nonce_length < 2 ^ 8
     \<and> int (next_prepared T) + k \<le> 2 ^ 64"

lemma extract_one_stores:
  assumes "prime_test_exact is_prime" and "mod_mul_exact mm" and "decode \<in> built_versions is_prime"
    and "extractor_ready t ars nonce_length" and "attempt_ok decode nonce_length e" and "extracting t nonce_length S"
    and "xe_insert_ok e" and "takes_rows (ex_db S) attestator_id nonce_length k" and "0 < k"
  obtains S' where "extract_one mm mem base e attestator_id nonce_length S = Inr (Stored, S')"
    and "extracting t nonce_length S'" and "takes_rows (ex_db S') attestator_id nonce_length (k - 1)"
    and "length (select_unused (ex_db S') attestator_id) = Suc (length (select_unused (ex_db S) attestator_id))"
proof -
  have ok: "attempt_runs decode nonce_length e" "fst (xe_rand e) = 1" "xe_store_ok e"
    using assms(5) by (simp_all add: attempt_ok_runs)
  obtain nonce info S2 where len: "length nonce = unat nonce_length"
    and ex: "\<And>T. extracting t nonce_length (S2\<lparr>ex_db := T\<rparr>)"
    and one: "extract_one mm mem base e attestator_id nonce_length S
      = (case (if xe_store_ok e \<and> xe_insert_ok e
               then insert_data (ex_db S) attestator_id nonce
                      (walked_bytes info (selected_code mem base (with_nonce t nonce) ars nonce)) (info_label info)
               else None) of
           None \<Rightarrow> Inr (Failed, S2) | Some T \<Rightarrow> Inr (Stored, S2\<lparr>ex_db := T\<rparr>))"
    using extract_one_runs [OF assms(1-4) ok(1) assms(6) ok(2), of mem base attestator_id] by metis
  let ?data = "walked_bytes info (selected_code mem base (with_nonce t nonce) ars nonce)"
  have db: "db_ok (ex_db S)" using assms(8) by (simp add: takes_rows_def)
  obtain T where T: "insert_data (ex_db S) attestator_id nonce ?data (info_label info) = Some T"
    using assms(8, 9) len by (auto simp: takes_rows_def insert_data_def)
  note new = insert_data_unused [OF db T]
  have "takes_rows T attestator_id nonce_length (k - 1)"
    using assms(8) new by (simp add: takes_rows_def)
  then show thesis
    using that [of "S2\<lparr>ex_db := T\<rparr>"] one T assms(7) ok(3) ex new by simp
qed

lemma extract_loop_delivers:
  assumes "prime_test_exact is_prime" and "mod_mul_exact mm" and "decode \<in> built_versions is_prime"
    and "extractor_ready t ars nonce_length" and "\<forall>j. attempt_ok decode nonce_length (env j) \<and> xe_insert_ok (env j)"
    and "extracting t nonce_length S" and "takes_rows (ex_db S) attestator_id nonce_length (wanted - ex_extracted S)"
    and "ex_extracted S \<le> wanted"
  shows "\<exists>S'. extract_loop mm mem base env i attestator_id nonce_length wanted S = Inr S'
     \<and> ex_errors S' = ex_errors S \<and> ex_extracted S' = wanted \<and> db_ok (ex_db S')
     \<and> int (length (select_unused (ex_db S') attestator_id))
         = int (length (select_unused (ex_db S) attestator_id)) + (wanted - ex_extracted S)"
  using assms(6-8)
proof (induction "nat (wanted - ex_extracted S)" arbitrary: S i)
  case 0
  then show ?case by (auto simp: extract_loop_done takes_rows_def)
next
  case (Suc k)
  then have more: "\<not> wanted \<le> ex_extracted S" by simp
  then have pos: "0 < wanted - ex_extracted S" by simp
  obtain S1 where one: "extract_one mm mem base (env i) attestator_id nonce_length S = Inr (Stored, S1)"
    and ex: "extracting t nonce_length S1"
    and takes: "takes_rows (ex_db S1) attestator_id nonce_length (wanted - ex_extracted S - 1)"
    and new: "length (select_unused (ex_db S1) attestator_id) = Suc (length (select_unused (ex_db S) attestator_id))"
    using extract_one_stores [OF assms(1-4) _ Suc.prems(1) _ Suc.prems(2) pos, of "env i" mem base] assms(5)
    by metis
  note c = extract_one_counters [OF one]
  let ?S = "one_extracted S1"
  have "k = nat (wanted - ex_extracted ?S)" "ex_extracted ?S \<le> wanted"
    "takes_rows (ex_db ?S) attestator_id nonce_length (wanted - ex_extracted ?S)"
    using Suc.hyps(2) takes more c by (simp_all add: one_extracted_def algebra_simps)
  from Suc.hyps(1) [OF this(1) _ this(3, 2), of "i + 1"] ex
  obtain S' where "extract_loop mm mem base env (i + 1) attestator_id nonce_length wanted ?S = Inr S'"
    and "ex_errors S' = ex_errors ?S \<and> ex_extracted S' = wanted \<and> db_ok (ex_db S')
     \<and> int (length (select_unused (ex_db S') attestator_id))
         = int (length (select_unused (ex_db ?S) attestator_id)) + (wanted - ex_extracted ?S)"
    by auto
  then show ?case
    using extract_loop_step [where env = env and i = i, OF more one] c new by (simp add: one_extracted_def)
qed

section \<open>The tables of a whole run\<close>

text \<open>What every attempt keeps and the counters do not touch holds at the end of the loop.\<close>

lemma extract_loop_invariant:
  assumes "extract_loop mm mem base env i attestator_id nonce_length wanted S = Inr S'" and "P S"
    and "\<And>j S a S'. P S \<Longrightarrow> extract_one mm mem base (env j) attestator_id nonce_length S = Inr (a, S') \<Longrightarrow> P S'"
    and "\<And>S. P S \<Longrightarrow> P (one_extracted S)" and "\<And>S a. P S \<Longrightarrow> P (count_error a S)"
  shows "P S'"
  using assms
proof (induction mm mem base env i attestator_id nonce_length wanted S rule: extract_loop.induct)
  case (1 mm mem base env i attestator_id nonce_length wanted S)
  show ?case
  proof (cases "wanted \<le> ex_extracted S")
    case True
    then show ?thesis using "1.prems"(1, 2) by (simp add: extract_loop_done)
  next
    case False
    then obtain a S1 where one: "extract_one mm mem base (env i) attestator_id nonce_length S = Inr (a, S1)"
      using "1.prems"(1) by (rule extract_loop_runs)
    have S1: "P S1" using "1.prems"(2) one by (rule "1.prems"(3))
    note run = "1.prems"(1) [unfolded extract_loop_step [where env = env and i = i, OF False one]]
    show ?thesis
    proof (cases "a = Stored")
      case True
      with run have "extract_loop mm mem base env (Suc i) attestator_id nonce_length wanted (one_extracted S1) = Inr S'"
        by simp
      from "1.IH"(1) [OF False one, simplified, OF True this] S1 "1.prems"(3-5) show ?thesis by blast
    next
      case failed: False
      show ?thesis
      proof (cases "EXTRACTOR_MAX_ERROR_ALLOWED \<le> ex_errors (count_error a S1)")
        case True
        then show ?thesis using run failed S1 "1.prems"(5) by auto
      next
        case goes: False
        with run failed have "extract_loop mm mem base env (Suc i) attestator_id nonce_length wanted
            (one_extracted (count_error a S1)) = Inr S'" by simp
        from "1.IH"(2) [OF False one, simplified, OF failed refl goes this] S1 "1.prems"(3-5) show ?thesis by blast
      qed
    qed
  qed
qed

definition only_adds :: "u64 \<Rightarrow> tables \<Rightarrow> tables \<Rightarrow> bool" where
  "only_adds attestator_id T T' \<longleftrightarrow>
     (\<exists>rows. T' = T\<lparr>prepared := prepared T @ rows, next_prepared := next_prepared T + length rows\<rparr>
        \<and> (\<forall>row\<in>set rows. pd_attestator row = attestator_id \<and> length (pd_nonce row) < 2 ^ 8))"

lemma only_adds_refl [simp]: "only_adds a T T"
  by (auto simp: only_adds_def intro: exI [of _ "[]"])

lemma only_adds_insert:
  assumes "only_adds a T T1" and "insert_data T1 a n d m = Some T2"
  shows "only_adds a T T2"
proof -
  obtain rows where "T1 = T\<lparr>prepared := prepared T @ rows, next_prepared := next_prepared T + length rows\<rparr>"
    and "\<forall>row\<in>set rows. pd_attestator row = a \<and> length (pd_nonce row) < 2 ^ 8"
    using assms(1) by (auto simp: only_adds_def)
  then show ?thesis
    using assms(2) unfolding only_adds_def
    by (intro exI [of _ "rows @ [\<lparr>pd_id = of_nat (next_prepared T1), pd_attestator = a, pd_nonce = n,
        pd_data = d, pd_area = m\<rparr>]"]) (auto simp: insert_data_def split: if_splits)
qed

lemma extract_one_only_adds:
  "only_adds a T (ex_db S) \<Longrightarrow> extract_one mm mem base e a nonce_length S = Inr (o', S') \<Longrightarrow> only_adds a T (ex_db S')"
  by (auto simp: extract_one_def bind_run_Inr_iff Let_def split: if_splits option.splits) (blast intro: only_adds_insert)+

lemma extract_loop_only_adds:
  assumes "extract_loop mm mem base env i a nonce_length wanted S = Inr S'"
  shows "only_adds a (ex_db S) (ex_db S')"
  using assms
  by (rule extract_loop_invariant [where P = "\<lambda>S'. only_adds a (ex_db S) (ex_db S')"])
    (auto simp: one_extracted_def count_error_def intro: extract_one_only_adds)

section \<open>Properties\<close>

text \<open>A concrete extractor: the sample table, eight-byte nonces, one attempt repeated.\<close>

definition sample_attempt :: attempt_env where
  "sample_attempt = \<lparr>xe_rand = (1, sample_nonce), xe_nonce_ok = True, xe_decode = decode_nonce_1 exact_test True True,
     xe_prepare_info = blank_info, xe_tmp = (\<lambda>_. 0), xe_walk_ok = True, xe_data_ok = True, xe_store_ok = True,
     xe_query_ok = True, xe_label_decode = decode_nonce_1 exact_test True True, xe_info = blank_info,
     xe_insert_ok = True\<rparr>"

definition sample_extraction :: extraction where
  "sample_extraction = \<lparr>ex_table = sample_table, ex_nonce = replicate 8 0, ex_db = sample_tables [1, 2] [3],
     ex_extracted = 0, ex_errors = 0\<rparr>"

lemma sample_attempt_ok [simp]: "attempt_ok (decode_nonce_1 exact_test True True) 8 sample_attempt"
  by (simp add: attempt_ok_def sample_attempt_def sample_nonce_def)

lemma sample_attempt_fields [simp]: "xe_insert_ok sample_attempt" "xe_nonce_ok sample_attempt"
  by (simp_all add: sample_attempt_def)

lemma sample_built [simp]: "decode_nonce_1 exact_test True True \<in> built_versions exact_test"
  by (simp add: built_versions_def)

lemma sample_extracting [simp]: "extracting sample_table 8 sample_extraction"
  by (rule extracting_start) (simp_all add: sample_extraction_def)

lemma table_ok_with_nonce:
  "table_ok t ars \<Longrightarrow> length nonce < 2 ^ 32 \<Longrightarrow> table_ok (with_nonce t nonce) ars"
  by (simp add: table_ok_def with_nonce_def unat_of_nat_u32)

lemma sample_extractor_ready [simp]: "extractor_ready sample_table [sample_area] 8"
proof -
  have "decodable (with_nonce sample_table nonce) [sample_area] nonce 3" if "length nonce = 8" for nonce
    using that table_ok_with_nonce [OF sample_table_ok, of nonce]
    by (simp add: decodable_def nonce_in_def selected_area_def unat_of_nat_u32) (simp add: with_nonce_def unat_of_nat_u32)
  then show ?thesis by (simp add: extractor_ready_def)
qed

text \<open>C5: What an extraction stores, when \<^verbatim>\<open>RAND_bytes\<close> delivers or fails with 0 and memory suffices for the
  nonce, the preparation and the text of the statement: whatever becomes of random numbers, buffers for the
  escaped texts and INSERT statements, it does not fault and ends, either with the number of rows wanted,
  or after twenty errors, when the number it prints is one below the number of rows. Every row it adds holds
  the random nonce, the label and the bytes that the area selected by the nonce prepares to in the image of
  the executable. (What the other allocations do when they fail is in \<^theory_text>\<open>extraction_counts_unset_nonces\<close>
  and \<^theory_text>\<open>extraction_stores_stale_data\<close>.)\<close>

theorem extraction_stores_prepared_data:
  assumes "prime_test_exact is_prime" and "mod_mul_exact mm" and "decode \<in> built_versions is_prime"
    and "extractor_ready t ars nonce_length" and "\<forall>j. attempt_runs decode nonce_length (env j)"
    and "extracting t nonce_length S" and "ex_extracted S = 0" and "ex_errors S = 0" and "0 \<le> wanted"
  shows "\<exists>S' rows. extract_loop mm mem base env 0 attestator_id nonce_length wanted S = Inr S'
     \<and> prepared (ex_db S') = prepared (ex_db S) @ rows
     \<and> (\<forall>row\<in>set rows. row_prepared decode mm mem base t ars attestator_id row)
     \<and> (ex_errors S' < EXTRACTOR_MAX_ERROR_ALLOWED \<and> ex_extracted S' = wanted \<and> int (length rows) = wanted
        \<or> ex_errors S' = EXTRACTOR_MAX_ERROR_ALLOWED \<and> ex_extracted S' = int (length rows) - 1)"
proof -
  obtain S' rows where run: "extract_loop mm mem base env 0 attestator_id nonce_length wanted S = Inr S'"
    and rows: "prepared (ex_db S') = prepared (ex_db S) @ rows"
    and ok: "\<forall>row\<in>set rows. row_prepared decode mm mem base t ars attestator_id row"
    using extract_loop_prepared [OF assms(1-6)] by blast
  have "\<forall>j. xe_nonce_ok (env j)" using assms(5) by (simp add: attempt_runs_def)
  from extract_loop_counts [OF run this] assms(7-9) rows
  have "ex_errors S' < EXTRACTOR_MAX_ERROR_ALLOWED \<and> ex_extracted S' = wanted \<and> int (length rows) = wanted
        \<or> ex_errors S' = EXTRACTOR_MAX_ERROR_ALLOWED \<and> ex_extracted S' = int (length rows) - 1"
    by (auto simp: EXTRACTOR_MAX_ERROR_ALLOWED_def)
  with run rows ok show ?thesis by blast
qed

theorem extraction_stores_prepared_data_witness:
  "\<exists>S' rows. extract_loop exact_mod_mul (\<lambda>x. ucast x) 0
          (\<lambda>i. if i = 0 then sample_attempt\<lparr>xe_rand := (0, [])\<rparr> else sample_attempt) 0 3 8 2 sample_extraction = Inr S'
     \<and> prepared (ex_db S') = prepared (ex_db sample_extraction) @ rows
     \<and> (\<forall>row\<in>set rows. row_prepared (decode_nonce_1 exact_test True True) exact_mod_mul (\<lambda>x. ucast x) 0
          sample_table [sample_area] 3 row)
     \<and> (ex_errors S' < EXTRACTOR_MAX_ERROR_ALLOWED \<and> ex_extracted S' = 2 \<and> int (length rows) = 2
        \<or> ex_errors S' = EXTRACTOR_MAX_ERROR_ALLOWED \<and> ex_extracted S' = int (length rows) - 1)"
proof -
  have "attempt_runs (decode_nonce_1 exact_test True True) 8
      (if i = 0 then sample_attempt\<lparr>xe_rand := (0, [])\<rparr> else sample_attempt)" for i :: nat
    using sample_attempt_ok by (auto simp: attempt_ok_runs attempt_runs_def)
  then show ?thesis
    by (intro extraction_stores_prepared_data [OF exact_test_exact exact_mod_mul_exact sample_built
        sample_extractor_ready _ sample_extracting]) (simp_all add: sample_extraction_def)
qed

text \<open>What the manager waits for happens: an extraction on a reachable database whose tables take
  the rows stores all of them without an error, and as many nonces as were wanted are new and unused,
  so that the next lookup of a nonce for the attestator succeeds.\<close>

theorem extraction_delivers:
  assumes "prime_test_exact is_prime" and "mod_mul_exact mm" and "decode \<in> built_versions is_prime"
    and "extractor_ready t ars nonce_length" and "\<forall>j. attempt_ok decode nonce_length (env j) \<and> xe_insert_ok (env j)"
    and "extracting t nonce_length S" and "ex_extracted S = 0" and "0 < wanted"
    and "takes_rows (ex_db S) attestator_id nonce_length wanted"
    and "int (length (select_unused (ex_db S) attestator_id)) + wanted < 2 ^ 32"
  shows "\<exists>S'. extract_loop mm mem base env 0 attestator_id nonce_length wanted S = Inr S'
     \<and> ex_errors S' = ex_errors S \<and> ex_extracted S' = wanted
     \<and> int (length (select_unused (ex_db S') attestator_id))
         = int (length (select_unused (ex_db S) attestator_id)) + wanted
     \<and> snd (ra_db_get_valid_nonce pick True link_up (ex_db S') attestator_id out) = RA_SUCCESS"
proof -
  obtain S' where run: "extract_loop mm mem base env 0 attestator_id nonce_length wanted S = Inr S'"
    "ex_errors S' = ex_errors S" "ex_extracted S' = wanted"
    and n: "int (length (select_unused (ex_db S') attestator_id))
         = int (length (select_unused (ex_db S) attestator_id)) + wanted"
    using extract_loop_delivers [OF assms(1-6), of attestator_id wanted mem base 0] assms(7-9) by auto
  let ?n = "length (select_unused (ex_db S') attestator_id)"
  have u: "unat (of_nat ?n :: u32) = ?n" using n assms(10) by (simp add: unat_of_nat_u32)
  have "0 < ?n" using n assms(8) by linarith
  with u have "(of_nat ?n :: u32) \<noteq> 0" by (metis less_irrefl unat_0)
  then have "snd (ra_db_get_valid_nonce pick True link_up (ex_db S') attestator_id out) = RA_SUCCESS"
    by (simp add: ra_db_get_valid_nonce_def Let_def)
  with run n show ?thesis by blast
qed

theorem extraction_delivers_witness:
  "\<exists>S'. extract_loop exact_mod_mul (\<lambda>x. ucast x) 0 (\<lambda>_. sample_attempt) 0 3 8 2 sample_extraction = Inr S'
     \<and> ex_errors S' = ex_errors sample_extraction \<and> ex_extracted S' = 2
     \<and> int (length (select_unused (ex_db S') 3)) = int (length (select_unused (ex_db sample_extraction) 3)) + 2
     \<and> snd (ra_db_get_valid_nonce hd True link_up (ex_db S') 3
         \<lparr>vn_prepared_id = 0, vn_nonce = None, vn_size = 0, vn_left = 0, vn_area = 0\<rparr>) = RA_SUCCESS"
proof (rule extraction_delivers [OF exact_test_exact exact_mod_mul_exact sample_built sample_extractor_ready _
      sample_extracting])
  show "takes_rows (ex_db sample_extraction) 3 8 2"
    by (simp add: takes_rows_def sample_extraction_def) (simp add: sample_tables_def)
  show "int (length (select_unused (ex_db sample_extraction) 3)) + 2 < 2 ^ 32"
    by (simp add: sample_extraction_def sample_tables_def select_unused_def)
qed (simp_all add: sample_extraction_def)

text \<open>An attempt whose nonce could not be stored in the table is not taken back: when that
  allocation keeps failing, an extraction of fewer than twenty records reports all of them as
  extracted and ends as successful (its error count is below the limit), with no row stored.\<close>

theorem extraction_counts_unset_nonces:
  assumes "\<forall>j. fst (xe_rand (env j)) = 1 \<and> length (snd (xe_rand (env j))) = length (ex_nonce S) \<and> \<not> xe_nonce_ok (env j)"
    and "ex_extracted S = 0" and "ex_errors S = 0" and "0 \<le> wanted" and "wanted < int EXTRACTOR_MAX_ERROR_ALLOWED"
  shows "\<exists>S'. extract_loop mm mem base env i attestator_id nonce_length wanted S = Inr S'
     \<and> ex_db S' = ex_db S \<and> ex_extracted S' = wanted \<and> int (ex_errors S') = wanted"
proof -
  have "\<exists>S'. extract_loop mm mem base env i attestator_id nonce_length wanted S = Inr S'
      \<and> ex_db S' = ex_db S \<and> ex_extracted S' = wanted \<and> int (ex_errors S') = wanted"
    if "int (ex_errors S) = ex_extracted S" "ex_extracted S \<le> wanted"
      "\<forall>j. fst (xe_rand (env j)) = 1 \<and> length (snd (xe_rand (env j))) = length (ex_nonce S) \<and> \<not> xe_nonce_ok (env j)"
    for i S
    using that
  proof (induction "nat (wanted - ex_extracted S)" arbitrary: S i)
    case 0
    then show ?case by (auto simp: extract_loop_done)
  next
    case (Suc k)
    then have more: "\<not> wanted \<le> ex_extracted S" by simp
    obtain S1 where one: "extract_one mm mem base (env i) attestator_id nonce_length S = Inr (Failed_Counted, S1)"
      and S1: "ex_db S1 = ex_db S" "length (ex_nonce S1) = length (ex_nonce S)"
      using Suc.prems(3)
      by (simp add: extract_one_def random_generate_nonce_def write_at_def ra_set_current_nonce_def Let_def)
    note c = extract_one_counters [OF one]
    let ?S = "one_extracted (count_error Failed_Counted S1)"
    have "\<not> EXTRACTOR_MAX_ERROR_ALLOWED \<le> ex_errors (count_error Failed_Counted S1)"
      using Suc.prems(1) more c assms(5) by (simp add: count_error_def)
    with extract_loop_step [where env = env and i = i, OF more one]
    have "extract_loop mm mem base env i attestator_id nonce_length wanted S
        = extract_loop mm mem base env (i + 1) attestator_id nonce_length wanted ?S" by simp
    moreover have "k = nat (wanted - ex_extracted ?S)" "int (ex_errors ?S) = ex_extracted ?S"
      "ex_extracted ?S \<le> wanted" "length (ex_nonce ?S) = length (ex_nonce S)" "ex_db ?S = ex_db S"
      using Suc.hyps(2) Suc.prems(1) more c S1 by (simp_all add: one_extracted_def count_error_def)
    ultimately show ?case using Suc.hyps(1) [of ?S "i + 1"] Suc.prems(3) by simp
  qed
  from this [of S i] assms show ?thesis by simp
qed

theorem extraction_counts_unset_nonces_witness:
  "\<exists>S'. extract_loop exact_mod_mul (\<lambda>x. ucast x) 0 (\<lambda>_. sample_attempt\<lparr>xe_nonce_ok := False\<rparr>) 0 3 8 7
          sample_extraction = Inr S'
     \<and> ex_db S' = ex_db sample_extraction \<and> ex_extracted S' = 7 \<and> int (ex_errors S') = 7"
  by (rule extraction_counts_unset_nonces)
    (simp_all add: sample_extraction_def sample_attempt_def sample_nonce_def EXTRACTOR_MAX_ERROR_ALLOWED_def)

text \<open>The result of the preparation is not looked at: when it fails because the nonce cannot be
  interpreted, what an earlier nonce prepared is stored again under the new nonce.\<close>

theorem extraction_stores_stale_data:
  assumes "xe_rand e = (1, nonce)" and "length nonce = length (ex_nonce S)" and "length nonce = unat nonce_length"
    and "0 < unat nonce_length" and "unat nonce_length < 2 ^ 8"
    and "xe_nonce_ok e" and "xe_store_ok e" and "xe_query_ok e" and "xe_insert_ok e"
    and "xe_decode e ((ex_table S)\<lparr>current_nonce := Some nonce, current_nonce_size := nonce_length\<rparr>) (xe_prepare_info e)
           = Inr (info, r)" and "r \<noteq> RA_SUCCESS"
    and "xe_label_decode e ((ex_table S)\<lparr>current_nonce := Some nonce, current_nonce_size := nonce_length\<rparr>) (xe_info e)
           = Inr (info2, r2)"
    and "prepared_data (ex_table S) = Some old" and "length old = unat (prepared_data_size (ex_table S))"
    and "2 * length old + 1 < 2 ^ 32"
    and "attestator_id \<in> set (map att_id (attestators (ex_db S)))" and "next_prepared (ex_db S) < 2 ^ 64"
  shows "\<exists>S' row. extract_one mm mem base e attestator_id nonce_length S = Inr (Stored, S')
     \<and> prepared (ex_db S') = prepared (ex_db S) @ [row]
     \<and> pd_nonce row = nonce \<and> pd_data row = old \<and> pd_area row = info_label info2"
proof -
  let ?t = "(ex_table S)\<lparr>current_nonce := Some nonce, current_nonce_size := nonce_length\<rparr>"
  have set: "ra_set_current_nonce True (ex_table S) nonce nonce_length = Inr (?t, RA_SUCCESS)"
    using assms(3) by (simp add: ra_set_current_nonce_def Let_def read_at_def)
  have nz: "nonce_length \<noteq> 0" using assms(4) by auto
  have prep: "ra_prepare_data (xe_decode e) mm mem base (xe_prepare_info e) (xe_tmp e) w d ?t = Inr (?t, RA_ERROR_GENERIC)" for w d
    using assms(10, 11) nz
    by (simp add: ra_prepare_data_def ra_get_current_nonce_reference_def ra_get_current_nonce_size_def)
  have esc: "escaped (unat (nonce_length * 2 + 1)) (Some nonce) (unat nonce_length) = Inr nonce"
    "escaped (unat (prepared_data_size (ex_table S) * 2 + 1)) (Some old) (unat (prepared_data_size (ex_table S))) = Inr old"
    using assms(3, 5, 14, 15) by (simp_all add: escaped_ok)
  have rand: "random_generate_nonce (1, nonce) (ex_nonce S) = Inr (nonce, RA_SUCCESS)"
    using assms(2) by (simp add: random_generate_nonce_def write_at_def)
  show ?thesis
    using assms set prep esc rand
    by (simp add: extract_one_def Let_def ra_get_prepared_data_size_def ra_get_prepared_data_reference_def insert_data_def)
qed

theorem extraction_stores_stale_data_witness:
  "\<exists>S' row. extract_one exact_mod_mul (\<lambda>x. ucast x) 0
          (sample_attempt\<lparr>xe_decode := decode_nonce_1 exact_test True False\<rparr>) 3 8
          (sample_extraction\<lparr>ex_table := with_prepared sample_table (Some [5, 6]) 2\<rparr>) = Inr (Stored, S')
     \<and> prepared (ex_db S') = prepared (ex_db sample_extraction) @ [row]
     \<and> pd_nonce row = sample_nonce \<and> pd_data row = [5, 6]"
proof -
  let ?t = "(with_prepared sample_table (Some [5, 6]) 2)\<lparr>current_nonce := Some sample_nonce, current_nonce_size := 8\<rparr>"
  have t: "?t = with_prepared (with_nonce sample_table sample_nonce) (Some [5, 6]) 2"
    by (simp add: with_prepared_def with_nonce_def sample_nonce_def)
  have dec: "decodable (with_nonce sample_table sample_nonce) [sample_area] sample_nonce 3"
    using sample_extractor_ready by (simp add: extractor_ready_def sample_nonce_def)
  then have "table_ok (with_nonce sample_table sample_nonce) [sample_area]"
    and "nonce_in (with_nonce sample_table sample_nonce) sample_nonce" by (simp_all add: decodable_def)
  then obtain i where "nonce_label_index (with_nonce sample_table sample_nonce) = Inr i"
    using nonce_label_index_ok [of "with_nonce sample_table sample_nonce" "[sample_area]" sample_nonce]
    by (auto simp: sample_nonce_def)
  then have "nonce_label_index ?t = Inr i"
    unfolding t by (simp add: nonce_label_index_def ra_get_current_nonce_reference_def
        ra_get_current_nonce_size_def ra_get_memory_areas_count_def)
  then have bad: "decode_nonce_1 exact_test True False ?t blank_info = Inr (blank_info, RA_ERROR_MEMORY)"
    by (simp add: decode_nonce_1_def decode_area_def)
  obtain info where "walks_selected (decode_nonce_1 exact_test True True) exact_mod_mul
      (with_nonce sample_table sample_nonce) [sample_area] sample_nonce info"
    using prepare_any_version [OF exact_test_exact exact_mod_mul_exact dec sample_built] by blast
  then have good: "decode_nonce_1 exact_test True True ?t blank_info = Inr (info, RA_SUCCESS)"
    unfolding t by (simp add: built_ignores_prepared [OF sample_built] walks_selected_def)
  show ?thesis
    using extraction_stores_stale_data [of "sample_attempt\<lparr>xe_decode := decode_nonce_1 exact_test True False\<rparr>" sample_nonce
        "sample_extraction\<lparr>ex_table := with_prepared sample_table (Some [5, 6]) 2\<rparr>" 8
        blank_info RA_ERROR_MEMORY info RA_SUCCESS "[5, 6]" 3 exact_mod_mul "\<lambda>x. ucast x" 0] bad good
    by (simp add: sample_attempt_def sample_extraction_def sample_nonce_def sample_tables_def) blast
qed

text \<open>Whatever its arguments, files and libraries do, the extractor changes nothing in the database
  but for rows of prepared data it appends, all of the one attestator that the database knows under
  the application id and number given; a run that ends with code 0 was given the application id
  that the attestation data structure holds.\<close>

theorem extractor_main_only_adds:
  assumes "extractor_main mm L env argv T = Inr (T', code)"
  shows "T' = T \<and> code = 1
     \<or> (\<exists>ads t x number. number = sscanf_signed (argv ! 2) (le_number L)
          \<and> le_ads L (ads_path (argv ! 1) number) = Some ads
          \<and> ra_parse_binary_ads (le_heap_block L) (le_parse L) (Some ads) = Inr (Some t)
          \<and> argv ! 1 = hex_string (app_AID t)
          \<and> x \<in> set (select_attestators T (argv ! 1) number) \<and> only_adds (att_id (snd x)) T T' \<and> code \<in> {0, 1})"
proof (cases "T' = T \<and> code = 1")
  case False
  let ?number = "sscanf_signed (argv ! 2) (le_number L) :: u64"
  from False assms obtain t sec where load: "load_ads L (argv ! 1) ?number = Inr (Some t)"
    and run: "run_extraction mm L env argv ?number T t sec = Inr (T', code)"
    by (auto simp: extractor_main_def Let_def bind_run_Inr_iff split: if_splits option.splits)
  obtain ads where ads: "le_ads L (ads_path (argv ! 1) ?number) = Some ads"
      "ra_parse_binary_ads (le_heap_block L) (le_parse L) (Some ads) = Inr (Some t)"
      "argv ! 1 = hex_string (app_AID t)"
    using load by (auto simp: load_ads_def bind_run_Inr_iff ra_get_AID_as_string_def split: if_splits option.splits)
  obtain a S mem where
    att: "ra_db_get_attestator_id (le_link L) T (hex_string (app_AID t)) ?number (le_attestator_id L) = (a, RA_SUCCESS)"
    and loop: "extract_loop mm mem (le_base L) env 0 a (sscanf_signed (argv ! 3) (le_length L)) (atoi (argv ! 4))
        \<lparr>ex_table = t, ex_nonce = map (le_nonce L) [0..<unat (sscanf_signed (argv ! 3) (le_length L) :: u32)],
         ex_db = T, ex_extracted = 0, ex_errors = 0\<rparr> = Inr S"
    and T': "T' = ex_db S" "code \<in> {0, 1}"
    using run False by (auto simp: run_extraction_def Let_def bind_run_Inr_iff ra_get_AID_as_string_def
        split: if_splits prod.splits)
  obtain x where "x \<in> set (select_attestators T (hex_string (app_AID t)) ?number)" "a = att_id (snd x)"
    using att by (force simp: ra_db_get_attestator_id_def connected_def split: if_splits list.splits)
  moreover have "only_adds a T T'"
    using extract_loop_only_adds [OF loop] T' by simp
  ultimately show ?thesis
    using ads T'(2) by (intro disjI2 exI [of _ ads] exI [of _ t] exI [of _ x] exI [of _ ?number]) simp
qed simp

definition sample_load :: load_env where
  "sample_load = \<lparr>le_number = 0, le_length = 0, le_ads = (\<lambda>_. None), le_ads_read = True, le_heap_block = blank_table,
     le_parse = [], le_exe = (\<lambda>_. None), le_bfd = (\<lambda>_. Bfd_No_Text), le_image_ok = True, le_base = 0,
     le_memory = (\<lambda>_. 0), le_nonce = (\<lambda>_. 0), le_buffers_ok = True, le_mysql_ok = True, le_link = link_up,
     le_attestator_id = 0\<rparr>"

theorem extractor_main_only_adds_witness:
  "\<exists>T' code. extractor_main exact_mod_mul sample_load (\<lambda>_. sample_attempt)
         [''extractor'', hex_string sample_AID, ''0'', ''8'', ''2''] (sample_tables [1, 2] [3]) = Inr (T', code)
     \<and> (T' = sample_tables [1, 2] [3] \<and> code = 1 \<or> code \<in> {0, 1})"
proof -
  let ?argv = "[''extractor'', hex_string sample_AID, ''0'', ''8'', ''2'']"
  obtain T' code where run: "extractor_main exact_mod_mul sample_load (\<lambda>_. sample_attempt) ?argv
      (sample_tables [1, 2] [3]) = Inr (T', code)"
    by (simp add: extractor_main_def load_ads_def sample_load_def sample_AID_def AID_SIZE_def Let_def)
  from extractor_main_only_adds [OF run] have "T' = sample_tables [1, 2] [3] \<and> code = 1 \<or> code \<in> {0, 1}" by blast
  with run show ?thesis by blast
qed

end
