(* ===== verification/Exchange.thy ===== *)
theory Exchange
  imports Protocol Extractor
begin

text \<open>
  One exchange on the tables of the database: the extractor's row, the request that the manager
  inserts and sends, the attestator's response, and the updates of the verifier, which finds the
  request through the database services. This refines the exchange of \<^theory_text>\<open>Protocol\<close>, whose
  verifier looks at an abstract database and lists its updates.
\<close>

section \<open>The verifier on the tables\<close>

text \<open>What the two lookups of the verifier deliver when the server answers and memory suffices;
  \<open>row0\<close> is what the variables of the caller hold before.\<close>

definition database_view :: "request_row \<Rightarrow> tables \<Rightarrow> verifier_db" where
  "database_view row0 T =
     \<lparr>db_application_id = (\<lambda>AID x. fst (ra_db_get_application_id link_up T AID x)),
      db_data_to_verify = (\<lambda>i. case ra_db_get_data_to_verify True True link_up T i row0 of
         Inr r \<Rightarrow> r | Inl _ \<Rightarrow> (row0, RA_ERROR_GENERIC))\<rparr>"

fun apply_update :: "db_update \<Rightarrow> tables \<Rightarrow> tables" where
  "apply_update (Set_Reaction_Status i st) T = fst (ra_db_set_reaction_status link_up T i st)"
| "apply_update (Finalize_Request i st rt) T = fst (ra_db_finalize_request link_up T i st rt)"

text \<open>The verifier process on the database: it runs its lookups and performs its updates.\<close>

definition verifier_process ::
  "hasher \<Rightarrow> request_row \<Rightarrow> u64 \<Rightarrow> packed \<Rightarrow> u8 list \<Rightarrow> tables \<Rightarrow> tables run" where
  "verifier_process do_hash row0 app_id p input T =
     bind_run (verifier_main do_hash (database_view row0 T) app_id p True input)
       (\<lambda>updates. Inr (fold apply_update updates T))"

text \<open>The row that the lookup delivers for a request and its prepared data.\<close>

definition row_of :: "prepared_row \<Rightarrow> ra_request \<Rightarrow> request_row" where
  "row_of p r = \<lparr>row_nonce = Some (pd_nonce p), row_nonce_size = of_nat (length (pd_nonce p)),
     row_data = Some (pd_data p), row_data_size = of_nat (length (pd_data p)),
     row_send_time = rq_send_time r, row_status = rq_status r, row_validity = rq_validity r\<rparr>"

lemma filter_unique: "distinct (map f xs) \<Longrightarrow> x \<in> set xs \<Longrightarrow> filter (\<lambda>y. f y = f x) xs = [x]"
  by (induction xs) (force simp: filter_empty_conv image_iff)+

lemma concat_map_if: "concat (map (\<lambda>x. if P x then f x else []) xs) = concat (map f (filter P xs))"
  by (induction xs) simp_all

lemma select_data_to_verify_row:
  assumes "db_keys T" and "r \<in> set (requests T)" and "p \<in> set (prepared T)" and "pd_id p = rq_prepared r"
  shows "select_data_to_verify T (rq_id r) = [(p, r)]"
proof -
  have keys: "distinct (map rq_id (requests T))" "distinct (map pd_id (prepared T))"
    using assms(1) by (simp_all add: db_keys_def keys_below_def)
  have "select_data_to_verify T (rq_id r)
      = concat (map (\<lambda>r'. map (\<lambda>p. (p, r')) (filter (\<lambda>p. pd_id p = rq_prepared r' \<and> rq_id r' = rq_id r) (prepared T)))
          (requests T))"
    by (simp add: select_data_to_verify_def concat_map_guard)
  also have "\<dots> = concat (map (\<lambda>r'. if rq_id r' = rq_id r
      then map (\<lambda>p. (p, r')) (filter (\<lambda>p. pd_id p = rq_prepared r') (prepared T)) else []) (requests T))"
    by (intro arg_cong [where f = concat] map_cong) auto
  also have "\<dots> = concat (map (\<lambda>r'. map (\<lambda>p. (p, r')) (filter (\<lambda>p. pd_id p = rq_prepared r') (prepared T)))
      (filter (\<lambda>r'. rq_id r' = rq_id r) (requests T)))"
    by (rule concat_map_if)
  also have "\<dots> = [(p, r)]"
    using filter_unique [OF keys(1) assms(2)] filter_unique [OF keys(2) assms(3)] assms(4) by simp
  finally show ?thesis .
qed

lemma database_view_row:
  assumes "db_keys T" and "r \<in> set (requests T)" and "p \<in> set (prepared T)" and "pd_id p = rq_prepared r"
  shows "db_data_to_verify (database_view row0 T) (rq_id r) = (row_of p r, RA_SUCCESS)"
  using select_data_to_verify_row [OF assms]
  by (simp add: database_view_def ra_db_get_data_to_verify_def row_of_def Let_def)

section \<open>Attestator and verifier on a stored row\<close>

lemma exchange_run:
  assumes lib: "libraries_ok is_prime (env_mod_mul env) n D"
    and ready: "attestator_ready is_prime n D env t ars nonce"
    and w: "walks_selected (env_decode env) (env_mod_mul env) (with_nonce t nonce) ars nonce info"
    and db: "db_data_to_verify db req_id = (row, RA_SUCCESS)"
    and row: "row_nonce row = Some nonce" "row_nonce_size row = of_nat (length nonce)"
      "row_data row = Some (walked_bytes info c)" "row_data_size row = info_actual_size info"
  defines "right \<equiv> D (attested_message t nonce info c)
      = D (attested_message t nonce info (selected_code (env_memory env) (env_base env) (with_nonce t nonce) ars nonce))"
  shows "\<exists>t' response. attestator_routine env False (Some (request_message req_id nonce)) t = Inr (t', Some response)
     \<and> verifier_main (do_hash_with n D True True) db app_id p True (verifier_input now response)
         = Inr ((if right then [] else [Set_Reaction_Status (db_application_id db (hex_string (app_AID t)) app_id)
                                          REACTION_STATUS_COMPROMISED])
                @ [Finalize_Request req_id (verdict right now row) (ucast (now - row_send_time row))])"
proof -
  let ?tn = "with_nonce t nonce"
  let ?client = "selected_code (env_memory env) (env_base env) ?tn ars nonce"
  obtain info' where w': "walks_selected (env_decode env) (env_mod_mul env) ?tn ars nonce info'"
    and hin: "\<And>c. hash_inputs_ok nonce (of_nat (length nonce)) (walked_bytes info' c) (info_actual_size info') (app_AID t)"
    and run: "attestator_routine env False (Some (request_message req_id nonce)) t =
         Inr (?tn\<lparr>prepared_data := None, prepared_data_size := 0\<rparr>,
              Some (response_message (app_AID t) (app_attestator_number t) req_id
                (D (hash_message nonce (walked_bytes info' ?client) (app_AID t) (app_attestator_number t)))))"
    using attestator_answers [OF lib ready, of req_id] by blast
  have "info' = info" by (rule walks_selected_unique [OF w' w])
  note hin = hin [unfolded this] and run = run [unfolded this]
  let ?hs = "D (attested_message t nonce info c)" and ?hc = "D (attested_message t nonce info ?client)"
  have D: "digest_length n D" "n < 2 ^ 32" using lib by (simp_all add: libraries_ok_def)
  then have len: "length ?hs = n" "length ?hc = n" by (simp_all add: digest_length_def)
  have "hashes_row (do_hash_with n D True True) row (app_AID t) (app_attestator_number t) p ?hs"
    using do_hash_with_ok [OF D(1) hin] by (simp add: hashes_row_def row attested_message_def)
  moreover have "length (app_AID t) = AID_SIZE" using ready by (simp add: attestator_ready_def)
  ultimately have "verifier_main (do_hash_with n D True True) db app_id p True
      (verifier_input now (response_message (app_AID t) (app_attestator_number t) req_id ?hc))
      = Inr ((if right then [] else [Set_Reaction_Status (db_application_id db (hex_string (app_AID t)) app_id)
                                       REACTION_STATUS_COMPROMISED])
             @ [Finalize_Request req_id (verdict right now row) (ucast (now - row_send_time row))])"
    using verifier_judges [OF _ _ db, of "app_AID t" ?hc] len D(2)
    by (auto simp: right_def eq_commute [of ?hc] Let_def)
  with run show ?thesis by (auto simp: attested_message_def)
qed

lemma row_of_prepared:
  assumes "row_prepared decode mm mem base t ars a p" and "table_ok (with_nonce t (pd_nonce p)) ars"
  obtains info where "walks_selected decode mm (with_nonce t (pd_nonce p)) ars (pd_nonce p) info"
    and "row_nonce (row_of p r) = Some (pd_nonce p)" and "row_nonce_size (row_of p r) = of_nat (length (pd_nonce p))"
    and "row_data (row_of p r) = Some (walked_bytes info (selected_code mem base (with_nonce t (pd_nonce p)) ars (pd_nonce p)))"
    and "row_data_size (row_of p r) = info_actual_size info"
  using assms by (auto simp: row_prepared_def Let_def row_of_def walked_bytes_def)

section \<open>The updates on the tables\<close>

lemma finalize_not_startup:
  assumes "db_keys T" and "r \<in> set (requests T)" and "\<not> rq_startup r"
  shows "apply_update (Finalize_Request (rq_id r) st rt) T = set_request T (rq_id r) st rt"
proof -
  have keys: "distinct (map rq_id (requests T))" using assms(1) by (simp add: db_keys_def keys_below_def)
  have "\<not> rq_startup new" if "find (\<lambda>r'. rq_id r' = rq_id r) (requests (set_request T (rq_id r) st rt)) = Some new" for new
  proof -
    from that have "new \<in> set (requests (set_request T (rq_id r) st rt))" "rq_id new = rq_id r"
      using remove1_find by fast+
    then obtain r' where "r' \<in> set (requests T)" "rq_id r' = rq_id r" "rq_startup new = rq_startup r'"
      by (auto simp: set_request_def split: if_splits)
    moreover from this keys assms(2) have "r' = r" by (auto simp: distinct_map inj_on_def)
    ultimately show ?thesis using assms(3) by simp
  qed
  then have "update_request T (rq_id r) st rt = Some (set_request T (rq_id r) st rt)"
    by (auto simp: update_request_def Let_def startup_attestation_def split: option.split)
  then show ?thesis by (simp add: ra_db_finalize_request_def)
qed

definition judged :: "bool \<Rightarrow> u64 \<Rightarrow> u64 \<Rightarrow> request_status \<Rightarrow> u32 \<Rightarrow> tables \<Rightarrow> tables" where
  "judged right application_id request_id status response_time T =
     set_request (if right then T else update_reaction T application_id REACTION_STATUS_COMPROMISED)
       request_id status response_time"

lemma updates_judged:
  assumes "db_keys T" and "r \<in> set (requests T)" and "\<not> rq_startup r"
  shows "fold apply_update ((if right then [] else [Set_Reaction_Status i REACTION_STATUS_COMPROMISED])
      @ [Finalize_Request (rq_id r) st rt]) T = judged right i (rq_id r) st rt T"
proof -
  have "db_keys (update_reaction T i REACTION_STATUS_COMPROMISED)"
    using assms(1) by (simp add: db_keys_iff)
  then show ?thesis
    using assms finalize_not_startup [of "update_reaction T i REACTION_STATUS_COMPROMISED" r st rt]
      finalize_not_startup [OF assms, of st rt]
    by (auto simp: judged_def ra_db_set_reaction_status_def simp del: apply_update.simps(2))
qed

text \<open>An exchange for a request on record that is not a start-up request: the tables the verifier
  leaves are those of the verdict on the two digests.\<close>

definition exchange_ends ::
  "attest_env \<Rightarrow> nat \<Rightarrow> digest \<Rightarrow> request_row \<Rightarrow> u64 \<Rightarrow> packed \<Rightarrow> u64 \<Rightarrow> ra_table \<Rightarrow> prepared_row
     \<Rightarrow> ra_request \<Rightarrow> bool \<Rightarrow> tables \<Rightarrow> bool" where
  "exchange_ends env n D row0 app_id pk now t p r right T \<longleftrightarrow>
     (\<exists>t' response. attestator_routine env False (Some (request_message (rq_id r) (pd_nonce p))) t = Inr (t', Some response)
       \<and> verifier_process (do_hash_with n D True True) row0 app_id pk (verifier_input now response) T
         = Inr (judged right (fst (ra_db_get_application_id link_up T (hex_string (app_AID t)) app_id)) (rq_id r)
                  (verdict right now (row_of p r)) (ucast (now - rq_send_time r)) T))"

lemma exchange_on_tables:
  assumes "libraries_ok is_prime (env_mod_mul env) n D"
    and ready: "attestator_ready is_prime n D env t ars (pd_nonce p)"
    and "db_ok T" and "p \<in> set (prepared T)" and "row_prepared (env_decode env) (env_mod_mul env) mem base t ars a p"
    and "r \<in> set (requests T)" and "pd_id p = rq_prepared r" and "\<not> rq_startup r"
    and info: "env_decode env (with_nonce t (pd_nonce p)) ret = Inr (info, RA_SUCCESS)"
  shows "exchange_ends env n D row0 app_id pk now t p r
     (D (attested_message t (pd_nonce p) info (selected_code mem base (with_nonce t (pd_nonce p)) ars (pd_nonce p)))
      = D (attested_message t (pd_nonce p) info
            (selected_code (env_memory env) (env_base env) (with_nonce t (pd_nonce p)) ars (pd_nonce p)))) T"
proof -
  define right where "right =
     (D (attested_message t (pd_nonce p) info (selected_code mem base (with_nonce t (pd_nonce p)) ars (pd_nonce p)))
      = D (attested_message t (pd_nonce p) info
            (selected_code (env_memory env) (env_base env) (with_nonce t (pd_nonce p)) ars (pd_nonce p))))"
  have keys: "db_keys T" using assms(3) by (simp add: db_ok_def)
  obtain info' where w: "walks_selected (env_decode env) (env_mod_mul env) (with_nonce t (pd_nonce p)) ars (pd_nonce p) info'"
    and row: "row_nonce (row_of p r) = Some (pd_nonce p)" "row_nonce_size (row_of p r) = of_nat (length (pd_nonce p))"
      "row_data (row_of p r) = Some (walked_bytes info' (selected_code mem base (with_nonce t (pd_nonce p)) ars (pd_nonce p)))"
      "row_data_size (row_of p r) = info_actual_size info'"
    using row_of_prepared [OF assms(5)] ready by (auto simp: attestator_ready_def decodable_def)
  have "info' = info" using w info by (simp add: walks_selected_def)
  note w = w [unfolded this] and row = row [unfolded this]
  have send: "row_send_time (row_of p r) = rq_send_time r" by (simp add: row_of_def)
  have app: "db_application_id (database_view row0 T) aid x = fst (ra_db_get_application_id link_up T aid x)" for aid x
    by (simp add: database_view_def)
  obtain t' response where run:
    "attestator_routine env False (Some (request_message (rq_id r) (pd_nonce p))) t = Inr (t', Some response)"
    "verifier_main (do_hash_with n D True True) (database_view row0 T) app_id pk True (verifier_input now response)
      = Inr ((if right then [] else [Set_Reaction_Status (fst (ra_db_get_application_id link_up T (hex_string (app_AID t)) app_id))
                                       REACTION_STATUS_COMPROMISED])
             @ [Finalize_Request (rq_id r) (verdict right now (row_of p r)) (ucast (now - rq_send_time r))])"
    using exchange_run [OF assms(1) ready w database_view_row [OF keys assms(6, 4, 7), of row0] row, of app_id pk now]
    unfolding send app right_def [symmetric] by (elim exE conjE) (rule that)
  show ?thesis
    unfolding exchange_ends_def verifier_process_def run(2) right_def [symmetric]
    by (intro exI conjI, rule run(1)) (simp only: run(2) bind_run_simps updates_judged [OF keys assms(6, 8)])
qed

section \<open>Properties\<close>

text \<open>The row of an answered request.\<close>

definition answered_request :: "tables \<Rightarrow> u64 \<Rightarrow> u64 \<Rightarrow> u64 \<Rightarrow> u64 \<Rightarrow> bool \<Rightarrow> ra_request" where
  "answered_request T prepared_id session sent now right =
     \<lparr>rq_id = of_nat (next_request T), rq_prepared = prepared_id, rq_session = session, rq_send_time = sent,
      rq_response_time = Some (ucast (now - sent)),
      rq_status = (if difftime now sent < 1800 then (if right then SUCCESS else FAILED)
                   else (if right then EXPIRED_SUCCESS else EXPIRED_FAILED)),
      rq_validity = 1800, rq_startup = False\<rparr>"

text \<open>C3: One exchange on the database, for a row the extractor stored and a request that is not a
  start-up request: when the manager has sent the request, the attestator answers the message sent, and
  the verifier, which finds the request through the database services, ends with the tables that the
  manager found but for three things: the request is appended, finalized by the verdict on the digests of
  the prepared and of the running code; its number is used up; and the reaction status of the application
  is compromised when the digests differ. Every other table and counter is as it was.\<close>

theorem exchange_updates_tables:
  assumes "libraries_ok is_prime (env_mod_mul env) n D"
    and "attestator_ready is_prime n D env t ars (pd_nonce p)"
    and "db_ok T" and "p \<in> set (select_unused T a)"
    and "row_prepared (env_decode env) (env_mod_mul env) mem base t ars a p"
    and "send_ra_request se T (pd_id p) (Some (pd_nonce p)) (of_nat (length (pd_nonce p))) AID number False s
           = Inr (T1, sent, True)" and "link_query (se_link se) 1"
    and "env_decode env (with_nonce t (pd_nonce p)) ret = Inr (info, RA_SUCCESS)"
    and "server_code = selected_code mem base (with_nonce t (pd_nonce p)) ars (pd_nonce p)"
    and "client_code = selected_code (env_memory env) (env_base env) (with_nonce t (pd_nonce p)) ars (pd_nonce p)"
    and "right \<longleftrightarrow> D (attested_message t (pd_nonce p) info server_code)
                  = D (attested_message t (pd_nonce p) info client_code)"
  shows "\<exists>t' response.
       attestator_routine env False (Some (snd (snd (hd sent)))) t = Inr (t', Some response)
     \<and> verifier_process (do_hash_with n D True True) row0 app_id pk (verifier_input now response) T1
       = Inr ((if right then T
               else update_reaction T (fst (ra_db_get_application_id link_up T (hex_string (app_AID t)) app_id))
                      REACTION_STATUS_COMPROMISED)
              \<lparr>requests := requests T @ [answered_request T (pd_id p) s (se_now se) now right],
               next_request := Suc (next_request T)\<rparr>)"
proof -
  have nl: "length (pd_nonce p) < 2 ^ 32" using assms(2) by (simp add: attestator_ready_def)
  have ins: "insert_request T (se_now se) (pd_id p) s 1800 False = Some T1"
    and m: "snd (snd (hd sent)) = request_message (of_nat (next_request T)) (pd_nonce p)"
    using send_ra_request_True [OF assms(6, 7)] nonce_body [OF nl] by (auto simp: request_message_def)
  define r where "r = \<lparr>rq_id = of_nat (next_request T), rq_prepared = pd_id p, rq_session = s,
      rq_send_time = se_now se, rq_response_time = None, rq_status = PENDING, rq_validity = 1800, rq_startup = False\<rparr>"
  have T1: "T1 = T\<lparr>requests := requests T @ [r], next_request := Suc (next_request T)\<rparr>" and room: "next_request T < 2 ^ 64"
    using ins by (auto simp: insert_request_def r_def split: if_splits)
  have p: "p \<in> set (prepared T)" "pd_id p \<notin> set (map rq_prepared (requests T))"
    using assms(4) by (auto simp: set_select_unused)
  have ok: "db_ok T1" using insert_request_ok [OF assms(3) ins p(2)] .
  have fresh: "rq_id r \<notin> set (map rq_id (requests T))"
    using keys_below_fresh [of "map rq_id (requests T)" "next_request T"] room assms(3)
    by (simp add: db_ok_def db_keys_def r_def del: set_map)
  have others: "map (\<lambda>x. if rq_id x = rq_id r then f x else x) (requests T) = requests T" for f
    by (rule map_idI) (use fresh in \<open>force simp: image_iff\<close>)
  have app: "ra_db_get_application_id link_up T1 = ra_db_get_application_id link_up T"
    by (intro ext) (simp add: ra_db_get_application_id_def select_application_id_def T1)
  let ?i = "fst (ra_db_get_application_id link_up T (hex_string (app_AID t)) app_id)"
  let ?st = "verdict right now (row_of p r)" and ?rt = "ucast (now - rq_send_time r)"
  have "exchange_ends env n D row0 app_id pk now t p r right T1"
    unfolding assms(11) assms(9) assms(10)
    by (rule exchange_on_tables [OF assms(1, 2) ok _ assms(5) _ _ _ assms(8)]) (use p(1) in \<open>simp_all add: T1 r_def\<close>)
  then obtain t' response where run:
    "attestator_routine env False (Some (snd (snd (hd sent)))) t = Inr (t', Some response)"
    "verifier_process (do_hash_with n D True True) row0 app_id pk (verifier_input now response) T1
       = Inr (judged right ?i (rq_id r) ?st ?rt T1)"
    by (auto simp: exchange_ends_def app m r_def)
  have row: "answered_request T (pd_id p) s (se_now se) now right = r\<lparr>rq_response_time := Some ?rt, rq_status := ?st\<rparr>"
    by (simp add: answered_request_def verdict_def row_of_def r_def)
  have "judged right ?i (rq_id r) ?st ?rt T1 =
      (if right then T else update_reaction T ?i REACTION_STATUS_COMPROMISED)
        \<lparr>requests := requests T @ [answered_request T (pd_id p) s (se_now se) now right],
         next_request := Suc (next_request T)\<rparr>"
    unfolding row using others by (cases right) (simp_all add: judged_def set_request_def update_reaction_def T1)
  with run show ?thesis by simp
qed

text \<open>The tables of the sample application once the extractor has stored the sample nonce.\<close>

lemma sample_row_prepared:
  obtains p where "pd_nonce p = sample_nonce" and "pd_id p = 1" and "pd_attestator p = 3"
    and "row_prepared (env_decode (sample_env server_memory)) (env_mod_mul (sample_env server_memory)) server_memory 0
           sample_table [sample_area] 3 p"
proof -
  have "decodable (with_nonce sample_table sample_nonce) [sample_area] sample_nonce 3"
    using sample_extractor_ready by (simp add: extractor_ready_def sample_nonce_def)
  then obtain info where w: "walks_selected (decode_nonce_1 exact_test True True) exact_mod_mul
      (with_nonce sample_table sample_nonce) [sample_area] sample_nonce info"
    using prepare_any_version [OF exact_test_exact exact_mod_mul_exact _ sample_built] by blast
  show thesis
    by (rule that [of "\<lparr>pd_id = 1, pd_attestator = 3, pd_nonce = sample_nonce,
        pd_data = walked_bytes info (selected_code server_memory 0 (with_nonce sample_table sample_nonce) [sample_area] sample_nonce),
        pd_area = ucast (info_label info)\<rparr>"]) (use w in \<open>auto simp: row_prepared_def Let_def\<close>)
qed

theorem exchange_updates_tables_witness:
  "\<exists>T p t' response T1 sent T2.
       p \<in> set (select_unused T 3) \<and> pd_nonce p = sample_nonce \<and> requests T = []
     \<and> send_ra_request (sample_send True) T (pd_id p) (Some sample_nonce) (of_nat (length sample_nonce)) ''aid'' 0 False 1
         = Inr (T1, sent, True)
     \<and> attestator_routine (sample_env server_memory) False (Some (snd (snd (hd sent)))) sample_table
         = Inr (t', Some response)
     \<and> verifier_process (do_hash_with 32 (prefix_digest 32) True True) sample_row 0 (None, 0)
         (verifier_input 105 response) T1 = Inr T2
     \<and> T2 = T\<lparr>requests := [answered_request T (pd_id p) 1 100 105 True], next_request := 5\<rparr>"
proof -
  let ?env = "sample_env server_memory"
  obtain p where pn: "pd_nonce p = sample_nonce" "pd_id p = 1" "pd_attestator p = 3"
    and row: "row_prepared (env_decode ?env) (env_mod_mul ?env) server_memory 0 sample_table [sample_area] 3 p"
    using sample_row_prepared by blast
  define T where "T = (sample_tables sample_nonce [])\<lparr>prepared := [p]\<rparr>"
  have ok: "db_ok T"
    by (simp add: T_def sample_tables_def db_ok_def db_keys_def keys_below_def one_session_def nonces_once_def
        select_active_sessions_def pn)
  have p: "p \<in> set (select_unused T 3)"
    by (simp add: set_select_unused) (simp add: T_def sample_tables_def pn)
  have empty: "requests T = []" "next_request T = 4" by (simp_all add: T_def sample_tables_def)
  have "\<exists>T1. insert_request T 100 1 1 1800 False = Some T1"
    by (simp add: insert_request_def T_def sample_tables_def pn)
  then obtain T1 where ins: "insert_request T 100 1 1 1800 False = Some T1" by blast
  have nl: "length sample_nonce < 2 ^ 32" by (simp add: sample_nonce_def)
  have send: "send_ra_request (sample_send True) T (pd_id p) (Some (pd_nonce p)) (of_nat (length (pd_nonce p)))
      ''aid'' 0 False 1 = Inr (T1, [(0, ''aid'', request_message 4 sample_nonce)], True)"
    using ins empty by (simp add: send_ra_request_def Let_def nonce_body [OF nl] atomic_asclWebSocketSend_def
        MAX_ATTESTATORS_ALLOWED_def request_message_def pn)
  from row obtain info where info: "env_decode ?env (with_nonce sample_table (pd_nonce p)) blank_info = Inr (info, RA_SUCCESS)"
    by (auto simp: row_prepared_def Let_def walks_selected_def)
  have lib: "libraries_ok exact_test (env_mod_mul ?env) 32 (prefix_digest 32)"
    and ready: "attestator_ready exact_test 32 (prefix_digest 32) ?env sample_table [sample_area] (pd_nonce p)"
    and link: "link_query (se_link (sample_send True)) 1" and now: "se_now (sample_send True) = 100"
    by (simp_all add: pn)
  let ?code = "selected_code server_memory 0 (with_nonce sample_table (pd_nonce p)) [sample_area] (pd_nonce p)"
  have code: "?code = selected_code (env_memory ?env) (env_base ?env) (with_nonce sample_table (pd_nonce p))
      [sample_area] (pd_nonce p)" by simp
  have right: "True \<longleftrightarrow> prefix_digest 32 (attested_message sample_table (pd_nonce p) info ?code)
      = prefix_digest 32 (attested_message sample_table (pd_nonce p) info ?code)" by simp
  obtain t' response where final:
    "attestator_routine ?env False (Some (snd (snd (hd [(0 :: u64, ''aid'', request_message 4 sample_nonce)])))) sample_table
       = Inr (t', Some response)"
    "verifier_process (do_hash_with 32 (prefix_digest 32) True True) sample_row 0 (None, 0)
       (verifier_input 105 response) T1
       = Inr (T\<lparr>requests := requests T @ [answered_request T (pd_id p) 1 (se_now (sample_send True)) 105 True],
                next_request := Suc (next_request T)\<rparr>)"
    using exchange_updates_tables [OF lib ready ok p row send link info refl code right, of sample_row 0 "(None, 0)" 105]
    unfolding if_True by blast
  have nonce: "pd_nonce p = sample_nonce" by (rule pn(1))
  from p nonce empty send final [unfolded now] show ?thesis
    unfolding pn(1)
    by - (rule exI [of _ T], rule exI [of _ p], rule exI [of _ t'], rule exI [of _ response], rule exI [of _ T1],
        rule exI [of _ "[(0, ''aid'', request_message 4 sample_nonce)]"], simp add: pn(1))
qed

text \<open>C37: A verdict on record does not stand: the verifier never looks at the status of the request it
  finalizes. When a request already judged \<^verbatim>\<open>FAILED\<close> is answered once more in time, by the code the
  extractor prepared, its row becomes \<^verbatim>\<open>SUCCESS\<close>; nothing else in the database changes, the
  reaction status included.\<close>

theorem verdict_overwritten:
  assumes "libraries_ok is_prime (env_mod_mul env) n D"
    and "attestator_ready is_prime n D env t ars (pd_nonce p)"
    and "db_ok T" and "p \<in> set (prepared T)" and "row_prepared (env_decode env) (env_mod_mul env) mem base t ars a p"
    and "r \<in> set (requests T)" and "pd_id p = rq_prepared r" and "\<not> rq_startup r" and "rq_status r = FAILED"
    and "selected_code (env_memory env) (env_base env) (with_nonce t (pd_nonce p)) ars (pd_nonce p)
       = selected_code mem base (with_nonce t (pd_nonce p)) ars (pd_nonce p)"
    and "difftime now (rq_send_time r) < uint (rq_validity r)"
  shows "\<exists>t' response rt.
       attestator_routine env False (Some (request_message (rq_id r) (pd_nonce p))) t = Inr (t', Some response)
     \<and> verifier_process (do_hash_with n D True True) row0 app_id pk (verifier_input now response) T
         = Inr (T\<lparr>requests := map (\<lambda>x. if rq_id x = rq_id r
               then x\<lparr>rq_response_time := Some rt, rq_status := SUCCESS\<rparr> else x) (requests T)\<rparr>)"
proof -
  from assms(5) obtain info where info: "env_decode env (with_nonce t (pd_nonce p)) blank_info = Inr (info, RA_SUCCESS)"
    by (auto simp: row_prepared_def Let_def walks_selected_def)
  have "verdict True now (row_of p r) = SUCCESS"
    using assms(11) by (simp add: verdict_def row_of_def)
  then show ?thesis
    using exchange_on_tables [OF assms(1-8) info, of row0 app_id pk now] assms(10)
    by (auto simp: exchange_ends_def judged_def set_request_def)
qed

theorem verdict_overwritten_witness:
  "\<exists>(T :: tables) r t' response T2.
       requests T = [r] \<and> rq_status r = FAILED
     \<and> attestator_routine (sample_env server_memory) False (Some (request_message 4 sample_nonce)) sample_table
         = Inr (t', Some response)
     \<and> verifier_process (do_hash_with 32 (prefix_digest 32) True True) sample_row 0 (None, 0)
         (verifier_input 105 response) T = Inr T2
     \<and> map rq_status (requests T2) = [SUCCESS] \<and> reactions T2 = reactions T"
proof -
  let ?env = "sample_env server_memory"
  obtain p where pn: "pd_nonce p = sample_nonce" "pd_id p = 1" "pd_attestator p = 3"
    and row: "row_prepared (env_decode ?env) (env_mod_mul ?env) server_memory 0 sample_table [sample_area] 3 p"
    using sample_row_prepared by blast
  define r where "r = \<lparr>rq_id = 4, rq_prepared = 1, rq_session = 1, rq_send_time = 100, rq_response_time = Some 1,
    rq_status = FAILED, rq_validity = 1800, rq_startup = False\<rparr>"
  define T where "T = (sample_tables sample_nonce [])\<lparr>prepared := [p], requests := [r], next_request := 5\<rparr>"
  have rn: "rq_id r = 4" "rq_prepared r = 1" "\<not> rq_startup r" "rq_status r = FAILED" "rq_send_time r = 100"
    "rq_validity r = 1800" "rq_session r = 1" by (simp_all add: r_def)
  have ok: "db_ok T"
    by (simp add: T_def sample_tables_def db_ok_def db_keys_def keys_below_def one_session_def nonces_once_def
        select_active_sessions_def pn rn)
  have T: "requests T = [r]" "p \<in> set (prepared T)" "r \<in> set (requests T)" "pd_id p = rq_prepared r"
    by (simp_all add: T_def pn rn)
  have lib: "libraries_ok exact_test (env_mod_mul ?env) 32 (prefix_digest 32)"
    and ready: "attestator_ready exact_test 32 (prefix_digest 32) ?env sample_table [sample_area] (pd_nonce p)"
    and same: "selected_code (env_memory ?env) (env_base ?env) (with_nonce sample_table (pd_nonce p)) [sample_area] (pd_nonce p)
       = selected_code server_memory 0 (with_nonce sample_table (pd_nonce p)) [sample_area] (pd_nonce p)"
    and intime: "difftime 105 (rq_send_time r) < uint (rq_validity r)"
    by (simp_all add: pn rn difftime_def)
  obtain t' response rt where final:
    "attestator_routine ?env False (Some (request_message 4 sample_nonce)) sample_table = Inr (t', Some response)"
    "verifier_process (do_hash_with 32 (prefix_digest 32) True True) sample_row 0 (None, 0) (verifier_input 105 response) T
       = Inr (T\<lparr>requests := map (\<lambda>x. if rq_id x = rq_id r
               then x\<lparr>rq_response_time := Some rt, rq_status := SUCCESS\<rparr> else x) (requests T)\<rparr>)"
    using verdict_overwritten [OF lib ready ok T(2) row T(3,4) rn(3,4) same intime, of sample_row 0 "(None, 0)"]
    unfolding pn rn(1) by blast
  from final(1) final(2) rn(4) T(1) show ?thesis
    by - (rule exI [of _ T], rule exI [of _ r], rule exI [of _ t'], rule exI [of _ response], simp)
qed

end
