(* ===== verification/Goldbach_Table.thy ===== *)
theory Goldbach_Table
  imports Main
begin

text \<open>
  \<^verbatim>\<open>headers/ra_goldback_partitions.h\<close>: the table that splits an even number from 4 to 20480 in two
  parts. The rows are transcribed in pieces of 150, each checked to hold what the comments of the
  header claim of it: row \<open>k\<close> splits \<open>2 * k + 4\<close>, and its smaller part comes first. The array is
  declared with \<^verbatim>\<open>20*1024\<close> rows of which only 10239 are written, so C fills the others with zeros.
\<close>

text \<open>The rows from number \<open>k\<close> on split their numbers.\<close>

fun rows_from :: "nat \<Rightarrow> (nat \<times> nat) list \<Rightarrow> bool" where
  "rows_from k [] \<longleftrightarrow> True"
| "rows_from k ((l, r) # rows) \<longleftrightarrow> 2 \<le> l \<and> l \<le> r \<and> l + r = 2 * k + 4 \<and> rows_from (Suc k) rows"

lemma rows_from_append: "rows_from k (xs @ ys) \<longleftrightarrow> rows_from k xs \<and> rows_from (k + length xs) ys"
  by (induction k xs rule: rows_from.induct) auto

lemma rows_from_nth:
  "rows_from k rows \<Longrightarrow> i < length rows \<Longrightarrow> 
     2 \<le> fst (rows ! i) \<and> fst (rows ! i) \<le> snd (rows ! i) \<and> fst (rows ! i) + snd (rows ! i) = 2 * (k + i) + 4"
  by (induction k rows arbitrary: i rule: rows_from.induct) (auto simp: nth_Cons split: nat.split)

section \<open>The rows\<close>

definition goldbach_rows_0 :: "(nat \<times> nat) list" where
  "goldbach_rows_0 =
    [
     (2, 2), (3, 3), (3, 5), (5, 5), (5, 7), (7, 7),
     (5, 11), (7, 11), (7, 13), (11, 11), (11, 13), (13, 13),
     (11, 17), (13, 17), (13, 19), (17, 17), (17, 19), (19, 19),
     (17, 23), (19, 23), (13, 31), (23, 23), (19, 29), (19, 31),
     (23, 29), (23, 31), (19, 37), (29, 29), (29, 31), (31, 31),
     (23, 41), (29, 37), (31, 37), (29, 41), (31, 41), (37, 37),
     (29, 47), (37, 41), (37, 43), (41, 41), (41, 43), (43, 43),
     (41, 47), (43, 47), (31, 61), (47, 47), (43, 53), (37, 61),
     (47, 53), (43, 59), (43, 61), (53, 53), (47, 61), (43, 67),
     (53, 59), (53, 61), (43, 73), (59, 59), (59, 61), (61, 61),
     (53, 71), (59, 67), (61, 67), (59, 71), (61, 71), (67, 67),
     (53, 83), (67, 71), (67, 73), (71, 71), (71, 73), (73, 73),
     (59, 89), (71, 79), (73, 79), (71, 83), (73, 83), (79, 79),
     (71, 89), (79, 83), (67, 97), (83, 83), (79, 89), (73, 97),
     (83, 89), (73, 101), (79, 97), (89, 89), (83, 97), (79, 103),
     (83, 101), (89, 97), (79, 109), (89, 101), (89, 103), (97, 97),
     (89, 107), (97, 101), (97, 103), (101, 101), (101, 103), (103, 103),
     (101, 107), (103, 107), (103, 109), (107, 107), (107, 109), (109, 109),
     (107, 113), (109, 113), (97, 127), (113, 113), (101, 127), (103, 127),
     (101, 131), (107, 127), (109, 127), (107, 131), (113, 127), (103, 139),
     (113, 131), (109, 137), (109, 139), (113, 137), (113, 139), (127, 127),
     (107, 149), (127, 131), (109, 151), (131, 131), (127, 137), (127, 139),
     (131, 137), (131, 139), (109, 163), (137, 137), (137, 139), (139, 139),
     (131, 149), (131, 151), (127, 157), (137, 149), (139, 149), (139, 151),
     (113, 179), (137, 157), (139, 157), (149, 149), (149, 151), (151, 151)]"

lemma rows_ok_0: "rows_from 0 goldbach_rows_0" "length goldbach_rows_0 = 150"
  by (simp_all add: goldbach_rows_0_def)

definition goldbach_rows_1 :: "(nat \<times> nat) list" where
  "goldbach_rows_1 =
    [
     (137, 167), (149, 157), (151, 157), (137, 173), (149, 163), (157, 157),
     (149, 167), (151, 167), (157, 163), (149, 173), (157, 167), (163, 163),
     (149, 179), (163, 167), (151, 181), (167, 167), (163, 173), (157, 181),
     (167, 173), (163, 179), (163, 181), (173, 173), (167, 181), (157, 193),
     (173, 179), (173, 181), (163, 193), (179, 179), (179, 181), (181, 181),
     (173, 191), (173, 193), (157, 211), (179, 191), (181, 191), (181, 193),
     (179, 197), (181, 197), (181, 199), (191, 191), (191, 193), (193, 193),
     (191, 197), (193, 197), (193, 199), (197, 197), (197, 199), (199, 199),
     (173, 227), (191, 211), (193, 211), (179, 227), (197, 211), (199, 211),
     (179, 233), (191, 223), (193, 223), (191, 227), (197, 223), (211, 211),
     (197, 227), (199, 227), (199, 229), (197, 233), (199, 233), (211, 223),
     (197, 239), (211, 227), (211, 229), (191, 251), (211, 233), (223, 223),
     (197, 251), (223, 227), (223, 229), (227, 227), (227, 229), (229, 229),
     (227, 233), (229, 233), (223, 241), (233, 233), (229, 239), (229, 241),
     (233, 239), (233, 241), (199, 277), (239, 239), (239, 241), (241, 241),
     (233, 251), (229, 257), (211, 277), (239, 251), (241, 251), (223, 271),
     (239, 257), (241, 257), (229, 271), (251, 251), (241, 263), (229, 277),
     (251, 257), (241, 269), (241, 271), (257, 257), (239, 277), (241, 277),
     (257, 263), (251, 271), (241, 283), (263, 263), (257, 271), (223, 307),
     (263, 269), (263, 271), (229, 307), (269, 269), (269, 271), (271, 271),
     (263, 281), (269, 277), (271, 277), (269, 281), (271, 281), (277, 277),
     (263, 293), (277, 281), (277, 283), (281, 281), (281, 283), (283, 283),
     (257, 311), (277, 293), (241, 331), (281, 293), (283, 293), (271, 307),
     (269, 311), (271, 311), (277, 307), (293, 293), (281, 307), (283, 307),
     (281, 311), (283, 311), (283, 313), (281, 317), (293, 307), (271, 331)]"

lemma rows_ok_1: "rows_from 150 goldbach_rows_1" "length goldbach_rows_1 = 150"
  by (simp_all add: goldbach_rows_1_def)

definition goldbach_rows_2 :: "(nat \<times> nat) list" where
  "goldbach_rows_2 =
    [
     (293, 311), (293, 313), (277, 331), (293, 317), (281, 331), (307, 307),
     (269, 347), (307, 311), (307, 313), (311, 311), (311, 313), (313, 313),
     (311, 317), (313, 317), (283, 349), (317, 317), (283, 353), (307, 331),
     (293, 347), (311, 331), (313, 331), (293, 353), (317, 331), (313, 337),
     (293, 359), (317, 337), (307, 349), (311, 347), (313, 347), (331, 331),
     (317, 347), (317, 349), (331, 337), (317, 353), (313, 359), (337, 337),
     (317, 359), (331, 347), (331, 349), (293, 389), (337, 347), (337, 349),
     (269, 419), (337, 353), (313, 379), (347, 347), (347, 349), (349, 349),
     (347, 353), (349, 353), (337, 367), (353, 353), (349, 359), (337, 373),
     (353, 359), (347, 367), (349, 367), (359, 359), (353, 367), (349, 373),
     (293, 431), (359, 367), (349, 379), (347, 383), (359, 373), (367, 367),
     (353, 383), (359, 379), (367, 373), (359, 383), (347, 397), (373, 373),
     (359, 389), (367, 383), (373, 379), (353, 401), (373, 383), (379, 379),
     (359, 401), (379, 383), (367, 397), (383, 383), (379, 389), (373, 397),
     (383, 389), (373, 401), (379, 397), (389, 389), (383, 397), (373, 409),
     (383, 401), (389, 397), (379, 409), (389, 401), (383, 409), (397, 397),
     (353, 443), (397, 401), (379, 421), (401, 401), (383, 421), (397, 409),
     (389, 419), (401, 409), (379, 433), (383, 431), (397, 419), (409, 409),
     (401, 419), (401, 421), (367, 457), (383, 443), (409, 419), (409, 421),
     (401, 431), (401, 433), (397, 439), (419, 419), (419, 421), (421, 421),
     (401, 443), (397, 449), (409, 439), (419, 431), (421, 431), (421, 433),
     (389, 467), (419, 439), (421, 439), (431, 431), (431, 433), (433, 433),
     (419, 449), (431, 439), (433, 439), (431, 443), (433, 443), (439, 439),
     (431, 449), (439, 443), (421, 463), (443, 443), (439, 449), (433, 457),
     (443, 449), (433, 461), (439, 457), (449, 449), (443, 457), (439, 463)]"

lemma rows_ok_2: "rows_from 300 goldbach_rows_2" "length goldbach_rows_2 = 150"
  by (simp_all add: goldbach_rows_2_def)

definition goldbach_rows_3 :: "(nat \<times> nat) list" where
  "goldbach_rows_3 =
    [
     (443, 461), (449, 457), (421, 487), (449, 461), (449, 463), (457, 457),
     (449, 467), (457, 461), (457, 463), (461, 461), (461, 463), (463, 463),
     (461, 467), (463, 467), (433, 499), (467, 467), (457, 479), (439, 499),
     (461, 479), (463, 479), (457, 487), (467, 479), (461, 487), (463, 487),
     (461, 491), (467, 487), (457, 499), (479, 479), (461, 499), (463, 499),
     (461, 503), (479, 487), (421, 547), (479, 491), (463, 509), (487, 487),
     (467, 509), (487, 491), (457, 523), (491, 491), (463, 521), (487, 499),
     (479, 509), (491, 499), (421, 571), (491, 503), (487, 509), (499, 499),
     (491, 509), (499, 503), (463, 541), (503, 503), (499, 509), (487, 523),
     (503, 509), (491, 523), (439, 577), (509, 509), (499, 521), (499, 523),
     (503, 521), (503, 523), (487, 541), (509, 521), (509, 523), (487, 547),
     (479, 557), (491, 547), (499, 541), (521, 521), (521, 523), (523, 523),
     (491, 557), (509, 541), (439, 613), (491, 563), (509, 547), (487, 571),
     (503, 557), (521, 541), (523, 541), (509, 557), (521, 547), (523, 547),
     (509, 563), (503, 571), (499, 577), (521, 557), (523, 557), (541, 541),
     (521, 563), (523, 563), (541, 547), (521, 569), (523, 569), (547, 547),
     (509, 587), (541, 557), (523, 577), (509, 593), (547, 557), (499, 607),
     (521, 587), (547, 563), (541, 571), (557, 557), (547, 569), (547, 571),
     (557, 563), (523, 599), (547, 577), (563, 563), (557, 571), (523, 607),
     (563, 569), (563, 571), (523, 613), (569, 569), (569, 571), (571, 571),
     (557, 587), (569, 577), (571, 577), (563, 587), (521, 631), (577, 577),
     (569, 587), (571, 587), (547, 613), (569, 593), (577, 587), (547, 619),
     (569, 599), (577, 593), (571, 601), (587, 587), (577, 599), (577, 601),
     (587, 593), (569, 613), (577, 607), (593, 593), (587, 601), (577, 613),
     (593, 599), (593, 601), (577, 619), (599, 599), (599, 601), (601, 601)]"

lemma rows_ok_3: "rows_from 450 goldbach_rows_3" "length goldbach_rows_3 = 150"
  by (simp_all add: goldbach_rows_3_def)

definition goldbach_rows_4 :: "(nat \<times> nat) list" where
  "goldbach_rows_4 =
    [
     (587, 617), (599, 607), (601, 607), (593, 617), (599, 613), (607, 607),
     (599, 617), (601, 617), (607, 613), (569, 653), (607, 617), (613, 613),
     (587, 641), (613, 617), (613, 619), (617, 617), (617, 619), (619, 619),
     (599, 641), (601, 641), (613, 631), (599, 647), (617, 631), (619, 631),
     (599, 653), (613, 641), (613, 643), (617, 641), (619, 641), (631, 631),
     (617, 647), (619, 647), (607, 661), (617, 653), (631, 641), (631, 643),
     (617, 659), (631, 647), (619, 661), (641, 641), (641, 643), (643, 643),
     (641, 647), (643, 647), (631, 661), (647, 647), (643, 653), (607, 691),
     (647, 653), (643, 659), (643, 661), (653, 653), (647, 661), (619, 691),
     (653, 659), (653, 661), (643, 673), (659, 659), (659, 661), (661, 661),
     (647, 677), (653, 673), (619, 709), (653, 677), (659, 673), (661, 673),
     (659, 677), (661, 677), (631, 709), (659, 683), (661, 683), (673, 673),
     (647, 701), (673, 677), (661, 691), (677, 677), (673, 683), (631, 727),
     (677, 683), (661, 701), (673, 691), (683, 683), (677, 691), (661, 709),
     (653, 719), (683, 691), (643, 733), (677, 701), (661, 719), (691, 691),
     (683, 701), (677, 709), (661, 727), (647, 743), (691, 701), (661, 733),
     (677, 719), (659, 739), (691, 709), (701, 701), (677, 727), (673, 733),
     (647, 761), (701, 709), (673, 739), (653, 761), (683, 733), (709, 709),
     (701, 719), (683, 739), (691, 733), (683, 743), (709, 719), (691, 739),
     (659, 773), (701, 733), (709, 727), (719, 719), (701, 739), (709, 733),
     (701, 743), (719, 727), (709, 739), (677, 773), (719, 733), (727, 727),
     (683, 773), (719, 739), (727, 733), (719, 743), (691, 773), (733, 733),
     (659, 809), (727, 743), (733, 739), (701, 773), (733, 743), (739, 739),
     (719, 761), (739, 743), (733, 751), (743, 743), (727, 761), (739, 751),
     (719, 773), (743, 751), (739, 757), (701, 797), (743, 757), (751, 751)]"

lemma rows_ok_4: "rows_from 600 goldbach_rows_4" "length goldbach_rows_4 = 150"
  by (simp_all add: goldbach_rows_4_def)

definition goldbach_rows_5 :: "(nat \<times> nat) list" where
  "goldbach_rows_5 =
    [
     (743, 761), (733, 773), (751, 757), (701, 809), (751, 761), (757, 757),
     (743, 773), (757, 761), (751, 769), (761, 761), (751, 773), (757, 769),
     (719, 809), (761, 769), (709, 823), (761, 773), (739, 797), (769, 769),
     (743, 797), (769, 773), (757, 787), (773, 773), (761, 787), (739, 811),
     (743, 809), (757, 797), (769, 787), (761, 797), (773, 787), (751, 811),
     (743, 821), (769, 797), (757, 811), (773, 797), (761, 811), (787, 787),
     (719, 857), (769, 809), (769, 811), (773, 809), (787, 797), (757, 829),
     (761, 827), (769, 821), (769, 823), (797, 797), (787, 809), (787, 811),
     (773, 827), (773, 829), (751, 853), (797, 809), (797, 811), (787, 823),
     (773, 839), (787, 827), (787, 829), (809, 809), (809, 811), (811, 811),
     (797, 827), (797, 829), (769, 859), (809, 821), (811, 821), (811, 823),
     (809, 827), (811, 827), (811, 829), (821, 821), (821, 823), (823, 823),
     (821, 827), (823, 827), (823, 829), (827, 827), (827, 829), (829, 829),
     (821, 839), (823, 839), (811, 853), (827, 839), (829, 839), (811, 859),
     (809, 863), (821, 853), (823, 853), (839, 839), (827, 853), (829, 853),
     (827, 857), (829, 857), (829, 859), (827, 863), (839, 853), (811, 883),
     (839, 857), (839, 859), (823, 877), (839, 863), (827, 877), (853, 853),
     (827, 881), (853, 857), (853, 859), (857, 857), (857, 859), (859, 859),
     (857, 863), (859, 863), (787, 937), (863, 863), (821, 907), (853, 877),
     (821, 911), (857, 877), (859, 877), (857, 881), (863, 877), (859, 883),
     (863, 881), (863, 883), (829, 919), (863, 887), (823, 929), (877, 877),
     (827, 929), (877, 881), (877, 883), (881, 881), (881, 883), (883, 883),
     (881, 887), (883, 887), (853, 919), (887, 887), (857, 919), (859, 919),
     (839, 941), (863, 919), (877, 907), (857, 929), (881, 907), (883, 907),
     (881, 911), (887, 907), (877, 919), (887, 911), (881, 919), (883, 919)]"

lemma rows_ok_5: "rows_from 750 goldbach_rows_5" "length goldbach_rows_5 = 150"
  by (simp_all add: goldbach_rows_5_def)

definition goldbach_rows_6 :: "(nat \<times> nat) list" where
  "goldbach_rows_6 =
    [
     (863, 941), (887, 919), (811, 997), (881, 929), (883, 929), (907, 907),
     (887, 929), (907, 911), (883, 937), (911, 911), (887, 937), (907, 919),
     (887, 941), (911, 919), (823, 1009), (887, 947), (907, 929), (919, 919),
     (911, 929), (859, 983), (907, 937), (863, 983), (919, 929), (883, 967),
     (911, 941), (907, 947), (919, 937), (929, 929), (919, 941), (853, 1009),
     (911, 953), (929, 937), (877, 991), (929, 941), (919, 953), (937, 937),
     (929, 947), (937, 941), (883, 997), (941, 941), (937, 947), (919, 967),
     (941, 947), (937, 953), (883, 1009), (947, 947), (929, 967), (907, 991),
     (947, 953), (919, 983), (937, 967), (953, 953), (941, 967), (919, 991),
     (941, 971), (947, 967), (919, 997), (947, 971), (953, 967), (883, 1039),
     (953, 971), (929, 997), (937, 991), (953, 977), (941, 991), (967, 967),
     (953, 983), (967, 971), (919, 1021), (971, 971), (967, 977), (937, 1009),
     (971, 977), (967, 983), (919, 1033), (977, 977), (947, 1009), (967, 991),
     (977, 983), (971, 991), (967, 997), (983, 983), (977, 991), (937, 1033),
     (953, 1019), (983, 991), (967, 1009), (947, 1031), (983, 997), (991, 991),
     (971, 1013), (977, 1009), (991, 997), (977, 1013), (983, 1009), (997, 997),
     (983, 1013), (977, 1021), (991, 1009), (983, 1019), (991, 1013), (997, 1009),
     (977, 1031), (997, 1013), (991, 1021), (983, 1031), (997, 1019), (1009, 1009),
     (971, 1049), (1009, 1013), (991, 1033), (1013, 1013), (1009, 1019), (1009, 1021),
     (1013, 1019), (1013, 1021), (997, 1039), (1019, 1019), (1019, 1021), (1021, 1021),
     (1013, 1031), (1013, 1033), (1009, 1039), (1019, 1031), (1021, 1031), (1021, 1033),
     (953, 1103), (1019, 1039), (1021, 1039), (1031, 1031), (1031, 1033), (1033, 1033),
     (1019, 1049), (1031, 1039), (1033, 1039), (1013, 1061), (1013, 1063), (1039, 1039),
     (1031, 1049), (1033, 1049), (1033, 1051), (983, 1103), (1039, 1049), (1039, 1051),
     (1031, 1061), (1033, 1061), (1033, 1063), (1049, 1049), (1049, 1051), (1051, 1051)]"

lemma rows_ok_6: "rows_from 900 goldbach_rows_6" "length goldbach_rows_6 = 150"
  by (simp_all add: goldbach_rows_6_def)

definition goldbach_rows_7 :: "(nat \<times> nat) list" where
  "goldbach_rows_7 =
    [
     (1013, 1091), (1019, 1087), (1039, 1069), (1049, 1061), (1051, 1061), (1051, 1063),
     (1019, 1097), (1049, 1069), (1051, 1069), (1061, 1061), (1061, 1063), (1063, 1063),
     (1031, 1097), (1061, 1069), (1063, 1069), (1031, 1103), (1049, 1087), (1069, 1069),
     (1049, 1091), (1051, 1091), (1051, 1093), (1049, 1097), (1061, 1087), (1063, 1087),
     (1061, 1091), (1063, 1091), (1069, 1087), (1061, 1097), (1069, 1091), (1069, 1093),
     (1061, 1103), (1069, 1097), (1051, 1117), (1061, 1109), (1069, 1103), (1087, 1087),
     (1013, 1163), (1087, 1091), (1087, 1093), (1091, 1091), (1091, 1093), (1093, 1093),
     (1091, 1097), (1093, 1097), (1069, 1123), (1097, 1097), (1093, 1103), (1069, 1129),
     (1097, 1103), (1093, 1109), (1087, 1117), (1103, 1103), (1091, 1117), (1093, 1117),
     (1103, 1109), (1097, 1117), (1093, 1123), (1109, 1109), (1103, 1117), (1093, 1129),
     (1061, 1163), (1109, 1117), (997, 1231), (1049, 1181), (1109, 1123), (1117, 1117),
     (1049, 1187), (1109, 1129), (1117, 1123), (1091, 1151), (1093, 1151), (1123, 1123),
     (1097, 1151), (1097, 1153), (1123, 1129), (1103, 1151), (1103, 1153), (1129, 1129),
     (1109, 1151), (1109, 1153), (1093, 1171), (1103, 1163), (1117, 1151), (1117, 1153),
     (1109, 1163), (1123, 1151), (1123, 1153), (1097, 1181), (1129, 1151), (1129, 1153),
     (1103, 1181), (1123, 1163), (1117, 1171), (1109, 1181), (1129, 1163), (1123, 1171),
     (1109, 1187), (1117, 1181), (1129, 1171), (1151, 1151), (1151, 1153), (1153, 1153),
     (1091, 1217), (1129, 1181), (1063, 1249), (1151, 1163), (1153, 1163), (1117, 1201),
     (1103, 1217), (1151, 1171), (1153, 1171), (1163, 1163), (1097, 1231), (1129, 1201),
     (1151, 1181), (1163, 1171), (1123, 1213), (1151, 1187), (1153, 1187), (1171, 1171),
     (1163, 1181), (1153, 1193), (1117, 1231), (1163, 1187), (1171, 1181), (1153, 1201),
     (1163, 1193), (1171, 1187), (1129, 1231), (1181, 1181), (1171, 1193), (1153, 1213),
     (1181, 1187), (1153, 1217), (1171, 1201), (1187, 1187), (1163, 1213), (1129, 1249),
     (1187, 1193), (1181, 1201), (1171, 1213), (1193, 1193), (1187, 1201), (1153, 1237),
     (1163, 1229), (1193, 1201), (1117, 1279), (1181, 1217), (1187, 1213), (1201, 1201)]"

lemma rows_ok_7: "rows_from 1050 goldbach_rows_7" "length goldbach_rows_7 = 150"
  by (simp_all add: goldbach_rows_7_def)

definition goldbach_rows_8 :: "(nat \<times> nat) list" where
  "goldbach_rows_8 =
    [
     (1187, 1217), (1193, 1213), (1171, 1237), (1193, 1217), (1181, 1231), (1201, 1213),
     (1193, 1223), (1201, 1217), (1171, 1249), (1193, 1229), (1201, 1223), (1213, 1213),
     (1151, 1277), (1213, 1217), (1201, 1231), (1217, 1217), (1213, 1223), (1201, 1237),
     (1217, 1223), (1213, 1229), (1213, 1231), (1223, 1223), (1217, 1231), (1213, 1237),
     (1223, 1229), (1223, 1231), (1153, 1303), (1229, 1229), (1229, 1231), (1231, 1231),
     (1187, 1277), (1229, 1237), (1231, 1237), (1193, 1277), (1223, 1249), (1237, 1237),
     (1217, 1259), (1229, 1249), (1231, 1249), (1223, 1259), (1201, 1283), (1237, 1249),
     (1229, 1259), (1231, 1259), (1213, 1279), (1217, 1277), (1237, 1259), (1249, 1249),
     (1223, 1277), (1223, 1279), (1213, 1291), (1229, 1277), (1249, 1259), (1231, 1279),
     (1229, 1283), (1237, 1277), (1237, 1279), (1259, 1259), (1237, 1283), (1231, 1291),
     (1223, 1301), (1249, 1277), (1249, 1279), (1229, 1301), (1249, 1283), (1237, 1297),
     (1259, 1277), (1259, 1279), (1249, 1291), (1259, 1283), (1237, 1307), (1249, 1297),
     (1259, 1289), (1259, 1291), (1249, 1303), (1277, 1277), (1277, 1279), (1279, 1279),
     (1277, 1283), (1279, 1283), (1237, 1327), (1283, 1283), (1279, 1289), (1279, 1291),
     (1283, 1289), (1283, 1291), (1279, 1297), (1289, 1289), (1289, 1291), (1291, 1291),
     (1283, 1301), (1289, 1297), (1291, 1297), (1289, 1301), (1291, 1301), (1297, 1297),
     (1289, 1307), (1297, 1301), (1297, 1303), (1301, 1301), (1301, 1303), (1303, 1303),
     (1301, 1307), (1303, 1307), (1291, 1321), (1307, 1307), (1297, 1319), (1297, 1321),
     (1301, 1319), (1303, 1319), (1303, 1321), (1307, 1319), (1307, 1321), (1303, 1327),
     (1259, 1373), (1307, 1327), (1237, 1399), (1319, 1319), (1319, 1321), (1321, 1321),
     (1283, 1361), (1319, 1327), (1321, 1327), (1289, 1361), (1291, 1361), (1327, 1327),
     (1289, 1367), (1297, 1361), (1279, 1381), (1301, 1361), (1303, 1361), (1237, 1429),
     (1307, 1361), (1303, 1367), (1291, 1381), (1307, 1367), (1303, 1373), (1297, 1381),
     (1319, 1361), (1321, 1361), (1303, 1381), (1319, 1367), (1327, 1361), (1291, 1399),
     (1319, 1373), (1327, 1367), (1297, 1399), (1289, 1409), (1327, 1373), (1321, 1381)]"

lemma rows_ok_8: "rows_from 1200 goldbach_rows_8" "length goldbach_rows_8 = 150"
  by (simp_all add: goldbach_rows_8_def)

definition goldbach_rows_9 :: "(nat \<times> nat) list" where
  "goldbach_rows_9 =
    [
     (1277, 1427), (1307, 1399), (1327, 1381), (1301, 1409), (1303, 1409), (1291, 1423),
     (1307, 1409), (1319, 1399), (1321, 1399), (1361, 1361), (1301, 1423), (1327, 1399),
     (1361, 1367), (1321, 1409), (1303, 1429), (1367, 1367), (1327, 1409), (1291, 1447),
     (1367, 1373), (1361, 1381), (1321, 1423), (1373, 1373), (1367, 1381), (1327, 1423),
     (1319, 1433), (1373, 1381), (1327, 1429), (1319, 1439), (1361, 1399), (1381, 1381),
     (1283, 1481), (1367, 1399), (1321, 1447), (1361, 1409), (1373, 1399), (1327, 1447),
     (1367, 1409), (1327, 1451), (1381, 1399), (1373, 1409), (1361, 1423), (1327, 1459),
     (1361, 1427), (1381, 1409), (1321, 1471), (1367, 1427), (1373, 1423), (1399, 1399),
     (1373, 1427), (1373, 1429), (1381, 1423), (1373, 1433), (1399, 1409), (1381, 1429),
     (1373, 1439), (1381, 1433), (1327, 1489), (1409, 1409), (1381, 1439), (1399, 1423),
     (1373, 1451), (1399, 1427), (1399, 1429), (1319, 1511), (1409, 1423), (1381, 1453),
     (1409, 1427), (1409, 1429), (1381, 1459), (1409, 1433), (1373, 1471), (1423, 1423),
     (1409, 1439), (1423, 1427), (1423, 1429), (1427, 1427), (1427, 1429), (1429, 1429),
     (1427, 1433), (1429, 1433), (1381, 1483), (1433, 1433), (1429, 1439), (1423, 1447),
     (1433, 1439), (1427, 1447), (1429, 1447), (1439, 1439), (1433, 1447), (1429, 1453),
     (1433, 1451), (1439, 1447), (1429, 1459), (1439, 1451), (1439, 1453), (1447, 1447),
     (1409, 1487), (1447, 1451), (1447, 1453), (1451, 1451), (1451, 1453), (1453, 1453),
     (1427, 1481), (1451, 1459), (1453, 1459), (1433, 1481), (1433, 1483), (1459, 1459),
     (1439, 1481), (1451, 1471), (1453, 1471), (1439, 1487), (1447, 1481), (1459, 1471),
     (1451, 1481), (1453, 1481), (1453, 1483), (1451, 1487), (1459, 1481), (1471, 1471),
     (1451, 1493), (1459, 1487), (1459, 1489), (1451, 1499), (1471, 1481), (1471, 1483),
     (1433, 1523), (1471, 1487), (1471, 1489), (1481, 1481), (1481, 1483), (1483, 1483),
     (1481, 1487), (1483, 1487), (1483, 1489), (1487, 1487), (1487, 1489), (1489, 1489),
     (1487, 1493), (1489, 1493), (1453, 1531), (1493, 1493), (1489, 1499), (1459, 1531),
     (1493, 1499), (1483, 1511), (1453, 1543), (1499, 1499), (1489, 1511), (1471, 1531)]"

lemma rows_ok_9: "rows_from 1350 goldbach_rows_9" "length goldbach_rows_9 = 150"
  by (simp_all add: goldbach_rows_9_def)

definition goldbach_rows_10 :: "(nat \<times> nat) list" where
  "goldbach_rows_10 =
    [
     (1493, 1511), (1483, 1523), (1459, 1549), (1499, 1511), (1489, 1523), (1483, 1531),
     (1493, 1523), (1487, 1531), (1489, 1531), (1511, 1511), (1493, 1531), (1483, 1543),
     (1427, 1601), (1499, 1531), (1489, 1543), (1511, 1523), (1493, 1543), (1489, 1549),
     (1487, 1553), (1511, 1531), (1447, 1597), (1523, 1523), (1499, 1549), (1483, 1567),
     (1499, 1553), (1523, 1531), (1489, 1567), (1499, 1559), (1511, 1549), (1531, 1531),
     (1511, 1553), (1523, 1543), (1489, 1579), (1511, 1559), (1523, 1549), (1531, 1543),
     (1523, 1553), (1511, 1567), (1531, 1549), (1523, 1559), (1531, 1553), (1543, 1543),
     (1487, 1601), (1531, 1559), (1543, 1549), (1523, 1571), (1543, 1553), (1549, 1549),
     (1499, 1601), (1549, 1553), (1483, 1621), (1553, 1553), (1549, 1559), (1543, 1567),
     (1553, 1559), (1543, 1571), (1549, 1567), (1559, 1559), (1553, 1567), (1543, 1579),
     (1553, 1571), (1559, 1567), (1549, 1579), (1559, 1571), (1553, 1579), (1567, 1567),
     (1553, 1583), (1567, 1571), (1543, 1597), (1571, 1571), (1543, 1601), (1567, 1579),
     (1511, 1637), (1571, 1579), (1543, 1609), (1571, 1583), (1559, 1597), (1579, 1579),
     (1559, 1601), (1579, 1583), (1567, 1597), (1583, 1583), (1571, 1597), (1549, 1621),
     (1571, 1601), (1567, 1607), (1579, 1597), (1571, 1607), (1583, 1597), (1489, 1693),
     (1583, 1601), (1579, 1607), (1579, 1609), (1583, 1607), (1583, 1609), (1597, 1597),
     (1583, 1613), (1597, 1601), (1579, 1621), (1601, 1601), (1597, 1607), (1597, 1609),
     (1601, 1607), (1601, 1609), (1549, 1663), (1607, 1607), (1607, 1609), (1609, 1609),
     (1607, 1613), (1609, 1613), (1597, 1627), (1613, 1613), (1609, 1619), (1609, 1621),
     (1613, 1619), (1613, 1621), (1609, 1627), (1619, 1619), (1619, 1621), (1621, 1621),
     (1607, 1637), (1619, 1627), (1621, 1627), (1613, 1637), (1583, 1669), (1627, 1627),
     (1619, 1637), (1621, 1637), (1597, 1663), (1553, 1709), (1627, 1637), (1609, 1657),
     (1601, 1667), (1613, 1657), (1609, 1663), (1637, 1637), (1619, 1657), (1621, 1657),
     (1613, 1667), (1619, 1663), (1627, 1657), (1619, 1667), (1621, 1667), (1627, 1663),
     (1583, 1709), (1637, 1657), (1627, 1669), (1601, 1697), (1637, 1663), (1609, 1693)]"

lemma rows_ok_10: "rows_from 1500 goldbach_rows_10" "length goldbach_rows_10 = 150"
  by (simp_all add: goldbach_rows_10_def)

definition goldbach_rows_11 :: "(nat \<times> nat) list" where
  "goldbach_rows_11 =
    [
     (1637, 1667), (1637, 1669), (1609, 1699), (1613, 1697), (1619, 1693), (1657, 1657),
     (1619, 1697), (1621, 1697), (1657, 1663), (1613, 1709), (1657, 1667), (1663, 1663),
     (1619, 1709), (1663, 1667), (1663, 1669), (1667, 1667), (1667, 1669), (1669, 1669),
     (1619, 1721), (1621, 1721), (1621, 1723), (1637, 1709), (1627, 1721), (1657, 1693),
     (1619, 1733), (1657, 1697), (1663, 1693), (1637, 1721), (1667, 1693), (1669, 1693),
     (1667, 1697), (1669, 1697), (1669, 1699), (1637, 1733), (1663, 1709), (1627, 1747),
     (1667, 1709), (1669, 1709), (1657, 1723), (1571, 1811), (1663, 1721), (1693, 1693),
     (1667, 1721), (1693, 1697), (1693, 1699), (1697, 1697), (1697, 1699), (1699, 1699),
     (1667, 1733), (1693, 1709), (1663, 1741), (1697, 1709), (1699, 1709), (1669, 1741),
     (1601, 1811), (1693, 1721), (1693, 1723), (1709, 1709), (1699, 1721), (1699, 1723),
     (1637, 1787), (1693, 1733), (1669, 1759), (1709, 1721), (1709, 1723), (1693, 1741),
     (1613, 1823), (1697, 1741), (1699, 1741), (1721, 1721), (1721, 1723), (1723, 1723),
     (1637, 1811), (1709, 1741), (1699, 1753), (1721, 1733), (1723, 1733), (1699, 1759),
     (1637, 1823), (1721, 1741), (1723, 1741), (1733, 1733), (1721, 1747), (1723, 1747),
     (1601, 1871), (1733, 1741), (1723, 1753), (1667, 1811), (1733, 1747), (1741, 1741),
     (1697, 1787), (1733, 1753), (1741, 1747), (1667, 1823), (1733, 1759), (1747, 1747),
     (1709, 1787), (1721, 1777), (1747, 1753), (1613, 1889), (1721, 1783), (1753, 1753),
     (1721, 1787), (1733, 1777), (1753, 1759), (1667, 1847), (1733, 1783), (1759, 1759),
     (1733, 1787), (1733, 1789), (1747, 1777), (1637, 1889), (1741, 1787), (1753, 1777),
     (1721, 1811), (1747, 1787), (1759, 1777), (1667, 1871), (1753, 1787), (1759, 1783),
     (1733, 1811), (1759, 1787), (1759, 1789), (1637, 1913), (1741, 1811), (1777, 1777),
     (1733, 1823), (1747, 1811), (1777, 1783), (1613, 1949), (1777, 1787), (1783, 1783),
     (1721, 1847), (1783, 1787), (1783, 1789), (1787, 1787), (1787, 1789), (1789, 1789),
     (1733, 1847), (1759, 1823), (1783, 1801), (1709, 1877), (1787, 1801), (1789, 1801),
     (1721, 1871), (1783, 1811), (1723, 1873), (1787, 1811), (1789, 1811), (1801, 1801)]"

lemma rows_ok_11: "rows_from 1650 goldbach_rows_11" "length goldbach_rows_11 = 150"
  by (simp_all add: goldbach_rows_11_def)

definition goldbach_rows_12 :: "(nat \<times> nat) list" where
  "goldbach_rows_12 =
    [
     (1733, 1871), (1783, 1823), (1777, 1831), (1787, 1823), (1801, 1811), (1783, 1831),
     (1709, 1907), (1787, 1831), (1789, 1831), (1811, 1811), (1801, 1823), (1759, 1867),
     (1721, 1907), (1783, 1847), (1801, 1831), (1811, 1823), (1789, 1847), (1777, 1861),
     (1733, 1907), (1811, 1831), (1783, 1861), (1823, 1823), (1801, 1847), (1789, 1861),
     (1721, 1931), (1823, 1831), (1789, 1867), (1811, 1847), (1789, 1871), (1831, 1831),
     (1787, 1877), (1789, 1877), (1801, 1867), (1823, 1847), (1811, 1861), (1801, 1873),
     (1787, 1889), (1831, 1847), (1801, 1879), (1811, 1871), (1823, 1861), (1753, 1933),
     (1811, 1877), (1823, 1867), (1831, 1861), (1847, 1847), (1823, 1873), (1831, 1867),
     (1823, 1877), (1831, 1871), (1831, 1873), (1733, 1973), (1847, 1861), (1831, 1879),
     (1823, 1889), (1847, 1867), (1783, 1933), (1847, 1871), (1847, 1873), (1861, 1861),
     (1847, 1877), (1847, 1879), (1861, 1867), (1823, 1907), (1861, 1871), (1867, 1867),
     (1847, 1889), (1867, 1871), (1867, 1873), (1871, 1871), (1871, 1873), (1873, 1873),
     (1871, 1877), (1873, 1877), (1873, 1879), (1877, 1877), (1877, 1879), (1879, 1879),
     (1871, 1889), (1873, 1889), (1831, 1933), (1877, 1889), (1879, 1889), (1783, 1987),
     (1871, 1901), (1873, 1901), (1789, 1987), (1889, 1889), (1879, 1901), (1831, 1951),
     (1877, 1907), (1879, 1907), (1801, 1987), (1889, 1901), (1879, 1913), (1861, 1933),
     (1889, 1907), (1867, 1931), (1867, 1933), (1901, 1901), (1873, 1931), (1873, 1933),
     (1901, 1907), (1879, 1931), (1879, 1933), (1907, 1907), (1867, 1949), (1867, 1951),
     (1907, 1913), (1889, 1933), (1873, 1951), (1913, 1913), (1879, 1949), (1879, 1951),
     (1901, 1931), (1901, 1933), (1783, 2053), (1907, 1931), (1907, 1933), (1831, 2011),
     (1913, 1931), (1913, 1933), (1861, 1987), (1901, 1949), (1901, 1951), (1867, 1987),
     (1907, 1949), (1907, 1951), (1873, 1987), (1931, 1931), (1931, 1933), (1933, 1933),
     (1889, 1979), (1877, 1993), (1879, 1993), (1901, 1973), (1889, 1987), (1879, 1999),
     (1931, 1949), (1933, 1949), (1933, 1951), (1913, 1973), (1901, 1987), (1879, 2011),
     (1913, 1979), (1907, 1987), (1879, 2017), (1949, 1949), (1949, 1951), (1951, 1951)]"

lemma rows_ok_12: "rows_from 1800 goldbach_rows_12" "length goldbach_rows_12 = 150"
  by (simp_all add: goldbach_rows_12_def)

definition goldbach_rows_13 :: "(nat \<times> nat) list" where
  "goldbach_rows_13 =
    [
     (1931, 1973), (1933, 1973), (1879, 2029), (1931, 1979), (1933, 1979), (1861, 2053),
     (1913, 2003), (1931, 1987), (1933, 1987), (1949, 1973), (1951, 1973), (1933, 1993),
     (1949, 1979), (1951, 1979), (1933, 1999), (1931, 2003), (1949, 1987), (1951, 1987),
     (1913, 2027), (1949, 1993), (1951, 1993), (1973, 1973), (1951, 1997), (1951, 1999),
     (1973, 1979), (1951, 2003), (1873, 2083), (1979, 1979), (1973, 1987), (1951, 2011),
     (1901, 2063), (1979, 1987), (1951, 2017), (1973, 1997), (1979, 1993), (1987, 1987),
     (1979, 1997), (1979, 1999), (1987, 1993), (1979, 2003), (1987, 1997), (1993, 1993),
     (1949, 2039), (1993, 1997), (1993, 1999), (1997, 1997), (1997, 1999), (1999, 1999),
     (1997, 2003), (1999, 2003), (1993, 2011), (2003, 2003), (1997, 2011), (1999, 2011),
     (1973, 2039), (2003, 2011), (1999, 2017), (1979, 2039), (2003, 2017), (2011, 2011),
     (1997, 2027), (1999, 2027), (2011, 2017), (2003, 2027), (2003, 2029), (2017, 2017),
     (1997, 2039), (2011, 2027), (2011, 2029), (2003, 2039), (2017, 2027), (2017, 2029),
     (1979, 2069), (2011, 2039), (1999, 2053), (2027, 2027), (2027, 2029), (2029, 2029),
     (1997, 2063), (1999, 2063), (2011, 2053), (2027, 2039), (2029, 2039), (2017, 2053),
     (2003, 2069), (2011, 2063), (1993, 2083), (2039, 2039), (2027, 2053), (2029, 2053),
     (2003, 2081), (2017, 2069), (1999, 2089), (2027, 2063), (2039, 2053), (2011, 2083),
     (2027, 2069), (2029, 2069), (2017, 2083), (2039, 2063), (2017, 2087), (2053, 2053),
     (2039, 2069), (2029, 2081), (2029, 2083), (2027, 2087), (2053, 2063), (2029, 2089),
     (2039, 2081), (2053, 2069), (2011, 2113), (2063, 2063), (2039, 2089), (2017, 2113),
     (2063, 2069), (2053, 2081), (2053, 2083), (2069, 2069), (2053, 2087), (2053, 2089),
     (2063, 2081), (2063, 2083), (2017, 2131), (2069, 2081), (2069, 2083), (2017, 2137),
     (2069, 2087), (2069, 2089), (2029, 2131), (2081, 2081), (2081, 2083), (2083, 2083),
     (2081, 2087), (2083, 2087), (2083, 2089), (2087, 2087), (2087, 2089), (2089, 2089),
     (2081, 2099), (2083, 2099), (2053, 2131), (2087, 2099), (2089, 2099), (2053, 2137),
     (2081, 2111), (2083, 2111), (2083, 2113), (2099, 2099), (2089, 2111), (2089, 2113)]"

lemma rows_ok_13: "rows_from 1950 goldbach_rows_13" "length goldbach_rows_13 = 150"
  by (simp_all add: goldbach_rows_13_def)

definition goldbach_rows_14 :: "(nat \<times> nat) list" where
  "goldbach_rows_14 =
    [
     (2063, 2141), (2069, 2137), (2029, 2179), (2099, 2111), (2099, 2113), (2083, 2131),
     (2087, 2129), (2089, 2129), (2089, 2131), (2111, 2111), (2111, 2113), (2113, 2113),
     (2099, 2129), (2099, 2131), (2089, 2143), (2081, 2153), (2099, 2137), (2017, 2221),
     (2111, 2129), (2113, 2129), (2113, 2131), (2039, 2207), (2111, 2137), (2113, 2137),
     (2111, 2141), (2113, 2141), (2113, 2143), (2129, 2129), (2129, 2131), (2131, 2131),
     (2111, 2153), (2129, 2137), (2131, 2137), (2129, 2141), (2131, 2141), (2137, 2137),
     (2069, 2207), (2137, 2141), (2137, 2143), (2141, 2141), (2141, 2143), (2143, 2143),
     (2081, 2207), (2137, 2153), (2131, 2161), (2141, 2153), (2143, 2153), (2137, 2161),
     (2087, 2213), (2141, 2161), (2143, 2161), (2153, 2153), (2129, 2179), (2131, 2179),
     (2099, 2213), (2153, 2161), (2137, 2179), (2111, 2207), (2141, 2179), (2161, 2161),
     (2111, 2213), (2113, 2213), (2089, 2239), (2087, 2243), (2153, 2179), (2131, 2203),
     (2129, 2207), (2131, 2207), (2161, 2179), (2129, 2213), (2141, 2203), (2143, 2203),
     (2141, 2207), (2143, 2207), (2131, 2221), (2141, 2213), (2153, 2203), (2179, 2179),
     (2153, 2207), (2141, 2221), (2161, 2203), (2153, 2213), (2161, 2207), (2131, 2239),
     (2129, 2243), (2161, 2213), (2137, 2239), (2141, 2237), (2143, 2237), (2179, 2203),
     (2141, 2243), (2179, 2207), (2137, 2251), (2153, 2237), (2179, 2213), (2143, 2251),
     (2153, 2243), (2161, 2237), (2179, 2221), (2129, 2273), (2161, 2243), (2203, 2203),
     (2141, 2267), (2203, 2207), (2161, 2251), (2207, 2207), (2203, 2213), (2179, 2239),
     (2207, 2213), (2179, 2243), (2203, 2221), (2213, 2213), (2207, 2221), (2179, 2251),
     (2099, 2333), (2213, 2221), (2143, 2293), (2141, 2297), (2203, 2237), (2221, 2221),
     (2207, 2237), (2207, 2239), (2179, 2269), (2213, 2237), (2213, 2239), (2203, 2251),
     (2213, 2243), (2221, 2237), (2221, 2239), (2153, 2309), (2221, 2243), (2179, 2287),
     (2129, 2339), (2203, 2267), (2221, 2251), (2237, 2237), (2237, 2239), (2239, 2239),
     (2237, 2243), (2239, 2243), (2203, 2281), (2243, 2243), (2237, 2251), (2239, 2251),
     (2153, 2339), (2243, 2251), (2203, 2293), (2141, 2357), (2213, 2287), (2251, 2251)]"

lemma rows_ok_14: "rows_from 2100 goldbach_rows_14" "length goldbach_rows_14 = 150"
  by (simp_all add: goldbach_rows_14_def)

definition goldbach_rows_15 :: "(nat \<times> nat) list" where
  "goldbach_rows_15 =
    [
     (2237, 2267), (2239, 2267), (2239, 2269), (2243, 2267), (2243, 2269), (2221, 2293),
     (2243, 2273), (2251, 2267), (2251, 2269), (2213, 2309), (2251, 2273), (2239, 2287),
     (2129, 2399), (2243, 2287), (2251, 2281), (2267, 2267), (2267, 2269), (2269, 2269),
     (2267, 2273), (2269, 2273), (2251, 2293), (2273, 2273), (2267, 2281), (2269, 2281),
     (2243, 2309), (2273, 2281), (2269, 2287), (2207, 2351), (2273, 2287), (2281, 2281),
     (2267, 2297), (2273, 2293), (2281, 2287), (2273, 2297), (2239, 2333), (2287, 2287),
     (2267, 2309), (2281, 2297), (2287, 2293), (2273, 2309), (2287, 2297), (2293, 2293),
     (2237, 2351), (2293, 2297), (2281, 2311), (2297, 2297), (2287, 2309), (2287, 2311),
     (2267, 2333), (2293, 2309), (2293, 2311), (2297, 2309), (2297, 2311), (2269, 2341),
     (2273, 2339), (2281, 2333), (2269, 2347), (2309, 2309), (2309, 2311), (2311, 2311),
     (2273, 2351), (2293, 2333), (2287, 2341), (2297, 2333), (2293, 2339), (2293, 2341),
     (2297, 2339), (2297, 2341), (2293, 2347), (2309, 2333), (2311, 2333), (2269, 2377),
     (2309, 2339), (2311, 2339), (2311, 2341), (2297, 2357), (2309, 2347), (2311, 2347),
     (2309, 2351), (2311, 2351), (2293, 2371), (2333, 2333), (2311, 2357), (2293, 2377),
     (2333, 2339), (2333, 2341), (2293, 2383), (2339, 2339), (2339, 2341), (2341, 2341),
     (2333, 2351), (2339, 2347), (2341, 2347), (2339, 2351), (2341, 2351), (2347, 2347),
     (2339, 2357), (2347, 2351), (2311, 2389), (2351, 2351), (2347, 2357), (2269, 2437),
     (2351, 2357), (2339, 2371), (2341, 2371), (2357, 2357), (2339, 2377), (2347, 2371),
     (2339, 2381), (2351, 2371), (2347, 2377), (2333, 2393), (2357, 2371), (2347, 2383),
     (2351, 2381), (2357, 2377), (2347, 2389), (2357, 2381), (2357, 2383), (2371, 2371),
     (2351, 2393), (2357, 2389), (2371, 2377), (2357, 2393), (2371, 2381), (2377, 2377),
     (2357, 2399), (2377, 2381), (2377, 2383), (2381, 2381), (2381, 2383), (2383, 2383),
     (2357, 2411), (2381, 2389), (2383, 2389), (2381, 2393), (2383, 2393), (2389, 2389),
     (2381, 2399), (2389, 2393), (2347, 2437), (2393, 2393), (2389, 2399), (2287, 2503),
     (2393, 2399), (2383, 2411), (2293, 2503), (2399, 2399), (2389, 2411), (2281, 2521)]"

lemma rows_ok_15: "rows_from 2250 goldbach_rows_15" "length goldbach_rows_15 = 150"
  by (simp_all add: goldbach_rows_15_def)

definition goldbach_rows_16 :: "(nat \<times> nat) list" where
  "goldbach_rows_16 =
    [
     (2393, 2411), (2389, 2417), (2371, 2437), (2399, 2411), (2389, 2423), (2377, 2437),
     (2399, 2417), (2381, 2437), (2383, 2437), (2411, 2411), (2383, 2441), (2389, 2437),
     (2411, 2417), (2393, 2437), (2311, 2521), (2417, 2417), (2399, 2437), (2371, 2467),
     (2417, 2423), (2383, 2459), (2377, 2467), (2423, 2423), (2411, 2437), (2383, 2467),
     (2411, 2441), (2417, 2437), (2389, 2467), (2417, 2441), (2423, 2437), (2389, 2473),
     (2423, 2441), (2399, 2467), (2347, 2521), (2423, 2447), (2399, 2473), (2437, 2437),
     (2417, 2459), (2437, 2441), (2377, 2503), (2441, 2441), (2437, 2447), (2383, 2503),
     (2441, 2447), (2423, 2467), (2389, 2503), (2447, 2447), (2437, 2459), (2377, 2521),
     (2441, 2459), (2399, 2503), (2437, 2467), (2447, 2459), (2441, 2467), (2437, 2473),
     (2381, 2531), (2447, 2467), (2377, 2539), (2459, 2459), (2447, 2473), (2383, 2539),
     (2447, 2477), (2459, 2467), (2389, 2539), (2399, 2531), (2459, 2473), (2467, 2467),
     (2459, 2477), (2417, 2521), (2467, 2473), (2411, 2531), (2467, 2477), (2473, 2473),
     (2417, 2531), (2473, 2477), (2293, 2659), (2477, 2477), (2417, 2539), (2437, 2521),
     (2417, 2543), (2459, 2503), (2371, 2593), (2423, 2543), (2447, 2521), (2467, 2503),
     (2441, 2531), (2423, 2551), (2473, 2503), (2447, 2531), (2477, 2503), (2389, 2593),
     (2441, 2543), (2447, 2539), (2467, 2521), (2459, 2531), (2441, 2551), (2473, 2521),
     (2447, 2549), (2477, 2521), (2383, 2617), (2459, 2543), (2473, 2531), (2503, 2503),
     (2477, 2531), (2467, 2543), (2473, 2539), (2423, 2591), (2477, 2539), (2467, 2551),
     (2477, 2543), (2473, 2549), (2503, 2521), (2477, 2549), (2477, 2551), (2473, 2557),
     (2441, 2591), (2503, 2531), (2389, 2647), (2459, 2579), (2447, 2593), (2521, 2521),
     (2423, 2621), (2503, 2543), (2389, 2659), (2459, 2591), (2521, 2531), (2503, 2551),
     (2477, 2579), (2467, 2591), (2521, 2539), (2531, 2531), (2521, 2543), (2473, 2593),
     (2477, 2591), (2531, 2539), (2521, 2551), (2531, 2543), (2467, 2609), (2539, 2539),
     (2531, 2549), (2539, 2543), (2467, 2617), (2543, 2543), (2539, 2549), (2539, 2551),
     (2543, 2549), (2543, 2551), (2539, 2557), (2549, 2549), (2549, 2551), (2551, 2551)]"

lemma rows_ok_16: "rows_from 2400 goldbach_rows_16" "length goldbach_rows_16 = 150"
  by (simp_all add: goldbach_rows_16_def)

definition goldbach_rows_17 :: "(nat \<times> nat) list" where
  "goldbach_rows_17 =
    [
     (2447, 2657), (2549, 2557), (2551, 2557), (2531, 2579), (2521, 2591), (2557, 2557),
     (2459, 2657), (2539, 2579), (2503, 2617), (2543, 2579), (2531, 2593), (2467, 2659),
     (2549, 2579), (2551, 2579), (2539, 2593), (2543, 2591), (2557, 2579), (2521, 2617),
     (2549, 2591), (2551, 2591), (2551, 2593), (2459, 2687), (2557, 2591), (2557, 2593),
     (2543, 2609), (2521, 2633), (2539, 2617), (2579, 2579), (2551, 2609), (2503, 2659),
     (2543, 2621), (2557, 2609), (2551, 2617), (2579, 2591), (2579, 2593), (2557, 2617),
     (2543, 2633), (2557, 2621), (2521, 2659), (2591, 2591), (2591, 2593), (2593, 2593),
     (2579, 2609), (2557, 2633), (2521, 2671), (2531, 2663), (2579, 2617), (2551, 2647),
     (2591, 2609), (2593, 2609), (2557, 2647), (2549, 2657), (2591, 2617), (2593, 2617),
     (2591, 2621), (2593, 2621), (2557, 2659), (2609, 2609), (2557, 2663), (2551, 2671),
     (2591, 2633), (2609, 2617), (2557, 2671), (2609, 2621), (2549, 2683), (2617, 2617),
     (2579, 2657), (2617, 2621), (2593, 2647), (2621, 2621), (2557, 2687), (2557, 2689),
     (2591, 2657), (2617, 2633), (2593, 2659), (2621, 2633), (2609, 2647), (2551, 2707),
     (2549, 2711), (2591, 2671), (2617, 2647), (2633, 2633), (2621, 2647), (2593, 2677),
     (2609, 2663), (2617, 2657), (2617, 2659), (2621, 2657), (2633, 2647), (2593, 2689),
     (2621, 2663), (2609, 2677), (2617, 2671), (2633, 2657), (2633, 2659), (2647, 2647),
     (2633, 2663), (2621, 2677), (2617, 2683), (2609, 2693), (2647, 2657), (2647, 2659),
     (2621, 2687), (2647, 2663), (2593, 2719), (2657, 2657), (2657, 2659), (2659, 2659),
     (2657, 2663), (2659, 2663), (2647, 2677), (2663, 2663), (2657, 2671), (2659, 2671),
     (2633, 2699), (2663, 2671), (2659, 2677), (2609, 2729), (2663, 2677), (2671, 2671),
     (2657, 2687), (2663, 2683), (2671, 2677), (2663, 2687), (2663, 2689), (2677, 2677),
     (2663, 2693), (2671, 2687), (2677, 2683), (2663, 2699), (2677, 2687), (2683, 2683),
     (2657, 2711), (2683, 2687), (2683, 2689), (2687, 2687), (2687, 2689), (2689, 2689),
     (2687, 2693), (2689, 2693), (2677, 2707), (2693, 2693), (2689, 2699), (2683, 2707),
     (2693, 2699), (2687, 2707), (2689, 2707), (2699, 2699), (2693, 2707), (2689, 2713)]"

lemma rows_ok_17: "rows_from 2550 goldbach_rows_17" "length goldbach_rows_17 = 150"
  by (simp_all add: goldbach_rows_17_def)

definition goldbach_rows_18 :: "(nat \<times> nat) list" where
  "goldbach_rows_18 =
    [
     (2693, 2711), (2699, 2707), (2689, 2719), (2699, 2711), (2699, 2713), (2707, 2707),
     (2687, 2729), (2707, 2711), (2707, 2713), (2711, 2711), (2711, 2713), (2713, 2713),
     (2699, 2729), (2711, 2719), (2713, 2719), (2693, 2741), (2707, 2729), (2719, 2719),
     (2711, 2729), (2713, 2729), (2713, 2731), (2693, 2753), (2719, 2729), (2719, 2731),
     (2711, 2741), (2713, 2741), (2707, 2749), (2729, 2729), (2729, 2731), (2731, 2731),
     (2711, 2753), (2713, 2753), (2719, 2749), (2729, 2741), (2731, 2741), (2707, 2767),
     (2699, 2777), (2729, 2749), (2731, 2749), (2741, 2741), (2731, 2753), (2719, 2767),
     (2711, 2777), (2741, 2749), (2689, 2803), (2741, 2753), (2729, 2767), (2749, 2749),
     (2711, 2789), (2749, 2753), (2713, 2791), (2753, 2753), (2741, 2767), (2719, 2791),
     (2711, 2801), (2713, 2801), (2749, 2767), (2741, 2777), (2753, 2767), (2731, 2791),
     (2687, 2837), (2749, 2777), (2731, 2797), (2753, 2777), (2741, 2791), (2767, 2767),
     (2699, 2837), (2749, 2789), (2749, 2791), (2753, 2789), (2767, 2777), (2749, 2797),
     (2729, 2819), (2753, 2797), (2749, 2803), (2777, 2777), (2767, 2789), (2767, 2791),
     (2741, 2819), (2729, 2833), (2767, 2797), (2777, 2789), (2777, 2791), (2767, 2803),
     (2753, 2819), (2777, 2797), (2719, 2857), (2789, 2789), (2789, 2791), (2791, 2791),
     (2741, 2843), (2789, 2797), (2791, 2797), (2789, 2801), (2791, 2801), (2797, 2797),
     (2777, 2819), (2797, 2801), (2797, 2803), (2801, 2801), (2801, 2803), (2803, 2803),
     (2789, 2819), (2791, 2819), (2659, 2953), (2777, 2837), (2797, 2819), (2767, 2851),
     (2801, 2819), (2803, 2819), (2791, 2833), (2789, 2837), (2791, 2837), (2797, 2833),
     (2789, 2843), (2801, 2833), (2803, 2833), (2819, 2819), (2803, 2837), (2791, 2851),
     (2801, 2843), (2803, 2843), (2797, 2851), (2789, 2861), (2819, 2833), (2803, 2851),
     (2819, 2837), (2801, 2857), (2803, 2857), (2819, 2843), (2803, 2861), (2833, 2833),
     (2789, 2879), (2833, 2837), (2719, 2953), (2837, 2837), (2833, 2843), (2791, 2887),
     (2837, 2843), (2803, 2879), (2833, 2851), (2843, 2843), (2837, 2851), (2833, 2857),
     (2789, 2903), (2843, 2851), (2677, 3019), (2837, 2861), (2843, 2857), (2851, 2851)]"

lemma rows_ok_18: "rows_from 2700 goldbach_rows_18" "length goldbach_rows_18 = 150"
  by (simp_all add: goldbach_rows_18_def)

definition goldbach_rows_19 :: "(nat \<times> nat) list" where
  "goldbach_rows_19 =
    [
     (2843, 2861), (2819, 2887), (2851, 2857), (2801, 2909), (2851, 2861), (2857, 2857),
     (2837, 2879), (2857, 2861), (2833, 2887), (2861, 2861), (2837, 2887), (2707, 3019),
     (2819, 2909), (2851, 2879), (2731, 3001), (2837, 2897), (2857, 2879), (2851, 2887),
     (2861, 2879), (2833, 2909), (2857, 2887), (2843, 2903), (2861, 2887), (2833, 2917),
     (2843, 2909), (2857, 2897), (2803, 2953), (2879, 2879), (2857, 2903), (2791, 2971),
     (2861, 2903), (2879, 2887), (2851, 2917), (2861, 2909), (2833, 2939), (2887, 2887),
     (2879, 2897), (2861, 2917), (2731, 3049), (2879, 2903), (2887, 2897), (2833, 2953),
     (2879, 2909), (2887, 2903), (2791, 3001), (2897, 2897), (2887, 2909), (2797, 3001),
     (2897, 2903), (2833, 2969), (2887, 2917), (2903, 2903), (2851, 2957), (2857, 2953),
     (2903, 2909), (2897, 2917), (2797, 3019), (2909, 2909), (2903, 2917), (2851, 2971),
     (2897, 2927), (2909, 2917), (2857, 2971), (2903, 2927), (2879, 2953), (2917, 2917),
     (2909, 2927), (2837, 3001), (2887, 2953), (2903, 2939), (2917, 2927), (2797, 3049),
     (2909, 2939), (2897, 2953), (2851, 3001), (2927, 2927), (2917, 2939), (2887, 2971),
     (2903, 2957), (2909, 2953), (2803, 3061), (2927, 2939), (2897, 2971), (2917, 2953),
     (2909, 2963), (2917, 2957), (2857, 3019), (2939, 2939), (2927, 2953), (2833, 3049),
     (2927, 2957), (2917, 2969), (2917, 2971), (2927, 2963), (2939, 2953), (2857, 3037),
     (2939, 2957), (2927, 2971), (2851, 3049), (2939, 2963), (2903, 3001), (2953, 2953),
     (2939, 2969), (2953, 2957), (2851, 3061), (2957, 2957), (2953, 2963), (2917, 3001),
     (2957, 2963), (2953, 2969), (2953, 2971), (2963, 2963), (2957, 2971), (2851, 3079),
     (2963, 2969), (2963, 2971), (2917, 3019), (2969, 2969), (2969, 2971), (2971, 2971),
     (2903, 3041), (2927, 3019), (2887, 3061), (2939, 3011), (2953, 2999), (2953, 3001),
     (2957, 2999), (2957, 3001), (2851, 3109), (2963, 2999), (2963, 3001), (2917, 3049),
     (2969, 2999), (2971, 2999), (2971, 3001), (2963, 3011), (2957, 3019), (2917, 3061),
     (2969, 3011), (2971, 3011), (2917, 3067), (2963, 3023), (2969, 3019), (2971, 3019),
     (2969, 3023), (2971, 3023), (2917, 3079), (2999, 2999), (2999, 3001), (3001, 3001)]"

lemma rows_ok_19: "rows_from 2850 goldbach_rows_19" "length goldbach_rows_19 = 150"
  by (simp_all add: goldbach_rows_19_def)

definition goldbach_rows_20 :: "(nat \<times> nat) list" where
  "goldbach_rows_20 =
    [
     (2963, 3041), (2969, 3037), (2971, 3037), (2999, 3011), (3001, 3011), (2953, 3061),
     (2927, 3089), (2999, 3019), (3001, 3019), (3011, 3011), (3001, 3023), (2917, 3109),
     (2939, 3089), (3011, 3019), (2971, 3061), (3011, 3023), (2999, 3037), (3019, 3019),
     (2999, 3041), (3019, 3023), (2857, 3187), (3023, 3023), (3011, 3037), (3001, 3049),
     (3011, 3041), (2971, 3083), (3019, 3037), (2969, 3089), (3023, 3037), (3001, 3061),
     (3023, 3041), (2999, 3067), (3019, 3049), (2903, 3167), (3023, 3049), (3037, 3037),
     (2957, 3119), (3037, 3041), (3019, 3061), (3041, 3041), (3023, 3061), (3037, 3049),
     (2999, 3089), (3041, 3049), (2971, 3121), (3011, 3083), (2927, 3169), (3049, 3049),
     (3011, 3089), (3041, 3061), (3037, 3067), (3023, 3083), (3041, 3067), (3049, 3061),
     (3023, 3089), (2927, 3187), (3049, 3067), (2999, 3119), (3041, 3079), (3061, 3061),
     (3041, 3083), (3037, 3089), (3061, 3067), (3041, 3089), (3049, 3083), (3067, 3067),
     (2999, 3137), (3049, 3089), (3061, 3079), (3023, 3119), (3061, 3083), (3067, 3079),
     (3011, 3137), (3067, 3083), (2971, 3181), (2963, 3191), (3067, 3089), (3079, 3079),
     (3041, 3119), (3079, 3083), (3001, 3163), (3083, 3083), (3079, 3089), (3061, 3109),
     (3083, 3089), (3037, 3137), (3067, 3109), (3089, 3089), (3061, 3119), (3061, 3121),
     (2963, 3221), (3067, 3119), (3079, 3109), (3023, 3167), (3083, 3109), (2887, 3307),
     (2939, 3257), (3089, 3109), (3079, 3121), (3083, 3119), (3083, 3121), (3037, 3169),
     (3089, 3119), (3089, 3121), (3049, 3163), (3023, 3191), (3079, 3137), (3109, 3109),
     (3083, 3137), (3041, 3181), (3061, 3163), (3089, 3137), (3109, 3119), (3109, 3121),
     (3041, 3191), (3067, 3167), (3067, 3169), (3119, 3119), (3119, 3121), (3121, 3121),
     (3041, 3203), (3109, 3137), (3079, 3169), (3083, 3167), (3089, 3163), (3067, 3187),
     (3119, 3137), (3121, 3137), (3079, 3181), (3041, 3221), (3083, 3181), (3079, 3187),
     (3011, 3257), (3089, 3181), (3109, 3163), (3137, 3137), (3109, 3167), (3109, 3169),
     (3089, 3191), (3119, 3163), (3121, 3163), (3119, 3167), (3121, 3167), (3121, 3169),
     (3089, 3203), (3041, 3253), (3109, 3187), (3089, 3209), (3137, 3163), (3121, 3181)]"

lemma rows_ok_20: "rows_from 3000 goldbach_rows_20" "length goldbach_rows_20 = 150"
  by (simp_all add: goldbach_rows_20_def)

definition goldbach_rows_21 :: "(nat \<times> nat) list" where
  "goldbach_rows_21 =
    [
     (3137, 3167), (3137, 3169), (3121, 3187), (3119, 3191), (3121, 3191), (3061, 3253),
     (2969, 3347), (3137, 3181), (3067, 3253), (3119, 3203), (3137, 3187), (3163, 3163),
     (3137, 3191), (3163, 3167), (3163, 3169), (3167, 3167), (3167, 3169), (3169, 3169),
     (3137, 3203), (3121, 3221), (3163, 3181), (3137, 3209), (3167, 3181), (3169, 3181),
     (3023, 3329), (3167, 3187), (3169, 3187), (3167, 3191), (3169, 3191), (3181, 3181),
     (3041, 3323), (3163, 3203), (3181, 3187), (3167, 3203), (3181, 3191), (3187, 3187),
     (3167, 3209), (3187, 3191), (3163, 3217), (3191, 3191), (3181, 3203), (3169, 3217),
     (3167, 3221), (3187, 3203), (3163, 3229), (3191, 3203), (3187, 3209), (3181, 3217),
     (3191, 3209), (3181, 3221), (3187, 3217), (3203, 3203), (3191, 3217), (3181, 3229),
     (3203, 3209), (3163, 3251), (3187, 3229), (3209, 3209), (3203, 3217), (3169, 3253),
     (3203, 3221), (3209, 3217), (3169, 3259), (3209, 3221), (3203, 3229), (3217, 3217),
     (3137, 3299), (3217, 3221), (3187, 3253), (3221, 3221), (3191, 3253), (3217, 3229),
     (3191, 3257), (3221, 3229), (3181, 3271), (3203, 3251), (3203, 3253), (3229, 3229),
     (3209, 3251), (3209, 3253), (3163, 3301), (3209, 3257), (3217, 3251), (3217, 3253),
     (3221, 3251), (3221, 3253), (3217, 3259), (3221, 3257), (3229, 3251), (3229, 3253),
     (3137, 3347), (3229, 3257), (3229, 3259), (3191, 3299), (3221, 3271), (3187, 3307),
     (3167, 3329), (3191, 3307), (3229, 3271), (3251, 3251), (3251, 3253), (3253, 3253),
     (3251, 3257), (3253, 3257), (3253, 3259), (3257, 3257), (3257, 3259), (3259, 3259),
     (3221, 3299), (3251, 3271), (3253, 3271), (3203, 3323), (3257, 3271), (3259, 3271),
     (3209, 3323), (3221, 3313), (3229, 3307), (3209, 3329), (3221, 3319), (3271, 3271),
     (3221, 3323), (3217, 3329), (3229, 3319), (3251, 3299), (3253, 3299), (3253, 3301),
     (3257, 3299), (3259, 3299), (3259, 3301), (3203, 3359), (3257, 3307), (3259, 3307),
     (3221, 3347), (3271, 3299), (3271, 3301), (3251, 3323), (3257, 3319), (3271, 3307),
     (3257, 3323), (3259, 3323), (3271, 3313), (3257, 3329), (3259, 3329), (3271, 3319),
     (3221, 3371), (3271, 3323), (3253, 3343), (3299, 3299), (3299, 3301), (3301, 3301)]"

lemma rows_ok_21: "rows_from 3150 goldbach_rows_21" "length goldbach_rows_21 = 150"
  by (simp_all add: goldbach_rows_21_def)

definition goldbach_rows_22 :: "(nat \<times> nat) list" where
  "goldbach_rows_22 =
    [
     (3257, 3347), (3299, 3307), (3301, 3307), (3251, 3359), (3299, 3313), (3307, 3307),
     (3257, 3359), (3299, 3319), (3307, 3313), (3299, 3323), (3301, 3323), (3313, 3313),
     (3299, 3329), (3307, 3323), (3313, 3319), (3221, 3413), (3313, 3323), (3319, 3319),
     (3251, 3389), (3319, 3323), (3313, 3331), (3323, 3323), (3319, 3329), (3319, 3331),
     (3323, 3329), (3323, 3331), (3313, 3343), (3329, 3329), (3329, 3331), (3331, 3331),
     (3257, 3407), (3323, 3343), (3307, 3361), (3323, 3347), (3329, 3343), (3331, 3343),
     (3329, 3347), (3331, 3347), (3319, 3361), (3323, 3359), (3323, 3361), (3343, 3343),
     (3329, 3359), (3343, 3347), (3331, 3361), (3347, 3347), (3323, 3373), (3307, 3391),
     (3329, 3371), (3343, 3359), (3343, 3361), (3347, 3359), (3347, 3361), (3319, 3391),
     (3323, 3389), (3343, 3371), (3343, 3373), (3359, 3359), (3359, 3361), (3361, 3361),
     (3257, 3467), (3319, 3407), (3271, 3457), (3359, 3371), (3361, 3371), (3361, 3373),
     (3347, 3389), (3347, 3391), (3307, 3433), (3371, 3371), (3371, 3373), (3373, 3373),
     (3359, 3389), (3361, 3389), (3361, 3391), (3347, 3407), (3343, 3413), (3301, 3457),
     (3371, 3389), (3373, 3389), (3373, 3391), (3359, 3407), (3361, 3407), (3313, 3457),
     (3359, 3413), (3361, 3413), (3343, 3433), (3389, 3389), (3389, 3391), (3391, 3391),
     (3371, 3413), (3373, 3413), (3331, 3457), (3329, 3461), (3359, 3433), (3361, 3433),
     (3389, 3407), (3391, 3407), (3343, 3457), (3389, 3413), (3391, 3413), (3373, 3433),
     (3359, 3449), (3361, 3449), (3343, 3469), (3407, 3407), (3359, 3457), (3361, 3457),
     (3407, 3413), (3389, 3433), (3391, 3433), (3413, 3413), (3371, 3457), (3373, 3457),
     (3371, 3461), (3373, 3461), (3373, 3463), (3389, 3449), (3407, 3433), (3373, 3469),
     (3251, 3593), (3413, 3433), (3391, 3457), (3389, 3461), (3391, 3461), (3391, 3463),
     (3407, 3449), (3391, 3467), (3391, 3469), (3413, 3449), (3407, 3457), (3433, 3433),
     (3407, 3461), (3413, 3457), (3373, 3499), (3413, 3461), (3413, 3463), (3361, 3517),
     (3413, 3467), (3433, 3449), (3373, 3511), (3359, 3527), (3389, 3499), (3433, 3457),
     (3359, 3533), (3433, 3461), (3433, 3463), (3449, 3449), (3433, 3467), (3433, 3469)]"

lemma rows_ok_22: "rows_from 3300 goldbach_rows_22" "length goldbach_rows_22 = 150"
  by (simp_all add: goldbach_rows_22_def)

definition goldbach_rows_23 :: "(nat \<times> nat) list" where
  "goldbach_rows_23 =
    [
     (3413, 3491), (3449, 3457), (3391, 3517), (3449, 3461), (3449, 3463), (3457, 3457),
     (3449, 3467), (3457, 3461), (3457, 3463), (3461, 3461), (3461, 3463), (3463, 3463),
     (3461, 3467), (3463, 3467), (3463, 3469), (3467, 3467), (3467, 3469), (3469, 3469),
     (3449, 3491), (3413, 3529), (3433, 3511), (3413, 3533), (3457, 3491), (3433, 3517),
     (3461, 3491), (3463, 3491), (3457, 3499), (3467, 3491), (3469, 3491), (3463, 3499),
     (3407, 3557), (3467, 3499), (3469, 3499), (3413, 3557), (3461, 3511), (3463, 3511),
     (3449, 3527), (3467, 3511), (3469, 3511), (3491, 3491), (3467, 3517), (3469, 3517),
     (3461, 3527), (3491, 3499), (3463, 3529), (3467, 3527), (3469, 3527), (3499, 3499),
     (3467, 3533), (3491, 3511), (3463, 3541), (3467, 3539), (3491, 3517), (3499, 3511),
     (3389, 3623), (3467, 3547), (3499, 3517), (3491, 3527), (3491, 3529), (3511, 3511),
     (3491, 3533), (3499, 3527), (3511, 3517), (3491, 3539), (3499, 3533), (3517, 3517),
     (3413, 3623), (3511, 3527), (3511, 3529), (3461, 3581), (3517, 3527), (3517, 3529),
     (3491, 3557), (3517, 3533), (3511, 3541), (3527, 3527), (3527, 3529), (3529, 3529),
     (3527, 3533), (3529, 3533), (3517, 3547), (3533, 3533), (3529, 3539), (3529, 3541),
     (3533, 3539), (3533, 3541), (3529, 3547), (3539, 3539), (3539, 3541), (3541, 3541),
     (3527, 3557), (3539, 3547), (3541, 3547), (3533, 3557), (3533, 3559), (3547, 3547),
     (3539, 3557), (3541, 3557), (3541, 3559), (3323, 3779), (3547, 3557), (3547, 3559),
     (3527, 3581), (3539, 3571), (3541, 3571), (3557, 3557), (3557, 3559), (3559, 3559),
     (3539, 3581), (3541, 3581), (3541, 3583), (3533, 3593), (3557, 3571), (3559, 3571),
     (3539, 3593), (3541, 3593), (3529, 3607), (3557, 3581), (3559, 3581), (3571, 3571),
     (3527, 3617), (3539, 3607), (3541, 3607), (3557, 3593), (3571, 3581), (3571, 3583),
     (3539, 3617), (3541, 3617), (3547, 3613), (3581, 3581), (3581, 3583), (3583, 3583),
     (3491, 3677), (3557, 3613), (3559, 3613), (3581, 3593), (3583, 3593), (3571, 3607),
     (3557, 3623), (3559, 3623), (3571, 3613), (3593, 3593), (3581, 3607), (3583, 3607),
     (3533, 3659), (3581, 3613), (3583, 3613), (3581, 3617), (3593, 3607), (3571, 3631)]"

lemma rows_ok_23: "rows_from 3450 goldbach_rows_23" "length goldbach_rows_23 = 150"
  by (simp_all add: goldbach_rows_23_def)

definition goldbach_rows_24 :: "(nat \<times> nat) list" where
  "goldbach_rows_24 =
    [
     (3581, 3623), (3593, 3613), (3571, 3637), (3593, 3617), (3581, 3631), (3607, 3607),
     (3593, 3623), (3581, 3637), (3607, 3613), (3461, 3761), (3607, 3617), (3613, 3613),
     (3557, 3671), (3613, 3617), (3559, 3673), (3617, 3617), (3613, 3623), (3607, 3631),
     (3617, 3623), (3583, 3659), (3613, 3631), (3623, 3623), (3617, 3631), (3613, 3637),
     (3593, 3659), (3623, 3631), (3613, 3643), (3581, 3677), (3623, 3637), (3631, 3631),
     (3593, 3671), (3623, 3643), (3631, 3637), (3593, 3677), (3613, 3659), (3637, 3637),
     (3617, 3659), (3607, 3671), (3637, 3643), (3623, 3659), (3613, 3671), (3643, 3643),
     (3617, 3671), (3631, 3659), (3583, 3709), (3623, 3671), (3637, 3659), (3607, 3691),
     (3623, 3677), (3643, 3659), (3631, 3673), (3539, 3767), (3637, 3671), (3637, 3673),
     (3593, 3719), (3643, 3671), (3643, 3673), (3659, 3659), (3643, 3677), (3631, 3691),
     (3623, 3701), (3617, 3709), (3637, 3691), (3659, 3671), (3659, 3673), (3643, 3691),
     (3659, 3677), (3637, 3701), (3643, 3697), (3671, 3671), (3671, 3673), (3673, 3673),
     (3671, 3677), (3673, 3677), (3643, 3709), (3677, 3677), (3659, 3697), (3631, 3727),
     (3659, 3701), (3671, 3691), (3673, 3691), (3533, 3833), (3677, 3691), (3673, 3697),
     (3671, 3701), (3677, 3697), (3643, 3733), (3677, 3701), (3671, 3709), (3691, 3691),
     (3623, 3761), (3677, 3709), (3691, 3697), (3671, 3719), (3691, 3701), (3697, 3697),
     (3677, 3719), (3697, 3701), (3691, 3709), (3701, 3701), (3677, 3727), (3697, 3709),
     (3557, 3851), (3701, 3709), (3673, 3739), (3617, 3797), (3697, 3719), (3709, 3709),
     (3701, 3719), (3643, 3779), (3697, 3727), (3659, 3767), (3709, 3719), (3697, 3733),
     (3671, 3761), (3701, 3733), (3709, 3727), (3719, 3719), (3701, 3739), (3709, 3733),
     (3677, 3767), (3719, 3727), (3709, 3739), (3671, 3779), (3719, 3733), (3727, 3727),
     (3677, 3779), (3719, 3739), (3727, 3733), (3701, 3761), (3697, 3767), (3733, 3733),
     (3701, 3767), (3709, 3761), (3733, 3739), (3677, 3797), (3709, 3767), (3739, 3739),
     (3719, 3761), (3659, 3823), (3691, 3793), (3719, 3767), (3727, 3761), (3697, 3793),
     (3671, 3821), (3733, 3761), (3727, 3769), (3719, 3779), (3739, 3761), (3733, 3769)]"

lemma rows_ok_24: "rows_from 3600 goldbach_rows_24" "length goldbach_rows_24 = 150"
  by (simp_all add: goldbach_rows_24_def)

definition goldbach_rows_25 :: "(nat \<times> nat) list" where
  "goldbach_rows_25 =
    [
     (3701, 3803), (3739, 3767), (3739, 3769), (3677, 3833), (3733, 3779), (3691, 3823),
     (3719, 3797), (3739, 3779), (3727, 3793), (3761, 3761), (3727, 3797), (3733, 3793),
     (3761, 3767), (3761, 3769), (3739, 3793), (3767, 3767), (3767, 3769), (3769, 3769),
     (3761, 3779), (3739, 3803), (3697, 3847), (3767, 3779), (3769, 3779), (3727, 3823),
     (3719, 3833), (3761, 3793), (3733, 3823), (3779, 3779), (3767, 3793), (3769, 3793),
     (3767, 3797), (3769, 3797), (3691, 3877), (3767, 3803), (3779, 3793), (3727, 3847),
     (3779, 3797), (3727, 3851), (3733, 3847), (3779, 3803), (3761, 3823), (3793, 3793),
     (3767, 3821), (3793, 3797), (3769, 3823), (3797, 3797), (3793, 3803), (3709, 3889),
     (3797, 3803), (3779, 3823), (3727, 3877), (3803, 3803), (3761, 3847), (3733, 3877),
     (3779, 3833), (3793, 3821), (3793, 3823), (3797, 3821), (3797, 3823), (3769, 3853),
     (3803, 3821), (3803, 3823), (3739, 3889), (3797, 3833), (3779, 3853), (3727, 3907),
     (3803, 3833), (3761, 3877), (3793, 3847), (3821, 3821), (3821, 3823), (3823, 3823),
     (3797, 3851), (3803, 3847), (3733, 3919), (3821, 3833), (3823, 3833), (3769, 3889),
     (3797, 3863), (3739, 3923), (3733, 3931), (3833, 3833), (3821, 3847), (3823, 3847),
     (3821, 3851), (3823, 3851), (3823, 3853), (3797, 3881), (3833, 3847), (3793, 3889),
     (3833, 3851), (3833, 3853), (3769, 3919), (3779, 3911), (3803, 3889), (3847, 3847),
     (3833, 3863), (3847, 3851), (3847, 3853), (3851, 3851), (3851, 3853), (3853, 3853),
     (3797, 3911), (3847, 3863), (3823, 3889), (3851, 3863), (3853, 3863), (3697, 4021),
     (3803, 3917), (3833, 3889), (3847, 3877), (3863, 3863), (3851, 3877), (3853, 3877),
     (3851, 3881), (3853, 3881), (3847, 3889), (3821, 3917), (3863, 3877), (3853, 3889),
     (3863, 3881), (3823, 3923), (3727, 4021), (3833, 3917), (3863, 3889), (3877, 3877),
     (3833, 3923), (3877, 3881), (3853, 3907), (3881, 3881), (3853, 3911), (3877, 3889),
     (3851, 3917), (3881, 3889), (3853, 3919), (3863, 3911), (3853, 3923), (3889, 3889),
     (3863, 3917), (3863, 3919), (3877, 3907), (3863, 3923), (3881, 3907), (3847, 3943),
     (3881, 3911), (3877, 3917), (3889, 3907), (3881, 3917), (3889, 3911), (3709, 4093)]"

lemma rows_ok_25: "rows_from 3750 goldbach_rows_25" "length goldbach_rows_25 = 150"
  by (simp_all add: goldbach_rows_25_def)

definition goldbach_rows_26 :: "(nat \<times> nat) list" where
  "goldbach_rows_26 =
    [
     (3881, 3923), (3889, 3917), (3889, 3919), (3881, 3929), (3889, 3923), (3907, 3907),
     (3803, 4013), (3907, 3911), (3889, 3931), (3911, 3911), (3907, 3917), (3907, 3919),
     (3911, 3917), (3911, 3919), (3889, 3943), (3917, 3917), (3917, 3919), (3919, 3919),
     (3917, 3923), (3919, 3923), (3877, 3967), (3923, 3923), (3919, 3929), (3919, 3931),
     (3923, 3929), (3923, 3931), (3889, 3967), (3929, 3929), (3929, 3931), (3931, 3931),
     (3917, 3947), (3923, 3943), (3847, 4021), (3923, 3947), (3929, 3943), (3931, 3943),
     (3929, 3947), (3931, 3947), (3877, 4003), (3881, 4001), (3917, 3967), (3943, 3943),
     (3881, 4007), (3943, 3947), (3889, 4003), (3947, 3947), (3929, 3967), (3931, 3967),
     (3911, 3989), (3889, 4013), (3877, 4027), (3917, 3989), (3919, 3989), (3943, 3967),
     (3923, 3989), (3947, 3967), (3889, 4027), (3929, 3989), (3931, 3989), (3919, 4003),
     (3923, 4001), (3923, 4003), (3907, 4021), (3929, 4001), (3943, 3989), (3967, 3967),
     (3947, 3989), (3931, 4007), (3919, 4021), (3929, 4013), (3943, 4001), (3943, 4003),
     (3947, 4001), (3947, 4003), (3931, 4021), (3947, 4007), (3967, 3989), (3931, 4027),
     (3947, 4013), (3943, 4019), (3943, 4021), (3947, 4019), (3967, 4001), (3967, 4003),
     (3923, 4049), (3967, 4007), (3919, 4057), (3989, 3989), (3967, 4013), (3931, 4051),
     (3911, 4073), (3967, 4019), (3967, 4021), (3989, 4001), (3989, 4003), (3967, 4027),
     (3989, 4007), (3947, 4051), (3943, 4057), (4001, 4001), (4001, 4003), (4003, 4003),
     (4001, 4007), (4003, 4007), (3919, 4093), (4007, 4007), (4003, 4013), (3967, 4051),
     (4007, 4013), (4003, 4019), (4003, 4021), (4013, 4013), (4007, 4021), (4003, 4027),
     (4013, 4019), (4013, 4021), (3943, 4093), (4019, 4019), (4019, 4021), (4021, 4021),
     (3917, 4127), (4019, 4027), (4021, 4027), (4001, 4049), (4003, 4049), (4027, 4027),
     (4007, 4049), (4007, 4051), (4003, 4057), (4013, 4049), (4013, 4051), (3967, 4099),
     (4019, 4049), (4021, 4049), (4021, 4051), (4001, 4073), (4027, 4049), (4027, 4051),
     (4007, 4073), (4003, 4079), (4027, 4057), (4013, 4073), (3989, 4099), (3931, 4159),
     (4019, 4073), (4021, 4073), (4003, 4093), (4049, 4049), (4049, 4051), (4051, 4051)]"

lemma rows_ok_26: "rows_from 3900 goldbach_rows_26" "length goldbach_rows_26 = 150"
  by (simp_all add: goldbach_rows_26_def)

definition goldbach_rows_27 :: "(nat \<times> nat) list" where
  "goldbach_rows_27 =
    [
     (4013, 4091), (4049, 4057), (4051, 4057), (4019, 4091), (4021, 4091), (4057, 4057),
     (3989, 4127), (4027, 4091), (4027, 4093), (4049, 4073), (4051, 4073), (4027, 4099),
     (4049, 4079), (4057, 4073), (4021, 4111), (4007, 4127), (4057, 4079), (4027, 4111),
     (4049, 4091), (4051, 4091), (4051, 4093), (4073, 4073), (4057, 4091), (4057, 4093),
     (4073, 4079), (4027, 4127), (4057, 4099), (4079, 4079), (4049, 4111), (4051, 4111),
     (4073, 4091), (4073, 4093), (4057, 4111), (4079, 4091), (4079, 4093), (4021, 4153),
     (4049, 4127), (4079, 4099), (4051, 4129), (4091, 4091), (4091, 4093), (4093, 4093),
     (4049, 4139), (4091, 4099), (4093, 4099), (3923, 4271), (4057, 4139), (4099, 4099),
     (4073, 4127), (4091, 4111), (4093, 4111), (4079, 4127), (4079, 4129), (4099, 4111),
     (4079, 4133), (4057, 4157), (4057, 4159), (4091, 4127), (4093, 4127), (4111, 4111),
     (4091, 4133), (4099, 4127), (4099, 4129), (4091, 4139), (4099, 4133), (4057, 4177),
     (4079, 4157), (4111, 4127), (4111, 4129), (4013, 4229), (4111, 4133), (4093, 4153),
     (4091, 4157), (4111, 4139), (4099, 4153), (4127, 4127), (4127, 4129), (4129, 4129),
     (4127, 4133), (4129, 4133), (4111, 4153), (4133, 4133), (4129, 4139), (4111, 4159),
     (4133, 4139), (4073, 4201), (4099, 4177), (4139, 4139), (4127, 4153), (4129, 4153),
     (4127, 4157), (4133, 4153), (4129, 4159), (4133, 4157), (4139, 4153), (4093, 4201),
     (4139, 4157), (4139, 4159), (4099, 4201), (4091, 4211), (4127, 4177), (4153, 4153),
     (4091, 4217), (4153, 4157), (4153, 4159), (4157, 4157), (4157, 4159), (4159, 4159),
     (4091, 4229), (4111, 4211), (4093, 4231), (4073, 4253), (4127, 4201), (4153, 4177),
     (4091, 4241), (4157, 4177), (4159, 4177), (4127, 4211), (4139, 4201), (4111, 4231),
     (4133, 4211), (4129, 4217), (4129, 4219), (4139, 4211), (4133, 4219), (4177, 4177),
     (4139, 4217), (4157, 4201), (4159, 4201), (4133, 4229), (4153, 4211), (4093, 4273),
     (4157, 4211), (4159, 4211), (4153, 4219), (4157, 4217), (4159, 4217), (4177, 4201),
     (4139, 4241), (4153, 4229), (4153, 4231), (4157, 4229), (4177, 4211), (4159, 4231),
     (4139, 4253), (4177, 4217), (4177, 4219), (4157, 4241), (4159, 4241), (4201, 4201)]"

lemma rows_ok_27: "rows_from 4050 goldbach_rows_27" "length goldbach_rows_27 = 150"
  by (simp_all add: goldbach_rows_27_def)

definition goldbach_rows_28 :: "(nat \<times> nat) list" where
  "goldbach_rows_28 =
    [
     (4133, 4271), (4177, 4229), (4177, 4231), (4157, 4253), (4201, 4211), (4153, 4261),
     (4157, 4259), (4201, 4217), (4201, 4219), (4211, 4211), (4153, 4271), (4153, 4273),
     (4211, 4217), (4211, 4219), (4201, 4231), (4217, 4217), (4217, 4219), (4219, 4219),
     (4211, 4229), (4211, 4231), (4201, 4243), (4217, 4229), (4219, 4229), (4219, 4231),
     (4211, 4241), (4211, 4243), (4159, 4297), (4229, 4229), (4229, 4231), (4231, 4231),
     (4211, 4253), (4177, 4289), (4129, 4339), (4229, 4241), (4231, 4241), (4231, 4243),
     (4217, 4259), (4219, 4259), (4219, 4261), (4241, 4241), (4241, 4243), (4243, 4243),
     (4229, 4259), (4231, 4259), (4231, 4261), (4241, 4253), (4243, 4253), (4201, 4297),
     (4241, 4259), (4243, 4259), (4243, 4261), (4253, 4253), (4219, 4289), (4153, 4357),
     (4253, 4259), (4253, 4261), (4243, 4273), (4259, 4259), (4259, 4261), (4261, 4261),
     (4253, 4271), (4253, 4273), (4231, 4297), (4259, 4271), (4261, 4271), (4261, 4273),
     (4253, 4283), (4241, 4297), (4243, 4297), (4271, 4271), (4271, 4273), (4273, 4273),
     (4259, 4289), (4261, 4289), (4129, 4423), (4271, 4283), (4273, 4283), (4261, 4297),
     (4271, 4289), (4273, 4289), (4201, 4363), (4283, 4283), (4271, 4297), (4273, 4297),
     (4283, 4289), (4217, 4357), (4219, 4357), (4289, 4289), (4283, 4297), (4243, 4339),
     (4211, 4373), (4289, 4297), (4261, 4327), (4253, 4337), (4253, 4339), (4297, 4297),
     (4259, 4337), (4271, 4327), (4273, 4327), (4253, 4349), (4241, 4363), (4243, 4363),
     (4271, 4337), (4283, 4327), (4273, 4339), (4241, 4373), (4289, 4327), (4261, 4357),
     (4283, 4337), (4283, 4339), (4297, 4327), (4289, 4337), (4289, 4339), (4273, 4357),
     (4283, 4349), (4297, 4337), (4297, 4339), (4289, 4349), (4283, 4357), (4219, 4423),
     (4271, 4373), (4297, 4349), (4201, 4447), (4259, 4391), (4289, 4363), (4327, 4327),
     (4283, 4373), (4261, 4397), (4297, 4363), (4289, 4373), (4327, 4337), (4327, 4339),
     (4271, 4397), (4297, 4373), (4231, 4441), (4337, 4337), (4337, 4339), (4339, 4339),
     (4289, 4391), (4273, 4409), (4327, 4357), (4337, 4349), (4339, 4349), (4327, 4363),
     (4283, 4409), (4337, 4357), (4339, 4357), (4349, 4349), (4337, 4363), (4339, 4363)]"

lemma rows_ok_28: "rows_from 4200 goldbach_rows_28" "length goldbach_rows_28 = 150"
  by (simp_all add: goldbach_rows_28_def)

definition goldbach_rows_29 :: "(nat \<times> nat) list" where
  "goldbach_rows_29 =
    [
     (4283, 4421), (4349, 4357), (4261, 4447), (4337, 4373), (4349, 4363), (4357, 4357),
     (4259, 4457), (4327, 4391), (4357, 4363), (4349, 4373), (4327, 4397), (4363, 4363),
     (4337, 4391), (4357, 4373), (4219, 4513), (4337, 4397), (4363, 4373), (4297, 4441),
     (4349, 4391), (4261, 4481), (4297, 4447), (4373, 4373), (4357, 4391), (4327, 4423),
     (4289, 4463), (4363, 4391), (4273, 4483), (4349, 4409), (4363, 4397), (4339, 4423),
     (4373, 4391), (4357, 4409), (4327, 4441), (4373, 4397), (4363, 4409), (4327, 4447),
     (4283, 4493), (4357, 4421), (4357, 4423), (4391, 4391), (4363, 4421), (4363, 4423),
     (4391, 4397), (4349, 4441), (4273, 4519), (4397, 4397), (4373, 4423), (4357, 4441),
     (4391, 4409), (4339, 4463), (4363, 4441), (4397, 4409), (4357, 4451), (4363, 4447),
     (4391, 4421), (4391, 4423), (4297, 4519), (4409, 4409), (4397, 4423), (4339, 4483),
     (4373, 4451), (4363, 4463), (4261, 4567), (4409, 4421), (4409, 4423), (4327, 4507),
     (4373, 4463), (4397, 4441), (4357, 4483), (4421, 4421), (4421, 4423), (4423, 4423),
     (4397, 4451), (4409, 4441), (4339, 4513), (4397, 4457), (4409, 4447), (4339, 4519),
     (4409, 4451), (4421, 4441), (4423, 4441), (4409, 4457), (4421, 4447), (4423, 4447),
     (4421, 4451), (4423, 4451), (4363, 4513), (4421, 4457), (4423, 4457), (4441, 4441),
     (4421, 4463), (4423, 4463), (4441, 4447), (4409, 4481), (4441, 4451), (4447, 4447),
     (4373, 4523), (4447, 4451), (4339, 4561), (4451, 4451), (4447, 4457), (4423, 4483),
     (4451, 4457), (4447, 4463), (4363, 4549), (4457, 4457), (4423, 4493), (4357, 4561),
     (4457, 4463), (4441, 4481), (4441, 4483), (4463, 4463), (4447, 4481), (4447, 4483),
     (4451, 4481), (4451, 4483), (4423, 4513), (4457, 4481), (4457, 4483), (4423, 4519),
     (4463, 4481), (4463, 4483), (4441, 4507), (4457, 4493), (4391, 4561), (4447, 4507),
     (4463, 4493), (4451, 4507), (4447, 4513), (4481, 4481), (4481, 4483), (4483, 4483),
     (4451, 4517), (4463, 4507), (4423, 4549), (4481, 4493), (4483, 4493), (4357, 4621),
     (4463, 4517), (4463, 4519), (4423, 4561), (4493, 4493), (4481, 4507), (4483, 4507),
     (4409, 4583), (4481, 4513), (4483, 4513), (4481, 4517), (4493, 4507), (4483, 4519)]"

lemma rows_ok_29: "rows_from 4350 goldbach_rows_29" "length goldbach_rows_29 = 150"
  by (simp_all add: goldbach_rows_29_def)

definition goldbach_rows_30 :: "(nat \<times> nat) list" where
  "goldbach_rows_30 =
    [
     (4481, 4523), (4493, 4513), (4447, 4561), (4493, 4517), (4493, 4519), (4507, 4507),
     (4493, 4523), (4457, 4561), (4507, 4513), (4373, 4649), (4507, 4517), (4513, 4513),
     (4481, 4547), (4513, 4517), (4513, 4519), (4517, 4517), (4517, 4519), (4519, 4519),
     (4517, 4523), (4519, 4523), (4483, 4561), (4523, 4523), (4481, 4567), (4483, 4567),
     (4409, 4643), (4507, 4547), (4507, 4549), (4421, 4637), (4513, 4547), (4513, 4549),
     (4517, 4547), (4519, 4547), (4519, 4549), (4523, 4547), (4523, 4549), (4513, 4561),
     (4493, 4583), (4517, 4561), (4519, 4561), (4409, 4673), (4523, 4561), (4519, 4567),
     (4451, 4637), (4523, 4567), (4441, 4651), (4547, 4547), (4547, 4549), (4549, 4549),
     (4517, 4583), (4519, 4583), (4513, 4591), (4523, 4583), (4547, 4561), (4549, 4561),
     (4463, 4649), (4547, 4567), (4549, 4567), (4481, 4637), (4523, 4597), (4561, 4561),
     (4481, 4643), (4523, 4603), (4561, 4567), (4547, 4583), (4549, 4583), (4567, 4567),
     (4493, 4643), (4547, 4591), (4549, 4591), (4493, 4649), (4561, 4583), (4549, 4597),
     (4457, 4691), (4567, 4583), (4561, 4591), (4517, 4637), (4519, 4637), (4567, 4591),
     (4523, 4637), (4523, 4639), (4567, 4597), (4583, 4583), (4547, 4621), (4567, 4603),
     (4523, 4649), (4583, 4591), (4519, 4657), (4457, 4721), (4583, 4597), (4591, 4591),
     (4547, 4637), (4583, 4603), (4591, 4597), (4547, 4643), (4549, 4643), (4597, 4597),
     (4547, 4649), (4561, 4637), (4597, 4603), (4523, 4679), (4583, 4621), (4603, 4603),
     (4517, 4691), (4567, 4643), (4591, 4621), (4523, 4691), (4567, 4649), (4597, 4621),
     (4583, 4637), (4583, 4639), (4603, 4621), (4583, 4643), (4591, 4637), (4591, 4639),
     (4583, 4649), (4597, 4637), (4597, 4639), (4547, 4691), (4603, 4637), (4621, 4621),
     (4523, 4721), (4603, 4643), (4597, 4651), (4547, 4703), (4603, 4649), (4603, 4651),
     (4583, 4673), (4621, 4637), (4621, 4639), (4583, 4679), (4621, 4643), (4603, 4663),
     (4547, 4721), (4621, 4649), (4621, 4651), (4637, 4637), (4637, 4639), (4639, 4639),
     (4637, 4643), (4639, 4643), (4621, 4663), (4643, 4643), (4639, 4649), (4639, 4651),
     (4643, 4649), (4643, 4651), (4639, 4657), (4649, 4649), (4649, 4651), (4651, 4651)]"

lemma rows_ok_30: "rows_from 4500 goldbach_rows_30" "length goldbach_rows_30 = 150"
  by (simp_all add: goldbach_rows_30_def)

definition goldbach_rows_31 :: "(nat \<times> nat) list" where
  "goldbach_rows_31 =
    [
     (4583, 4721), (4649, 4657), (4651, 4657), (4637, 4673), (4649, 4663), (4657, 4657),
     (4643, 4673), (4639, 4679), (4657, 4663), (4649, 4673), (4651, 4673), (4663, 4663),
     (4649, 4679), (4657, 4673), (4603, 4729), (4643, 4691), (4663, 4673), (4549, 4789),
     (4649, 4691), (4663, 4679), (4621, 4723), (4673, 4673), (4657, 4691), (4621, 4729),
     (4673, 4679), (4663, 4691), (4597, 4759), (4679, 4679), (4657, 4703), (4639, 4723),
     (4673, 4691), (4663, 4703), (4639, 4729), (4679, 4691), (4651, 4721), (4651, 4723),
     (4673, 4703), (4657, 4721), (4657, 4723), (4691, 4691), (4663, 4721), (4663, 4723),
     (4637, 4751), (4657, 4733), (4663, 4729), (4691, 4703), (4673, 4723), (4639, 4759),
     (4679, 4721), (4679, 4723), (4621, 4783), (4703, 4703), (4679, 4729), (4651, 4759),
     (4691, 4721), (4691, 4723), (4657, 4759), (4547, 4871), (4691, 4729), (4663, 4759),
     (4703, 4721), (4703, 4723), (4639, 4789), (4679, 4751), (4703, 4729), (4651, 4783),
     (4703, 4733), (4679, 4759), (4657, 4783), (4721, 4721), (4721, 4723), (4723, 4723),
     (4649, 4799), (4721, 4729), (4723, 4729), (4721, 4733), (4723, 4733), (4729, 4729),
     (4673, 4787), (4729, 4733), (4663, 4801), (4733, 4733), (4679, 4789), (4657, 4813),
     (4721, 4751), (4723, 4751), (4663, 4813), (4691, 4787), (4729, 4751), (4723, 4759),
     (4733, 4751), (4703, 4783), (4729, 4759), (4703, 4787), (4733, 4759), (4663, 4831),
     (4703, 4793), (4637, 4861), (4639, 4861), (4751, 4751), (4721, 4783), (4723, 4783),
     (4721, 4787), (4751, 4759), (4729, 4783), (4721, 4793), (4733, 4783), (4759, 4759),
     (4733, 4787), (4733, 4789), (4723, 4801), (4733, 4793), (4729, 4799), (4729, 4801),
     (4733, 4799), (4751, 4783), (4723, 4813), (4751, 4787), (4751, 4789), (4759, 4783),
     (4751, 4793), (4759, 4787), (4759, 4789), (4751, 4799), (4759, 4793), (4723, 4831),
     (4679, 4877), (4759, 4799), (4759, 4801), (4691, 4871), (4751, 4813), (4783, 4783),
     (4751, 4817), (4783, 4787), (4783, 4789), (4787, 4787), (4787, 4789), (4789, 4789),
     (4787, 4793), (4789, 4793), (4783, 4801), (4793, 4793), (4789, 4799), (4789, 4801),
     (4793, 4799), (4793, 4801), (4783, 4813), (4799, 4799), (4799, 4801), (4801, 4801)]"

lemma rows_ok_31: "rows_from 4650 goldbach_rows_31" "length goldbach_rows_31 = 150"
  by (simp_all add: goldbach_rows_31_def)

definition goldbach_rows_32 :: "(nat \<times> nat) list" where
  "goldbach_rows_32 =
    [
     (4787, 4817), (4793, 4813), (4657, 4951), (4793, 4817), (4799, 4813), (4801, 4813),
     (4799, 4817), (4801, 4817), (4789, 4831), (4751, 4871), (4793, 4831), (4813, 4813),
     (4751, 4877), (4813, 4817), (4801, 4831), (4817, 4817), (4759, 4877), (4729, 4909),
     (4751, 4889), (4733, 4909), (4813, 4831), (4703, 4943), (4817, 4831), (4789, 4861),
     (4733, 4919), (4793, 4861), (4723, 4933), (4787, 4871), (4799, 4861), (4831, 4831),
     (4793, 4871), (4789, 4877), (4759, 4909), (4799, 4871), (4801, 4871), (4813, 4861),
     (4799, 4877), (4817, 4861), (4729, 4951), (4793, 4889), (4813, 4871), (4783, 4903),
     (4817, 4871), (4813, 4877), (4831, 4861), (4817, 4877), (4793, 4903), (4789, 4909),
     (4733, 4967), (4831, 4871), (4801, 4903), (4817, 4889), (4831, 4877), (4801, 4909),
     (4793, 4919), (4783, 4931), (4813, 4903), (4799, 4919), (4831, 4889), (4861, 4861),
     (4793, 4931), (4817, 4909), (4759, 4969), (4799, 4931), (4861, 4871), (4831, 4903),
     (4817, 4919), (4861, 4877), (4831, 4909), (4871, 4871), (4813, 4931), (4813, 4933),
     (4871, 4877), (4861, 4889), (4801, 4951), (4877, 4877), (4813, 4943), (4801, 4957),
     (4871, 4889), (4831, 4931), (4861, 4903), (4877, 4889), (4831, 4937), (4861, 4909),
     (4799, 4973), (4871, 4903), (4789, 4987), (4889, 4889), (4877, 4903), (4831, 4951),
     (4817, 4967), (4877, 4909), (4831, 4957), (4871, 4919), (4889, 4903), (4861, 4933),
     (4877, 4919), (4889, 4909), (4831, 4969), (4871, 4931), (4871, 4933), (4903, 4903),
     (4889, 4919), (4877, 4933), (4903, 4909), (4877, 4937), (4817, 4999), (4909, 4909),
     (4889, 4931), (4903, 4919), (4831, 4993), (4889, 4937), (4909, 4919), (4861, 4969),
     (4889, 4943), (4903, 4931), (4903, 4933), (4919, 4919), (4909, 4931), (4909, 4933),
     (4877, 4967), (4909, 4937), (4861, 4987), (4919, 4931), (4919, 4933), (4903, 4951),
     (4919, 4937), (4889, 4969), (4909, 4951), (4931, 4931), (4931, 4933), (4933, 4933),
     (4931, 4937), (4933, 4937), (4903, 4969), (4937, 4937), (4933, 4943), (4909, 4969),
     (4937, 4943), (4931, 4951), (4933, 4951), (4943, 4943), (4937, 4951), (4933, 4957),
     (4919, 4973), (4943, 4951), (4909, 4987), (4931, 4967), (4943, 4957), (4951, 4951)]"

lemma rows_ok_32: "rows_from 4800 goldbach_rows_32" "length goldbach_rows_32 = 150"
  by (simp_all add: goldbach_rows_32_def)

definition goldbach_rows_33 :: "(nat \<times> nat) list" where
  "goldbach_rows_33 =
    [
     (4937, 4967), (4937, 4969), (4951, 4957), (4943, 4967), (4943, 4969), (4957, 4957),
     (4943, 4973), (4951, 4967), (4951, 4969), (4919, 5003), (4957, 4967), (4957, 4969),
     (4919, 5009), (4957, 4973), (4933, 4999), (4967, 4967), (4967, 4969), (4969, 4969),
     (4967, 4973), (4969, 4973), (4957, 4987), (4973, 4973), (4937, 5011), (4957, 4993),
     (4943, 5009), (4967, 4987), (4969, 4987), (4937, 5021), (4973, 4987), (4969, 4993),
     (4943, 5021), (4973, 4993), (4969, 4999), (4967, 5003), (4973, 4999), (4987, 4987),
     (4973, 5003), (4969, 5009), (4987, 4993), (4973, 5009), (4973, 5011), (4993, 4993),
     (4967, 5021), (4987, 5003), (4993, 4999), (4973, 5021), (4993, 5003), (4999, 4999),
     (4919, 5081), (4999, 5003), (4993, 5011), (5003, 5003), (4999, 5009), (4999, 5011),
     (5003, 5009), (5003, 5011), (4993, 5023), (5009, 5009), (5009, 5011), (5011, 5011),
     (5003, 5021), (5003, 5023), (4969, 5059), (5009, 5021), (5011, 5021), (5011, 5023),
     (4937, 5099), (4999, 5039), (4933, 5107), (5021, 5021), (5021, 5023), (5023, 5023),
     (5009, 5039), (5011, 5039), (4993, 5059), (5003, 5051), (4969, 5087), (4999, 5059),
     (5021, 5039), (5023, 5039), (4987, 5077), (4967, 5099), (5009, 5059), (5011, 5059),
     (5021, 5051), (5023, 5051), (4999, 5077), (5039, 5039), (5021, 5059), (5023, 5059),
     (5003, 5081), (5009, 5077), (5011, 5077), (5039, 5051), (5011, 5081), (4993, 5101),
     (5009, 5087), (5039, 5059), (5023, 5077), (5051, 5051), (5023, 5081), (4999, 5107),
     (5021, 5087), (5051, 5059), (5011, 5101), (4967, 5147), (5039, 5077), (5059, 5059),
     (5039, 5081), (5023, 5099), (5023, 5101), (5039, 5087), (5051, 5077), (5023, 5107),
     (5051, 5081), (5021, 5113), (5059, 5077), (5051, 5087), (5059, 5081), (5023, 5119),
     (4973, 5171), (5059, 5087), (4969, 5179), (5051, 5099), (5051, 5101), (5077, 5077),
     (5009, 5147), (5077, 5081), (5059, 5101), (5081, 5081), (5077, 5087), (5059, 5107),
     (5081, 5087), (5051, 5119), (5059, 5113), (5087, 5087), (5077, 5099), (5077, 5101),
     (5081, 5099), (5081, 5101), (5077, 5107), (5087, 5099), (5087, 5101), (5077, 5113),
     (5039, 5153), (5087, 5107), (5077, 5119), (5099, 5099), (5099, 5101), (5101, 5101)]"

lemma rows_ok_33: "rows_from 4950 goldbach_rows_33" "length goldbach_rows_33 = 150"
  by (simp_all add: goldbach_rows_33_def)

definition goldbach_rows_34 :: "(nat \<times> nat) list" where
  "goldbach_rows_34 =
    [
     (5051, 5153), (5099, 5107), (5101, 5107), (5039, 5171), (5099, 5113), (5107, 5107),
     (4943, 5273), (5099, 5119), (5107, 5113), (5051, 5171), (5077, 5147), (5113, 5113),
     (5081, 5147), (5077, 5153), (5113, 5119), (5087, 5147), (5039, 5197), (5119, 5119),
     (5087, 5153), (5011, 5231), (5077, 5167), (5099, 5147), (5101, 5147), (5023, 5227),
     (5099, 5153), (5107, 5147), (5077, 5179), (5087, 5171), (5113, 5147), (4831, 5431),
     (5003, 5261), (5119, 5147), (5101, 5167), (5099, 5171), (5119, 5153), (5107, 5167),
     (5087, 5189), (5107, 5171), (5113, 5167), (5051, 5231), (5113, 5171), (5119, 5167),
     (5099, 5189), (5119, 5171), (5113, 5179), (5147, 5147), (5107, 5189), (5119, 5179),
     (5147, 5153), (5113, 5189), (5107, 5197), (5153, 5153), (5119, 5189), (5113, 5197),
     (5081, 5231), (5147, 5167), (5119, 5197), (5147, 5171), (5153, 5167), (5113, 5209),
     (5153, 5171), (5147, 5179), (5119, 5209), (5099, 5231), (5153, 5179), (5167, 5167),
     (5147, 5189), (5167, 5171), (5113, 5227), (5171, 5171), (5147, 5197), (5167, 5179),
     (5087, 5261), (5171, 5179), (5119, 5233), (5081, 5273), (5167, 5189), (5179, 5179),
     (5171, 5189), (5153, 5209), (5167, 5197), (5087, 5279), (5179, 5189), (5023, 5347),
     (5099, 5273), (5147, 5227), (5179, 5197), (5189, 5189), (5171, 5209), (5101, 5281),
     (5153, 5231), (5189, 5197), (5179, 5209), (5153, 5237), (5119, 5273), (5197, 5197),
     (5099, 5297), (5189, 5209), (5167, 5233), (5171, 5231), (5171, 5233), (5197, 5209),
     (5171, 5237), (5179, 5231), (5179, 5233), (5153, 5261), (5189, 5227), (5209, 5209),
     (5189, 5231), (5189, 5233), (5197, 5227), (5189, 5237), (5197, 5231), (5197, 5233),
     (5171, 5261), (5197, 5237), (5209, 5227), (5087, 5351), (5209, 5231), (5209, 5233),
     (5171, 5273), (5209, 5237), (5167, 5281), (5189, 5261), (5179, 5273), (5227, 5227),
     (5153, 5303), (5227, 5231), (5227, 5233), (5231, 5231), (5231, 5233), (5233, 5233),
     (5231, 5237), (5233, 5237), (5059, 5413), (5237, 5237), (5197, 5279), (5197, 5281),
     (5171, 5309), (5209, 5273), (5077, 5407), (5189, 5297), (5227, 5261), (5209, 5281),
     (5231, 5261), (5233, 5261), (5077, 5419), (5237, 5261), (5227, 5273), (5179, 5323)]"

lemma rows_ok_34: "rows_from 5100 goldbach_rows_34" "length goldbach_rows_34 = 150"
  by (simp_all add: goldbach_rows_34_def)

definition goldbach_rows_35 :: "(nat \<times> nat) list" where
  "goldbach_rows_35 =
    [
     (5231, 5273), (5233, 5273), (5227, 5281), (5237, 5273), (5233, 5279), (5233, 5281),
     (5237, 5279), (5237, 5281), (5197, 5323), (5261, 5261), (5227, 5297), (5179, 5347),
     (5231, 5297), (5233, 5297), (5209, 5323), (5261, 5273), (5233, 5303), (5119, 5419),
     (5261, 5279), (5261, 5281), (5197, 5347), (5273, 5273), (5197, 5351), (5227, 5323),
     (5273, 5279), (5273, 5281), (5233, 5323), (5279, 5279), (5279, 5281), (5281, 5281),
     (5261, 5303), (5233, 5333), (5119, 5449), (5273, 5297), (5179, 5393), (5227, 5347),
     (5279, 5297), (5281, 5297), (5233, 5347), (5279, 5303), (5281, 5303), (5179, 5407),
     (5279, 5309), (5281, 5309), (5179, 5413), (5297, 5297), (5273, 5323), (5179, 5419),
     (5297, 5303), (5279, 5323), (5281, 5323), (5303, 5303), (5261, 5347), (5197, 5413),
     (5303, 5309), (5281, 5333), (5209, 5407), (5309, 5309), (5297, 5323), (5209, 5413),
     (5273, 5351), (5303, 5323), (5281, 5347), (5297, 5333), (5309, 5323), (5227, 5407),
     (5303, 5333), (5231, 5407), (5233, 5407), (5309, 5333), (5297, 5347), (5323, 5323),
     (5297, 5351), (5303, 5347), (5233, 5419), (5303, 5351), (5323, 5333), (5227, 5431),
     (5309, 5351), (5281, 5381), (5233, 5431), (5333, 5333), (5281, 5387), (5323, 5347),
     (5279, 5393), (5323, 5351), (5233, 5443), (5297, 5381), (5333, 5347), (5233, 5449),
     (5333, 5351), (5279, 5407), (5281, 5407), (5309, 5381), (5279, 5413), (5347, 5347),
     (5309, 5387), (5347, 5351), (5281, 5419), (5351, 5351), (5323, 5381), (5227, 5479),
     (5309, 5399), (5323, 5387), (5281, 5431), (5333, 5381), (5323, 5393), (5281, 5437),
     (5333, 5387), (5323, 5399), (5281, 5443), (5333, 5393), (5347, 5381), (5323, 5407),
     (5351, 5381), (5347, 5387), (5323, 5413), (5351, 5387), (5347, 5393), (5323, 5419),
     (5351, 5393), (5347, 5399), (5227, 5521), (5351, 5399), (5333, 5419), (5347, 5407),
     (5279, 5477), (5351, 5407), (5347, 5413), (5381, 5381), (5351, 5413), (5347, 5419),
     (5381, 5387), (5351, 5419), (5323, 5449), (5387, 5387), (5333, 5443), (5347, 5431),
     (5387, 5393), (5351, 5431), (5347, 5437), (5393, 5393), (5381, 5407), (5347, 5443),
     (5393, 5399), (5387, 5407), (5347, 5449), (5399, 5399), (5393, 5407), (5323, 5479)]"

lemma rows_ok_35: "rows_from 5250 goldbach_rows_35" "length goldbach_rows_35 = 150"
  by (simp_all add: goldbach_rows_35_def)

definition goldbach_rows_36 :: "(nat \<times> nat) list" where
  "goldbach_rows_36 =
    [
     (5387, 5417), (5399, 5407), (5281, 5527), (5393, 5417), (5399, 5413), (5407, 5407),
     (5399, 5417), (5399, 5419), (5407, 5413), (5381, 5441), (5407, 5417), (5413, 5413),
     (5387, 5441), (5413, 5417), (5413, 5419), (5417, 5417), (5417, 5419), (5419, 5419),
     (5399, 5441), (5399, 5443), (5413, 5431), (5273, 5573), (5417, 5431), (5419, 5431),
     (5381, 5471), (5417, 5437), (5419, 5437), (5417, 5441), (5419, 5441), (5431, 5431),
     (5393, 5471), (5417, 5449), (5431, 5437), (5399, 5471), (5431, 5441), (5437, 5437),
     (5399, 5477), (5437, 5441), (5437, 5443), (5441, 5441), (5441, 5443), (5443, 5443),
     (5417, 5471), (5441, 5449), (5443, 5449), (5417, 5477), (5419, 5477), (5449, 5449),
     (5417, 5483), (5431, 5471), (5347, 5557), (5399, 5507), (5437, 5471), (5431, 5479),
     (5441, 5471), (5443, 5471), (5437, 5479), (5441, 5477), (5449, 5471), (5443, 5479),
     (5441, 5483), (5449, 5477), (5449, 5479), (5399, 5531), (5449, 5483), (5431, 5503),
     (5417, 5519), (5437, 5501), (5437, 5503), (5471, 5471), (5443, 5501), (5443, 5503),
     (5471, 5477), (5471, 5479), (5449, 5503), (5477, 5477), (5477, 5479), (5479, 5479),
     (5477, 5483), (5479, 5483), (5443, 5521), (5483, 5483), (5449, 5519), (5449, 5521),
     (5471, 5501), (5471, 5503), (5449, 5527), (5477, 5501), (5479, 5501), (5479, 5503),
     (5483, 5501), (5483, 5503), (5431, 5557), (5483, 5507), (5471, 5521), (5437, 5557),
     (5477, 5519), (5479, 5519), (5479, 5521), (5501, 5501), (5501, 5503), (5503, 5503),
     (5501, 5507), (5503, 5507), (5449, 5563), (5507, 5507), (5443, 5573), (5449, 5569),
     (5501, 5519), (5503, 5519), (5503, 5521), (5507, 5519), (5507, 5521), (5503, 5527),
     (5501, 5531), (5507, 5527), (5479, 5557), (5519, 5519), (5519, 5521), (5521, 5521),
     (5471, 5573), (5519, 5527), (5521, 5527), (5519, 5531), (5521, 5531), (5527, 5527),
     (5483, 5573), (5527, 5531), (5503, 5557), (5531, 5531), (5507, 5557), (5503, 5563),
     (5477, 5591), (5507, 5563), (5503, 5569), (5501, 5573), (5519, 5557), (5521, 5557),
     (5507, 5573), (5519, 5563), (5527, 5557), (5417, 5669), (5531, 5557), (5527, 5563),
     (5519, 5573), (5531, 5563), (5527, 5569), (5507, 5591), (5531, 5569), (5521, 5581)]"

lemma rows_ok_36: "rows_from 5400 goldbach_rows_36" "length goldbach_rows_36 = 150"
  by (simp_all add: goldbach_rows_36_def)

definition goldbach_rows_37 :: "(nat \<times> nat) list" where
  "goldbach_rows_37 =
    [
     (5531, 5573), (5483, 5623), (5527, 5581), (5519, 5591), (5531, 5581), (5557, 5557),
     (5477, 5639), (5527, 5591), (5557, 5563), (5531, 5591), (5501, 5623), (5563, 5563),
     (5477, 5651), (5557, 5573), (5563, 5569), (5483, 5651), (5563, 5573), (5569, 5569),
     (5501, 5639), (5569, 5573), (5563, 5581), (5573, 5573), (5557, 5591), (5569, 5581),
     (5501, 5651), (5573, 5581), (5503, 5653), (5519, 5639), (5569, 5591), (5581, 5581),
     (5573, 5591), (5527, 5639), (5527, 5641), (5531, 5639), (5581, 5591), (5527, 5647),
     (5519, 5657), (5531, 5647), (5557, 5623), (5591, 5591), (5531, 5653), (5563, 5623),
     (5531, 5657), (5531, 5659), (5569, 5623), (5501, 5693), (5573, 5623), (5557, 5641),
     (5531, 5669), (5563, 5639), (5581, 5623), (5399, 5807), (5569, 5639), (5569, 5641),
     (5573, 5639), (5591, 5623), (5569, 5647), (5507, 5711), (5581, 5639), (5581, 5641),
     (5573, 5651), (5573, 5653), (5581, 5647), (5591, 5639), (5591, 5641), (5581, 5653),
     (5519, 5717), (5591, 5647), (5581, 5659), (5591, 5651), (5591, 5653), (5623, 5623),
     (5591, 5657), (5591, 5659), (5569, 5683), (5471, 5783), (5573, 5683), (5569, 5689),
     (5591, 5669), (5623, 5639), (5623, 5641), (5573, 5693), (5557, 5711), (5623, 5647),
     (5531, 5741), (5623, 5651), (5623, 5653), (5639, 5639), (5639, 5641), (5641, 5641),
     (5591, 5693), (5639, 5647), (5641, 5647), (5639, 5651), (5641, 5651), (5647, 5647),
     (5639, 5657), (5647, 5651), (5647, 5653), (5651, 5651), (5651, 5653), (5653, 5653),
     (5651, 5657), (5653, 5657), (5653, 5659), (5657, 5657), (5657, 5659), (5659, 5659),
     (5651, 5669), (5653, 5669), (5641, 5683), (5657, 5669), (5659, 5669), (5647, 5683),
     (5639, 5693), (5651, 5683), (5653, 5683), (5669, 5669), (5657, 5683), (5659, 5683),
     (5651, 5693), (5657, 5689), (5659, 5689), (5657, 5693), (5669, 5683), (5653, 5701),
     (5639, 5717), (5669, 5689), (5659, 5701), (5669, 5693), (5653, 5711), (5683, 5683),
     (5657, 5711), (5669, 5701), (5683, 5689), (5657, 5717), (5683, 5693), (5689, 5689),
     (5669, 5711), (5689, 5693), (5683, 5701), (5693, 5693), (5651, 5737), (5689, 5701),
     (5651, 5741), (5693, 5701), (5659, 5737), (5657, 5741), (5689, 5711), (5701, 5701)]"

lemma rows_ok_37: "rows_from 5550 goldbach_rows_37" "length goldbach_rows_37 = 150"
  by (simp_all add: goldbach_rows_37_def)

definition goldbach_rows_38 :: "(nat \<times> nat) list" where
  "goldbach_rows_38 =
    [
     (5693, 5711), (5689, 5717), (5659, 5749), (5693, 5717), (5701, 5711), (5623, 5791),
     (5573, 5843), (5701, 5717), (5683, 5737), (5711, 5711), (5683, 5741), (5689, 5737),
     (5711, 5717), (5693, 5737), (5689, 5743), (5717, 5717), (5693, 5743), (5701, 5737),
     (5657, 5783), (5701, 5741), (5701, 5743), (5639, 5807), (5711, 5737), (5701, 5749),
     (5711, 5741), (5717, 5737), (5503, 5953), (5717, 5741), (5717, 5743), (5683, 5779),
     (5657, 5807), (5717, 5749), (5689, 5779), (5669, 5801), (5693, 5779), (5737, 5737),
     (5693, 5783), (5737, 5741), (5737, 5743), (5741, 5741), (5741, 5743), (5743, 5743),
     (5639, 5849), (5741, 5749), (5743, 5749), (5711, 5783), (5717, 5779), (5749, 5749),
     (5717, 5783), (5711, 5791), (5683, 5821), (5693, 5813), (5717, 5791), (5689, 5821),
     (5711, 5801), (5701, 5813), (5737, 5779), (5717, 5801), (5741, 5779), (5743, 5779),
     (5741, 5783), (5743, 5783), (5749, 5779), (5717, 5813), (5749, 5783), (5743, 5791),
     (5693, 5843), (5737, 5801), (5749, 5791), (5741, 5801), (5743, 5801), (5689, 5857),
     (5741, 5807), (5749, 5801), (5701, 5851), (5741, 5813), (5749, 5807), (5779, 5779),
     (5717, 5843), (5779, 5783), (5743, 5821), (5783, 5783), (5741, 5827), (5779, 5791),
     (5711, 5861), (5783, 5791), (5749, 5827), (5717, 5861), (5779, 5801), (5791, 5791),
     (5783, 5801), (5779, 5807), (5749, 5839), (5783, 5807), (5791, 5801), (5743, 5851),
     (5783, 5813), (5791, 5807), (5779, 5821), (5801, 5801), (5791, 5813), (5779, 5827),
     (5801, 5807), (5783, 5827), (5791, 5821), (5807, 5807), (5749, 5867), (5791, 5827),
     (5807, 5813), (5801, 5821), (5743, 5881), (5813, 5813), (5807, 5821), (5791, 5839),
     (5783, 5849), (5813, 5821), (5779, 5857), (5741, 5897), (5813, 5827), (5821, 5821),
     (5801, 5843), (5807, 5839), (5821, 5827), (5807, 5843), (5813, 5839), (5827, 5827),
     (5813, 5843), (5807, 5851), (5821, 5839), (5813, 5849), (5821, 5843), (5827, 5839),
     (5807, 5861), (5827, 5843), (5821, 5851), (5813, 5861), (5827, 5849), (5839, 5839),
     (5813, 5867), (5839, 5843), (5827, 5857), (5843, 5843), (5839, 5849), (5839, 5851),
     (5843, 5849), (5843, 5851), (5839, 5857), (5849, 5849), (5849, 5851), (5851, 5851)]"

lemma rows_ok_38: "rows_from 5700 goldbach_rows_38" "length goldbach_rows_38 = 150"
  by (simp_all add: goldbach_rows_38_def)

definition goldbach_rows_39 :: "(nat \<times> nat) list" where
  "goldbach_rows_39 =
    [
     (5843, 5861), (5849, 5857), (5851, 5857), (5849, 5861), (5851, 5861), (5857, 5857),
     (5849, 5867), (5857, 5861), (5851, 5869), (5861, 5861), (5857, 5867), (5857, 5869),
     (5861, 5867), (5861, 5869), (5851, 5881), (5867, 5867), (5867, 5869), (5869, 5869),
     (5861, 5879), (5861, 5881), (5821, 5923), (5867, 5879), (5869, 5879), (5869, 5881),
     (5849, 5903), (5857, 5897), (5749, 6007), (5879, 5879), (5879, 5881), (5881, 5881),
     (5867, 5897), (5869, 5897), (5701, 6067), (5867, 5903), (5869, 5903), (5851, 5923),
     (5879, 5897), (5881, 5897), (5857, 5923), (5879, 5903), (5881, 5903), (5779, 6007),
     (5861, 5927), (5867, 5923), (5869, 5923), (5897, 5897), (5869, 5927), (5791, 6007),
     (5897, 5903), (5879, 5923), (5881, 5923), (5903, 5903), (5881, 5927), (5857, 5953),
     (5801, 6011), (5861, 5953), (5779, 6037), (5879, 5939), (5897, 5923), (5869, 5953),
     (5897, 5927), (5903, 5923), (5821, 6007), (5903, 5927), (5879, 5953), (5881, 5953),
     (5897, 5939), (5857, 5981), (5749, 6091), (5903, 5939), (5857, 5987), (5923, 5923),
     (5867, 5981), (5923, 5927), (5779, 6073), (5927, 5927), (5903, 5953), (5851, 6007),
     (5879, 5981), (5923, 5939), (5857, 6007), (5927, 5939), (5881, 5987), (5827, 6043),
     (5861, 6011), (5867, 6007), (5923, 5953), (5939, 5939), (5927, 5953), (5839, 6043),
     (5903, 5981), (5879, 6007), (5881, 6007), (5903, 5987), (5939, 5953), (5857, 6037),
     (5867, 6029), (5869, 6029), (5857, 6043), (5849, 6053), (5923, 5981), (5953, 5953),
     (5927, 5981), (5923, 5987), (5869, 6043), (5927, 5987), (5879, 6037), (5881, 6037),
     (5939, 5981), (5879, 6043), (5881, 6043), (5939, 5987), (5881, 6047), (5923, 6007),
     (5903, 6029), (5953, 5981), (5869, 6067), (5927, 6011), (5953, 5987), (5869, 6073),
     (5897, 6047), (5939, 6007), (5881, 6067), (5939, 6011), (5923, 6029), (5881, 6073),
     (5927, 6029), (5879, 6079), (5953, 6007), (5981, 5981), (5953, 6011), (5923, 6043),
     (5981, 5987), (5927, 6043), (5881, 6091), (5987, 5987), (5939, 6037), (5857, 6121),
     (5927, 6053), (5953, 6029), (5851, 6133), (5939, 6047), (5981, 6007), (5953, 6037),
     (5981, 6011), (5987, 6007), (5953, 6043), (5987, 6011), (5953, 6047), (5923, 6079)]"

lemma rows_ok_39: "rows_from 5850 goldbach_rows_39" "length goldbach_rows_39 = 150"
  by (simp_all add: goldbach_rows_39_def)

definition goldbach_rows_40 :: "(nat \<times> nat) list" where
  "goldbach_rows_40 =
    [
     (5903, 6101), (5953, 6053), (5857, 6151), (5981, 6029), (5939, 6073), (6007, 6007),
     (5987, 6029), (6007, 6011), (5953, 6067), (6011, 6011), (5987, 6037), (5953, 6073),
     (5981, 6047), (5987, 6043), (5953, 6079), (5987, 6047), (6007, 6029), (5839, 6199),
     (6011, 6029), (5953, 6089), (6007, 6037), (5903, 6143), (6011, 6037), (6007, 6043),
     (5939, 6113), (6011, 6043), (5923, 6133), (6029, 6029), (6007, 6053), (5851, 6211),
     (6011, 6053), (6029, 6037), (5869, 6199), (5981, 6089), (6029, 6043), (6037, 6037),
     (6029, 6047), (6011, 6067), (6037, 6043), (6029, 6053), (6037, 6047), (6043, 6043),
     (5987, 6101), (6043, 6047), (5881, 6211), (6047, 6047), (6043, 6053), (6007, 6091),
     (6047, 6053), (6029, 6073), (6037, 6067), (6053, 6053), (6029, 6079), (6043, 6067),
     (6011, 6101), (6047, 6067), (6043, 6073), (6029, 6089), (6053, 6067), (6043, 6079),
     (6011, 6113), (6053, 6073), (6037, 6091), (6029, 6101), (6053, 6079), (6067, 6067),
     (6047, 6089), (6047, 6091), (6067, 6073), (6053, 6089), (6053, 6091), (6073, 6073),
     (6047, 6101), (6037, 6113), (6073, 6079), (6053, 6101), (6067, 6089), (6079, 6079),
     (6047, 6113), (6073, 6089), (6073, 6091), (6053, 6113), (6079, 6089), (6079, 6091),
     (6029, 6143), (6073, 6101), (6043, 6133), (6089, 6089), (6089, 6091), (6091, 6091),
     (6053, 6131), (6073, 6113), (6067, 6121), (6089, 6101), (6091, 6101), (6073, 6121),
     (6053, 6143), (6067, 6131), (6079, 6121), (6101, 6101), (6091, 6113), (6073, 6133),
     (6011, 6197), (6089, 6121), (6091, 6121), (6101, 6113), (6073, 6143), (6067, 6151),
     (6089, 6131), (6101, 6121), (6091, 6133), (6113, 6113), (6029, 6199), (6079, 6151),
     (6101, 6131), (6113, 6121), (6073, 6163), (5981, 6257), (6089, 6151), (6121, 6121),
     (6113, 6131), (6113, 6133), (6037, 6211), (6053, 6197), (6121, 6131), (6121, 6133),
     (6113, 6143), (6047, 6211), (6043, 6217), (6131, 6131), (6131, 6133), (6133, 6133),
     (6047, 6221), (6073, 6197), (6121, 6151), (6131, 6143), (6133, 6143), (6079, 6199),
     (6011, 6269), (6131, 6151), (6133, 6151), (6143, 6143), (6091, 6197), (6091, 6199),
     (6089, 6203), (6143, 6151), (6133, 6163), (6101, 6197), (6101, 6199), (6151, 6151)]"

lemma rows_ok_40: "rows_from 6000 goldbach_rows_40" "length goldbach_rows_40 = 150"
  by (simp_all add: goldbach_rows_40_def)

definition goldbach_rows_41 :: "(nat \<times> nat) list" where
  "goldbach_rows_41 =
    [
     (6131, 6173), (6143, 6163), (6091, 6217), (6113, 6197), (6113, 6199), (6151, 6163),
     (6143, 6173), (6121, 6197), (6121, 6199), (6101, 6221), (6151, 6173), (6163, 6163),
     (6131, 6197), (6133, 6197), (6133, 6199), (6131, 6203), (6163, 6173), (6121, 6217),
     (6143, 6197), (6143, 6199), (6133, 6211), (6173, 6173), (6151, 6197), (6151, 6199),
     (6131, 6221), (6151, 6203), (6079, 6277), (6101, 6257), (6163, 6197), (6163, 6199),
     (6143, 6221), (6163, 6203), (6151, 6217), (6173, 6197), (6173, 6199), (6163, 6211),
     (6173, 6203), (6131, 6247), (6163, 6217), (6113, 6269), (6173, 6211), (6043, 6343),
     (6131, 6257), (6173, 6217), (6163, 6229), (6197, 6197), (6197, 6199), (6199, 6199),
     (6197, 6203), (6199, 6203), (6133, 6271), (6203, 6203), (6197, 6211), (6199, 6211),
     (6143, 6269), (6203, 6211), (6199, 6217), (6197, 6221), (6203, 6217), (6211, 6211),
     (6203, 6221), (6197, 6229), (6211, 6217), (6173, 6257), (6211, 6221), (6217, 6217),
     (6173, 6263), (6217, 6221), (6211, 6229), (6221, 6221), (6197, 6247), (6217, 6229),
     (6131, 6317), (6221, 6229), (6151, 6301), (6197, 6257), (6199, 6257), (6229, 6229),
     (6203, 6257), (6199, 6263), (6217, 6247), (6203, 6263), (6221, 6247), (6199, 6271),
     (6203, 6269), (6217, 6257), (6229, 6247), (6221, 6257), (6217, 6263), (6211, 6271),
     (6221, 6263), (6229, 6257), (6217, 6271), (6221, 6269), (6229, 6263), (6247, 6247),
     (6197, 6299), (6229, 6269), (6229, 6271), (6203, 6299), (6247, 6257), (6229, 6277),
     (6221, 6287), (6247, 6263), (6211, 6301), (6257, 6257), (6247, 6269), (6247, 6271),
     (6257, 6263), (6221, 6301), (6247, 6277), (6263, 6263), (6257, 6271), (6229, 6301),
     (6263, 6269), (6263, 6271), (6199, 6337), (6269, 6269), (6269, 6271), (6271, 6271),
     (6257, 6287), (6269, 6277), (6271, 6277), (6263, 6287), (6229, 6323), (6277, 6277),
     (6269, 6287), (6271, 6287), (6217, 6343), (6263, 6299), (6277, 6287), (6229, 6337),
     (6269, 6299), (6271, 6299), (6271, 6301), (6287, 6287), (6277, 6299), (6277, 6301),
     (6269, 6311), (6271, 6311), (6247, 6337), (6287, 6299), (6287, 6301), (6247, 6343),
     (6269, 6323), (6277, 6317), (6229, 6367), (6299, 6299), (6299, 6301), (6301, 6301)]"

lemma rows_ok_41: "rows_from 6150 goldbach_rows_41" "length goldbach_rows_41 = 150"
  by (simp_all add: goldbach_rows_41_def)

definition goldbach_rows_42 :: "(nat \<times> nat) list" where
  "goldbach_rows_42 =
    [
     (6287, 6317), (6277, 6329), (6271, 6337), (6299, 6311), (6301, 6311), (6277, 6337),
     (6299, 6317), (6301, 6317), (6277, 6343), (6311, 6311), (6301, 6323), (6247, 6379),
     (6311, 6317), (6301, 6329), (6271, 6361), (6317, 6317), (6299, 6337), (6301, 6337),
     (6317, 6323), (6299, 6343), (6301, 6343), (6323, 6323), (6311, 6337), (6277, 6373),
     (6323, 6329), (6317, 6337), (6277, 6379), (6329, 6329), (6323, 6337), (6301, 6361),
     (6311, 6353), (6329, 6337), (6301, 6367), (6317, 6353), (6329, 6343), (6337, 6337),
     (6323, 6353), (6317, 6361), (6337, 6343), (6329, 6353), (6323, 6361), (6343, 6343),
     (6329, 6359), (6337, 6353), (6271, 6421), (6221, 6473), (6343, 6353), (6337, 6361),
     (6311, 6389), (6343, 6359), (6343, 6361), (6353, 6353), (6329, 6379), (6343, 6367),
     (6353, 6359), (6353, 6361), (6343, 6373), (6359, 6359), (6359, 6361), (6361, 6361),
     (6203, 6521), (6359, 6367), (6361, 6367), (6257, 6473), (6359, 6373), (6367, 6367),
     (6287, 6449), (6359, 6379), (6367, 6373), (6353, 6389), (6323, 6421), (6373, 6373),
     (6359, 6389), (6361, 6389), (6373, 6379), (6263, 6491), (6367, 6389), (6379, 6379),
     (6311, 6449), (6373, 6389), (6367, 6397), (6317, 6449), (6379, 6389), (6373, 6397),
     (6323, 6449), (6353, 6421), (6379, 6397), (6389, 6389), (6359, 6421), (6361, 6421),
     (6311, 6473), (6389, 6397), (6367, 6421), (6317, 6473), (6343, 6449), (6397, 6397),
     (6323, 6473), (6329, 6469), (6379, 6421), (6353, 6449), (6353, 6451), (6379, 6427),
     (6359, 6449), (6389, 6421), (6361, 6451), (6323, 6491), (6389, 6427), (6397, 6421),
     (6329, 6491), (6373, 6449), (6397, 6427), (6353, 6473), (6379, 6449), (6379, 6451),
     (6359, 6473), (6361, 6473), (6367, 6469), (6389, 6449), (6389, 6451), (6421, 6421),
     (6353, 6491), (6397, 6449), (6421, 6427), (6359, 6491), (6379, 6473), (6427, 6427),
     (6287, 6569), (6389, 6469), (6379, 6481), (6389, 6473), (6373, 6491), (6397, 6469),
     (6317, 6551), (6421, 6449), (6421, 6451), (6353, 6521), (6427, 6449), (6427, 6451),
     (6389, 6491), (6361, 6521), (6337, 6547), (6323, 6563), (6397, 6491), (6421, 6469),
     (6329, 6563), (6421, 6473), (6427, 6469), (6449, 6449), (6449, 6451), (6451, 6451)]"

lemma rows_ok_42: "rows_from 6300 goldbach_rows_42" "length goldbach_rows_42 = 150"
  by (simp_all add: goldbach_rows_42_def)

definition goldbach_rows_43 :: "(nat \<times> nat) list" where
  "goldbach_rows_43 =
    [
     (6353, 6551), (6359, 6547), (6427, 6481), (6389, 6521), (6421, 6491), (6367, 6547),
     (6353, 6563), (6449, 6469), (6451, 6469), (6449, 6473), (6451, 6473), (6397, 6529),
     (6359, 6569), (6449, 6481), (6451, 6481), (6353, 6581), (6389, 6547), (6469, 6469),
     (6449, 6491), (6469, 6473), (6397, 6547), (6473, 6473), (6427, 6521), (6469, 6481),
     (6389, 6563), (6473, 6481), (6427, 6529), (6389, 6569), (6469, 6491), (6481, 6481),
     (6473, 6491), (6397, 6569), (6421, 6547), (6449, 6521), (6481, 6491), (6427, 6547),
     (6323, 6653), (6449, 6529), (6451, 6529), (6491, 6491), (6421, 6563), (6379, 6607),
     (6389, 6599), (6469, 6521), (6421, 6571), (6473, 6521), (6449, 6547), (6469, 6529),
     (6449, 6551), (6481, 6521), (6451, 6553), (6353, 6653), (6427, 6581), (6481, 6529),
     (6491, 6521), (6451, 6563), (6469, 6547), (6449, 6569), (6491, 6529), (6469, 6553),
     (6473, 6551), (6473, 6553), (6481, 6547), (6449, 6581), (6481, 6551), (6481, 6553),
     (6473, 6563), (6491, 6547), (6469, 6571), (6521, 6521), (6491, 6553), (6469, 6577),
     (6449, 6599), (6521, 6529), (6481, 6571), (6491, 6563), (6449, 6607), (6529, 6529),
     (6491, 6569), (6491, 6571), (6427, 6637), (6329, 6737), (6521, 6547), (6451, 6619),
     (6521, 6551), (6521, 6553), (6529, 6547), (6389, 6689), (6529, 6551), (6529, 6553),
     (6521, 6563), (6449, 6637), (6481, 6607), (6521, 6569), (6529, 6563), (6547, 6547),
     (6359, 6737), (6547, 6551), (6547, 6553), (6551, 6551), (6551, 6553), (6553, 6553),
     (6449, 6659), (6547, 6563), (6451, 6661), (6551, 6563), (6553, 6563), (6547, 6571),
     (6551, 6569), (6553, 6569), (6553, 6571), (6563, 6563), (6551, 6577), (6553, 6577),
     (6563, 6569), (6563, 6571), (6529, 6607), (6569, 6569), (6569, 6571), (6571, 6571),
     (6563, 6581), (6569, 6577), (6571, 6577), (6569, 6581), (6571, 6581), (6577, 6577),
     (6353, 6803), (6577, 6581), (6553, 6607), (6581, 6581), (6491, 6673), (6547, 6619),
     (6569, 6599), (6571, 6599), (6553, 6619), (6521, 6653), (6577, 6599), (6571, 6607),
     (6581, 6599), (6563, 6619), (6577, 6607), (6449, 6737), (6581, 6607), (6571, 6619),
     (6491, 6701), (6521, 6673), (6577, 6619), (6599, 6599), (6581, 6619), (6529, 6673)]"

lemma rows_ok_43: "rows_from 6450 goldbach_rows_43" "length goldbach_rows_43 = 150"
  by (simp_all add: goldbach_rows_43_def)

definition goldbach_rows_44 :: "(nat \<times> nat) list" where
  "goldbach_rows_44 =
    [
     (6551, 6653), (6599, 6607), (6571, 6637), (6551, 6659), (6553, 6659), (6607, 6607),
     (6563, 6653), (6599, 6619), (6547, 6673), (6569, 6653), (6571, 6653), (6607, 6619),
     (6569, 6659), (6577, 6653), (6571, 6661), (6581, 6653), (6599, 6637), (6619, 6619),
     (6581, 6659), (6581, 6661), (6607, 6637), (6389, 6857), (6569, 6679), (6577, 6673),
     (6599, 6653), (6581, 6673), (6619, 6637), (6599, 6659), (6607, 6653), (6571, 6691),
     (6563, 6701), (6607, 6659), (6607, 6661), (6581, 6689), (6619, 6653), (6637, 6637),
     (6473, 6803), (6619, 6659), (6619, 6661), (6581, 6701), (6581, 6703), (6607, 6679),
     (6599, 6689), (6637, 6653), (6619, 6673), (6491, 6803), (6637, 6659), (6637, 6661),
     (6599, 6701), (6599, 6703), (6571, 6733), (6653, 6653), (6619, 6689), (6637, 6673),
     (6653, 6659), (6653, 6661), (6637, 6679), (6659, 6659), (6659, 6661), (6661, 6661),
     (6563, 6761), (6653, 6673), (6637, 6691), (6569, 6761), (6659, 6673), (6661, 6673),
     (6599, 6737), (6659, 6679), (6661, 6679), (6653, 6689), (6653, 6691), (6673, 6673),
     (6659, 6689), (6661, 6689), (6673, 6679), (6653, 6701), (6653, 6703), (6679, 6679),
     (6659, 6701), (6673, 6689), (6673, 6691), (6563, 6803), (6679, 6689), (6679, 6691),
     (6653, 6719), (6673, 6701), (6673, 6703), (6689, 6689), (6689, 6691), (6691, 6691),
     (6581, 6803), (6653, 6733), (6679, 6709), (6689, 6701), (6691, 6701), (6691, 6703),
     (6659, 6737), (6689, 6709), (6691, 6709), (6701, 6701), (6701, 6703), (6703, 6703),
     (6689, 6719), (6701, 6709), (6703, 6709), (6653, 6761), (6679, 6737), (6709, 6709),
     (6701, 6719), (6703, 6719), (6691, 6733), (6689, 6737), (6709, 6719), (6637, 6793),
     (6653, 6779), (6701, 6733), (6703, 6733), (6719, 6719), (6703, 6737), (6709, 6733),
     (6653, 6791), (6709, 6737), (6619, 6829), (6689, 6761), (6719, 6733), (6691, 6763),
     (6719, 6737), (6679, 6779), (6679, 6781), (6701, 6761), (6703, 6761), (6733, 6733),
     (6689, 6779), (6733, 6737), (6709, 6763), (6737, 6737), (6673, 6803), (6637, 6841),
     (6719, 6761), (6719, 6763), (6703, 6781), (6659, 6827), (6709, 6779), (6709, 6781),
     (6701, 6791), (6733, 6761), (6733, 6763), (6737, 6761), (6737, 6763), (6709, 6793)]"

lemma rows_ok_44: "rows_from 6600 goldbach_rows_44" "length goldbach_rows_44 = 150"
  by (simp_all add: goldbach_rows_44_def)

definition goldbach_rows_45 :: "(nat \<times> nat) list" where
  "goldbach_rows_45 =
    [
     (6701, 6803), (6703, 6803), (6679, 6829), (6719, 6791), (6733, 6779), (6733, 6781),
     (6737, 6779), (6737, 6781), (6691, 6829), (6761, 6761), (6761, 6763), (6763, 6763),
     (6737, 6791), (6737, 6793), (6709, 6823), (6701, 6833), (6733, 6803), (6709, 6829),
     (6761, 6779), (6763, 6779), (6763, 6781), (6719, 6827), (6719, 6829), (6709, 6841),
     (6761, 6791), (6763, 6791), (6763, 6793), (6779, 6779), (6779, 6781), (6781, 6781),
     (6761, 6803), (6763, 6803), (6661, 6907), (6779, 6791), (6781, 6791), (6781, 6793),
     (6719, 6857), (6737, 6841), (6709, 6871), (6791, 6791), (6791, 6793), (6793, 6793),
     (6761, 6827), (6763, 6827), (6763, 6829), (6791, 6803), (6793, 6803), (6691, 6907),
     (6737, 6863), (6779, 6823), (6781, 6823), (6803, 6803), (6781, 6827), (6781, 6829),
     (6779, 6833), (6791, 6823), (6793, 6823), (6791, 6827), (6793, 6827), (6793, 6829),
     (6791, 6833), (6803, 6823), (6679, 6949), (6803, 6827), (6803, 6829), (6793, 6841),
     (6803, 6833), (6781, 6857), (6733, 6907), (6779, 6863), (6803, 6841), (6823, 6823),
     (6791, 6857), (6823, 6827), (6823, 6829), (6827, 6827), (6827, 6829), (6829, 6829),
     (6827, 6833), (6829, 6833), (6823, 6841), (6833, 6833), (6827, 6841), (6829, 6841),
     (6803, 6869), (6833, 6841), (6793, 6883), (6779, 6899), (6823, 6857), (6841, 6841),
     (6827, 6857), (6829, 6857), (6781, 6907), (6833, 6857), (6829, 6863), (6823, 6871),
     (6833, 6863), (6841, 6857), (6829, 6871), (6833, 6869), (6841, 6863), (6823, 6883),
     (6791, 6917), (6841, 6869), (6841, 6871), (6857, 6857), (6833, 6883), (6691, 7027),
     (6857, 6863), (6823, 6899), (6841, 6883), (6863, 6863), (6857, 6871), (6823, 6907),
     (6863, 6869), (6863, 6871), (6829, 6907), (6869, 6869), (6869, 6871), (6871, 6871),
     (6833, 6911), (6863, 6883), (6841, 6907), (6833, 6917), (6869, 6883), (6871, 6883),
     (6857, 6899), (6841, 6917), (6793, 6967), (6863, 6899), (6857, 6907), (6883, 6883),
     (6869, 6899), (6871, 6899), (6823, 6949), (6863, 6911), (6869, 6907), (6871, 6907),
     (6869, 6911), (6883, 6899), (6823, 6961), (6869, 6917), (6871, 6917), (6883, 6907),
     (6833, 6959), (6883, 6911), (6829, 6967), (6899, 6899), (6883, 6917), (6841, 6961)]"

lemma rows_ok_45: "rows_from 6750 goldbach_rows_45" "length goldbach_rows_45 = 150"
  by (simp_all add: goldbach_rows_45_def)

definition goldbach_rows_46 :: "(nat \<times> nat) list" where
  "goldbach_rows_46 =
    [
     (6857, 6947), (6899, 6907), (6841, 6967), (6899, 6911), (6863, 6949), (6907, 6907),
     (6899, 6917), (6907, 6911), (6871, 6949), (6911, 6911), (6907, 6917), (6829, 6997),
     (6911, 6917), (6883, 6947), (6883, 6949), (6917, 6917), (6869, 6967), (6871, 6967),
     (6869, 6971), (6883, 6959), (6883, 6961), (6899, 6947), (6899, 6949), (6883, 6967),
     (6869, 6983), (6907, 6947), (6907, 6949), (6911, 6947), (6911, 6949), (6871, 6991),
     (6917, 6947), (6917, 6949), (6907, 6961), (6911, 6959), (6911, 6961), (6907, 6967),
     (6917, 6959), (6917, 6961), (6883, 6997), (6911, 6971), (6917, 6967), (6829, 7057),
     (6917, 6971), (6907, 6983), (6823, 7069), (6947, 6947), (6947, 6949), (6949, 6949),
     (6917, 6983), (6911, 6991), (6907, 6997), (6947, 6959), (6949, 6959), (6949, 6961),
     (6911, 7001), (6947, 6967), (6949, 6967), (6959, 6959), (6959, 6961), (6961, 6961),
     (6947, 6977), (6959, 6967), (6961, 6967), (6959, 6971), (6961, 6971), (6967, 6967),
     (6959, 6977), (6967, 6971), (6949, 6991), (6971, 6971), (6967, 6977), (6949, 6997),
     (6971, 6977), (6967, 6983), (6961, 6991), (6977, 6977), (6959, 6997), (6967, 6991),
     (6977, 6983), (6971, 6991), (6967, 6997), (6983, 6983), (6977, 6991), (6841, 7129),
     (6971, 7001), (6983, 6991), (6949, 7027), (6977, 7001), (6983, 6997), (6991, 6991),
     (6983, 7001), (6967, 7019), (6991, 6997), (6977, 7013), (6991, 7001), (6997, 6997),
     (6983, 7013), (6997, 7001), (6961, 7039), (7001, 7001), (6991, 7013), (6967, 7039),
     (6899, 7109), (6997, 7013), (6883, 7129), (7001, 7013), (6997, 7019), (6991, 7027),
     (7001, 7019), (6983, 7039), (6997, 7027), (7013, 7013), (7001, 7027), (6991, 7039),
     (7013, 7019), (6991, 7043), (6997, 7039), (7019, 7019), (7013, 7027), (6883, 7159),
     (7001, 7043), (7019, 7027), (6991, 7057), (6971, 7079), (7013, 7039), (7027, 7027),
     (7013, 7043), (7019, 7039), (6991, 7069), (7019, 7043), (6961, 7103), (7027, 7039),
     (6959, 7109), (7027, 7043), (6829, 7243), (6971, 7103), (7019, 7057), (7039, 7039),
     (7001, 7079), (7039, 7043), (7027, 7057), (7043, 7043), (7019, 7069), (6961, 7129),
     (7013, 7079), (6991, 7103), (7039, 7057), (7019, 7079), (7043, 7057), (6883, 7219)]"

lemma rows_ok_46: "rows_from 6900 goldbach_rows_46" "length goldbach_rows_46 = 150"
  by (simp_all add: goldbach_rows_46_def)

definition goldbach_rows_47 :: "(nat \<times> nat) list" where
  "goldbach_rows_47 =
    [
     (7001, 7103), (7027, 7079), (7039, 7069), (7001, 7109), (7043, 7069), (7057, 7057),
     (7013, 7103), (7039, 7079), (6991, 7129), (7043, 7079), (6997, 7127), (7057, 7069),
     (7019, 7109), (7027, 7103), (6823, 7309), (7013, 7121), (7057, 7079), (7069, 7069),
     (7019, 7121), (7039, 7103), (6967, 7177), (7043, 7103), (7069, 7079), (6991, 7159),
     (7043, 7109), (7027, 7127), (7027, 7129), (7079, 7079), (7057, 7103), (6949, 7213),
     (7043, 7121), (7057, 7109), (7039, 7129), (7043, 7127), (7069, 7103), (6997, 7177),
     (6983, 7193), (7069, 7109), (6967, 7213), (7079, 7103), (7057, 7127), (7057, 7129),
     (7079, 7109), (7069, 7121), (6949, 7243), (7043, 7151), (7069, 7127), (7069, 7129),
     (7079, 7121), (7043, 7159), (7027, 7177), (7103, 7103), (7079, 7129), (6997, 7213),
     (7103, 7109), (7027, 7187), (7057, 7159), (7109, 7109), (7069, 7151), (6871, 7351),
     (7103, 7121), (7039, 7187), (7069, 7159), (7109, 7121), (7103, 7129), (7057, 7177),
     (7109, 7127), (7109, 7129), (7027, 7213), (7121, 7121), (7057, 7187), (7069, 7177),
     (7121, 7127), (7121, 7129), (7039, 7213), (7127, 7127), (7127, 7129), (7129, 7129),
     (7109, 7151), (7103, 7159), (7057, 7207), (7079, 7187), (7109, 7159), (7057, 7213),
     (7121, 7151), (7027, 7247), (7069, 7207), (7127, 7151), (7129, 7151), (7069, 7213),
     (7001, 7283), (7127, 7159), (7129, 7159), (7103, 7187), (7079, 7213), (7057, 7237),
     (7109, 7187), (7121, 7177), (7057, 7243), (7151, 7151), (7127, 7177), (7129, 7177),
     (7121, 7187), (7151, 7159), (7069, 7243), (7127, 7187), (7129, 7187), (7159, 7159),
     (7127, 7193), (7129, 7193), (7027, 7297), (7079, 7247), (7151, 7177), (6997, 7333),
     (7121, 7211), (7127, 7207), (7159, 7177), (7151, 7187), (7129, 7211), (7129, 7213),
     (7151, 7193), (7159, 7187), (7129, 7219), (7121, 7229), (7159, 7193), (7177, 7177),
     (7127, 7229), (7151, 7207), (7039, 7321), (7151, 7211), (7177, 7187), (7159, 7207),
     (7121, 7247), (7177, 7193), (7159, 7213), (7187, 7187), (7129, 7247), (7159, 7219),
     (7187, 7193), (7129, 7253), (7177, 7207), (7193, 7193), (7177, 7211), (7177, 7213),
     (7109, 7283), (7187, 7207), (7177, 7219), (7187, 7211), (7193, 7207), (7159, 7243)]"

lemma rows_ok_47: "rows_from 7050 goldbach_rows_47" "length goldbach_rows_47 = 150"
  by (simp_all add: goldbach_rows_47_def)

definition goldbach_rows_48 :: "(nat \<times> nat) list" where
  "goldbach_rows_48 =
    [
     (7193, 7211), (7193, 7213), (7057, 7351), (7127, 7283), (7193, 7219), (7207, 7207),
     (7187, 7229), (7207, 7211), (7207, 7213), (7211, 7211), (7211, 7213), (7213, 7213),
     (7121, 7307), (7211, 7219), (7213, 7219), (7187, 7247), (7207, 7229), (7219, 7219),
     (7211, 7229), (7213, 7229), (7207, 7237), (7193, 7253), (7219, 7229), (7213, 7237),
     (7121, 7331), (7211, 7243), (7219, 7237), (7229, 7229), (7213, 7247), (7219, 7243),
     (7211, 7253), (7229, 7237), (7159, 7309), (7187, 7283), (7229, 7243), (7237, 7237),
     (7229, 7247), (7129, 7349), (7237, 7243), (7229, 7253), (7237, 7247), (7243, 7243),
     (7001, 7487), (7243, 7247), (7159, 7333), (7247, 7247), (7243, 7253), (7177, 7321),
     (7247, 7253), (7219, 7283), (7207, 7297), (7253, 7253), (7211, 7297), (7213, 7297),
     (7229, 7283), (7207, 7307), (7219, 7297), (7211, 7307), (7237, 7283), (7213, 7309),
     (7193, 7331), (7243, 7283), (7219, 7309), (7247, 7283), (7211, 7321), (7237, 7297),
     (7253, 7283), (7229, 7309), (7243, 7297), (7211, 7331), (7247, 7297), (7237, 7309),
     (7019, 7529), (7253, 7297), (7243, 7309), (7247, 7307), (7247, 7309), (7237, 7321),
     (7253, 7307), (7253, 7309), (7243, 7321), (7283, 7283), (7247, 7321), (7237, 7333),
     (7121, 7451), (7253, 7321), (7243, 7333), (7247, 7331), (7283, 7297), (7213, 7369),
     (7253, 7331), (7253, 7333), (7237, 7351), (7283, 7307), (7283, 7309), (7297, 7297),
     (7247, 7349), (7247, 7351), (7207, 7393), (7253, 7349), (7297, 7307), (7297, 7309),
     (7151, 7457), (7193, 7417), (7243, 7369), (7307, 7307), (7307, 7309), (7309, 7309),
     (7187, 7433), (7253, 7369), (7213, 7411), (7193, 7433), (7307, 7321), (7309, 7321),
     (7283, 7349), (7283, 7351), (7243, 7393), (7307, 7331), (7309, 7331), (7321, 7321),
     (7211, 7433), (7297, 7349), (7297, 7351), (7193, 7457), (7321, 7331), (7321, 7333),
     (7307, 7349), (7309, 7349), (7309, 7351), (7331, 7331), (7331, 7333), (7333, 7333),
     (7211, 7457), (7321, 7349), (7321, 7351), (7193, 7481), (7307, 7369), (7309, 7369),
     (7331, 7349), (7333, 7349), (7333, 7351), (7253, 7433), (7237, 7451), (7321, 7369),
     (7211, 7481), (7283, 7411), (7237, 7459), (7349, 7349), (7349, 7351), (7351, 7351)]"

lemma rows_ok_48: "rows_from 7200 goldbach_rows_48" "length goldbach_rows_48 = 150"
  by (simp_all add: goldbach_rows_48_def)

definition goldbach_rows_49 :: "(nat \<times> nat) list" where
  "goldbach_rows_49 =
    [
     (7253, 7451), (7247, 7459), (7297, 7411), (7253, 7457), (7253, 7459), (7321, 7393),
     (7283, 7433), (7349, 7369), (7351, 7369), (7193, 7529), (7331, 7393), (7333, 7393),
     (7247, 7481), (7297, 7433), (7321, 7411), (7283, 7451), (7247, 7489), (7369, 7369),
     (7307, 7433), (7349, 7393), (7351, 7393), (7247, 7499), (7331, 7417), (7333, 7417),
     (7253, 7499), (7321, 7433), (7297, 7459), (7307, 7451), (7349, 7411), (7369, 7393),
     (7331, 7433), (7349, 7417), (7351, 7417), (7283, 7487), (7321, 7451), (7297, 7477),
     (7253, 7523), (7321, 7457), (7369, 7411), (7349, 7433), (7351, 7433), (7393, 7393),
     (7331, 7457), (7333, 7457), (7333, 7459), (7307, 7487), (7309, 7487), (7321, 7477),
     (7349, 7451), (7369, 7433), (7393, 7411), (7349, 7457), (7351, 7457), (7393, 7417),
     (7331, 7481), (7333, 7481), (7309, 7507), (7331, 7487), (7369, 7451), (7411, 7411),
     (7307, 7517), (7393, 7433), (7411, 7417), (7349, 7481), (7351, 7481), (7417, 7417),
     (7349, 7487), (7351, 7487), (7351, 7489), (7283, 7559), (7411, 7433), (7369, 7477),
     (7349, 7499), (7417, 7433), (7393, 7459), (7331, 7523), (7369, 7487), (7369, 7489),
     (7331, 7529), (7411, 7451), (7243, 7621), (7433, 7433), (7417, 7451), (7411, 7459),
     (7349, 7523), (7417, 7457), (7417, 7459), (7349, 7529), (7393, 7487), (7393, 7489),
     (7433, 7451), (7369, 7517), (7411, 7477), (7433, 7457), (7433, 7459), (7417, 7477),
     (7349, 7547), (7417, 7481), (7411, 7489), (7451, 7451), (7417, 7487), (7417, 7489),
     (7451, 7457), (7451, 7459), (7351, 7561), (7457, 7457), (7457, 7459), (7459, 7459),
     (7433, 7487), (7433, 7489), (7417, 7507), (7349, 7577), (7451, 7477), (7393, 7537),
     (7451, 7481), (7457, 7477), (7459, 7477), (7457, 7481), (7459, 7481), (7393, 7549),
     (7457, 7487), (7459, 7487), (7459, 7489), (7451, 7499), (7411, 7541), (7477, 7477),
     (7457, 7499), (7477, 7481), (7411, 7549), (7481, 7481), (7477, 7487), (7477, 7489),
     (7481, 7487), (7481, 7489), (7411, 7561), (7487, 7487), (7487, 7489), (7489, 7489),
     (7481, 7499), (7459, 7523), (7477, 7507), (7487, 7499), (7489, 7499), (7417, 7573),
     (7451, 7541), (7487, 7507), (7489, 7507), (7499, 7499), (7477, 7523), (7411, 7591)]"

lemma rows_ok_49: "rows_from 7350 goldbach_rows_49" "length goldbach_rows_49 = 150"
  by (simp_all add: goldbach_rows_49_def)

definition goldbach_rows_50 :: "(nat \<times> nat) list" where
  "goldbach_rows_50 =
    [
     (7487, 7517), (7499, 7507), (7459, 7549), (7487, 7523), (7489, 7523), (7507, 7507),
     (7499, 7517), (7489, 7529), (7459, 7561), (7499, 7523), (7507, 7517), (7489, 7537),
     (7499, 7529), (7507, 7523), (7459, 7573), (7517, 7517), (7507, 7529), (7489, 7549),
     (7517, 7523), (7481, 7561), (7507, 7537), (7523, 7523), (7507, 7541), (7489, 7561),
     (7523, 7529), (7517, 7537), (7507, 7549), (7529, 7529), (7523, 7537), (7489, 7573),
     (7523, 7541), (7529, 7537), (7507, 7561), (7529, 7541), (7523, 7549), (7537, 7537),
     (7529, 7547), (7537, 7541), (7507, 7573), (7541, 7541), (7537, 7547), (7537, 7549),
     (7541, 7547), (7541, 7549), (7489, 7603), (7547, 7547), (7547, 7549), (7549, 7549),
     (7541, 7559), (7541, 7561), (7417, 7687), (7547, 7559), (7549, 7559), (7549, 7561),
     (7529, 7583), (7541, 7573), (7477, 7639), (7559, 7559), (7559, 7561), (7561, 7561),
     (7547, 7577), (7549, 7577), (7537, 7591), (7547, 7583), (7559, 7573), (7561, 7573),
     (7559, 7577), (7561, 7577), (7549, 7591), (7559, 7583), (7561, 7583), (7573, 7573),
     (7559, 7589), (7573, 7577), (7561, 7591), (7577, 7577), (7573, 7583), (7537, 7621),
     (7577, 7583), (7573, 7589), (7573, 7591), (7583, 7583), (7577, 7591), (7549, 7621),
     (7583, 7589), (7583, 7591), (7573, 7603), (7589, 7589), (7589, 7591), (7591, 7591),
     (7577, 7607), (7583, 7603), (7549, 7639), (7583, 7607), (7589, 7603), (7591, 7603),
     (7589, 7607), (7591, 7607), (7561, 7639), (7559, 7643), (7583, 7621), (7603, 7603),
     (7559, 7649), (7603, 7607), (7591, 7621), (7607, 7607), (7577, 7639), (7549, 7669),
     (7577, 7643), (7583, 7639), (7603, 7621), (7583, 7643), (7607, 7621), (7591, 7639),
     (7589, 7643), (7591, 7643), (7549, 7687), (7589, 7649), (7591, 7649), (7621, 7621),
     (7541, 7703), (7607, 7639), (7561, 7687), (7607, 7643), (7603, 7649), (7573, 7681),
     (7607, 7649), (7589, 7669), (7621, 7639), (7589, 7673), (7621, 7643), (7549, 7717),
     (7577, 7691), (7621, 7649), (7603, 7669), (7583, 7691), (7607, 7669), (7639, 7639),
     (7607, 7673), (7639, 7643), (7603, 7681), (7643, 7643), (7639, 7649), (7621, 7669),
     (7643, 7649), (7621, 7673), (7573, 7723), (7649, 7649), (7583, 7717), (7621, 7681)]"

lemma rows_ok_50: "rows_from 7500 goldbach_rows_50" "length goldbach_rows_50 = 150"
  by (simp_all add: goldbach_rows_50_def)

definition goldbach_rows_51 :: "(nat \<times> nat) list" where
  "goldbach_rows_51 =
    [
     (7577, 7727), (7607, 7699), (7639, 7669), (7607, 7703), (7643, 7669), (7591, 7723),
     (7643, 7673), (7649, 7669), (7639, 7681), (7649, 7673), (7643, 7681), (7639, 7687),
     (7499, 7829), (7649, 7681), (7591, 7741), (7643, 7691), (7649, 7687), (7669, 7669),
     (7649, 7691), (7669, 7673), (7621, 7723), (7673, 7673), (7649, 7699), (7669, 7681),
     (7649, 7703), (7673, 7681), (7669, 7687), (7541, 7817), (7673, 7687), (7681, 7681),
     (7673, 7691), (7649, 7717), (7681, 7687), (7643, 7727), (7681, 7691), (7687, 7687),
     (7673, 7703), (7687, 7691), (7681, 7699), (7691, 7691), (7681, 7703), (7687, 7699),
     (7559, 7829), (7691, 7699), (7669, 7723), (7691, 7703), (7673, 7723), (7699, 7699),
     (7673, 7727), (7699, 7703), (7687, 7717), (7703, 7703), (7691, 7717), (7687, 7723),
     (7589, 7823), (7691, 7723), (7699, 7717), (7691, 7727), (7703, 7717), (7699, 7723),
     (7607, 7817), (7703, 7723), (7687, 7741), (7703, 7727), (7691, 7741), (7717, 7717),
     (7643, 7793), (7681, 7757), (7717, 7723), (7649, 7793), (7717, 7727), (7723, 7723),
     (7691, 7757), (7723, 7727), (7699, 7753), (7727, 7727), (7703, 7753), (7717, 7741),
     (7703, 7757), (7703, 7759), (7723, 7741), (7673, 7793), (7727, 7741), (7717, 7753),
     (7649, 7823), (7717, 7757), (7723, 7753), (7649, 7829), (7727, 7753), (7741, 7741),
     (7727, 7757), (7727, 7759), (7699, 7789), (7673, 7817), (7703, 7789), (7741, 7753),
     (7703, 7793), (7741, 7757), (7741, 7759), (7673, 7829), (7687, 7817), (7753, 7753),
     (7691, 7817), (7753, 7757), (7753, 7759), (7757, 7757), (7757, 7759), (7759, 7759),
     (7727, 7793), (7699, 7823), (7591, 7933), (7703, 7823), (7699, 7829), (7741, 7789),
     (7703, 7829), (7741, 7793), (7669, 7867), (7589, 7949), (7723, 7817), (7753, 7789),
     (7727, 7817), (7757, 7789), (7759, 7789), (7757, 7793), (7759, 7793), (7687, 7867),
     (7727, 7829), (7741, 7817), (7687, 7873), (7643, 7919), (7741, 7823), (7699, 7867),
     (7727, 7841), (7753, 7817), (7699, 7873), (7757, 7817), (7759, 7817), (7789, 7789),
     (7757, 7823), (7789, 7793), (7717, 7867), (7793, 7793), (7759, 7829), (7723, 7867),
     (7691, 7901), (7753, 7841), (7723, 7873), (7757, 7841), (7759, 7841), (7723, 7879)]"

lemma rows_ok_51: "rows_from 7650 goldbach_rows_51" "length goldbach_rows_51 = 150"
  by (simp_all add: goldbach_rows_51_def)

definition goldbach_rows_52 :: "(nat \<times> nat) list" where
  "goldbach_rows_52 =
    [
     (7727, 7877), (7789, 7817), (7741, 7867), (7793, 7817), (7789, 7823), (7741, 7873),
     (7793, 7823), (7789, 7829), (7753, 7867), (7793, 7829), (7757, 7867), (7759, 7867),
     (7727, 7901), (7789, 7841), (7759, 7873), (7817, 7817), (7759, 7877), (7759, 7879),
     (7817, 7823), (7789, 7853), (7717, 7927), (7823, 7823), (7741, 7907), (7723, 7927),
     (7823, 7829), (7753, 7901), (7789, 7867), (7829, 7829), (7793, 7867), (7789, 7873),
     (7823, 7841), (7793, 7873), (7789, 7879), (7829, 7841), (7793, 7879), (7741, 7933),
     (7823, 7853), (7759, 7919), (7753, 7927), (7841, 7841), (7817, 7867), (7759, 7927),
     (7649, 8039), (7823, 7867), (7759, 7933), (7841, 7853), (7829, 7867), (7687, 8011),
     (7823, 7877), (7829, 7873), (7753, 7951), (7853, 7853), (7841, 7867), (7759, 7951),
     (7829, 7883), (7841, 7873), (7789, 7927), (7841, 7877), (7853, 7867), (7789, 7933),
     (7841, 7883), (7853, 7873), (7717, 8011), (7853, 7877), (7853, 7879), (7867, 7867),
     (7853, 7883), (7789, 7949), (7867, 7873), (7841, 7901), (7867, 7877), (7873, 7873),
     (7841, 7907), (7873, 7877), (7873, 7879), (7877, 7877), (7877, 7879), (7879, 7879),
     (7877, 7883), (7879, 7883), (7753, 8011), (7883, 7883), (7867, 7901), (7759, 8011),
     (7853, 7919), (7873, 7901), (7759, 8017), (7877, 7901), (7879, 7901), (7789, 7993),
     (7883, 7901), (7879, 7907), (7699, 8089), (7883, 7907), (7873, 7919), (7867, 7927),
     (7877, 7919), (7879, 7919), (7873, 7927), (7901, 7901), (7877, 7927), (7879, 7927),
     (7901, 7907), (7883, 7927), (7879, 7933), (7907, 7907), (7883, 7933), (7867, 7951),
     (7901, 7919), (7873, 7949), (7873, 7951), (7907, 7919), (7901, 7927), (7879, 7951),
     (7883, 7949), (7907, 7927), (7873, 7963), (7919, 7919), (7907, 7933), (7879, 7963),
     (7907, 7937), (7919, 7927), (7789, 8059), (7901, 7949), (7919, 7933), (7927, 7927),
     (7919, 7937), (7907, 7951), (7927, 7933), (7853, 8009), (7927, 7937), (7933, 7933),
     (7919, 7949), (7933, 7937), (7879, 7993), (7937, 7937), (7927, 7949), (7927, 7951),
     (7841, 8039), (7933, 7949), (7933, 7951), (7937, 7949), (7937, 7951), (7927, 7963),
     (7883, 8009), (7901, 7993), (7933, 7963), (7949, 7949), (7949, 7951), (7951, 7951)]"

lemma rows_ok_52: "rows_from 7800 goldbach_rows_52" "length goldbach_rows_52 = 150"
  by (simp_all add: goldbach_rows_52_def)

definition goldbach_rows_53 :: "(nat \<times> nat) list" where
  "goldbach_rows_53 =
    [
     (7823, 8081), (7867, 8039), (7741, 8167), (7901, 8009), (7949, 7963), (7951, 7963),
     (7907, 8009), (7907, 8011), (7927, 7993), (7883, 8039), (7907, 8017), (7963, 7963),
     (7919, 8009), (7937, 7993), (7879, 8053), (7853, 8081), (7927, 8009), (7927, 8011),
     (7901, 8039), (7949, 7993), (7951, 7993), (7937, 8009), (7937, 8011), (7933, 8017),
     (7883, 8069), (7937, 8017), (7963, 7993), (7949, 8009), (7951, 8009), (7951, 8011),
     (7883, 8081), (7949, 8017), (7951, 8017), (7901, 8069), (7963, 8009), (7963, 8011),
     (7937, 8039), (7919, 8059), (7963, 8017), (7901, 8081), (7883, 8101), (7993, 7993),
     (7949, 8039), (7951, 8039), (7933, 8059), (7907, 8087), (7937, 8059), (7789, 8209),
     (7919, 8081), (7993, 8009), (7993, 8011), (7937, 8069), (7949, 8059), (7993, 8017),
     (7919, 8093), (7933, 8081), (7963, 8053), (8009, 8009), (8009, 8011), (8011, 8011),
     (7937, 8087), (8009, 8017), (8011, 8017), (7949, 8081), (7993, 8039), (8017, 8017),
     (7949, 8087), (7951, 8087), (7951, 8089), (7949, 8093), (7963, 8081), (7993, 8053),
     (8009, 8039), (8011, 8039), (7993, 8059), (7937, 8117), (8017, 8039), (7879, 8179),
     (7949, 8111), (8009, 8053), (8011, 8053), (7949, 8117), (8009, 8059), (8017, 8053),
     (7949, 8123), (7993, 8081), (8017, 8059), (8039, 8039), (8011, 8069), (7993, 8089),
     (7937, 8147), (8017, 8069), (7927, 8161), (8009, 8081), (8039, 8053), (7993, 8101),
     (8009, 8087), (8039, 8059), (8011, 8089), (8009, 8093), (8017, 8087), (8053, 8053),
     (8039, 8069), (8017, 8093), (8053, 8059), (7883, 8231), (7993, 8123), (8059, 8059),
     (8039, 8081), (8053, 8069), (7963, 8161), (8039, 8087), (8059, 8069), (7963, 8167),
     (8039, 8093), (8053, 8081), (7927, 8209), (8069, 8069), (8059, 8081), (8053, 8089),
     (7907, 8237), (8059, 8087), (8059, 8089), (8069, 8081), (8059, 8093), (8053, 8101),
     (8069, 8087), (8069, 8089), (8059, 8101), (8081, 8081), (8053, 8111), (7933, 8233),
     (8081, 8087), (8081, 8089), (8011, 8161), (8087, 8087), (8087, 8089), (8089, 8089),
     (8087, 8093), (8089, 8093), (8017, 8167), (8093, 8093), (8087, 8101), (8089, 8101),
     (8081, 8111), (8093, 8101), (8017, 8179), (8087, 8111), (8089, 8111), (8101, 8101)]"

lemma rows_ok_53: "rows_from 7950 goldbach_rows_53" "length goldbach_rows_53 = 150"
  by (simp_all add: goldbach_rows_53_def)

definition goldbach_rows_54 :: "(nat \<times> nat) list" where
  "goldbach_rows_54 =
    [
     (8093, 8111), (8089, 8117), (8017, 8191), (8093, 8117), (8101, 8111), (8053, 8161),
     (8093, 8123), (8101, 8117), (8059, 8161), (8111, 8111), (8101, 8123), (8059, 8167),
     (8111, 8117), (8069, 8161), (8053, 8179), (8117, 8117), (8089, 8147), (8059, 8179),
     (8117, 8123), (8081, 8161), (8053, 8191), (8123, 8123), (8101, 8147), (8089, 8161),
     (8081, 8171), (8093, 8161), (8089, 8167), (8111, 8147), (8093, 8167), (8101, 8161),
     (8117, 8147), (8087, 8179), (8101, 8167), (8123, 8147), (8111, 8161), (8053, 8221),
     (8039, 8237), (8117, 8161), (8101, 8179), (8111, 8171), (8123, 8161), (8053, 8233),
     (8117, 8171), (8123, 8167), (8101, 8191), (8147, 8147), (8117, 8179), (8089, 8209),
     (8081, 8219), (8123, 8179), (8017, 8287), (8087, 8219), (8147, 8161), (8101, 8209),
     (8093, 8219), (8147, 8167), (8053, 8263), (8147, 8171), (8111, 8209), (8161, 8161),
     (8093, 8231), (8147, 8179), (8161, 8167), (8111, 8219), (8161, 8171), (8167, 8167),
     (8117, 8219), (8167, 8171), (8161, 8179), (8171, 8171), (8123, 8221), (8167, 8179),
     (8117, 8231), (8171, 8179), (8161, 8191), (8123, 8231), (8147, 8209), (8179, 8179),
     (8123, 8237), (8171, 8191), (8101, 8263), (8147, 8219), (8147, 8221), (8179, 8191),
     (8081, 8291), (8111, 8263), (8167, 8209), (8147, 8231), (8171, 8209), (8191, 8191),
     (8147, 8237), (8167, 8219), (8179, 8209), (8171, 8219), (8171, 8221), (8161, 8233),
     (8123, 8273), (8179, 8219), (8191, 8209), (8171, 8231), (8171, 8233), (8089, 8317),
     (8171, 8237), (8191, 8219), (8191, 8221), (8171, 8243), (8179, 8237), (8209, 8209),
     (8147, 8273), (8191, 8231), (8191, 8233), (8039, 8387), (8209, 8219), (8209, 8221),
     (8069, 8363), (8191, 8243), (8167, 8269), (8219, 8219), (8219, 8221), (8221, 8221),
     (8171, 8273), (8209, 8237), (8179, 8269), (8219, 8231), (8221, 8231), (8221, 8233),
     (8219, 8237), (8221, 8237), (8191, 8269), (8231, 8231), (8231, 8233), (8233, 8233),
     (8231, 8237), (8233, 8237), (8209, 8263), (8237, 8237), (8233, 8243), (8209, 8269),
     (8237, 8243), (8219, 8263), (8221, 8263), (8243, 8243), (8219, 8269), (8221, 8269),
     (8219, 8273), (8231, 8263), (8233, 8263), (8111, 8387), (8237, 8263), (8233, 8269)]"

lemma rows_ok_54: "rows_from 8100 goldbach_rows_54" "length goldbach_rows_54 = 150"
  by (simp_all add: goldbach_rows_54_def)

definition goldbach_rows_55 :: "(nat \<times> nat) list" where
  "goldbach_rows_55 =
    [
     (8231, 8273), (8243, 8263), (8221, 8287), (8237, 8273), (8243, 8269), (8221, 8293),
     (8243, 8273), (8231, 8287), (8233, 8287), (8231, 8291), (8237, 8287), (8263, 8263),
     (8237, 8291), (8243, 8287), (8263, 8269), (8243, 8291), (8263, 8273), (8269, 8269),
     (8243, 8297), (8269, 8273), (8233, 8311), (8273, 8273), (8237, 8311), (8263, 8287),
     (8123, 8429), (8263, 8291), (8269, 8287), (8171, 8387), (8273, 8287), (8269, 8293),
     (8273, 8291), (8273, 8293), (8191, 8377), (8273, 8297), (8243, 8329), (8287, 8287),
     (8147, 8429), (8287, 8291), (8287, 8293), (8291, 8291), (8291, 8293), (8293, 8293),
     (8291, 8297), (8293, 8297), (8263, 8329), (8297, 8297), (8243, 8353), (8287, 8311),
     (8237, 8363), (8291, 8311), (8293, 8311), (8243, 8363), (8297, 8311), (8293, 8317),
     (8243, 8369), (8297, 8317), (8287, 8329), (8231, 8387), (8291, 8329), (8311, 8311),
     (8237, 8387), (8297, 8329), (8311, 8317), (8243, 8387), (8269, 8363), (8317, 8317),
     (8273, 8363), (8269, 8369), (8311, 8329), (8273, 8369), (8291, 8353), (8317, 8329),
     (8219, 8429), (8297, 8353), (8263, 8389), (8291, 8363), (8293, 8363), (8329, 8329),
     (8297, 8363), (8293, 8369), (8311, 8353), (8297, 8369), (8291, 8377), (8317, 8353),
     (8243, 8429), (8311, 8363), (8287, 8389), (8291, 8387), (8317, 8363), (8329, 8353),
     (8297, 8387), (8317, 8369), (8311, 8377), (8243, 8447), (8329, 8363), (8317, 8377),
     (8273, 8423), (8329, 8369), (8311, 8389), (8273, 8429), (8317, 8387), (8353, 8353),
     (8171, 8537), (8291, 8419), (8293, 8419), (8291, 8423), (8353, 8363), (8329, 8389),
     (8297, 8423), (8353, 8369), (8293, 8431), (8363, 8363), (8297, 8431), (8353, 8377),
     (8363, 8369), (8311, 8423), (8317, 8419), (8369, 8369), (8363, 8377), (8353, 8389),
     (8297, 8447), (8369, 8377), (8329, 8419), (8363, 8387), (8363, 8389), (8377, 8377),
     (8369, 8387), (8369, 8389), (8329, 8431), (8219, 8543), (8377, 8387), (8377, 8389),
     (8231, 8537), (8269, 8501), (8353, 8419), (8387, 8387), (8387, 8389), (8389, 8389),
     (8243, 8537), (8363, 8419), (8353, 8431), (8363, 8423), (8369, 8419), (8329, 8461),
     (8369, 8423), (8363, 8431), (8377, 8419), (8369, 8429), (8377, 8423), (8263, 8539)]"

lemma rows_ok_55: "rows_from 8250 goldbach_rows_55" "length goldbach_rows_55 = 150"
  by (simp_all add: goldbach_rows_55_def)

definition goldbach_rows_56 :: "(nat \<times> nat) list" where
  "goldbach_rows_56 =
    [
     (8291, 8513), (8387, 8419), (8389, 8419), (8387, 8423), (8389, 8423), (8353, 8461),
     (8387, 8429), (8389, 8429), (8389, 8431), (8123, 8699), (8377, 8447), (8287, 8539),
     (8291, 8537), (8387, 8443), (8389, 8443), (8387, 8447), (8389, 8447), (8419, 8419),
     (8297, 8543), (8419, 8423), (8377, 8467), (8423, 8423), (8419, 8429), (8419, 8431),
     (8423, 8429), (8423, 8431), (8389, 8467), (8429, 8429), (8429, 8431), (8431, 8431),
     (8363, 8501), (8423, 8443), (8329, 8539), (8423, 8447), (8429, 8443), (8431, 8443),
     (8429, 8447), (8431, 8447), (8419, 8461), (8369, 8513), (8423, 8461), (8443, 8443),
     (8387, 8501), (8443, 8447), (8431, 8461), (8447, 8447), (8429, 8467), (8431, 8467),
     (8387, 8513), (8389, 8513), (8443, 8461), (8369, 8537), (8447, 8461), (8443, 8467),
     (8369, 8543), (8447, 8467), (8389, 8527), (8291, 8627), (8419, 8501), (8461, 8461),
     (8423, 8501), (8389, 8537), (8461, 8467), (8429, 8501), (8431, 8501), (8467, 8467),
     (8423, 8513), (8329, 8609), (8419, 8521), (8429, 8513), (8443, 8501), (8419, 8527),
     (8447, 8501), (8429, 8521), (8431, 8521), (8291, 8663), (8443, 8513), (8431, 8527),
     (8447, 8513), (8461, 8501), (8443, 8521), (8429, 8537), (8467, 8501), (8443, 8527),
     (8429, 8543), (8461, 8513), (8377, 8599), (8369, 8609), (8467, 8513), (8461, 8521),
     (8447, 8537), (8447, 8539), (8467, 8521), (8447, 8543), (8429, 8563), (8467, 8527),
     (8423, 8573), (8461, 8537), (8461, 8539), (8501, 8501), (8467, 8537), (8467, 8539),
     (8171, 8837), (8467, 8543), (8431, 8581), (8501, 8513), (8443, 8573), (8419, 8599),
     (8447, 8573), (8501, 8521), (8461, 8563), (8513, 8513), (8501, 8527), (8467, 8563),
     (8423, 8609), (8513, 8521), (8389, 8647), (8501, 8537), (8513, 8527), (8521, 8521),
     (8501, 8543), (8447, 8599), (8521, 8527), (8513, 8537), (8513, 8539), (8527, 8527),
     (8513, 8543), (8521, 8537), (8521, 8539), (8369, 8693), (8527, 8537), (8527, 8539),
     (8387, 8681), (8527, 8543), (8443, 8629), (8537, 8537), (8537, 8539), (8539, 8539),
     (8537, 8543), (8539, 8543), (8521, 8563), (8543, 8543), (8461, 8627), (8527, 8563),
     (8429, 8663), (8521, 8573), (8467, 8629), (8501, 8597), (8537, 8563), (8539, 8563)]"

lemma rows_ok_56: "rows_from 8400 goldbach_rows_56" "length goldbach_rows_56 = 150"
  by (simp_all add: goldbach_rows_56_def)

definition goldbach_rows_57 :: "(nat \<times> nat) list" where
  "goldbach_rows_57 =
    [
     (8423, 8681), (8543, 8563), (8527, 8581), (8537, 8573), (8539, 8573), (8467, 8647),
     (8543, 8573), (8537, 8581), (8539, 8581), (8513, 8609), (8543, 8581), (8563, 8563),
     (8501, 8627), (8521, 8609), (8443, 8689), (8537, 8597), (8563, 8573), (8539, 8599),
     (8543, 8597), (8543, 8599), (8563, 8581), (8573, 8573), (8539, 8609), (8527, 8623),
     (8543, 8609), (8573, 8581), (8527, 8629), (8297, 8861), (8563, 8597), (8581, 8581),
     (8537, 8627), (8543, 8623), (8539, 8629), (8573, 8597), (8573, 8599), (8527, 8647),
     (8513, 8663), (8581, 8597), (8581, 8599), (8573, 8609), (8543, 8641), (8563, 8623),
     (8447, 8741), (8581, 8609), (8563, 8629), (8597, 8597), (8597, 8599), (8599, 8599),
     (8573, 8627), (8573, 8629), (8581, 8623), (8597, 8609), (8599, 8609), (8581, 8629),
     (8543, 8669), (8573, 8641), (8539, 8677), (8609, 8609), (8597, 8623), (8599, 8623),
     (8597, 8627), (8599, 8627), (8599, 8629), (8537, 8693), (8609, 8623), (8527, 8707),
     (8609, 8627), (8609, 8629), (8599, 8641), (8573, 8669), (8597, 8647), (8623, 8623),
     (8501, 8747), (8623, 8627), (8623, 8629), (8627, 8627), (8627, 8629), (8629, 8629),
     (8597, 8663), (8599, 8663), (8623, 8641), (8597, 8669), (8627, 8641), (8629, 8641),
     (8609, 8663), (8627, 8647), (8629, 8647), (8609, 8669), (8599, 8681), (8641, 8641),
     (8543, 8741), (8623, 8663), (8641, 8647), (8627, 8663), (8629, 8663), (8647, 8647),
     (8627, 8669), (8629, 8669), (8623, 8677), (8609, 8693), (8641, 8663), (8629, 8677),
     (8627, 8681), (8647, 8663), (8623, 8689), (8573, 8741), (8647, 8669), (8641, 8677),
     (8627, 8693), (8641, 8681), (8647, 8677), (8663, 8663), (8647, 8681), (8641, 8689),
     (8663, 8669), (8641, 8693), (8647, 8689), (8669, 8669), (8663, 8677), (8629, 8713),
     (8663, 8681), (8669, 8677), (8641, 8707), (8669, 8681), (8663, 8689), (8677, 8677),
     (8663, 8693), (8677, 8681), (8647, 8713), (8681, 8681), (8627, 8737), (8677, 8689),
     (8669, 8699), (8681, 8689), (8641, 8731), (8681, 8693), (8677, 8699), (8689, 8689),
     (8681, 8699), (8689, 8693), (8677, 8707), (8693, 8693), (8689, 8699), (8677, 8713),
     (8693, 8699), (8681, 8713), (8689, 8707), (8699, 8699), (8693, 8707), (8689, 8713)]"

lemma rows_ok_57: "rows_from 8550 goldbach_rows_57" "length goldbach_rows_57 = 150"
  by (simp_all add: goldbach_rows_57_def)

definition goldbach_rows_58 :: "(nat \<times> nat) list" where
  "goldbach_rows_58 =
    [
     (8663, 8741), (8699, 8707), (8689, 8719), (8669, 8741), (8699, 8713), (8707, 8707),
     (8669, 8747), (8699, 8719), (8707, 8713), (8681, 8741), (8693, 8731), (8713, 8713),
     (8681, 8747), (8699, 8731), (8713, 8719), (8693, 8741), (8699, 8737), (8719, 8719),
     (8699, 8741), (8689, 8753), (8713, 8731), (8699, 8747), (8707, 8741), (8719, 8731),
     (8699, 8753), (8713, 8741), (8719, 8737), (8627, 8831), (8719, 8741), (8731, 8731),
     (8681, 8783), (8719, 8747), (8731, 8737), (8663, 8807), (8731, 8741), (8737, 8737),
     (8693, 8783), (8737, 8741), (8719, 8761), (8741, 8741), (8737, 8747), (8707, 8779),
     (8741, 8747), (8737, 8753), (8731, 8761), (8747, 8747), (8713, 8783), (8737, 8761),
     (8747, 8753), (8741, 8761), (8641, 8863), (8753, 8753), (8747, 8761), (8731, 8779),
     (8693, 8819), (8753, 8761), (8737, 8779), (8699, 8819), (8741, 8779), (8761, 8761),
     (8741, 8783), (8747, 8779), (8707, 8821), (8747, 8783), (8753, 8779), (8731, 8803),
     (8753, 8783), (8731, 8807), (8761, 8779), (8693, 8849), (8761, 8783), (8707, 8839),
     (8741, 8807), (8747, 8803), (8731, 8821), (8747, 8807), (8753, 8803), (8779, 8779),
     (8753, 8807), (8779, 8783), (8761, 8803), (8783, 8783), (8761, 8807), (8731, 8839),
     (8753, 8819), (8753, 8821), (8737, 8839), (8747, 8831), (8761, 8819), (8779, 8803),
     (8753, 8831), (8783, 8803), (8647, 8941), (8783, 8807), (8761, 8831), (8731, 8863),
     (8747, 8849), (8779, 8819), (8779, 8821), (8783, 8819), (8783, 8821), (8803, 8803),
     (8747, 8861), (8803, 8807), (8719, 8893), (8807, 8807), (8779, 8837), (8779, 8839),
     (8783, 8837), (8803, 8819), (8803, 8821), (8807, 8819), (8807, 8821), (8737, 8893),
     (8783, 8849), (8803, 8831), (8713, 8923), (8819, 8819), (8819, 8821), (8821, 8821),
     (8807, 8837), (8807, 8839), (8761, 8887), (8819, 8831), (8821, 8831), (8761, 8893),
     (8819, 8837), (8821, 8837), (8821, 8839), (8831, 8831), (8803, 8861), (8803, 8863),
     (8831, 8837), (8831, 8839), (8779, 8893), (8837, 8837), (8837, 8839), (8839, 8839),
     (8831, 8849), (8821, 8861), (8821, 8863), (8837, 8849), (8839, 8849), (8803, 8887),
     (8831, 8861), (8831, 8863), (8803, 8893), (8849, 8849), (8839, 8861), (8839, 8863)]"

lemma rows_ok_58: "rows_from 8700 goldbach_rows_58" "length goldbach_rows_58 = 150"
  by (simp_all add: goldbach_rows_58_def)

definition goldbach_rows_59 :: "(nat \<times> nat) list" where
  "goldbach_rows_59 =
    [
     (8837, 8867), (8839, 8867), (8821, 8887), (8849, 8861), (8849, 8863), (8821, 8893),
     (8849, 8867), (8831, 8887), (8779, 8941), (8861, 8861), (8861, 8863), (8863, 8863),
     (8861, 8867), (8863, 8867), (8839, 8893), (8867, 8867), (8849, 8887), (8737, 9001),
     (8807, 8933), (8849, 8893), (8821, 8923), (8783, 8963), (8861, 8887), (8863, 8887),
     (8819, 8933), (8867, 8887), (8863, 8893), (8807, 8951), (8867, 8893), (8839, 8923),
     (8831, 8933), (8837, 8929), (8839, 8929), (8837, 8933), (8849, 8923), (8887, 8887),
     (8807, 8969), (8849, 8929), (8887, 8893), (8849, 8933), (8861, 8923), (8893, 8893),
     (8837, 8951), (8867, 8923), (8863, 8929), (8861, 8933), (8867, 8929), (8731, 9067),
     (8867, 8933), (8861, 8941), (8863, 8941), (8837, 8969), (8867, 8941), (8887, 8923),
     (8861, 8951), (8863, 8951), (8893, 8923), (8867, 8951), (8887, 8933), (8893, 8929),
     (8861, 8963), (8893, 8933), (8887, 8941), (8867, 8963), (8863, 8969), (8893, 8941),
     (8867, 8969), (8887, 8951), (8839, 9001), (8831, 9011), (8893, 8951), (8923, 8923),
     (8849, 8999), (8887, 8963), (8923, 8929), (8693, 9161), (8923, 8933), (8929, 8929),
     (8861, 8999), (8929, 8933), (8923, 8941), (8933, 8933), (8867, 9001), (8929, 8941),
     (8861, 9011), (8933, 8941), (8863, 9013), (8867, 9011), (8929, 8951), (8941, 8941),
     (8933, 8951), (8923, 8963), (8887, 9001), (8861, 9029), (8941, 8951), (8923, 8971),
     (8933, 8963), (8929, 8969), (8929, 8971), (8951, 8951), (8941, 8963), (8893, 9013),
     (8867, 9041), (8941, 8969), (8941, 8971), (8951, 8963), (8887, 9029), (8761, 9157),
     (8951, 8969), (8951, 8971), (8923, 9001), (8963, 8963), (8929, 8999), (8929, 9001),
     (8963, 8969), (8963, 8971), (8929, 9007), (8969, 8969), (8969, 8971), (8971, 8971),
     (8933, 9011), (8933, 9013), (8941, 9007), (8951, 8999), (8951, 9001), (8941, 9013),
     (8819, 9137), (8951, 9007), (8893, 9067), (8963, 8999), (8963, 9001), (8923, 9043),
     (8969, 8999), (8971, 8999), (8971, 9001), (8963, 9011), (8969, 9007), (8971, 9007),
     (8969, 9011), (8971, 9011), (8971, 9013), (8849, 9137), (8929, 9059), (8941, 9049),
     (8963, 9029), (8951, 9043), (8929, 9067), (8999, 8999), (8999, 9001), (9001, 9001)]"

lemma rows_ok_59: "rows_from 8850 goldbach_rows_59" "length goldbach_rows_59 = 150"
  by (simp_all add: goldbach_rows_59_def)

definition goldbach_rows_60 :: "(nat \<times> nat) list" where
  "goldbach_rows_60 =
    [
     (8963, 9041), (8999, 9007), (9001, 9007), (8999, 9011), (9001, 9011), (9007, 9007),
     (8807, 9209), (9007, 9011), (9007, 9013), (9011, 9011), (9011, 9013), (9013, 9013),
     (8999, 9029), (9001, 9029), (8941, 9091), (8861, 9173), (9007, 9029), (8971, 9067),
     (9011, 9029), (9013, 9029), (9001, 9043), (8837, 9209), (9007, 9041), (9007, 9043),
     (9011, 9041), (9013, 9041), (9013, 9043), (9029, 9029), (9011, 9049), (9013, 9049),
     (8861, 9203), (9007, 9059), (9001, 9067), (9029, 9041), (9029, 9043), (9007, 9067),
     (8867, 9209), (9029, 9049), (9013, 9067), (9041, 9041), (9041, 9043), (9043, 9043),
     (9029, 9059), (9041, 9049), (9043, 9049), (8933, 9161), (9029, 9067), (9049, 9049),
     (9041, 9059), (9043, 9059), (9013, 9091), (8969, 9137), (9049, 9059), (9043, 9067),
     (8951, 9161), (9011, 9103), (9049, 9067), (9059, 9059), (9029, 9091), (9013, 9109),
     (8963, 9161), (9059, 9067), (9001, 9127), (8969, 9161), (9041, 9091), (9067, 9067),
     (8999, 9137), (9029, 9109), (9049, 9091), (8969, 9173), (9041, 9103), (9043, 9103),
     (9011, 9137), (9059, 9091), (9049, 9103), (8951, 9203), (9029, 9127), (9067, 9091),
     (8999, 9161), (9059, 9103), (9013, 9151), (9029, 9137), (9059, 9109), (9067, 9103),
     (9011, 9161), (9041, 9133), (9067, 9109), (9041, 9137), (9043, 9137), (9091, 9091),
     (9011, 9173), (9059, 9127), (9007, 9181), (9029, 9161), (9059, 9133), (9091, 9103),
     (9059, 9137), (9041, 9157), (9091, 9109), (9041, 9161), (9067, 9137), (9103, 9103),
     (8999, 9209), (9059, 9151), (9103, 9109), (9041, 9173), (9059, 9157), (9109, 9109),
     (9059, 9161), (9049, 9173), (9091, 9133), (8999, 9227), (9091, 9137), (9103, 9127),
     (9059, 9173), (9013, 9221), (9109, 9127), (9029, 9209), (9103, 9137), (9109, 9133),
     (9041, 9203), (9109, 9137), (9091, 9157), (9041, 9209), (9091, 9161), (9127, 9127),
     (9029, 9227), (9059, 9199), (9127, 9133), (9059, 9203), (9127, 9137), (9133, 9133),
     (9059, 9209), (9133, 9137), (9091, 9181), (9137, 9137), (9103, 9173), (9127, 9151),
     (9059, 9221), (9109, 9173), (9133, 9151), (9059, 9227), (9137, 9151), (9133, 9157),
     (9011, 9281), (9137, 9157), (9109, 9187), (9137, 9161), (9127, 9173), (9151, 9151)]"

lemma rows_ok_60: "rows_from 9000 goldbach_rows_60" "length goldbach_rows_60 = 150"
  by (simp_all add: goldbach_rows_60_def)

definition goldbach_rows_61 :: "(nat \<times> nat) list" where
  "goldbach_rows_61 =
    [
     (9011, 9293), (9133, 9173), (9151, 9157), (9137, 9173), (9151, 9161), (9157, 9157),
     (9059, 9257), (9157, 9161), (9133, 9187), (9161, 9161), (9151, 9173), (9127, 9199),
     (8951, 9377), (9157, 9173), (9151, 9181), (9161, 9173), (9137, 9199), (9157, 9181),
     (9137, 9203), (9161, 9181), (9157, 9187), (9173, 9173), (9161, 9187), (9151, 9199),
     (9059, 9293), (9173, 9181), (9157, 9199), (9137, 9221), (9173, 9187), (9181, 9181),
     (9161, 9203), (9157, 9209), (9181, 9187), (9161, 9209), (9173, 9199), (9187, 9187),
     (9173, 9203), (9157, 9221), (9181, 9199), (9173, 9209), (9181, 9203), (9187, 9199),
     (9161, 9227), (9187, 9203), (9151, 9241), (9173, 9221), (9187, 9209), (9199, 9199),
     (9173, 9227), (9199, 9203), (9127, 9277), (9203, 9203), (9199, 9209), (9133, 9277),
     (9203, 9209), (9187, 9227), (9133, 9283), (9209, 9209), (9199, 9221), (9181, 9241),
     (9203, 9221), (9199, 9227), (9187, 9241), (9209, 9221), (9151, 9281), (9157, 9277),
     (9209, 9227), (9199, 9239), (9199, 9241), (9221, 9221), (9203, 9241), (9127, 9319),
     (9221, 9227), (9209, 9241), (9133, 9319), (9227, 9227), (9199, 9257), (9181, 9277),
     (9221, 9239), (9221, 9241), (9187, 9277), (9227, 9239), (9227, 9241), (9187, 9283),
     (9161, 9311), (9181, 9293), (9199, 9277), (9239, 9239), (9239, 9241), (9241, 9241),
     (9227, 9257), (9209, 9277), (9151, 9337), (9209, 9281), (9209, 9283), (9157, 9337),
     (9239, 9257), (9241, 9257), (9181, 9319), (9221, 9281), (9227, 9277), (9187, 9319),
     (9227, 9281), (9227, 9283), (9109, 9403), (9257, 9257), (9239, 9277), (9241, 9277),
     (9239, 9281), (9241, 9281), (9241, 9283), (9203, 9323), (9209, 9319), (9187, 9343),
     (9239, 9293), (9257, 9277), (9199, 9337), (9257, 9281), (9257, 9283), (9199, 9343),
     (9221, 9323), (9227, 9319), (9199, 9349), (9257, 9293), (9241, 9311), (9277, 9277),
     (9137, 9419), (9277, 9281), (9277, 9283), (9281, 9281), (9281, 9283), (9283, 9283),
     (9257, 9311), (9277, 9293), (9181, 9391), (9281, 9293), (9283, 9293), (9241, 9337),
     (9257, 9323), (9241, 9341), (9241, 9343), (9293, 9293), (9277, 9311), (9241, 9349),
     (9281, 9311), (9283, 9311), (9277, 9319), (9257, 9341), (9281, 9319), (9283, 9319)]"

lemma rows_ok_61: "rows_from 9150 goldbach_rows_61" "length goldbach_rows_61 = 150"
  by (simp_all add: goldbach_rows_61_def)

definition goldbach_rows_62 :: "(nat \<times> nat) list" where
  "goldbach_rows_62 =
    [
     (9293, 9311), (9283, 9323), (9187, 9421), (9239, 9371), (9293, 9319), (9277, 9337),
     (9293, 9323), (9281, 9337), (9283, 9337), (9311, 9311), (9283, 9341), (9283, 9343),
     (9257, 9371), (9311, 9319), (9283, 9349), (9311, 9323), (9293, 9343), (9319, 9319),
     (9227, 9413), (9319, 9323), (9241, 9403), (9323, 9323), (9311, 9337), (9187, 9463),
     (9311, 9341), (9311, 9343), (9319, 9337), (9281, 9377), (9323, 9337), (9319, 9343),
     (9323, 9341), (9323, 9343), (9319, 9349), (9293, 9377), (9323, 9349), (9337, 9337),
     (9257, 9419), (9337, 9341), (9337, 9343), (9341, 9341), (9341, 9343), (9343, 9343),
     (9311, 9377), (9341, 9349), (9343, 9349), (9323, 9371), (9319, 9377), (9349, 9349),
     (9323, 9377), (9311, 9391), (9283, 9421), (9293, 9413), (9337, 9371), (9319, 9391),
     (9341, 9371), (9343, 9371), (9319, 9397), (9341, 9377), (9349, 9371), (9319, 9403),
     (9311, 9413), (9349, 9377), (9337, 9391), (9311, 9419), (9341, 9391), (9343, 9391),
     (9323, 9413), (9341, 9397), (9349, 9391), (9371, 9371), (9341, 9403), (9349, 9397),
     (9371, 9377), (9337, 9413), (9349, 9403), (9377, 9377), (9343, 9413), (9337, 9421),
     (9341, 9419), (9371, 9391), (9343, 9421), (9293, 9473), (9377, 9391), (9349, 9421),
     (9341, 9431), (9377, 9397), (9343, 9433), (9341, 9437), (9377, 9403), (9391, 9391),
     (9371, 9413), (9349, 9437), (9391, 9397), (9377, 9413), (9371, 9421), (9397, 9397),
     (9377, 9419), (9377, 9421), (9397, 9403), (9371, 9431), (9391, 9413), (9403, 9403),
     (9377, 9431), (9397, 9413), (9391, 9421), (9377, 9437), (9403, 9413), (9397, 9421),
     (9341, 9479), (9403, 9419), (9403, 9421), (9413, 9413), (9397, 9431), (9397, 9433),
     (9413, 9419), (9413, 9421), (9403, 9433), (9419, 9419), (9419, 9421), (9421, 9421),
     (9413, 9431), (9413, 9433), (9337, 9511), (9419, 9431), (9421, 9431), (9421, 9433),
     (9419, 9437), (9421, 9437), (9421, 9439), (9431, 9431), (9431, 9433), (9433, 9433),
     (9431, 9437), (9433, 9437), (9433, 9439), (9437, 9437), (9437, 9439), (9439, 9439),
     (9419, 9461), (9421, 9461), (9421, 9463), (9419, 9467), (9421, 9467), (9343, 9547),
     (9431, 9461), (9433, 9461), (9433, 9463), (9437, 9461), (9439, 9461), (9439, 9463)]"

lemma rows_ok_62: "rows_from 9300 goldbach_rows_62" "length goldbach_rows_62 = 150"
  by (simp_all add: goldbach_rows_62_def)

definition goldbach_rows_63 :: "(nat \<times> nat) list" where
  "goldbach_rows_63 =
    [
     (9437, 9467), (9439, 9467), (9397, 9511), (9437, 9473), (9439, 9473), (9403, 9511),
     (9437, 9479), (9439, 9479), (9319, 9601), (9461, 9461), (9461, 9463), (9463, 9463),
     (9461, 9467), (9463, 9467), (9421, 9511), (9467, 9467), (9463, 9473), (9391, 9547),
     (9467, 9473), (9463, 9479), (9433, 9511), (9473, 9473), (9437, 9511), (9439, 9511),
     (9473, 9479), (9463, 9491), (9343, 9613), (9479, 9479), (9463, 9497), (9349, 9613),
     (9473, 9491), (9433, 9533), (9421, 9547), (9479, 9491), (9461, 9511), (9463, 9511),
     (9479, 9497), (9467, 9511), (9433, 9547), (9491, 9491), (9473, 9511), (9439, 9547),
     (9491, 9497), (9479, 9511), (9391, 9601), (9497, 9497), (9463, 9533), (9397, 9601),
     (9479, 9521), (9491, 9511), (9403, 9601), (9473, 9533), (9497, 9511), (9463, 9547),
     (9491, 9521), (9467, 9547), (9403, 9613), (9497, 9521), (9473, 9547), (9511, 9511),
     (9491, 9533), (9479, 9547), (9397, 9631), (9497, 9533), (9511, 9521), (9433, 9601),
     (9497, 9539), (9491, 9547), (9439, 9601), (9521, 9521), (9511, 9533), (9433, 9613),
     (9497, 9551), (9511, 9539), (9439, 9613), (9521, 9533), (9437, 9619), (9511, 9547),
     (9521, 9539), (9511, 9551), (9463, 9601), (9533, 9533), (9521, 9547), (9439, 9631),
     (9533, 9539), (9473, 9601), (9463, 9613), (9539, 9539), (9533, 9547), (9463, 9619),
     (9533, 9551), (9539, 9547), (9439, 9649), (9539, 9551), (9491, 9601), (9547, 9547),
     (9473, 9623), (9547, 9551), (9439, 9661), (9551, 9551), (9491, 9613), (9463, 9643),
     (9521, 9587), (9497, 9613), (9511, 9601), (9491, 9623), (9497, 9619), (9439, 9679),
     (9533, 9587), (9521, 9601), (9511, 9613), (9539, 9587), (9497, 9631), (9511, 9619),
     (9413, 9719), (9547, 9587), (9439, 9697), (9551, 9587), (9539, 9601), (9511, 9631),
     (9521, 9623), (9533, 9613), (9547, 9601), (9521, 9629), (9551, 9601), (9511, 9643),
     (9533, 9623), (9539, 9619), (9547, 9613), (9539, 9623), (9551, 9613), (9547, 9619),
     (9539, 9629), (9551, 9619), (9511, 9661), (9587, 9587), (9547, 9629), (9547, 9631),
     (9551, 9629), (9551, 9631), (9463, 9721), (9497, 9689), (9587, 9601), (9547, 9643),
     (9473, 9719), (9551, 9643), (9547, 9649), (9521, 9677), (9587, 9613), (9601, 9601)]"

lemma rows_ok_63: "rows_from 9450 goldbach_rows_63" "length goldbach_rows_63 = 150"
  by (simp_all add: goldbach_rows_63_def)

definition goldbach_rows_64 :: "(nat \<times> nat) list" where
  "goldbach_rows_64 =
    [
     (9461, 9743), (9587, 9619), (9547, 9661), (9587, 9623), (9551, 9661), (9601, 9613),
     (9587, 9629), (9587, 9631), (9601, 9619), (9533, 9689), (9601, 9623), (9613, 9613),
     (9551, 9677), (9601, 9629), (9613, 9619), (9491, 9743), (9613, 9623), (9619, 9619),
     (9551, 9689), (9619, 9623), (9613, 9631), (9623, 9623), (9619, 9629), (9619, 9631),
     (9623, 9629), (9623, 9631), (9613, 9643), (9629, 9629), (9629, 9631), (9631, 9631),
     (9587, 9677), (9623, 9643), (9619, 9649), (9551, 9719), (9629, 9643), (9631, 9643),
     (9587, 9689), (9629, 9649), (9631, 9649), (9539, 9743), (9623, 9661), (9643, 9643),
     (9539, 9749), (9629, 9661), (9643, 9649), (9551, 9743), (9619, 9677), (9649, 9649),
     (9623, 9677), (9623, 9679), (9643, 9661), (9629, 9677), (9631, 9677), (9649, 9661),
     (9623, 9689), (9547, 9767), (9619, 9697), (9629, 9689), (9643, 9677), (9661, 9661),
     (9533, 9791), (9649, 9677), (9649, 9679), (9587, 9743), (9643, 9689), (9613, 9721),
     (9587, 9749), (9661, 9677), (9661, 9679), (9623, 9719), (9623, 9721), (9649, 9697),
     (9629, 9719), (9661, 9689), (9631, 9721), (9677, 9677), (9677, 9679), (9679, 9679),
     (9521, 9839), (9643, 9719), (9643, 9721), (9677, 9689), (9679, 9689), (9649, 9721),
     (9629, 9743), (9677, 9697), (9679, 9697), (9689, 9689), (9661, 9719), (9661, 9721),
     (9551, 9833), (9689, 9697), (9649, 9739), (9623, 9767), (9649, 9743), (9697, 9697),
     (9677, 9719), (9679, 9719), (9679, 9721), (9551, 9851), (9661, 9743), (9619, 9787),
     (9689, 9719), (9689, 9721), (9679, 9733), (9623, 9791), (9697, 9719), (9697, 9721),
     (9677, 9743), (9689, 9733), (9643, 9781), (9677, 9749), (9689, 9739), (9697, 9733),
     (9689, 9743), (9643, 9791), (9697, 9739), (9719, 9719), (9719, 9721), (9721, 9721),
     (9677, 9767), (9697, 9749), (9679, 9769), (9521, 9929), (9719, 9733), (9721, 9733),
     (9689, 9767), (9719, 9739), (9721, 9739), (9719, 9743), (9721, 9743), (9733, 9733),
     (9719, 9749), (9721, 9749), (9733, 9739), (9623, 9851), (9733, 9743), (9739, 9739),
     (9689, 9791), (9739, 9743), (9697, 9787), (9743, 9743), (9739, 9749), (9721, 9769),
     (9743, 9749), (9677, 9817), (9679, 9817), (9749, 9749), (9733, 9767), (9733, 9769)]"

lemma rows_ok_64: "rows_from 9600 goldbach_rows_64" "length goldbach_rows_64 = 150"
  by (simp_all add: goldbach_rows_64_def)

definition goldbach_rows_65 :: "(nat \<times> nat) list" where
  "goldbach_rows_65 =
    [
     (9497, 10007), (9739, 9767), (9739, 9769), (9743, 9767), (9743, 9769), (9733, 9781),
     (9749, 9767), (9749, 9769), (9739, 9781), (9719, 9803), (9743, 9781), (9739, 9787),
     (9689, 9839), (9749, 9781), (9721, 9811), (9767, 9767), (9767, 9769), (9769, 9769),
     (9749, 9791), (9739, 9803), (9733, 9811), (9743, 9803), (9767, 9781), (9769, 9781),
     (9749, 9803), (9767, 9787), (9769, 9787), (9767, 9791), (9769, 9791), (9781, 9781),
     (9677, 9887), (9749, 9817), (9781, 9787), (9767, 9803), (9781, 9791), (9787, 9787),
     (9743, 9833), (9787, 9791), (9769, 9811), (9791, 9791), (9781, 9803), (9769, 9817),
     (9749, 9839), (9787, 9803), (9781, 9811), (9791, 9803), (9767, 9829), (9787, 9811),
     (9767, 9833), (9791, 9811), (9787, 9817), (9803, 9803), (9791, 9817), (9781, 9829),
     (9689, 9923), (9803, 9811), (9787, 9829), (9767, 9851), (9803, 9817), (9811, 9811),
     (9791, 9833), (9787, 9839), (9811, 9817), (9791, 9839), (9803, 9829), (9817, 9817),
     (9803, 9833), (9787, 9851), (9811, 9829), (9803, 9839), (9811, 9833), (9817, 9829),
     (9791, 9857), (9817, 9833), (9781, 9871), (9803, 9851), (9817, 9839), (9829, 9829),
     (9803, 9857), (9829, 9833), (9781, 9883), (9833, 9833), (9829, 9839), (9811, 9859),
     (9833, 9839), (9817, 9857), (9817, 9859), (9839, 9839), (9829, 9851), (9811, 9871),
     (9833, 9851), (9829, 9857), (9829, 9859), (9839, 9851), (9833, 9859), (9811, 9883),
     (9839, 9857), (9839, 9859), (9829, 9871), (9851, 9851), (9833, 9871), (9739, 9967),
     (9851, 9857), (9851, 9859), (9829, 9883), (9857, 9857), (9857, 9859), (9859, 9859),
     (9833, 9887), (9851, 9871), (9817, 9907), (9839, 9887), (9857, 9871), (9859, 9871),
     (9803, 9929), (9851, 9883), (9829, 9907), (9851, 9887), (9857, 9883), (9871, 9871),
     (9857, 9887), (9859, 9887), (9817, 9931), (9743, 10007), (9851, 9901), (9871, 9883),
     (9833, 9923), (9871, 9887), (9859, 9901), (9839, 9923), (9857, 9907), (9883, 9883),
     (9839, 9929), (9883, 9887), (9871, 9901), (9887, 9887), (9803, 9973), (9871, 9907),
     (9857, 9923), (9859, 9923), (9883, 9901), (9857, 9929), (9887, 9901), (9883, 9907),
     (9851, 9941), (9887, 9907), (9829, 9967), (9857, 9941), (9871, 9929), (9901, 9901)]"

lemma rows_ok_65: "rows_from 9750 goldbach_rows_65" "length goldbach_rows_65 = 150"
  by (simp_all add: goldbach_rows_65_def)

definition goldbach_rows_66 :: "(nat \<times> nat) list" where
  "goldbach_rows_66 =
    [
     (9767, 10037), (9883, 9923), (9901, 9907), (9887, 9923), (9883, 9929), (9907, 9907),
     (9887, 9929), (9887, 9931), (9871, 9949), (9743, 10079), (9901, 9923), (9859, 9967),
     (9887, 9941), (9907, 9923), (9901, 9931), (9767, 10067), (9907, 9929), (9907, 9931),
     (9833, 10007), (9901, 9941), (9871, 9973), (9923, 9923), (9907, 9941), (9901, 9949),
     (9923, 9929), (9923, 9931), (9907, 9949), (9929, 9929), (9929, 9931), (9931, 9931),
     (9923, 9941), (9859, 10007), (9901, 9967), (9929, 9941), (9931, 9941), (9907, 9967),
     (9839, 10037), (9929, 9949), (9931, 9949), (9941, 9941), (9817, 10067), (9817, 10069),
     (9851, 10037), (9941, 9949), (9883, 10009), (9887, 10007), (9929, 9967), (9949, 9949),
     (9839, 10061), (9929, 9973), (9931, 9973), (9839, 10067), (9941, 9967), (9901, 10009),
     (9851, 10061), (9941, 9973), (9949, 9967), (9857, 10061), (9883, 10037), (9949, 9973),
     (9887, 10037), (9887, 10039), (9859, 10069), (9923, 10007), (9923, 10009), (9967, 9967),
     (9929, 10007), (9931, 10007), (9967, 9973), (9851, 10091), (9907, 10037), (9973, 9973),
     (9941, 10007), (9941, 10009), (9883, 10069), (9887, 10067), (9949, 10007), (9949, 10009),
     (9923, 10037), (9923, 10039), (9871, 10093), (9929, 10037), (9931, 10037), (9931, 10039),
     (9839, 10133), (9967, 10007), (9967, 10009), (9941, 10037), (9973, 10007), (9973, 10009),
     (9923, 10061), (9949, 10037), (9949, 10039), (9929, 10061), (9931, 10061), (9901, 10093),
     (9929, 10067), (9931, 10067), (9931, 10069), (9941, 10061), (9967, 10037), (9967, 10039),
     (9941, 10067), (9973, 10037), (9973, 10039), (10007, 10007), (10007, 10009), (10009, 10009),
     (9941, 10079), (9931, 10091), (9931, 10093), (9923, 10103), (9967, 10061), (9931, 10099),
     (9941, 10091), (9973, 10061), (9967, 10069), (9887, 10151), (9973, 10067), (9973, 10069),
     (10007, 10037), (10009, 10037), (10009, 10039), (9887, 10163), (9973, 10079), (9811, 10243),
     (9923, 10133), (9967, 10091), (9967, 10093), (9929, 10133), (9973, 10091), (9973, 10093),
     (10007, 10061), (10009, 10061), (9973, 10099), (10037, 10037), (10037, 10039), (10039, 10039),
     (9941, 10139), (9949, 10133), (9973, 10111), (10007, 10079), (10009, 10079), (9949, 10141),
     (9941, 10151), (9931, 10163), (9829, 10267), (10037, 10061), (10039, 10061), (10009, 10093)]"

lemma rows_ok_66: "rows_from 9900 goldbach_rows_66" "length goldbach_rows_66 = 150"
  by (simp_all add: goldbach_rows_66_def)

definition goldbach_rows_67 :: "(nat \<times> nat) list" where
  "goldbach_rows_67 =
    [
     (10037, 10067), (10039, 10067), (10039, 10069), (10007, 10103), (10009, 10103), (9973, 10141),
     (10037, 10079), (10039, 10079), (10009, 10111), (10061, 10061), (9973, 10151), (9967, 10159),
     (10061, 10067), (10061, 10069), (10039, 10093), (10067, 10067), (10067, 10069), (10069, 10069),
     (10061, 10079), (10039, 10103), (9967, 10177), (10067, 10079), (10069, 10079), (10039, 10111),
     (10061, 10091), (10061, 10093), (9883, 10273), (10079, 10079), (10069, 10091), (10069, 10093),
     (10061, 10103), (10067, 10099), (10069, 10099), (10079, 10091), (10079, 10093), (9931, 10243),
     (10037, 10139), (10079, 10099), (10069, 10111), (10091, 10091), (10091, 10093), (10093, 10093),
     (10037, 10151), (10091, 10099), (10093, 10099), (10091, 10103), (10093, 10103), (10099, 10099),
     (10067, 10133), (10099, 10103), (10093, 10111), (10103, 10103), (10069, 10139), (10099, 10111),
     (10079, 10133), (10103, 10111), (10039, 10177), (10079, 10139), (10079, 10141), (10111, 10111),
     (10091, 10133), (10093, 10133), (10069, 10159), (10091, 10139), (10099, 10133), (10093, 10141),
     (10103, 10133), (10099, 10139), (10099, 10141), (10103, 10139), (10111, 10133), (10069, 10177),
     (10079, 10169), (10111, 10139), (10111, 10141), (10103, 10151), (10093, 10163), (10099, 10159),
     (10091, 10169), (10111, 10151), (9931, 10333), (10133, 10133), (10099, 10169), (10111, 10159),
     (10133, 10139), (10133, 10141), (10099, 10177), (10139, 10139), (10139, 10141), (10141, 10141),
     (10133, 10151), (10093, 10193), (10111, 10177), (10139, 10151), (10141, 10151), (9973, 10321),
     (10133, 10163), (10139, 10159), (10141, 10159), (10151, 10151), (10141, 10163), (10039, 10267),
     (10139, 10169), (10151, 10159), (10069, 10243), (10151, 10163), (10139, 10177), (10159, 10159),
     (10151, 10169), (10159, 10163), (9967, 10357), (10163, 10163), (10159, 10169), (10009, 10321),
     (10163, 10169), (10141, 10193), (10159, 10177), (10169, 10169), (10163, 10177), (10099, 10243),
     (10163, 10181), (10169, 10177), (9949, 10399), (10169, 10181), (10159, 10193), (10177, 10177),
     (10163, 10193), (10177, 10181), (10093, 10267), (10181, 10181), (10141, 10223), (10099, 10267),
     (10079, 10289), (10177, 10193), (10099, 10273), (10181, 10193), (10133, 10243), (10111, 10267),
     (10169, 10211), (10159, 10223), (10141, 10243), (10193, 10193), (10177, 10211), (10069, 10321),
     (10181, 10211), (10151, 10243), (10093, 10303), (10151, 10247), (10177, 10223), (10159, 10243)]"

lemma rows_ok_67: "rows_from 10050 goldbach_rows_67" "length goldbach_rows_67 = 150"
  by (simp_all add: goldbach_rows_67_def)

definition goldbach_rows_68 :: "(nat \<times> nat) list" where
  "goldbach_rows_68 =
    [
     (10193, 10211), (10163, 10243), (10141, 10267), (10163, 10247), (10169, 10243), (10141, 10273),
     (10193, 10223), (10159, 10259), (10177, 10243), (10211, 10211), (10181, 10243), (10159, 10267),
     (10181, 10247), (10177, 10253), (10159, 10273), (10211, 10223), (10193, 10243), (10069, 10369),
     (10193, 10247), (10169, 10273), (10177, 10267), (10223, 10223), (10181, 10267), (10177, 10273),
     (10193, 10259), (10211, 10243), (10099, 10357), (10211, 10247), (10193, 10267), (10159, 10303),
     (10211, 10253), (10223, 10243), (10111, 10357), (10223, 10247), (10169, 10303), (10141, 10333),
     (10223, 10253), (10211, 10267), (10177, 10303)]"

lemma rows_ok_68: "rows_from 10200 goldbach_rows_68" "length goldbach_rows_68 = 39"
  by (simp_all add: goldbach_rows_68_def)

section \<open>The table\<close>

definition goldbach_written :: "(nat \<times> nat) list" where
  "goldbach_written = concat
    [goldbach_rows_0, goldbach_rows_1, goldbach_rows_2, goldbach_rows_3, goldbach_rows_4,
     goldbach_rows_5, goldbach_rows_6, goldbach_rows_7, goldbach_rows_8, goldbach_rows_9,
     goldbach_rows_10, goldbach_rows_11, goldbach_rows_12, goldbach_rows_13, goldbach_rows_14,
     goldbach_rows_15, goldbach_rows_16, goldbach_rows_17, goldbach_rows_18, goldbach_rows_19,
     goldbach_rows_20, goldbach_rows_21, goldbach_rows_22, goldbach_rows_23, goldbach_rows_24,
     goldbach_rows_25, goldbach_rows_26, goldbach_rows_27, goldbach_rows_28, goldbach_rows_29,
     goldbach_rows_30, goldbach_rows_31, goldbach_rows_32, goldbach_rows_33, goldbach_rows_34,
     goldbach_rows_35, goldbach_rows_36, goldbach_rows_37, goldbach_rows_38, goldbach_rows_39,
     goldbach_rows_40, goldbach_rows_41, goldbach_rows_42, goldbach_rows_43, goldbach_rows_44,
     goldbach_rows_45, goldbach_rows_46, goldbach_rows_47, goldbach_rows_48, goldbach_rows_49,
     goldbach_rows_50, goldbach_rows_51, goldbach_rows_52, goldbach_rows_53, goldbach_rows_54,
     goldbach_rows_55, goldbach_rows_56, goldbach_rows_57, goldbach_rows_58, goldbach_rows_59,
     goldbach_rows_60, goldbach_rows_61, goldbach_rows_62, goldbach_rows_63, goldbach_rows_64,
     goldbach_rows_65, goldbach_rows_66, goldbach_rows_67, goldbach_rows_68]"

definition GOLDBACH_ROWS :: nat where "GOLDBACH_ROWS = 20 * 1024"

definition goldbach_partitions :: "(nat \<times> nat) list" where
  "goldbach_partitions = goldbach_written @ replicate (GOLDBACH_ROWS - length goldbach_written) (0, 0)"

lemmas rows_ok =
  rows_ok_0 rows_ok_1 rows_ok_2 rows_ok_3 rows_ok_4 rows_ok_5 rows_ok_6 rows_ok_7
  rows_ok_8 rows_ok_9 rows_ok_10 rows_ok_11 rows_ok_12 rows_ok_13 rows_ok_14 rows_ok_15
  rows_ok_16 rows_ok_17 rows_ok_18 rows_ok_19 rows_ok_20 rows_ok_21 rows_ok_22 rows_ok_23
  rows_ok_24 rows_ok_25 rows_ok_26 rows_ok_27 rows_ok_28 rows_ok_29 rows_ok_30 rows_ok_31
  rows_ok_32 rows_ok_33 rows_ok_34 rows_ok_35 rows_ok_36 rows_ok_37 rows_ok_38 rows_ok_39
  rows_ok_40 rows_ok_41 rows_ok_42 rows_ok_43 rows_ok_44 rows_ok_45 rows_ok_46 rows_ok_47
  rows_ok_48 rows_ok_49 rows_ok_50 rows_ok_51 rows_ok_52 rows_ok_53 rows_ok_54 rows_ok_55
  rows_ok_56 rows_ok_57 rows_ok_58 rows_ok_59 rows_ok_60 rows_ok_61 rows_ok_62 rows_ok_63
  rows_ok_64 rows_ok_65 rows_ok_66 rows_ok_67 rows_ok_68

lemma goldbach_written_rows: "length goldbach_written = 10239" "rows_from 0 goldbach_written"
  by (simp_all add: goldbach_written_def rows_from_append rows_ok)

lemma goldbach_partitions_length [simp]: "length goldbach_partitions = 20480"
  by (simp add: goldbach_partitions_def goldbach_written_rows GOLDBACH_ROWS_def)

lemma goldbach_row_split:
  assumes "k < 10239"
  shows "2 \<le> fst (goldbach_partitions ! k)" and "fst (goldbach_partitions ! k) \<le> snd (goldbach_partitions ! k)"
    and "fst (goldbach_partitions ! k) + snd (goldbach_partitions ! k) = 2 * k + 4"
  using assms rows_from_nth [OF goldbach_written_rows(2), of k]
  by (simp_all add: goldbach_partitions_def goldbach_written_rows nth_append)

lemma goldbach_row_zero: "10239 \<le> k \<Longrightarrow> k < 20480 \<Longrightarrow> goldbach_partitions ! k = (0, 0)"
  by (simp add: goldbach_partitions_def goldbach_written_rows nth_append GOLDBACH_ROWS_def)

text \<open>Each of the rows written, for the even numbers from 4 to 20480, splits its number into two
  parts of at least two, the smaller first; the other half of the declared array is zero.\<close>

theorem goldbach_partitions_rows:
  assumes "k < 20480"
  shows "if k < 10239
     then \<exists>l r. goldbach_partitions ! k = (l, r) \<and> 2 \<le> l \<and> l \<le> r \<and> l + r = 2 * k + 4
     else goldbach_partitions ! k = (0, 0)"
  using assms goldbach_row_split [of k] goldbach_row_zero [of k]
  by (cases "goldbach_partitions ! k") auto

theorem goldbach_partitions_rows_witness:
  "(\<exists>l r. goldbach_partitions ! 10238 = (l, r) \<and> 2 \<le> l \<and> l \<le> r \<and> l + r = 20480)
     \<and> goldbach_partitions ! 10239 = (0, 0)"
  using goldbach_partitions_rows [of 10238] goldbach_partitions_rows [of 10239] by simp

end
