(* ===== verification/Goldbach.thy ===== *)
theory Goldbach
  imports Data_Preparation Goldbach_Table
begin

text \<open>
  \<^verbatim>\<open>client-parametric-files/cond/ra_data_preparation_goldbach.c\<close>: the second version of the data
  preparation. The window the nonce describes, its size made even, is split in two halves by the
  table of partitions; two walks run through them side by side and the prepared data are the sums of
  the bytes they read. \<^verbatim>\<open>calculate_index\<close> is the one of the first version.
\<close>

section \<open>Operations\<close>

text \<open>The macros \<^verbatim>\<open>goldbach_left\<close> and \<^verbatim>\<open>goldbach_right\<close>: an unchecked index into the array; the
  32-bit subtraction wraps for a size below 4.\<close>

definition goldbach_halves :: "u32 \<Rightarrow> (u32 \<times> u32) run" where
  "goldbach_halves x =
     (let i = unat (x div 2 - 2) in
      if i < length goldbach_partitions
      then Inr (of_nat (fst (goldbach_partitions ! i)), of_nat (snd (goldbach_partitions ! i)))
      else Inl Out_Of_Bounds)"

definition even_size :: "decoded_info \<Rightarrow> decoded_info" where
  "even_size info =
     (if info_actual_size info mod 2 \<noteq> 0
      then info\<lparr>info_actual_size := info_actual_size info - 1\<rparr> else info)"

text \<open>
  The two walks, from step \<open>i\<close>: \<open>li\<close> and \<open>ri\<close> are the index variables, \<open>lt\<close> and \<open>rt\<close> the
  uninitialised bytes of a round. On an error of a step the walk ends with its code.
\<close>

fun goldbach_walk ::
  "mod_mul \<Rightarrow> memory \<Rightarrow> u64 \<Rightarrow> memory_area \<Rightarrow> u32 \<Rightarrow> u32 \<times> u32 \<Rightarrow> u32 \<times> u32 \<Rightarrow> u8 \<Rightarrow> u8
     \<Rightarrow> nat list \<Rightarrow> u32 \<Rightarrow> u32 \<Rightarrow> u8 list \<Rightarrow> (u8 list \<times> ra_result) run" where
  "goldbach_walk mm mem base a start sizes gens lt rt [] li ri buf = Inr (buf, RA_SUCCESS)"
| "goldbach_walk mm mem base a start (l, r) (lg, rg) lt rt (i # is) li ri buf =
     (let (li', e1) = calculate_index mm rg (of_nat i) l li in
      if e1 \<noteq> RA_SUCCESS then Inr (buf, e1)
      else let (ri', e2) = calculate_index mm lg (of_nat i) r ri in
        if e2 \<noteq> RA_SUCCESS then Inr (buf, e2)
        else bind_run (ra_mA_get_byte mem base a (li' + start) lt) (\<lambda>(x, e3).
          if e3 \<noteq> RA_SUCCESS then Inr (buf, e3)
          else bind_run (ra_mA_get_byte mem base a (ri' + l + start) rt) (\<lambda>(y, e4).
            if e4 \<noteq> RA_SUCCESS then Inr (buf, e4)
            else goldbach_walk mm mem base a start (l, r) (lg, rg) lt rt is li' ri' (buf[i := x + y]))))"

text \<open>
  \<open>garbage\<close> and \<open>print_garbage\<close> are the uninitialised \<^verbatim>\<open>nonce_info\<close> and the one of the function that
  prints it, \<open>tmp\<close> the uninitialised buffer, \<open>lt\<close> and \<open>rt\<close> the bytes of a round; the booleans are the
  outcomes of the allocations.
\<close>

definition ra_prepare_data_goldbach ::
  "decoder \<Rightarrow> mod_mul \<Rightarrow> memory \<Rightarrow> u64 \<Rightarrow> decoded_info \<Rightarrow> decoded_info \<Rightarrow> (nat \<Rightarrow> u8) \<Rightarrow> u8 \<Rightarrow> u8
     \<Rightarrow> bool \<Rightarrow> bool \<Rightarrow> ra_table \<Rightarrow> (ra_table \<times> ra_result) run" where
  "ra_prepare_data_goldbach decode mm mem base garbage print_garbage tmp lt rt tmp_ok set_ok t =
     (if ra_get_current_nonce_reference t = None \<or> ra_get_current_nonce_size t = 0
      then Inr (ra_reset_prepared_data t, RA_ERROR_UNDEFINED_PARAMETERS)
      else bind_run (decode t garbage) (\<lambda>(decoded, e).
        if e \<noteq> RA_SUCCESS then Inr (t, RA_ERROR_GENERIC)
        else let info = even_size decoded in
          bind_run (goldbach_halves (info_actual_size info)) (\<lambda>(l, r).
          let max_size = (if r < l then l else r); n = unat max_size in
          bind_run (umod (info_generator info) l) (\<lambda>lg.
          bind_run (umod (info_generator info) r) (\<lambda>rg.
          bind_run (print_encoded_info decode print_garbage t) (\<lambda>_.
          bind_run (ra_get_memory_area t (info_label info)) (\<lambda>area.
            case area of
              None \<Rightarrow> Inr (t, RA_ERROR_EMPTY_AREA)
            | Some a \<Rightarrow>
                if \<not> tmp_ok then Inr (ra_reset_prepared_data t, RA_ERROR_MEMORY)
                else bind_run (goldbach_walk mm mem base a (info_offset info) (l, r) (lg, rg) lt rt
                                 [0..<n] 0 0 (map tmp [0..<n])) (\<lambda>(buf, e2).
                    if e2 \<noteq> RA_SUCCESS then Inr (ra_reset_prepared_data t, e2)
                    else bind_run (ra_set_prepared_data set_ok t (Some buf) max_size)
                      (\<lambda>(t', _). Inr (t', RA_SUCCESS))))))))))"

section \<open>The specification\<close>

text \<open>The parts of a window by its size, and the sums the walks read.\<close>

definition halves :: "decoded_info \<Rightarrow> nat \<times> nat" where
  "halves info = goldbach_partitions ! (unat (info_actual_size info) div 2 - 2)"

definition left_index :: "decoded_info \<Rightarrow> nat \<Rightarrow> nat" where
  "left_index info i = unat (info_generator info) mod snd (halves info) * i mod fst (halves info)"

definition right_index :: "decoded_info \<Rightarrow> nat \<Rightarrow> nat" where
  "right_index info i = unat (info_generator info) mod fst (halves info) * i mod snd (halves info)"

definition goldbach_byte :: "decoded_info \<Rightarrow> u8 list \<Rightarrow> nat \<Rightarrow> u8" where
  "goldbach_byte info w i = w ! left_index info i + w ! (fst (halves info) + right_index info i)"

definition goldbach_bytes :: "decoded_info \<Rightarrow> u8 list \<Rightarrow> u8 list" where
  "goldbach_bytes info w = map (goldbach_byte info w) [0..<snd (halves info)]"

definition goldbach_sized :: "decoded_info \<Rightarrow> bool" where
  "goldbach_sized info \<longleftrightarrow> 4 \<le> unat (info_actual_size info) \<and> unat (info_actual_size info) < 20482"

lemma halves_split:
  assumes "goldbach_sized info"
  shows "2 \<le> fst (halves info)" and "fst (halves info) \<le> snd (halves info)"
    and "fst (halves info) + snd (halves info) = unat (info_actual_size info) div 2 * 2"
proof -
  let ?k = "unat (info_actual_size info) div 2 - 2"
  have "?k < 10239" "2 * ?k + 4 = unat (info_actual_size info) div 2 * 2"
    using assms by (auto simp: goldbach_sized_def)
  with goldbach_row_split [of ?k] show "2 \<le> fst (halves info)" "fst (halves info) \<le> snd (halves info)"
    "fst (halves info) + snd (halves info) = unat (info_actual_size info) div 2 * 2"
    by (simp_all add: halves_def)
qed

lemma even_size_fields [simp]:
  "info_label (even_size info) = info_label info" "info_offset (even_size info) = info_offset info"
  "info_generator (even_size info) = info_generator info"
  by (simp_all add: even_size_def)

lemma unat_even_size: "unat (info_actual_size (even_size info)) = unat (info_actual_size info) div 2 * 2"
proof -
  let ?s = "info_actual_size info"
  have m: "unat (?s mod 2) = unat ?s mod 2" by (simp add: unat_mod)
  show ?thesis
  proof (cases "?s mod 2 = 0")
    case True
    with m have "unat ?s mod 2 = 0" by simp
    with True show ?thesis by (auto simp: even_size_def)
  next
    case False
    then have odd: "unat ?s mod 2 = 1" using m by (metis mod2_eq_if unat_eq_0)
    then have "1 \<le> unat ?s" by (metis One_nat_def Suc_leI gr0I mod_0 zero_neq_one)
    then have "unat (?s - 1) = unat ?s - 1" by (simp add: unat_sub word_le_nat_alt)
    with False odd show ?thesis by (simp add: even_size_def) presburger
  qed
qed

section \<open>The walks\<close>

lemma calculate_index_exact:
  assumes "mod_mul_exact mm" and "0 < m" and "i < 2 ^ 32"
  shows "calculate_index mm g (of_nat i) m index = (of_nat (unat g * i mod unat m), RA_SUCCESS)"
    and "unat (of_nat (unat g * i mod unat m) :: u32) = unat g * i mod unat m"
    and "unat g * i mod unat m < unat m"
proof -
  have m: "0 < unat m" using assms(2) by (simp add: word_less_nat_alt)
  then show lt: "unat g * i mod unat m < unat m" by simp
  have "unat m < 2 ^ 32" using unsigned_less [where 'a = nat, of m] by simp
  with lt show "unat (of_nat (unat g * i mod unat m) :: u32) = unat g * i mod unat m"
    by (simp add: unat_of_nat_u32)
  show "calculate_index mm g (of_nat i) m index = (of_nat (unat g * i mod unat m), RA_SUCCESS)"
    using assms m by (simp add: calculate_index_def mod_mul_exact_def unat_of_nat_u32)
qed

definition walk_sum :: "u8 list \<Rightarrow> nat \<Rightarrow> u32 \<times> u32 \<Rightarrow> u32 \<times> u32 \<Rightarrow> nat \<Rightarrow> u8" where
  "walk_sum c k sizes gens i =
     c ! (k + unat (snd gens) * i mod unat (fst sizes))
     + c ! (k + unat (fst sizes) + unat (fst gens) * i mod unat (snd sizes))"

lemma goldbach_walk_ok:
  assumes "mod_mul_exact mm" and "area_ok a bs" and "0 < l" and "0 < r"
    and "unat start + unat l + unat r \<le> blocks_size bs" and "set is \<subseteq> {..<2 ^ 32}"
  shows "goldbach_walk mm mem base a start (l, r) (lg, rg) lt rt is li ri buf =
     Inr (fold (\<lambda>i buf. buf[i := walk_sum (area_code mem base bs) (unat start) (l, r) (lg, rg) i]) is buf, RA_SUCCESS)"
  using assms(6)
proof (induction "is" arbitrary: li ri buf)
  case Nil
  then show ?case by simp
next
  case (Cons i "is")
  let ?x = "unat rg * i mod unat l" and ?y = "unat lg * i mod unat r"
  have i: "i < 2 ^ 32" using Cons.prems by simp
  note x = calculate_index_exact [OF assms(1,3) i, of rg] and y = calculate_index_exact [OF assms(1,4) i, of lg]
  have "blocks_size bs < 2 ^ 32" using assms(2) by (simp add: area_ok_def)
  then have fit: "?x + unat start < 2 ^ 32" "?y + unat l < 2 ^ 32" "?y + unat l + unat start < 2 ^ 32"
    using x(3) y(3) assms(5) by linarith+
  have ux: "unat (of_nat ?x + start) = unat start + ?x"
    using x(2) fit(1) unat_add_no_wrap [of "of_nat ?x" start] by simp
  have "unat (of_nat ?y + l) = ?y + unat l"
    using y(2) fit(2) unat_add_no_wrap [of "of_nat ?y" l] by simp
  then have uy: "unat (of_nat ?y + l + start) = unat start + unat l + ?y"
    using fit(3) unat_add_no_wrap [of "of_nat ?y + l" start] by simp
  have "ra_mA_get_byte mem base a (of_nat ?x + start) lt = Inr (area_code mem base bs ! (unat start + ?x), RA_SUCCESS)"
    using ra_mA_get_byte_within [OF assms(2), of "of_nat ?x + start"] x(3) assms(5) by (simp only: ux)
  moreover have "ra_mA_get_byte mem base a (of_nat ?y + l + start) rt
      = Inr (area_code mem base bs ! (unat start + unat l + ?y), RA_SUCCESS)"
    using ra_mA_get_byte_within [OF assms(2), of "of_nat ?y + l + start"] y(3) assms(5) by (simp only: uy)
  ultimately show ?case
    using Cons x(1) y(1) by (simp add: walk_sum_def)
qed

lemma goldbach_halves_ok:
  assumes "goldbach_sized info"
  shows "\<exists>l r. goldbach_halves (info_actual_size (even_size info)) = Inr (l, r)
     \<and> halves info = (unat l, unat r) \<and> 0 < l \<and> l \<le> r
     \<and> unat l + unat r = unat (info_actual_size info) div 2 * 2"
proof -
  let ?s = "info_actual_size (even_size info)" and ?n = "unat (info_actual_size info)"
  have n: "4 \<le> ?n" "?n < 20482" using assms by (simp_all add: goldbach_sized_def)
  have "unat (?s div 2) = ?n div 2" by (simp add: unat_div unat_even_size)
  moreover have "(2 :: u32) \<le> ?s div 2" using calculation n(1) by (simp add: word_le_nat_alt)
  ultimately have i: "unat (?s div 2 - 2) = ?n div 2 - 2" by (simp add: unat_sub)
  have h: "goldbach_halves ?s = Inr (of_nat (fst (halves info)), of_nat (snd (halves info)))"
    using n by (simp add: goldbach_halves_def i halves_def Let_def)
  note split = halves_split [OF assms]
  have "fst (halves info) < 2 ^ 32" "snd (halves info) < 2 ^ 32" using split n by auto
  then have u: "unat (of_nat (fst (halves info)) :: u32) = fst (halves info)"
    "unat (of_nat (snd (halves info)) :: u32) = snd (halves info)"
    by (simp_all add: unat_of_nat_u32)
  show ?thesis
    using h split u
    by (intro exI [of _ "of_nat (fst (halves info))"] exI [of _ "of_nat (snd (halves info))"])
      (simp add: word_less_nat_alt word_le_nat_alt prod_eq_iff)
qed

section \<open>What the preparation computes\<close>

text \<open>What the versions of nonce interpretation deliver, by their contract.\<close>

definition decodes_selected :: "decoder \<Rightarrow> ra_table \<Rightarrow> memory_area list \<Rightarrow> u8 list \<Rightarrow> decoded_info \<Rightarrow> bool" where
  "decodes_selected decode t ars nonce info \<longleftrightarrow>
     (\<forall>ret. decode t ret = Inr (info, RA_SUCCESS)) \<and> info_in_bounds info
     \<and> info_label info = area_label (selected_area t ars nonce)
     \<and> info_buffer_size info = area_total_size (selected_area t ars nonce)"

lemma decode_any_version:
  assumes "prime_test_exact is_prime" and "decodable t ars nonce 3" and "decode \<in> built_versions is_prime"
  shows "\<exists>info. decodes_selected decode t ars nonce info"
proof -
  have d: "decodable t ars nonce 2" using assms(2) by (rule decodable_mono) simp
  have e: "is_prime = exact_test" using assms(1) by (simp add: prime_test_exact_iff)
  show ?thesis
    using assms(3) v1.decode_ok [OF assms(2)] v2.decode_ok [OF d] v3.decode_ok [OF d] v4.decode_ok [OF assms(2)]
    unfolding e built_versions_def decodes_selected_def by blast
qed

lemma window_nth:
  assumes "info_in_bounds info" and "length code = unat (info_buffer_size info)" and "i < unat (info_actual_size info)"
  shows "window info code ! i = code ! (unat (info_offset info) + i)"
  using assms by (simp add: window_def info_in_bounds_def)

lemma window_length:
  assumes "decodable t ars nonce n" and "decodes_selected decode t ars nonce info"
  shows "length (window info (selected_code mem base t ars nonce)) = unat (info_actual_size info)"
proof -
  have "info_in_bounds info" "info_buffer_size info = area_total_size (selected_area t ars nonce)"
    using assms(2) by (simp_all add: decodes_selected_def)
  then show ?thesis
    using selected_code_length [OF assms(1), of mem base] by (auto simp: window_def info_in_bounds_def)
qed

lemma goldbach_indices:
  assumes "goldbach_sized info"
  shows "left_index info i < fst (halves info)" and "right_index info i < snd (halves info)"
    and "fst (halves info) + right_index info i < unat (info_actual_size info)"
    and "left_index info i < unat (info_actual_size info)"
proof -
  show "left_index info i < fst (halves info)" "right_index info i < snd (halves info)"
    using halves_split [OF assms] by (simp_all add: left_index_def right_index_def)
  with halves_split [OF assms] show "fst (halves info) + right_index info i < unat (info_actual_size info)"
    "left_index info i < unat (info_actual_size info)" by linarith+
qed

lemma prepare_goldbach:
  assumes "mod_mul_exact mm" and "decodable t ars nonce n" and "decodes_selected decode t ars nonce info"
    and "goldbach_sized info"
  shows "ra_prepare_data_goldbach decode mm mem base garbage print_garbage tmp lt rt True True t =
     Inr (t\<lparr>prepared_data := Some (goldbach_bytes info (window info (selected_code mem base t ars nonce))),
            prepared_data_size := of_nat (snd (halves info))\<rparr>, RA_SUCCESS)"
proof -
  let ?a = "selected_area t ars nonce" and ?code = "selected_code mem base t ars nonce" and ?start = "info_offset info"
  let ?bs = "area_block_list ?a" and ?n = "unat (info_actual_size info)"
  have info: "\<forall>ret. decode t ret = Inr (info, RA_SUCCESS)" "info_in_bounds info" "info_label info = area_label ?a"
    "info_buffer_size info = area_total_size ?a"
    using assms(3) by (simp_all add: decodes_selected_def)
  obtain l r where lr: "goldbach_halves (info_actual_size (even_size info)) = Inr (l, r)"
    "halves info = (unat l, unat r)" "0 < l" "l \<le> r" "unat l + unat r = ?n div 2 * 2"
    using goldbach_halves_ok [OF assms(4)] by blast
  define lg rg where "lg = info_generator info mod l" and "rg = info_generator info mod r"
  have r: "0 < r" using lr(3,4) by simp
  then have gens: "umod (info_generator info) l = Inr lg" "umod (info_generator info) r = Inr rg"
    using lr(3) by (simp_all add: lg_def rg_def umod_def)
  have tok: "table_ok t ars" and ne: "ars \<noteq> []" using assms(2) by (simp_all add: decodable_def)
  have "?a \<in> set ars" by (rule selected_area_in [OF ne])
  then have aok: "area_ok ?a ?bs" by (rule table_area_ok [OF tok])
  have "distinct (map area_label ars)" using tok by (simp add: table_ok_def)
  with \<open>?a \<in> set ars\<close> have "find (\<lambda>a. area_label a = area_label ?a) ars = Some ?a" by (simp add: find_label)
  then have get: "ra_get_memory_area t (info_label info) = Inr (Some ?a)"
    using info(3) by (simp add: ra_get_memory_area_ok [OF tok])
  have nonce: "current_nonce t \<noteq> None" "current_nonce_size t \<noteq> 0"
    using assms(2) by (auto simp: decodable_def nonce_in_def)
  have fit: "unat ?start + unat l + unat r \<le> blocks_size ?bs"
    using info(2,4) lr(5) area_ok_total [OF aok] by (simp add: info_in_bounds_def) linarith
  have b: "unat r < 2 ^ 32" using unsigned_less [where 'a = nat, of r] by simp
  let ?buf = "map (walk_sum ?code (unat ?start) (l, r) (lg, rg)) [0..<unat r]"
  have walk: "goldbach_walk mm mem base ?a ?start (l, r) (lg, rg) lt rt [0..<unat r] 0 0 (map tmp [0..<unat r])
      = Inr (?buf, RA_SUCCESS)"
    using goldbach_walk_ok [OF assms(1) aok lr(3) r fit, of "[0..<unat r]"] b
    by (simp add: fold_update_all selected_code_def atLeast0LessThan lessThan_subset_iff)
  have len: "length ?code = unat (info_buffer_size info)" using selected_code_length [OF assms(2)] info(4) by simp
  have "walk_sum ?code (unat ?start) (l, r) (lg, rg) i = goldbach_byte info (window info ?code) i" for i
  proof -
    have "unat rg = unat (info_generator info) mod unat r" "unat lg = unat (info_generator info) mod unat l"
      by (simp_all add: lg_def rg_def unat_mod)
    then show ?thesis
      using goldbach_indices [OF assms(4), of i]
      by (simp add: walk_sum_def goldbach_byte_def window_nth [OF info(2) len] left_index_def right_index_def lr(2) add.assoc)
  qed
  then have buf: "?buf = goldbach_bytes info (window info ?code)" by (simp add: goldbach_bytes_def lr(2))
  have "ra_set_prepared_data True t (Some ?buf) r = Inr (t\<lparr>prepared_data := Some ?buf, prepared_data_size := r\<rparr>, RA_SUCCESS)"
    by (simp add: ra_set_prepared_data_def read_at_def)
  moreover have "print_encoded_info decode print_garbage t = Inr ()" using info(1) by (simp add: print_encoded_info_def)
  moreover have "(if r < l then l else r) = r" using lr(4) by (auto simp: not_less [symmetric])
  ultimately show ?thesis
    using nonce info(1) lr(1,2) gens get walk
    by (simp add: ra_prepare_data_goldbach_def ra_get_current_nonce_reference_def ra_get_current_nonce_size_def
        Let_def buf)
qed

section \<open>The sample area\<close>

definition sample_decoded :: decoded_info where
  "sample_decoded = \<lparr>info_label = 9, info_buffer_size = 7, info_actual_size = 7, info_generator = 5, info_offset = 0\<rparr>"

lemma small_primes: "is_prime_number 5" "is_prime_number 7" "\<not> is_prime_number 6"
proof -
  have "{2..<5 :: int} = {2, 3, 4}" "{2..<7 :: int} = {2, 3, 4, 5, 6}" "{2..<6 :: int} = {2, 3, 4, 5}" by auto
  then show "is_prime_number 5" "is_prime_number 7" "\<not> is_prime_number 6" by (simp_all add: is_prime_number_def)
qed

lemma sample_decodes:
  "decodes_selected (decode_nonce_4 exact_test True True) sample_table [sample_area] sample_nonce sample_decoded"
proof -
  have area: "area_label sample_area = 9" by (simp add: sample_area_def area_of_def)
  obtain i where i: "\<forall>ret. decode_nonce_4 exact_test True True sample_table ret = Inr (i, RA_SUCCESS)"
    "info_label i = 9" "info_buffer_size i = 7" "info_in_bounds i" "info_offset i = 0"
    "greatest_prime_below 7 (uint (info_actual_size i))"
    "greatest_prime_below (uint (info_actual_size i) - 1) (uint (info_generator i))"
    using decode_nonce_4_ok [OF exact_test_exact sample_decodable [of 3]] area by auto
  have "uint (info_actual_size i) = 7"
    using i(6) small_primes(2) by (auto simp: greatest_prime_below_def intro: antisym)
  then have a: "uint (info_actual_size i) = uint (7 :: u32)" by simp
  then have "greatest_prime_below 6 (uint (info_generator i))" using i(7) by simp
  then have g: "5 \<le> uint (info_generator i)" "uint (info_generator i) \<le> 6" "uint (info_generator i) \<noteq> 6"
    using small_primes by (auto simp: greatest_prime_below_def)
  then have "uint (info_generator i) = uint (5 :: u32)" by simp
  with a have "info_actual_size i = 7" "info_generator i = 5" by (simp_all only: word_uint_eq_iff)
  with i(1-5) show ?thesis by (simp add: decodes_selected_def area sample_decoded_def info_in_bounds_def)
qed

lemma sample_halves [simp]: "goldbach_sized sample_decoded" "halves sample_decoded = (3, 3)"
proof -
  show s: "goldbach_sized sample_decoded" by (simp add: goldbach_sized_def sample_decoded_def)
  have "fst (halves sample_decoded) + snd (halves sample_decoded) = 6"
    using halves_split(3) [OF s] by (simp add: sample_decoded_def)
  moreover have "halves sample_decoded = goldbach_partitions ! 1" by (simp add: halves_def sample_decoded_def)
  moreover have "goldbach_partitions ! 1 = (3, 3)"
    by (simp add: goldbach_partitions_def goldbach_written_def goldbach_rows_0_def)
  ultimately show "halves sample_decoded = (3, 3)" by simp
qed

text \<open>The running code of the sample: as prepared, and with some of its bytes changed.\<close>

definition patched :: "(u64 \<times> u8) list \<Rightarrow> memory" where
  "patched ps x = (case map_of ps x of None \<Rightarrow> ucast x | Some b \<Rightarrow> b)"

lemma sample_code:
  "selected_code (patched ps) 0 sample_table [sample_area] sample_nonce
     = map (patched ps) [0x1000, 0x1001, 0x2000, 0x2001, 0x2002, 0x3000, 0x3001]"
proof -
  have "area_block_list sample_area = sample_blocks"
    using area_block_list_eq [OF sample_area_ok [of 9]] by (simp add: sample_area_def)
  then show ?thesis
    by (simp add: selected_code_def area_code_def sample_blocks_def block_bytes_def upt_rec)
qed

lemma sample_window:
  "window sample_decoded (selected_code (patched ps) 0 sample_table [sample_area] sample_nonce)
     = map (patched ps) [0x1000, 0x1001, 0x2000, 0x2001, 0x2002, 0x3000, 0x3001]"
  by (simp add: window_def sample_decoded_def sample_code)

section \<open>Properties\<close>

text \<open>C12: With every version of nonce interpretation, when the size it decodes is between 4 and 20481,
  the preparation runs without a fault and prepares, for each step of the longer half, the sum of the
  bytes that the two walks reach in the halves of the window; the uninitialised memory does not show.\<close>

theorem ra_prepare_data_goldbach_sums:
  assumes "prime_test_exact is_prime" and "mod_mul_exact mm" and "decodable t ars nonce 3"
    and "decode \<in> built_versions is_prime" and "decode t ret = Inr (info, RA_SUCCESS)" and "goldbach_sized info"
  shows "ra_prepare_data_goldbach decode mm mem base garbage print_garbage tmp lt rt True True t =
     Inr (t\<lparr>prepared_data := Some (goldbach_bytes info (window info (selected_code mem base t ars nonce))),
            prepared_data_size := of_nat (snd (halves info))\<rparr>, RA_SUCCESS)"
proof -
  obtain info' where "decodes_selected decode t ars nonce info'"
    using decode_any_version [OF assms(1,3,4)] by blast
  moreover from this assms(5) have "info' = info" by (simp add: decodes_selected_def)
  ultimately show ?thesis using prepare_goldbach [OF assms(2,3) _ assms(6)] by simp
qed

theorem ra_prepare_data_goldbach_sums_witness:
  "ra_prepare_data_goldbach (decode_nonce_4 exact_test True True) exact_mod_mul (patched []) 0 blank_info blank_info
     (\<lambda>_. 0) 0 0 True True sample_table =
     Inr (sample_table\<lparr>prepared_data := Some (goldbach_bytes sample_decoded
            (window sample_decoded (selected_code (patched []) 0 sample_table [sample_area] sample_nonce))),
          prepared_data_size := of_nat (snd (halves sample_decoded))\<rparr>, RA_SUCCESS)"
  by (rule ra_prepare_data_goldbach_sums [OF exact_test_exact exact_mod_mul_exact])
    (use sample_decodes in \<open>simp_all add: built_versions_def decodes_selected_def\<close>)

lemma goldbach_bytes_change:
  assumes "goldbach_sized info" and "halves info = (l, r)"
    and "coprime (unat (info_generator info) mod r) l" and "coprime (unat (info_generator info) mod l) r"
    and "j < l + r" and "l + r \<le> length w" and "b \<noteq> w ! j"
  shows "goldbach_bytes info (w[j := b]) \<noteq> goldbach_bytes info w"
proof -
  note split = halves_split [OF assms(1), unfolded assms(2) fst_conv snd_conv]
  have below: "left_index info i < l" "right_index info i < r" for i
    using goldbach_indices(1,2) [OF assms(1), of i] by (simp_all add: assms(2))
  have "\<exists>i<r. goldbach_byte info (w[j := b]) i \<noteq> goldbach_byte info w i"
  proof (cases "j < l")
    case True
    then have "j \<in> (\<lambda>i. unat (info_generator info) mod r * i mod l) ` {..<l}"
      using walk_index_image [OF assms(3)] split(1) by simp
    then obtain i where i: "i < l" "left_index info i = j" by (auto simp: left_index_def assms(2))
    then have "goldbach_byte info (w[j := b]) i = b + w ! (l + right_index info i)"
      using True assms(6) by (simp add: goldbach_byte_def assms(2))
    with i assms(7) split(2) show ?thesis by (intro exI [of _ i]) (simp add: goldbach_byte_def assms(2))
  next
    case False
    with assms(5) have "j - l \<in> (\<lambda>i. unat (info_generator info) mod l * i mod r) ` {..<r}"
      using walk_index_image [OF assms(4)] split(1,2) by simp
    then obtain i where i: "i < r" "right_index info i = j - l" by (auto simp: right_index_def assms(2))
    have "left_index info i \<noteq> j" using below(1) [of i] False by linarith
    with i False assms(5,6) have "goldbach_byte info (w[j := b]) i = w ! left_index info i + b"
      by (simp add: goldbach_byte_def assms(2))
    with i False assms(7) show ?thesis by (intro exI [of _ i]) (simp add: goldbach_byte_def assms(2))
  qed
  then show ?thesis by (auto simp: goldbach_bytes_def assms(2))
qed

text \<open>When the generator is prime to the lengths of both halves, each byte of the window enters
  the prepared data: changing a single one changes what is prepared.\<close>

theorem goldbach_single_change_shows:
  assumes "mod_mul_exact mm" and "decodable t ars nonce n" and "decodes_selected decode t ars nonce info"
    and "goldbach_sized info" and "halves info = (l, r)"
    and "coprime (unat (info_generator info) mod r) l" and "coprime (unat (info_generator info) mod l) r"
    and "w = window info (selected_code mem base t ars nonce)" and "j < l + r" and "b \<noteq> w ! j"
    and "window info (selected_code mem' base t ars nonce) = w[j := b]"
  shows "map_sum id (\<lambda>(t', e). (prepared_data t', e))
           (ra_prepare_data_goldbach decode mm mem' base garbage print_garbage tmp lt rt True True t)
       \<noteq> map_sum id (\<lambda>(t', e). (prepared_data t', e))
           (ra_prepare_data_goldbach decode mm mem base garbage print_garbage tmp lt rt True True t)"
proof -
  have "l + r \<le> length w"
    using window_length [OF assms(2,3), of mem base] halves_split(3) [OF assms(4)] by (simp add: assms(5,8))
  from goldbach_bytes_change [OF assms(4-7,9) this assms(10)] show ?thesis
    by (simp add: prepare_goldbach [OF assms(1-4)] assms(8) [symmetric] assms(11))
qed

theorem goldbach_single_change_shows_witness:
  "map_sum id (\<lambda>(t', e). (prepared_data t', e))
     (ra_prepare_data_goldbach (decode_nonce_4 exact_test True True) exact_mod_mul (patched [(0x1000, 9)]) 0
        blank_info blank_info (\<lambda>_. 0) 0 0 True True sample_table)
   \<noteq> map_sum id (\<lambda>(t', e). (prepared_data t', e))
     (ra_prepare_data_goldbach (decode_nonce_4 exact_test True True) exact_mod_mul (patched []) 0
        blank_info blank_info (\<lambda>_. 0) 0 0 True True sample_table)"
proof (rule goldbach_single_change_shows [OF exact_mod_mul_exact sample_decodable [of 3] sample_decodes sample_halves])
  show "coprime (unat (info_generator sample_decoded) mod 3) 3" by (simp add: sample_decoded_def)
  show "coprime (unat (info_generator sample_decoded) mod 3) 3" by (simp add: sample_decoded_def)
  show "window sample_decoded (selected_code (patched [(0x1000, 9)]) 0 sample_table [sample_area] sample_nonce)
     = (map (patched []) [0x1000, 0x1001, 0x2000, 0x2001, 0x2002, 0x3000, 0x3001])[0 := 9]"
    unfolding sample_window by (simp add: patched_def)
qed (simp_all add: sample_window patched_def)

text \<open>The walks stay in the even part of the window: the last byte of a window of odd size is not read.\<close>

lemma goldbach_bytes_beyond:
  assumes "goldbach_sized info" and "halves info = (l, r)" and "l + r \<le> j"
  shows "goldbach_bytes info (w[j := b]) = goldbach_bytes info w"
proof -
  have "j \<noteq> left_index info i" "j \<noteq> l + right_index info i" for i
    using goldbach_indices(1,2) [OF assms(1), of i] assms(3) by (simp_all add: assms(2))
  then show ?thesis by (simp add: goldbach_bytes_def goldbach_byte_def assms(2))
qed

lemma goldbach_bytes_blind:
  assumes "goldbach_sized info" and "halves info = (l, l)" and "j < l" and "l + l \<le> length w"
  shows "goldbach_bytes info (w[j := w ! j + d, l + j := w ! (l + j) - d]) = goldbach_bytes info w"
proof -
  have "goldbach_byte info (w[j := w ! j + d, l + j := w ! (l + j) - d]) i = goldbach_byte info w i" for i
  proof -
    have "left_index info i = right_index info i" by (simp add: left_index_def right_index_def assms(2))
    moreover have "right_index info i < l" using goldbach_indices(2) [OF assms(1), of i] by (simp add: assms(2))
    ultimately show ?thesis
      using assms(3,4) by (simp add: goldbach_byte_def assms(2) nth_list_update)
  qed
  then show ?thesis by (simp add: goldbach_bytes_def)
qed

text \<open>When the table splits the window in equal halves, the two walks run in step: byte j is only
  ever added to byte l + j. Code in which one is raised by what the other is lowered prepares to the
  same data with every nonce, so attestation does not see the change.\<close>

theorem goldbach_equal_halves_blind:
  assumes "mod_mul_exact mm" and "decodable t ars nonce n" and "decodes_selected decode t ars nonce info"
    and "goldbach_sized info" and "halves info = (l, l)" and "j < l"
    and "w = window info (selected_code mem base t ars nonce)"
    and "window info (selected_code mem' base t ars nonce) = w[j := w ! j + d, l + j := w ! (l + j) - d]"
  shows "ra_prepare_data_goldbach decode mm mem' base garbage print_garbage tmp lt rt True True t
       = ra_prepare_data_goldbach decode mm mem base garbage print_garbage tmp lt rt True True t"
proof -
  have "l + l \<le> length w"
    using window_length [OF assms(2,3), of mem base] halves_split(3) [OF assms(4)] by (simp add: assms(5,7))
  from goldbach_bytes_blind [OF assms(4-6) this, of d] show ?thesis
    by (simp add: prepare_goldbach [OF assms(1-4)] assms(7) [symmetric] assms(8))
qed

theorem goldbach_equal_halves_blind_witness:
  "patched [(0x1000, 1), (0x2001, 0)] 0x1000 \<noteq> patched [] 0x1000
   \<and> ra_prepare_data_goldbach (decode_nonce_4 exact_test True True) exact_mod_mul (patched [(0x1000, 1), (0x2001, 0)]) 0
       blank_info blank_info (\<lambda>_. 0) 0 0 True True sample_table
   = ra_prepare_data_goldbach (decode_nonce_4 exact_test True True) exact_mod_mul (patched []) 0
       blank_info blank_info (\<lambda>_. 0) 0 0 True True sample_table"
proof
  show "patched [(0x1000, 1), (0x2001, 0)] 0x1000 \<noteq> patched [] 0x1000" by (simp add: patched_def)
  show "ra_prepare_data_goldbach (decode_nonce_4 exact_test True True) exact_mod_mul (patched [(0x1000, 1), (0x2001, 0)]) 0
       blank_info blank_info (\<lambda>_. 0) 0 0 True True sample_table
   = ra_prepare_data_goldbach (decode_nonce_4 exact_test True True) exact_mod_mul (patched []) 0
       blank_info blank_info (\<lambda>_. 0) 0 0 True True sample_table"
  proof (rule goldbach_equal_halves_blind [OF exact_mod_mul_exact sample_decodable [of 3] sample_decodes sample_halves])
    let ?w = "map (patched []) [0x1000, 0x1001, 0x2000, 0x2001, 0x2002, 0x3000, 0x3001]"
    show "window sample_decoded (selected_code (patched [(0x1000, 1), (0x2001, 0)]) 0 sample_table [sample_area] sample_nonce)
       = ?w[0 := ?w ! 0 + 1, 3 + 0 := ?w ! (3 + 0) - 1]"
      unfolding sample_window by (simp add: patched_def)
  qed (simp_all add: sample_window)
qed

lemma goldbach_halves_outside:
  assumes "\<not> goldbach_sized info"
  shows "goldbach_halves (info_actual_size (even_size info)) =
     (if 4 \<le> unat (info_actual_size info) \<and> unat (info_actual_size info) < 40964 then Inr (0, 0) else Inl Out_Of_Bounds)"
proof -
  let ?s = "info_actual_size (even_size info)" and ?n = "unat (info_actual_size info)"
  have d: "unat (?s div 2) = ?n div 2" by (simp add: unat_div unat_even_size)
  show ?thesis
  proof (cases "4 \<le> ?n")
    case True
    have "(2 :: u32) \<le> ?s div 2" using d True by (simp add: word_le_nat_alt)
    then have i: "unat (?s div 2 - 2) = ?n div 2 - 2" using d by (simp add: unat_sub)
    have "10239 \<le> ?n div 2 - 2" using assms True by (auto simp: goldbach_sized_def)
    moreover have "?n div 2 - 2 < 20480 \<longleftrightarrow> ?n < 40964" using True by linarith
    ultimately show ?thesis using True by (simp add: goldbach_halves_def i goldbach_row_zero)
  next
    case False
    then have "?n div 2 = 0 \<or> ?n div 2 = 1" by linarith
    then have "?s div 2 = 0 \<or> ?s div 2 = 1" using d by (simp add: unat_eq_0 word_unat_eq_iff)
    then show ?thesis using False
      by (auto simp: goldbach_halves_def Let_def unsigned_minus_1_eq_mask mask_eq_exp_minus_1)
  qed
qed

text \<open>C39: A size outside the table is not refused. Below 4 the index wraps and from 40964 on it is past
  the array, which is then read out of bounds; in between, from 20482 on, the rows are zero and the
  reduction of the generator divides by zero.\<close>

theorem goldbach_size_faults:
  assumes "prime_test_exact is_prime" and "decodable t ars nonce 3" and "decode \<in> built_versions is_prime"
    and "decode t ret = Inr (info, RA_SUCCESS)" and "\<not> goldbach_sized info"
  shows "ra_prepare_data_goldbach decode mm mem base garbage print_garbage tmp lt rt tmp_ok set_ok t =
     Inl (if 4 \<le> unat (info_actual_size info) \<and> unat (info_actual_size info) < 40964
          then Div_By_Zero else Out_Of_Bounds)"
proof -
  obtain info' where d: "decodes_selected decode t ars nonce info'"
    using decode_any_version [OF assms(1-3)] by blast
  then have "info' = info" using assms(4) by (simp add: decodes_selected_def)
  with d have "decode t garbage = Inr (info, RA_SUCCESS)" by (simp add: decodes_selected_def)
  moreover have "current_nonce t \<noteq> None" "current_nonce_size t \<noteq> 0"
    using assms(2) by (auto simp: decodable_def nonce_in_def)
  ultimately show ?thesis
    by (simp add: ra_prepare_data_goldbach_def ra_get_current_nonce_reference_def ra_get_current_nonce_size_def
        Let_def goldbach_halves_outside [OF assms(5)])
qed

definition block_table :: "u32 \<Rightarrow> ra_table" where
  "block_table n = table_of [area_of 3 [\<lparr>block_offset = 0, block_size = n\<rparr>]] sample_nonce"

lemma block_table_decodes:
  assumes "3 \<le> unat n"
  shows "decodable (block_table n) [area_of 3 [\<lparr>block_offset = 0, block_size = n\<rparr>]] sample_nonce 3"
    and "\<exists>info. decode_nonce_2 exact_test True True (block_table n) blank_info = Inr (info, RA_SUCCESS)
           \<and> info_actual_size info = n"
proof -
  let ?a = "area_of 3 [\<lparr>block_offset = 0, block_size = n\<rparr>]"
  have b: "unat n < 2 ^ 32" using unsigned_less [where 'a = nat, of n] by simp
  have "table_ok (block_table n) [?a]"
    unfolding block_table_def by (rule table_of_ok) (use b in \<open>auto simp: sample_nonce_def intro!: exI area_of_ok\<close>)
  moreover have "nonce_in (block_table n) sample_nonce"
    by (simp add: nonce_in_def block_table_def table_of_def sample_nonce_def)
  moreover have sel: "selected_area (block_table n) [?a] sample_nonce = ?a" by (simp add: selected_area_def)
  moreover have size: "area_total_size ?a = n" by (simp add: area_of_def)
  ultimately show d: "decodable (block_table n) [?a] sample_nonce 3"
    using assms by (simp add: decodable_def) (simp add: sample_nonce_def)
  then have "decodable (block_table n) [?a] sample_nonce 2" by (rule decodable_mono) simp
  from decode_nonce_23_ok [OF exact_test_exact this]
  show "\<exists>info. decode_nonce_2 exact_test True True (block_table n) blank_info = Inr (info, RA_SUCCESS)
           \<and> info_actual_size info = n"
    by (auto simp: sel size)
qed

theorem goldbach_size_faults_witness:
  "ra_prepare_data_goldbach (decode_nonce_2 exact_test True True) exact_mod_mul (patched []) 0 blank_info
     blank_info (\<lambda>_. 0) 0 0 True True (block_table 3) = Inl Out_Of_Bounds
   \<and> ra_prepare_data_goldbach (decode_nonce_2 exact_test True True) exact_mod_mul (patched []) 0 blank_info
     blank_info (\<lambda>_. 0) 0 0 True True (block_table 30000) = Inl Div_By_Zero"
proof -
  have v: "decode_nonce_2 exact_test True True \<in> built_versions exact_test" by (simp add: built_versions_def)
  obtain i3 i30000 where
    i3: "decode_nonce_2 exact_test True True (block_table 3) blank_info = Inr (i3, RA_SUCCESS)" "info_actual_size i3 = 3"
    and i30000: "decode_nonce_2 exact_test True True (block_table 30000) blank_info = Inr (i30000, RA_SUCCESS)"
      "info_actual_size i30000 = 30000"
    using block_table_decodes(2) [of 3] block_table_decodes(2) [of 30000] by auto
  show ?thesis
    using goldbach_size_faults [OF exact_test_exact block_table_decodes(1) v i3(1)]
      goldbach_size_faults [OF exact_test_exact block_table_decodes(1) v i30000(1)]
    by (simp add: goldbach_sized_def i3(2) i30000(2))
qed

end
