(* ===== verification/Attestator_Lifecycle.thy ===== *)
theory Attestator_Lifecycle
  imports Attestator
begin

text \<open>
  \<^verbatim>\<open>client-parametric-files/uncond/attestator.c\<close>: the life of an attestator inside its application.
  The constructor \<^verbatim>\<open>attestator_init\<close> parses the attestation data, registers \<^verbatim>\<open>attestator_deinit\<close> with
  \<^verbatim>\<open>atexit\<close>, starts the polling thread and waits for it on a condition variable; the destructor
  stops the thread, joins it and destroys the table. Main thread and polling thread are two step
  functions on one state, and a run interleaves their steps. A critical section of
  \<^verbatim>\<open>init_finished_mutex\<close> or \<^verbatim>\<open>deinit_mutex\<close> is one step; \<^verbatim>\<open>websocket_mutex\<close> is only ever taken by the
  polling thread. The websocket library enters with the inputs of the polling thread.
\<close>

definition MAX_CONNECTION_RETRY :: nat where "MAX_CONNECTION_RETRY = 10"

section \<open>The state\<close>

text \<open>Where the main thread is: in \<^verbatim>\<open>attestator_init\<close> before its test of the status, between the test and
  the wait, waiting, woken; running the application with the value that \<^verbatim>\<open>attestator_init\<close> returned;
  then in \<^verbatim>\<open>attestator_deinit\<close>.\<close>

datatype main_pc =
  Main_Testing
| Main_Blocking
| Main_Waiting
| Main_Woken
| Main_Running int
| Main_Exiting
| Main_Terminating
| Main_Joining
| Main_Destroying
| Main_Ended

text \<open>Where the polling thread is: the argument is the counter \<^verbatim>\<open>c\<close> of the connection loop, then the
  variable \<^verbatim>\<open>flag\<close> of the service loop.\<close>

datatype poll_pc =
  Poll_None
| Poll_Starting
| Poll_Connecting nat
| Poll_Retrying nat
| Poll_Failing
| Poll_Looping bool
| Poll_Serving bool
| Poll_Publishing
| Poll_Closing
| Poll_Done

text \<open>\<open>ap_table\<close> is \<open>None\<close> once the table is destroyed (or NULL when it was never built).
  \<open>ap_attempts\<close>, \<open>ap_open\<close> and \<open>ap_sent\<close> record what the library was asked for: the calls of
  \<^verbatim>\<open>acclWebSocketInit\<close>, whether a connection is open, the messages sent.\<close>

record att_process =
  ap_table :: "ra_table option"
  ap_registered :: bool
  ap_force_exit :: bool
  ap_status :: int
  ap_main :: main_pc
  ap_poll :: poll_pc
  ap_attempts :: nat
  ap_open :: bool
  ap_sent :: "u8 list list"

section \<open>Operations\<close>

definition live_table :: "att_process \<Rightarrow> ra_table run" where
  "live_table s = (case ap_table s of None \<Rightarrow> Inl Use_After_Free | Some t \<Rightarrow> Inr t)"

text \<open>\<^verbatim>\<open>attestator_init\<close> up to its test of the status; \<open>parsed\<close> is what \<^verbatim>\<open>ra_parse_binary_ads\<close> delivers,
  the booleans are the success of \<^verbatim>\<open>atexit\<close> and of \<^verbatim>\<open>pthread_create\<close>.\<close>

definition attestator_init :: "ra_table option \<Rightarrow> bool \<Rightarrow> bool \<Rightarrow> att_process run" where
  "attestator_init parsed atexit_ok create_ok =
     (let s = \<lparr>ap_table = parsed, ap_registered = False, ap_force_exit = False, ap_status = 0,
               ap_main = Main_Running 1, ap_poll = Poll_None, ap_attempts = 0, ap_open = False, ap_sent = []\<rparr> in
      case parsed of
        None \<Rightarrow> Inr s
      | Some t \<Rightarrow>
          if snd (ra_get_attestator_number t 0) \<noteq> RA_SUCCESS
          then bind_run (ra_destroy_table (Some t)) (\<lambda>_. Inr (s\<lparr>ap_table := None\<rparr>))
          else if \<not> atexit_ok then Inr s
          else let s = s\<lparr>ap_registered := True\<rparr> in
            if \<not> create_ok then bind_run (ra_destroy_table (Some t)) (\<lambda>_. Inr (s\<lparr>ap_table := None\<rparr>))
            else Inr (s\<lparr>ap_main := Main_Testing, ap_poll := Poll_Starting\<rparr>))"

text \<open>The rest of \<^verbatim>\<open>attestator_init\<close>, the application, and at its exit \<^verbatim>\<open>attestator_deinit\<close>. A step of
  a blocked thread changes nothing (a wait that returns without a signal is \<open>spurious_wakeup\<close> below). Joining a thread that was never created uses the zero handle.\<close>

definition main_step :: "att_process \<Rightarrow> att_process run" where
  "main_step s =
     (case ap_main s of
        Main_Testing \<Rightarrow> Inr (s\<lparr>ap_main := if ap_status s = 0 then Main_Blocking else Main_Running 0\<rparr>)
      | Main_Blocking \<Rightarrow> Inr (s\<lparr>ap_main := Main_Waiting\<rparr>)
      | Main_Waiting \<Rightarrow> Inr s
      | Main_Woken \<Rightarrow> Inr (s\<lparr>ap_main := Main_Running 0\<rparr>)
      | Main_Running c \<Rightarrow> Inr (s\<lparr>ap_main := if ap_registered s then Main_Exiting else Main_Ended\<rparr>)
      | Main_Exiting \<Rightarrow> bind_run (live_table s) (\<lambda>t. Inr (s\<lparr>ap_main := Main_Terminating\<rparr>))
      | Main_Terminating \<Rightarrow> Inr (s\<lparr>ap_force_exit := True, ap_main := Main_Joining\<rparr>)
      | Main_Joining \<Rightarrow>
          (case ap_poll s of
             Poll_None \<Rightarrow> Inl Null_Deref
           | Poll_Done \<Rightarrow> Inr (s\<lparr>ap_main := Main_Destroying\<rparr>)
           | _ \<Rightarrow> Inr s)
      | Main_Destroying \<Rightarrow> bind_run (live_table s) (\<lambda>t. bind_run (ra_destroy_table (Some t)) (\<lambda>_.
          Inr (s\<lparr>ap_table := None, ap_main := Main_Ended\<rparr>)))
      | Main_Ended \<Rightarrow> Inr s)"

text \<open>What the library answers: a connection, a message for the callback, or the end of a call of
  \<^verbatim>\<open>libwebsocket_service\<close>.\<close>

datatype poll_input =
  Connected bool
| Message attest_env "u8 list option"
| Serviced

text \<open>Setting the status and signalling it to the thread that waits, if one does.\<close>

definition publish :: "int \<Rightarrow> att_process \<Rightarrow> att_process" where
  "publish status s =
     s\<lparr>ap_status := status, ap_main := if ap_main s = Main_Waiting then Main_Woken else ap_main s\<rparr>"

text \<open>The callback, under \<^verbatim>\<open>deinit_mutex\<close>.\<close>

definition on_message :: "attest_env \<Rightarrow> u8 list option \<Rightarrow> att_process \<Rightarrow> att_process run" where
  "on_message env buf s =
     (if ap_force_exit s \<or> buf = None then Inr s
      else bind_run (live_table s) (\<lambda>t. bind_run (attestator_routine env (ap_force_exit s) buf t) (\<lambda>(t', m).
        Inr (s\<lparr>ap_table := Some t', ap_sent := ap_sent s @ (case m of None \<Rightarrow> [] | Some x \<Rightarrow> [x])\<rparr>))))"

text \<open>\<^verbatim>\<open>ws_polling_routine\<close>.\<close>

definition poll_step :: "poll_input \<Rightarrow> att_process \<Rightarrow> att_process run" where
  "poll_step input s =
     (case ap_poll s of
        Poll_None \<Rightarrow> Inr s
      | Poll_Starting \<Rightarrow> bind_run (live_table s) (\<lambda>t.
          if snd (ra_get_attestator_number t 0) \<noteq> RA_SUCCESS
          then bind_run (ra_destroy_table (Some t)) (\<lambda>_. Inr (s\<lparr>ap_table := None, ap_poll := Poll_Done\<rparr>))
          else Inr (s\<lparr>ap_poll := Poll_Connecting 0\<rparr>))
      | Poll_Connecting c \<Rightarrow>
          let s = s\<lparr>ap_attempts := Suc (ap_attempts s), ap_open := (input = Connected True)\<rparr> in
          if ap_open s
          then Inr (s\<lparr>ap_poll := if c = MAX_CONNECTION_RETRY then Poll_Failing else Poll_Looping False\<rparr>)
          else Inr (s\<lparr>ap_poll := if c < MAX_CONNECTION_RETRY then Poll_Retrying c else Poll_Failing\<rparr>)
      | Poll_Retrying c \<Rightarrow>
          Inr (s\<lparr>ap_poll := if ap_force_exit s then Poll_Failing else Poll_Connecting (Suc c)\<rparr>)
      | Poll_Failing \<Rightarrow> Inr ((publish (- 1) s)\<lparr>ap_poll := Poll_Done\<rparr>)
      | Poll_Looping flag \<Rightarrow> Inr (s\<lparr>ap_poll := if ap_force_exit s then Poll_Closing else Poll_Serving flag\<rparr>)
      | Poll_Serving flag \<Rightarrow>
          (case input of
             Message env buf \<Rightarrow> on_message env buf s
           | _ \<Rightarrow> Inr (s\<lparr>ap_poll := if flag then Poll_Looping True else Poll_Publishing\<rparr>))
      | Poll_Publishing \<Rightarrow> Inr ((publish 1 s)\<lparr>ap_poll := Poll_Looping True\<rparr>)
      | Poll_Closing \<Rightarrow> Inr (s\<lparr>ap_open := False, ap_poll := Poll_Done\<rparr>)
      | Poll_Done \<Rightarrow> Inr s)"

text \<open>A run of the process: the steps of the two threads in any order, where the wait returns only on a
  signal. The runs in which it may return without one are those of \<open>attestator_any_step\<close> below.\<close>

inductive attestator_step :: "att_process \<Rightarrow> att_process \<Rightarrow> bool" where
  main: "main_step s = Inr s' \<Longrightarrow> attestator_step s s'"
| poll: "poll_step input s = Inr s' \<Longrightarrow> attestator_step s s'"

inductive_cases attestator_stepE: "attestator_step s s'"

section \<open>The invariant\<close>

definition status_pending :: "poll_pc \<Rightarrow> bool" where
  "status_pending p \<longleftrightarrow> (case p of
     Poll_Starting \<Rightarrow> True | Poll_Connecting _ \<Rightarrow> True | Poll_Retrying _ \<Rightarrow> True | Poll_Failing \<Rightarrow> True
   | Poll_Looping flag \<Rightarrow> \<not> flag | Poll_Serving flag \<Rightarrow> \<not> flag | Poll_Publishing \<Rightarrow> True | _ \<Rightarrow> False)"

definition init_returned :: "main_pc \<Rightarrow> bool" where
  "init_returned m \<longleftrightarrow> m \<notin> {Main_Testing, Main_Blocking, Main_Waiting}"

definition connection_used :: "poll_pc \<Rightarrow> bool" where
  "connection_used p \<longleftrightarrow> (case p of
     Poll_Looping _ \<Rightarrow> True | Poll_Serving _ \<Rightarrow> True | Poll_Publishing \<Rightarrow> True | Poll_Closing \<Rightarrow> True | _ \<Rightarrow> False)"

fun attempts_ok :: "poll_pc \<Rightarrow> nat \<Rightarrow> bool" where
  "attempts_ok Poll_Starting n \<longleftrightarrow> n = 0"
| "attempts_ok (Poll_Connecting c) n \<longleftrightarrow> n = c \<and> c \<le> MAX_CONNECTION_RETRY"
| "attempts_ok (Poll_Retrying c) n \<longleftrightarrow> n = Suc c \<and> c < MAX_CONNECTION_RETRY"
| "attempts_ok _ n \<longleftrightarrow> n \<le> Suc MAX_CONNECTION_RETRY"

definition lifecycle_ok :: "att_process \<Rightarrow> bool" where
  "lifecycle_ok s \<longleftrightarrow>
     ap_registered s \<and> ap_poll s \<noteq> Poll_None
     \<and> (ap_table s = None \<longleftrightarrow> ap_main s = Main_Ended)
     \<and> (ap_main s \<in> {Main_Destroying, Main_Ended} \<longrightarrow> ap_poll s = Poll_Done)
     \<and> (ap_force_exit s \<longleftrightarrow> ap_main s \<in> {Main_Joining, Main_Destroying, Main_Ended})
     \<and> (ap_status s = 0 \<longleftrightarrow> status_pending (ap_poll s))
     \<and> (init_returned (ap_main s) \<longrightarrow> ap_status s \<noteq> 0)
     \<and> (connection_used (ap_poll s) \<longrightarrow> ap_open s)
     \<and> (ap_open s \<and> \<not> connection_used (ap_poll s) \<longrightarrow>
          ap_poll s \<in> {Poll_Failing, Poll_Done} \<and> ap_attempts s = Suc MAX_CONNECTION_RETRY)
     \<and> attempts_ok (ap_poll s) (ap_attempts s)
     \<and> (ap_poll s = Poll_Starting \<longrightarrow> (\<exists>t. ap_table s = Some t \<and> is_attestator_number_set t))"

lemma lifecycle_start:
  assumes "attestator_init (Some t) True True = Inr s" and "is_attestator_number_set t"
  shows "lifecycle_ok s"
  using assms
  by (auto simp: attestator_init_def Let_def ra_get_attestator_number_def lifecycle_ok_def status_pending_def
      init_returned_def connection_used_def)

lemma status_pending_simps [simp]:
  "status_pending Poll_Starting" "status_pending (Poll_Connecting c)" "status_pending (Poll_Retrying c)"
  "status_pending Poll_Failing" "status_pending Poll_Publishing" "\<not> status_pending Poll_Closing"
  "\<not> status_pending Poll_Done" "status_pending (Poll_Looping flag) \<longleftrightarrow> \<not> flag"
  "status_pending (Poll_Serving flag) \<longleftrightarrow> \<not> flag"
  by (simp_all add: status_pending_def)

lemma connection_used_simps [simp]:
  "\<not> connection_used Poll_Starting" "\<not> connection_used (Poll_Connecting c)" "\<not> connection_used (Poll_Retrying c)"
  "\<not> connection_used Poll_Failing" "connection_used Poll_Publishing" "connection_used Poll_Closing"
  "\<not> connection_used Poll_Done" "connection_used (Poll_Looping flag)" "connection_used (Poll_Serving flag)"
  by (simp_all add: connection_used_def)

lemma main_step_ok:
  assumes "lifecycle_ok s" and "main_step s = Inr s'"
  shows "lifecycle_ok s'"
proof -
  have ok: "ap_registered s" "ap_poll s \<noteq> Poll_None" "ap_table s = None \<longleftrightarrow> ap_main s = Main_Ended"
    using assms(1) by (simp_all add: lifecycle_ok_def)
  have pending: "init_returned (ap_main s) \<longrightarrow> \<not> status_pending (ap_poll s)"
    using assms(1) by (auto simp: lifecycle_ok_def)
  note inv = assms(1) [unfolded lifecycle_ok_def] and step = assms(2) [unfolded main_step_def]
  show ?thesis
  proof (cases "ap_main s")
    case Main_Testing
    with step have "s' = s\<lparr>ap_main := if ap_status s = 0 then Main_Blocking else Main_Running 0\<rparr>" by simp
    with inv pending Main_Testing show ?thesis
      by (cases "ap_status s = 0") (simp_all add: lifecycle_ok_def init_returned_def)
  next
    case (Main_Running c)
    with step ok have "s' = s\<lparr>ap_main := Main_Exiting\<rparr>" by simp
    with inv pending Main_Running show ?thesis by (simp add: lifecycle_ok_def init_returned_def)
  next
    case Main_Exiting
    with step ok have "s' = s\<lparr>ap_main := Main_Terminating\<rparr>" by (auto simp: live_table_def)
    with inv pending Main_Exiting show ?thesis by (simp add: lifecycle_ok_def init_returned_def)
  next
    case Main_Joining
    show ?thesis
    proof (cases "ap_poll s = Poll_Done")
      case True
      with step Main_Joining have "s' = s\<lparr>ap_main := Main_Destroying\<rparr>" by simp
      with inv pending Main_Joining True show ?thesis by (simp add: lifecycle_ok_def init_returned_def)
    next
      case False
      with step ok Main_Joining have "s' = s" by (cases "ap_poll s") simp_all
      with assms(1) show ?thesis by simp
    qed
  next
    case Main_Destroying
    with step have "s' = s\<lparr>ap_table := None, ap_main := Main_Ended\<rparr>" by (auto simp: bind_run_Inr_iff)
    moreover have "ap_poll s = Poll_Done" "attempts_ok Poll_Done (ap_attempts s)" using inv Main_Destroying by auto
    ultimately show ?thesis using inv pending Main_Destroying by (simp add: lifecycle_ok_def init_returned_def)
  next
    case Main_Terminating
    with step have "s' = s\<lparr>ap_force_exit := True, ap_main := Main_Joining\<rparr>" by simp
    with inv pending Main_Terminating show ?thesis by (simp add: lifecycle_ok_def init_returned_def)
  next
    case Main_Blocking
    with step have "s' = s\<lparr>ap_main := Main_Waiting\<rparr>" by simp
    with inv pending Main_Blocking show ?thesis by (simp add: lifecycle_ok_def init_returned_def)
  next
    case Main_Woken
    with step have "s' = s\<lparr>ap_main := Main_Running 0\<rparr>" by simp
    with inv pending Main_Woken show ?thesis by (simp add: lifecycle_ok_def init_returned_def)
  qed (use step assms(1) in simp_all)
qed

lemma publish_fields [simp]:
  "ap_status (publish st s) = st" "ap_main (publish st s) = (if ap_main s = Main_Waiting then Main_Woken else ap_main s)"
  "ap_table (publish st s) = ap_table s" "ap_registered (publish st s) = ap_registered s"
  "ap_force_exit (publish st s) = ap_force_exit s" "ap_poll (publish st s) = ap_poll s"
  "ap_attempts (publish st s) = ap_attempts s" "ap_open (publish st s) = ap_open s" "ap_sent (publish st s) = ap_sent s"
  by (simp_all add: publish_def)

lemma on_message_fields:
  assumes "on_message env buf s = Inr s'"
  shows "ap_main s' = ap_main s \<and> ap_poll s' = ap_poll s \<and> ap_registered s' = ap_registered s
    \<and> ap_force_exit s' = ap_force_exit s \<and> ap_status s' = ap_status s \<and> ap_attempts s' = ap_attempts s
    \<and> ap_open s' = ap_open s \<and> (ap_table s' = None \<longleftrightarrow> ap_table s = None)"
  using assms by (auto simp: on_message_def live_table_def run_simps split: if_splits option.splits prod.splits)

lemma poll_step_ok:
  assumes "lifecycle_ok s" and "poll_step input s = Inr s'"
  shows "lifecycle_ok s'"
proof -
  note inv = assms(1) [unfolded lifecycle_ok_def] and step = assms(2) [unfolded poll_step_def]
  have pending: "ap_force_exit s \<longrightarrow> \<not> status_pending (ap_poll s)" "status_pending (ap_poll s) \<longrightarrow> \<not> init_returned (ap_main s)"
    using inv by (auto simp: init_returned_def)
  show ?thesis
  proof (cases "ap_poll s")
    case Poll_Starting
    with step inv obtain t where "ap_table s = Some t" "is_attestator_number_set t" by blast
    with Poll_Starting step have "s' = s\<lparr>ap_poll := Poll_Connecting 0\<rparr>"
      by (simp add: live_table_def ra_get_attestator_number_def)
    with inv Poll_Starting pending show ?thesis by (simp add: lifecycle_ok_def)
  next
    case (Poll_Connecting c)
    show ?thesis
    proof (cases "input = Connected True")
      case True
      with step Poll_Connecting have "s' = s\<lparr>ap_attempts := Suc (ap_attempts s), ap_open := True,
          ap_poll := if c = MAX_CONNECTION_RETRY then Poll_Failing else Poll_Looping False\<rparr>" by (simp add: Let_def)
      with inv Poll_Connecting pending show ?thesis
        by (cases "c = MAX_CONNECTION_RETRY") (simp_all add: lifecycle_ok_def)
    next
      case False
      with step Poll_Connecting have "s' = s\<lparr>ap_attempts := Suc (ap_attempts s), ap_open := False,
          ap_poll := if c < MAX_CONNECTION_RETRY then Poll_Retrying c else Poll_Failing\<rparr>" by (simp add: Let_def)
      with inv Poll_Connecting pending show ?thesis
        by (cases "c < MAX_CONNECTION_RETRY") (simp_all add: lifecycle_ok_def)
    qed
  next
    case (Poll_Retrying c)
    with step pending have "s' = s\<lparr>ap_poll := Poll_Connecting (Suc c)\<rparr>" by simp
    with inv Poll_Retrying pending show ?thesis by (simp add: lifecycle_ok_def)
  next
    case Poll_Failing
    with step have "s' = (publish (- 1) s)\<lparr>ap_poll := Poll_Done\<rparr>" by simp
    with inv Poll_Failing pending show ?thesis
      by (cases "ap_main s = Main_Waiting") (simp_all add: lifecycle_ok_def init_returned_def)
  next
    case (Poll_Looping flag)
    with step have "s' = s\<lparr>ap_poll := if ap_force_exit s then Poll_Closing else Poll_Serving flag\<rparr>" by simp
    moreover have "ap_force_exit s \<Longrightarrow> ap_main s = Main_Joining" "\<not> flag \<Longrightarrow> \<not> init_returned (ap_main s)"
      using inv pending Poll_Looping by auto
    ultimately show ?thesis using inv Poll_Looping pending
      by (cases "ap_force_exit s"; cases flag) (simp_all add: lifecycle_ok_def)
  next
    case (Poll_Serving flag)
    show ?thesis
    proof (cases "\<exists>env buf. input = Message env buf")
      case True
      with step Poll_Serving obtain env buf where "on_message env buf s = Inr s'" by auto
      from on_message_fields [OF this] show ?thesis
        using inv pending Poll_Serving unfolding lifecycle_ok_def by (cases flag) simp_all
    next
      case False
      with step Poll_Serving have "s' = s\<lparr>ap_poll := if flag then Poll_Looping True else Poll_Publishing\<rparr>"
        by (cases input) simp_all
      with inv pending Poll_Serving show ?thesis by (cases flag) (simp_all add: lifecycle_ok_def)
    qed
  next
    case Poll_Publishing
    with step have "s' = (publish 1 s)\<lparr>ap_poll := Poll_Looping True\<rparr>" by simp
    with inv Poll_Publishing pending show ?thesis
      by (cases "ap_main s = Main_Waiting") (simp_all add: lifecycle_ok_def init_returned_def)
  next
    case Poll_Closing
    with step have "s' = s\<lparr>ap_open := False, ap_poll := Poll_Done\<rparr>" by simp
    with inv Poll_Closing show ?thesis by (simp add: lifecycle_ok_def)
  qed (use step assms(1) in simp_all)
qed

lemma attestator_step_ok: "attestator_step s s' \<Longrightarrow> lifecycle_ok s \<Longrightarrow> lifecycle_ok s'"
  by (auto elim!: attestator_stepE intro: main_step_ok poll_step_ok)

lemma attestator_run_ok: "attestator_step\<^sup>*\<^sup>* s s' \<Longrightarrow> lifecycle_ok s \<Longrightarrow> lifecycle_ok s'"
  by (induction rule: rtranclp_induct) (auto intro: attestator_step_ok)

section \<open>Properties\<close>

text \<open>
  POSIX lets \<^verbatim>\<open>pthread_cond_wait\<close> return without a signal, and \<^verbatim>\<open>attestator_init\<close> calls it outside a
  loop: such a return is one more step of the main thread.
\<close>

definition spurious_wakeup :: "att_process \<Rightarrow> att_process" where
  "spurious_wakeup s = (if ap_main s = Main_Waiting then s\<lparr>ap_main := Main_Woken\<rparr> else s)"

inductive attestator_any_step :: "att_process \<Rightarrow> att_process \<Rightarrow> bool" where
  signalled: "attestator_step s s' \<Longrightarrow> attestator_any_step s s'"
| spurious: "attestator_any_step s (spurious_wakeup s)"

text \<open>What holds also then: the parts of the invariant that do not speak of the status.\<close>

definition lifecycle_safe :: "att_process \<Rightarrow> bool" where
  "lifecycle_safe s \<longleftrightarrow>
     ap_registered s \<and> ap_poll s \<noteq> Poll_None
     \<and> (ap_table s = None \<longleftrightarrow> ap_main s = Main_Ended)
     \<and> (ap_main s \<in> {Main_Destroying, Main_Ended} \<longrightarrow> ap_poll s = Poll_Done)
     \<and> (ap_force_exit s \<longleftrightarrow> ap_main s \<in> {Main_Joining, Main_Destroying, Main_Ended})
     \<and> (ap_open s \<and> \<not> connection_used (ap_poll s) \<longrightarrow>
          ap_poll s \<in> {Poll_Failing, Poll_Done} \<and> ap_attempts s = Suc MAX_CONNECTION_RETRY)
     \<and> attempts_ok (ap_poll s) (ap_attempts s)
     \<and> (ap_poll s = Poll_Starting \<longrightarrow> (\<forall>t. ap_table s = Some t \<longrightarrow> is_attestator_number_set t))"

lemma lifecycle_ok_safe: "lifecycle_ok s \<Longrightarrow> lifecycle_safe s"
  by (auto simp: lifecycle_ok_def lifecycle_safe_def)

lemma main_step_safe:
  assumes "lifecycle_safe s" and "main_step s = Inr s'"
  shows "lifecycle_safe s'"
proof -
  note inv = assms(1) [unfolded lifecycle_safe_def] and step = assms(2) [unfolded main_step_def]
  show ?thesis
  proof (cases "ap_main s")
    case Main_Exiting
    with step inv have "s' = s\<lparr>ap_main := Main_Terminating\<rparr>" by (auto simp: live_table_def)
    with inv Main_Exiting show ?thesis by (simp add: lifecycle_safe_def)
  next
    case (Main_Running c)
    with step inv have "s' = s\<lparr>ap_main := Main_Exiting\<rparr>" by simp
    with inv Main_Running show ?thesis by (simp add: lifecycle_safe_def)
  next
    case Main_Joining
    show ?thesis
    proof (cases "ap_poll s = Poll_Done")
      case True
      with step Main_Joining have "s' = s\<lparr>ap_main := Main_Destroying\<rparr>" by simp
      with inv Main_Joining True show ?thesis by (simp add: lifecycle_safe_def)
    next
      case False
      with step inv Main_Joining have "s' = s" by (cases "ap_poll s") simp_all
      with assms(1) show ?thesis by simp
    qed
  next
    case Main_Destroying
    with step have "s' = s\<lparr>ap_table := None, ap_main := Main_Ended\<rparr>" by (auto simp: bind_run_Inr_iff)
    moreover have "ap_poll s = Poll_Done" "attempts_ok Poll_Done (ap_attempts s)" using inv Main_Destroying by auto
    ultimately show ?thesis using inv Main_Destroying by (simp add: lifecycle_safe_def)
  next
    case Main_Testing
    with step have "s' = s\<lparr>ap_main := if ap_status s = 0 then Main_Blocking else Main_Running 0\<rparr>" by simp
    with inv Main_Testing show ?thesis by (cases "ap_status s = 0") (simp_all add: lifecycle_safe_def)
  next
    case Main_Blocking
    with step have "s' = s\<lparr>ap_main := Main_Waiting\<rparr>" by simp
    with inv Main_Blocking show ?thesis by (simp add: lifecycle_safe_def)
  next
    case Main_Woken
    with step have "s' = s\<lparr>ap_main := Main_Running 0\<rparr>" by simp
    with inv Main_Woken show ?thesis by (simp add: lifecycle_safe_def)
  next
    case Main_Terminating
    with step have "s' = s\<lparr>ap_force_exit := True, ap_main := Main_Joining\<rparr>" by simp
    with inv Main_Terminating show ?thesis by (simp add: lifecycle_safe_def)
  qed (use step assms(1) in simp_all)
qed

lemma poll_step_safe:
  assumes "lifecycle_safe s" and "poll_step input s = Inr s'"
  shows "lifecycle_safe s'"
proof (cases "\<exists>flag env buf. ap_poll s = Poll_Serving flag \<and> input = Message env buf")
  case True
  then obtain flag env buf where "ap_poll s = Poll_Serving flag" "on_message env buf s = Inr s'"
    using assms(2) by (auto simp: poll_step_def)
  from on_message_fields [OF this(2)] this(1) assms(1) show ?thesis by (simp add: lifecycle_safe_def)
next
  case False
  note inv = assms(1) [unfolded lifecycle_safe_def] and step = assms(2) [unfolded poll_step_def]
  show ?thesis
  proof (cases "ap_poll s")
    case Poll_Starting
    with inv obtain t where "ap_table s = Some t" "is_attestator_number_set t"
      by (cases "ap_table s") auto
    with Poll_Starting step have "s' = s\<lparr>ap_poll := Poll_Connecting 0\<rparr>"
      by (simp add: live_table_def ra_get_attestator_number_def)
    with inv Poll_Starting show ?thesis by (simp add: lifecycle_safe_def)
  next
    case (Poll_Serving flag)
    with False step have "s' = s\<lparr>ap_poll := if flag then Poll_Looping True else Poll_Publishing\<rparr>"
      by (cases input) simp_all
    with inv Poll_Serving show ?thesis by (cases flag) (simp_all add: lifecycle_safe_def)
  qed (use inv step in \<open>auto simp: lifecycle_safe_def Let_def split: if_splits\<close>)
qed

lemma any_step_safe: "attestator_any_step s s' \<Longrightarrow> lifecycle_safe s \<Longrightarrow> lifecycle_safe s'"
proof (induction rule: attestator_any_step.induct)
  case (signalled s s')
  then show ?case by (auto elim!: attestator_stepE intro: main_step_safe poll_step_safe)
next
  case (spurious s)
  then show ?case by (simp add: lifecycle_safe_def spurious_wakeup_def)
qed

lemma any_run_safe: "attestator_any_step\<^sup>*\<^sup>* s s' \<Longrightarrow> lifecycle_safe s \<Longrightarrow> lifecycle_safe s'"
  by (induction rule: rtranclp_induct) (auto intro: any_step_safe)

lemma init_state:
  assumes "attestator_init (Some t) True True = Inr s0" and "is_attestator_number_set t"
  shows "s0 = \<lparr>ap_table = Some t, ap_registered = True, ap_force_exit = False, ap_status = 0,
      ap_main = Main_Testing, ap_poll = Poll_Starting, ap_attempts = 0, ap_open = False, ap_sent = []\<rparr>"
  using assms by (simp add: attestator_init_def Let_def ra_get_attestator_number_def)

lemma spurious_return:
  assumes "attestator_init (Some t) True True = Inr s0" and "is_attestator_number_set t"
  shows "\<exists>s. attestator_any_step\<^sup>*\<^sup>* s0 s \<and> ap_main s = Main_Running 0 \<and> ap_status s = 0 \<and> ap_attempts s = 0"
proof -
  note s0 = init_state [OF assms]
  let ?blocking = "s0\<lparr>ap_main := Main_Blocking\<rparr>" and ?waiting = "s0\<lparr>ap_main := Main_Waiting\<rparr>"
    and ?woken = "s0\<lparr>ap_main := Main_Woken\<rparr>" and ?running = "s0\<lparr>ap_main := Main_Running 0\<rparr>"
  have "main_step s0 = Inr ?blocking" "main_step ?blocking = Inr ?waiting" "main_step ?woken = Inr ?running"
    by (simp_all add: main_step_def s0)
  then have steps: "attestator_any_step s0 ?blocking" "attestator_any_step ?blocking ?waiting"
    "attestator_any_step ?woken ?running"
    by (blast intro: signalled attestator_step.main)+
  have "attestator_any_step ?waiting ?woken"
    using spurious [of ?waiting] by (simp add: spurious_wakeup_def s0)
  with steps have "attestator_any_step\<^sup>*\<^sup>* s0 ?running"
    by (meson r_into_rtranclp rtranclp_trans)
  then show ?thesis by (rule exI [of _ ?running, OF conjI]) (simp add: s0)
qed

text \<open>C11: Whatever the order of the steps and the messages, once the thread was created, with waits that
  may return without a signal: the table is destroyed only after the polling thread ended, with no step
  left that reads it; at most eleven connections are attempted; and a connection stays open at the end
  only if the eleventh attempt delivered it, which the polling thread takes for a failure. When waits
  return only on a signal, \<^verbatim>\<open>attestator_init\<close> returns only once the polling thread has decided the status,
  and the shutdown flag is never set while the thread connects. A wait that returns without a signal
  breaks this: there is a run in which \<^verbatim>\<open>attestator_init\<close> returns 0 before the first attempt to connect.\<close>

theorem attestator_lifecycle:
  assumes "attestator_init (Some t) True True = Inr s0" and "is_attestator_number_set t"
  shows "(\<forall>s. attestator_any_step\<^sup>*\<^sup>* s0 s \<longrightarrow>
        (ap_table s = None \<longrightarrow> ap_main s = Main_Ended \<and> ap_poll s = Poll_Done)
      \<and> ap_attempts s \<le> Suc MAX_CONNECTION_RETRY
      \<and> (ap_poll s = Poll_Done \<and> ap_open s \<longrightarrow> ap_attempts s = Suc MAX_CONNECTION_RETRY))
     \<and> (\<forall>s. attestator_step\<^sup>*\<^sup>* s0 s \<longrightarrow>
        (init_returned (ap_main s) \<longrightarrow> ap_status s \<noteq> 0) \<and> (ap_force_exit s \<longrightarrow> \<not> status_pending (ap_poll s)))
     \<and> (\<exists>s. attestator_any_step\<^sup>*\<^sup>* s0 s \<and> ap_main s = Main_Running 0 \<and> ap_status s = 0 \<and> ap_attempts s = 0)"
proof (intro conjI allI impI)
  note start = lifecycle_start [OF assms]
  fix s
  assume run: "attestator_any_step\<^sup>*\<^sup>* s0 s"
  then have ok: "lifecycle_safe s" using any_run_safe lifecycle_ok_safe [OF start] by blast
  then show "ap_main s = Main_Ended" "ap_poll s = Poll_Done" if "ap_table s = None"
    using that by (auto simp: lifecycle_safe_def)
  show "ap_attempts s \<le> Suc MAX_CONNECTION_RETRY"
    using ok by (cases "ap_poll s") (simp_all add: lifecycle_safe_def)
  show "ap_attempts s = Suc MAX_CONNECTION_RETRY" if "ap_poll s = Poll_Done \<and> ap_open s"
    using ok that by (auto simp: lifecycle_safe_def)
next
  fix s
  assume "attestator_step\<^sup>*\<^sup>* s0 s"
  then have ok: "lifecycle_ok s" using attestator_run_ok lifecycle_start [OF assms] by blast
  show "ap_status s \<noteq> 0" if "init_returned (ap_main s)"
    using ok that unfolding lifecycle_ok_def by blast
  show "\<not> status_pending (ap_poll s)" if "ap_force_exit s"
  proof -
    have "ap_main s \<in> {Main_Joining, Main_Destroying, Main_Ended}" using ok that by (simp add: lifecycle_ok_def)
    then have "init_returned (ap_main s)" by (auto simp: init_returned_def)
    then have "ap_status s \<noteq> 0" using ok unfolding lifecycle_ok_def by blast
    moreover have "ap_status s = 0 \<longleftrightarrow> status_pending (ap_poll s)" using ok unfolding lifecycle_ok_def by blast
    ultimately show ?thesis by blast
  qed
next
  show "\<exists>s. attestator_any_step\<^sup>*\<^sup>* s0 s \<and> ap_main s = Main_Running 0 \<and> ap_status s = 0 \<and> ap_attempts s = 0"
    by (rule spurious_return [OF assms])
qed

lemma sample_number_set: "is_attestator_number_set sample_table"
  by (simp add: sample_table_def table_of_def blank_table_def)

lemma sample_init: "\<exists>s0. attestator_init (Some sample_table) True True = Inr s0"
  by (simp add: attestator_init_def Let_def ra_get_attestator_number_def sample_number_set)

theorem attestator_lifecycle_witness:
  "\<exists>s0. attestator_init (Some sample_table) True True = Inr s0
     \<and> (\<forall>s. attestator_any_step\<^sup>*\<^sup>* s0 s \<longrightarrow> ap_attempts s \<le> 11)
     \<and> (\<exists>s. attestator_any_step\<^sup>*\<^sup>* s0 s \<and> ap_main s = Main_Running 0 \<and> ap_status s = 0)"
proof -
  obtain s0 where s0: "attestator_init (Some sample_table) True True = Inr s0" using sample_init by blast
  from attestator_lifecycle [OF s0 sample_number_set]
  have "\<forall>s. attestator_any_step\<^sup>*\<^sup>* s0 s \<longrightarrow> ap_attempts s \<le> 11"
    "\<exists>s. attestator_any_step\<^sup>*\<^sup>* s0 s \<and> ap_main s = Main_Running 0 \<and> ap_status s = 0"
    by (auto simp: MAX_CONNECTION_RETRY_def)
  with s0 show ?thesis by blast
qed

definition asleep :: "att_process \<Rightarrow> bool" where
  "asleep s \<longleftrightarrow> ap_main s = Main_Waiting \<and> \<not> ap_force_exit s \<and> ap_poll s \<in> {Poll_Looping True, Poll_Serving True}"

lemma asleep_step:
  assumes "attestator_step s s'" and "asleep s"
  shows "asleep s'"
  using assms(1)
proof (cases rule: attestator_step.cases)
  case main
  then show ?thesis using assms(2) by (auto simp: asleep_def main_step_def)
next
  case (poll input)
  show ?thesis
  proof (cases "ap_poll s = Poll_Looping True")
    case True
    with poll assms(2) have "s' = s\<lparr>ap_poll := Poll_Serving True\<rparr>" by (simp add: asleep_def poll_step_def)
    with assms(2) show ?thesis by (simp add: asleep_def)
  next
    case False
    with assms(2) have serving: "ap_poll s = Poll_Serving True" by (simp add: asleep_def)
    show ?thesis
    proof (cases "\<exists>env buf. input = Message env buf")
      case True
      with poll serving obtain env buf where "on_message env buf s = Inr s'" by (auto simp: poll_step_def)
      from on_message_fields [OF this] assms(2) show ?thesis by (simp add: asleep_def)
    next
      case False
      with poll serving have "s' = s\<lparr>ap_poll := Poll_Looping True\<rparr>"
        by (cases input) (simp_all add: poll_step_def)
      with assms(2) show ?thesis by (simp add: asleep_def)
    qed
  qed
qed

lemma asleep_run: "attestator_step\<^sup>*\<^sup>* s s' \<Longrightarrow> asleep s \<Longrightarrow> asleep s'"
  by (induction rule: rtranclp_induct) (auto intro: asleep_step)

text \<open>C38: The test of the status in \<^verbatim>\<open>attestator_init\<close> and the wait are not one critical section. When
  the polling thread connects and signals between the two, the signal is lost: there is a state with
  the attestator connected and serving from which, in every run in which waits return only on a signal,
  the main thread stays in \<^verbatim>\<open>pthread_cond_wait\<close> and the application never starts.\<close>

theorem attestator_lost_wakeup:
  assumes "attestator_init (Some t) True True = Inr s0" and "is_attestator_number_set t"
  shows "\<exists>s. attestator_step\<^sup>*\<^sup>* s0 s \<and> ap_status s = 1 \<and> ap_open s
     \<and> (\<forall>s'. attestator_step\<^sup>*\<^sup>* s s' \<longrightarrow> ap_main s' = Main_Waiting)"
proof -
  note s0 = init_state [OF assms]
  define s1 where "s1 = s0\<lparr>ap_main := Main_Blocking\<rparr>"
  define s2 where "s2 = s1\<lparr>ap_poll := Poll_Connecting 0\<rparr>"
  define s3 where "s3 = s2\<lparr>ap_attempts := 1, ap_open := True, ap_poll := Poll_Looping False\<rparr>"
  define s4 where "s4 = s3\<lparr>ap_poll := Poll_Serving False\<rparr>"
  define s5 where "s5 = s4\<lparr>ap_poll := Poll_Publishing\<rparr>"
  define s6 where "s6 = (publish 1 s5)\<lparr>ap_poll := Poll_Looping True\<rparr>"
  define s7 where "s7 = s6\<lparr>ap_main := Main_Waiting\<rparr>"
  note defs = s7_def s6_def s5_def s4_def s3_def s2_def s1_def s0
  note eval = main_step_def poll_step_def live_table_def ra_get_attestator_number_def MAX_CONNECTION_RETRY_def publish_def
  have m1: "main_step s0 = Inr s1" by (simp add: s1_def s0 eval)
  have p2: "poll_step Serviced s1 = Inr s2" using assms(2) by (simp add: s2_def s1_def s0 eval)
  have p3: "poll_step (Connected True) s2 = Inr s3" by (simp add: s3_def s2_def s1_def s0 eval Let_def)
  have p4: "poll_step Serviced s3 = Inr s4" by (simp add: defs eval)
  have p5: "poll_step Serviced s4 = Inr s5" by (simp add: defs eval)
  have p6: "poll_step Serviced s5 = Inr s6" by (simp add: defs eval)
  have m7: "main_step s6 = Inr s7" by (simp add: defs eval)
  have run: "attestator_step\<^sup>*\<^sup>* s0 s7"
    by (rule converse_rtranclp_into_rtranclp [OF attestator_step.main [OF m1] converse_rtranclp_into_rtranclp [OF attestator_step.poll [OF p2]
        converse_rtranclp_into_rtranclp [OF attestator_step.poll [OF p3] converse_rtranclp_into_rtranclp [OF attestator_step.poll [OF p4]
        converse_rtranclp_into_rtranclp [OF attestator_step.poll [OF p5] converse_rtranclp_into_rtranclp [OF attestator_step.poll [OF p6]
        r_into_rtranclp [of attestator_step, OF attestator_step.main [OF m7]]]]]]]])
  have "asleep s7" "ap_status s7 = 1" "ap_open s7" by (simp_all add: defs asleep_def publish_def)
  moreover have "\<forall>s'. attestator_step\<^sup>*\<^sup>* s7 s' \<longrightarrow> ap_main s' = Main_Waiting"
    using asleep_run [OF _ \<open>asleep s7\<close>] by (simp add: asleep_def)
  ultimately show ?thesis using run by blast
qed

theorem attestator_lost_wakeup_witness:
  "\<exists>s0 s. attestator_init (Some sample_table) True True = Inr s0 \<and> attestator_step\<^sup>*\<^sup>* s0 s \<and> ap_status s = 1
     \<and> (\<forall>s'. attestator_step\<^sup>*\<^sup>* s s' \<longrightarrow> ap_main s' = Main_Waiting)"
proof -
  obtain s0 where s0: "attestator_init (Some sample_table) True True = Inr s0" using sample_init by blast
  from attestator_lost_wakeup [OF s0 sample_number_set] s0 show ?thesis by blast
qed

lemma destroy_table_ok:
  assumes "table_ok t ars"
  shows "ra_destroy_table (Some t) = Inr ()"
proof -
  obtain ws where ws: "dll_walk (table_areas t) = (ws, None)" "map snd ws = ars"
    using table_ok_walk [OF assms] by blast
  have "destroy_areas_loop (ws, None) = Inr ()" if "\<forall>(p, a)\<in>set ws. \<exists>bs. area_ok a bs" for ws
    using that
  proof (induction ws)
    case (Cons w ws)
    obtain p a where w: "w = (p, a)" by (cases w)
    with Cons.prems obtain bs where "area_ok a bs" by auto
    then have "ra_mA_destroy (Some a) = Inr ()" using dll_walk_list(2) by (fastforce simp: ra_mA_destroy_def area_ok_def)
    with Cons w show ?case by simp
  qed simp
  moreover have "\<forall>(p, a)\<in>set ws. \<exists>bs. area_ok a bs" using assms ws(2) by (force simp: table_ok_def)
  ultimately show ?thesis using ws(1) by (simp add: ra_destroy_table_def)
qed

text \<open>When the polling thread cannot be created, \<^verbatim>\<open>attestator_init\<close> destroys the table and returns 1
  with \<^verbatim>\<open>attestator_deinit\<close> still registered: the exit of the application reads the destroyed table.\<close>

theorem attestator_create_failure:
  assumes "ra_destroy_table (Some t) = Inr ()" and "is_attestator_number_set t"
  shows "\<exists>s s'. attestator_init (Some t) True False = Inr s \<and> ap_main s = Main_Running 1
     \<and> main_step s = Inr s' \<and> main_step s' = Inl Use_After_Free"
  using assms by (simp add: attestator_init_def Let_def ra_get_attestator_number_def main_step_def live_table_def)

theorem attestator_create_failure_witness:
  "\<exists>s s'. attestator_init (Some sample_table) True False = Inr s \<and> ap_main s = Main_Running 1
     \<and> main_step s = Inr s' \<and> main_step s' = Inl Use_After_Free"
  by (rule attestator_create_failure [OF destroy_table_ok [OF sample_table_ok] sample_number_set])

end
