(* ===== verification/Blocks.thy ===== *)
theory Blocks
  imports Protocol Goldbach Blake2s
begin

text \<open>
  The blocks that an application is built from, by what the attestator and the verifier need of them:
  a preparation that yields the same bytes wherever its uninitialised memory comes from, and a hash
  that is a digest of the message. An exchange between attestator and verifier is judged on these
  contracts alone, for every combination of blocks; then for the goldbach preparation with BLAKE2s.
\<close>

section \<open>Contracts\<close>

text \<open>\<open>prepare mem base\<close> is \<^verbatim>\<open>ra_prepare_data\<close> on the code in the memory \<open>mem\<close>; on the tables that are
  \<open>ready\<close> it stores the bytes \<open>prepared mem base\<close>.\<close>

locale preparation_block =
  fixes prepare :: "memory \<Rightarrow> u64 \<Rightarrow> ra_table \<Rightarrow> (ra_table \<times> ra_result) run"
    and ready :: "ra_table \<Rightarrow> bool"
    and prepared :: "memory \<Rightarrow> u64 \<Rightarrow> ra_table \<Rightarrow> u8 list"
  assumes prepare_ok: "ready t \<Longrightarrow> prepare mem base t =
        Inr (t\<lparr>prepared_data := Some (prepared mem base t),
               prepared_data_size := of_nat (length (prepared mem base t))\<rparr>, RA_SUCCESS)"
    and prepared_size: "ready t \<Longrightarrow> length (prepared mem base t) = length (prepared mem' base' t)"

locale hash_block =
  fixes hash :: hasher and D :: digest and n :: nat
  assumes hash_ok: "hash_inputs_ok nonce ns data ds AID \<Longrightarrow>
        hash (Some nonce) ns (Some data) ds (Some AID) number p =
        Inr ((Some (D (hash_message nonce data AID number)), of_nat n), RA_SUCCESS)"
    and digest_size: "length (D m) = n"
    and size_fits: "n < 2 ^ 32"

text \<open>Any digest with its length makes a hash block, by the routine the versions share.\<close>

locale digest_library =
  fixes D :: digest and n :: nat
  assumes digest: "digest_length n D" and fits: "n < 2 ^ 32"

lemma hash_block_of_digest:
  "digest_length n D \<Longrightarrow> n < 2 ^ 32 \<Longrightarrow> hash_block (do_hash_with n D True True) D n"
  by unfold_locales (simp_all add: do_hash_with_ok digest_length_def)

sublocale digest_library \<subseteq> hash_block "do_hash_with n D True True" D n
  by (rule hash_block_of_digest [OF digest fits])

section \<open>The exchange on the contracts\<close>

text \<open>The state of an application whose allocations succeed and whose identity is set.\<close>

definition application_ready :: "attest_env \<Rightarrow> ra_table \<Rightarrow> bool" where
  "application_ready env t \<longleftrightarrow>
     env_nonce_ok env \<and> env_walk_ok env \<and> env_data_ok env \<and> env_response_ok env
     \<and> is_AID_set t \<and> is_attestator_number_set t \<and> length (app_AID t) = AID_SIZE"

definition nonce_readable :: "decoder \<Rightarrow> ra_table \<Rightarrow> bool" where
  "nonce_readable decode t \<longleftrightarrow> (\<exists>info. \<forall>ret. decode t ret = Inr (info, RA_SUCCESS))"

locale attestation_blocks = preparation_block + hash_block
begin

text \<open>What the attestator sends, and what the verifier recomputes it from.\<close>

definition answer :: "ra_table \<Rightarrow> u8 list \<Rightarrow> u8 list \<Rightarrow> u8 list" where
  "answer t nonce data = D (hash_message nonce data (app_AID t) (app_attestator_number t))"

lemma length_answer [simp]: "length (answer t nonce data) = n"
  by (simp add: answer_def digest_size)

lemma hashed:
  assumes "length (app_AID t) = AID_SIZE" and "length nonce + length data + AID_SIZE < 2 ^ 32"
  shows "hash (Some nonce) (of_nat (length nonce)) (Some data) (of_nat (length data)) (Some (app_AID t))
      (app_attestator_number t) p = Inr ((Some (answer t nonce data), of_nat n), RA_SUCCESS)"
  unfolding answer_def
  by (rule hash_ok) (use assms in \<open>simp add: hash_inputs_ok_def unat_of_nat_u32\<close>)

lemma attestator_sends:
  assumes "application_ready env t" and "env_hash env = hash"
    and "nonce_readable (env_decode env) (with_nonce t nonce)" and "ready (with_nonce t nonce)"
    and "length nonce + length (prepared mem base (with_nonce t nonce)) + AID_SIZE < 2 ^ 32"
  shows "attestator_with (prepare mem base) env False (Some (request_message req_id nonce)) t =
     Inr ((with_nonce t nonce)\<lparr>prepared_data := None, prepared_data_size := 0\<rparr>,
          Some (response_message (app_AID t) (app_attestator_number t) req_id
                  (answer t nonce (prepared mem base (with_nonce t nonce)))))"
proof -
  obtain info where info: "\<forall>ret. env_decode env (with_nonce t nonce) ret = Inr (info, RA_SUCCESS)"
    using assms(3) by (auto simp: nonce_readable_def)
  have id: "is_AID_set t" "is_attestator_number_set t" "length (app_AID t) = AID_SIZE"
    and ok: "env_nonce_ok env" "env_response_ok env"
    using assms(1) by (simp_all add: application_ready_def)
  have nl: "length nonce < 2 ^ 32" using assms(5) by linarith
  have n: "n = unat (of_nat n :: u32)" using size_fits by (simp add: unat_of_nat_u32)
  from attestator_with_responds [of env t nonce info "prepare mem base", OF ok id nl info prepare_ok [OF assms(4), of mem base]
      hashed [OF id(3) assms(5), of "env_packed env", folded assms(2)], of req_id] n
  show ?thesis by (simp add: response_message_def)
qed

text \<open>
  The verifier judges an answer by whether it is the digest of the bytes the extractor prepared;
  the two sides agree on everything else that is hashed.
\<close>

lemma exchange_judged:
  assumes "application_ready env t" and "env_hash env = hash"
    and "nonce_readable (env_decode env) (with_nonce t nonce)" and "ready (with_nonce t nonce)"
    and "length nonce + length (prepared mem base (with_nonce t nonce)) + AID_SIZE < 2 ^ 32"
    and "prepare smem sbase (with_nonce t nonce) = Inr (ts, RA_SUCCESS)"
    and "db_data_to_verify db req_id = (stored_row nonce ts sent validity, RA_SUCCESS)"
  shows "\<exists>t' response.
     attestator_with (prepare mem base) env False (Some (request_message req_id nonce)) t = Inr (t', Some response)
     \<and> prepared_data t' = None
     \<and> verifier_main hash db app_id p True (verifier_input now response) =
        (let right = answer t nonce (prepared mem base (with_nonce t nonce))
               = answer t nonce (prepared smem sbase (with_nonce t nonce)) in
         Inr ((if right then []
               else [Set_Reaction_Status (db_application_id db (hex_string (app_AID t)) app_id)
                       REACTION_STATUS_COMPROMISED])
              @ [Finalize_Request req_id (verdict right now (stored_row nonce ts sent validity)) (ucast (now - sent))]))"
proof -
  let ?tn = "with_nonce t nonce"
  have AID: "length (app_AID t) = AID_SIZE" using assms(1) by (simp add: application_ready_def)
  have "ts = ?tn\<lparr>prepared_data := Some (prepared smem sbase ?tn),
      prepared_data_size := of_nat (length (prepared smem sbase ?tn))\<rparr>"
    using assms(6) prepare_ok [OF assms(4)] by simp
  moreover have "length nonce + length (prepared smem sbase ?tn) + AID_SIZE < 2 ^ 32"
    using assms(5) prepared_size [OF assms(4), of smem sbase mem base] by simp
  ultimately have row: "hashes_row hash (stored_row nonce ts sent validity) (app_AID t) (app_attestator_number t) p
      (answer t nonce (prepared smem sbase ?tn))"
    using hashed [OF AID] by (simp add: hashes_row_def stored_row_def)
  have "row_send_time (stored_row nonce ts sent validity) = sent" by (simp add: stored_row_def)
  then show ?thesis
    using attestator_sends [OF assms(1-5)] size_fits
      verifier_judges [OF AID _ assms(7) row, of "answer t nonce (prepared mem base ?tn)"]
    by (auto simp: Let_def)
qed

text \<open>Bytes that prepare alike are accepted: what the preparation does not show, nothing later does.\<close>

lemma alike_accepted:
  assumes "application_ready env t" and "env_hash env = hash"
    and "nonce_readable (env_decode env) (with_nonce t nonce)" and "ready (with_nonce t nonce)"
    and "length nonce + length (prepared mem base (with_nonce t nonce)) + AID_SIZE < 2 ^ 32"
    and "prepare smem sbase (with_nonce t nonce) = Inr (ts, RA_SUCCESS)"
    and "db_data_to_verify db req_id = (stored_row nonce ts sent validity, RA_SUCCESS)"
    and "prepared mem base (with_nonce t nonce) = prepared smem sbase (with_nonce t nonce)"
    and "difftime now sent < uint validity"
  shows "\<exists>t' response.
     attestator_with (prepare mem base) env False (Some (request_message req_id nonce)) t = Inr (t', Some response)
     \<and> verifier_main hash db app_id p True (verifier_input now response)
         = Inr [Finalize_Request req_id SUCCESS (ucast (now - sent))]"
  using exchange_judged [OF assms(1-7), of app_id p now] assms(8,9)
  by (auto simp: Let_def verdict_def stored_row_def)

end

section \<open>The blocks of the repository\<close>

text \<open>\<^verbatim>\<open>ra_data_preparation.c\<close> and \<^verbatim>\<open>ra_data_preparation_goldbach.c\<close>, for the nonce and areas that the
  table was decoded with.\<close>

interpretation walk_block: preparation_block
  "\<lambda>mem base. ra_prepare_data decode mm mem base garbage tmp True True"
  "\<lambda>t. decodable t ars nonce 3 \<and> walks_selected decode mm t ars nonce info"
  "\<lambda>mem base t. walked_bytes info (selected_code mem base t ars nonce)"
  for decode mm garbage tmp ars nonce info
  by unfold_locales (auto simp: walks_selected_def walked_bytes_def)

lemma length_goldbach_bytes [simp]: "length (goldbach_bytes info w) = snd (halves info)"
  by (simp add: goldbach_bytes_def)

definition goldbach_reads :: "decoder \<Rightarrow> mod_mul \<Rightarrow> memory_area list \<Rightarrow> u8 list \<Rightarrow> decoded_info \<Rightarrow> ra_table \<Rightarrow> bool" where
  "goldbach_reads decode mm ars nonce info t \<longleftrightarrow>
     mod_mul_exact mm \<and> decodable t ars nonce 3 \<and> decodes_selected decode t ars nonce info \<and> goldbach_sized info"

interpretation goldbach_block: preparation_block
  "\<lambda>mem base. ra_prepare_data_goldbach decode mm mem base garbage pg tmp lt rt True True"
  "goldbach_reads decode mm ars nonce info"
  "\<lambda>mem base t. goldbach_bytes info (window info (selected_code mem base t ars nonce))"
  for decode mm garbage pg tmp lt rt ars nonce info
  by unfold_locales (auto simp: goldbach_reads_def intro: prepare_goldbach)

text \<open>\<^verbatim>\<open>ra_do_hash_blake2.c\<close> as attestator and verifier call it, without a key.\<close>

definition blake2_hasher :: hasher where
  "blake2_hasher nonce ns data ds AID number p =
     ra_do_hash_blake2 True True nonce ns data ds AID number None 0 p"

lemma blake2_hasher_with: "blake2_hasher = do_hash_with 32 (rfc_blake2s 32 []) True True"
  by (intro ext) (simp only: blake2_hasher_def ra_do_hash_blake2_with)

interpretation blake2_library: digest_library "rfc_blake2s 32 []" 32
  by unfold_locales (simp_all add: digest_length_def)

interpretation blake2_block: hash_block blake2_hasher "rfc_blake2s 32 []" 32
  unfolding blake2_hasher_with by (rule blake2_library.hash_block_axioms)

interpretation goldbach_blake2: attestation_blocks
  "\<lambda>mem base. ra_prepare_data_goldbach decode mm mem base garbage pg tmp lt rt True True"
  "goldbach_reads decode mm ars nonce info"
  "\<lambda>mem base t. goldbach_bytes info (window info (selected_code mem base t ars nonce))"
  blake2_hasher "rfc_blake2s 32 []" 32
  for decode mm garbage pg tmp lt rt ars nonce info ..

text \<open>The preparations with any digest of the library.\<close>

lemma walk_any_digest:
  assumes "digest_length n D" and "n < 2 ^ 32"
  shows "attestation_blocks (\<lambda>mem base. ra_prepare_data decode mm mem base garbage tmp True True)
     (\<lambda>t. decodable t ars nonce 3 \<and> walks_selected decode mm t ars nonce info)
     (\<lambda>mem base t. walked_bytes info (selected_code mem base t ars nonce))
     (do_hash_with n D True True) D n"
  by (intro attestation_blocks.intro walk_block.preparation_block_axioms hash_block_of_digest assms)

lemma goldbach_any_digest:
  assumes "digest_length n D" and "n < 2 ^ 32"
  shows "attestation_blocks (\<lambda>mem base. ra_prepare_data_goldbach decode mm mem base garbage pg tmp lt rt True True)
     (goldbach_reads decode mm ars nonce info)
     (\<lambda>mem base t. goldbach_bytes info (window info (selected_code mem base t ars nonce)))
     (do_hash_with n D True True) D n"
  by (intro attestation_blocks.intro goldbach_block.preparation_block_axioms hash_block_of_digest assms)

section \<open>Exchanges\<close>

text \<open>The routine when \<^verbatim>\<open>ra_data_preparation_goldbach.c\<close> is linked in; \<open>pg\<close>, \<open>lt\<close> and \<open>rt\<close> are the
  uninitialised variables of that version.\<close>

definition attestator_routine_goldbach ::
  "attest_env \<Rightarrow> decoded_info \<Rightarrow> u8 \<Rightarrow> u8 \<Rightarrow> bool \<Rightarrow> u8 list option \<Rightarrow> ra_table \<Rightarrow> (ra_table \<times> u8 list option) run" where
  "attestator_routine_goldbach env pg lt rt =
     attestator_with (ra_prepare_data_goldbach (env_decode env) (env_mod_mul env) (env_memory env) (env_base env)
       (env_info env) pg (env_tmp env) lt rt (env_walk_ok env) (env_data_ok env)) env"

definition goldbach_message :: "ra_table \<Rightarrow> u8 list \<Rightarrow> decoded_info \<Rightarrow> u8 list \<Rightarrow> u8 list" where
  "goldbach_message t nonce info w =
     hash_message nonce (goldbach_bytes info w) (app_AID t) (app_attestator_number t)"

lemma ready_parts:
  assumes "libraries_ok is_prime (env_mod_mul env) n D" and "attestator_ready is_prime n D env t ars nonce"
  shows "application_ready env t" and "env_hash env = do_hash_with n D True True"
    and "digest_length n D" and "n < 2 ^ 32" and "decodable (with_nonce t nonce) ars nonce 3"
    and "\<exists>info. decodes_selected (env_decode env) (with_nonce t nonce) ars nonce info"
    and "length nonce + unat (area_total_size (selected_area (with_nonce t nonce) ars nonce)) + AID_SIZE < 2 ^ 32"
  using assms decode_any_version [of is_prime "with_nonce t nonce" ars nonce "env_decode env"]
  by (simp_all add: application_ready_def attestator_ready_def libraries_ok_def)

lemma decodes_readable: "decodes_selected decode t ars nonce info \<Longrightarrow> nonce_readable decode t"
  unfolding nonce_readable_def decodes_selected_def by blast

lemma goldbach_ready:
  assumes "libraries_ok is_prime (env_mod_mul env) n D" and "attestator_ready is_prime n D env t ars nonce"
    and "env_decode env (with_nonce t nonce) ret = Inr (info, RA_SUCCESS)" and "goldbach_sized info"
  shows "goldbach_reads (env_decode env) (env_mod_mul env) ars nonce info (with_nonce t nonce)"
    and "nonce_readable (env_decode env) (with_nonce t nonce)"
    and "length nonce + length (goldbach_bytes info w) + AID_SIZE < 2 ^ 32"
proof -
  note parts = ready_parts [OF assms(1,2)]
  obtain info' where "decodes_selected (env_decode env) (with_nonce t nonce) ars nonce info'"
    using parts(6) by blast
  moreover from this assms(3) have "info' = info" by (simp add: decodes_selected_def)
  ultimately have d: "decodes_selected (env_decode env) (with_nonce t nonce) ars nonce info" by simp
  with parts(5) assms(1,4) show "goldbach_reads (env_decode env) (env_mod_mul env) ars nonce info (with_nonce t nonce)"
    by (simp add: goldbach_reads_def libraries_ok_def)
  show "nonce_readable (env_decode env) (with_nonce t nonce)" using d by (rule decodes_readable)
  have "unat (info_actual_size info) \<le> unat (area_total_size (selected_area (with_nonce t nonce) ars nonce))"
    using d by (auto simp: decodes_selected_def info_in_bounds_def)
  then have "snd (halves info) \<le> unat (area_total_size (selected_area (with_nonce t nonce) ars nonce))"
    using halves_split(3) [OF assms(4)] by linarith
  then show "length nonce + length (goldbach_bytes info w) + AID_SIZE < 2 ^ 32"
    using parts(7) by simp
qed

text \<open>The uninitialised variables of the extractor need not be those of the application.\<close>

lemma goldbach_exchange:
  assumes "libraries_ok is_prime (env_mod_mul env) n D" and "attestator_ready is_prime n D env t ars nonce"
    and "env_decode env (with_nonce t nonce) ret = Inr (info, RA_SUCCESS)" and "goldbach_sized info"
    and "ra_prepare_data_goldbach (env_decode env) (env_mod_mul env) smem sbase garbage spg tmp slt srt True True
           (with_nonce t nonce) = Inr (ts, RA_SUCCESS)"
    and "db_data_to_verify db req_id = (stored_row nonce ts sent validity, RA_SUCCESS)"
    and "sw = window info (selected_code smem sbase (with_nonce t nonce) ars nonce)"
    and "cw = window info (selected_code (env_memory env) (env_base env) (with_nonce t nonce) ars nonce)"
    and "right = (D (goldbach_message t nonce info cw) = D (goldbach_message t nonce info sw))"
  shows "\<exists>t' response.
     attestator_routine_goldbach env pg lt rt False (Some (request_message req_id nonce)) t = Inr (t', Some response)
     \<and> prepared_data t' = None
     \<and> verifier_main (do_hash_with n D True True) db app_id p True (verifier_input now response) =
         Inr ((if right then []
               else [Set_Reaction_Status (db_application_id db (hex_string (app_AID t)) app_id)
                       REACTION_STATUS_COMPROMISED])
              @ [Finalize_Request req_id (verdict right now (stored_row nonce ts sent validity)) (ucast (now - sent))])"
proof -
  let ?tn = "with_nonce t nonce"
  note parts = ready_parts [OF assms(1,2)] and reads = goldbach_ready [OF assms(1-4)]
  note blocks = goldbach_any_digest [OF parts(3,4), of "env_decode env" "env_mod_mul env" "env_info env" pg
      "env_tmp env" lt rt ars nonce info]
  have ok: "env_walk_ok env" "env_data_ok env" using parts(1) by (simp_all add: application_ready_def)
  have "ra_prepare_data_goldbach (env_decode env) (env_mod_mul env) smem sbase (env_info env) pg (env_tmp env) lt rt
      True True ?tn = Inr (ts, RA_SUCCESS)"
    using assms(5) goldbach_block.prepare_ok [OF reads(1)] by simp
  from attestation_blocks.exchange_judged [OF blocks parts(1,2) reads(2,1,3) this assms(6),
    where app_id = app_id and p = p and now = now]
  show ?thesis
    by (simp only: attestation_blocks.answer_def [OF blocks] attestator_routine_goldbach_def ok assms(7-9)
        goldbach_message_def Let_def)
qed

section \<open>A concrete application\<close>

text \<open>The sample application with other blocks and other code in memory.\<close>

definition built_env :: "decoder \<Rightarrow> digest \<Rightarrow> (u64 \<times> u8) list \<Rightarrow> attest_env" where
  "built_env decode D ps =
     (sample_env (patched ps))\<lparr>env_decode := decode, env_hash := do_hash_with 32 D True True\<rparr>"

lemma built_env_simps [simp]:
  "env_decode (built_env decode D ps) = decode" "env_mod_mul (built_env decode D ps) = exact_mod_mul"
  "env_memory (built_env decode D ps) = patched ps" "env_base (built_env decode D ps) = 0"
  by (simp_all add: built_env_def sample_env_def)

lemma built_env_ready:
  assumes "decode \<in> built_versions exact_test"
  shows "attestator_ready exact_test 32 D (built_env decode D ps) sample_table [sample_area] sample_nonce"
  using sample_ready [of "patched ps"] assms by (simp add: attestator_ready_def built_env_def sample_env_def)

lemma built_libraries:
  "digest_length 32 D \<Longrightarrow> libraries_ok exact_test (env_mod_mul (built_env decode D ps)) 32 D"
  by (simp add: libraries_ok_def)

lemma blake2_digest [simp]: "digest_length 32 (rfc_blake2s 32 [])"
  by (simp add: digest_length_def)

lemma sample_versions [simp]:
  "decode_nonce_4 exact_test True True \<in> built_versions exact_test"
  "decode_nonce_2 exact_test True True \<in> built_versions exact_test"
  by (simp_all add: built_versions_def)

lemma sample_goldbach_runs:
  "\<exists>ts. ra_prepare_data_goldbach (decode_nonce_4 exact_test True True) exact_mod_mul (patched ps) 0 blank_info
     blank_info (\<lambda>_. 0) 0 0 True True sample_table = Inr (ts, RA_SUCCESS)"
  using prepare_goldbach [OF exact_mod_mul_exact sample_decodable [of 3] sample_decodes sample_halves(1)] by simp

lemma sample_decoded_eq [simp]:
  "decode_nonce_4 exact_test True True sample_table ret = Inr (sample_decoded, RA_SUCCESS)"
  using sample_decodes by (simp add: decodes_selected_def)

section \<open>Properties\<close>



text \<open>C14: Blindness with the goldbach preparation. When the table splits the window in equal halves,
  code in which byte j is raised by what byte l + j is lowered, in any amount and any place, is accepted
  as unchanged: no nonce version and no digest makes up for it, and the application is not marked.\<close>

theorem goldbach_tampering_accepted:
  assumes "libraries_ok is_prime (env_mod_mul env) n D" and "attestator_ready is_prime n D env t ars nonce"
    and "env_decode env (with_nonce t nonce) ret = Inr (info, RA_SUCCESS)" and "goldbach_sized info"
    and "halves info = (l, l)" and "j < l"
    and "ra_prepare_data_goldbach (env_decode env) (env_mod_mul env) mem base garbage spg tmp slt srt True True
           (with_nonce t nonce) = Inr (ts, RA_SUCCESS)"
    and "db_data_to_verify db req_id = (stored_row nonce ts sent validity, RA_SUCCESS)"
    and "w = window info (selected_code mem base (with_nonce t nonce) ars nonce)"
    and "window info (selected_code (env_memory env) (env_base env) (with_nonce t nonce) ars nonce)
           = w[j := w ! j + d, l + j := w ! (l + j) - d]"
    and "difftime now sent < uint validity"
  shows "\<exists>t' response.
     attestator_routine_goldbach env pg lt rt False (Some (request_message req_id nonce)) t = Inr (t', Some response)
     \<and> verifier_main (do_hash_with n D True True) db app_id p True (verifier_input now response)
         = Inr [Finalize_Request req_id SUCCESS (ucast (now - sent))]"
proof -
  let ?w = "w[j := w ! j + d, l + j := w ! (l + j) - d]"
  have "decodes_selected (env_decode env) (with_nonce t nonce) ars nonce info"
    using goldbach_ready(1) [OF assms(1-4)] by (simp add: goldbach_reads_def)
  from window_length [OF ready_parts(5) [OF assms(1,2)] this, of mem base]
  have "l + l \<le> length w"
    using halves_split(3) [OF assms(4)] by (simp add: assms(5,9))
  from goldbach_bytes_blind [OF assms(4-6) this, of d]
  have "True = (D (goldbach_message t nonce info ?w) = D (goldbach_message t nonce info w))"
    by (simp add: goldbach_message_def)
  from goldbach_exchange [OF assms(1-4,7,8,9) assms(10) [symmetric] this, of pg lt rt app_id p now]
  show ?thesis using assms(11) by (auto simp: verdict_def stored_row_def)
qed

theorem goldbach_tampering_accepted_witness:
  "\<exists>row t' response.
     attestator_routine_goldbach (built_env (decode_nonce_4 exact_test True True) (rfc_blake2s 32 [])
         [(0x1000, 1), (0x2001, 0)]) blank_info 0 0 False (Some (request_message 4 sample_nonce)) sample_table
       = Inr (t', Some response)
     \<and> verifier_main blake2_hasher (one_row_db 4 row) 0 (None, 0) True (verifier_input 105 response)
         = Inr [Finalize_Request 4 SUCCESS (ucast (105 - 100 :: u64))]"
proof -
  let ?env = "built_env (decode_nonce_4 exact_test True True) (rfc_blake2s 32 []) [(0x1000, 1), (0x2001, 0)]"
  let ?w = "map (patched []) [0x1000, 0x1001, 0x2000, 0x2001, 0x2002, 0x3000, 0x3001]"
  obtain ts where ts: "ra_prepare_data_goldbach (env_decode ?env) (env_mod_mul ?env) (patched []) 0 blank_info blank_info
      (\<lambda>_. 0) 0 0 True True (with_nonce sample_table sample_nonce) = Inr (ts, RA_SUCCESS)"
    using sample_goldbach_runs [of "[]"] by auto
  have ready: "attestator_ready exact_test 32 (rfc_blake2s 32 []) ?env sample_table [sample_area] sample_nonce"
    by (simp add: built_env_ready)
  have decoded: "env_decode ?env (with_nonce sample_table sample_nonce) blank_info = Inr (sample_decoded, RA_SUCCESS)"
    by simp
  have row: "db_data_to_verify (one_row_db 4 (stored_row sample_nonce ts 100 10)) 4
      = (stored_row sample_nonce ts 100 10, RA_SUCCESS)" by simp
  have w: "?w = window sample_decoded (selected_code (patched []) 0 (with_nonce sample_table sample_nonce) [sample_area] sample_nonce)"
    by (simp add: sample_window)
  have changed: "window sample_decoded (selected_code (env_memory ?env) (env_base ?env)
      (with_nonce sample_table sample_nonce) [sample_area] sample_nonce)
      = ?w[0 := ?w ! 0 + 1, 3 + 0 := ?w ! (3 + 0) - 1]"
    unfolding built_env_simps with_nonce_sample sample_window by (simp add: patched_def)
  have lib: "libraries_ok exact_test (env_mod_mul ?env) 32 (rfc_blake2s 32 [])"
    by (rule built_libraries [OF blake2_digest])
  have "(0 :: nat) < 3" "difftime 105 100 < uint (10 :: u16)" by (simp_all add: difftime_def)
  from goldbach_tampering_accepted [OF lib ready decoded sample_halves this(1) ts row w changed this(2),
      of blank_info 0 0 0 "(None, 0)"]
  show ?thesis unfolding blake2_hasher_with by blast
qed

text \<open>C28: Blindness of nonce versions 2 and 3. When the size of the selected area is a prime number,
  running code that agrees with the prepared code in the first byte of the area is accepted as
  unchanged, whatever its other bytes are.\<close>

theorem prime_area_tampering_accepted:
  assumes "libraries_ok is_prime (env_mod_mul env) n D" and "attestator_ready is_prime n D env t ars nonce"
    and "env_decode env \<in> {decode_nonce_2 is_prime True True, decode_nonce_3 is_prime True True}"
    and "is_prime_number (uint (area_total_size (selected_area (with_nonce t nonce) ars nonce)))"
    and "ra_prepare_data (env_decode env) (env_mod_mul env) mem base (env_info env) (env_tmp env) True True
           (with_nonce t nonce) = Inr (ts, RA_SUCCESS)"
    and "db_data_to_verify db req_id = (stored_row nonce ts sent validity, RA_SUCCESS)"
    and "hd (selected_code mem base (with_nonce t nonce) ars nonce)
           = hd (selected_code (env_memory env) (env_base env) (with_nonce t nonce) ars nonce)"
    and "difftime now sent < uint validity"
  shows "\<exists>t' response.
     attestator_routine env False (Some (request_message req_id nonce)) t = Inr (t', Some response)
     \<and> verifier_main (do_hash_with n D True True) db app_id p True (verifier_input now response)
         = Inr [Finalize_Request req_id SUCCESS (ucast (now - sent))]"
proof -
  let ?tn = "with_nonce t nonce"
  note parts = ready_parts [OF assms(1,2)]
  have ok: "env_walk_ok env" "env_data_ok env" using parts(1) by (simp_all add: application_ready_def)
  have lib: "prime_test_exact is_prime" "mod_mul_exact (env_mod_mul env)"
    using assms(1) by (simp_all add: libraries_ok_def)
  have "decodable ?tn ars nonce 2" using parts(5) by (rule decodable_mono) simp
  then obtain info where w: "walks_selected (env_decode env) (env_mod_mul env) ?tn ars nonce info"
    and same: "walked_bytes info (selected_code (env_memory env) (env_base env) ?tn ars nonce)
        = walked_bytes info (selected_code mem base ?tn ars nonce)"
    using prime_size_walked [OF lib _ assms(4,3)] assms(7) by fastforce
  note blocks = walk_any_digest [OF parts(3,4), of "env_decode env" "env_mod_mul env" "env_info env" "env_tmp env"
      ars nonce info]
  have "unat (info_actual_size info) \<le> unat (area_total_size (selected_area ?tn ars nonce))"
    using w by (auto simp: walks_selected_def info_in_bounds_def)
  then have len: "length nonce + length (walked_bytes info (selected_code (env_memory env) (env_base env) ?tn ars nonce))
      + AID_SIZE < 2 ^ 32"
    using parts(7) by (simp add: walked_bytes_def)
  have readable: "nonce_readable (env_decode env) ?tn"
    using w unfolding nonce_readable_def walks_selected_def by blast
  from attestation_blocks.alike_accepted [OF blocks parts(1,2) readable conjI [OF parts(5) w] len assms(5,6) same assms(8),
      where app_id = app_id and p = p]
  show ?thesis by (simp only: attestator_routine_def ok)
qed

theorem prime_area_tampering_accepted_witness:
  "\<exists>row t' response.
     attestator_routine (built_env (decode_nonce_2 exact_test True True) (rfc_blake2s 32 [])
         [(0x1001, 7), (0x2001, 9), (0x3000, 2)]) False (Some (request_message 4 sample_nonce)) sample_table
       = Inr (t', Some response)
     \<and> verifier_main blake2_hasher (one_row_db 4 row) 0 (None, 0) True (verifier_input 105 response)
         = Inr [Finalize_Request 4 SUCCESS (ucast (105 - 100 :: u64))]"
proof -
  let ?env = "built_env (decode_nonce_2 exact_test True True) (rfc_blake2s 32 []) [(0x1001, 7), (0x2001, 9), (0x3000, 2)]"
  have lib: "libraries_ok exact_test (env_mod_mul ?env) 32 (rfc_blake2s 32 [])"
    by (rule built_libraries [OF blake2_digest])
  have ready: "attestator_ready exact_test 32 (rfc_blake2s 32 []) ?env sample_table [sample_area] sample_nonce"
    by (simp add: built_env_ready)
  have version: "env_decode ?env \<in> {decode_nonce_2 exact_test True True, decode_nonce_3 exact_test True True}" by simp
  have prime: "is_prime_number (uint (area_total_size (selected_area (with_nonce sample_table sample_nonce)
      [sample_area] sample_nonce)))"
    using small_primes(2) by simp
  obtain ts where ts: "ra_prepare_data (env_decode ?env) (env_mod_mul ?env) (patched []) 0 (env_info ?env) (env_tmp ?env)
      True True (with_nonce sample_table sample_nonce) = Inr (ts, RA_SUCCESS)"
    using prepare_any_version [OF exact_test_exact exact_mod_mul_exact sample_decodable [of 3] sample_versions(2)]
    unfolding walks_selected_def by auto
  have row: "db_data_to_verify (one_row_db 4 (stored_row sample_nonce ts 100 10)) 4
      = (stored_row sample_nonce ts 100 10, RA_SUCCESS)" by simp
  have first: "hd (selected_code (patched []) 0 (with_nonce sample_table sample_nonce) [sample_area] sample_nonce)
      = hd (selected_code (env_memory ?env) (env_base ?env) (with_nonce sample_table sample_nonce) [sample_area] sample_nonce)"
    by (simp add: sample_code) (simp add: patched_def)
  have "difftime 105 100 < uint (10 :: u16)" by (simp add: difftime_def)
  from prime_area_tampering_accepted [OF lib ready version prime ts row first this, of 0 "(None, 0)"]
  show ?thesis unfolding blake2_hasher_with by blast
qed

end
