(* ===== verification/Replenish.thy ===== *)
theory Replenish
  imports Extractor Nonce_Use
begin

text \<open>
  The manager and the extractor together: a thread that finds few unused nonces for a client launches the
  extractor; what it passes on the command line is what the extractor reads, and the process leaves enough
  nonces for the next request.
\<close>

section \<open>The command line\<close>

lemma digits_padded: "\<forall>c\<in>set (pad_zeros k (show_nat n)). is_digit c"
  using show_nat_digits [of n] by (auto simp: pad_zeros_def is_digit_def)

lemma read_nat_padded [simp]: "read_nat (pad_zeros k (show_nat n)) = n"
proof -
  have "foldl (\<lambda>a c. 10 * a + digit_value c) 0 (replicate j CHR ''0'') = 0" for j
    by (induction j) (simp_all add: digit_value_def)
  then have "read_nat (replicate j CHR ''0'' @ s) = read_nat s" for j s by (simp add: read_nat_def)
  then show ?thesis by (simp add: pad_zeros_def)
qed

lemma padded_nonempty [simp]: "pad_zeros k (show_nat n) \<noteq> []"
  by (simp add: pad_zeros_def)

lemma scan_digits:
  assumes "ds \<noteq> []" and "\<forall>c\<in>set ds. is_digit c"
  shows "skip_space ds = ds" and "scan_integer ds = (Some (False, read_nat ds), [])"
    and "scan_integer (CHR ''-'' # ds) = (Some (True, read_nat ds), [])"
proof -
  obtain c cs where ds: "ds = c # cs" using assms(1) by (cases ds) auto
  with assms(2) digit_not_sign have sign: "scan_sign ds = (False, ds)" by (simp add: scan_sign_def)
  have minus: "scan_sign (CHR ''-'' # ds) = (True, ds)" by (simp add: scan_sign_def)
  have all: "takeWhile is_digit ds = ds" "dropWhile is_digit ds = []"
    using assms(2) by (simp_all add: takeWhile_eq_all_conv)
  show "skip_space ds = ds" using assms(2) skip_space_digit ds by simp
  show "scan_integer ds = (Some (False, read_nat ds), [])" "scan_integer (CHR ''-'' # ds) = (Some (True, read_nat ds), [])"
    using assms(1) by (simp_all add: scan_integer_def sign minus all Let_def)
qed

text \<open>\<^verbatim>\<open>%020PRId64\<close> is read back by \<^verbatim>\<open>SCNd64\<close>, also when the number is negative as a signed one.\<close>

lemma sscanf_padded: "sscanf_signed (show_padded_signed n) old = n"
proof (cases "sint n < 0")
  case True
  let ?ds = "pad_zeros 19 (show_nat (nat (- sint n)))"
  have "- (2 ^ 63) \<le> sint n" using sint_ge [of n] by simp
  moreover have "skip_space (CHR ''-'' # ?ds) = CHR ''-'' # ?ds"
    by (simp add: is_space_def)
  ultimately show ?thesis
    using True scan_digits(3) [of ?ds] digits_padded [of 19 "nat (- sint n)"]
    by (simp add: sscanf_signed_def show_padded_signed_def strtol_value_def)
next
  case False
  let ?ds = "pad_zeros 20 (show_nat (nat (sint n)))"
  have "sint n < 2 ^ 63" using sint_lt [of n] by simp
  then show ?thesis
    using False scan_digits(1,2) [of ?ds] digits_padded [of 20 "nat (sint n)"]
    by (simp add: sscanf_signed_def show_padded_signed_def strtol_value_def)
qed

lemma default_arguments:
  "sscanf_signed DEFAULT_NONCE_LENGTH old = (32 :: u32)" "atoi DEFAULT_NONCE_TOTAL = 100"
proof -
  have "\<forall>c\<in>set ''32''. is_digit c" "\<forall>c\<in>set ''100''. is_digit c" by (simp_all add: is_digit_def)
  from scan_digits(1,2) [OF _ this(1)] scan_digits(1,2) [OF _ this(2)]
  show "sscanf_signed DEFAULT_NONCE_LENGTH old = (32 :: u32)" "atoi DEFAULT_NONCE_TOTAL = 100"
    by (simp_all add: sscanf_signed_def atoi_def DEFAULT_NONCE_LENGTH_def DEFAULT_NONCE_TOTAL_def read_nat_def
        digit_value_def strtol_value_def)
qed

section \<open>The files\<close>

text \<open>
  The files of an attestator as the build leaves them in its directory: the attestation data structure
  of areas that are large enough for every version of nonce interpretation, and an executable with a
  text section. The process can map the section, allocate its buffers and reach the database.
\<close>

definition files_in_place :: "load_env \<Rightarrow> u8 list \<Rightarrow> u64 \<Rightarrow> (u16 \<times> memory_block list) list \<Rightarrow> bool" where
  "files_in_place L aid number es \<longleftrightarrow>
     length aid = AID_SIZE \<and> es \<noteq> [] \<and> length es < 2 ^ 16 \<and> distinct (map fst es)
     \<and> (\<forall>e\<in>set es. length (snd e) < 2 ^ 32 \<and> 3 \<le> blocks_size (snd e) \<and> 2 * blocks_size (snd e) + 1 < 2 ^ 32)
     \<and> (\<exists>rest. le_ads L (ads_path (hex_string aid) number) = Some (ads_image aid number es @ rest))
     \<and> (\<exists>exe filepos text_size. le_exe L (exe_path (hex_string aid) number) = Some exe
          \<and> le_bfd L exe = Bfd_Text filepos text_size \<and> filepos + text_size \<le> length exe)
     \<and> le_ads_read L \<and> le_parse L = [] \<and> le_image_ok L \<and> le_buffers_ok L \<and> le_mysql_ok L \<and> le_link L = link_up"

lemma loaded_table:
  assumes "files_in_place L aid number es"
  obtains t ars where "load_ads L (hex_string aid) number = Inr (Some t)" and "app_AID t = aid"
    and "extractor_ready t ars 32"
proof -
  have ok: "length aid = AID_SIZE" "length es < 2 ^ 16" "distinct (map fst es)" "\<forall>e\<in>set es. entry_ok e"
    using assms by (auto simp: files_in_place_def entry_ok_def)
  obtain rest where ads: "le_ads L (ads_path (hex_string aid) number) = Some (ads_image aid number es @ rest)"
    using assms by (auto simp: files_in_place_def)
  obtain t ars where t: "ra_parse_binary_ads (le_heap_block L) [] (Some (ads_image aid number es @ rest)) = Inr (Some t)"
    "table_ok t ars" "list_all2 area_is es ars" "app_AID t = aid"
    using parse_ads_image [OF ok, of "le_heap_block L" number rest] by blast
  have load: "load_ads L (hex_string aid) number = Inr (Some t)"
    using assms t(1,4) ads by (simp add: load_ads_def files_in_place_def ra_get_AID_as_string_def)
  have sizes: "3 \<le> unat (area_total_size a) \<and> 2 * unat (area_total_size a) + 1 < 2 ^ 32" if member: "a \<in> set ars" for a
  proof -
    obtain i where i: "i < length ars" "ars ! i = a" using member by (auto simp: in_set_conv_nth)
    then have "es ! i \<in> set es" "area_is (es ! i) a" using t(3) by (auto simp: list_all2_conv_all_nth)
    then show ?thesis using assms area_ok_total [of a "snd (es ! i)"] by (auto simp: files_in_place_def area_is_def)
  qed
  have "ars \<noteq> []" using assms t(3) by (auto simp: files_in_place_def)
  then have "decodable (with_nonce t nonce) ars nonce 3" if "length nonce = 32" for nonce
    using that sizes [OF selected_area_in] table_ok_with_nonce [OF t(2), of nonce]
    by (simp add: decodable_def nonce_in_def) (simp add: with_nonce_def unat_of_nat_u32)
  then have "extractor_ready t ars 32" using sizes by (simp add: extractor_ready_def)
  with load t(4) show thesis by (rule that)
qed

lemma loaded_text:
  assumes "files_in_place L aid number es"
  obtains code where "load_text L (hex_string aid) number = Inr (Some code)"
  using assms that by (auto simp: files_in_place_def load_text_def getTextSectionOffsetAndSize_def Let_def)

section \<open>The extractor the manager launches\<close>

text \<open>The arguments of the process: what the manager's \<^verbatim>\<open>execl\<close> hands over.\<close>

lemma launched_runs:
  assumes lib: "prime_test_exact is_prime" "mod_mul_exact mm" "decode \<in> built_versions is_prime"
    and files: "files_in_place L aid number es"
    and att: "select_attestators T (hex_string aid) number = (app, att) # others"
    and rows: "takes_rows T (att_id att) 32 100"
    and env: "\<forall>j. attempt_ok decode 32 (env j) \<and> xe_insert_ok (env j)"
    and argv: "argv = [EXTRACTOR_COMMAND, hex_string aid, show_padded_signed number, DEFAULT_NONCE_LENGTH, DEFAULT_NONCE_TOTAL]"
  obtains T' where "extractor_main mm L env argv T = Inr (T', 0)" and "db_ok T'" and "only_adds (att_id att) T T'"
    and "length (select_unused T' (att_id att)) = length (select_unused T (att_id att)) + 100"
proof -
  obtain t ars where t: "load_ads L (hex_string aid) number = Inr (Some t)" "app_AID t = aid" "extractor_ready t ars 32"
    using loaded_table [OF files] .
  obtain code where code: "load_text L (hex_string aid) number = Inr (Some code)"
    using loaded_text [OF files] .
  define S where "S = \<lparr>ex_table = t, ex_nonce = map (le_nonce L) [0..<32], ex_db = T,
     ex_extracted = 0, ex_errors = 0\<rparr>"
  have S: "ex_db S = T" "ex_extracted S = 0" "ex_errors S = 0" "extracting t 32 S"
    by (simp_all add: S_def extracting_start)
  let ?mem = "image_memory (le_memory L) (le_base L) code"
  have "takes_rows (ex_db S) (att_id att) 32 (100 - ex_extracted S)" "ex_extracted S \<le> 100"
    using rows by (simp_all add: S)
  from extract_loop_delivers [OF lib t(3) env S(4) this, of ?mem "le_base L" 0]
  obtain S' where S': "extract_loop mm ?mem (le_base L) env 0 (att_id att) 32 100 S = Inr S'"
    "ex_errors S' = ex_errors S" "db_ok (ex_db S')"
    and n: "int (length (select_unused (ex_db S') (att_id att)))
        = int (length (select_unused (ex_db S) (att_id att))) + (100 - ex_extracted S)"
    by blast
  have n: "length (select_unused (ex_db S') (att_id att)) = length (select_unused T (att_id att)) + 100"
    using n by (simp only: S)
  have L: "le_buffers_ok L" "le_mysql_ok L" "le_link L = link_up" "length (hex_string aid) = AID_SIZE * 2"
    using files by (simp_all add: files_in_place_def)
  have id: "ra_db_get_attestator_id link_up T (hex_string aid) number old = (att_id att, RA_SUCCESS)" for old
    using att by (simp add: ra_db_get_attestator_id_def connected_def)
  have "run_extraction mm L env argv number T t code = Inr (ex_db S', 0)"
    using S'(1,2) L id t(2) S(3)
    by (simp add: run_extraction_def argv default_arguments ra_get_AID_as_string_def S_def [symmetric]
        EXTRACTOR_MAX_ERROR_ALLOWED_def Let_def)
  then have "extractor_main mm L env argv T = Inr (ex_db S', 0)"
    using t(1) code L(4) by (simp add: extractor_main_def argv sscanf_padded Let_def)
  moreover have "only_adds (att_id att) T (ex_db S')" using extract_loop_only_adds [OF S'(1)] by (simp add: S)
  ultimately show thesis using S'(3) n by (intro that)
qed

section \<open>A concrete attestator\<close>

definition installed_load :: load_env where
  "installed_load = sample_load\<lparr>le_ads := (\<lambda>p. Some (ads_image sample_AID 0 sample_entries)),
     le_exe := (\<lambda>p. Some [1, 2, 3, 4]), le_bfd := (\<lambda>_. Bfd_Text 1 2)\<rparr>"

lemma installed_files: "files_in_place installed_load sample_AID 0 sample_entries"
proof -
  have sizes: "\<forall>e\<in>set sample_entries. length (snd e) < 2 ^ 32 \<and> 3 \<le> blocks_size (snd e) \<and> 2 * blocks_size (snd e) + 1 < 2 ^ 32"
    by (simp add: sample_entries_def sample_blocks_def)
  show ?thesis
    unfolding files_in_place_def using sizes
    by (simp add: installed_load_def sample_load_def) (simp add: sample_entries_def exI [of _ "[]"])
qed

definition installed_client :: ra_client where
  "installed_client = \<lparr>cl_AID = sample_AID, cl_attestator_number = 0, cl_attestator_id = 3,
     cl_sleep_avg_seconds = 10, cl_sleep_var_seconds = 1, cl_session_id = 1\<rparr>"

lemma installed_client_fields [simp]:
  "cl_AID installed_client = sample_AID" "RA_CLI_get_attestator_number installed_client = 0"
  "RA_CLI_get_attestator_id installed_client = 3" "RA_CLI_get_session_id installed_client = 1"
  by (simp_all add: installed_client_def RA_CLI_get_attestator_number_def RA_CLI_get_attestator_id_def
      RA_CLI_get_session_id_def)

definition installed_attempt :: attempt_env where
  "installed_attempt = sample_attempt\<lparr>xe_rand := (1, replicate 32 7)\<rparr>"

lemma installed_rows: "takes_rows (sample_tables [1, 2] [3]) 3 32 100"
  by (simp add: takes_rows_def) (simp add: sample_tables_def)

lemma installed_attestator:
  "select_attestators (sample_tables [1, 2] [3]) (hex_string sample_AID) 0
     = (\<lparr>app_row_id = 77, app_row_AID = hex_string sample_AID\<rparr>,
        \<lparr>att_id = 3, att_application = 77, att_number = 0, att_sleep_avg = 10, att_sleep_var = 1\<rparr>) # []"
  by (simp add: select_attestators_def sample_tables_def same_text_def)

section \<open>Properties\<close>

lemma few_nonces_launch:
  assumes "length (select_unused T (RA_CLI_get_attestator_id client)) < 10"
    and "sv_link senv = link_up" and "sv_malloc senv" and "sv_fork senv"
  shows "serve_client senv T client = Inr (T, [], launch_extractor True (hex_string (cl_AID client))
     (RA_CLI_get_attestator_number client), False)"
proof -
  let ?n = "length (select_unused T (RA_CLI_get_attestator_id client))"
  have "unat (of_nat ?n :: u32) = ?n" using assms(1) by (simp add: unat_of_nat_u32)
  then have "(of_nat ?n :: u32) < 10" using assms(1) by (simp add: word_less_nat_alt)
  then show ?thesis
    using assms(2-4)
    by (simp add: serve_client_def ra_db_get_valid_nonce_def connected_def Let_def NONCE_CRITICAL_THRESHOLD_def
        RA_CLI_get_AID_as_string_def)
qed

lemma many_nonces_request:
  assumes "enough_nonces T (RA_CLI_get_attestator_id client)" and "nonces_fit T"
    and "lookup_up senv" and "send_up (sv_send senv)"
    and "unat (RA_CLI_get_attestator_number client) < MAX_ATTESTATORS_ALLOWED"
    and "RA_CLI_get_session_id client \<in> set (map ses_id (sessions T))" and "next_request T < 2 ^ 64"
  shows "\<exists>p T'. p \<in> set (select_unused T (RA_CLI_get_attestator_id client))
     \<and> insert_request T (se_now (sv_send senv)) (pd_id p) (RA_CLI_get_session_id client) 1800 False = Some T'
     \<and> serve_client senv T client = Inr (T', [(RA_CLI_get_attestator_number client, hex_string (cl_AID client),
           request_message (of_nat (next_request T)) (pd_nonce p))], [], True)"
proof -
  let ?p = "sv_pick senv (select_unused T (RA_CLI_get_attestator_id client))"
  have p: "?p \<in> set (select_unused T (RA_CLI_get_attestator_id client))" using picked_unused [OF assms(3,1)] .
  then have row: "?p \<in> set (prepared T)" by (simp add: set_select_unused)
  then have "length (pd_nonce ?p) < 2 ^ 8" using assms(2) by (simp add: nonces_fit_def)
  then have size: "length (pd_nonce ?p) < 2 ^ 32" by simp
  obtain v where v: "serve_lookup senv T client = (v, RA_SUCCESS)" "holds_row v ?p"
    using serve_lookup_found [OF assms(3,1)] by blast
  have "serve_client senv T client = serve_send senv T client (v, RA_SUCCESS)" by (simp only: serve_client_halves v(1))
  with serve_send_found [OF assms(4) v(2) size assms(5) insert_request_row [OF row assms(6,7)]]
    insert_request_row [OF row assms(6,7), of senv] p
  show ?thesis by metis
qed

text \<open>C6: Nonces are replenished. When a client with fewer than ten unused nonces is served, no request
  is sent; the thread launches the extractor with a command line on which that process, finding the
  files of the attestator in its directory and all its calls succeeding, stores a hundred rows for the
  very attestator that ran out, changes nothing else and exits with code 0. Whenever the client is served after that process
  has ended, whatever the extractors, the listener and the verifiers did in between, the request is
  inserted for a nonce of the attestator that no request has used (a new one or one of the few left),
  and the library takes the message with it, provided that the database, the allocations and the
  websocket work then and the client's session exists.\<close>

theorem nonces_replenished:
  assumes "prime_test_exact is_prime" and "mod_mul_exact mm" and "decode \<in> built_versions is_prime"
    and "files_in_place L (cl_AID client) (RA_CLI_get_attestator_number client) es"
    and "select_attestators T (hex_string (cl_AID client)) (RA_CLI_get_attestator_number client) = (app, att) # others"
    and "att_id att = RA_CLI_get_attestator_id client"
    and "takes_rows T (att_id att) 32 100" and "nonces_fit T"
    and "\<forall>j. attempt_ok decode 32 (env j) \<and> xe_insert_ok (env j)"
    and "length (select_unused T (att_id att)) < 10"
    and "sv_link senv = link_up" and "sv_malloc senv" and "sv_fork senv"
    and "unat (RA_CLI_get_attestator_number client) < MAX_ATTESTATORS_ALLOWED"
  shows "\<exists>path argv T'.
     serve_client senv T client = Inr (T, [], [(path, argv)], False)
     \<and> path = extractor_path (hex_string (cl_AID client)) (RA_CLI_get_attestator_number client)
     \<and> extractor_main mm L env argv T = Inr (T', 0) \<and> only_adds (att_id att) T T'
     \<and> length (select_unused T' (att_id att)) = length (select_unused T (att_id att)) + 100
     \<and> (\<forall>U senv'. db_step\<^sup>*\<^sup>* T' U \<and> length (select_unused U (att_id att)) < 2 ^ 32
           \<and> lookup_up senv' \<and> send_up (sv_send senv')
           \<and> RA_CLI_get_session_id client \<in> set (map ses_id (sessions U)) \<and> next_request U < 2 ^ 64
         \<longrightarrow> (\<exists>p U'. p \<in> set (select_unused U (att_id att))
              \<and> insert_request U (se_now (sv_send senv')) (pd_id p) (RA_CLI_get_session_id client) 1800 False = Some U'
              \<and> serve_client senv' U client = Inr (U', [(RA_CLI_get_attestator_number client, hex_string (cl_AID client),
                    request_message (of_nat (next_request U)) (pd_nonce p))], [], True)))"
proof -
  let ?argv = "[EXTRACTOR_COMMAND, hex_string (cl_AID client), show_padded_signed (RA_CLI_get_attestator_number client),
     DEFAULT_NONCE_LENGTH, DEFAULT_NONCE_TOTAL]"
  obtain T' where T': "extractor_main mm L env ?argv T = Inr (T', 0)" "db_ok T'" "only_adds (att_id att) T T'"
    "length (select_unused T' (att_id att)) = length (select_unused T (att_id att)) + 100"
    using launched_runs [OF assms(1-5,7,9) refl] by blast
  have first: "serve_client senv T client = Inr (T, [],
      [(extractor_path (hex_string (cl_AID client)) (RA_CLI_get_attestator_number client), ?argv)], False)"
    using few_nonces_launch [of T client senv] assms(6,10-13) by (simp add: launch_extractor_def)
  have fit: "nonces_fit T'" using T'(3) assms(8) by (auto simp: nonces_fit_def only_adds_def)
  have later: "\<exists>p U'. p \<in> set (select_unused U (att_id att))
      \<and> insert_request U (se_now (sv_send senv')) (pd_id p) (RA_CLI_get_session_id client) 1800 False = Some U'
      \<and> serve_client senv' U client = Inr (U', [(RA_CLI_get_attestator_number client, hex_string (cl_AID client),
            request_message (of_nat (next_request U)) (pd_nonce p))], [], True)"
    if U: "db_step\<^sup>*\<^sup>* T' U" "length (select_unused U (att_id att)) < 2 ^ 32" "lookup_up senv'" "send_up (sv_send senv')"
      "RA_CLI_get_session_id client \<in> set (map ses_id (sessions U))" "next_request U < 2 ^ 64" for U senv'
  proof -
    have "enough_nonces U (att_id att)"
      using db_steps_more_unused [OF T'(2) U(1), of "att_id att"] T'(4) U(2) by (simp add: enough_nonces_def)
    then show ?thesis
      using many_nonces_request [OF _ db_steps_nonces_fit [OF U(1) fit] U(3,4) assms(14) U(5,6)] assms(6) by simp
  qed
  show ?thesis using first T'(1,3,4) later by blast
qed

theorem nonces_replenished_witness:
  "\<exists>path argv T' p U.
     serve_client sample_serve (sample_tables [1, 2] [3]) installed_client
       = Inr (sample_tables [1, 2] [3], [], [(path, argv)], False)
     \<and> extractor_main exact_mod_mul installed_load (\<lambda>_. installed_attempt) argv (sample_tables [1, 2] [3]) = Inr (T', 0)
     \<and> length (select_unused T' 3) = 101 \<and> p \<in> set (select_unused T' 3)
     \<and> serve_client sample_serve T' installed_client
         = Inr (U, [(0, hex_string sample_AID, request_message (of_nat (next_request T')) (pd_nonce p))], [], True)"
proof -
  let ?T = "sample_tables [1, 2] [3]"
  have files: "files_in_place installed_load (cl_AID installed_client) (RA_CLI_get_attestator_number installed_client) sample_entries"
    using installed_files by simp
  have att: "select_attestators ?T (hex_string (cl_AID installed_client))
      (RA_CLI_get_attestator_number installed_client)
      = (\<lparr>app_row_id = 77, app_row_AID = hex_string sample_AID\<rparr>,
        \<lparr>att_id = 3, att_application = 77, att_number = 0, att_sleep_avg = 10, att_sleep_var = 1\<rparr>) # []"
    using installed_attestator by simp
  have unused: "length (select_unused ?T 3) = 1" by (simp add: select_unused_def sample_tables_def)
  have fit: "nonces_fit ?T" by (simp add: nonces_fit_def sample_tables_def)
  have attempts: "\<forall>j :: nat. attempt_ok (decode_nonce_1 exact_test True True) 32 installed_attempt \<and> xe_insert_ok installed_attempt"
    by (simp add: attempt_ok_def installed_attempt_def sample_attempt_def)
  obtain path argv T' where run: "serve_client sample_serve ?T installed_client = Inr (?T, [], [(path, argv)], False)"
      "extractor_main exact_mod_mul installed_load (\<lambda>_. installed_attempt) argv ?T = Inr (T', 0)"
      "length (select_unused T' 3) = 101"
    and adds: "only_adds 3 ?T T'"
    and later: "\<forall>U senv'. db_step\<^sup>*\<^sup>* T' U \<and> length (select_unused U 3) < 2 ^ 32
         \<and> lookup_up senv' \<and> send_up (sv_send senv') \<and> 1 \<in> set (map ses_id (sessions U)) \<and> next_request U < 2 ^ 64
       \<longrightarrow> (\<exists>p U'. p \<in> set (select_unused U 3)
            \<and> insert_request U (se_now (sv_send senv')) (pd_id p) 1 1800 False = Some U'
            \<and> serve_client senv' U installed_client
                = Inr (U', [(0, hex_string sample_AID, request_message (of_nat (next_request U)) (pd_nonce p))], [], True))"
    using nonces_replenished [OF exact_test_exact exact_mod_mul_exact sample_built files att _ _ fit attempts,
        of sample_serve] installed_rows unused
    by (simp add: sample_serve_def MAX_ATTESTATORS_ALLOWED_def) blast
  have "1 \<in> set (map ses_id (sessions T'))" "next_request T' < 2 ^ 64"
    using adds by (auto simp: only_adds_def) (auto simp: sample_tables_def)
  with later run(3) obtain p U where "p \<in> set (select_unused T' 3)"
    "serve_client sample_serve T' installed_client
        = Inr (U, [(0, hex_string sample_AID, request_message (of_nat (next_request T')) (pd_nonce p))], [], True)"
    using sample_serve_up(1,2) by fastforce
  with run show ?thesis by blast
qed

end
