(* ===== verification/Blake2_Helpers.thy ===== *)
theory Blake2_Helpers
  imports Blake2s
begin

text \<open>
  The functions of \<^verbatim>\<open>headers/external/blake2-impl.h\<close> that BLAKE2s does not call: 64-bit and 48-bit
  loads and stores and the other rotations, in the branch for machines of any byte order. A rotation
  by 0 or by the whole width shifts by the width, which C leaves undefined.
\<close>

section \<open>Operations\<close>

definition load64 :: "u8 list \<Rightarrow> u64" where
  "load64 p = ucast (p ! 0) OR push_bit 8 (ucast (p ! 1)) OR push_bit 16 (ucast (p ! 2))
     OR push_bit 24 (ucast (p ! 3)) OR push_bit 32 (ucast (p ! 4)) OR push_bit 40 (ucast (p ! 5))
     OR push_bit 48 (ucast (p ! 6)) OR push_bit 56 (ucast (p ! 7))"

definition store64 :: "u64 \<Rightarrow> u8 list" where
  "store64 w = (let w1 = drop_bit 8 w; w2 = drop_bit 8 w1; w3 = drop_bit 8 w2; w4 = drop_bit 8 w3;
       w5 = drop_bit 8 w4; w6 = drop_bit 8 w5; w7 = drop_bit 8 w6
     in [ucast w, ucast w1, ucast w2, ucast w3, ucast w4, ucast w5, ucast w6, ucast w7])"

definition load48 :: "u8 list \<Rightarrow> u64" where
  "load48 p = ucast (p ! 0) OR push_bit 8 (ucast (p ! 1)) OR push_bit 16 (ucast (p ! 2))
     OR push_bit 24 (ucast (p ! 3)) OR push_bit 32 (ucast (p ! 4)) OR push_bit 40 (ucast (p ! 5))"

definition rotl32 :: "u32 \<Rightarrow> nat \<Rightarrow> u32" where
  "rotl32 w c = push_bit c w OR drop_bit (32 - c) w"

definition rotl64 :: "u64 \<Rightarrow> nat \<Rightarrow> u64" where
  "rotl64 w c = push_bit c w OR drop_bit (64 - c) w"

definition rotr64 :: "u64 \<Rightarrow> nat \<Rightarrow> u64" where
  "rotr64 w c = drop_bit c w OR push_bit (64 - c) w"

section \<open>Little-endian storage\<close>

lemma stores:
  "store32 w = le_bytes 4 w" "store48 v = le_bytes 6 v" "store64 v = le_bytes 8 v"
  by (simp_all add: store32_def store48_def store64_def Let_def numeral_eq_Suc)

lemma take_nths: "n \<le> length p \<Longrightarrow> take n p = map ((!) p) [0..<n]"
  by (rule nth_equalityI) simp_all

lemma upto_bytes: "[0..<8] = [0, 1, 2, 3, 4, 5, 6, 7 :: nat]" "[0..<6] = [0, 1, 2, 3, 4, 5 :: nat]"
  by (simp_all add: upt_rec)

lemma load64_le_word: "8 \<le> length p \<Longrightarrow> load64 p = le_word (take 8 p)"
  by (simp add: take_nths upto_bytes load64_def push_bit_or or.assoc)

lemma load48_le_word: "6 \<le> length p \<Longrightarrow> load48 p = le_word (take 6 p)"
  by (simp add: take_nths upto_bytes load48_def push_bit_or or.assoc)

section \<open>Properties\<close>

text \<open>What is stored is read back, of a 48-bit store the low 48 bits; what is read is stored back; and
  a rotation undoes the other one.\<close>

theorem blake2_helpers_roundtrip:
  "load32 (store32 v) = v \<and> load64 (store64 w) = w \<and> load48 (store48 w) = take_bit 48 w"
  by (simp add: stores load32_le_word load64_le_word load48_le_word le_word_le_bytes_take take_bit_word_eq_self)

theorem blake2_helpers_store_loaded:
  assumes "length bs = 8"
  shows "store64 (load64 bs) = bs \<and> store32 (load32 (take 4 bs)) = take 4 bs
     \<and> store48 (load48 bs) = take 6 bs"
  using assms le_bytes_le_word [of bs, where 'a = 64] le_bytes_le_word [of "take 4 bs", where 'a = 32]
    le_bytes_le_word [of "take 6 bs", where 'a = 64]
  by (simp add: stores load32_le_word load64_le_word load48_le_word)

theorem blake2_helpers_store_loaded_witness:
  "store64 (load64 [1, 2, 3, 4, 5, 6, 7, 8]) = [1, 2, 3, 4, 5, 6, 7, 8]
     \<and> store32 (load32 (take 4 [1, 2, 3, 4, 5, 6, 7, 8])) = take 4 [1, 2, 3, 4, 5, 6, 7, 8]
     \<and> store48 (load48 [1, 2, 3, 4, 5, 6, 7, 8]) = take 6 [1, 2, 3, 4, 5, 6, 7, 8]"
  by (rule blake2_helpers_store_loaded) simp

lemma rotations_32: "0 < c \<Longrightarrow> c < 32 \<Longrightarrow> rotl32 (rotr32 w c) c = w \<and> rotr32 (rotl32 w c) c = w"
  by (auto simp: rotl32_def rotr32_def bit_simps intro!: bit_word_eqI dest: bit_imp_le_length)

lemma rotations_64: "0 < c \<Longrightarrow> c < 64 \<Longrightarrow> rotl64 (rotr64 w c) c = w \<and> rotr64 (rotl64 w c) c = w"
  by (auto simp: rotl64_def rotr64_def bit_simps intro!: bit_word_eqI dest: bit_imp_le_length)

end
