(* ===== verification/Blake2s_Evaluation.thy ===== *)
theory Blake2s_Evaluation
  imports Blake2s
begin

text \<open>
  The compression function of RFC 7693 on unbounded integers, with the wrap-around written out, and its
  agreement with the function on words. Numerals of type \<open>int\<close> are reduced at every step, so a concrete
  block is compressed by rewriting; \<open>known_answer\<close> puts the compressions of a message together.
\<close>

abbreviation W :: "int \<Rightarrow> u32" where "W \<equiv> word_of_int"

section \<open>Operations\<close>

definition rot_int :: "int \<Rightarrow> int \<Rightarrow> int \<Rightarrow> int" where
  "rot_int p q w = w div p mod q + w mod p * q"

definition mix_int :: "int \<Rightarrow> int \<Rightarrow> int \<Rightarrow> int \<Rightarrow> int \<Rightarrow> int \<Rightarrow> int \<times> int \<times> int \<times> int" where
  "mix_int a b c d x y =
     (let a = (a + b + x) mod 4294967296; d = rot_int 65536 65536 (d XOR a);
          c = (c + d) mod 4294967296; b = rot_int 4096 1048576 (b XOR c);
          a = (a + b + y) mod 4294967296; d = rot_int 256 16777216 (d XOR a);
          c = (c + d) mod 4294967296; b = rot_int 128 33554432 (b XOR c)
      in (a, b, c, d))"

definition lane_int ::
  "int list \<Rightarrow> nat list \<Rightarrow> nat \<Rightarrow> nat \<Rightarrow> nat \<Rightarrow> nat \<Rightarrow> nat \<Rightarrow> int list \<Rightarrow> int list" where
  "lane_int m s i i1 i2 i3 i4 v =
     (case mix_int (v ! i1) (v ! i2) (v ! i3) (v ! i4) (m ! (s ! (2 * i))) (m ! (s ! (2 * i + 1))) of
        (a, b, c, d) \<Rightarrow> v[i1 := a, i2 := b, i3 := c, i4 := d])"

definition round_int :: "int list \<Rightarrow> int list \<Rightarrow> nat list \<Rightarrow> int list" where
  "round_int m v s =
     lane_int m s 7 3 4 9 14 (lane_int m s 6 2 7 8 13 (lane_int m s 5 1 6 11 12 (lane_int m s 4 0 5 10 15
       (lane_int m s 3 3 7 11 15 (lane_int m s 2 2 6 10 14 (lane_int m s 1 1 5 9 13 (lane_int m s 0 0 4 8 12 v)))))))"

definition start_int :: "int list \<Rightarrow> int \<Rightarrow> bool \<Rightarrow> int list" where
  "start_int h n final =
     h @ [0x6A09E667, 0xBB67AE85, 0x3C6EF372, 0xA54FF53A, 0x510E527F XOR n, 0x9B05688C,
          (if final then 0xFFFFFFFF - 0x1F83D9AB else 0x1F83D9AB), 0x5BE0CD19]"

definition finish_int :: "int list \<Rightarrow> int list \<Rightarrow> int list" where
  "finish_int h v = map (\<lambda>i. h ! i XOR v ! i XOR v ! (i + 8)) [0, 1, 2, 3, 4, 5, 6, 7]"

definition F_int :: "int list \<Rightarrow> int list \<Rightarrow> int \<Rightarrow> bool \<Rightarrow> int list" where
  "F_int h m n final = finish_int h (foldl (round_int m) (start_int h n final) blake2s_sigma)"

section \<open>Agreement with the words\<close>

lemma W_mod: "W (k mod 4294967296) = W k"
proof -
  have "k mod 4294967296 = take_bit 32 k" by (simp add: take_bit_eq_mod)
  moreover have "W (take_bit 32 k) = W k" by (rule bit_word_eqI) (simp add: bit_simps)
  ultimately show ?thesis by simp
qed

lemma W_xor: "W (a XOR b) = W a XOR W b"
  by (rule bit_word_eqI) (simp add: bit_simps)

lemma W_rot:
  assumes "0 < k" and "k < 32"
  shows "W (rot_int (2 ^ k) (2 ^ (32 - k)) w) = word_rotr k (W w)"
proof -
  have "rot_int (2 ^ k) (2 ^ (32 - k)) w = take_bit (32 - k) (drop_bit k w) + push_bit (32 - k) (take_bit k w)"
    by (simp add: rot_int_def take_bit_eq_mod drop_bit_eq_div push_bit_eq_mult)
  also have "\<dots> = take_bit (32 - k) (drop_bit k w) OR push_bit (32 - k) (take_bit k w)"
    by (rule disjunctive_add) (auto simp: bit_simps)
  finally have "W (rot_int (2 ^ k) (2 ^ (32 - k)) w) = rotr32 (W w) k"
    using assms by (auto simp: rotr32_def bit_simps intro!: bit_word_eqI)
  then show ?thesis using rotr32_word_rotr [of k "W w"] assms by simp
qed

lemma W_rots:
  "W (rot_int 65536 65536 w) = word_rotr 16 (W w)" "W (rot_int 4096 1048576 w) = word_rotr 12 (W w)"
  "W (rot_int 256 16777216 w) = word_rotr 8 (W w)" "W (rot_int 128 33554432 w) = word_rotr 7 (W w)"
  using W_rot [of 16 w] W_rot [of 12 w] W_rot [of 8 w] W_rot [of 7 w] by simp_all

definition W4 :: "int \<times> int \<times> int \<times> int \<Rightarrow> u32 \<times> u32 \<times> u32 \<times> u32" where
  "W4 p = (case p of (a, b, c, d) \<Rightarrow> (W a, W b, W c, W d))"

lemma W_mix: "rfc_mix (W a) (W b) (W c) (W d) (W x) (W y) = W4 (mix_int a b c d x y)"
  by (simp add: rfc_mix_def mix_int_def Let_def W4_def W_rots W_xor W_mod)

lemma W_lane:
  assumes "rfc_lanes ! i = (i1, i2, i3, i4)" and "length v = 16" and "i1 < 16" "i2 < 16" "i3 < 16" "i4 < 16"
    and "s ! (2 * i) < length m" and "s ! (2 * i + 1) < length m"
  shows "rfc_lane (map W m) s (map W v) i = map W (lane_int m s i i1 i2 i3 i4 v)"
proof (cases "mix_int (v ! i1) (v ! i2) (v ! i3) (v ! i4) (m ! (s ! (2 * i))) (m ! (s ! (2 * i + 1)))")
  case (fields a b c d)
  then show ?thesis
    using assms by (simp add: rfc_lane_def lane_int_def W_mix W4_def map_update)
qed

lemma length_lane_int [simp]: "length (lane_int m s i i1 i2 i3 i4 v) = length v"
  by (simp add: lane_int_def split_beta)

lemma length_round_int [simp]: "length (round_int m v s) = length v"
  by (simp add: round_int_def)

lemma W_round:
  assumes "length m = 16" and "length v = 16" and "length s = 16" and "set s \<subseteq> {..<16}"
  shows "rfc_round (map W m) (map W v) s = map W (round_int m v s)"
proof -
  have s: "s ! k < length m" if "k < 16" for k
    using assms that nth_mem [of k s] by (metis lessThan_iff subsetD)
  have lanes: "rfc_lanes ! 0 = (0, 4, 8, 12)" "rfc_lanes ! 1 = (1, 5, 9, 13)" "rfc_lanes ! 2 = (2, 6, 10, 14)"
    "rfc_lanes ! 3 = (3, 7, 11, 15)" "rfc_lanes ! 4 = (0, 5, 10, 15)" "rfc_lanes ! 5 = (1, 6, 11, 12)"
    "rfc_lanes ! 6 = (2, 7, 8, 13)" "rfc_lanes ! 7 = (3, 4, 9, 14)"
    by (simp_all add: rfc_lanes_def)
  have "[0..<8] = [0, 1, 2, 3, 4, 5, 6, 7 :: nat]" by (simp add: upt_rec)
  then show ?thesis
    using assms(2) s by (simp add: rfc_round_def round_int_def lanes [THEN W_lane] del: One_nat_def)
qed

lemma sigma_lines: "\<forall>s\<in>set blake2s_sigma. length s = 16 \<and> set s \<subseteq> {..<16}"
  by (simp add: blake2s_sigma_def)

lemma W_rounds:
  assumes "length m = 16" and "length v = 16" and "\<forall>s\<in>set ss. length s = 16 \<and> set s \<subseteq> {..<16}"
  shows "foldl (rfc_round (map W m)) (map W v) ss = map W (foldl (round_int m) v ss)"
  using assms(2,3)
proof (induction ss arbitrary: v)
  case (Cons s ss)
  then show ?case using W_round [OF assms(1), of v s] by simp
qed simp

lemma length_rounds_int: "length (foldl (round_int m) v ss) = length v"
  by (induction ss arbitrary: v) simp_all

lemma W_start:
  assumes "length h = 8" and "n < 2 ^ 32" and "v = map W h @ blake2s_IV"
  shows "map W (start_int h (int n) final) =
     (let v = v[12 := v ! 12 XOR ucast (of_nat n :: u64), 13 := v ! 13 XOR ucast (drop_bit 32 (of_nat n :: u64))]
      in if final then v[14 := NOT (v ! 14)] else v)"
proof -
  have "n < 2 ^ LENGTH(64)" using assms(2) by simp
  then have "unat (of_nat n :: u64) = n" by (simp only: unat_of_nat take_bit_nat_eq_self mod_less)
  then have "unat (drop_bit 32 (of_nat n :: u64)) = 0"
    using assms(2) by (simp only: unat_drop_bit_eq) (simp add: drop_bit_eq_div)
  then have "drop_bit 32 (of_nat n :: u64) = 0" by (simp only: unat_eq_0)
  moreover have "ucast (of_nat n :: u64) = W (int n)"
    by (rule bit_word_eqI) (simp add: bit_simps)
  moreover have "NOT (0x1F83D9AB :: u32) = W (0xFFFFFFFF - 0x1F83D9AB)" by simp
  ultimately show ?thesis
    using assms(1) by (simp add: assms(3) start_int_def blake2s_IV_def Let_def nth_append list_update_append W_xor)
qed

lemma W_F:
  assumes "length h = 8" and "length m = 16" and "n < 2 ^ 32" and "rfc_words block = map W m"
  shows "rfc_F (map W h) block (of_nat n) final = map W (F_int h m (int n) final)"
proof -
  let ?v = "start_int h (int n) final"
  have v: "length ?v = 16" using assms(1) by (simp add: start_int_def)
  have "[0..<8] = [0, 1, 2, 3, 4, 5, 6, 7 :: nat]" by (simp add: upt_rec)
  moreover have "foldl (rfc_round (map W m)) (map W ?v) blake2s_sigma = map W (foldl (round_int m) ?v blake2s_sigma)"
    by (rule W_rounds [OF assms(2) v sigma_lines])
  ultimately show ?thesis
    using v assms(1) length_rounds_int [of m ?v blake2s_sigma]
    by (simp add: rfc_F_def assms(4) W_start [OF assms(1,3) refl, symmetric, unfolded Let_def] Let_def F_int_def
        finish_int_def W_xor)
qed

end
