(* ===== verification/Blake2s_Selftest.thy ===== *)
theory Blake2s_Selftest
  imports Blake2s_Evaluation Blake2s_Known_Answers
begin

text \<open>
  The self test at the end of \<^verbatim>\<open>external/blake2s-ref.c\<close> (compiled with \<^verbatim>\<open>BLAKE2S_SELFTEST\<close>): what its
  result means, and rows of its table that are computed here: one compression, one with a short block
  after the key, and one with a block that is exactly full.
\<close>

section \<open>The program\<close>

definition selftest_key :: "u8 list" where
  "selftest_key = map of_nat [0..<BLAKE2S_KEYBYTES]"

definition selftest_buf :: "u8 list" where
  "selftest_buf = map of_nat [0..<KAT_LENGTH]"

text \<open>The rounds of the last loop, and what \<^verbatim>\<open>main\<close> returns; \<open>hash i\<close> is the uninitialised buffer of a round.\<close>

fun selftest_from :: "(nat \<Rightarrow> u8 list) \<Rightarrow> nat list \<Rightarrow> int run" where
  "selftest_from hash [] = Inr 0"
| "selftest_from hash (i # is) =
     bind_run (blake2s (Some (hash i)) (Some selftest_buf) (Some selftest_key) (of_nat BLAKE2S_OUTBYTES)
                 (of_nat i) (of_nat BLAKE2S_KEYBYTES)) (\<lambda>(out, _).
     bind_run (deref out) (\<lambda>digest.
     bind_run (memcmp digest (blake2s_keyed_kat ! i) BLAKE2S_OUTBYTES) (\<lambda>c.
       if c \<noteq> 0 then Inr (-1) else selftest_from hash is)))"

definition blake2s_selftest :: "(nat \<Rightarrow> u8 list) \<Rightarrow> int run" where
  "blake2s_selftest hash = selftest_from hash [0..<KAT_LENGTH]"

section \<open>What it decides\<close>

definition known_answer :: "nat \<Rightarrow> bool" where
  "known_answer i \<longleftrightarrow> rfc_blake2s 32 selftest_key (take i selftest_buf) = blake2s_keyed_kat ! i"

lemma selftest_bytes [simp]: "length selftest_key = 32" "length selftest_buf = 256"
  by (simp_all add: selftest_key_def selftest_buf_def BLAKE2S_KEYBYTES_def KAT_LENGTH_def)

text \<open>Only the bytes that are hashed are read.\<close>

lemma blake2s_reads_prefix:
  assumes "unat inlen \<le> length bs"
  shows "blake2s out (Some bs) key outlen inlen keylen = blake2s out (Some (take (unat inlen) bs)) key outlen inlen keylen"
proof -
  have "read_at (take (unat inlen) bs) 0 (unat inlen) = read_at bs 0 (unat inlen)"
    using assms by (simp add: read_at_def)
  then show ?thesis by (simp only: blake2s_def option.case)
qed

lemma selftest_round:
  assumes "i < 256" and "length out = 32"
  shows "blake2s (Some out) (Some selftest_buf) (Some selftest_key) 32 (of_nat i) 32
    = Inr (Some (rfc_blake2s 32 selftest_key (take i selftest_buf)), 0)"
proof -
  have "i < 2 ^ LENGTH(64)" using assms(1) by simp
  then have i: "unat (of_nat i :: u64) = i" by (simp only: unat_of_nat take_bit_nat_eq_self mod_less)
  then have "blake2s_args_ok out (take i selftest_buf) (Some selftest_key) 32 (of_nat i) 32"
    using assms by (simp add: blake2s_args_ok_def blake2s_constants)
  from blake2s_rfc [OF this] blake2s_reads_prefix [of "of_nat i" selftest_buf] i assms show ?thesis
    by (simp add: key_bytes_def)
qed

lemma selftest_from_judges:
  assumes "\<forall>i. length (hash i) = 32" and "set is \<subseteq> {..<KAT_LENGTH}"
  shows "selftest_from hash is = Inr (if \<forall>i\<in>set is. known_answer i then 0 else -1)"
  using assms(2)
proof (induction "is")
  case (Cons i "is")
  then have i: "i < 256" "length (blake2s_keyed_kat ! i) = 32"
    by (auto simp: KAT_LENGTH_def keyed_kat_row)
  let ?d = "rfc_blake2s 32 selftest_key (take i selftest_buf)"
  have "memcmp ?d (blake2s_keyed_kat ! i) 32 = Inr (memcmp_bytes ?d (blake2s_keyed_kat ! i))"
    using i(2) by (simp add: memcmp_def)
  moreover have "memcmp_bytes ?d (blake2s_keyed_kat ! i) = 0 \<longleftrightarrow> known_answer i"
    using memcmp_bytes_eq_0 [of ?d "blake2s_keyed_kat ! i"] i(2) by (simp add: known_answer_def)
  ultimately show ?case
    using Cons selftest_round [OF i(1)] assms(1) by (simp add: blake2s_constants)
qed simp

section \<open>Computed rows\<close>

lemmas compress_int = start_int_def finish_int_def blake2s_sigma_def round_int_def lane_int_def mix_int_def
  rot_int_def Let_def

lemma F_int_halves:
  assumes "foldl (round_int m) (start_int h n final) (take 5 blake2s_sigma) = w"
    and "finish_int h (foldl (round_int m) w (drop 5 blake2s_sigma)) = r"
  shows "F_int h m n final = r"
  unfolding F_int_def using assms foldl_append [of "round_int m" "start_int h n final" "take 5 blake2s_sigma" "drop 5 blake2s_sigma"]
  by simp

text \<open>States and blocks on the way to the digests, as words.\<close>

definition init_state :: "int list" where
  "init_state = [0x6B08C647, 0xBB67AE85, 0x3C6EF372, 0xA54FF53A, 0x510E527F, 0x9B05688C, 0x1F83D9AB, 0x5BE0CD19]"

definition key_words :: "int list" where
  "key_words = [0x03020100, 0x07060504, 0x0B0A0908, 0x0F0E0D0C, 0x13121110, 0x17161514, 0x1B1A1918, 0x1F1E1D1C, 0, 0, 0, 0, 0, 0, 0, 0]"

definition byte_words :: "int list" where
  "byte_words = [0, 0, 0, 0, 0, 0, 0, 0, 0, 0, 0, 0, 0, 0, 0, 0]"

definition block_words :: "int list" where
  "block_words = [0x03020100, 0x07060504, 0x0B0A0908, 0x0F0E0D0C, 0x13121110, 0x17161514, 0x1B1A1918, 0x1F1E1D1C, 0x23222120, 0x27262524, 0x2B2A2928, 0x2F2E2D2C, 0x33323130, 0x37363534, 0x3B3A3938, 0x3F3E3D3C]"

definition key_state :: "int list" where
  "key_state = [0xE065E50D, 0x01A7D670, 0xC933BBA4, 0x866AA41E, 0x18AB3E05, 0x26EDC492, 0x04C59A4F, 0x95DD5A91]"

definition digest_0 :: "int list" where
  "digest_0 = [0x7D99A848, 0x6B8707A4, 0xD9C0793D, 0x3BAD2523, 0x54B7CB89, 0x1AB76AD8, 0xD37A04EE, 0x492CFD45]"

definition digest_1 :: "int list" where
  "digest_1 = [0xEE5FD140, 0x3088327C, 0xF9C36A16, 0x800F6518, 0xE1017E7E, 0xDC8C2577, 0x1FB1390A, 0xF1668059]"

definition digest_64 :: "int list" where
  "digest_64 = [0x57B07589, 0x6655D37F, 0x62B350D7, 0x267A89B0, 0x6D1399C3, 0xABAB7BF0, 0x3F20E6BD, 0xD44E95F2]"

definition half_digest_0 :: "int list" where
  "half_digest_0 = [0x3FC36DA3, 0xD3BE466B, 0xEE33A1F6, 0xF7A65AFD, 0x32A5C08E, 0x2AA4193D, 0x481C31BD, 0x9E03E4B6, 0x29EFF766, 0x4EE3D409, 0x7D4C344D, 0xAFE8F0C9, 0x3A9591F0, 0x4C6E351D, 0xF7209FC6, 0x56578054]"

lemma compress_key_only_first: "foldl (round_int key_words) (start_int init_state 64 True) (take 5 blake2s_sigma) = half_digest_0"
  by (simp add: init_state_def key_words_def half_digest_0_def compress_int cong: let_weak_cong prod.case_cong_weak)

lemma compress_key_only_last: "finish_int init_state (foldl (round_int key_words) half_digest_0 (drop 5 blake2s_sigma)) = digest_0"
  by (simp add: init_state_def key_words_def half_digest_0_def digest_0_def compress_int cong: let_weak_cong prod.case_cong_weak)

lemmas compress_key_only = F_int_halves [OF compress_key_only_first compress_key_only_last]

definition half_key_state :: "int list" where
  "half_key_state = [0x45C41702, 0x66D93E3B, 0xD3CABB74, 0xC4D3F93E, 0x957FDB41, 0xCF4516EA, 0x71DAAFE1, 0x6548330A, 0xBBF8F8B3, 0xB7AAA3DD, 0x5EBAF642, 0xAC19CF84, 0x09391A86, 0x71FFE4A6, 0xA230A162, 0xC9059225]"

lemma compress_key_first: "foldl (round_int key_words) (start_int init_state 64 False) (take 5 blake2s_sigma) = half_key_state"
  by (simp add: init_state_def key_words_def half_key_state_def compress_int cong: let_weak_cong prod.case_cong_weak)

lemma compress_key_last: "finish_int init_state (foldl (round_int key_words) half_key_state (drop 5 blake2s_sigma)) = key_state"
  by (simp add: init_state_def key_words_def half_key_state_def key_state_def compress_int cong: let_weak_cong prod.case_cong_weak)

lemmas compress_key = F_int_halves [OF compress_key_first compress_key_last]

definition half_digest_1 :: "int list" where
  "half_digest_1 = [0x01A5BD5B, 0x7CED26CF, 0xB5CA8826, 0x4651D461, 0x488C7DDB, 0xB6A0C5EE, 0xCEE2F228, 0x4AA5735D, 0x10033070, 0xE084F0D4, 0xB0A6C89F, 0x9AC13034, 0x693855A9, 0x207698F0, 0x34DF9872, 0xB05F101E]"

lemma compress_one_byte_first: "foldl (round_int byte_words) (start_int key_state 65 True) (take 5 blake2s_sigma) = half_digest_1"
  by (simp add: key_state_def byte_words_def half_digest_1_def compress_int cong: let_weak_cong prod.case_cong_weak)

lemma compress_one_byte_last: "finish_int key_state (foldl (round_int byte_words) half_digest_1 (drop 5 blake2s_sigma)) = digest_1"
  by (simp add: key_state_def byte_words_def half_digest_1_def digest_1_def compress_int cong: let_weak_cong prod.case_cong_weak)

lemmas compress_one_byte = F_int_halves [OF compress_one_byte_first compress_one_byte_last]

definition half_digest_64 :: "int list" where
  "half_digest_64 = [0x50D14D72, 0x49504A9B, 0xDE7209E9, 0x97C0F1C4, 0x9B759BE3, 0x4F20E561, 0xD69FB1F3, 0x60B65020, 0x32A43E54, 0x22C7DC5D, 0xD14D9BD0, 0x9465D0D5, 0x9DE92AE8, 0x674EF1A7, 0xDA10F2C1, 0x3047D847]"

lemma compress_full_block_first: "foldl (round_int block_words) (start_int key_state 128 True) (take 5 blake2s_sigma) = half_digest_64"
  by (simp add: key_state_def block_words_def half_digest_64_def compress_int cong: let_weak_cong prod.case_cong_weak)

lemma compress_full_block_last: "finish_int key_state (foldl (round_int block_words) half_digest_64 (drop 5 blake2s_sigma)) = digest_64"
  by (simp add: key_state_def block_words_def half_digest_64_def digest_64_def compress_int cong: let_weak_cong prod.case_cong_weak)

lemmas compress_full_block = F_int_halves [OF compress_full_block_first compress_full_block_last]

lemma rfc_h0_int: "rfc_h0 32 32 = map W init_state"
  by (simp add: rfc_h0_def blake2s_IV_def init_state_def)

lemma replicate_numeral: "replicate (numeral k) x = x # replicate (pred_numeral k) x"
  by (simp add: numeral_eq_Suc)

lemma le_bytes_numeral: "le_bytes (numeral k) w = ucast w # le_bytes (pred_numeral k) (drop_bit 8 w)"
  by (simp add: numeral_eq_Suc)

lemma words_of_bytes: "[0..<16] = [0, 1, 2, 3, 4, 5, 6, 7, 8, 9, 10, 11, 12, 13, 14, 15 :: nat]"
  by (simp add: upt_rec)

lemma selftest_key_bytes:
  "selftest_key = [0, 1, 2, 3, 4, 5, 6, 7, 8, 9, 10, 11, 12, 13, 14, 15,
     16, 17, 18, 19, 20, 21, 22, 23, 24, 25, 26, 27, 28, 29, 30, 31]"
  by (simp add: selftest_key_def BLAKE2S_KEYBYTES_def upt_rec)

lemma words_key: "rfc_words (pad_to 64 selftest_key) = map W key_words"
  by (simp add: rfc_words_def pad_to_def selftest_key_bytes words_of_bytes replicate_numeral key_words_def)

lemma words_one_byte: "rfc_words (pad_to 64 (take 1 selftest_buf)) = map W byte_words"
proof -
  have "take 1 selftest_buf = [0]" by (simp add: selftest_buf_def KAT_LENGTH_def take_map take_upt)
  then show ?thesis by (simp add: rfc_words_def pad_to_def words_of_bytes replicate_numeral byte_words_def)
qed

lemma words_full_block: "rfc_words (pad_to 64 (take 64 selftest_buf)) = map W block_words"
proof -
  have "take 64 selftest_buf = map of_nat [0..<64]" by (simp add: selftest_buf_def KAT_LENGTH_def take_map take_upt)
  also have "\<dots> = [0, 1, 2, 3, 4, 5, 6, 7, 8, 9, 10, 11, 12, 13, 14, 15, 16, 17, 18, 19, 20, 21, 22, 23, 24, 25, 26, 27,
      28, 29, 30, 31, 32, 33, 34, 35, 36, 37, 38, 39, 40, 41, 42, 43, 44, 45, 46, 47, 48, 49, 50, 51, 52, 53, 54, 55,
      56, 57, 58, 59, 60, 61, 62, 63]"
    by (simp add: upt_rec)
  finally show ?thesis by (simp add: rfc_words_def pad_to_def words_of_bytes replicate_numeral block_words_def)
qed

lemma state_sizes [simp]:
  "length init_state = 8" "length key_state = 8" "length key_words = 16" "length byte_words = 16" "length block_words = 16"
  by (simp_all add: init_state_def key_state_def key_words_def byte_words_def block_words_def)

text \<open>The key fills the first block; the message is the rest of the chain.\<close>

lemma chain_last: "length b \<le> 64 \<Longrightarrow> rfc_chain h n b = rfc_F h (pad_to 64 b) (n + of_nat (length b)) True"
  by (subst rfc_chain.simps) simp

lemma chain_next:
  "length b = 64 \<Longrightarrow> msg \<noteq> [] \<Longrightarrow> rfc_chain h n (b @ msg) = rfc_chain (rfc_F h b (n + 64) False) (n + 64) msg"
  by (subst rfc_chain.simps) (cases msg, simp_all)

lemma length_padded [simp]: "length (pad_to 64 selftest_key) = 64"
  by (simp add: pad_to_def)

lemma pad_padded [simp]: "pad_to 64 (pad_to 64 selftest_key) = pad_to 64 selftest_key"
  by (simp add: pad_to_def)

lemma key_chain:
  "rfc_blake2s 32 selftest_key msg
    = take 32 (concat (map (le_bytes 4) (rfc_chain (map W init_state) 0 (pad_to 64 selftest_key @ msg))))"
proof -
  have "selftest_key \<noteq> []" by (simp add: selftest_key_bytes)
  then show ?thesis by (simp add: rfc_blake2s_def rfc_h0_int)
qed

lemma key_block: "rfc_F (map W init_state) (pad_to 64 selftest_key) 64 False = map W key_state"
  using W_F [OF _ _ _ words_key, of init_state 64 False] compress_key by simp

lemma after_key:
  assumes "msg \<noteq> []" and "length msg \<le> 64" and "rfc_words (pad_to 64 msg) = map W m" and "length m = 16"
    and "F_int key_state m (int (64 + length msg)) True = d"
  shows "rfc_blake2s 32 selftest_key msg = take 32 (concat (map (le_bytes 4) (map W d)))"
  using W_F [OF _ assms(4) _ assms(3), of key_state "64 + length msg" True] assms
  by (simp add: key_chain chain_next chain_last key_block)

lemma answer_0: "rfc_blake2s 32 selftest_key [] = take 32 (concat (map (le_bytes 4) (map W digest_0)))"
  using W_F [OF _ _ _ words_key, of init_state 64 True] compress_key_only by (simp add: key_chain chain_last)

lemma answer_1: "rfc_blake2s 32 selftest_key (take 1 selftest_buf) = take 32 (concat (map (le_bytes 4) (map W digest_1)))"
  by (rule after_key [OF _ _ words_one_byte]) (use compress_one_byte in \<open>auto simp flip: length_0_conv\<close>)

lemma answer_64: "rfc_blake2s 32 selftest_key (take 64 selftest_buf) = take 32 (concat (map (le_bytes 4) (map W digest_64)))"
  by (rule after_key [OF _ _ words_full_block]) (use compress_full_block in \<open>auto simp flip: length_0_conv\<close>)

lemma kat_rows:
  "blake2s_keyed_kat ! 0 = take 32 (concat (map (le_bytes 4) (map W digest_0)))"
  "blake2s_keyed_kat ! 1 = take 32 (concat (map (le_bytes 4) (map W digest_1)))"
  by (simp_all add: blake2s_keyed_kat_def blake2s_keyed_kat_0_def digest_0_def digest_1_def le_bytes_numeral)

lemma kat_row_64: "blake2s_keyed_kat ! 64 = take 32 (concat (map (le_bytes 4) (map W digest_64)))"
proof -
  have "blake2s_keyed_kat ! 64 = blake2s_keyed_kat_2 ! 14"
    by (simp add: blake2s_keyed_kat_def nth_append keyed_kat_rows)
  then show ?thesis by (simp add: blake2s_keyed_kat_2_def digest_64_def le_bytes_numeral)
qed

section \<open>Properties\<close>

lemma computed_answers: "known_answer 0" "known_answer 1" "known_answer 64"
  unfolding known_answer_def by (simp_all add: answer_0 answer_1 answer_64 kat_rows kat_row_64 del: One_nat_def)

text \<open>The digests the repository expects, from the model of the code: of the key alone, of a message of
  one byte and of a message that fills its block.\<close>

theorem blake2s_known_answers:
  "blake2s (Some (replicate 32 0)) (Some selftest_buf) (Some selftest_key) 32 0 32 = Inr (Some (blake2s_keyed_kat ! 0), 0)
   \<and> blake2s (Some (replicate 32 0)) (Some selftest_buf) (Some selftest_key) 32 1 32 = Inr (Some (blake2s_keyed_kat ! 1), 0)
   \<and> blake2s (Some (replicate 32 0)) (Some selftest_buf) (Some selftest_key) 32 64 32 = Inr (Some (blake2s_keyed_kat ! 64), 0)"
  using selftest_round [of 0 "replicate 32 0"] selftest_round [of 1 "replicate 32 0"]
    selftest_round [of 64 "replicate 32 0"] computed_answers
  by (simp add: known_answer_def del: One_nat_def)

text \<open>C40: The self test always ends, reads nothing uninitialised, and returns 0 exactly when every row of
  the table is the digest of RFC 7693 for its key and message, and -1 otherwise; the rows for the key
  alone, for one byte and for a full block are, by computation.\<close>

theorem blake2s_selftest_decides:
  assumes "\<forall>i. length (hash i) = 32"
  shows "blake2s_selftest hash = Inr (if \<forall>i\<in>{..<KAT_LENGTH}. known_answer i then 0 else -1)
     \<and> selftest_from hash [0, 1, 64] = Inr 0"
  using selftest_from_judges [OF assms, of "[0..<KAT_LENGTH]"] selftest_from_judges [OF assms, of "[0, 1, 64]"]
    computed_answers
  by (simp add: blake2s_selftest_def atLeast0LessThan KAT_LENGTH_def del: selftest_from.simps One_nat_def)

theorem blake2s_selftest_decides_witness:
  "blake2s_selftest (\<lambda>i. replicate 32 (of_nat i))
    = Inr (if \<forall>i\<in>{..<KAT_LENGTH}. known_answer i then 0 else -1)
   \<and> selftest_from (\<lambda>i. replicate 32 (of_nat i)) [0, 1, 64] = Inr 0"
  by (rule blake2s_selftest_decides) simp

end
