(* ===== verification/Spec2Isabelle.thy ===== *)
theory Spec2Isabelle
  imports RA_Prelude RA_Bytes RA_Client Generic_List Scheduler_Queue C_Stdio Verifiers_List
    Linked_List RA_Memory Prime_Search RA_Data_Table Nonce_Interpretation Data_Preparation Do_Hash Blake2s
    Attestator Verifier Verifier_Forwarder Protocol Database Manager_Requests Nonce_Use Manager_Threads Manager_Main
    Extractor Exchange
    Goldbach_Table Goldbach Attestator_Lifecycle Blocks
    RA_Defines Replenish Blake2_Helpers Blake2s_Known_Answers Blake2s_Evaluation Blake2s_Selftest
begin

text \<open>
  The remote attestation of the ASPIRE framework (\<^verbatim>\<open>src/\<close>, the C code under \<^verbatim>\<open>src/src/\<close>): a server asks
  protected applications to prove that the code in their memory is the code that was shipped.

  Parts of the program and how they interact. The extractor process (\<^verbatim>\<open>server-components/extractor.c\<close>) draws
  random nonces; a nonce selects an area of the code, a window in it and a walk through the window. The bytes
  that the walk reads from the original binary are the prepared data, which it stores with the nonce in a MySQL
  database. The manager process (\<^verbatim>\<open>server-components/manager.c\<close>) accepts the connections of applications,
  assigns each to one of its threads, and has the threads send requests, each with an unused nonce, at random
  times. The attestator (\<^verbatim>\<open>client-parametric-files/uncond/attestator.c\<close>), linked into the application, walks
  through the code in memory, hashes nonce, bytes and identity, and answers with the digest. For every answer
  the portal starts a forwarder (\<^verbatim>\<open>server-components/verifier_forwarder.c\<close>), which pipes it to a verifier
  (\<^verbatim>\<open>server-components/verifier.c\<close>); that recomputes the digest from the database and records a verdict.
  Application and server are built from the same interchangeable blocks under
  \<^verbatim>\<open>client-parametric-files/cond/\<close>: four ways to read a nonce, two to prepare data, five digests.

  Theories, from the bottom up; definitions bear the names of the C functions.
  \<^item> \<^theory_text>\<open>RA_Prelude\<close>: machine integers as words, faults (\<open>fault\<close>, \<open>'a run\<close>), the result codes of
    \<^verbatim>\<open>headers/ra_results.h\<close>, lemma collections. \<^theory_text>\<open>RA_Bytes\<close>: little-endian storage, bounded reads and writes,
    \<^verbatim>\<open>memcmp\<close>, hexadecimal text. \<^theory_text>\<open>C_Stdio\<close>: decimal printing and \<^verbatim>\<open>fscanf\<close>.
  \<^item> \<^theory_text>\<open>RA_Defines\<close> (\<^verbatim>\<open>headers/ra_defines.h\<close>): paths, commands, defaults and the sizes of message fields.
  \<^item> \<^theory_text>\<open>RA_Client\<close> (\<^verbatim>\<open>ra-additionals/ra_client.c\<close>), \<^theory_text>\<open>Generic_List\<close> (\<^verbatim>\<open>generic_list.c\<close>), \<^theory_text>\<open>Scheduler_Queue\<close>
    (\<^verbatim>\<open>scheduler_queue.c\<close>), \<^theory_text>\<open>Verifiers_List\<close> (\<^verbatim>\<open>verifiers_list.c\<close>): the containers of the manager. The locale
    \<open>keyed_store\<close> is what a list of clients promises and \<open>timer_queue\<close> what the delta queue does; the queue is
    abstracted to the list of clients with absolute deadlines (\<open>sq_schedule\<close>), and each operation refines the
    operation on that list.
  \<^item> \<^theory_text>\<open>Linked_List\<close>, \<^theory_text>\<open>RA_Memory\<close> (\<^verbatim>\<open>ra_memory.c\<close>), \<^theory_text>\<open>RA_Data_Table\<close> (\<^verbatim>\<open>ra_data_table.c\<close>): the code areas that are
    attested and the table that holds them, with the cells of their doubly linked lists in a heap. The invariants are
    \<open>area_ok\<close> and \<open>table_ok\<close>; an area is abstracted to the concatenation of its blocks (\<open>area_code\<close>), and the binary
    and textual formats are read back. The locales \<open>sequence_store\<close> and \<open>block_reader\<close> are their contracts.
  \<^item> \<^theory_text>\<open>Prime_Search\<close> (\<^verbatim>\<open>generic_functions.c\<close>), \<^theory_text>\<open>Nonce_Interpretation\<close> (\<^verbatim>\<open>ra_nonce_interpretation_1.c\<close> to \<^verbatim>\<open>_4.c\<close>),
    \<^theory_text>\<open>Data_Preparation\<close> (\<^verbatim>\<open>ra_data_preparation.c\<close>): from a nonce to the prepared data. The locales \<open>nonce_decoder\<close>
    and \<open>permuting_decoder\<close>, interpreted on the four versions, state what preparing data needs of them; inside them
    the preparation is proved to be the walk, and a permutation of the window with versions 1 and 4.
  \<^item> \<^theory_text>\<open>Goldbach_Table\<close> (\<^verbatim>\<open>headers/ra_goldback_partitions.h\<close>), \<^theory_text>\<open>Goldbach\<close> (\<^verbatim>\<open>ra_data_preparation_goldbach.c\<close>): the
    second preparation, on two halves of the window; which changes it shows, which it hides (those of the last
    byte of an odd window among them), which sizes it cannot take.
  \<^item> \<^theory_text>\<open>Do_Hash\<close> (\<^verbatim>\<open>ra_do_hash_md5.c\<close>, \<^verbatim>\<open>_sha1.c\<close>, \<^verbatim>\<open>_sha256.c\<close>, \<^verbatim>\<open>_ripemd160.c\<close>), \<^theory_text>\<open>Blake2s\<close> (\<^verbatim>\<open>ra_do_hash_blake2.c\<close> and
    \<^verbatim>\<open>external/blake2s-ref.c\<close>): the digests; the incremental BLAKE2s equals RFC 7693 on whole messages.
    \<^theory_text>\<open>Blake2_Helpers\<close>: the rest of \<^verbatim>\<open>external/blake2-impl.h\<close>. \<^theory_text>\<open>Blake2s_Known_Answers\<close> (\<^verbatim>\<open>external/blake2-kat.h\<close>),
    \<^theory_text>\<open>Blake2s_Evaluation\<close>, \<^theory_text>\<open>Blake2s_Selftest\<close>: the self test and its table, some rows of which are computed; the
    compressions run on integers with the wrap-around written out, which are proved equal to those on words.
  \<^item> \<^theory_text>\<open>Attestator\<close>: the callback of \<^verbatim>\<open>attestator.c\<close>. \<^theory_text>\<open>Attestator_Lifecycle\<close>: its start-up, polling thread and
    shutdown, two threads whose steps interleave (\<open>attestator_step\<close>; \<open>attestator_any_step\<close> adds waits that return
    without a signal).
  \<^item> \<^theory_text>\<open>Verifier\<close>, \<^theory_text>\<open>Verifier_Forwarder\<close>: the processes of the same name, functions from their input.
  \<^item> \<^theory_text>\<open>Database\<close> (\<^verbatim>\<open>ra-additionals/ra_database.c\<close>, \<^verbatim>\<open>headers/ra_database.h\<close>, \<^verbatim>\<open>setup/create_tables\<close>): tables as lists of
    rows, the SQL statements and the trigger as functions on them, the services on top; \<open>db_step\<close> is any
    transaction of a process other than a serving thread and \<open>db_ok\<close> its invariant.
  \<^item> \<^theory_text>\<open>Manager_Requests\<close>, \<^theory_text>\<open>Manager_Threads\<close>, \<^theory_text>\<open>Manager_Main\<close>: the manager, from sending one request, over an iteration
    of a thread and the connection listener, to the whole process from start to shutdown (\<open>process_action\<close>, with the
    answer to whether the allocations of the step succeeded; \<open>process_step\<close>, with any). The calls of
    \<^verbatim>\<open>asclWebSocketShutdown\<close> are recorded and not interpreted.
  \<^item> \<^theory_text>\<open>Nonce_Use\<close>: the threads of the manager on the tables, with the lookup of a nonce and the sending of its request
    as separate steps (\<open>nonce_step\<close>) and the invariant that a nonce in hand is unused (\<open>nonces_reserved\<close>).
  \<^item> \<^theory_text>\<open>Extractor\<close>: the extraction loop and the process around it. \<^theory_text>\<open>Replenish\<close>: a manager that runs out of nonces, the
    extractor it launches, and the requests that follow.
  \<^item> \<^theory_text>\<open>Protocol\<close>, \<^theory_text>\<open>Exchange\<close>, \<^theory_text>\<open>Blocks\<close>: the components together. \<^theory_text>\<open>Protocol\<close> runs a request through attestator, forwarder and
    verifier on an abstract database; \<^theory_text>\<open>Exchange\<close> runs it on the tables, from the stored row over the request sent
    to the verdict recorded. \<^theory_text>\<open>Blocks\<close> states what the exchange needs of a preparation and a hash as the locales
    \<open>preparation_block\<close> and \<open>hash_block\<close>, interprets them on the blocks of the repository, and carries detection and
    blindness of the preparations from the attestator to the verdict.

  What is shown. The protocol is complete (unchanged code is accepted in time) and, up to collisions of the digest,
  sound for the window of the nonce (\<^theory_text>\<open>Protocol\<close>, \<^theory_text>\<open>Exchange\<close>); no two requests ever share a nonce as long as no
  two threads serve the same attestator, and they do when two such threads race (\<^theory_text>\<open>Nonce_Use\<close>); each
  thread has exactly its clients scheduled, along all runs of the process in which its allocations succeed; every service and format does what its
  contract says, errors included. Where the code falls short of what it means to do, the theorem states what it does
  instead: windows that hide changes, verdicts that are overwritten, lost signals and lost clients, freed memory
  that is read, divisions by zero, loops that do not end.

  Conventions. A pointer is an option, a buffer the list of its bytes, a computation that can leave defined
  behaviour an \<open>'a run\<close>, whose left values are the faults. Uninitialised variables and fresh memory are
  arguments, so the theorems hold for whatever they contain. The outcomes of \<^verbatim>\<open>malloc\<close>, of the clock and of
  system calls are arguments too. Words are little-endian, \<^verbatim>\<open>long\<close> and pointers have 64 bits.
  What a thread does under its mutex is one step of the relations.

  Parameters. OpenSSL (\<open>prime_test_exact\<close>, \<open>mod_mul_exact\<close>, \<open>digest_length\<close>, \<^verbatim>\<open>RAND_bytes\<close>), the
  MySQL client (\<open>db_link\<close>), the websocket libraries ACCL and ASCL and the BFD library are not in the repository:
  they are arguments, with their documented behaviour as named hypotheses. Each hypothesis is discharged in a
  witness on concrete functions.

  Fuel and bounds. Recursions follow the data or have a termination proof. \<open>startup_retry\<close>, \<open>prime_loop\<close> and
  \<open>ver_parse_loop\<close> are each a \<^theory_text>\<open>partial_function\<close> since the loop may not end; the first is proved to end once a
  lookup succeeds, the second from every size above 1, the third on the text it is meant for (and to hang on what
  the serializer writes).
  \<open>rollback_loop\<close> counts rounds because its condition never fails: it is proved not to end within any number.
  The loop of \<^verbatim>\<open>gl_destroy\<close> gets one round per cell and one for its exit. Walks along linked lists
  are bounded by the number of cells, which a list without a cycle cannot exceed.

  Not modelled. Printing and logging (\<^verbatim>\<open>ra_print_wrapping.c\<close>, the \<^verbatim>\<open>print_info\<close> functions, log files and time
  measurement), which change no state; the rounding of \<^verbatim>\<open>float\<close> (times are rationals); the annotation
  interpreter (Java, run at build time), the build and deployment scripts; the BLAKE2 variants that \<^verbatim>\<open>blake2.h\<close>
  declares without code in the repository, and the known answers of \<^verbatim>\<open>external/blake2-kat.h\<close> that are theirs or that
  no code reads. Memory that is only leaked is not accounted for.
\<close>

end
